(* ===== verification/JsPrelude.thy ===== *)
theory JsPrelude
  imports Complex_Main "HOL-Library.Sublist"
begin

text \<open>
  The JavaScript values the SkyCommand sources compute with, and the parts of the language and of
  its standard library they use: truthiness, \<open>String(x)\<close>, \<open>Number(x)\<close>, \<open>parseInt(x, 10)\<close>,
  \<open>trim\<close>, upper and lower case, \<open>Math.round\<close>, own-property objects, spreads,
  \<open>JSON.stringify\<close> and the \<open>JSON.parse(JSON.stringify(x))\<close> clone.

  Conventions. An object is its list of own enumerable properties in insertion order, without
  duplicates (integer-like keys are not moved to the front, and nothing is looked up on a prototype).
  A number is an exact rational or one of NaN and the infinities: rounding to binary64 and the
  difference between 0 and -0 are not modelled.  A string is a list of 8-bit characters, so
  \<open>length\<close> counts what JavaScript counts on Latin-1 text; case mapping is ASCII.
  Functions, dates, symbols and bigints are not values of the model.
\<close>

section \<open>Values\<close>

datatype jsnum = Fin rat | NaN | PosInf | NegInf

datatype jsval =
    JUndef
  | JNull
  | JBool bool
  | JNum jsnum
  | JStr string
  | JArr "jsval list"
  | JObj "(string \<times> jsval) list"

text \<open>A computation that may throw: \<open>Inl\<close> is the thrown value.\<close>

type_synonym 'a res = "jsval + 'a"

abbreviation jnum :: "rat \<Rightarrow> jsval" where
  "jnum r \<equiv> JNum (Fin r)"

abbreviation jnat :: "nat \<Rightarrow> jsval" where
  "jnat n \<equiv> JNum (Fin (of_nat n))"

fun is_finite :: "jsnum \<Rightarrow> bool" where
  "is_finite (Fin _) = True"
| "is_finite _ = False"

fun truthy :: "jsval \<Rightarrow> bool" where
  "truthy JUndef = False"
| "truthy JNull = False"
| "truthy (JBool b) = b"
| "truthy (JNum (Fin r)) = (r \<noteq> 0)"
| "truthy (JNum NaN) = False"
| "truthy (JNum _) = True"
| "truthy (JStr s) = (s \<noteq> [])"
| "truthy (JArr _) = True"
| "truthy (JObj _) = True"

fun is_nullish :: "jsval \<Rightarrow> bool" where
  "is_nullish JUndef = True"
| "is_nullish JNull = True"
| "is_nullish _ = False"

text \<open>\<open>a || b\<close>, \<open>a ?? b\<close> and a chain \<open>a || b || ...\<close>.\<close>

definition jor :: "jsval \<Rightarrow> jsval \<Rightarrow> jsval" where
  "jor a b = (if truthy a then a else b)"

definition jnull_or :: "jsval \<Rightarrow> jsval \<Rightarrow> jsval" where
  "jnull_or a b = (if is_nullish a then b else a)"

fun jors :: "jsval list \<Rightarrow> jsval" where
  "jors [] = JUndef"
| "jors [v] = v"
| "jors (v # vs) = (if truthy v then v else jors vs)"

fun is_obj :: "jsval \<Rightarrow> bool" where
  "is_obj (JObj _) = True"
| "is_obj _ = False"

fun is_arr :: "jsval \<Rightarrow> bool" where
  "is_arr (JArr _) = True"
| "is_arr _ = False"

fun is_str :: "jsval \<Rightarrow> bool" where
  "is_str (JStr _) = True"
| "is_str _ = False"

lemma truthy_obj [simp]: "is_obj v \<Longrightarrow> truthy v"
  by (cases v) auto

lemma truthy_not_nullish: "truthy v \<Longrightarrow> \<not> is_nullish v"
  by (cases v) auto

lemma jor_truthy [simp]: "truthy a \<Longrightarrow> jor a b = a"
  by (simp add: jor_def)

lemma jor_falsy [simp]: "\<not> truthy a \<Longrightarrow> jor a b = b"
  by (simp add: jor_def)

lemma truthy_jor [simp]: "truthy (jor a b) = (truthy a \<or> truthy b)"
  by (simp add: jor_def)

section \<open>Own properties\<close>

text \<open>
  The contract of a store that is written key by key: a read after a write.  Objects and the
  executor's map of approval decisions both provide it, and the lemma about a whole sequence of
  writes is proved once here.
\<close>

locale key_store =
  fixes get :: "'m \<Rightarrow> 'k \<Rightarrow> 'v option"
    and put :: "'m \<Rightarrow> 'k \<Rightarrow> 'v \<Rightarrow> 'm"
  assumes get_put_same: "get (put m k v) k = Some v"
    and get_put_other: "k' \<noteq> k \<Longrightarrow> get (put m k v) k' = get m k'"
begin

lemma get_put: "get (put m k v) k' = (if k' = k then Some v else get m k')"
  by (simp add: get_put_same get_put_other)

lemma get_writes:
  "get (foldl (\<lambda>m (k, v). put m k v) m kvs) k
     = (case map_of (rev kvs) k of Some v \<Rightarrow> Some v | None \<Rightarrow> get m k)"
proof (induction kvs arbitrary: m)
  case Nil
  then show ?case by simp
next
  case (Cons p kvs)
  obtain a b where p: "p = (a, b)" by (cases p)
  show ?case
    by (simp add: p Cons.IH map_add_def get_put split: option.splits)
qed

lemma get_writes_untouched:
  "k \<notin> fst ` set kvs \<Longrightarrow> get (foldl (\<lambda>m (k, v). put m k v) m kvs) k = get m k"
  by (simp add: get_writes map_of_eq_None_iff [THEN iffD2] split: option.splits)

end

fun kv_set :: "(string \<times> 'a) list \<Rightarrow> string \<Rightarrow> 'a \<Rightarrow> (string \<times> 'a) list" where
  "kv_set [] k v = [(k, v)]"
| "kv_set ((k', v') # kvs) k v = (if k' = k then (k, v) # kvs else (k', v') # kv_set kvs k v)"

definition kv_spread :: "(string \<times> 'a) list \<Rightarrow> (string \<times> 'a) list \<Rightarrow> (string \<times> 'a) list" where
  "kv_spread base kvs = foldl (\<lambda>m (k, v). kv_set m k v) base kvs"

lemma map_of_kv_set [simp]: "map_of (kv_set kvs k v) k' = (if k' = k then Some v else map_of kvs k')"
  by (induction kvs k v rule: kv_set.induct) auto

interpretation own: key_store map_of kv_set
  by unfold_locales auto

lemma map_of_kv_spread:
  "map_of (kv_spread base kvs) k
     = (case map_of (rev kvs) k of Some v \<Rightarrow> Some v | None \<Rightarrow> map_of base k)"
  unfolding kv_spread_def by (rule own.get_writes)

lemma kv_spread_simps [simp]:
  "kv_spread base [] = base"
  "kv_spread base ((k, v) # kvs) = kv_spread (kv_set base k v) kvs"
  by (simp_all add: kv_spread_def)

lemma fst_kv_set: "fst ` set (kv_set kvs k v) = insert k (fst ` set kvs)"
  by (induction kvs k v rule: kv_set.induct) auto

lemma fst_kv_spread: "fst ` set (kv_spread base kvs) = fst ` set base \<union> fst ` set kvs"
proof (induction kvs arbitrary: base)
  case (Cons p kvs)
  then show ?case by (cases p) (simp add: fst_kv_set)
qed simp

lemma distinct_kv_set: "distinct (map fst kvs) \<Longrightarrow> distinct (map fst (kv_set kvs k v))"
proof (induction kvs k v rule: kv_set.induct)
  case (2 k' v' kvs k v)
  have "k' \<noteq> k \<Longrightarrow> k' \<notin> fst ` set kvs \<Longrightarrow> k' \<notin> fst ` set (kv_set kvs k v)"
    by (simp add: fst_kv_set)
  with 2 show ?case by auto
qed simp

lemma distinct_kv_spread: "distinct (map fst base) \<Longrightarrow> distinct (map fst (kv_spread base kvs))"
  by (induction kvs arbitrary: base) (auto simp: distinct_kv_set)

lemma kv_set_new: "k \<notin> fst ` set kvs \<Longrightarrow> kv_set kvs k v = kvs @ [(k, v)]"
  by (induction kvs k v rule: kv_set.induct) auto

section \<open>Strings\<close>

abbreviation code_of :: "char \<Rightarrow> nat" where
  "code_of c \<equiv> of_char c"

definition is_ws :: "char \<Rightarrow> bool" where
  "is_ws c = (code_of c \<in> {9, 10, 11, 12, 13, 32, 160})"

definition is_digit :: "char \<Rightarrow> bool" where
  "is_digit c = (48 \<le> code_of c \<and> code_of c \<le> 57)"

definition is_upper :: "char \<Rightarrow> bool" where
  "is_upper c = (65 \<le> code_of c \<and> code_of c \<le> 90)"

definition is_lower :: "char \<Rightarrow> bool" where
  "is_lower c = (97 \<le> code_of c \<and> code_of c \<le> 122)"

definition is_alnum :: "char \<Rightarrow> bool" where
  "is_alnum c = (is_digit c \<or> is_upper c \<or> is_lower c)"

text \<open>The regular expression class \<open>\w\<close>.\<close>

definition is_word :: "char \<Rightarrow> bool" where
  "is_word c = (is_alnum c \<or> c = CHR ''_'')"

definition upper :: "char \<Rightarrow> char" where
  "upper c = (if is_lower c then char_of (code_of c - 32) else c)"

definition lower :: "char \<Rightarrow> char" where
  "lower c = (if is_upper c then char_of (code_of c + 32) else c)"

definition to_upper :: "string \<Rightarrow> string" where
  "to_upper s = map upper s"

definition to_lower :: "string \<Rightarrow> string" where
  "to_lower s = map lower s"

definition trim_start :: "string \<Rightarrow> string" where
  "trim_start s = dropWhile is_ws s"

definition trim :: "string \<Rightarrow> string" where
  "trim s = rev (dropWhile is_ws (rev (trim_start s)))"

text \<open>\<open>s.replace(/[...]+/g, r)\<close> for a class given by its predicate: each maximal run becomes \<open>r\<close>.\<close>

fun squash :: "(char \<Rightarrow> bool) \<Rightarrow> char \<Rightarrow> bool \<Rightarrow> string \<Rightarrow> string" where
  "squash p r inrun [] = []"
| "squash p r inrun (c # cs) =
     (if p c then (if inrun then squash p r True cs else r # squash p r True cs)
      else c # squash p r False cs)"

text \<open>\<open>s.replace(/^c|c$/g, '')\<close> and \<open>s.replace(/^c+|c+$/g, '')\<close>.\<close>

definition strip_first :: "char \<Rightarrow> string \<Rightarrow> string" where
  "strip_first c s = (case s of [] \<Rightarrow> [] | x # xs \<Rightarrow> if x = c then xs else s)"

definition strip_one :: "char \<Rightarrow> string \<Rightarrow> string" where
  "strip_one c s = rev (strip_first c (rev (strip_first c s)))"

definition strip_all :: "char \<Rightarrow> string \<Rightarrow> string" where
  "strip_all c s = rev (dropWhile (\<lambda>x. x = c) (rev (dropWhile (\<lambda>x. x = c) s)))"

fun split_on :: "char \<Rightarrow> string \<Rightarrow> string list" where
  "split_on d [] = [[]]"
| "split_on d (c # cs) =
     (if c = d then [] # split_on d cs
      else (case split_on d cs of [] \<Rightarrow> [[c]] | w # ws \<Rightarrow> (c # w) # ws))"

fun join :: "string \<Rightarrow> string list \<Rightarrow> string" where
  "join sep [] = []"
| "join sep [w] = w"
| "join sep (w # ws) = w @ sep @ join sep ws"

fun str_includes :: "string \<Rightarrow> string \<Rightarrow> bool" where
  "str_includes [] needle = (needle = [])"
| "str_includes (c # cs) needle = (prefix needle (c # cs) \<or> str_includes cs needle)"

lemma str_includes_iff: "str_includes hay needle = sublist needle hay"
  by (induction hay) (auto simp: sublist_Cons_right)

lemma trim_Nil [simp]: "trim [] = []"
  by (simp add: trim_def trim_start_def)

lemma set_trim: "set (trim s) \<subseteq> set s"
  by (auto simp: trim_def trim_start_def dest!: set_dropWhileD)

lemma length_trim: "length (trim s) \<le> length s"
  using length_dropWhile_le [of is_ws "rev (dropWhile is_ws s)"] length_dropWhile_le [of is_ws s]
  by (simp add: trim_def trim_start_def)

lemma trim_Nil_iff: "trim s = [] \<longleftrightarrow> (\<forall>c \<in> set s. is_ws c)"
proof (cases "dropWhile is_ws s")
  case Nil
  then have "\<forall>c \<in> set s. is_ws c"
    by (metis dropWhile_eq_Nil_conv)
  moreover have "trim s = []"
    by (simp add: trim_def trim_start_def Nil)
  ultimately show ?thesis by simp
next
  case (Cons c cs)
  then have c: "\<not> is_ws c" "c \<in> set s"
    using hd_dropWhile [of is_ws s] set_dropWhileD [of c is_ws s] by auto
  have "trim s \<noteq> []"
    using c(1) Cons by (simp add: trim_def trim_start_def dropWhile_eq_Nil_conv)
  with c show ?thesis by blast
qed

lemma dropWhile_dropWhile [simp]: "dropWhile P (dropWhile P xs) = dropWhile P xs"
  by (induction xs) auto

lemma trim_start_rev_drop: "hd xs = x \<Longrightarrow> xs \<noteq> [] \<Longrightarrow> \<not> P x \<Longrightarrow> dropWhile P (rev (dropWhile P (rev xs))) = rev (dropWhile P (rev xs))"
proof -
  assume x: "hd xs = x" "xs \<noteq> []" "\<not> P x"
  then obtain ys where "xs = x # ys" by (cases xs) auto
  with x(3) have "rev (dropWhile P (rev xs)) = x # rev (dropWhile P (rev ys))"
    by (auto simp: dropWhile_append dropWhile_eq_Nil_conv)
  with x(3) show ?thesis by simp
qed

lemma trim_trim [simp]: "trim (trim s) = trim s"
proof (cases "dropWhile is_ws s")
  case Nil
  then show ?thesis by (simp add: trim_def trim_start_def del: dropWhile_eq_Nil_conv)
next
  case (Cons c cs)
  then have "\<not> is_ws c" using hd_dropWhile [of is_ws s] by simp
  with Cons have "dropWhile is_ws (rev (dropWhile is_ws (rev (dropWhile is_ws s)))) = rev (dropWhile is_ws (rev (dropWhile is_ws s)))"
    by (intro trim_start_rev_drop) auto
  then show ?thesis by (simp add: trim_def trim_start_def)
qed

section \<open>Numbers\<close>

definition digit_char :: "nat \<Rightarrow> char" where
  "digit_char d = char_of (48 + d)"

fun nat_str :: "nat \<Rightarrow> string" where
  "nat_str n = (if n < 10 then [digit_char n] else nat_str (n div 10) @ [digit_char (n mod 10)])"

declare nat_str.simps [simp del]

text \<open>The decimal expansion of a proper fraction, cut after the given number of digits.\<close>

fun frac_str :: "nat \<Rightarrow> int \<Rightarrow> int \<Rightarrow> string" where
  "frac_str 0 p q = []"
| "frac_str (Suc n) p q =
     (if p = 0 then [] else digit_char (nat (10 * p div q)) # frac_str n (10 * p mod q) q)"

definition rat_str :: "rat \<Rightarrow> string" where
  "rat_str r =
     (let (p, q) = quotient_of r; a = \<bar>p\<bar>; ip = nat_str (nat (a div q))
      in (if p < 0 then ''-'' else []) @ ip
         @ (if q = 1 then [] else ''.'' @ frac_str 20 (a mod q) q))"

fun num_str :: "jsnum \<Rightarrow> string" where
  "num_str (Fin r) = rat_str r"
| "num_str NaN = ''NaN''"
| "num_str PosInf = ''Infinity''"
| "num_str NegInf = ''-Infinity''"

definition round_half_up :: "rat \<Rightarrow> int" where
  "round_half_up r = \<lfloor>r + 1 / 2\<rfloor>"

definition digits_val :: "string \<Rightarrow> nat" where
  "digits_val ds = foldl (\<lambda>n c. 10 * n + (code_of c - 48)) 0 ds"

definition hex_digit :: "char \<Rightarrow> nat option" where
  "hex_digit c =
     (if is_digit c then Some (code_of c - 48)
      else if 97 \<le> code_of (lower c) \<and> code_of (lower c) \<le> 102 then Some (code_of (lower c) - 87)
      else None)"

fun radix_val :: "nat \<Rightarrow> nat \<Rightarrow> string \<Rightarrow> nat option" where
  "radix_val b acc [] = Some acc"
| "radix_val b acc (c # cs) =
     (case hex_digit c of
        Some d \<Rightarrow> if d < b then radix_val b (b * acc + d) cs else None
      | None \<Rightarrow> None)"

definition radix_num :: "nat \<Rightarrow> string \<Rightarrow> jsnum" where
  "radix_num b ds =
     (if ds = [] then NaN
      else case radix_val b 0 ds of Some n \<Rightarrow> Fin (of_nat n) | None \<Rightarrow> NaN)"

definition split_sign :: "string \<Rightarrow> bool \<times> string" where
  "split_sign s =
     (case s of [] \<Rightarrow> (False, [])
      | c # cs \<Rightarrow> if c = CHR ''-'' then (True, cs) else if c = CHR ''+'' then (False, cs) else (False, s))"

definition exponent_val :: "string \<Rightarrow> int option" where
  "exponent_val s =
     (case s of [] \<Rightarrow> Some 0
      | c # cs \<Rightarrow>
          if c = CHR ''e'' \<or> c = CHR ''E'' then
            (let (neg, ds) = split_sign cs
             in if ds \<noteq> [] \<and> list_all is_digit ds
                then Some ((if neg then - 1 else 1) * int (digits_val ds)) else None)
          else None)"

definition scale10 :: "rat \<Rightarrow> int \<Rightarrow> rat" where
  "scale10 r e = (if 0 \<le> e then r * 10 ^ nat e else r / 10 ^ nat (- e))"

text \<open>The unsigned decimal literal: digits, an optional fraction, an optional exponent.\<close>

definition decimal_val :: "string \<Rightarrow> rat option" where
  "decimal_val s =
     (let ip = takeWhile is_digit s; r1 = dropWhile is_digit s;
          fp = (case r1 of [] \<Rightarrow> [] | c # cs \<Rightarrow> if c = CHR ''.'' then takeWhile is_digit cs else []);
          r2 = (case r1 of [] \<Rightarrow> [] | c # cs \<Rightarrow> if c = CHR ''.'' then dropWhile is_digit cs else r1)
      in if ip = [] \<and> fp = [] then None
         else case exponent_val r2 of
                None \<Rightarrow> None
              | Some e \<Rightarrow> Some (scale10 (of_nat (digits_val (ip @ fp))) (e - int (length fp))))"

text \<open>\<open>Number(s)\<close> for a string.\<close>

definition str_num :: "string \<Rightarrow> jsnum" where
  "str_num s0 =
     (let s = trim s0; (neg, u) = split_sign s; p = to_lower (take 2 s)
      in if s = [] then Fin 0
         else if p = ''0x'' then radix_num 16 (drop 2 s)
         else if p = ''0o'' then radix_num 8 (drop 2 s)
         else if p = ''0b'' then radix_num 2 (drop 2 s)
         else if u = ''Infinity'' then (if neg then NegInf else PosInf)
         else case decimal_val u of
                None \<Rightarrow> NaN
              | Some r \<Rightarrow> Fin (if neg then - r else r))"

section \<open>Conversions\<close>

definition bool_str :: "bool \<Rightarrow> string" where
  "bool_str b = (if b then ''true'' else ''false'')"

text \<open>\<open>String(v)\<close>; inside an array, null and undefined print as the empty string.\<close>

fun to_str :: "jsval \<Rightarrow> string" where
  "to_str JUndef = ''undefined''"
| "to_str JNull = ''null''"
| "to_str (JBool b) = bool_str b"
| "to_str (JNum n) = num_str n"
| "to_str (JStr s) = s"
| "to_str (JArr vs) = join '','' (map (\<lambda>v. if is_nullish v then [] else to_str v) vs)"
| "to_str (JObj _) = ''[object Object]''"

fun to_num :: "jsval \<Rightarrow> jsnum" where
  "to_num JUndef = NaN"
| "to_num JNull = Fin 0"
| "to_num (JBool b) = Fin (if b then 1 else 0)"
| "to_num (JNum n) = n"
| "to_num (JStr s) = str_num s"
| "to_num (JArr vs) = str_num (to_str (JArr vs))"
| "to_num (JObj _) = NaN"

text \<open>\<open>Number.parseInt(v, 10)\<close>: \<open>None\<close> is NaN.\<close>

definition parse_int :: "jsval \<Rightarrow> int option" where
  "parse_int v =
     (let (neg, u) = split_sign (trim_start (to_str v)); ds = takeWhile is_digit u
      in if ds = [] then None else Some ((if neg then - 1 else 1) * int (digits_val ds)))"

text \<open>\<open>Number.isFinite(Number(v))\<close> with its value.\<close>

definition finite_num :: "jsval \<Rightarrow> rat option" where
  "finite_num v = (case to_num v of Fin r \<Rightarrow> Some r | _ \<Rightarrow> None)"

definition jtypeof :: "jsval \<Rightarrow> string" where
  "jtypeof v =
     (case v of JUndef \<Rightarrow> ''undefined'' | JBool _ \<Rightarrow> ''boolean'' | JNum _ \<Rightarrow> ''number''
      | JStr _ \<Rightarrow> ''string'' | _ \<Rightarrow> ''object'')"

text \<open>\<open>a === b\<close> on primitives; two separately built arrays or objects are never identical.\<close>

fun strict_eq :: "jsval \<Rightarrow> jsval \<Rightarrow> bool" where
  "strict_eq JUndef JUndef = True"
| "strict_eq JNull JNull = True"
| "strict_eq (JBool a) (JBool b) = (a = b)"
| "strict_eq (JNum a) (JNum b) = (a = b \<and> a \<noteq> NaN)"
| "strict_eq (JStr a) (JStr b) = (a = b)"
| "strict_eq _ _ = False"

section \<open>Property access\<close>

fun obj_kvs :: "jsval \<Rightarrow> (string \<times> jsval) list" where
  "obj_kvs (JObj kvs) = kvs"
| "obj_kvs _ = []"

fun arr_items :: "jsval \<Rightarrow> jsval list" where
  "arr_items (JArr vs) = vs"
| "arr_items _ = []"

definition kv_get :: "(string \<times> jsval) list \<Rightarrow> string \<Rightarrow> jsval" where
  "kv_get kvs k = (case map_of kvs k of Some v \<Rightarrow> v | None \<Rightarrow> JUndef)"

text \<open>\<open>v?.k\<close>: own properties, and the length of strings and arrays.\<close>

fun jget :: "jsval \<Rightarrow> string \<Rightarrow> jsval" where
  "jget (JObj kvs) k = kv_get kvs k"
| "jget (JArr vs) k = (if k = ''length'' then jnat (length vs) else JUndef)"
| "jget (JStr s) k = (if k = ''length'' then jnat (length s) else JUndef)"
| "jget _ k = JUndef"

definition has_own :: "jsval \<Rightarrow> string \<Rightarrow> bool" where
  "has_own v k = (map_of (obj_kvs v) k \<noteq> None)"

text \<open>\<open>{...base, k: v, ...}\<close>; spreading anything but an object adds nothing.\<close>

definition obj_with :: "jsval \<Rightarrow> (string \<times> jsval) list \<Rightarrow> jsval" where
  "obj_with base kvs = JObj (kv_spread (obj_kvs base) kvs)"

lemma kv_get_spread:
  "kv_get (kv_spread base kvs) k
     = (case map_of (rev kvs) k of Some v \<Rightarrow> v | None \<Rightarrow> kv_get base k)"
  by (simp add: kv_get_def map_of_kv_spread split: option.splits)

lemma kv_get_set [simp]: "kv_get (kv_set kvs k v) k' = (if k' = k then v else kv_get kvs k')"
  by (simp add: kv_get_def)

lemma kv_get_Nil [simp]: "kv_get [] k = JUndef"
  by (simp add: kv_get_def)

lemma kv_get_Cons [simp]: "kv_get ((k', v) # kvs) k = (if k = k' then v else kv_get kvs k)"
  by (simp add: kv_get_def)

text \<open>Reading a property of a value that is not guarded: null and undefined throw a TypeError.\<close>

definition type_error :: "jsval \<Rightarrow> string \<Rightarrow> jsval" where
  "type_error v k = JObj
     [(''name'', JStr ''TypeError''),
      (''message'', JStr (''Cannot read properties of '' @ to_str v @ '' (reading '' @ [CHR 0x27] @ k
                          @ [CHR 0x27] @ '')''))]"

definition jread :: "jsval \<Rightarrow> string \<Rightarrow> jsval res" where
  "jread v k = (if is_nullish v then Inl (type_error v k) else Inr (jget v k))"

text \<open>Sequencing computations that may throw, and the first error of a list of them.\<close>

fun rbind :: "'a res \<Rightarrow> ('a \<Rightarrow> 'b res) \<Rightarrow> 'b res" where
  "rbind (Inl e) f = Inl e"
| "rbind (Inr x) f = f x"

fun rmap :: "('a \<Rightarrow> 'b res) \<Rightarrow> 'a list \<Rightarrow> 'b list res" where
  "rmap f [] = Inr []"
| "rmap f (x # xs) = rbind (f x) (\<lambda>y. rbind (rmap f xs) (\<lambda>ys. Inr (y # ys)))"

definition result_of :: "'a res \<Rightarrow> 'a option" where
  "result_of r = (case r of Inr x \<Rightarrow> Some x | Inl _ \<Rightarrow> None)"

lemma rbind_Inr_iff: "rbind m f = Inr y \<longleftrightarrow> (\<exists>x. m = Inr x \<and> f x = Inr y)"
  by (cases m) auto

lemma rbind_Inl_iff: "rbind m f = Inl e \<longleftrightarrow> m = Inl e \<or> (\<exists>x. m = Inr x \<and> f x = Inl e)"
  by (cases m) auto

lemma jread_Inr_iff: "jread v k = Inr x \<longleftrightarrow> \<not> is_nullish v \<and> x = jget v k"
  by (auto simp: jread_def)

section \<open>JSON\<close>

definition hex_char :: "nat \<Rightarrow> char" where
  "hex_char d = (if d < 10 then char_of (48 + d) else char_of (87 + d))"

definition json_char :: "char \<Rightarrow> string" where
  "json_char c =
     (let n = code_of c
      in if n = 34 then [CHR 0x5C, CHR 0x22]
         else if n = 92 then [CHR 0x5C, CHR 0x5C]
         else if n = 8 then [CHR 0x5C, CHR ''b'']
         else if n = 9 then [CHR 0x5C, CHR ''t'']
         else if n = 10 then [CHR 0x5C, CHR ''n'']
         else if n = 12 then [CHR 0x5C, CHR ''f'']
         else if n = 13 then [CHR 0x5C, CHR ''r'']
         else if n < 32 then CHR 0x5C # ''u00'' @ [hex_char (n div 16), hex_char (n mod 16)]
         else [c])"

definition json_quote :: "string \<Rightarrow> string" where
  "json_quote s = CHR 0x22 # concat (map json_char s) @ [CHR 0x22]"

fun json_members :: "(string \<times> string option) list \<Rightarrow> (string \<times> string) list" where
  "json_members [] = []"
| "json_members ((k, None) # kvs) = json_members kvs"
| "json_members ((k, Some s) # kvs) = (k, s) # json_members kvs"

text \<open>\<open>JSON.stringify(v)\<close>, \<open>None\<close> for undefined.\<close>

fun json :: "jsval \<Rightarrow> string option" where
  "json JUndef = None"
| "json JNull = Some ''null''"
| "json (JBool b) = Some (bool_str b)"
| "json (JNum n) = Some (if is_finite n then num_str n else ''null'')"
| "json (JStr s) = Some (json_quote s)"
| "json (JArr vs) =
     Some (''['' @ join '','' (map (\<lambda>v. case json v of None \<Rightarrow> ''null'' | Some s \<Rightarrow> s) vs) @ '']'')"
| "json (JObj kvs) =
     Some (''{'' @ join '','' (map (\<lambda>(k, s). json_quote k @ '':'' @ s)
                               (json_members (map (\<lambda>(k, v). (k, json v)) kvs))) @ ''}'')"

text \<open>\<open>JSON.stringify(v, null, 2)\<close>; the first argument is the current indentation.\<close>

definition json_block :: "string \<Rightarrow> char \<Rightarrow> char \<Rightarrow> string list \<Rightarrow> string" where
  "json_block ind l r parts =
     (if parts = [] then [l, r]
      else [l, CHR 0x0A] @ join ('','' @ [CHR 0x0A]) (map (\<lambda>p. ind @ ''  '' @ p) parts)
           @ [CHR 0x0A] @ ind @ [r])"

fun json_pretty :: "string \<Rightarrow> jsval \<Rightarrow> string option" where
  "json_pretty ind (JArr vs) =
     Some (json_block ind (CHR ''['') (CHR '']'')
             (map (\<lambda>v. case json_pretty (ind @ ''  '') v of None \<Rightarrow> ''null'' | Some s \<Rightarrow> s) vs))"
| "json_pretty ind (JObj kvs) =
     Some (json_block ind (CHR ''{'') (CHR ''}'')
             (map (\<lambda>(k, s). json_quote k @ '': '' @ s)
               (json_members (map (\<lambda>(k, v). (k, json_pretty (ind @ ''  '') v)) kvs))))"
| "json_pretty ind v = json v"

text \<open>\<open>JSON.parse(JSON.stringify(v))\<close>: undefined members disappear, undefined items and the
  non-finite numbers become null.\<close>

fun json_clone :: "jsval \<Rightarrow> jsval" where
  "json_clone JUndef = JNull"
| "json_clone (JNum n) = (if is_finite n then JNum n else JNull)"
| "json_clone (JArr vs) = JArr (map json_clone vs)"
| "json_clone (JObj kvs) =
     JObj (map (\<lambda>(k, v). (k, json_clone v)) (filter (\<lambda>(k, v). v \<noteq> JUndef) kvs))"
| "json_clone v = v"

text \<open>What a JSON text can hold.\<close>

fun is_json :: "jsval \<Rightarrow> bool" where
  "is_json JUndef = False"
| "is_json (JNum n) = is_finite n"
| "is_json (JArr vs) = (\<forall>v \<in> set vs. is_json v)"
| "is_json (JObj kvs) = (\<forall>(k, v) \<in> set kvs. is_json v)"
| "is_json _ = True"

lemma is_json_clone: "is_json (json_clone v)"
  by (induction v rule: json_clone.induct) auto

lemma json_clone_not_undef [simp]: "json_clone v \<noteq> JUndef"
  using is_json_clone [of v] by auto

lemma json_clone_id: "is_json v \<Longrightarrow> json_clone v = v"
proof (induction v rule: json_clone.induct)
  case (3 vs)
  then show ?case by (simp add: map_idI)
next
  case (4 kvs)
  have "filter (\<lambda>(k, v). v \<noteq> JUndef) kvs = kvs"
    using 4(2) by (auto simp: filter_id_conv)
  with 4 show ?case by (auto intro!: map_idI)
qed auto

lemma json_clone_idem [simp]: "json_clone (json_clone v) = json_clone v"
  by (rule json_clone_id [OF is_json_clone])

lemma is_obj_clone [simp]: "is_obj (json_clone v) = is_obj v"
  by (cases v) auto

lemma is_json_jget: "is_json v \<Longrightarrow> jget v k = JUndef \<or> is_json (jget v k)"
proof (cases v)
  case (JObj kvs)
  assume "is_json v"
  with JObj show ?thesis
    by (cases "map_of kvs k") (auto simp: kv_get_def dest: map_of_SomeD)
qed auto

text \<open>Keys are distinct at every level.\<close>

fun well_keyed :: "jsval \<Rightarrow> bool" where
  "well_keyed (JArr vs) = (\<forall>v \<in> set vs. well_keyed v)"
| "well_keyed (JObj kvs) = (distinct (map fst kvs) \<and> (\<forall>(k, v) \<in> set kvs. well_keyed v))"
| "well_keyed _ = True"

section \<open>Shorthands of the sources\<close>

definition js_error :: "string \<Rightarrow> jsval" where
  "js_error message = JObj [(''name'', JStr ''Error''), (''message'', JStr message)]"

definition jint :: "int \<Rightarrow> jsval" where
  "jint i = jnum (of_int i)"

text \<open>\<open>v || null\<close>, and the default of a parameter.\<close>

definition or_null :: "jsval \<Rightarrow> jsval" where
  "or_null v = jor v JNull"

definition default_to :: "jsval \<Rightarrow> jsval \<Rightarrow> jsval" where
  "default_to v d = (if v = JUndef then d else v)"

text \<open>\<open>new Date(ms).toISOString()\<close>: the civil date of a day number, counted from 1970-01-01.\<close>

definition civil :: "int \<Rightarrow> int \<times> int \<times> int" where
  "civil days =
     (let z = days + 719468; era = z div 146097; doe = z mod 146097;
          yoe = (doe - doe div 1460 + doe div 36524 - doe div 146096) div 365;
          doy = doe - (365 * yoe + yoe div 4 - yoe div 100); mp = (5 * doy + 2) div 153;
          d = doy - (153 * mp + 2) div 5 + 1; m = (if mp < 10 then mp + 3 else mp - 9)
      in (yoe + era * 400 + (if m \<le> 2 then 1 else 0), m, d))"

definition padded :: "nat \<Rightarrow> int \<Rightarrow> string" where
  "padded n i = (let s = nat_str (nat i) in replicate (n - length s) (CHR ''0'') @ s)"

definition iso_text :: "rat \<Rightarrow> string" where
  "iso_text ms =
     (let t = \<lfloor>ms\<rfloor>; (y, m, d) = civil (t div 86400000); r = t mod 86400000
      in (if 0 \<le> y \<and> y \<le> 9999 then padded 4 y
          else (if y < 0 then ''-'' else ''+'') @ padded 6 \<bar>y\<bar>)
         @ ''-'' @ padded 2 m @ ''-'' @ padded 2 d @ ''T'' @ padded 2 (r div 3600000) @ '':''
         @ padded 2 (r div 60000 mod 60) @ '':'' @ padded 2 (r div 1000 mod 60) @ ''.'' @ padded 3 (r mod 1000) @ ''Z'')"

text \<open>\<open>[...new Set(xs)]\<close>.\<close>

fun first_of_each :: "'a list \<Rightarrow> 'a list" where
  "first_of_each [] = []"
| "first_of_each (x # xs) = x # filter (\<lambda>y. y \<noteq> x) (first_of_each xs)"

lemma set_first_of_each [simp]: "set (first_of_each xs) = set xs"
  by (induction xs) auto

lemma distinct_first_of_each [simp]: "distinct (first_of_each xs)"
  by (induction xs) auto

text \<open>The keys at every depth of a value.\<close>

fun keys_of :: "jsval \<Rightarrow> string list" where
  "keys_of (JArr vs) = concat (map keys_of vs)"
| "keys_of (JObj kvs) = concat (map (\<lambda>(k, v). k # keys_of v) kvs)"
| "keys_of v = []"

text \<open>A stable insertion sort by a comparison, which for texts is the host's collation, the order of \<open>localeCompare\<close>.\<close>

fun insert_by :: "('a \<Rightarrow> 'a \<Rightarrow> bool) \<Rightarrow> 'a \<Rightarrow> 'a list \<Rightarrow> 'a list" where
  "insert_by le x [] = [x]"
| "insert_by le x (y # ys) = (if le x y then x # y # ys else y # insert_by le x ys)"

definition sort_by :: "('a \<Rightarrow> 'a \<Rightarrow> bool) \<Rightarrow> 'a list \<Rightarrow> 'a list" where
  "sort_by le xs = foldr (insert_by le) xs []"

lemma set_insert_by: "set (insert_by le x xs) = insert x (set xs)"
  by (induction xs) auto

lemma set_sort_by [simp]: "set (sort_by le xs) = set xs"
  by (induction xs) (auto simp: sort_by_def set_insert_by)

lemma length_insert_by: "length (insert_by le x xs) = Suc (length xs)"
  by (induction xs) auto

lemma length_sort_by [simp]: "length (sort_by le xs) = length xs"
  by (induction xs) (auto simp: sort_by_def length_insert_by)

end
