(* ===== verification/JsRegex.thy ===== *)
theory JsRegex
  imports JsPrelude
begin

text \<open>
  The backtracking matcher of JavaScript regular expressions, for the constructs the sources use:
  classes, sequence, alternation, greedy repetition, word boundaries and lookahead.  A position is
  the character before it (for the word boundary) and the rest of the subject; a matcher takes a
  position and the continuation of the match and answers the end of the first match in the
  backtracking order.  \<open>rx_replace\<close> is \<open>s.replace(re, r)\<close> with the global flag and a replacement
  without dollar patterns.
\<close>

datatype rx =
    Eps
  | Cls "char \<Rightarrow> bool"
  | Sq rx rx
  | Alt rx rx
  | Rep rx
  | Bound
  | Look rx

type_synonym rx_pos = "char option \<times> string"
type_synonym matcher = "rx_pos \<Rightarrow> (rx_pos \<Rightarrow> rx_pos option) \<Rightarrow> rx_pos option"

definition at_boundary :: "rx_pos \<Rightarrow> bool" where
  "at_boundary p =
     ((case fst p of Some c \<Rightarrow> is_word c | None \<Rightarrow> False)
      \<noteq> (case snd p of c # _ \<Rightarrow> is_word c | [] \<Rightarrow> False))"

text \<open>
  Greedy repetition.  An iteration that consumes nothing is given up, as the language demands, so
  the length of the rest bounds the number of iterations and is enough fuel.
\<close>

fun rep_match :: "nat \<Rightarrow> matcher \<Rightarrow> matcher" where
  "rep_match 0 m p k = k p"
| "rep_match (Suc n) m p k =
     (case m p (\<lambda>q. if length (snd q) < length (snd p) then rep_match n m q k else None) of
        Some q \<Rightarrow> Some q
      | None \<Rightarrow> k p)"

primrec rx_match :: "rx \<Rightarrow> matcher" where
  "rx_match Eps p k = k p"
| "rx_match (Cls P) p k =
     (case snd p of [] \<Rightarrow> None | c # cs \<Rightarrow> if P c then k (Some c, cs) else None)"
| "rx_match (Sq r s) p k = rx_match r p (\<lambda>q. rx_match s q k)"
| "rx_match (Alt r s) p k = (case rx_match r p k of Some q \<Rightarrow> Some q | None \<Rightarrow> rx_match s p k)"
| "rx_match (Rep r) p k = rep_match (length (snd p)) (rx_match r) p k"
| "rx_match Bound p k = (if at_boundary p then k p else None)"
| "rx_match (Look r) p k = (case rx_match r p Some of Some _ \<Rightarrow> k p | None \<Rightarrow> None)"

definition rx_find :: "rx \<Rightarrow> rx_pos \<Rightarrow> rx_pos option" where
  "rx_find r p = rx_match r p Some"

text \<open>Some suffix of the subject is what a match leaves.\<close>

definition leaves :: "rx_pos \<Rightarrow> rx_pos \<Rightarrow> bool" where
  "leaves p q = suffix (snd q) (snd p)"

definition matcher_ok :: "matcher \<Rightarrow> bool" where
  "matcher_ok m = (\<forall>p k q. m p k = Some q \<longrightarrow> (\<exists>p'. leaves p p' \<and> k p' = Some q))"

lemma leaves_refl [simp]: "leaves p p"
  by (simp add: leaves_def)

lemma leaves_trans: "leaves p q \<Longrightarrow> leaves q r \<Longrightarrow> leaves p r"
  unfolding leaves_def by (rule suffix_order.trans)

lemma rep_match_ok: "matcher_ok m \<Longrightarrow> matcher_ok (rep_match n m)"
proof (induction n)
  case 0
  show ?case unfolding matcher_ok_def rep_match.simps using leaves_refl by blast
next
  case (Suc n)
  show ?case
    unfolding matcher_ok_def
  proof (intro allI impI)
    fix p k q
    assume run: "rep_match (Suc n) m p k = Some q"
    let ?k = "\<lambda>q. if length (snd q) < length (snd p) then rep_match n m q k else None"
    show "\<exists>p'. leaves p p' \<and> k p' = Some q"
    proof (cases "m p ?k")
      case None
      with run have "k p = Some q" by simp
      then show ?thesis using leaves_refl by blast
    next
      case (Some q')
      with run have "m p ?k = Some q" by simp
      with Suc.prems obtain p1 where p1: "leaves p p1" "?k p1 = Some q"
        unfolding matcher_ok_def by blast
      then have "rep_match n m p1 k = Some q" by (simp split: if_splits)
      with Suc obtain p2 where "leaves p1 p2" "k p2 = Some q"
        unfolding matcher_ok_def by blast
      with p1 show ?thesis by (blast intro: leaves_trans)
    qed
  qed
qed

lemma rx_match_ok: "matcher_ok (rx_match r)"
proof (induction r)
  case (Cls P)
  then show ?case
    by (auto simp: matcher_ok_def leaves_def split: list.splits if_splits intro!: suffix_ConsI)
next
  case (Sq r s)
  then show ?case
    unfolding matcher_ok_def rx_match.simps by (meson leaves_trans)
next
  case (Alt r s)
  then show ?case
    unfolding matcher_ok_def by (auto split: option.splits)
next
  case (Rep r)
  then have "matcher_ok (rep_match n (rx_match r))" for n
    by (rule rep_match_ok)
  then show ?case
    unfolding matcher_ok_def by auto
next
  case Eps
  show ?case unfolding matcher_ok_def rx_match.simps using leaves_refl by blast
next
  case Bound
  show ?case
    unfolding matcher_ok_def rx_match.simps using leaves_refl by (metis option.distinct(1))
next
  case (Look r)
  show ?case
    unfolding matcher_ok_def rx_match.simps
    using leaves_refl by (metis option.case_eq_if option.distinct(1))
qed

lemma rx_find_suffix: "rx_find r p = Some q \<Longrightarrow> suffix (snd q) (snd p)"
  using rx_match_ok [of r] unfolding rx_find_def matcher_ok_def leaves_def by fastforce

lemma rx_find_length: "rx_find r p = Some q \<Longrightarrow> length (snd q) \<le> length (snd p)"
  by (rule suffix_length_le [OF rx_find_suffix])

function rx_replace_from :: "rx \<Rightarrow> string \<Rightarrow> rx_pos \<Rightarrow> string" where
  "rx_replace_from r rep p =
     (case rx_find r p of
        Some q \<Rightarrow>
          if length (snd q) < length (snd p) then rep @ rx_replace_from r rep q
          else rep @ (case snd p of [] \<Rightarrow> [] | c # cs \<Rightarrow> c # rx_replace_from r rep (Some c, cs))
      | None \<Rightarrow> (case snd p of [] \<Rightarrow> [] | c # cs \<Rightarrow> c # rx_replace_from r rep (Some c, cs)))"
  by pat_completeness auto
termination
  by (relation "measure (\<lambda>(r, rep, p). length (snd p))") auto

declare rx_replace_from.simps [simp del]

definition rx_replace :: "rx \<Rightarrow> string \<Rightarrow> string \<Rightarrow> string" where
  "rx_replace r rep s = rx_replace_from r rep (None, s)"

definition is_some :: "'a option \<Rightarrow> bool" where
  "is_some x = (case x of Some _ \<Rightarrow> True | None \<Rightarrow> False)"

lemma not_is_some [simp]: "\<not> is_some x \<longleftrightarrow> x = None"
  by (simp add: is_some_def split: option.splits)

text \<open>\<open>re.test(s)\<close>.\<close>

fun rx_test_from :: "rx \<Rightarrow> char option \<Rightarrow> string \<Rightarrow> bool" where
  "rx_test_from r pr [] = is_some (rx_find r (pr, []))"
| "rx_test_from r pr (c # cs) = (is_some (rx_find r (pr, c # cs)) \<or> rx_test_from r (Some c) cs)"

definition rx_test :: "rx \<Rightarrow> string \<Rightarrow> bool" where
  "rx_test r s = rx_test_from r None s"

section \<open>Building expressions\<close>

text \<open>A literal; the same with the flag i; r?; r+; r{n,}; an alternation.\<close>

definition rx_lit :: "string \<Rightarrow> rx" where
  "rx_lit s = foldr (\<lambda>c r. Sq (Cls (\<lambda>x. x = c)) r) s Eps"

definition rx_lit_i :: "string \<Rightarrow> rx" where
  "rx_lit_i s = foldr (\<lambda>c r. Sq (Cls (\<lambda>x. lower x = lower c)) r) s Eps"

definition rx_opt :: "rx \<Rightarrow> rx" where
  "rx_opt r = Alt r Eps"

definition rx_plus :: "rx \<Rightarrow> rx" where
  "rx_plus r = Sq r (Rep r)"

definition rx_least :: "nat \<Rightarrow> rx \<Rightarrow> rx" where
  "rx_least n r = foldr Sq (replicate n r) (Rep r)"

fun rx_alts :: "rx list \<Rightarrow> rx" where
  "rx_alts [] = Eps"
| "rx_alts [r] = r"
| "rx_alts (r # rs) = Alt r (rx_alts rs)"

fun rx_seq :: "rx list \<Rightarrow> rx" where
  "rx_seq [] = Eps"
| "rx_seq [r] = r"
| "rx_seq (r # rs) = Sq r (rx_seq rs)"

text \<open>A subject in which no position matches is left as it is.\<close>

lemma rx_replace_from_no_match:
  "\<not> rx_test_from r pr s \<Longrightarrow> rx_replace_from r rep (pr, s) = s"
proof (induction s arbitrary: pr)
  case Nil
  then have "rx_find r (pr, []) = None" by simp
  then show ?case by (simp add: rx_replace_from.simps [of r rep "(pr, [])"])
next
  case (Cons c cs)
  then have "rx_find r (pr, c # cs) = None" "\<not> rx_test_from r (Some c) cs"
    by auto
  then show ?case
    using Cons.IH by (simp add: rx_replace_from.simps [of r rep "(pr, c # cs)"])
qed

lemma rx_replace_no_match: "\<not> rx_test r s \<Longrightarrow> rx_replace r rep s = s"
  by (simp add: rx_replace_def rx_test_def rx_replace_from_no_match)

end
