(* ===== verification/Effects.thy ===== *)
theory Effects
  imports JsPrelude
begin

text \<open>
  Effects of a durable workflow.  Everything a workflow function awaits is a request to its
  environment (an activity, a timer, a child workflow, a wait for a signal); the environment answers
  with a value or an error and with the signals it delivered meanwhile.  An environment is any
  function of the history so far, so a statement about all environments covers every behaviour of
  the activities, of the Temporal server and of the people who send signals.

  An effectful function maps an environment and a history to a result, which may be a thrown value,
  and the extended history.  \<open>runs m Q\<close> says that every run of \<open>m\<close> extends the history by a segment
  and ends with a result that \<open>Q\<close> accepts; the rules for the combinators follow.  The last section
  is the bounded retry loop that three of the node executors share, with its contract as a locale.
\<close>

named_theorems run_intros \<open>rules for \<open>runs\<close>\<close>

section \<open>Requests, histories, environments\<close>

datatype request =
    Act string jsval
  | Nap rat
  | AwaitDecision "string list" "rat option"
  | RunChild jsval
  | StartChild jsval
  | ChildRunId jsval
  | ChildResult jsval

record step =
  req :: request
  resp :: "jsval + jsval"
  signals :: "jsval list"

type_synonym hist = "step list"

record env =
  answer :: "hist \<Rightarrow> request \<Rightarrow> (jsval + jsval) \<times> jsval list"
  now :: "hist \<Rightarrow> rat"
  now_iso :: "hist \<Rightarrow> string"
  parse_date :: "string \<Rightarrow> rat option"

type_synonym 'a eff = "env \<Rightarrow> hist \<Rightarrow> (jsval + 'a) \<times> hist"

definition eret :: "'a \<Rightarrow> 'a eff" where
  "eret x e h = (Inr x, h)"

definition ethrow :: "jsval \<Rightarrow> 'a eff" where
  "ethrow v e h = (Inl v, h)"

definition ebind :: "'a eff \<Rightarrow> ('a \<Rightarrow> 'b eff) \<Rightarrow> 'b eff" where
  "ebind m f e h = (case m e h of (Inl v, h') \<Rightarrow> (Inl v, h') | (Inr x, h') \<Rightarrow> f x e h')"

text \<open>\<open>try m catch (v) {f v}\<close>, where \<open>m\<close> returns from the function or throws.\<close>

definition ecatch :: "'a eff \<Rightarrow> (jsval \<Rightarrow> 'a eff) \<Rightarrow> 'a eff" where
  "ecatch m f e h = (case m e h of (Inl v, h') \<Rightarrow> f v e h' | (Inr x, h') \<Rightarrow> (Inr x, h'))"

text \<open>Running \<open>m\<close> inside a \<open>try\<close> whose handler needs to know how far the block came.\<close>

definition etry :: "'a eff \<Rightarrow> (jsval + 'a) eff" where
  "etry m e h = (case m e h of (r, h') \<Rightarrow> (Inr r, h'))"

definition lift_res :: "'a res \<Rightarrow> 'a eff" where
  "lift_res r e h = (r, h)"

definition ask :: "request \<Rightarrow> jsval eff" where
  "ask q e h =
     (let (a, sigs) = answer e h q
      in (a, h @ [\<lparr>req = q, resp = a, signals = sigs\<rparr>]))"

definition clock :: "rat eff" where
  "clock e h = (Inr (now e h), h)"

definition clock_iso :: "string eff" where
  "clock_iso e h = (Inr (now_iso e h), h)"

definition get_hist :: "hist eff" where
  "get_hist e h = (Inr h, h)"

definition date_parse :: "string \<Rightarrow> rat option eff" where
  "date_parse s e h = (Inr (parse_date e s), h)"

definition activity :: "string \<Rightarrow> jsval \<Rightarrow> jsval eff" where
  "activity name arg = ask (Act name arg)"

definition eread :: "jsval \<Rightarrow> string \<Rightarrow> jsval eff" where
  "eread v k = lift_res (jread v k)"

definition nap :: "rat \<Rightarrow> jsval eff" where
  "nap ms = ask (Nap ms)"

section \<open>Laws\<close>

lemma ebind_eret [simp]: "ebind (eret x) f = f x"
  by (simp add: ebind_def eret_def fun_eq_iff)

lemma ebind_ethrow [simp]: "ebind (ethrow v) f = ethrow v"
  by (simp add: ebind_def ethrow_def fun_eq_iff)

lemma ebind_assoc: "ebind (ebind m f) g = ebind m (\<lambda>x. ebind (f x) g)"
  by (simp add: ebind_def fun_eq_iff split: prod.splits sum.splits)

lemma ecatch_eret [simp]: "ecatch (eret x) f = eret x"
  by (simp add: ecatch_def eret_def fun_eq_iff)

lemma ecatch_ethrow [simp]: "ecatch (ethrow v) f = f v"
  by (simp add: ecatch_def ethrow_def fun_eq_iff)

lemma ecatch_etry: "ecatch m f = ebind (etry m) (case_sum f eret)"
  by (simp add: ecatch_def etry_def ebind_def eret_def fun_eq_iff split: prod.splits sum.splits)

lemma ebind_cong [fundef_cong]: "m = m' \<Longrightarrow> (\<And>x. f x = f' x) \<Longrightarrow> ebind m f = ebind m' f'"
  by presburger

lemma lift_res_simps [simp]: "lift_res (Inl v) = ethrow v" "lift_res (Inr x) = eret x"
  by (simp_all add: lift_res_def ethrow_def eret_def fun_eq_iff)

section \<open>Runs\<close>

type_synonym 'a post = "hist \<Rightarrow> step list \<Rightarrow> jsval + 'a \<Rightarrow> bool"

definition runs :: "'a eff \<Rightarrow> 'a post \<Rightarrow> bool" where
  "runs m Q = (\<forall>e h. \<exists>t. snd (m e h) = h @ t \<and> Q h t (fst (m e h)))"

lemma runsD: "runs m Q \<Longrightarrow> m e h = (r, h') \<Longrightarrow> \<exists>t. h' = h @ t \<and> Q h t r"
  unfolding runs_def by (metis fst_conv snd_conv)

lemma runs_weaken: "runs m P \<Longrightarrow> (\<And>h t r. P h t r \<Longrightarrow> Q h t r) \<Longrightarrow> runs m Q"
  unfolding runs_def by blast

lemma runs_conj: "runs m P \<Longrightarrow> runs m Q \<Longrightarrow> runs m (\<lambda>h t r. P h t r \<and> Q h t r)"
  unfolding runs_def by (metis append_same_eq same_append_eq)

lemma runs_eret: "(\<And>h. Q h [] (Inr x)) \<Longrightarrow> runs (eret x) Q"
  by (simp add: runs_def eret_def)

lemma runs_ethrow: "(\<And>h. Q h [] (Inl v)) \<Longrightarrow> runs (ethrow v) Q"
  by (simp add: runs_def ethrow_def)

lemma runs_lift_res: "(\<And>h. Q h [] r) \<Longrightarrow> runs (lift_res r) Q"
  by (simp add: runs_def lift_res_def)

lemma runs_clock: "(\<And>h x. Q h [] (Inr x)) \<Longrightarrow> runs clock Q"
  by (simp add: runs_def clock_def)

lemma runs_clock_iso: "(\<And>h x. Q h [] (Inr x)) \<Longrightarrow> runs clock_iso Q"
  by (simp add: runs_def clock_iso_def)

lemma runs_date_parse: "(\<And>h x. Q h [] (Inr x)) \<Longrightarrow> runs (date_parse s) Q"
  by (simp add: runs_def date_parse_def)

lemma runs_get_hist: "(\<And>h. Q h [] (Inr h)) \<Longrightarrow> runs get_hist Q"
  by (simp add: runs_def get_hist_def)

lemma runs_ask:
  assumes "\<And>h a s. Q h [\<lparr>req = q, resp = a, signals = s\<rparr>] a"
  shows "runs (ask q) Q"
  using assms by (simp add: runs_def ask_def split: prod.splits)

lemma runs_bind:
  assumes m: "runs m P" and f: "\<And>x. runs (f x) (R x)"
    and thrown: "\<And>h t v. P h t (Inl v) \<Longrightarrow> Q h t (Inl v)"
    and returned: "\<And>h t x t' r. P h t (Inr x) \<Longrightarrow> R x (h @ t) t' r \<Longrightarrow> Q h (t @ t') r"
  shows "runs (ebind m f) Q"
  unfolding runs_def
proof (intro allI)
  fix e h
  obtain r h' where mr: "m e h = (r, h')" by (cases "m e h")
  with m obtain t where t: "h' = h @ t" "P h t r" by (blast dest: runsD)
  show "\<exists>t. snd (ebind m f e h) = h @ t \<and> Q h t (fst (ebind m f e h))"
  proof (cases r)
    case (Inl v)
    with mr t thrown show ?thesis by (simp add: ebind_def)
  next
    case (Inr x)
    obtain r' h'' where fr: "f x e h' = (r', h'')" by (cases "f x e h'")
    with f [of x] t(1) obtain t' where "h'' = (h @ t) @ t'" "R x (h @ t) t' r'"
      by (blast dest: runsD)
    with mr fr Inr t returned show ?thesis by (auto simp: ebind_def)
  qed
qed

lemma runs_catch:
  assumes m: "runs m P" and f: "\<And>v. runs (f v) (R v)"
    and returned: "\<And>h t x. P h t (Inr x) \<Longrightarrow> Q h t (Inr x)"
    and thrown: "\<And>h t v t' r. P h t (Inl v) \<Longrightarrow> R v (h @ t) t' r \<Longrightarrow> Q h (t @ t') r"
  shows "runs (ecatch m f) Q"
  unfolding runs_def
proof (intro allI)
  fix e h
  obtain r h' where mr: "m e h = (r, h')" by (cases "m e h")
  with m obtain t where t: "h' = h @ t" "P h t r" by (blast dest: runsD)
  show "\<exists>t. snd (ecatch m f e h) = h @ t \<and> Q h t (fst (ecatch m f e h))"
  proof (cases r)
    case (Inr x)
    with mr t returned show ?thesis by (simp add: ecatch_def)
  next
    case (Inl v)
    obtain r' h'' where fr: "f v e h' = (r', h'')" by (cases "f v e h'")
    with f [of v] t(1) obtain t' where "h'' = (h @ t) @ t'" "R v (h @ t) t' r'"
      by (blast dest: runsD)
    with mr fr Inl t thrown show ?thesis by (auto simp: ecatch_def)
  qed
qed

lemma runs_etry:
  assumes m: "runs m P" and "\<And>h t r. P h t r \<Longrightarrow> Q h t (Inr r)"
  shows "runs (etry m) Q"
  unfolding runs_def
proof (intro allI)
  fix e h
  obtain r h' where "m e h = (r, h')" by (cases "m e h")
  with m assms(2) show "\<exists>t. snd (etry m e h) = h @ t \<and> Q h t (fst (etry m e h))"
    by (auto simp: etry_def dest: runsD)
qed

text \<open>The trace predicates that every segment of a run satisfies.\<close>

definition only :: "(request \<Rightarrow> bool) \<Rightarrow> 'a eff \<Rightarrow> bool" where
  "only P m = runs m (\<lambda>h t r. \<forall>s \<in> set t. P (req s))"

lemma only_mono: "only P m \<Longrightarrow> (\<And>q. P q \<Longrightarrow> Q q) \<Longrightarrow> only Q m"
  unfolding only_def by (erule runs_weaken) auto

lemma only_eret [run_intros]: "only P (eret x)"
  by (auto simp: only_def intro: runs_eret)

lemma only_ethrow [run_intros]: "only P (ethrow v)"
  by (auto simp: only_def intro: runs_ethrow)

lemma only_lift_res [run_intros]: "only P (lift_res r)"
  by (auto simp: only_def intro: runs_lift_res)

lemma only_clock [run_intros]: "only P clock" "only P clock_iso" "only P (date_parse s)" "only P get_hist"
  by (auto simp: only_def intro: runs_clock runs_clock_iso runs_date_parse runs_get_hist)

lemma only_eread [run_intros]: "only P (eread v k)"
  unfolding eread_def by (rule only_lift_res)

lemma only_ask: "P q \<Longrightarrow> only P (ask q)"
  by (auto simp: only_def intro: runs_ask)

lemma only_activity [run_intros]: "P (Act n a) \<Longrightarrow> only P (activity n a)"
  by (simp add: activity_def only_ask)

lemma only_nap [run_intros]: "P (Nap d) \<Longrightarrow> only P (nap d)"
  by (simp add: nap_def only_ask)

lemma only_bind [run_intros]:
  assumes "only P m" "\<And>x. only P (f x)"
  shows "only P (ebind m f)"
  using assms unfolding only_def
  by (rule runs_bind [where R = "\<lambda>x h t r. \<forall>s \<in> set t. P (req s)"]) auto

lemma only_catch [run_intros]:
  assumes "only P m" "\<And>v. only P (f v)"
  shows "only P (ecatch m f)"
  using assms unfolding only_def
  by (rule runs_catch [where R = "\<lambda>x h t r. \<forall>s \<in> set t. P (req s)"]) auto

lemma only_etry [run_intros]: "only P m \<Longrightarrow> only P (etry m)"
  unfolding only_def by (rule runs_etry) auto

lemma only_runs: "only P m \<Longrightarrow> m e h = (r, h') \<Longrightarrow> \<exists>t. h' = h @ t \<and> (\<forall>s \<in> set t. P (req s))"
  unfolding only_def by (blast dest: runsD)

text \<open>A rule for sequencing where the second part depends on what the first one returned.\<close>

definition only_returning :: "(request \<Rightarrow> bool) \<Rightarrow> ('a \<Rightarrow> bool) \<Rightarrow> 'a eff \<Rightarrow> bool" where
  "only_returning P V m = runs m (\<lambda>h t r. (\<forall>s \<in> set t. P (req s)) \<and> (\<forall>x. r = Inr x \<longrightarrow> V x))"

lemma only_returning_bind:
  assumes m: "only_returning P U m" and f: "\<And>x. U x \<Longrightarrow> only_returning P V (f x)"
  shows "only_returning P V (ebind m f)"
  unfolding only_returning_def runs_def
proof (intro allI)
  fix e h
  obtain r h' where mr: "m e h = (r, h')" by (cases "m e h")
  from runsD [OF m [unfolded only_returning_def] mr] obtain t where
    t: "h' = h @ t" "\<forall>s \<in> set t. P (req s)" "\<forall>x. r = Inr x \<longrightarrow> U x"
    by auto
  show "\<exists>t. snd (ebind m f e h) = h @ t \<and> (\<forall>s \<in> set t. P (req s)) \<and> (\<forall>x. fst (ebind m f e h) = Inr x \<longrightarrow> V x)"
  proof (cases r)
    case (Inl v)
    with mr t show ?thesis by (simp add: ebind_def)
  next
    case (Inr x)
    obtain r' h'' where fr: "f x e h' = (r', h'')" by (cases "f x e h'")
    from t(3) Inr have "only_returning P V (f x)" by (simp add: f)
    from runsD [OF this [unfolded only_returning_def] fr] obtain t' where
      "h'' = h' @ t'" "\<forall>s \<in> set t'. P (req s)" "\<forall>x. r' = Inr x \<longrightarrow> V x"
      by auto
    with mr fr Inr t show ?thesis by (intro exI [of _ "t @ t'"]) (auto simp: ebind_def)
  qed
qed

lemma only_returning_True: "only_returning P (\<lambda>_. True) m = only P m"
  by (simp add: only_returning_def only_def)

lemma only_bind_returning:
  assumes "only_returning P U m" "\<And>x. U x \<Longrightarrow> only P (f x)"
  shows "only P (ebind m f)"
  using only_returning_bind [of P U m "\<lambda>_. True" f] assms by (simp add: only_returning_True)

lemma only_returning_after:
  assumes "only P m" "\<And>x. only_returning P V (f x)"
  shows "only_returning P V (ebind m f)"
  using only_returning_bind [of P "\<lambda>_. True" m V f] assms by (simp add: only_returning_True)

lemma only_returning_lift: "(\<And>x. r = Inr x \<Longrightarrow> V x) \<Longrightarrow> only_returning P V (lift_res r)"
  by (auto simp: only_returning_def intro!: runs_lift_res)

lemma only_returning_eret: "V x \<Longrightarrow> only_returning P V (eret x)"
  by (auto simp: only_returning_def intro!: runs_eret)

lemma only_returning_etry:
  assumes "only_returning P V m"
  shows "only_returning P (\<lambda>r. \<forall>x. r = Inr x \<longrightarrow> V x) (etry m)"
  using assms unfolding only_returning_def by (rule runs_etry) auto

section \<open>Bounded retry\<close>

text \<open>
  One attempt returns a value (\<open>Done\<close>), fails in a way the loop catches (\<open>Again\<close>) or throws past it.
  \<open>attempts body delay k n err\<close> makes the attempts \<open>n, n + 1, ..., n + k - 1\<close>, sleeping \<open>delay n\<close>
  between attempt \<open>n\<close> and the next; \<open>Inl\<close> is the last caught error.
\<close>

datatype 'a attempt = Done 'a | Again jsval

fun attempts ::
  "(nat \<Rightarrow> 'a attempt eff) \<Rightarrow> (nat \<Rightarrow> rat) \<Rightarrow> nat \<Rightarrow> nat \<Rightarrow> jsval \<Rightarrow> (jsval + 'a) eff" where
  "attempts body delay 0 n err = eret (Inl err)"
| "attempts body delay (Suc k) n err =
     ebind (body n) (\<lambda>r.
       case r of
         Done x \<Rightarrow> eret (Inr x)
       | Again er \<Rightarrow>
           if k = 0 then eret (Inl er)
           else ebind (nap (delay n)) (\<lambda>_. attempts body delay k (Suc n) er))"

text \<open>The answers a segment holds to the requests of one kind.\<close>

definition answers :: "(request \<Rightarrow> bool) \<Rightarrow> step list \<Rightarrow> (jsval + jsval) list" where
  "answers P t = map resp (filter (\<lambda>s. P (req s)) t)"

lemma answers_append [simp]: "answers P (t @ t') = answers P t @ answers P t'"
  by (simp add: answers_def)

lemma answers_Nil [simp]: "answers P [] = []"
  by (simp add: answers_def)

lemma answers_Cons: "answers P (s # t) = (if P (req s) then [resp s] else []) @ answers P t"
  by (simp add: answers_def)

lemma answers_none: "\<forall>s \<in> set t. \<not> P (req s) \<Longrightarrow> answers P t = []"
  by (induction t) (auto simp: answers_Cons)

lemma only_answers: "only (\<lambda>q. \<not> P q) m \<Longrightarrow> runs m (\<lambda>h t r. answers P t = [])"
  unfolding only_def by (erule runs_weaken) (rule answers_none)

lemma runs_once:
  assumes "P q"
  shows "runs (ask q) (\<lambda>h t r. answers P t = [r])"
  using assms by (auto intro!: runs_ask simp: answers_Cons)

lemma only_attempts:
  assumes "\<And>m. only P (body m)" "\<And>m. n \<le> m \<Longrightarrow> m < n + k \<Longrightarrow> P (Nap (delay m))"
  shows "only P (attempts body delay k n err)"
  using assms(2)
proof (induction k arbitrary: n err)
  case 0
  then show ?case by (simp add: only_eret)
next
  case (Suc k)
  have "only P (case r of Done x \<Rightarrow> eret (Inr x)
       | Again er \<Rightarrow> if k = 0 then eret (Inl er)
           else ebind (nap (delay n)) (\<lambda>_. attempts body delay k (Suc n) er))" for r
    using Suc.prems by (cases r) (auto intro!: run_intros Suc.IH)
  with assms(1) show ?case by (auto intro!: only_bind)
qed

text \<open>At most one counted request in a sequence where one step makes it.\<close>

definition uses :: "nat \<Rightarrow> (request \<Rightarrow> bool) \<Rightarrow> 'a eff \<Rightarrow> bool" where
  "uses k P m = runs m (\<lambda>h t r. length (answers P t) \<le> k)"

lemma uses_only: "only (\<lambda>q. \<not> P q) m \<Longrightarrow> uses 0 P m"
  unfolding uses_def by (drule only_answers) (erule runs_weaken, simp)

lemma uses_bind: "uses j P m \<Longrightarrow> (\<And>x. uses k P (f x)) \<Longrightarrow> uses (j + k) P (ebind m f)"
  unfolding uses_def
  by (rule runs_bind [where P = "\<lambda>h t r. length (answers P t) \<le> j" and R = "\<lambda>_ h t r. length (answers P t) \<le> k"])
    auto

lemma uses_silent:
  "only (\<lambda>q. \<not> P q) m \<Longrightarrow> (\<And>x. uses k P (f x)) \<Longrightarrow> uses k P (ebind m f)"
  using uses_bind [of 0 P m k f] uses_only [of P m] by simp

lemma uses_then_silent:
  "uses k P m \<Longrightarrow> (\<And>x. only (\<lambda>q. \<not> P q) (f x)) \<Longrightarrow> uses k P (ebind m f)"
  using uses_bind [of k P m 0 f] uses_only [of P "f x" for x] by simp

lemma uses_ask: "uses 1 P (ask q)"
  unfolding uses_def by (rule runs_ask) (simp add: answers_Cons)

lemma uses_etry: "uses k P m \<Longrightarrow> uses k P (etry m)"
  unfolding uses_def by (rule runs_etry)

lemmas uses_intros = uses_silent [OF only_eread] uses_silent [OF only_lift_res] uses_silent [OF only_activity]
  uses_etry uses_then_silent [OF uses_ask]

lemma only_if [run_intros]: "only P a \<Longrightarrow> only P b \<Longrightarrow> only P (if c then a else b)"
  by simp

text \<open>The activity requests of one name.\<close>

definition is_act :: "string \<Rightarrow> request \<Rightarrow> bool" where
  "is_act name q = (case q of Act n _ \<Rightarrow> n = name | _ \<Rightarrow> False)"

lemma is_act_simps [simp]:
  "is_act name (Act n a) = (n = name)" "\<not> is_act name (Nap d)" "\<not> is_act name (AwaitDecision ks tm)"
  "\<not> is_act name (RunChild v)" "\<not> is_act name (StartChild v)" "\<not> is_act name (ChildRunId v)"
  "\<not> is_act name (ChildResult v)"
  by (simp_all add: is_act_def)

lemma is_act_same: "is_act a q \<Longrightarrow> is_act b q \<Longrightarrow> a = b"
  by (simp add: is_act_def split: request.splits)

text \<open>The budget contract: an attempt makes the counted request at most once, and a timer is not
  counted.\<close>

locale retry_budget =
  fixes counted :: "request \<Rightarrow> bool"
    and body :: "nat \<Rightarrow> 'a attempt eff"
  assumes one_per_attempt: "runs (body n) (\<lambda>h t r. length (answers counted t) \<le> 1)"
    and nap_not_counted: "\<not> counted (Nap d)"
begin

lemma nap_uncounted: "runs (nap d) (\<lambda>h t r. answers counted t = [])"
  unfolding nap_def by (rule runs_ask) (simp add: answers_Cons nap_not_counted)

lemma attempts_budget:
  "runs (attempts body delay k n err) (\<lambda>h t r. length (answers counted t) \<le> k)"
proof (induction k arbitrary: n err)
  case 0
  show ?case by (auto intro: runs_eret)
next
  case (Suc k)
  have more: "runs (ebind (nap (delay n)) (\<lambda>_. attempts body delay k (Suc n) er))
      (\<lambda>h t r. length (answers counted t) \<le> k)" for er
    by (rule runs_bind [OF nap_uncounted Suc.IH]) auto
  have rest: "runs (case r of Done x \<Rightarrow> eret (Inr x)
       | Again er \<Rightarrow> if k = 0 then eret (Inl er)
           else ebind (nap (delay n)) (\<lambda>_. attempts body delay k (Suc n) er))
      (\<lambda>h t r. length (answers counted t) \<le> k)" for r
    using more by (cases r) (auto intro: runs_eret)
  show ?case
    unfolding attempts.simps by (rule runs_bind [OF one_per_attempt rest]) auto
qed

end

text \<open>The once contract: in addition, an attempt that the loop will repeat never saw the counted
  request succeed, and one that ends the loop did.  Then the request succeeds at most once, nothing
  counted follows the success, and the loop returns exactly when there was one.\<close>

definition failed_only :: "(jsval + jsval) list \<Rightarrow> bool" where
  "failed_only as = (\<forall>a \<in> set as. isl a)"

definition at_most_last :: "(jsval + jsval) list \<Rightarrow> bool" where
  "at_most_last as = failed_only (butlast as)"

lemma failed_only_append [simp]: "failed_only (as @ bs) = (failed_only as \<and> failed_only bs)"
  by (auto simp: failed_only_def)

lemma failed_only_Nil [simp]: "failed_only []"
  by (simp add: failed_only_def)

lemma at_most_last_short: "length as \<le> 1 \<Longrightarrow> at_most_last as"
  by (cases as) (auto simp: at_most_last_def)

lemma at_most_last_append: "failed_only as \<Longrightarrow> at_most_last bs \<Longrightarrow> at_most_last (as @ bs)"
  by (cases "bs = []") (auto simp: at_most_last_def butlast_append failed_only_def dest: in_set_butlastD)

locale retry_once = retry_budget +
  assumes again_failed: "runs (body n) (\<lambda>h t r. \<forall>er. r = Inr (Again er) \<longrightarrow> failed_only (answers counted t))"
    and done_succeeded: "runs (body n) (\<lambda>h t r. \<forall>x. r = Inr (Done x) \<longrightarrow> \<not> failed_only (answers counted t))"
begin

lemma body_runs:
  "runs (body n) (\<lambda>h t r. length (answers counted t) \<le> 1
     \<and> (\<forall>er. r = Inr (Again er) \<longrightarrow> failed_only (answers counted t))
     \<and> (\<forall>x. r = Inr (Done x) \<longrightarrow> \<not> failed_only (answers counted t)))"
  by (intro runs_conj one_per_attempt again_failed done_succeeded)

lemma attempts_once:
  "runs (attempts body delay k n err) (\<lambda>h t r. at_most_last (answers counted t)
     \<and> (\<forall>er. r = Inr (Inl er) \<longrightarrow> failed_only (answers counted t))
     \<and> (\<forall>x. r = Inr (Inr x) \<longrightarrow> \<not> failed_only (answers counted t)))"
proof (induction k arbitrary: n err)
  case 0
  show ?case by (auto intro: runs_eret simp: at_most_last_def)
next
  case (Suc k)
  let ?Q = "\<lambda>t r. at_most_last (answers counted t)
     \<and> (\<forall>er. r = Inr (Inl er) \<longrightarrow> failed_only (answers counted t))
     \<and> (\<forall>x. r = Inr (Inr x) \<longrightarrow> \<not> failed_only (answers counted t))"
  have more: "runs (ebind (nap (delay n)) (\<lambda>_. attempts body delay k (Suc n) er)) (\<lambda>h. ?Q)" for er
    by (rule runs_bind [OF nap_uncounted Suc.IH]) (auto simp: at_most_last_def)
  have rest: "runs (case r of Done x \<Rightarrow> eret (Inr x)
       | Again er \<Rightarrow> if k = 0 then eret (Inl er)
           else ebind (nap (delay n)) (\<lambda>_. attempts body delay k (Suc n) er))
      (\<lambda>h t r'. case r of Done x \<Rightarrow> t = [] \<and> r' = Inr (Inr x) | Again er \<Rightarrow> ?Q t r')" for r
    using more by (cases r) (auto intro: runs_eret simp: at_most_last_def)
  show ?case
    unfolding attempts.simps
    by (rule runs_bind [OF body_runs rest])
      (auto intro: at_most_last_short at_most_last_append split: attempt.splits)
qed

end

end
