(* ===== verification/WorkflowContext.thy ===== *)
theory WorkflowContext
  imports JsRegex
begin

text \<open>
  The runtime context of a workflow run: the pure functions of
  \<open>packages/temporal/src/workflows/skyCommandWorkflowExecutorWorkflow.js\<close> that resolve templates
  in node parameters, redact what an agent may see, and fold the results of the nodes into the
  context that later nodes read, with the helpers they import from
  \<open>packages/tools/src/workflowResultContext.js\<close> and \<open>packages/dev-finalization/src/packaging.js\<close>.
\<close>

section \<open>Safe access\<close>

definition getSafeObject :: "jsval \<Rightarrow> jsval" where
  "getSafeObject v = (if is_obj v then v else JObj [])"

definition getSafeArray :: "jsval \<Rightarrow> jsval" where
  "getSafeArray v = (if is_arr v then v else JArr [])"

lemma getSafeObject_obj [simp]: "getSafeObject (JObj kvs) = JObj kvs"
  by (simp add: getSafeObject_def)

lemma is_obj_getSafeObject [simp]: "is_obj (getSafeObject v)"
  by (simp add: getSafeObject_def)

lemma getSafeObject_idem [simp]: "getSafeObject (getSafeObject v) = getSafeObject v"
  by (simp add: getSafeObject_def)

section \<open>Redaction for agent principals\<close>

definition R4_REDACTED_TEXT :: string where
  "R4_REDACTED_TEXT = ''[REDACTED]''"

definition isR4AgentExecutionContext :: "jsval \<Rightarrow> bool" where
  "isR4AgentExecutionContext context =
     (let executionContext = getSafeObject (jget context ''executionContext'')
      in truthy (jget executionContext ''admissionId'')
         \<and> truthy (jget executionContext ''principalId'')
         \<and> truthy (jget executionContext ''principalCode''))"

definition rx_space :: rx where "rx_space = Rep (Cls is_ws)"

definition rx_authorization :: rx where
  "rx_authorization =
     rx_seq [rx_alts [rx_lit_i ''authorization'', rx_lit_i ''bearer''], rx_space,
             rx_opt (Cls (\<lambda>c. c \<in> set '':='')), rx_space,
             rx_least 8 (Cls (\<lambda>c. is_alnum c \<or> c \<in> set ''._~+/=-''))]"

definition rx_assignment :: rx where
  "rx_assignment =
     rx_seq [rx_alts [rx_lit_i ''password'', rx_lit_i ''passwd'', rx_lit_i ''secret'', rx_lit_i ''token'',
                      rx_lit_i ''credential'',
                      rx_seq [rx_lit_i ''api'', rx_opt (Cls (\<lambda>c. c \<in> set ''_-'')), rx_lit_i ''key''],
                      rx_seq [rx_lit_i ''private'', rx_opt (Cls (\<lambda>c. c \<in> set ''_-'')), rx_lit_i ''key''],
                      rx_seq [rx_lit_i ''connection'', rx_opt (Cls (\<lambda>c. c \<in> set ''_-'')), rx_lit_i ''string'']],
             rx_space, Cls (\<lambda>c. c \<in> set '':=''), rx_space,
             rx_opt (Cls (\<lambda>c. c \<in> {CHR 0x27, CHR 0x22})),
             rx_plus (Cls (\<lambda>c. \<not> (c \<in> {CHR 0x27, CHR 0x22, CHR '','', CHR '';'', CHR ''}''} \<or> is_ws c)))]"

definition rx_sensitive_word :: rx where
  "rx_sensitive_word =
     (let part = Rep (Cls (\<lambda>c. is_word c \<or> c \<in> set ''./-''))
      in rx_seq [Bound, part,
                 rx_alts [rx_lit_i ''secret'', rx_lit_i ''token'', rx_lit_i ''password'', rx_lit_i ''credential''],
                 part, Bound])"

definition rx_provider_key :: rx where
  "rx_provider_key =
     rx_seq [Bound,
             rx_alts [rx_lit_i ''sk'', rx_lit_i ''pk'', rx_lit_i ''ghp'', rx_lit_i ''github_pat'',
                      rx_seq [rx_lit_i ''xox'', Cls (\<lambda>c. lower c \<in> set ''baprs''), rx_lit ''-'']],
             rx_least 8 (Cls (\<lambda>c. is_alnum c \<or> c \<in> set ''_-'')), Bound]"

definition rx_jwt :: rx where
  "rx_jwt =
     (let part = rx_least 10 (Cls (\<lambda>c. is_alnum c \<or> c \<in> set ''_-''))
      in rx_seq [Bound, rx_lit ''eyJ'', part, rx_lit ''.'', part, rx_lit ''.'', part, Bound])"

definition rx_long_token :: rx where
  "rx_long_token =
     (let c = Cls (\<lambda>c. is_alnum c \<or> c \<in> set ''+/_=-'')
      in rx_seq [Bound, Look (Sq (rx_least 32 c) Bound), Look (Sq (Rep c) (Cls is_digit)),
                 rx_least 32 c, Bound])"

definition redactR4AgentText :: "jsval \<Rightarrow> string" where
  "redactR4AgentText v =
     (let s = to_str (jnull_or v (JStr []))
      in foldl (\<lambda>s r. rx_replace r R4_REDACTED_TEXT s) s
           [rx_authorization, rx_assignment, rx_sensitive_word, rx_provider_key, rx_jwt, rx_long_token])"

text \<open>The dot of a regular expression: any character but a line terminator.\<close>

definition rx_any :: rx where
  "rx_any = Cls (\<lambda>c. code_of c \<notin> {10, 13})"

definition rx_sensitive_key :: rx where
  "rx_sensitive_key =
     rx_alts [rx_lit_i ''password'', rx_lit_i ''passwd'', rx_lit_i ''secret'', rx_lit_i ''token'',
              rx_lit_i ''credential'', rx_seq [rx_lit_i ''private'', rx_opt rx_any, rx_lit_i ''key''],
              rx_seq [rx_lit_i ''api'', rx_opt rx_any, rx_lit_i ''key''], rx_lit_i ''authorization'']"

definition sensitive_key :: "string \<Rightarrow> bool" where
  "sensitive_key k = (k \<noteq> [] \<and> rx_test rx_sensitive_key k)"

text \<open>The key is \<open>[]\<close> where the code passes null.\<close>

fun sanitizeR4AgentValue :: "jsval \<Rightarrow> string \<Rightarrow> jsval" where
  "sanitizeR4AgentValue (JArr vs) key =
     (if sensitive_key key then JStr R4_REDACTED_TEXT
      else JArr (map (\<lambda>v. sanitizeR4AgentValue v []) vs))"
| "sanitizeR4AgentValue (JObj kvs) key =
     (if sensitive_key key then JStr R4_REDACTED_TEXT
      else JObj (map (\<lambda>(k, v). (k, sanitizeR4AgentValue v k)) kvs))"
| "sanitizeR4AgentValue (JStr s) key =
     (if sensitive_key key then JStr R4_REDACTED_TEXT else JStr (redactR4AgentText (JStr s)))"
| "sanitizeR4AgentValue v key =
     (if sensitive_key key then JStr R4_REDACTED_TEXT else jnull_or v JNull)"

definition safeR4Value :: "jsval \<Rightarrow> jsval \<Rightarrow> jsval" where
  "safeR4Value v context = (if isR4AgentExecutionContext context then sanitizeR4AgentValue v [] else v)"

section \<open>Keys and paths\<close>

definition normalizeWorkflowIdPart :: "jsval \<Rightarrow> string \<Rightarrow> string" where
  "normalizeWorkflowIdPart v fallback =
     (let s = trim (to_str (jor v (JStr fallback)));
          s1 = map (\<lambda>c. if is_alnum c \<or> c \<in> set ''_-'' then c else CHR ''-'') s;
          normalized = take 180 (strip_one (CHR ''-'') (squash (\<lambda>c. c = CHR ''-'') (CHR ''-'') False s1))
      in if normalized = [] then fallback else normalized)"

definition normalizeContextKey :: "jsval \<Rightarrow> string \<Rightarrow> string" where
  "normalizeContextKey v fallback =
     (let s = trim (to_str (jor v (JStr fallback)));
          s1 = squash (\<lambda>c. \<not> (is_alnum c \<or> c \<in> set ''_.:-'')) (CHR ''_'') False s;
          normalized = take 180 (strip_all (CHR ''_'') s1)
      in if normalized = [] then fallback else normalized)"

definition getWorkflowRuntimeParams :: "jsval \<Rightarrow> jsval" where
  "getWorkflowRuntimeParams input =
     (let safeInput = getSafeObject input
      in getSafeObject (jors [jget safeInput ''params'', jget safeInput ''runtimeParameters'',
                              jget safeInput ''workflowParameters'', jget safeInput ''parameters'']))"

text \<open>\<open>String(path || '').split('.')\<close>, trimmed, without the empty parts.\<close>

definition path_parts :: "string \<Rightarrow> string list" where
  "path_parts path = filter (\<lambda>p. p \<noteq> []) (map trim (split_on (CHR ''.'') path))"

definition arr_nth :: "jsval list \<Rightarrow> nat \<Rightarrow> jsval" where
  "arr_nth vs i = (if i < length vs then vs ! i else JUndef)"

text \<open>\<open>cursor[part]\<close> for a cursor that is neither null nor undefined.\<close>

fun path_step :: "jsval \<Rightarrow> string \<Rightarrow> jsval" where
  "path_step (JArr vs) part =
     (if part \<noteq> [] \<and> list_all is_digit part then arr_nth vs (digits_val part)
      else jget (JArr vs) part)"
| "path_step (JStr s) part =
     (if part \<noteq> [] \<and> list_all is_digit part \<and> nat_str (digits_val part) = part
      then (if digits_val part < length s then JStr [s ! digits_val part] else JUndef)
      else jget (JStr s) part)"
| "path_step v part = jget v part"

fun path_walk :: "jsval \<Rightarrow> string list \<Rightarrow> jsval" where
  "path_walk cursor [] = cursor"
| "path_walk cursor (part # parts) =
     (if is_nullish cursor then JUndef else path_walk (path_step cursor part) parts)"

definition getPathValue :: "jsval \<Rightarrow> string \<Rightarrow> jsval" where
  "getPathValue source path = path_walk source (path_parts path)"

section \<open>Templates\<close>

definition buildTemplateResolutionScope :: "jsval \<Rightarrow> jsval \<Rightarrow> jsval" where
  "buildTemplateResolutionScope requestInput context =
     (let workflowContext = getSafeObject (jors [jget context ''workflowContext'', jget context ''context'', context])
      in JObj
       [(''input'', getSafeObject requestInput),
        (''params'', getSafeObject (jors [jget context ''params'', jget workflowContext ''params'',
                                          getWorkflowRuntimeParams requestInput])),
        (''context'', workflowContext),
        (''workflowContext'', workflowContext),
        (''workflow'', getSafeObject (jget workflowContext ''workflow'')),
        (''nodes'', getSafeObject (jor (jget context ''nodes'') (jget workflowContext ''nodes''))),
        (''last'', getSafeObject (jget workflowContext ''last'')),
        (''previousOutput'', jor (jget context ''previousOutput'') JNull),
        (''previousOutputs'', getSafeObject (jget context ''previousOutputs''))])"

text \<open>The path of a text that is one template and nothing else, and the body of a template that
  starts at the head of a text together with the rest.\<close>

definition exact_template :: "string \<Rightarrow> string option" where
  "exact_template text =
     (let t = trim text; inner = take (length t - 4) (drop 2 t)
      in if 5 \<le> length t \<and> take 2 t = ''{{'' \<and> drop (length t - 2) t = ''}}'' \<and> CHR ''}'' \<notin> set inner
         then Some inner else None)"

definition template_at :: "string \<Rightarrow> (string \<times> string) option" where
  "template_at s =
     (let inner = takeWhile (\<lambda>c. c \<noteq> CHR ''}'') (drop 2 s);
          rest = dropWhile (\<lambda>c. c \<noteq> CHR ''}'') (drop 2 s)
      in if take 2 s = ''{{'' \<and> inner \<noteq> [] \<and> take 2 rest = ''}}'' then Some (inner, drop 2 rest) else None)"

lemma template_at_shorter: "template_at s = Some (p, rest) \<Longrightarrow> length rest < length s"
proof -
  assume "template_at s = Some (p, rest)"
  then have t2: "take 2 s = ''{{''" and r: "rest = drop 2 (dropWhile (\<lambda>c. c \<noteq> CHR ''}'') (drop 2 s))"
    by (auto simp: template_at_def Let_def split: if_splits)
  have "length (dropWhile (\<lambda>c. c \<noteq> CHR ''}'') (drop 2 s)) \<le> length s - 2"
    using length_dropWhile_le [of "\<lambda>c. c \<noteq> CHR ''}''" "drop 2 s"] by simp
  moreover from t2 have "2 \<le> length s" by (cases s; cases "tl s") auto
  ultimately show ?thesis using r by simp
qed

definition template_text :: "jsval \<Rightarrow> string" where
  "template_text resolved =
     (if is_nullish resolved then []
      else if is_obj resolved \<or> is_arr resolved then (case json resolved of Some s \<Rightarrow> s | None \<Rightarrow> [])
      else to_str resolved)"

function substitute_templates :: "jsval \<Rightarrow> string \<Rightarrow> string" where
  "substitute_templates scope s =
     (case template_at s of
        Some (path, rest) \<Rightarrow> template_text (getPathValue scope path) @ substitute_templates scope rest
      | None \<Rightarrow> (case s of [] \<Rightarrow> [] | c # cs \<Rightarrow> c # substitute_templates scope cs))"
  by pat_completeness auto
termination
  by (relation "measure (\<lambda>(scope, s). length s)") (auto simp: template_at_shorter)

declare substitute_templates.simps [simp del]

definition resolveTemplateString :: "string \<Rightarrow> jsval \<Rightarrow> jsval" where
  "resolveTemplateString text scope =
     (case exact_template text of
        Some path \<Rightarrow>
          (let resolved = getPathValue scope path
           in if resolved = JUndef then JStr [] else json_clone resolved)
      | None \<Rightarrow> JStr (substitute_templates scope text))"

fun resolveRuntimeTemplates :: "jsval \<Rightarrow> jsval \<Rightarrow> jsval" where
  "resolveRuntimeTemplates (JStr s) scope = resolveTemplateString s scope"
| "resolveRuntimeTemplates (JArr vs) scope = JArr (map (\<lambda>v. resolveRuntimeTemplates v scope) vs)"
| "resolveRuntimeTemplates (JObj kvs) scope =
     JObj (map (\<lambda>(k, v). (k, resolveRuntimeTemplates v scope)) kvs)"
| "resolveRuntimeTemplates v scope = v"

definition applyR5RepositoryZipParameters :: "jsval \<Rightarrow> jsval \<Rightarrow> jsval \<Rightarrow> jsval \<Rightarrow> jsval" where
  "applyR5RepositoryZipParameters workflowCode nodeKey targetCode parameters =
     (if trim (to_str (jor workflowCode (JStr []))) = ''dev_change_finalize''
        \<and> trim (to_str (jor nodeKey (JStr []))) = ''repo_zip_node''
        \<and> trim (to_str (jor targetCode (JStr []))) = ''repo_zip_generate''
      then obj_with parameters [(''includeTests'', JBool True)]
      else obj_with parameters [])"

definition buildNodeParameters :: "jsval \<Rightarrow> jsval \<Rightarrow> jsval \<Rightarrow> jsval" where
  "buildNodeParameters node requestInput executionContext =
     (let input = getSafeObject requestInput;
          nodeInputs = getSafeObject (jget input ''nodeInputs'');
          parameterOverrides = getSafeObject (jget input ''parameterOverrides'');
          nodeKey = to_str (jget node ''nodeKey'');
          nodeOverride = getSafeObject (jor (jget nodeInputs nodeKey) (jget parameterOverrides nodeKey));
          mergedParameters = obj_with (getSafeObject (jget node ''inputParameters'')) (obj_kvs nodeOverride);
          resolvedParameters =
            resolveRuntimeTemplates mergedParameters (buildTemplateResolutionScope input executionContext)
      in applyR5RepositoryZipParameters
           (jget (jget executionContext ''definition'') ''workflowCode'')
           (jget node ''nodeKey'') (jget node ''targetCode'') resolvedParameters)"

section \<open>The context object\<close>

text \<open>The object is built from an empty one and every stored value is a clone, so the in-place
  updates of the code have no other reader.\<close>

fun set_nested :: "(string \<times> jsval) list \<Rightarrow> string list \<Rightarrow> jsval \<Rightarrow> (string \<times> jsval) list" where
  "set_nested target [] v = target"
| "set_nested target [part] v = kv_set target part (json_clone v)"
| "set_nested target (part # parts) v =
     kv_set target part (JObj (set_nested (obj_kvs (kv_get target part)) parts v))"

definition setNestedContextValue :: "(string \<times> jsval) list \<Rightarrow> string \<Rightarrow> jsval \<Rightarrow> (string \<times> jsval) list" where
  "setNestedContextValue target contextKey v = set_nested target (path_parts contextKey) v"

definition buildContextObjectFromPatch :: "jsval \<Rightarrow> jsval" where
  "buildContextObjectFromPatch patch =
     JObj (foldl (\<lambda>acc (contextKey, v). setNestedContextValue acc contextKey v) []
             (obj_kvs (getSafeObject patch)))"

definition buildContextObjectFromPersistedRows :: "jsval \<Rightarrow> jsval" where
  "buildContextObjectFromPersistedRows rows =
     (let patch = foldl (\<lambda>acc item.
            let contextKey = trim (to_str (jor (jget item ''contextKey'') (JStr [])))
            in if contextKey \<noteq> [] then kv_set acc contextKey (json_clone (jget item ''value'')) else acc)
            [] (arr_items (getSafeArray rows))
      in buildContextObjectFromPatch (JObj patch))"

fun merge_kvs :: "(string \<times> jsval) list \<Rightarrow> (string \<times> jsval) list \<Rightarrow> (string \<times> jsval) list" where
  "merge_kvs output [] = output"
| "merge_kvs output ((key, v) # rest) =
     merge_kvs (kv_set output key
       (case v of
          JObj vkvs \<Rightarrow>
            (case kv_get output key of
               JObj okvs \<Rightarrow> JObj (merge_kvs okvs vkvs)
             | _ \<Rightarrow> json_clone v)
        | _ \<Rightarrow> json_clone v)) rest"

definition mergeContextObjects :: "jsval \<Rightarrow> jsval \<Rightarrow> jsval" where
  "mergeContextObjects base patchObject =
     JObj (merge_kvs (obj_kvs (getSafeObject base)) (obj_kvs (getSafeObject patchObject)))"

definition applyContextPatch :: "jsval \<Rightarrow> jsval \<Rightarrow> jsval" where
  "applyContextPatch runtimeContext patch =
     mergeContextObjects runtimeContext (buildContextObjectFromPatch patch)"

definition buildInitialWorkflowContextPatch :: "jsval \<Rightarrow> jsval \<Rightarrow> jsval \<Rightarrow> jsval" where
  "buildInitialWorkflowContextPatch workflowRunRecordId defn requestInput = JObj
     [(''workflow.workflowRunRecordId'', jor workflowRunRecordId JNull),
      (''workflow.workflowCode'', jor (jget defn ''workflowCode'') JNull),
      (''workflow.workflowDisplayName'', jor (jget defn ''displayName'') JNull),
      (''workflow.versionNumber'', jor (jget defn ''publishedVersionNumber'') JNull),
      (''workflow.runSource'', jor (jget requestInput ''runSource'') (JStr ''manual'')),
      (''workflow.triggerType'', jor (jget requestInput ''triggerType'') (JStr ''MANUAL'')),
      (''workflow.input'', getSafeObject requestInput),
      (''params'', getWorkflowRuntimeParams requestInput)]"

section \<open>Tool results\<close>

definition isToolResultEnvelope :: "jsval \<Rightarrow> bool" where
  "isToolResultEnvelope v =
     (is_obj v \<and> jtypeof (jget v ''schemaVersion'') = ''string''
      \<and> jtypeof (jget v ''success'') = ''boolean''
      \<and> jtypeof (jget v ''outputType'') = ''string'' \<and> has_own v ''output'')"

definition getToolResultDomainOutput :: "jsval \<Rightarrow> jsval" where
  "getToolResultDomainOutput v = (if isToolResultEnvelope v then jget v ''output'' else v)"

definition getResultSummary :: "jsval \<Rightarrow> jsval \<Rightarrow> string" where
  "getResultSummary result output =
     (let safeResult = getSafeObject result; safeOutput = getSafeObject output
      in trim (to_str (jors [jget safeResult ''summary'', jget safeResult ''message'',
                             jget safeOutput ''summary'', jget safeOutput ''message'', JStr []])))"

definition getResultStatus :: "jsval \<Rightarrow> jsval \<Rightarrow> string" where
  "getResultStatus result output =
     (let safeResult = getSafeObject result; safeOutput = getSafeObject output;
          success = jget safeResult ''success''
      in to_upper (trim (to_str (jors
           [jget safeResult ''status'', jget safeOutput ''status'', jget safeOutput ''outcome'',
            JStr (if success = JBool False then ''FAILED''
                  else if success = JBool True then ''SUCCESS'' else [])]))))"

fun first_duration :: "jsval list \<Rightarrow> jsval" where
  "first_duration [] = JNull"
| "first_duration (c # cs) =
     (case finite_num c of
        Some r \<Rightarrow> if 0 \<le> r then jnum r else first_duration cs
      | None \<Rightarrow> first_duration cs)"

definition getResultDurationMs :: "jsval \<Rightarrow> jsval \<Rightarrow> jsval" where
  "getResultDurationMs result output =
     first_duration [jget (getSafeObject result) ''durationMs'', jget (getSafeObject output) ''durationMs'']"

definition str_or_null :: "string \<Rightarrow> jsval" where
  "str_or_null s = (if s = [] then JNull else JStr s)"

definition buildCanonicalNodeResultView :: "string \<Rightarrow> jsval \<Rightarrow> jsval \<Rightarrow> jsval" where
  "buildCanonicalNodeResultView nodeKey rawResult existingNode =
     (let result = getSafeObject rawResult;
          output = json_clone (getToolResultDomainOutput result);
          outputObject = getSafeObject output;
          safeExistingNode = getSafeObject existingNode;
          summary = getResultSummary result output;
          status = getResultStatus result output;
          durationMs = jnull_or (jget safeExistingNode ''durationMs'') (getResultDurationMs result output);
          envelope = isToolResultEnvelope result
      in obj_with (obj_with outputObject (obj_kvs safeExistingNode))
          [(''nodeKey'', jors [JStr nodeKey, jget safeExistingNode ''nodeKey'', JNull]),
           (''result'', result),
           (''output'', output),
           (''warnings'', if envelope then getSafeArray (jget result ''warnings'')
                          else getSafeArray (jget safeExistingNode ''warnings'')),
           (''error'', if envelope then jor (jget result ''error'') JNull
                       else jor (jget safeExistingNode ''error'') JNull),
           (''metadata'', if envelope then getSafeObject (jget result ''metadata'')
                          else getSafeObject (jget safeExistingNode ''metadata'')),
           (''summary'', JStr summary),
           (''nodeStatus'', jor (jget safeExistingNode ''status'') JNull),
           (''runStatus'', jor (jget safeExistingNode ''status'') JNull),
           (''outputStatus'', str_or_null status),
           (''outputSummary'', JStr summary),
           (''durationMs'', durationMs)])"

definition normalizeLookupKey :: "string \<Rightarrow> string" where
  "normalizeLookupKey nodeKey =
     (let s = strip_all (CHR ''_'')
                (squash (\<lambda>c. \<not> (is_alnum c \<or> c \<in> set ''_.:-'')) (CHR ''_'') False nodeKey)
      in if s = [] then ''node'' else s)"

definition lookup_add :: "(string \<times> jsval) list \<Rightarrow> string \<times> jsval \<Rightarrow> (string \<times> jsval) list" where
  "lookup_add lookup entry =
     (let nodeKey = trim (fst entry);
          normalizedNodeKey = normalizeLookupKey nodeKey;
          existingNode = getSafeObject (jor (kv_get lookup nodeKey) (kv_get lookup normalizedNodeKey));
          nodeView = buildCanonicalNodeResultView nodeKey (snd entry) existingNode;
          lookup1 = (if nodeKey \<noteq> [] then kv_set lookup nodeKey nodeView else lookup)
      in kv_set lookup1 normalizedNodeKey nodeView)"

definition buildConditionNodeLookup :: "jsval \<Rightarrow> jsval \<Rightarrow> jsval" where
  "buildConditionNodeLookup runtimeNodes nodeOutputsByKey =
     JObj (foldl lookup_add (obj_kvs (getSafeObject runtimeNodes)) (obj_kvs (getSafeObject nodeOutputsByKey)))"

section \<open>What a finished node adds to the context\<close>

definition getWorkflowNodeOutputSummary :: "jsval \<Rightarrow> string" where
  "getWorkflowNodeOutputSummary output =
     (let safeOutput = getSafeObject output
      in to_str (jors [jget safeOutput ''summary'', jget safeOutput ''message'', JStr []]))"

definition node_duration :: "jsval \<Rightarrow> jsval \<Rightarrow> jsval \<Rightarrow> rat option" where
  "node_duration nodeRun result outputObject =
     (case finite_num (jget nodeRun ''durationMs'') of
        Some r \<Rightarrow> Some r
      | None \<Rightarrow>
          (case finite_num (jget result ''durationMs'') of
             Some r \<Rightarrow> Some r
           | None \<Rightarrow> finite_num (jget outputObject ''durationMs'')))"

definition node_output_object :: "jsval \<Rightarrow> jsval" where
  "node_output_object nodeRun =
     getSafeObject (json_clone (getToolResultDomainOutput (getSafeObject (jget nodeRun ''output''))))"

definition node_patch_entries :: "jsval \<Rightarrow> (string \<times> jsval) list" where
  "node_patch_entries nodeRun =
     (let result = getSafeObject (jget nodeRun ''output'');
          output = json_clone (getToolResultDomainOutput result);
          outputObject = getSafeObject output;
          nodeKey = normalizeContextKey (jget nodeRun ''nodeKey'') ''node'';
          resultSummary = getWorkflowNodeOutputSummary result;
          summary = (if resultSummary \<noteq> [] then resultSummary else getWorkflowNodeOutputSummary outputObject);
          envelope = isToolResultEnvelope result;
          k = (\<lambda>f. ''nodes.'' @ nodeKey @ ''.'' @ f)
      in [(k ''nodeKey'', jget nodeRun ''nodeKey''),
          (k ''nodeTypeCode'', jor (jget nodeRun ''nodeTypeCode'') JNull),
          (k ''targetCode'', jor (jget nodeRun ''targetCode'') JNull),
          (k ''status'', jor (jget nodeRun ''status'') JNull),
          (k ''attemptCount'', jnull_or (jget nodeRun ''attemptCount'') (jnat 0)),
          (k ''startedAt'', jor (jget nodeRun ''startedAt'') JNull),
          (k ''completedAt'', jor (jget nodeRun ''completedAt'') JNull),
          (k ''result'', result),
          (k ''output'', output),
          (k ''warnings'', if envelope then getSafeArray (jget result ''warnings'') else JArr []),
          (k ''error'', if envelope then jor (jget result ''error'') JNull else JNull),
          (k ''metadata'', if envelope then getSafeObject (jget result ''metadata'') else JObj []),
          (k ''summary'', JStr summary),
          (''last.nodeKey'', jget nodeRun ''nodeKey''),
          (''last.status'', jor (jget nodeRun ''status'') JNull),
          (''last.result'', result),
          (''last.output'', output),
          (''last.completedAt'', jor (jget nodeRun ''completedAt'') JNull)])"

definition node_output_alias :: "jsval \<Rightarrow> jsval \<Rightarrow> jsval \<Rightarrow> string" where
  "node_output_alias nodeRun result outputObject =
     (let metadata = jget nodeRun ''metadata''
      in normalizeContextKey
           (jors [jget (jget metadata ''parameters'') ''saveOutputAs'',
                  jget (jget metadata ''parameters'') ''outputKey'',
                  jget metadata ''saveOutputAs'', jget result ''saveOutputAs'',
                  jget outputObject ''saveOutputAs'']) [])"

definition node_context_updates :: "jsval \<Rightarrow> jsval \<Rightarrow> (string \<times> jsval) list" where
  "node_context_updates result outputObject =
     kv_spread (obj_kvs (getSafeObject (jget result ''contextUpdates'')))
       (obj_kvs (getSafeObject (jget outputObject ''contextUpdates'')))"

definition buildNodeContextPatch :: "jsval \<Rightarrow> jsval" where
  "buildNodeContextPatch nodeRun =
     (if \<not> truthy (jget nodeRun ''nodeKey'') then JObj []
      else
        let result = getSafeObject (jget nodeRun ''output'');
            output = json_clone (getToolResultDomainOutput result);
            outputObject = getSafeObject output;
            nodeKey = normalizeContextKey (jget nodeRun ''nodeKey'') ''node'';
            patch0 = kv_spread [] (node_patch_entries nodeRun);
            patch1 =
              (case node_duration nodeRun result outputObject of
                 Some d \<Rightarrow>
                   if 0 \<le> d then kv_set (kv_set patch0 (''nodes.'' @ nodeKey @ ''.durationMs'') (jnum d))
                                  ''last.durationMs'' (jnum d)
                   else patch0
               | None \<Rightarrow> patch0);
            saveOutputAs = node_output_alias nodeRun result outputObject;
            patch2 = (if saveOutputAs \<noteq> [] then kv_set patch1 saveOutputAs output else patch1);
            contextUpdates = node_context_updates result outputObject
        in JObj (foldl (\<lambda>patch (contextKey, v).
                          kv_set patch (normalizeContextKey (JStr contextKey) ''value'') v)
                   patch2 contextUpdates))"

definition buildWorkflowExecutionContext ::
  "jsval \<Rightarrow> jsval \<Rightarrow> jsval \<Rightarrow> jsval \<Rightarrow> jsval \<Rightarrow> jsval \<Rightarrow> jsval" where
  "buildWorkflowExecutionContext baseContext runtimeContext requestInput nodeOutputsByKey
       previousNodeOutput currentNodeKey =
     (let safeRuntimeContext = getSafeObject runtimeContext;
          params = getSafeObject (jor (jget safeRuntimeContext ''params'') (getWorkflowRuntimeParams requestInput));
          previousOutputs = getSafeObject nodeOutputsByKey;
          previousResult = getSafeObject previousNodeOutput;
          previousOutput = json_clone (getToolResultDomainOutput previousResult);
          conditionNodes = buildConditionNodeLookup (jget safeRuntimeContext ''nodes'') previousOutputs
      in obj_with (getSafeObject baseContext)
          [(''workflowContext'', safeRuntimeContext),
           (''params'', params),
           (''nodes'', getSafeObject (jget safeRuntimeContext ''nodes'')),
           (''previousOutputs'', previousOutputs),
           (''previousResult'', previousResult),
           (''previousOutput'', previousOutput),
           (''conditionEvaluation'', JObj
             [(''input'', requestInput),
              (''workflow'', getSafeObject (jget safeRuntimeContext ''workflow'')),
              (''context'', safeRuntimeContext),
              (''workflowContext'', safeRuntimeContext),
              (''params'', params),
              (''nodes'', conditionNodes),
              (''nodeOutputs'', previousOutputs),
              (''previousOutputs'', previousOutputs),
              (''previous'', previousOutput),
              (''previousResult'', previousResult),
              (''previousOutput'', previousOutput),
              (''last'', getSafeObject (jget safeRuntimeContext ''last'')),
              (''currentNodeKey'', currentNodeKey)])])"

section \<open>Lemmas: redaction\<close>

text \<open>Every member whose key is sensitive holds the redaction text, at any depth.\<close>

fun redacted :: "jsval \<Rightarrow> bool" where
  "redacted (JArr vs) = (\<forall>v \<in> set vs. redacted v)"
| "redacted (JObj kvs) =
     (\<forall>(k, v) \<in> set kvs. redacted v \<and> (sensitive_key k \<longrightarrow> v = JStr R4_REDACTED_TEXT))"
| "redacted _ = True"

lemma sanitize_sensitive: "sensitive_key key \<Longrightarrow> sanitizeR4AgentValue v key = JStr R4_REDACTED_TEXT"
  by (cases v) auto

lemma redacted_sanitize: "redacted (sanitizeR4AgentValue v key)"
proof (induction v key rule: sanitizeR4AgentValue.induct)
  case (2 kvs key)
  then show ?case by (auto simp: sanitize_sensitive)
qed (auto simp: jnull_or_def)

section \<open>Lemmas: keys\<close>

lemma set_squash: "set (squash p r b s) \<subseteq> insert r {c \<in> set s. \<not> p c}"
  by (induction s arbitrary: b) auto

lemma set_strip_first: "set (strip_first c s) \<subseteq> set s"
  by (auto simp: strip_first_def split: list.splits)

lemma set_strip_one: "set (strip_one c s) \<subseteq> set s"
  using set_strip_first [of c "rev (strip_first c s)"] set_strip_first [of c s]
  by (auto simp: strip_one_def)

lemma set_strip_all: "set (strip_all c s) \<subseteq> set s"
  by (auto simp: strip_all_def dest!: set_dropWhileD)

definition id_char :: "char \<Rightarrow> bool" where
  "id_char c = (is_alnum c \<or> c \<in> set ''_-'')"

definition context_key_char :: "char \<Rightarrow> bool" where
  "context_key_char c = (is_alnum c \<or> c \<in> set ''_.:-'')"

lemma set_normalizeWorkflowIdPart:
  assumes "\<forall>c \<in> set fallback. id_char c" "c \<in> set (normalizeWorkflowIdPart v fallback)"
  shows "id_char c"
proof (cases "normalizeWorkflowIdPart v fallback = fallback")
  case True
  with assms show ?thesis by simp
next
  case False
  define s where "s = map (\<lambda>c. if is_alnum c \<or> c \<in> set ''_-'' then c else CHR ''-'')
                        (trim (to_str (jor v (JStr fallback))))"
  from False assms(2)
  have "c \<in> set (take 180 (strip_one (CHR ''-'') (squash (\<lambda>c. c = CHR ''-'') (CHR ''-'') False s)))"
    by (simp add: normalizeWorkflowIdPart_def Let_def s_def split: if_splits)
  then have "c \<in> set (squash (\<lambda>c. c = CHR ''-'') (CHR ''-'') False s)"
    using set_strip_one by (meson in_set_takeD subsetD)
  then have "c = CHR ''-'' \<or> c \<in> set s"
    using set_squash by fastforce
  then show ?thesis
    by (auto simp: s_def id_char_def)
qed

lemma set_normalizeContextKey:
  assumes "\<forall>c \<in> set fallback. context_key_char c" "c \<in> set (normalizeContextKey v fallback)"
  shows "context_key_char c"
proof (cases "normalizeContextKey v fallback = fallback")
  case True
  with assms show ?thesis by simp
next
  case False
  define s where "s = squash (\<lambda>c. \<not> (is_alnum c \<or> c \<in> set ''_.:-'')) (CHR ''_'') False
                        (trim (to_str (jor v (JStr fallback))))"
  from False assms(2) have "c \<in> set (take 180 (strip_all (CHR ''_'') s))"
    by (simp add: normalizeContextKey_def Let_def s_def split: if_splits)
  then have "c \<in> set s"
    using set_strip_all by (meson in_set_takeD subsetD)
  then show ?thesis
    using set_squash unfolding s_def context_key_char_def by fastforce
qed

section \<open>Lemmas: the context object\<close>

text \<open>\<open>at_path t ps x\<close>: the objects of \<open>t\<close> lead along \<open>ps\<close> to the value \<open>x\<close>.\<close>

fun at_path :: "(string \<times> jsval) list \<Rightarrow> string list \<Rightarrow> jsval \<Rightarrow> bool" where
  "at_path t [] x = False"
| "at_path t [p] x = (map_of t p = Some x)"
| "at_path t (p # ps) x = (\<exists>s. map_of t p = Some (JObj s) \<and> at_path s ps x)"

lemma path_walk_at_path: "at_path t ps x \<Longrightarrow> path_walk (JObj t) ps = x"
  by (induction t ps x rule: at_path.induct) (auto simp: kv_get_def)

lemma at_path_set_nested: "ps \<noteq> [] \<Longrightarrow> at_path (set_nested t ps v) ps (json_clone v)"
  by (induction t ps v rule: set_nested.induct) auto

lemma set_nested_Cons_other:
  "q \<noteq> p \<Longrightarrow> map_of (set_nested t (p # ps) v) q = map_of t q"
  by (cases ps) auto

lemma at_path_set_nested_parallel:
  "at_path t ps x \<Longrightarrow> ps \<parallel> qs \<Longrightarrow> at_path (set_nested t qs v) ps x"
proof (induction t ps x arbitrary: qs rule: at_path.induct)
  case (2 t p x)
  then obtain q qs' where qs: "qs = q # qs'" "q \<noteq> p"
    by (cases qs) (auto simp: parallel_def)
  with 2 show ?case by (simp add: set_nested_Cons_other)
next
  case (3 t p p' ps x)
  then obtain s where s: "map_of t p = Some (JObj s)" "at_path s (p' # ps) x" by auto
  from 3(3) obtain q qs' where qs: "qs = q # qs'" by (cases qs) (auto simp: parallel_def)
  show ?case
  proof (cases "q = p")
    case False
    with s qs show ?thesis by (auto simp: set_nested_Cons_other)
  next
    case True
    with 3(3) qs have par: "p' # ps \<parallel> qs'" by (auto simp: parallel_def)
    then obtain r rs where "qs' = r # rs" by (cases qs') (auto simp: parallel_def)
    with s True qs 3(1) [OF s(2) par] show ?thesis
      by (auto simp: kv_get_def)
  qed
qed simp

text \<open>A key written once, among writes that do not touch its path, is found under its path.\<close>

lemma at_path_writes:
  "at_path t ps x \<Longrightarrow> \<forall>(k, v) \<in> set kvs. ps \<parallel> path_parts k \<Longrightarrow>
     at_path (foldl (\<lambda>acc (k, v). setNestedContextValue acc k v) t kvs) ps x"
proof (induction kvs arbitrary: t)
  case (Cons p kvs)
  obtain k v where p: "p = (k, v)" by (cases p)
  with Cons.prems have "at_path (setNestedContextValue t k v) ps x"
    by (simp add: setNestedContextValue_def at_path_set_nested_parallel)
  with Cons p show ?case by simp
qed simp

lemma at_path_patch:
  assumes "path_parts k \<noteq> []" "\<forall>(k', v') \<in> set kvs2. path_parts k \<parallel> path_parts k'"
  shows "at_path (obj_kvs (buildContextObjectFromPatch (JObj (kvs1 @ (k, v) # kvs2))))
           (path_parts k) (json_clone v)"
proof -
  define t where "t = foldl (\<lambda>acc (k, v). setNestedContextValue acc k v) [] kvs1"
  have "at_path (setNestedContextValue t k v) (path_parts k) (json_clone v)"
    unfolding setNestedContextValue_def by (rule at_path_set_nested [OF assms(1)])
  from at_path_writes [OF this assms(2)] show ?thesis
    by (simp add: buildContextObjectFromPatch_def t_def)
qed

lemma distinct_set_nested: "distinct (map fst t) \<Longrightarrow> distinct (map fst (set_nested t ps v))"
  by (induction t ps v rule: set_nested.induct) (auto intro: distinct_kv_set)

definition obj_keyed :: "(string \<times> jsval) list \<Rightarrow> bool" where
  "obj_keyed t = well_keyed (JObj t)"

lemma obj_keyed_get: "obj_keyed t \<Longrightarrow> well_keyed (kv_get t k)"
  by (cases "map_of t k") (auto simp: obj_keyed_def kv_get_def dest: map_of_SomeD)

lemma obj_keyed_sub: "obj_keyed t \<Longrightarrow> map_of t k = Some (JObj s) \<Longrightarrow> obj_keyed s"
  using obj_keyed_get [of t k] by (simp add: obj_keyed_def kv_get_def)

lemma set_kv_set: "set (kv_set kvs k v) \<subseteq> insert (k, v) (set kvs)"
  by (induction kvs k v rule: kv_set.induct) auto

lemma obj_keyed_set: "obj_keyed t \<Longrightarrow> well_keyed v \<Longrightarrow> obj_keyed (kv_set t k v)"
  using set_kv_set [of t k v] by (auto simp: obj_keyed_def distinct_kv_set)

lemma well_keyed_clone: "well_keyed v \<Longrightarrow> well_keyed (json_clone v)"
proof (induction v rule: json_clone.induct)
  case (4 kvs)
  have "distinct (map fst (filter (\<lambda>(k, v). v \<noteq> JUndef) kvs))"
    using 4(2) by (simp add: distinct_map_filter)
  with 4 show ?case by (auto simp: case_prod_unfold comp_def)
qed auto

lemma well_keyed_obj_kvs: "well_keyed v \<Longrightarrow> obj_keyed (obj_kvs v)"
  by (cases v) (auto simp: obj_keyed_def)

lemma obj_keyed_set_nested: "obj_keyed t \<Longrightarrow> well_keyed v \<Longrightarrow> obj_keyed (set_nested t ps v)"
proof (induction t ps v rule: set_nested.induct)
  case (2 t p v)
  then show ?case by (simp add: obj_keyed_set well_keyed_clone)
next
  case (3 t p p' ps v)
  have "obj_keyed (obj_kvs (kv_get t p))"
    by (rule well_keyed_obj_kvs [OF obj_keyed_get [OF 3(2)]])
  then have "obj_keyed (set_nested (obj_kvs (kv_get t p)) (p' # ps) v)"
    using 3 by blast
  then have "well_keyed (JObj (set_nested (obj_kvs (kv_get t p)) (p' # ps) v))"
    by (simp only: obj_keyed_def)
  with 3(2) show ?case
    by (simp only: set_nested.simps obj_keyed_set)
qed simp

lemma obj_keyed_writes:
  "obj_keyed t \<Longrightarrow> \<forall>(k, v) \<in> set kvs. well_keyed v \<Longrightarrow>
     obj_keyed (foldl (\<lambda>acc (k, v). setNestedContextValue acc k v) t kvs)"
  by (induction kvs arbitrary: t) (auto simp: setNestedContextValue_def obj_keyed_set_nested)

lemma obj_keyed_patch:
  "well_keyed patch \<Longrightarrow> obj_keyed (obj_kvs (buildContextObjectFromPatch patch))"
proof -
  assume wk: "well_keyed patch"
  have "obj_keyed []" by (simp add: obj_keyed_def)
  moreover have "\<forall>(k, v) \<in> set (obj_kvs (getSafeObject patch)). well_keyed v"
    using wk by (cases patch) (auto simp: getSafeObject_def)
  ultimately show ?thesis
    by (simp add: buildContextObjectFromPatch_def obj_keyed_writes)
qed

lemma obj_keyed_patch_entries:
  "\<forall>(k, v) \<in> set kvs. well_keyed v \<Longrightarrow> obj_keyed (obj_kvs (buildContextObjectFromPatch (JObj kvs)))"
proof -
  assume "\<forall>(k, v) \<in> set kvs. well_keyed v"
  moreover have "obj_keyed []" by (simp add: obj_keyed_def)
  ultimately show ?thesis by (simp add: buildContextObjectFromPatch_def obj_keyed_writes)
qed

text \<open>The value a merge leaves under one key.\<close>

definition merged_value :: "jsval \<Rightarrow> jsval \<Rightarrow> jsval" where
  "merged_value old v =
     (case v of JObj vkvs \<Rightarrow> (case old of JObj okvs \<Rightarrow> JObj (merge_kvs okvs vkvs) | _ \<Rightarrow> json_clone v)
      | _ \<Rightarrow> json_clone v)"

lemma merge_kvs_Cons:
  "merge_kvs out ((k, v) # rest) = merge_kvs (kv_set out k (merged_value (kv_get out k) v)) rest"
  by (simp add: merged_value_def)

declare merge_kvs.simps(2) [simp del]

lemma map_of_merge:
  "distinct (map fst patch) \<Longrightarrow>
     map_of (merge_kvs out patch) k
       = (case map_of patch k of
            None \<Rightarrow> map_of out k
          | Some v \<Rightarrow> Some (merged_value (kv_get out k) v))"
proof (induction patch arbitrary: out)
  case Nil
  then show ?case by simp
next
  case (Cons p patch)
  obtain a b where p: "p = (a, b)" by (cases p)
  with Cons.prems have notin: "map_of patch a = None"
    by (auto simp: map_of_eq_None_iff)
  show ?case
    using Cons notin by (auto simp: p merge_kvs_Cons kv_get_def split: option.splits)
qed

lemma map_of_clone:
  "distinct (map fst s) \<Longrightarrow> map_of s k = Some v \<Longrightarrow> v \<noteq> JUndef \<Longrightarrow>
     map_of (map (\<lambda>(k, v). (k, json_clone v)) (filter (\<lambda>(k, v). v \<noteq> JUndef) s)) k = Some (json_clone v)"
  by (induction s) (auto split: if_splits dest: map_of_SomeD simp: rev_image_eqI)

lemma at_path_clone:
  "at_path s ps x \<Longrightarrow> obj_keyed s \<Longrightarrow> x \<noteq> JUndef \<Longrightarrow>
     at_path (map (\<lambda>(k, v). (k, json_clone v)) (filter (\<lambda>(k, v). v \<noteq> JUndef) s)) ps (json_clone x)"
proof (induction s ps x rule: at_path.induct)
  case (2 t p x)
  then show ?case by (simp add: map_of_clone obj_keyed_def)
next
  case (3 t p p' ps x)
  then obtain s where s: "map_of t p = Some (JObj s)" "at_path s (p' # ps) x" by auto
  have sk: "obj_keyed s"
    by (rule obj_keyed_sub [OF 3(3) s(1)])
  have "map_of (map (\<lambda>(k, v). (k, json_clone v)) (filter (\<lambda>(k, v). v \<noteq> JUndef) t)) p
          = Some (json_clone (JObj s))"
    using 3(3) s(1) by (intro map_of_clone) (simp_all add: obj_keyed_def)
  with 3(1) [OF s(2) sk 3(4)] show ?case by simp
qed simp

lemma at_path_merge:
  "at_path patch ps x \<Longrightarrow> obj_keyed patch \<Longrightarrow> \<not> is_obj x \<Longrightarrow> x \<noteq> JUndef \<Longrightarrow>
     at_path (merge_kvs out patch) ps (json_clone x)"
proof (induction patch ps x arbitrary: out rule: at_path.induct)
  case (2 t p x)
  then show ?case
    by (cases x) (auto simp: map_of_merge obj_keyed_def merged_value_def)
next
  case (3 t p p' ps x)
  then obtain s where s: "map_of t p = Some (JObj s)" "at_path s (p' # ps) x" by auto
  have sk: "obj_keyed s"
    by (rule obj_keyed_sub [OF 3(3) s(1)])
  have m: "map_of (merge_kvs out t) p = Some (merged_value (kv_get out p) (JObj s))"
    using 3(3) s(1) by (simp add: map_of_merge obj_keyed_def)
  show ?case
  proof (cases "\<exists>okvs. kv_get out p = JObj okvs")
    case True
    then obtain okvs where "kv_get out p = JObj okvs" by blast
    with m 3(1) [OF s(2) sk 3(4,5)] show ?thesis
      by (simp add: merged_value_def)
  next
    case False
    then have "merged_value (kv_get out p) (JObj s) = json_clone (JObj s)"
      by (cases "kv_get out p") (auto simp: merged_value_def)
    with m at_path_clone [OF s(2) sk 3(5)] show ?thesis by simp
  qed
qed simp

section \<open>Lemmas: key paths and templates\<close>

text \<open>A path segment: not empty, no dot, no blank at its ends.\<close>

definition plain_segment :: "string \<Rightarrow> bool" where
  "plain_segment w = (w \<noteq> [] \<and> CHR ''.'' \<notin> set w \<and> trim w = w)"

lemma split_on_single: "d \<notin> set w \<Longrightarrow> split_on d w = [w]"
  by (induction w) auto

lemma split_on_append: "d \<notin> set w \<Longrightarrow> split_on d (w @ d # rest) = w # split_on d rest"
  by (induction w) auto

lemma path_parts_single: "plain_segment w \<Longrightarrow> path_parts w = [w]"
  by (simp add: path_parts_def plain_segment_def split_on_single)

lemma path_parts_dot: "plain_segment w \<Longrightarrow> path_parts (w @ CHR ''.'' # rest) = w # path_parts rest"
  by (simp add: path_parts_def plain_segment_def split_on_append)

lemma dropWhile_none: "\<forall>c \<in> set s. \<not> P c \<Longrightarrow> dropWhile P s = s"
  by (cases s) auto

lemma no_blank_trim: "\<forall>c \<in> set s. \<not> is_ws c \<Longrightarrow> trim s = s"
  by (simp add: trim_def trim_start_def dropWhile_none)

lemma kv_spread_distinct:
  "distinct (map fst (base @ kvs)) \<Longrightarrow> kv_spread base kvs = base @ kvs"
proof (induction kvs arbitrary: base)
  case (Cons p kvs)
  obtain k v where p: "p = (k, v)" by (cases p)
  with Cons.prems have "kv_set base k v = base @ [(k, v)]"
    by (intro kv_set_new) auto
  with Cons p show ?case by simp
qed simp

lemma exact_template_braces:
  assumes "path \<noteq> []" "CHR ''}'' \<notin> set path"
  shows "exact_template (''{{'' @ path @ ''}}'') = Some path"
proof -
  have "\<not> is_ws (CHR ''{'')" "\<not> is_ws (CHR ''}'')"
    by (simp_all add: is_ws_def)
  then have t: "trim (''{{'' @ path @ ''}}'') = ''{{'' @ path @ ''}}''"
    by (simp add: trim_def trim_start_def)
  have "1 \<le> length path" using assms(1) by (cases path) auto
  with assms(2) t show ?thesis
    by (simp add: exact_template_def Let_def)
qed

lemma template_at_sublist:
  assumes "template_at s = Some x"
  shows "prefix ''{{'' s"
proof -
  from assms have "take 2 s = ''{{''"
    by (auto simp: template_at_def Let_def split: if_splits)
  with take_is_prefix [of 2 s] show ?thesis by simp
qed

lemma substitute_no_template: "\<not> sublist ''{{'' s \<Longrightarrow> substitute_templates scope s = s"
proof (induction s)
  case Nil
  then show ?case by (simp add: substitute_templates.simps template_at_def)
next
  case (Cons c cs)
  then have "template_at (c # cs) = None"
    using template_at_sublist prefix_imp_sublist by (metis option.exhaust)
  moreover have "\<not> sublist ''{{'' cs"
    using Cons.prems by (auto simp: sublist_Cons_right)
  ultimately show ?case
    using Cons.IH by (simp add: substitute_templates.simps [of scope "c # cs"])
qed

lemma exact_template_sublist: "exact_template s = Some x \<Longrightarrow> sublist ''{{'' s"
proof -
  assume "exact_template s = Some x"
  then have "take 2 (trim s) = ''{{''"
    by (auto simp: exact_template_def Let_def split: if_splits)
  with take_is_prefix [of 2 "trim s"] have "prefix ''{{'' (trim s)" by simp
  moreover have "sublist (trim s) s"
  proof -
    have "prefix (trim s) (trim_start s)"
      unfolding trim_def by (metis rev_rev_ident suffix_dropWhile suffix_to_prefix)
    moreover have "suffix (trim_start s) s"
      unfolding trim_start_def by (rule suffix_dropWhile)
    ultimately show ?thesis
      by (meson prefix_imp_sublist sublist_order.order.trans suffix_imp_sublist)
  qed
  ultimately show ?thesis
    by (meson prefix_imp_sublist sublist_order.order.trans)
qed

text \<open>No string of the value contains an opening brace pair.\<close>

fun template_free :: "jsval \<Rightarrow> bool" where
  "template_free (JStr s) = (\<not> sublist ''{{'' s)"
| "template_free (JArr vs) = (\<forall>v \<in> set vs. template_free v)"
| "template_free (JObj kvs) = (\<forall>(k, v) \<in> set kvs. template_free v)"
| "template_free _ = True"

lemma resolve_template_free_str:
  "\<not> sublist ''{{'' s \<Longrightarrow> resolveTemplateString s scope = JStr s"
  using exact_template_sublist [of s]
  by (auto simp: resolveTemplateString_def substitute_no_template split: option.splits)

section \<open>Properties\<close>

text \<open>A value written into the runtime context under a dotted key is read
  back, as its JSON clone, by the path lookup that templates and conditions use.\<close>

theorem context_write_read:
  assumes "path_parts contextKey \<noteq> []"
  shows "getPathValue (JObj (setNestedContextValue target contextKey v)) contextKey = json_clone v"
  unfolding getPathValue_def setNestedContextValue_def
  by (rule path_walk_at_path [OF at_path_set_nested [OF assms]])

theorem context_write_read_witness:
  "getPathValue (JObj (setNestedContextValue [(''nodes'', JNull)] ''nodes.a.status'' (JStr ''SUCCESS'')))
     ''nodes.a.status'' = json_clone (JStr ''SUCCESS'')"
proof -
  have "path_parts ''nodes.a.status'' \<noteq> []" by code_simp
  from context_write_read [OF this] show ?thesis .
qed

text \<open>Whatever a workflow run shows under an agent execution context has
  every member with a sensitive key replaced by the redaction text, at any depth; outside such a
  context values pass unchanged.\<close>

theorem agent_values_redacted:
  "(if isR4AgentExecutionContext context then redacted (safeR4Value v context)
    else safeR4Value v context = v)"
  by (simp add: safeR4Value_def redacted_sanitize)

text \<open>Resolving the runtime templates of a parameter tree that contains
  no opening brace pair leaves the tree unchanged, whatever the scope.\<close>

theorem template_free_unchanged:
  assumes "template_free v"
  shows "resolveRuntimeTemplates v scope = v"
  using assms
proof (induction v scope rule: resolveRuntimeTemplates.induct)
  case (1 s scope)
  then show ?case by (simp add: resolve_template_free_str)
next
  case (2 vs scope)
  then show ?case by (simp add: map_idI)
next
  case (3 kvs scope)
  then show ?case by (auto intro!: map_idI)
qed auto

theorem template_free_unchanged_witness:
  "resolveRuntimeTemplates (JObj [(''a'', JArr [JStr ''x{y'', jnum 3])]) JNull
     = JObj [(''a'', JArr [JStr ''x{y'', jnum 3])]"
proof -
  have "template_free (JObj [(''a'', JArr [JStr ''x{y'', jnum 3])])"
    by (simp add: sublist_Cons_right)
  from template_free_unchanged [OF this] show ?thesis .
qed

text \<open>A parameter that is exactly one template is replaced by the value
  at its path with the value's own type (an object stays an object, a number a number), not by its
  text; only a missing value becomes the empty string.\<close>

theorem exact_template_keeps_type:
  assumes "path \<noteq> []" "CHR ''}'' \<notin> set path"
  shows "resolveRuntimeTemplates (JStr (''{{'' @ path @ ''}}'')) scope
           = (let resolved = getPathValue scope path
              in if resolved = JUndef then JStr [] else json_clone resolved)"
  using exact_template_braces [OF assms] by (simp add: resolveTemplateString_def)

theorem exact_template_keeps_type_witness:
  "resolveRuntimeTemplates (JStr (''{{'' @ ''params.limit'' @ ''}}''))
     (JObj [(''params'', JObj [(''limit'', jnum 5)])]) = jnum 5"
proof -
  have "(''params.limit'' :: string) \<noteq> []" "CHR ''}'' \<notin> set ''params.limit''" by simp_all
  note e = exact_template_keeps_type [OF this, of "JObj [(''params'', JObj [(''limit'', jnum 5)])]"]
  have "getPathValue (JObj [(''params'', JObj [(''limit'', jnum 5)])]) ''params.limit'' = jnum 5"
    by code_simp
  with e show ?thesis by (simp add: Let_def)
qed

text \<open>Merging a patch with distinct keys into the runtime context is decided key
  by key: an absent key keeps its value, two objects are merged, anything else is replaced by the
  clone of the patch's value.\<close>

theorem merge_is_keywise:
  assumes "distinct (map fst patch)"
  shows "jget (mergeContextObjects (JObj base) (JObj patch)) k
           = (case map_of patch k of
                None \<Rightarrow> jget (JObj base) k
              | Some (JObj new) \<Rightarrow>
                  (case jget (JObj base) k of
                     JObj old \<Rightarrow> mergeContextObjects (JObj old) (JObj new)
                   | _ \<Rightarrow> json_clone (JObj new))
              | Some v \<Rightarrow> json_clone v)"
  using map_of_merge [OF assms, of base k]
  by (auto simp: mergeContextObjects_def kv_get_def merged_value_def split: option.splits jsval.splits)

theorem merge_is_keywise_witness:
  "jget (mergeContextObjects (JObj [(''a'', JObj [(''x'', JNull)])]) (JObj [(''a'', JObj [(''y'', JNull)])])) ''a''
     = JObj [(''x'', JNull), (''y'', JNull)]"
proof -
  have "distinct (map fst [(''a'', JObj [(''y'', JNull)])])" by simp
  note m = merge_is_keywise [OF this, of "[(''a'', JObj [(''x'', JNull)])]" "''a''"]
  show ?thesis
    unfolding m by (simp add: mergeContextObjects_def merge_kvs_Cons merged_value_def)
qed

text \<open>The shape of the patch of a finished node.\<close>

lemma well_keyed_jget: "well_keyed v \<Longrightarrow> well_keyed (jget v k)"
  using obj_keyed_get by (cases v) (auto simp: obj_keyed_def)

lemma well_keyed_safe: "well_keyed v \<Longrightarrow> well_keyed (getSafeObject v)" "well_keyed v \<Longrightarrow> well_keyed (getSafeArray v)"
  by (simp_all add: getSafeObject_def getSafeArray_def)

lemma well_keyed_or: "well_keyed a \<Longrightarrow> well_keyed b \<Longrightarrow> well_keyed (jor a b)"
  "well_keyed a \<Longrightarrow> well_keyed b \<Longrightarrow> well_keyed (jnull_or a b)"
  by (simp_all add: jor_def jnull_or_def)

lemma well_keyed_domain: "well_keyed v \<Longrightarrow> well_keyed (getToolResultDomainOutput v)"
  by (simp add: getToolResultDomainOutput_def well_keyed_jget)

lemma well_keyed_entries:
  "well_keyed nodeRun \<Longrightarrow> \<forall>(k, v) \<in> set (node_patch_entries nodeRun). well_keyed v"
  by (simp add: node_patch_entries_def Let_def well_keyed_jget well_keyed_safe well_keyed_or
      well_keyed_clone well_keyed_domain)

lemma distinct_entries: "distinct (map fst (node_patch_entries nodeRun))"
  by (simp add: node_patch_entries_def Let_def)

definition node_path :: "jsval \<Rightarrow> string \<Rightarrow> string" where
  "node_path nodeRun f = ''nodes.'' @ normalizeContextKey (jget nodeRun ''nodeKey'') ''node'' @ ''.'' @ f"

lemma node_patch_shape:
  assumes "truthy (jget nodeRun ''nodeKey'')"
    and alone: "node_output_alias nodeRun (getSafeObject (jget nodeRun ''output'')) (node_output_object nodeRun) = []"
      "node_context_updates (getSafeObject (jget nodeRun ''output'')) (node_output_object nodeRun) = []"
  shows "\<exists>extra. buildNodeContextPatch nodeRun = JObj (node_patch_entries nodeRun @ extra)
           \<and> (\<forall>(k, v) \<in> set extra. k \<in> {node_path nodeRun ''durationMs'', ''last.durationMs''} \<and> well_keyed v)"
proof -
  let ?es = "node_patch_entries nodeRun"
  have es: "kv_spread [] ?es = ?es"
    using kv_spread_distinct [of "[]" ?es] distinct_entries by simp
  have new: "node_path nodeRun ''durationMs'' \<notin> fst ` set ?es"
    "''last.durationMs'' \<notin> fst ` set (?es @ [(node_path nodeRun ''durationMs'', x)])" for x
    by (simp_all add: node_patch_entries_def Let_def node_path_def)
  have sets: "kv_set (kv_set ?es (node_path nodeRun ''durationMs'') v) ''last.durationMs'' v
      = ?es @ [(node_path nodeRun ''durationMs'', v), (''last.durationMs'', v)]" for v
    using new by (simp add: kv_set_new)
  show ?thesis
  proof (cases "node_duration nodeRun (getSafeObject (jget nodeRun ''output'')) (node_output_object nodeRun)")
    case None
    with assms es show ?thesis
      by (intro exI [of _ "[]"]) (simp add: buildNodeContextPatch_def Let_def node_output_object_def)
  next
    case (Some d)
    show ?thesis
    proof (cases "0 \<le> d")
      case True
      with Some assms es sets [of "jnum d"] show ?thesis
        by (intro exI [of _ "[(node_path nodeRun ''durationMs'', jnum d), (''last.durationMs'', jnum d)]"])
          (simp add: buildNodeContextPatch_def Let_def node_output_object_def node_path_def)
    next
      case False
      with Some assms es show ?thesis
        by (intro exI [of _ "[]"]) (simp add: buildNodeContextPatch_def Let_def node_output_object_def)
    qed
  qed
qed

lemma node_path_parts:
  assumes "plain_segment k" "normalizeContextKey (jget nodeRun ''nodeKey'') ''node'' = k" "plain_segment f"
  shows "path_parts (node_path nodeRun f) = [''nodes'', k, f]"
proof -
  have n: "plain_segment ''nodes''" by code_simp
  show ?thesis
    using assms path_parts_dot [OF n, of "k @ CHR ''.'' # f"] path_parts_dot [of k f]
      path_parts_single [of f]
    by (simp add: node_path_def)
qed

lemma node_patch_split:
  "\<exists>kvs1 kvs2. node_patch_entries nodeRun
       = kvs1 @ (node_path nodeRun ''status'', jor (jget nodeRun ''status'') JNull) # kvs2
     \<and> map fst kvs2 = map (node_path nodeRun) [''attemptCount'', ''startedAt'', ''completedAt'', ''result'',
         ''output'', ''warnings'', ''error'', ''metadata'', ''summary'']
       @ [''last.nodeKey'', ''last.status'', ''last.result'', ''last.output'', ''last.completedAt'']"
  (is "\<exists>kvs1 kvs2. ?E = ?R kvs1 kvs2 \<and> ?K kvs2")
proof (intro exI conjI)
  show "?E = ?R (take 3 ?E) (drop 4 ?E)"
    by (simp add: node_patch_entries_def node_path_def Let_def)
  show "?K (drop 4 ?E)"
    by (simp add: node_patch_entries_def node_path_def Let_def)
qed

lemma parallel_last:
  "[a, b, x] \<parallel> [a, b, y] \<longleftrightarrow> x \<noteq> y" for a b x y :: string
  by (auto simp: parallel_def)

lemma parallel_first: "a \<noteq> c \<Longrightarrow> a # xs \<parallel> c # ys" for a c :: string
  by (auto simp: parallel_def)

text \<open>After a node with a status and a plain key has finished, with no output
  alias and no context updates of its own, later nodes read its status under
  \<open>nodes.<key>.status\<close>, whatever the context held before.\<close>

theorem node_status_visible:
  assumes wk: "well_keyed nodeRun"
    and key: "jget nodeRun ''nodeKey'' = JStr k" "plain_segment k" "normalizeContextKey (JStr k) ''node'' = k"
    and st: "jget nodeRun ''status'' = JStr st" "st \<noteq> []"
    and alone: "node_output_alias nodeRun (getSafeObject (jget nodeRun ''output'')) (node_output_object nodeRun) = []"
      "node_context_updates (getSafeObject (jget nodeRun ''output'')) (node_output_object nodeRun) = []"
  shows "getPathValue (applyContextPatch ctx (buildNodeContextPatch nodeRun)) (''nodes.'' @ k @ ''.status'')
           = JStr st"
proof -
  have nk: "normalizeContextKey (jget nodeRun ''nodeKey'') ''node'' = k"
    using key by simp
  have "k \<noteq> []" using key(2) by (simp add: plain_segment_def)
  with key(1) have "truthy (jget nodeRun ''nodeKey'')" by simp
  from node_patch_shape [OF this alone] obtain extra where
    patch: "buildNodeContextPatch nodeRun = JObj (node_patch_entries nodeRun @ extra)"
    and extra: "\<forall>(k, v) \<in> set extra. k \<in> {node_path nodeRun ''durationMs'', ''last.durationMs''} \<and> well_keyed v"
    by blast
  from node_patch_split [of nodeRun] st obtain kvs1 kvs2 where
    es: "node_patch_entries nodeRun = kvs1 @ (node_path nodeRun ''status'', JStr st) # kvs2"
    and keys: "map fst kvs2 = map (node_path nodeRun) [''attemptCount'', ''startedAt'', ''completedAt'', ''result'',
         ''output'', ''warnings'', ''error'', ''metadata'', ''summary'']
       @ [''last.nodeKey'', ''last.status'', ''last.result'', ''last.output'', ''last.completedAt'']"
    by (auto simp: jor_def)
  note parts = node_path_parts [OF key(2) nk]
  have segs: "plain_segment ''status''" "plain_segment ''attemptCount''" "plain_segment ''startedAt''"
    "plain_segment ''completedAt''" "plain_segment ''result''" "plain_segment ''output''"
    "plain_segment ''warnings''" "plain_segment ''error''" "plain_segment ''metadata''"
    "plain_segment ''summary''" "plain_segment ''durationMs''"
    by code_simp+
  have lasts: "path_parts ''last.nodeKey'' = [''last'', ''nodeKey'']"
    "path_parts ''last.status'' = [''last'', ''status'']" "path_parts ''last.result'' = [''last'', ''result'']"
    "path_parts ''last.output'' = [''last'', ''output'']"
    "path_parts ''last.completedAt'' = [''last'', ''completedAt'']"
    "path_parts ''last.durationMs'' = [''last'', ''durationMs'']"
    by code_simp+
  have status: "path_parts (node_path nodeRun ''status'') = [''nodes'', k, ''status'']"
    by (rule parts [OF segs(1)])
  have "\<forall>k' \<in> set (map fst kvs2). path_parts (node_path nodeRun ''status'') \<parallel> path_parts k'"
    unfolding keys by (simp add: status parts segs lasts parallel_last parallel_first)
  moreover have "\<forall>k' \<in> fst ` set extra. path_parts (node_path nodeRun ''status'') \<parallel> path_parts k'"
    using extra by (auto simp: status parts segs lasts parallel_last parallel_first)
  ultimately have par: "\<forall>(k', v') \<in> set (kvs2 @ extra). path_parts (node_path nodeRun ''status'') \<parallel> path_parts k'"
    by auto
  let ?t = "obj_kvs (buildContextObjectFromPatch (buildNodeContextPatch nodeRun))"
  have "at_path ?t [''nodes'', k, ''status''] (JStr st)"
    using at_path_patch [OF _ par, of kvs1 "JStr st"] by (simp add: patch es status)
  moreover have "obj_keyed ?t"
    unfolding patch by (rule obj_keyed_patch_entries) (use well_keyed_entries [OF wk] extra in auto)
  ultimately have "at_path (merge_kvs (obj_kvs (getSafeObject ctx)) ?t) [''nodes'', k, ''status''] (JStr st)"
    using at_path_merge by fastforce
  note walk = path_walk_at_path [OF this]
  have "obj_kvs (getSafeObject (buildContextObjectFromPatch (buildNodeContextPatch nodeRun))) = ?t"
    by (simp add: buildContextObjectFromPatch_def)
  moreover have "''nodes.'' @ k @ ''.status'' = node_path nodeRun ''status''"
    by (simp add: node_path_def nk)
  ultimately show ?thesis
    by (simp only: getPathValue_def applyContextPatch_def mergeContextObjects_def status walk)
qed

theorem node_status_visible_witness:
  "getPathValue (applyContextPatch (JObj [(''nodes'', JNum (Fin 3))])
       (buildNodeContextPatch (JObj [(''nodeKey'', JStr ''load''), (''status'', JStr ''SUCCEEDED'')])))
     ''nodes.load.status'' = JStr ''SUCCEEDED''"
proof -
  let ?run = "JObj [(''nodeKey'', JStr ''load''), (''status'', JStr ''SUCCEEDED'')]"
  have "well_keyed ?run" "jget ?run ''nodeKey'' = JStr ''load''" "plain_segment ''load''"
    "normalizeContextKey (JStr ''load'') ''node'' = ''load''" "jget ?run ''status'' = JStr ''SUCCEEDED''"
    "''SUCCEEDED'' \<noteq> []"
    "node_output_alias ?run (getSafeObject (jget ?run ''output'')) (node_output_object ?run) = []"
    "node_context_updates (getSafeObject (jget ?run ''output'')) (node_output_object ?run) = []"
    by (code_simp+)
  from node_status_visible [OF this] show ?thesis by simp
qed

end
