(* ===== verification/WorkflowNodes.thy ===== *)
theory WorkflowNodes
  imports WorkflowContext
begin

text \<open>
  The pure functions of the workflow executor that prepare and judge a node
  (\<open>packages/temporal/src/workflows/skyCommandWorkflowExecutorWorkflow.js\<close>): retry policy and
  attempt numbers, error serialization, permissions, the input of a Temporal template, the
  parameters and outcome of WAIT, CONDITION and HUMAN_APPROVAL nodes, the execution plan and the
  resolution of branches.  A thrown value is the \<open>Inl\<close> of a result.
\<close>

section \<open>Limits and thrown failures\<close>

definition MAX_WAIT_DURATION_MS :: int where
  "MAX_WAIT_DURATION_MS = 24 * 60 * 60 * 1000"

definition MAX_HUMAN_APPROVAL_TIMEOUT_MS :: int where
  "MAX_HUMAN_APPROVAL_TIMEOUT_MS = 30 * 24 * 60 * 60 * 1000"

definition WAIT_UNIT_MULTIPLIERS_MS :: "(string \<times> rat) list" where
  "WAIT_UNIT_MULTIPLIERS_MS =
     [(''MILLISECONDS'', 1), (''SECONDS'', 1000), (''MINUTES'', 60 * 1000), (''HOURS'', 60 * 60 * 1000)]"

definition HUMAN_APPROVAL_TIMEOUT_UNIT_MULTIPLIERS_MS :: "(string \<times> rat) list" where
  "HUMAN_APPROVAL_TIMEOUT_UNIT_MULTIPLIERS_MS =
     [(''MINUTES'', 60 * 1000), (''HOURS'', 60 * 60 * 1000), (''DAYS'', 24 * 60 * 60 * 1000)]"

text \<open>\<open>ApplicationFailure.create\<close>, always non-retryable here.\<close>

definition application_failure :: "string \<Rightarrow> string \<Rightarrow> jsval list \<Rightarrow> jsval" where
  "application_failure message type details = JObj
     [(''name'', JStr ''ApplicationFailure''), (''message'', JStr message), (''type'', JStr type),
      (''nonRetryable'', JBool True), (''details'', JArr details)]"

section \<open>Retry policy and attempts\<close>

definition normalizePositiveInteger :: "jsval \<Rightarrow> int \<Rightarrow> int \<Rightarrow> int" where
  "normalizePositiveInteger v fallback mx =
     (case parse_int v of None \<Rightarrow> fallback | Some n \<Rightarrow> if n \<le> 0 then fallback else min n mx)"

definition normalizeNonNegativeInteger :: "jsval \<Rightarrow> int \<Rightarrow> int \<Rightarrow> int" where
  "normalizeNonNegativeInteger v fallback mx =
     (case parse_int v of None \<Rightarrow> fallback | Some n \<Rightarrow> if n < 0 then fallback else min n mx)"

definition getNodeAttemptOffset :: "jsval \<Rightarrow> string \<Rightarrow> int" where
  "getNodeAttemptOffset requestInput nodeKey =
     (let nodeOffset = jget (getSafeObject (jget requestInput ''retryAttemptOffsetByNodeKey'')) nodeKey
      in if \<not> is_nullish nodeOffset then normalizeNonNegativeInteger nodeOffset 0 100000
         else normalizeNonNegativeInteger (jget requestInput ''retryAttemptOffset'') 0 100000)"

definition getDisplayedAttemptCount :: "int \<Rightarrow> int \<Rightarrow> int" where
  "getDisplayedAttemptCount attemptOffset internalAttempt =
     normalizeNonNegativeInteger (jnum (of_int attemptOffset)) 0 100000
       + normalizePositiveInteger (jnum (of_int internalAttempt)) 1 100000"

record retry_policy =
  maximumAttempts :: int
  initialIntervalSeconds :: int

definition getNodeRetryPolicy :: "jsval \<Rightarrow> retry_policy" where
  "getNodeRetryPolicy node =
     (let retryPolicy = getSafeObject (jget node ''retryPolicy'')
      in \<lparr>maximumAttempts = normalizePositiveInteger
            (jor (jget retryPolicy ''maximumAttempts'') (jget retryPolicy ''maximum_attempts'')) 1 10,
          initialIntervalSeconds = normalizePositiveInteger
            (jor (jget retryPolicy ''initialIntervalSeconds'') (jget retryPolicy ''initial_interval_seconds''))
            5 3600\<rparr>)"

definition retry_policy_value :: "retry_policy \<Rightarrow> jsval" where
  "retry_policy_value p = JObj
     [(''maximumAttempts'', jnum (of_int (maximumAttempts p))),
      (''initialIntervalSeconds'', jnum (of_int (initialIntervalSeconds p)))]"

section \<open>Errors\<close>

text \<open>\<open>String(error)\<close> of an error object whose message is empty is its name.\<close>

definition error_string :: "jsval \<Rightarrow> string" where
  "error_string e = (if is_obj e then to_str (jnull_or (jget e ''name'') (JStr ''Error'')) else to_str e)"

definition failure_code :: "string \<Rightarrow> bool" where
  "failure_code c = (c \<noteq> [] \<and> length c \<le> 80 \<and> list_all (\<lambda>x. is_word x \<or> x \<in> set ''.:-'') c)"

record serialized_error =
  err_message :: string
  err_name :: jsval
  err_details :: jsval

definition serializeError :: "jsval \<Rightarrow> jsval \<Rightarrow> serialized_error" where
  "serializeError err context =
     (let r4 = isR4AgentExecutionContext context;
          rawMessage = (if truthy (jget err ''message'') then to_str (jget err ''message'') else error_string err);
          candidate = trim (to_str (jors [jget (jget err ''details'') ''code'', jget err ''code'',
                                          JStr ''WORKFLOW_EXECUTION_FAILED'']));
          code = (if failure_code candidate then candidate else ''WORKFLOW_EXECUTION_FAILED'')
      in \<lparr>err_message = (if r4 then ''Workflow execution failed ('' @ code @ '').'' else rawMessage),
          err_name = jor (jget err ''name'') (JStr ''Error''),
          err_details = (if r4 then sanitizeR4AgentValue (jor (jget err ''details'') (JObj [])) []
                         else getSafeObject (jget err ''details''))\<rparr>)"

definition serialized_value :: "serialized_error \<Rightarrow> jsval" where
  "serialized_value n = JObj
     [(''message'', JStr (err_message n)), (''name'', err_name n), (''details'', err_details n)]"

text \<open>The failure every executor throws last: \<open>type: normalizedError.name || fallback\<close>.\<close>

definition node_failure :: "serialized_error \<Rightarrow> string \<Rightarrow> jsval" where
  "node_failure n fallback =
     application_failure (err_message n) (to_str (jor (err_name n) (JStr fallback))) [serialized_value n]"

section \<open>Permissions\<close>

definition getPermissionSet :: "jsval \<Rightarrow> jsval list res" where
  "getPermissionSet permissions =
     rbind (rmap (\<lambda>p. rbind (jread p ''permissionCode'')
                        (\<lambda>c. Inr (jor c (jget p ''permission_code''))))
             (arr_items (getSafeArray permissions)))
       (\<lambda>codes. Inr (filter truthy codes))"

definition assertWorkflowPermission :: "jsval \<Rightarrow> jsval \<Rightarrow> string \<Rightarrow> unit res" where
  "assertWorkflowPermission permissionCode permissions action =
     (if \<not> truthy permissionCode then Inr ()
      else rbind (getPermissionSet permissions) (\<lambda>codes.
        if \<not> list_ex (strict_eq permissionCode) codes
        then Inl (application_failure
               (''Permission denied for '' @ (if action \<noteq> [] then action else ''workflow action'') @ ''.'')
               ''SkyServerWorkflowPermissionError''
               [JObj [(''permissionCode'', permissionCode), (''action'', JStr action)]])
        else Inr ()))"

section \<open>Temporal template input\<close>

definition normalizeStringArray :: "jsval \<Rightarrow> string list" where
  "normalizeStringArray v =
     (let rawValues = (if is_arr v then arr_items v
            else map (\<lambda>item. JStr (trim item))
                   (split_on (CHR '','') (squash (\<lambda>c. c = CHR '','' \<or> is_ws c) (CHR '','') False
                     (to_str (jor v (JStr []))))));
          normalized = map (\<lambda>r. to_upper (trim (to_str (jor r (JStr []))))) rawValues
      in foldl (\<lambda>out n. if n \<noteq> [] \<and> n \<notin> set out then out @ [n] else out) [] normalized)"

text \<open>\<open>Math.min(n, m)\<close> where \<open>m\<close> is any value.\<close>

definition num_min :: "rat \<Rightarrow> jsnum \<Rightarrow> jsnum" where
  "num_min n m =
     (case m of Fin r \<Rightarrow> Fin (min n r) | NaN \<Rightarrow> NaN | PosInf \<Rightarrow> Fin n | NegInf \<Rightarrow> NegInf)"

definition normalizeTemplatePositiveInteger :: "jsval \<Rightarrow> jsval \<Rightarrow> jsval \<Rightarrow> jsval" where
  "normalizeTemplatePositiveInteger v fallback mx =
     (case parse_int v of
        None \<Rightarrow> fallback
      | Some n \<Rightarrow> if n \<le> 0 then fallback else JNum (num_min (of_int n) (to_num mx)))"

definition buildTemporalTemplateInput :: "jsval \<Rightarrow> jsval \<Rightarrow> string \<Rightarrow> jsval" where
  "buildTemporalTemplateInput template parameters workflowId =
     (let safeParameters = getSafeObject parameters;
          input0 = obj_with safeParameters
            [(''workflowId'', jor (jget safeParameters ''workflowId'') (JStr workflowId)),
             (''workflowCode'', jget template ''workflowCode''),
             (''runSource'', jor (jget safeParameters ''runSource'') (JStr ''skyserver_workflow_node''))];
          input1 = (if has_own input0 ''indicators''
            then obj_with input0 [(''indicators'', JArr (map JStr (normalizeStringArray (jget input0 ''indicators''))))]
            else input0);
          input2 = (if has_own input1 ''concurrency'' \<or> truthy (jget template ''defaultConcurrency'')
            then obj_with input1 [(''concurrency'', normalizeTemplatePositiveInteger
                   (jor (jget input1 ''concurrency'') (jget input1 ''batchSize''))
                   (jor (jget template ''defaultConcurrency'') (jnat 3))
                   (jor (jget template ''maxConcurrency'') (jnat 10)))]
            else input1)
      in if has_own input2 ''timeoutMs'' \<or> truthy (jget template ''defaultTimeoutMs'')
         then obj_with input2 [(''timeoutMs'', normalizeTemplatePositiveInteger
                (jget input2 ''timeoutMs'')
                (jor (jget template ''defaultTimeoutMs'') (jnat 1800000))
                (jor (jget template ''maxTimeoutMs'') (jnat 86400000)))]
         else input2)"

definition buildTemporalResultPreview :: "jsval \<Rightarrow> nat \<Rightarrow> string \<Rightarrow> string" where
  "buildTemporalResultPreview v maxLength productIdentity =
     (let text = (case json_pretty [] (jor v (JObj [])) of Some s \<Rightarrow> s | None \<Rightarrow> [])
      in if maxLength < length text
         then take maxLength text @ [CHR 0x0A, CHR 0x0A] @ ''['' @ productIdentity
                @ '' Workflow Executor] Temporal result preview truncated.''
         else text)"

section \<open>WAIT nodes\<close>

definition isBlankValue :: "jsval \<Rightarrow> bool" where
  "isBlankValue v = (is_nullish v \<or> trim (to_str v) = [])"

definition createWaitInputFailure :: "string \<Rightarrow> jsval \<Rightarrow> jsval" where
  "createWaitInputFailure message details =
     application_failure message ''SkyServerWaitNodeInputError'' [details]"

text \<open>\<open>String(v).trim().toUpperCase()\<close> with every run of characters outside the class turned into one
  underscore and one underscore dropped at either end; then the table of aliases.\<close>

definition normal_token :: "(char \<Rightarrow> bool) \<Rightarrow> jsval \<Rightarrow> string" where
  "normal_token ok v =
     strip_one (CHR ''_'') (squash (\<lambda>c. \<not> ok c) (CHR ''_'') False (to_upper (trim (to_str v))))"

definition via_alias :: "(string \<times> string) list \<Rightarrow> string \<Rightarrow> string" where
  "via_alias aliases n =
     (case map_of aliases n of Some a \<Rightarrow> if a \<noteq> [] then a else n | None \<Rightarrow> n)"

definition wait_unit_aliases :: "(string \<times> string) list" where
  "wait_unit_aliases =
     [(''MS'', ''MILLISECONDS''), (''MILLISECOND'', ''MILLISECONDS''), (''MILLISECONDS'', ''MILLISECONDS''),
      (''SECOND'', ''SECONDS''), (''SECONDS'', ''SECONDS''), (''SEC'', ''SECONDS''), (''S'', ''SECONDS''),
      (''MINUTE'', ''MINUTES''), (''MINUTES'', ''MINUTES''), (''MIN'', ''MINUTES''), (''M'', ''MINUTES''),
      (''HOUR'', ''HOURS''), (''HOURS'', ''HOURS''), (''HR'', ''HOURS''), (''H'', ''HOURS'')]"

definition normalizeWaitUnit :: "jsval \<Rightarrow> string res" where
  "normalizeWaitUnit v =
     (let unit = via_alias wait_unit_aliases (normal_token is_upper (jor v (JStr ''SECONDS'')))
      in if map_of WAIT_UNIT_MULTIPLIERS_MS unit = None
         then Inl (createWaitInputFailure ''Unsupported WAIT duration unit.''
                (JObj [(''unit'', v), (''allowed'', JArr (map (JStr \<circ> fst) WAIT_UNIT_MULTIPLIERS_MS))]))
         else Inr unit)"

definition unit_ms :: "(string \<times> rat) list \<Rightarrow> string \<Rightarrow> rat" where
  "unit_ms table unit = (case map_of table unit of Some m \<Rightarrow> m | None \<Rightarrow> 0)"

text \<open>\<open>Number(v)\<close> where it is finite and positive.\<close>

definition positive_num :: "jsval \<Rightarrow> rat option" where
  "positive_num v =
     (case finite_num v of Some r \<Rightarrow> if 0 < r then Some r else None | None \<Rightarrow> None)"

definition parseWaitDurationMs :: "jsval \<Rightarrow> int res" where
  "parseWaitDurationMs parameters =
     (let input = getSafeObject parameters;
          rawDurationMs = jnull_or (jget input ''durationMs'')
                            (jnull_or (jget input ''waitMs'') (jget input ''delayMs''))
      in if \<not> isBlankValue rawDurationMs
         then (case positive_num rawDurationMs of
                 None \<Rightarrow> Inl (createWaitInputFailure ''WAIT durationMs must be a positive number.''
                               (JObj [(''durationMs'', rawDurationMs)]))
               | Some parsedDurationMs \<Rightarrow> Inr (round_half_up parsedDurationMs))
         else rbind (normalizeWaitUnit (jors [jget input ''unit'', jget input ''durationUnit'', JStr ''SECONDS'']))
           (\<lambda>unit.
             let rawDuration = jnull_or (jget input ''duration'') (jnull_or (jget input ''waitDuration'')
                   (jnull_or (jget input ''delayDuration'') (jnum (1000 / unit_ms WAIT_UNIT_MULTIPLIERS_MS unit))))
             in case positive_num rawDuration of
                  None \<Rightarrow> Inl (createWaitInputFailure ''WAIT duration must be a positive number.''
                                (JObj [(''duration'', rawDuration)]))
                | Some parsedDuration \<Rightarrow>
                    Inr (round_half_up (parsedDuration * unit_ms WAIT_UNIT_MULTIPLIERS_MS unit))))"

definition normalizeWaitParameters :: "jsval \<Rightarrow> jsval res" where
  "normalizeWaitParameters parameters =
     (let input = getSafeObject parameters
      in rbind (normalizeWaitUnit (jors [jget input ''unit'', jget input ''durationUnit'', JStr ''SECONDS'']))
        (\<lambda>unit. rbind (parseWaitDurationMs (obj_with input [(''unit'', JStr unit)]))
        (\<lambda>durationMs.
          if MAX_WAIT_DURATION_MS < durationMs
          then Inl (createWaitInputFailure ''WAIT nodes are capped at 24 hours.''
                 (JObj [(''durationMs'', jnum (of_int durationMs)),
                        (''maxDurationMs'', jnum (of_int MAX_WAIT_DURATION_MS))]))
          else
            (let duration = (if \<not> isBlankValue (jget input ''duration'') then to_num (jget input ''duration'')
                             else Fin (of_int durationMs / unit_ms WAIT_UNIT_MULTIPLIERS_MS unit))
             in Inr (obj_with input
                  [(''duration'', JNum duration), (''unit'', JStr unit),
                   (''durationMs'', jnum (of_int durationMs)),
                   (''reason'', JStr (take 500 (trim (to_str
                      (jors [jget input ''reason'', jget input ''note'', JStr []])))))])))))"

text \<open>\<open>Math.round\<close> of the milliseconds the node sleeps, as the executor reads them back.\<close>

definition wait_ms :: "jsval \<Rightarrow> rat" where
  "wait_ms waitParameters =
     (case jget waitParameters ''durationMs'' of JNum (Fin r) \<Rightarrow> r | _ \<Rightarrow> 0)"

definition buildWaitNodeOutput :: "jsval \<Rightarrow> jsval \<Rightarrow> rat \<Rightarrow> rat \<Rightarrow> jsval" where
  "buildWaitNodeOutput node waitParameters startedAtMs completedAtMs =
     (let reason = jor (jget waitParameters ''reason'') JNull
      in JObj
       [(''kind'', JStr ''wait_delay''), (''status'', JStr ''SUCCESS''),
        (''nodeKey'', jget node ''nodeKey''), (''duration'', jget waitParameters ''duration''),
        (''unit'', jget waitParameters ''unit''),
        (''requestedDurationMs'', jget waitParameters ''durationMs''),
        (''actualDurationMs'', jnum (max 0 (completedAtMs - startedAtMs))),
        (''reason'', reason),
        (''summary'', JStr (''Waited '' @ to_str (jget waitParameters ''durationMs'') @ '' ms''
           @ (if truthy reason then '' ('' @ to_str reason @ '')'' else []) @ ''; continuing workflow.''))])"

section \<open>CONDITION nodes\<close>

definition token_char :: "char \<Rightarrow> bool" where
  "token_char c = (is_upper c \<or> is_digit c)"

definition continuation_aliases :: "string \<Rightarrow> (string \<times> string) list" where
  "continuation_aliases fallback =
     [([], fallback), (''STOP'', ''STOP_SUCCESS''), (''STOP_SUCCESS'', ''STOP_SUCCESS''),
      (''SKIP_REMAINING'', ''STOP_SUCCESS''), (''FAIL'', ''FAIL_WORKFLOW''),
      (''FAIL_WORKFLOW'', ''FAIL_WORKFLOW''), (''CONTINUE'', ''CONTINUE''),
      (''CONTINUE_ANYWAY'', ''CONTINUE'')]"

definition normalizeConditionOnFalseAction :: "jsval \<Rightarrow> string" where
  "normalizeConditionOnFalseAction v =
     via_alias (continuation_aliases ''STOP_SUCCESS'') (normal_token token_char (jor v (JStr ''STOP_SUCCESS'')))"

definition stop_summary :: "string \<Rightarrow> string \<Rightarrow> jsval \<Rightarrow> jsval \<Rightarrow> nat \<Rightarrow> nat \<Rightarrow> string" where
  "stop_summary gate otherwise defn out completedNodeCount totalNodeCount =
     ''Workflow '' @ to_str (jget defn ''displayName'') @ '' stopped successfully by '' @ gate @ '': ''
       @ to_str (jor (jget out ''summary'') (JStr otherwise)) @ '' (''
       @ nat_str (totalNodeCount - completedNodeCount) @ '' remaining node(s) skipped).''"

definition buildConditionStopSummary :: "jsval \<Rightarrow> jsval \<Rightarrow> nat \<Rightarrow> nat \<Rightarrow> string" where
  "buildConditionStopSummary = stop_summary ''condition gate'' ''condition returned false''"

definition buildHumanApprovalStopSummary :: "jsval \<Rightarrow> jsval \<Rightarrow> nat \<Rightarrow> nat \<Rightarrow> string" where
  "buildHumanApprovalStopSummary = stop_summary ''human approval gate'' ''approval did not continue''"

definition is_run_summary :: "jsval \<Rightarrow> bool" where
  "is_run_summary v = strict_eq (jget v ''kind'') (JStr ''workflow_run_summary'')"

fun run_summary_in :: "(string \<times> jsval) list \<Rightarrow> jsval" where
  "run_summary_in [] = JNull"
| "run_summary_in ((nodeKey, rawOutput) # rest) =
     (let out = getSafeObject rawOutput; nestedOutput = getSafeObject (jget out ''output'')
      in if is_run_summary out then obj_with out [(''nodeKey'', JStr nodeKey)]
         else if is_run_summary nestedOutput then obj_with nestedOutput [(''nodeKey'', JStr nodeKey)]
         else run_summary_in rest)"

definition getWorkflowRunSummaryOutput :: "jsval \<Rightarrow> jsval" where
  "getWorkflowRunSummaryOutput nodeOutputsByKey = run_summary_in (obj_kvs (getSafeObject nodeOutputsByKey))"

section \<open>Execution plan and branches\<close>

definition normalizeConditionBranchTargetNodeKey :: "jsval \<Rightarrow> string" where
  "normalizeConditionBranchTargetNodeKey v = trim (to_str (jor v (JStr [])))"

definition getConditionBranchTargetKeyFromOutput :: "jsval \<Rightarrow> string" where
  "getConditionBranchTargetKeyFromOutput out = normalizeConditionBranchTargetNodeKey
     (jors [jget out ''branchTargetNodeKey'', jget out ''nextNodeKey'', jget out ''targetNodeKey''])"

text \<open>The map from node keys to positions is only ever read at strings, so only string keys are
  entered; a later node with the same key replaces an earlier one.\<close>

record execution_plan =
  nodes :: "jsval list"
  nodeIndexByKey :: "(string \<times> nat) list"

definition index_step :: "(string \<times> nat) list \<Rightarrow> jsval \<times> nat \<Rightarrow> (string \<times> nat) list" where
  "index_step m p = (case fst p of JStr k \<Rightarrow> kv_set m k (snd p) | _ \<Rightarrow> m)"

definition buildWorkflowExecutionPlan :: "jsval \<Rightarrow> execution_plan res" where
  "buildWorkflowExecutionPlan ns =
     (let orderedNodes = arr_items (getSafeArray ns)
      in rbind (rmap (\<lambda>node. jread node ''nodeKey'') orderedNodes) (\<lambda>keys.
           Inr \<lparr>nodes = orderedNodes,
                nodeIndexByKey = foldl index_step [] (zip keys [0..<length keys])\<rparr>))"

definition createConditionBranchFailure :: "string \<Rightarrow> jsval \<Rightarrow> jsval" where
  "createConditionBranchFailure message details =
     application_failure message ''SkyServerWorkflowConditionBranchError'' [details]"

definition createHumanApprovalBranchFailure :: "string \<Rightarrow> jsval \<Rightarrow> jsval" where
  "createHumanApprovalBranchFailure message details =
     application_failure message ''SkyServerWorkflowApprovalBranchError'' [details]"

definition resolveConditionBranchIndex :: "jsval \<Rightarrow> nat \<Rightarrow> execution_plan \<Rightarrow> nat option res" where
  "resolveConditionBranchIndex out currentIndex plan =
     (let key = getConditionBranchTargetKeyFromOutput out
      in if key = [] then Inr None
         else case map_of (nodeIndexByKey plan) key of
                None \<Rightarrow> Inl (createConditionBranchFailure
                  ''Condition branch target was not found in the workflow graph.''
                  (JObj [(''branchTargetNodeKey'', JStr key), (''output'', out)]))
              | Some targetIndex \<Rightarrow>
                  if targetIndex \<le> currentIndex
                  then Inl (createConditionBranchFailure
                    ''Condition branch target must point to a later node in the sequential lane.''
                    (JObj [(''branchTargetNodeKey'', JStr key), (''currentIndex'', jnat currentIndex),
                           (''targetIndex'', jnat targetIndex)]))
                  else Inr (Some targetIndex))"

definition resolveHumanApprovalBranchIndex :: "jsval \<Rightarrow> nat \<Rightarrow> execution_plan \<Rightarrow> nat option res" where
  "resolveHumanApprovalBranchIndex out currentIndex plan =
     (let key = normalizeConditionBranchTargetNodeKey
                  (jor (jget out ''branchTargetNodeKey'') (jget out ''rejectTargetNodeKey''))
      in if to_upper (to_str (jor (jget out ''status'') (JStr []))) \<noteq> ''REJECTED'' then Inr None
         else if key = [] then Inr None
         else case map_of (nodeIndexByKey plan) key of
                None \<Rightarrow> Inl (createHumanApprovalBranchFailure
                  ''Human approval rejection branch target was not found in the workflow graph.''
                  (JObj [(''branchTargetNodeKey'', JStr key), (''output'', out)]))
              | Some targetIndex \<Rightarrow>
                  if targetIndex \<le> currentIndex
                  then Inl (createHumanApprovalBranchFailure
                    ''Human approval rejection branch target must point to a later node in the sequential lane.''
                    (JObj [(''branchTargetNodeKey'', JStr key), (''currentIndex'', jnat currentIndex),
                           (''targetIndex'', jnat targetIndex)]))
                  else Inr (Some targetIndex))"

section \<open>HUMAN\_APPROVAL nodes\<close>

definition createHumanApprovalInputFailure :: "string \<Rightarrow> jsval \<Rightarrow> jsval" where
  "createHumanApprovalInputFailure message details =
     application_failure message ''SkyServerHumanApprovalInputError'' [details]"

definition normalizeHumanApprovalAction :: "jsval \<Rightarrow> string \<Rightarrow> string res" where
  "normalizeHumanApprovalAction v fallback =
     (let action = via_alias (continuation_aliases fallback) (normal_token token_char (jor v (JStr fallback)))
      in if action \<notin> {''STOP_SUCCESS'', ''FAIL_WORKFLOW'', ''CONTINUE''}
         then Inl (createHumanApprovalInputFailure ''Unsupported HUMAN_APPROVAL continuation action.''
                (JObj [(''action'', v)]))
         else Inr action)"

definition timeout_unit_aliases :: "(string \<times> string) list" where
  "timeout_unit_aliases =
     [(''MINUTE'', ''MINUTES''), (''MINUTES'', ''MINUTES''), (''MIN'', ''MINUTES''),
      (''HOUR'', ''HOURS''), (''HOURS'', ''HOURS''), (''HR'', ''HOURS''),
      (''DAY'', ''DAYS''), (''DAYS'', ''DAYS'')]"

definition normalizeHumanApprovalTimeoutUnit :: "jsval \<Rightarrow> string res" where
  "normalizeHumanApprovalTimeoutUnit v =
     (let unit = via_alias timeout_unit_aliases (normal_token is_upper (jor v (JStr ''HOURS'')))
      in if map_of HUMAN_APPROVAL_TIMEOUT_UNIT_MULTIPLIERS_MS unit = None
         then Inl (createHumanApprovalInputFailure ''Unsupported HUMAN_APPROVAL timeout unit.''
                (JObj [(''unit'', v),
                       (''allowed'', JArr (map (JStr \<circ> fst) HUMAN_APPROVAL_TIMEOUT_UNIT_MULTIPLIERS_MS))]))
         else Inr unit)"

definition parseHumanApprovalTimeoutMs :: "jsval \<Rightarrow> int option res" where
  "parseHumanApprovalTimeoutMs parameters =
     (let input = getSafeObject parameters;
          rawTimeoutMs = jnull_or (jget input ''timeoutMs'') (jget input ''approvalTimeoutMs'');
          rawDuration = jnull_or (jget input ''timeoutDuration'') (jget input ''duration'')
      in if \<not> isBlankValue rawTimeoutMs
         then (case positive_num rawTimeoutMs of
                 None \<Rightarrow> Inl (createHumanApprovalInputFailure
                   ''HUMAN_APPROVAL timeoutMs must be a positive number or blank.''
                   (JObj [(''timeoutMs'', rawTimeoutMs)]))
               | Some parsedTimeoutMs \<Rightarrow> Inr (Some (round_half_up parsedTimeoutMs)))
         else if isBlankValue rawDuration then Inr None
         else rbind (normalizeHumanApprovalTimeoutUnit
                (jors [jget input ''timeoutUnit'', jget input ''unit'', JStr ''HOURS'']))
           (\<lambda>unit. case positive_num rawDuration of
                 None \<Rightarrow> Inl (createHumanApprovalInputFailure
                   ''HUMAN_APPROVAL timeout duration must be a positive number or blank.''
                   (JObj [(''timeoutDuration'', rawDuration)]))
               | Some parsedDuration \<Rightarrow> Inr (Some (round_half_up
                   (parsedDuration * unit_ms HUMAN_APPROVAL_TIMEOUT_UNIT_MULTIPLIERS_MS unit)))))"

text \<open>The parameters of an approval gate.  The timeout is kept beside the object because the executor
  reads it back: \<open>None\<close> is the null of the source, and a timeout that rounds to 0 is falsy there.\<close>

definition timeout_value :: "int option \<Rightarrow> jsval" where
  "timeout_value t = (case t of None \<Rightarrow> JNull | Some n \<Rightarrow> jnum (of_int n))"

definition normalizeHumanApprovalParameters :: "jsval \<Rightarrow> jsval \<Rightarrow> jsval res" where
  "normalizeHumanApprovalParameters parameters node =
     (let input = getSafeObject parameters;
          approvalTitle = trim (to_str (jors [jget input ''approvalTitle'', jget input ''title'',
                                              jget node ''displayName'', JStr ''Approval required'']));
          approvalKey = map (\<lambda>c. if c = CHR ''-'' then CHR ''_'' else c)
            (normalizeWorkflowIdPart (jors [jget input ''approvalKey'', jget node ''nodeKey'', JStr ''approval''])
               ''approval'')
      in rbind (parseHumanApprovalTimeoutMs input) (\<lambda>timeoutMs.
         if approvalTitle = []
         then Inl (createHumanApprovalInputFailure ''HUMAN_APPROVAL nodes require approvalTitle.''
                (JObj [(''fieldName'', JStr ''approvalTitle'')]))
         else if (case timeoutMs of None \<Rightarrow> False | Some t \<Rightarrow> MAX_HUMAN_APPROVAL_TIMEOUT_MS < t)
         then Inl (createHumanApprovalInputFailure ''HUMAN_APPROVAL timeout is capped at 30 days.''
                (JObj [(''timeoutMs'', timeout_value timeoutMs),
                       (''maxTimeoutMs'', jnum (of_int MAX_HUMAN_APPROVAL_TIMEOUT_MS))]))
         else
           rbind (normalizeHumanApprovalAction
                    (jors [jget input ''onReject'', jget input ''rejectAction'', JStr ''STOP_SUCCESS''])
                    ''STOP_SUCCESS'') (\<lambda>onReject.
           rbind (normalizeHumanApprovalAction
                    (jors [jget input ''onTimeout'', jget input ''timeoutAction'', JStr ''FAIL_WORKFLOW''])
                    ''FAIL_WORKFLOW'') (\<lambda>onTimeout.
           rbind (if truthy (timeout_value timeoutMs)
                  then rbind (normalizeHumanApprovalTimeoutUnit
                         (jors [jget input ''timeoutUnit'', jget input ''unit'', JStr ''HOURS'']))
                         (\<lambda>u. Inr (JStr u))
                  else Inr JNull) (\<lambda>timeoutUnit.
           Inr (obj_with input
             [(''approvalTitle'', JStr approvalTitle),
              (''approvalKey'', JStr approvalKey),
              (''instructions'', JStr (take 4000 (trim (to_str
                 (jors [jget input ''instructions'', jget input ''prompt'', JStr []]))))),
              (''requiredRoleCode'', jor (JStr (to_upper (trim (to_str
                 (jors [jget input ''requiredRoleCode'', jget input ''requiredRole'', JStr []]))))) JNull),
              (''onReject'', JStr onReject),
              (''rejectTargetNodeKey'', JStr (normalizeConditionBranchTargetNodeKey
                 (jor (jget input ''rejectTargetNodeKey'') (jget input ''rejectionTargetNodeKey'')))),
              (''onTimeout'', JStr onTimeout),
              (''timeoutMs'', timeout_value timeoutMs),
              (''timeoutDuration'', jnull_or (jget input ''timeoutDuration'')
                                      (jnull_or (jget input ''duration'') JNull)),
              (''timeoutUnit'', timeoutUnit)]))))))"

definition decision_aliases :: "(string \<times> string) list" where
  "decision_aliases =
     [(''APPROVE'', ''APPROVED''), (''APPROVED'', ''APPROVED''), (''YES'', ''APPROVED''),
      (''REJECT'', ''REJECTED''), (''REJECTED'', ''REJECTED''), (''NO'', ''REJECTED''),
      (''TIMEOUT'', ''TIMED_OUT''), (''TIMED_OUT'', ''TIMED_OUT'')]"

definition normalizeApprovalDecision :: "jsval \<Rightarrow> string res" where
  "normalizeApprovalDecision v =
     (let decision = via_alias decision_aliases (normal_token token_char (jor v (JStr [])))
      in if decision \<notin> {''APPROVED'', ''REJECTED'', ''TIMED_OUT''}
         then Inl (createHumanApprovalInputFailure ''Unsupported approval decision.''
                (JObj [(''decision'', v)]))
         else Inr decision)"

definition getApprovalActionForDecision :: "string \<Rightarrow> jsval \<Rightarrow> string res" where
  "getApprovalActionForDecision decision approvalParameters =
     (if decision = ''APPROVED'' then Inr ''CONTINUE''
      else if decision = ''REJECTED''
      then normalizeHumanApprovalAction (jor (jget approvalParameters ''onReject'') (JStr ''STOP_SUCCESS''))
             ''STOP_SUCCESS''
      else if decision = ''TIMED_OUT''
      then normalizeHumanApprovalAction (jor (jget approvalParameters ''onTimeout'') (JStr ''FAIL_WORKFLOW''))
             ''FAIL_WORKFLOW''
      else Inr ''FAIL_WORKFLOW'')"

definition getApprovalDecisionLookupKeys :: "jsval \<Rightarrow> string list" where
  "getApprovalDecisionLookupKeys payload =
     (let item = getSafeObject payload
      in filter (\<lambda>k. k \<noteq> []) (map (\<lambda>f. trim (to_str (jor (jget item f) (JStr []))))
           [''approvalRequestId'', ''workflowNodeRunRecordId'', ''nodeKey'', ''approvalKey'']))"

definition action_phrase :: "string \<Rightarrow> string" where
  "action_phrase action =
     (if action = ''STOP_SUCCESS'' then ''stopping workflow successfully''
      else if action = ''FAIL_WORKFLOW'' then ''failing workflow'' else ''continuing anyway'')"

definition buildHumanApprovalOutput :: "jsval \<Rightarrow> jsval \<Rightarrow> jsval \<Rightarrow> bool \<Rightarrow> jsval res" where
  "buildHumanApprovalOutput approval approvalParameters decisionPayload timedOut =
     rbind (normalizeApprovalDecision (jor (jget decisionPayload ''decision'')
              (JStr (if timedOut then ''TIMED_OUT'' else ''REJECTED'')))) (\<lambda>decision.
     rbind (getApprovalActionForDecision decision (jors [approvalParameters, approval, JObj []])) (\<lambda>action.
       let actor = getSafeObject (jget decisionPayload ''actor'');
           actorName = jors [jget actor ''displayName'', jget actor ''email'',
             jget approval ''decidedByDisplayName'', jget approval ''decidedByEmail'', JNull];
           title = jors [jget approval ''approvalTitle'', jget approvalParameters ''approvalTitle'',
             JStr ''Approval required''];
           decisionNote = jors [jget decisionPayload ''decisionNote'', jget approval ''decisionNote'', JNull];
           rejectTargetNodeKey = (if decision = ''REJECTED''
             then normalizeConditionBranchTargetNodeKey (jget approvalParameters ''rejectTargetNodeKey'') else []);
           byActor = (if truthy actorName then '' by '' @ to_str actorName else []);
           summary = (if decision = ''APPROVED''
             then ''Approval granted for '' @ to_str title @ byActor @ ''; continuing workflow.''
             else if decision = ''REJECTED''
             then (if rejectTargetNodeKey \<noteq> []
               then ''Approval rejected for '' @ to_str title @ byActor @ ''; routing to '' @ rejectTargetNodeKey @ ''.''
               else ''Approval rejected for '' @ to_str title @ byActor @ ''; '' @ action_phrase action @ ''.'')
             else ''Approval timed out for '' @ to_str title @ ''; '' @ action_phrase action @ ''.'')
       in Inr (JObj
         [(''kind'', JStr ''human_approval''), (''status'', JStr decision),
          (''approved'', JBool (decision = ''APPROVED'')), (''rejected'', JBool (decision = ''REJECTED'')),
          (''timedOut'', JBool (timedOut \<or> decision = ''TIMED_OUT'')), (''decision'', JStr decision),
          (''action'', JStr action), (''branchTaken'', JBool (rejectTargetNodeKey \<noteq> [])),
          (''branchLabel'', if rejectTargetNodeKey \<noteq> [] then JStr ''REJECTED'' else JNull),
          (''branchTargetNodeKey'', jor (JStr rejectTargetNodeKey) JNull),
          (''approvalRequestId'', jors [jget approval ''approvalRequestId'', jget decisionPayload ''approvalRequestId'', JNull]),
          (''approvalKey'', jors [jget approval ''approvalKey'', jget approvalParameters ''approvalKey'',
             jget decisionPayload ''approvalKey'', JNull]),
          (''approvalTitle'', title),
          (''instructions'', jors [jget approval ''instructions'', jget approvalParameters ''instructions'', JNull]),
          (''requiredRoleCode'', jors [jget approval ''requiredRoleCode'', jget approvalParameters ''requiredRoleCode'', JNull]),
          (''temporalWorkflowId'', jor (jget approval ''temporalWorkflowId'') JNull),
          (''temporalRunId'', jor (jget approval ''temporalRunId'') JNull),
          (''decisionNote'', decisionNote), (''decidedByDisplayName'', actorName),
          (''decidedAt'', jors [jget decisionPayload ''decidedAt'', jget approval ''decidedAt'', JNull]),
          (''summary'', JStr summary)])))"

section \<open>Lemmas\<close>

lemma positive_num_pos: "positive_num v = Some r \<Longrightarrow> 0 < r"
  by (auto simp: positive_num_def split: option.splits if_splits)

lemma round_half_up_nonneg: "0 \<le> r \<Longrightarrow> 0 \<le> round_half_up r"
  by (simp add: round_half_up_def)

lemma normalizePositiveInteger_range:
  "1 \<le> fallback \<Longrightarrow> fallback \<le> mx \<Longrightarrow>
     1 \<le> normalizePositiveInteger v fallback mx \<and> normalizePositiveInteger v fallback mx \<le> mx"
  by (auto simp: normalizePositiveInteger_def split: option.splits)

lemma maximumAttempts_range:
  "1 \<le> maximumAttempts (getNodeRetryPolicy node)" "maximumAttempts (getNodeRetryPolicy node) \<le> 10"
  using normalizePositiveInteger_range [of 1 10]
  by (simp_all add: getNodeRetryPolicy_def Let_def)

lemma initialIntervalSeconds_range:
  "1 \<le> initialIntervalSeconds (getNodeRetryPolicy node)" "initialIntervalSeconds (getNodeRetryPolicy node) \<le> 3600"
  using normalizePositiveInteger_range [of 5 3600]
  by (simp_all add: getNodeRetryPolicy_def Let_def)

lemma normalizeWaitUnit_known:
  "normalizeWaitUnit v = Inr u \<Longrightarrow> \<exists>m. map_of WAIT_UNIT_MULTIPLIERS_MS u = Some m \<and> 0 < m"
  by (auto simp: normalizeWaitUnit_def WAIT_UNIT_MULTIPLIERS_MS_def Let_def split: if_splits)

lemma unit_ms_nonneg [simp]:
  "0 \<le> unit_ms WAIT_UNIT_MULTIPLIERS_MS u" "0 \<le> unit_ms HUMAN_APPROVAL_TIMEOUT_UNIT_MULTIPLIERS_MS u"
  by (simp_all add: unit_ms_def WAIT_UNIT_MULTIPLIERS_MS_def HUMAN_APPROVAL_TIMEOUT_UNIT_MULTIPLIERS_MS_def)

lemma positive_duration: "positive_num v = Some r \<Longrightarrow> 0 \<le> m \<Longrightarrow> 0 \<le> round_half_up (r * m)"
  "positive_num v = Some r \<Longrightarrow> 0 \<le> round_half_up r"
  using positive_num_pos [of v r] by (simp_all add: round_half_up_nonneg)

lemma parseWaitDurationMs_nonneg: "parseWaitDurationMs p = Inr d \<Longrightarrow> 0 \<le> d"
  unfolding parseWaitDurationMs_def Let_def rbind_Inr_iff
  by (auto simp: rbind_Inr_iff positive_duration simp del: jors.simps split: if_splits option.splits)

lemma normalizeWaitParameters_ms:
  assumes "normalizeWaitParameters p = Inr w"
  shows "\<exists>d :: int. jget w ''durationMs'' = jnum (of_int d) \<and> 0 \<le> d \<and> d \<le> MAX_WAIT_DURATION_MS"
  using assms
  by (auto simp: normalizeWaitParameters_def Let_def rbind_Inr_iff obj_with_def kv_get_spread
      split: if_splits dest: parseWaitDurationMs_nonneg)

lemma wait_ms_bounds:
  "normalizeWaitParameters p = Inr w \<Longrightarrow> 0 \<le> wait_ms w \<and> wait_ms w \<le> of_int MAX_WAIT_DURATION_MS"
  using normalizeWaitParameters_ms [of p w] by (auto simp: wait_ms_def MAX_WAIT_DURATION_MS_def)

lemma parseHumanApprovalTimeoutMs_nonneg: "parseHumanApprovalTimeoutMs p = Inr (Some d) \<Longrightarrow> 0 \<le> d"
  unfolding parseHumanApprovalTimeoutMs_def Let_def
  by (auto simp: rbind_Inr_iff positive_duration simp del: jors.simps split: if_splits option.splits)

lemma jget_obj_with:
  "jget (obj_with base kvs) k = (case map_of (rev kvs) k of Some v \<Rightarrow> v | None \<Rightarrow> kv_get (obj_kvs base) k)"
  by (simp add: obj_with_def kv_get_spread)

lemma normalizeHumanApprovalParameters_parsed:
  assumes "normalizeHumanApprovalParameters p node = Inr a"
  shows "\<exists>t. parseHumanApprovalTimeoutMs (getSafeObject p) = Inr t
     \<and> (case t of None \<Rightarrow> True | Some d \<Rightarrow> d \<le> MAX_HUMAN_APPROVAL_TIMEOUT_MS)
     \<and> jget a ''timeoutMs'' = timeout_value t"
proof -
  from assms obtain t where t: "parseHumanApprovalTimeoutMs (getSafeObject p) = Inr t"
    unfolding normalizeHumanApprovalParameters_def Let_def by (auto simp: rbind_Inr_iff)
  note a = assms [unfolded normalizeHumanApprovalParameters_def Let_def t rbind.simps]
  from a have "\<not> (case t of None \<Rightarrow> False | Some t \<Rightarrow> MAX_HUMAN_APPROVAL_TIMEOUT_MS < t)"
    by (meson Inl_Inr_False)
  moreover from a have "jget a ''timeoutMs'' = timeout_value t"
    by (simp only: rbind_Inr_iff split: if_splits)
      (auto simp: jget_obj_with simp del: jors.simps)
  ultimately show ?thesis using t by (auto split: option.splits)
qed

lemma normalizeHumanApprovalParameters_timeout:
  assumes "normalizeHumanApprovalParameters p node = Inr a"
  shows "jget a ''timeoutMs'' = JNull
       \<or> (\<exists>d :: int. jget a ''timeoutMs'' = jnum (of_int d) \<and> 0 \<le> d \<and> d \<le> MAX_HUMAN_APPROVAL_TIMEOUT_MS)"
  using normalizeHumanApprovalParameters_parsed [OF assms]
  by (auto simp: timeout_value_def split: option.splits dest: parseHumanApprovalTimeoutMs_nonneg)

lemma normalizeHumanApprovalAction_range:
  "normalizeHumanApprovalAction v f = Inr a \<Longrightarrow> a \<in> {''STOP_SUCCESS'', ''FAIL_WORKFLOW'', ''CONTINUE''}"
  by (auto simp: normalizeHumanApprovalAction_def Let_def split: if_splits)

lemma normalizeApprovalDecision_range:
  "normalizeApprovalDecision v = Inr d \<Longrightarrow> d \<in> {''APPROVED'', ''REJECTED'', ''TIMED_OUT''}"
  by (auto simp: normalizeApprovalDecision_def Let_def split: if_splits)

lemma resolveConditionBranchIndex_later:
  "resolveConditionBranchIndex out i plan = Inr (Some j) \<Longrightarrow>
     i < j \<and> map_of (nodeIndexByKey plan) (getConditionBranchTargetKeyFromOutput out) = Some j"
  by (auto simp: resolveConditionBranchIndex_def Let_def split: if_splits option.splits)

lemma resolveHumanApprovalBranchIndex_later:
  "resolveHumanApprovalBranchIndex out i plan = Inr (Some j) \<Longrightarrow> i < j"
  by (auto simp: resolveHumanApprovalBranchIndex_def Let_def split: if_splits option.splits)

text \<open>The index of the plan: at every key the last position of a node with that key.\<close>

lemma rmap_Inr_length: "rmap f xs = Inr ys \<Longrightarrow> length ys = length xs"
  by (induction xs arbitrary: ys) (auto simp: rbind_Inr_iff)

lemma rmap_Inr_nth: "rmap f xs = Inr ys \<Longrightarrow> i < length xs \<Longrightarrow> f (xs ! i) = Inr (ys ! i)"
proof (induction xs arbitrary: ys i)
  case (Cons x xs)
  then show ?case by (cases i) (auto simp: rbind_Inr_iff)
qed simp

lemma index_step_get:
  "map_of (index_step m (v, n)) k = (if v = JStr k then Some n else map_of m k)"
  by (cases v) (auto simp: index_step_def)

lemma index_fold:
  "map_of (foldl index_step [] (zip ks [0..<length ks])) k = Some j \<longleftrightarrow>
     j < length ks \<and> ks ! j = JStr k \<and> (\<forall>i < length ks. ks ! i = JStr k \<longrightarrow> i \<le> j)"
proof (induction ks arbitrary: j rule: rev_induct)
  case (snoc v ks)
  have "zip (ks @ [v]) [0..<length (ks @ [v])] = zip ks [0..<length ks] @ [(v, length ks)]"
    by simp
  then have "map_of (foldl index_step [] (zip (ks @ [v]) [0..<length (ks @ [v])])) k
      = (if v = JStr k then Some (length ks) else map_of (foldl index_step [] (zip ks [0..<length ks])) k)"
    by (simp only: foldl_append foldl.simps index_step_get)
  then show ?case
    using snoc.IH [of j] by (auto simp: nth_append less_Suc_eq)
qed simp

lemma plan_index:
  assumes "buildWorkflowExecutionPlan ns = Inr plan"
  shows "map_of (nodeIndexByKey plan) k = Some j \<longleftrightarrow>
     j < length (nodes plan) \<and> jget (nodes plan ! j) ''nodeKey'' = JStr k
     \<and> (\<forall>i < length (nodes plan). jget (nodes plan ! i) ''nodeKey'' = JStr k \<longrightarrow> i \<le> j)"
proof -
  from assms obtain ks where ks: "rmap (\<lambda>n. jread n ''nodeKey'') (nodes plan) = Inr ks"
      "nodeIndexByKey plan = foldl index_step [] (zip ks [0..<length ks])"
    unfolding buildWorkflowExecutionPlan_def Let_def by (auto simp: rbind_Inr_iff)
  have "length ks = length (nodes plan)" by (rule rmap_Inr_length [OF ks(1)])
  moreover have "ks ! i = jget (nodes plan ! i) ''nodeKey''" if "i < length (nodes plan)" for i
    using rmap_Inr_nth [OF ks(1) that] by (simp add: jread_Inr_iff)
  ultimately show ?thesis unfolding ks(2) index_fold by auto
qed

lemma plan_nodes: "buildWorkflowExecutionPlan ns = Inr plan \<Longrightarrow> nodes plan = arr_items (getSafeArray ns)"
  by (auto simp: buildWorkflowExecutionPlan_def Let_def rbind_Inr_iff)

section \<open>Properties\<close>


text \<open>A WAIT node whose parameters are accepted sleeps a whole number of
  milliseconds between 0 and 24 hours, whatever durations, units and aliases its input holds.\<close>

theorem wait_parameters_capped:
  assumes "normalizeWaitParameters p = Inr w"
  shows "\<exists>d :: int. jget w ''durationMs'' = jnum (of_int d) \<and> 0 \<le> d \<and> d \<le> 24 * 60 * 60 * 1000"
  using normalizeWaitParameters_ms [OF assms] by (simp add: MAX_WAIT_DURATION_MS_def)

theorem wait_parameters_capped_witness:
  "\<exists>w. normalizeWaitParameters (JObj [(''duration'', JStr ''90''), (''unit'', JStr ''min'')]) = Inr w
     \<and> (\<exists>d :: int. jget w ''durationMs'' = jnum (of_int d) \<and> 0 \<le> d \<and> d \<le> 24 * 60 * 60 * 1000)"
proof -
  let ?p = "JObj [(''duration'', JStr ''90''), (''unit'', JStr ''min'')]"
  have "normalizeWaitUnit (JStr ''min'') = Inr ''MINUTES''"
    "parseWaitDurationMs (obj_with ?p [(''unit'', JStr ''MINUTES'')]) = Inr 5400000"
    by code_simp+
  then have "\<exists>w. normalizeWaitParameters ?p = Inr w"
    by (simp add: normalizeWaitParameters_def Let_def MAX_WAIT_DURATION_MS_def)
  with wait_parameters_capped show ?thesis by blast
qed

text \<open>With no millisecond field, a positive duration in a known unit (or an
  alias of it) waits the duration times the unit, rounded half up to a millisecond.\<close>

theorem wait_duration_in_unit:
  assumes "isBlankValue (jnull_or (jget p ''durationMs'') (jnull_or (jget p ''waitMs'') (jget p ''delayMs'')))"
    and "normalizeWaitUnit (jget p ''unit'') = Inr u" "truthy (jget p ''unit'')"
    and "\<not> is_nullish (jget p ''duration'')" "positive_num (jget p ''duration'') = Some r"
  shows "parseWaitDurationMs p = Inr (round_half_up (r * unit_ms WAIT_UNIT_MULTIPLIERS_MS u))"
proof -
  have "is_obj p" using assms(3) by (cases p) (auto split: if_splits)
  then have "getSafeObject p = p" by (simp add: getSafeObject_def)
  with assms show ?thesis
    by (simp add: parseWaitDurationMs_def Let_def jnull_or_def)
qed

theorem wait_duration_in_unit_witness:
  "parseWaitDurationMs (JObj [(''duration'', JStr ''1.5''), (''unit'', JStr ''hr'')]) = Inr 5400000"
proof -
  let ?p = "JObj [(''duration'', JStr ''1.5''), (''unit'', JStr ''hr'')]"
  have h: "isBlankValue (jnull_or (jget ?p ''durationMs'') (jnull_or (jget ?p ''waitMs'') (jget ?p ''delayMs'')))"
    "normalizeWaitUnit (jget ?p ''unit'') = Inr ''HOURS''" "truthy (jget ?p ''unit'')"
    "\<not> is_nullish (jget ?p ''duration'')" "positive_num (jget ?p ''duration'') = Some (3 / 2)"
    by code_simp+
  have "round_half_up (3 / 2 * unit_ms WAIT_UNIT_MULTIPLIERS_MS ''HOURS'') = 5400000" by code_simp
  with wait_duration_in_unit [OF h] show ?thesis by simp
qed

text \<open>An accepted approval gate has no timeout or a whole number of
  milliseconds between 0 and 30 days.\<close>

theorem approval_timeout_capped:
  assumes "normalizeHumanApprovalParameters p node = Inr a"
  shows "jget a ''timeoutMs'' = JNull
       \<or> (\<exists>d :: int. jget a ''timeoutMs'' = jnum (of_int d) \<and> 0 \<le> d \<and> d \<le> 30 * 24 * 60 * 60 * 1000)"
  using normalizeHumanApprovalParameters_timeout [OF assms]
  by (simp add: MAX_HUMAN_APPROVAL_TIMEOUT_MS_def)

theorem approval_timeout_capped_witness:
  "\<exists>a. normalizeHumanApprovalParameters (JObj [(''timeoutDuration'', jnum 2), (''timeoutUnit'', JStr ''day'')])
         (JObj [(''nodeKey'', JStr ''gate'')]) = Inr a
     \<and> (jget a ''timeoutMs'' = JNull
       \<or> (\<exists>d :: int. jget a ''timeoutMs'' = jnum (of_int d) \<and> 0 \<le> d \<and> d \<le> 30 * 24 * 60 * 60 * 1000))"
proof -
  let ?p = "JObj [(''timeoutDuration'', jnum 2), (''timeoutUnit'', JStr ''day'')]"
  have "parseHumanApprovalTimeoutMs ?p = Inr (Some 172800000)" "trim ''Approval required'' = ''Approval required''"
    "normalizeHumanApprovalAction (JStr ''STOP_SUCCESS'') ''STOP_SUCCESS'' = Inr ''STOP_SUCCESS''"
    "normalizeHumanApprovalAction (JStr ''FAIL_WORKFLOW'') ''FAIL_WORKFLOW'' = Inr ''FAIL_WORKFLOW''"
    "normalizeHumanApprovalTimeoutUnit (JStr ''day'') = Inr ''DAYS''"
    by code_simp+
  then have "\<exists>a. normalizeHumanApprovalParameters ?p (JObj [(''nodeKey'', JStr ''gate'')]) = Inr a"
    by (simp add: normalizeHumanApprovalParameters_def Let_def MAX_HUMAN_APPROVAL_TIMEOUT_MS_def timeout_value_def)
  with approval_timeout_capped show ?thesis by blast
qed

text \<open>The outcome of an approval gate is one of three decisions, its
  flags agree with the decision, an approval always continues, and only a rejection can carry a
  branch target.\<close>

theorem approval_output_coherent:
  assumes "buildHumanApprovalOutput approval params payload timedOut = Inr out"
  shows "\<exists>d a. jget out ''status'' = JStr d \<and> d \<in> {''APPROVED'', ''REJECTED'', ''TIMED_OUT''}
     \<and> jget out ''approved'' = JBool (d = ''APPROVED'') \<and> jget out ''rejected'' = JBool (d = ''REJECTED'')
     \<and> jget out ''action'' = JStr a \<and> a \<in> {''STOP_SUCCESS'', ''FAIL_WORKFLOW'', ''CONTINUE''}
     \<and> (d = ''APPROVED'' \<longrightarrow> a = ''CONTINUE'')
     \<and> (d \<noteq> ''REJECTED'' \<longrightarrow> jget out ''branchTargetNodeKey'' = JNull)"
proof -
  from assms obtain d a where d: "normalizeApprovalDecision (jor (jget payload ''decision'')
              (JStr (if timedOut then ''TIMED_OUT'' else ''REJECTED''))) = Inr d"
    and a: "getApprovalActionForDecision d (jors [params, approval, JObj []]) = Inr a"
    unfolding buildHumanApprovalOutput_def rbind_Inr_iff by blast
  have "a \<in> {''STOP_SUCCESS'', ''FAIL_WORKFLOW'', ''CONTINUE''}" "d = ''APPROVED'' \<longrightarrow> a = ''CONTINUE''"
    using a normalizeHumanApprovalAction_range
    by (auto simp: getApprovalActionForDecision_def simp del: jors.simps split: if_splits)
  moreover note o = assms [unfolded buildHumanApprovalOutput_def d a rbind.simps Let_def sum.inject, symmetric]
  have "jget out ''status'' = JStr d" "jget out ''approved'' = JBool (d = ''APPROVED'')"
    "jget out ''rejected'' = JBool (d = ''REJECTED'')" "jget out ''action'' = JStr a"
    by (simp_all add: o del: jors.simps)
  moreover have "d \<noteq> ''REJECTED'' \<longrightarrow> jget out ''branchTargetNodeKey'' = JNull"
    by (simp add: o del: jors.simps)
  ultimately show ?thesis using normalizeApprovalDecision_range [OF d]
    by (intro exI [of _ d] exI [of _ a]) simp
qed

theorem approval_output_coherent_witness:
  "\<exists>out. buildHumanApprovalOutput (JObj []) (JObj [(''onReject'', JStr ''fail'')])
           (JObj [(''decision'', JStr ''no'')]) False = Inr out
     \<and> (\<exists>d a. jget out ''status'' = JStr d \<and> d \<in> {''APPROVED'', ''REJECTED'', ''TIMED_OUT''}
     \<and> jget out ''approved'' = JBool (d = ''APPROVED'') \<and> jget out ''rejected'' = JBool (d = ''REJECTED'')
     \<and> jget out ''action'' = JStr a \<and> a \<in> {''STOP_SUCCESS'', ''FAIL_WORKFLOW'', ''CONTINUE''}
     \<and> (d = ''APPROVED'' \<longrightarrow> a = ''CONTINUE'')
     \<and> (d \<noteq> ''REJECTED'' \<longrightarrow> jget out ''branchTargetNodeKey'' = JNull))"
proof -
  have "normalizeApprovalDecision (JStr ''no'') = Inr ''REJECTED''"
    "normalizeHumanApprovalAction (JStr ''fail'') ''STOP_SUCCESS'' = Inr ''FAIL_WORKFLOW''"
    by code_simp+
  then have "\<exists>out. buildHumanApprovalOutput (JObj []) (JObj [(''onReject'', JStr ''fail'')])
           (JObj [(''decision'', JStr ''no'')]) False = Inr out"
    by (simp add: buildHumanApprovalOutput_def getApprovalActionForDecision_def Let_def)
  then obtain out where "buildHumanApprovalOutput (JObj []) (JObj [(''onReject'', JStr ''fail'')])
           (JObj [(''decision'', JStr ''no'')]) False = Inr out" ..
  then show ?thesis by (intro exI [of _ out] conjI [OF _ approval_output_coherent])
qed

text \<open>A condition branch goes to a node with the named key, later in the lane
  than the branching node and inside the plan.\<close>

theorem branch_target_found:
  assumes "buildWorkflowExecutionPlan ns = Inr plan"
    and "resolveConditionBranchIndex out i plan = Inr (Some j)"
  shows "i < j \<and> j < length (nodes plan)
     \<and> jget (nodes plan ! j) ''nodeKey'' = JStr (getConditionBranchTargetKeyFromOutput out)"
  using resolveConditionBranchIndex_later [OF assms(2)] plan_index [OF assms(1)] by auto

theorem branch_target_found_witness:
  "\<exists>plan. buildWorkflowExecutionPlan (JArr [JObj [(''nodeKey'', JStr ''a'')], JObj [(''nodeKey'', JStr ''b'')]]) = Inr plan
     \<and> 0 < Suc 0 \<and> Suc 0 < length (nodes plan)
     \<and> jget (nodes plan ! Suc 0) ''nodeKey''
         = JStr (getConditionBranchTargetKeyFromOutput (JObj [(''nextNodeKey'', JStr '' b '')]))"
proof -
  let ?ns = "JArr [JObj [(''nodeKey'', JStr ''a'')], JObj [(''nodeKey'', JStr ''b'')]]"
  let ?plan = "\<lparr>nodes = arr_items ?ns, nodeIndexByKey = [(''a'', 0), (''b'', Suc 0)]\<rparr>"
  have "buildWorkflowExecutionPlan ?ns = Inr ?plan"
    "resolveConditionBranchIndex (JObj [(''nextNodeKey'', JStr '' b '')]) 0 ?plan = Inr (Some (Suc 0))"
    by code_simp+
  from branch_target_found [OF this] this(1) show ?thesis by blast
qed

text \<open>A start permission is granted exactly when the template names none or the
  caller's permissions hold that code, under either spelling of the field.\<close>

theorem permission_gate:
  "assertWorkflowPermission (JStr code) (JArr (map JObj ps)) action = Inr ()
     \<longleftrightarrow> code = [] \<or> (\<exists>p \<in> set ps. jor (kv_get p ''permissionCode'') (kv_get p ''permission_code'') = JStr code)"
proof -
  have rm: "rmap (\<lambda>p. rbind (jread p ''permissionCode'') (\<lambda>c. Inr (jor c (jget p ''permission_code'')))) (map JObj ps)
      = Inr (map (\<lambda>p. jor (kv_get p ''permissionCode'') (kv_get p ''permission_code'')) ps)"
    by (induction ps) (auto simp: jread_def)
  have eq: "strict_eq (JStr code) v \<longleftrightarrow> v = JStr code" for v
    by (cases v) auto
  show ?thesis
    by (auto simp: assertWorkflowPermission_def getPermissionSet_def getSafeArray_def rm list_ex_iff eq
        intro: rev_image_eqI)
qed

lemma dedup_fold:
  "distinct acc \<Longrightarrow> [] \<notin> set acc \<Longrightarrow>
     distinct (foldl (\<lambda>out n. if n \<noteq> [] \<and> n \<notin> set out then out @ [n] else out) acc ns)
     \<and> set (foldl (\<lambda>out n. if n \<noteq> [] \<and> n \<notin> set out then out @ [n] else out) acc ns)
         = set acc \<union> (set ns - {[]})"
  by (induction ns arbitrary: acc) auto

lemma upper_not_lower: "\<not> is_lower (upper c)"
proof (cases "is_lower c")
  case True
  then have "code_of c - 32 < 256" by (auto simp: is_lower_def)
  with True have "code_of (upper c) = code_of c - 32" by (simp add: upper_def)
  with True show ?thesis by (auto simp: is_lower_def)
qed (simp add: upper_def)

text \<open>The indicators handed to a template are non-blank, upper case and
  without repetitions, from a list or from a text in any mixture of commas and blanks.\<close>

theorem indicator_list_normal:
  "distinct (normalizeStringArray v)
   \<and> list_all (\<lambda>n. n \<noteq> [] \<and> list_all (\<lambda>c. \<not> is_lower c) n) (normalizeStringArray v)"
proof -
  obtain ws where w: "normalizeStringArray v = foldl (\<lambda>out n. if n \<noteq> [] \<and> n \<notin> set out then out @ [n] else out) []
      (map (\<lambda>r. to_upper (trim (to_str (jor r (JStr []))))) ws)"
    unfolding normalizeStringArray_def Let_def by blast
  have "list_all (\<lambda>c. \<not> is_lower c) (to_upper s)" for s
    by (simp add: to_upper_def list_all_iff upper_not_lower)
  with dedup_fold [of "[]" "map (\<lambda>r. to_upper (trim (to_str (jor r (JStr []))))) ws"]
  show ?thesis unfolding w by (auto simp: list_all_iff)
qed

end
