(* ===== verification/WorkflowExecutor.thy ===== *)
theory WorkflowExecutor
  imports WorkflowNodes Effects
begin

text \<open>
  The durable workflow of \<open>packages/temporal/src/workflows/skyCommandWorkflowExecutorWorkflow.js\<close>:
  the five node executors and the main function, as effectful functions over the requests of
  \<open>Effects\<close>.  Activities are \<open>Act\<close> requests under their own names, \<open>sleep\<close> is \<open>Nap\<close>,
  \<open>condition\<close> on the approval map is \<open>AwaitDecision\<close>, \<open>executeChild\<close> is \<open>RunChild\<close> and the
  handle of \<open>startChild\<close> answers \<open>ChildRunId\<close> and \<open>ChildResult\<close>.  The map of approval decisions
  that the signal handler writes is recomputed from the signals in the history.
\<close>

section \<open>Shared steps of the node executors\<close>

definition node_run_id :: "jsval \<Rightarrow> jsval eff" where
  "node_run_id nodeRun = eread nodeRun ''workflowNodeRunRecordId''"

definition mark_attempt :: "jsval \<Rightarrow> jsval \<Rightarrow> (string \<times> jsval) list \<Rightarrow> jsval eff" where
  "mark_attempt nodeRun attemptCount metadata =
     ebind (node_run_id nodeRun) (\<lambda>id.
       activity ''markSkyserverWorkflowNodeAttemptActivity''
         (JObj [(''nodeRunRecordId'', id), (''attemptCount'', attemptCount), (''metadata'', JObj metadata)]))"

definition complete_node :: "jsval \<Rightarrow> jsval \<Rightarrow> (string \<times> jsval) list \<Rightarrow> jsval eff" where
  "complete_node nodeRun out metadata =
     ebind (node_run_id nodeRun) (\<lambda>id.
       activity ''completeSkyserverWorkflowNodeRunActivity''
         (JObj [(''nodeRunRecordId'', id), (''output'', out), (''metadata'', JObj metadata)]))"

text \<open>The end of every executor that gives up: the failure is recorded on the node run, then thrown.\<close>

definition fail_node ::
  "jsval \<Rightarrow> jsval \<Rightarrow> jsval \<Rightarrow> jsval \<Rightarrow> (string \<times> jsval) list \<Rightarrow> string \<Rightarrow> jsval eff" where
  "fail_node nodeRun parameters context err metadata failureType =
     (let normalizedError = serializeError err context
      in ebind (node_run_id nodeRun) (\<lambda>id.
         ebind (activity ''failSkyserverWorkflowNodeRunActivity''
           (JObj [(''nodeRunRecordId'', id),
                  (''output'', jor (err_details normalizedError) (JObj [])),
                  (''errorMessage'', JStr (err_message normalizedError)),
                  (''metadata'', JObj ((''parameters'', safeR4Value parameters context) # metadata
                      @ [(''errorName'', err_name normalizedError)]))]))
         (\<lambda>_. ethrow (node_failure normalizedError failureType))))"

section \<open>WAIT\<close>

definition wait_failed :: "jsval \<Rightarrow> jsval \<Rightarrow> jsval \<Rightarrow> jsval \<Rightarrow> jsval \<Rightarrow> jsval eff" where
  "wait_failed parameters nodeRun context waitParameters err =
     fail_node nodeRun parameters context err
       [(''waitNode'', JBool True), (''waitDurationMs'', jor (jget waitParameters ''durationMs'') JNull)]
       ''SkyServerWaitNodeFailure''"

definition executeWaitNode :: "jsval \<Rightarrow> jsval \<Rightarrow> jsval \<Rightarrow> jsval \<Rightarrow> jsval eff" where
  "executeWaitNode node parameters nodeRun context =
     ebind (etry (ebind (mark_attempt nodeRun (jnat 1) [(''waitNode'', JBool True)])
                   (\<lambda>_. lift_res (normalizeWaitParameters parameters)))) (\<lambda>r.
     case r of
       Inl err \<Rightarrow> wait_failed parameters nodeRun context JNull err
     | Inr waitParameters \<Rightarrow>
         ecatch
           (ebind clock (\<lambda>startedAtMs.
            ebind (nap (wait_ms waitParameters)) (\<lambda>_.
            ebind clock (\<lambda>completedAtMs.
            complete_node nodeRun
              (safeR4Value (buildWaitNodeOutput node waitParameters startedAtMs completedAtMs) context)
              [(''parameters'', safeR4Value parameters context), (''waitNode'', JBool True),
               (''waitDurationMs'', jget waitParameters ''durationMs'')]))))
           (wait_failed parameters nodeRun context waitParameters))"

section \<open>HUMAN\_APPROVAL\<close>

text \<open>The signal handler: the payload is filed under each of its lookup keys.\<close>

definition file_decision :: "(string \<times> jsval) list \<Rightarrow> jsval \<Rightarrow> (string \<times> jsval) list" where
  "file_decision decisions payload =
     (let safePayload = getSafeObject payload
      in foldl (\<lambda>m key. kv_set m key safePayload) decisions (getApprovalDecisionLookupKeys safePayload))"

definition approval_decisions :: "hist \<Rightarrow> (string \<times> jsval) list" where
  "approval_decisions h = foldl file_decision [] (concat (map signals h))"

definition clean_keys :: "jsval list \<Rightarrow> string list" where
  "clean_keys vs = filter (\<lambda>k. k \<noteq> []) (map (\<lambda>v. trim (to_str (jor v (JStr [])))) vs)"

fun first_decision :: "(string \<times> jsval) list \<Rightarrow> string list \<Rightarrow> jsval option" where
  "first_decision m [] = None"
| "first_decision m (k # ks) = (case map_of m k of Some d \<Rightarrow> Some d | None \<Rightarrow> first_decision m ks)"

record approval_ids =
  ap_user :: jsval
  ap_workflowId :: string
  ap_runId :: string
  ap_recordId :: jsval

definition approval_failed :: "jsval \<Rightarrow> jsval \<Rightarrow> jsval \<Rightarrow> jsval \<Rightarrow> jsval \<Rightarrow> jsval eff" where
  "approval_failed parameters nodeRun context approval err =
     fail_node nodeRun parameters context err
       [(''humanApprovalNode'', JBool True),
        (''approvalRequestId'', jor (jget approval ''approvalRequestId'') JNull)]
       ''SkyServerHumanApprovalNodeFailure''"

definition approval_requested ::
  "jsval \<Rightarrow> jsval \<Rightarrow> jsval \<Rightarrow> jsval \<Rightarrow> approval_ids \<Rightarrow> (jsval \<times> jsval) eff" where
  "approval_requested node parameters nodeRun context ids =
     ebind (mark_attempt nodeRun (jnat 1) [(''humanApprovalNode'', JBool True)]) (\<lambda>_.
     ebind (lift_res (normalizeHumanApprovalParameters parameters node)) (\<lambda>approvalParameters.
     ebind (node_run_id nodeRun) (\<lambda>id.
     ebind (activity ''createSkyserverWorkflowApprovalRequestActivity''
       (JObj [(''workflowRunRecordId'', ap_recordId ids), (''workflowNodeRunRecordId'', id),
              (''node'', safeR4Value node context), (''parameters'', safeR4Value approvalParameters context),
              (''user'', ap_user ids), (''context'', context),
              (''temporalWorkflowId'', JStr (ap_workflowId ids)), (''temporalRunId'', JStr (ap_runId ids))]))
       (\<lambda>approval. eret (approvalParameters, approval)))))"

definition wait_keys :: "jsval \<Rightarrow> jsval \<Rightarrow> jsval \<Rightarrow> jsval \<Rightarrow> string list" where
  "wait_keys approval nodeRun node approvalParameters = clean_keys
     [jget approval ''approvalRequestId'', jget approval ''workflowNodeRunRecordId'',
      jget approval ''nodeKey'', jget approval ''approvalKey'',
      jget nodeRun ''workflowNodeRunRecordId'', jget node ''nodeKey'', jget approvalParameters ''approvalKey'']"

definition timed_out_payload :: "jsval \<Rightarrow> jsval \<Rightarrow> jsval \<Rightarrow> jsval \<Rightarrow> jsval \<Rightarrow> jsval" where
  "timed_out_payload approval recordId nodeRun node approvalParameters = JObj
     [(''approvalRequestId'', jget approval ''approvalRequestId''), (''workflowRunRecordId'', recordId),
      (''workflowNodeRunRecordId'', jget nodeRun ''workflowNodeRunRecordId''),
      (''nodeKey'', jget node ''nodeKey''), (''approvalKey'', jget approvalParameters ''approvalKey''),
      (''decision'', JStr ''TIMED_OUT''), (''decisionNote'', JStr ''Approval request timed out.''),
      (''actor'', JNull)]"

definition timeout_of :: "jsval \<Rightarrow> rat option" where
  "timeout_of approvalParameters =
     (case jget approvalParameters ''timeoutMs'' of
        JNum (Fin r) \<Rightarrow> if r \<noteq> 0 then Some r else None
      | _ \<Rightarrow> None)"

text \<open>Waiting for a decision: what the person decided, or the payload of the timeout.\<close>

definition await_decision ::
  "jsval \<Rightarrow> jsval \<Rightarrow> jsval \<Rightarrow> jsval \<Rightarrow> jsval \<Rightarrow> jsval eff" where
  "await_decision approval recordId nodeRun node approvalParameters =
     (let keys = wait_keys approval nodeRun node approvalParameters;
          timeout = timeout_of approvalParameters
      in ebind (ask (AwaitDecision keys timeout)) (\<lambda>signalled.
         ebind get_hist (\<lambda>h.
           let completedBySignal = (timeout = None \<or> truthy signalled)
           in case first_decision (approval_decisions h) keys of
                Some d \<Rightarrow> eret (if completedBySignal then getSafeObject d
                                else timed_out_payload approval recordId nodeRun node approvalParameters)
              | None \<Rightarrow> eret (timed_out_payload approval recordId nodeRun node approvalParameters))))"

definition approval_resolved ::
  "jsval \<Rightarrow> jsval \<Rightarrow> jsval \<Rightarrow> jsval \<Rightarrow> approval_ids \<Rightarrow> jsval \<Rightarrow> jsval \<Rightarrow> jsval eff" where
  "approval_resolved node parameters nodeRun context ids approvalParameters approval =
     ebind (await_decision approval (ap_recordId ids) nodeRun node approvalParameters) (\<lambda>decisionPayload.
     ebind (lift_res (normalizeApprovalDecision (jget decisionPayload ''decision''))) (\<lambda>decision.
     ebind (eread approval ''approvalRequestId'') (\<lambda>requestId.
     ebind (activity ''resolveSkyserverWorkflowApprovalRequestActivity''
       (JObj [(''approvalRequestId'', requestId), (''decision'', JStr decision),
              (''decisionNote'', safeR4Value (jor (jget decisionPayload ''decisionNote'') JNull) context),
              (''user'', getSafeObject (jget decisionPayload ''actor'')),
              (''metadata'', JObj [(''humanApprovalNode'', JBool True), (''resolvedByWorkflow'', JBool True),
                                  (''timedOut'', JBool (decision = ''TIMED_OUT''))])])) (\<lambda>resolvedApproval.
     ebind (lift_res (buildHumanApprovalOutput (jor resolvedApproval approval) approvalParameters
                        decisionPayload (decision = ''TIMED_OUT''))) (\<lambda>built.
       let out = safeR4Value built context
       in complete_node nodeRun out
            [(''parameters'', safeR4Value parameters context), (''humanApprovalNode'', JBool True),
             (''approvalRequestId'', requestId), (''approvalStatus'', jget out ''status''),
             (''approvalAction'', jget out ''action'')])))))"

definition executeHumanApprovalNode ::
  "jsval \<Rightarrow> jsval \<Rightarrow> jsval \<Rightarrow> jsval \<Rightarrow> approval_ids \<Rightarrow> jsval eff" where
  "executeHumanApprovalNode node parameters nodeRun context ids =
     ebind (etry (approval_requested node parameters nodeRun context ids)) (\<lambda>r.
     case r of
       Inl err \<Rightarrow> approval_failed parameters nodeRun context JNull err
     | Inr (approvalParameters, approval) \<Rightarrow>
         ecatch (approval_resolved node parameters nodeRun context ids approvalParameters approval)
           (approval_failed parameters nodeRun context approval))"

section \<open>Nodes with retries\<close>

record run_ids =
  r_user :: jsval
  r_session :: jsval
  r_permissions :: jsval
  r_workflowId :: string
  r_runId :: string
  r_recordId :: jsval
  r_taskQueue :: jsval

definition attempt_no :: "nat \<Rightarrow> jsval" where
  "attempt_no n = jnum (of_nat n)"

definition displayed :: "int \<Rightarrow> nat \<Rightarrow> jsval" where
  "displayed attemptOffset n = jnum (of_int (getDisplayedAttemptCount attemptOffset (int n)))"

text \<open>\<open>retryPolicy.initialIntervalSeconds * 1000 * attempt\<close>.\<close>

definition retry_delay :: "retry_policy \<Rightarrow> nat \<Rightarrow> rat" where
  "retry_delay policy n = of_int (initialIntervalSeconds policy) * 1000 * of_nat n"

definition retry_loop :: "retry_policy \<Rightarrow> (nat \<Rightarrow> 'a attempt eff) \<Rightarrow> (jsval + 'a) eff" where
  "retry_loop policy body = attempts body (retry_delay policy) (nat (maximumAttempts policy)) 1 JNull"

definition mark_retry ::
  "jsval \<Rightarrow> retry_policy \<Rightarrow> int \<Rightarrow> nat \<Rightarrow> (string \<times> jsval) list \<Rightarrow> jsval eff" where
  "mark_retry nodeRun policy attemptOffset n target =
     mark_attempt nodeRun (displayed attemptOffset n)
       ((''retryPolicy'', retry_policy_value policy) # target
        @ [(''internalAttempt'', attempt_no n), (''manualRetryAttemptOffset'', jnum (of_int attemptOffset)),
           (''displayedAttemptCount'', displayed attemptOffset n)])"

text \<open>What the two executors of child workflows do with an attempt: whatever it throws is retried.\<close>

definition retried :: "'a eff \<Rightarrow> 'a attempt eff" where
  "retried m = ebind (etry m) (\<lambda>r. eret (case r of Inl err \<Rightarrow> Again err | Inr x \<Rightarrow> Done x))"

definition give_up ::
  "jsval \<Rightarrow> jsval \<Rightarrow> jsval \<Rightarrow> retry_policy \<Rightarrow> int \<Rightarrow> (string \<times> jsval) list \<Rightarrow> string \<Rightarrow> jsval \<Rightarrow> jsval eff" where
  "give_up nodeRun parameters context policy attemptOffset target failureType err =
     fail_node nodeRun parameters context err
       ((''retryPolicy'', retry_policy_value policy) # target
        @ [(''attemptCount'', displayed attemptOffset (nat (maximumAttempts policy))),
           (''internalAttempt'', attempt_no (nat (maximumAttempts policy))),
           (''manualRetryAttemptOffset'', jnum (of_int attemptOffset))])
       failureType"

subsection \<open>Tool nodes\<close>

definition tool_body ::
  "jsval \<Rightarrow> jsval \<Rightarrow> jsval \<Rightarrow> int \<Rightarrow> run_ids \<Rightarrow> jsval \<Rightarrow> retry_policy \<Rightarrow> nat \<Rightarrow> jsval attempt eff" where
  "tool_body node parameters nodeRun attemptOffset ids context policy n =
     ebind (mark_retry nodeRun policy attemptOffset n []) (\<lambda>_.
     ebind (etry (ebind (node_run_id nodeRun) (\<lambda>id.
         activity ''executeSkyserverWorkflowNodeActivity''
           (JObj [(''node'', node), (''parameters'', parameters), (''user'', r_user ids),
                  (''session'', r_session ids), (''permissions'', r_permissions ids), (''context'', context),
                  (''temporalWorkflowId'', JStr (r_workflowId ids)), (''temporalRunId'', JStr (r_runId ids)),
                  (''workflowRunRecordId'', r_recordId ids), (''nodeRunRecordId'', id)])))) (\<lambda>r.
     case r of
       Inl err \<Rightarrow> eret (Again err)
     | Inr out \<Rightarrow>
         ebind (etry (complete_node nodeRun out
           [(''parameters'', parameters), (''attemptCount'', displayed attemptOffset n),
            (''internalAttempt'', attempt_no n), (''manualRetryAttemptOffset'', jnum (of_int attemptOffset)),
            (''retryPolicy'', retry_policy_value policy)])) (\<lambda>c.
         case c of
           Inr completed \<Rightarrow> eret (Done completed)
         | Inl persistenceError \<Rightarrow>
             (let normalized = serializeError persistenceError context
              in ebind (node_run_id nodeRun) (\<lambda>id. ethrow (application_failure
                (''Workflow node execution succeeded, but completion persistence failed: '' @ err_message normalized)
                ''SkyServerWorkflowNodePersistenceFailure''
                [JObj [(''nodeKey'', jget node ''nodeKey''), (''nodeRunRecordId'', id),
                       (''executionSucceeded'', JBool True),
                       (''persistenceError'', serialized_value normalized)]]))))))"

definition executeNodeWithRetries ::
  "jsval \<Rightarrow> jsval \<Rightarrow> jsval \<Rightarrow> int \<Rightarrow> run_ids \<Rightarrow> jsval \<Rightarrow> jsval eff" where
  "executeNodeWithRetries node parameters nodeRun attemptOffset ids context =
     (let policy = getNodeRetryPolicy node
      in ebind (retry_loop policy (tool_body node parameters nodeRun attemptOffset ids context policy)) (\<lambda>r.
         case r of
           Inr completed \<Rightarrow> eret completed
         | Inl err \<Rightarrow> give_up nodeRun parameters context policy attemptOffset [] ''SkyServerWorkflowNodeFailure'' err))"

subsection \<open>Child workflows\<close>

definition workflow_stack :: "jsval \<Rightarrow> jsval \<Rightarrow> jsval list" where
  "workflow_stack defn context =
     (let stack = arr_items (getSafeArray (jget context ''workflowStack''))
      in if list_ex (strict_eq (jget defn ''workflowCode'')) stack then stack
         else stack @ [jget defn ''workflowCode''])"

definition child_attempt ::
  "jsval \<Rightarrow> jsval \<Rightarrow> jsval \<Rightarrow> jsval \<Rightarrow> int \<Rightarrow> run_ids \<Rightarrow> jsval \<Rightarrow> retry_policy \<Rightarrow> string \<Rightarrow> nat \<Rightarrow> jsval eff" where
  "child_attempt defn node parameters nodeRun attemptOffset ids context policy childWorkflowCode n =
     (let base = workflow_stack defn context;
          nodeKey = jget node ''nodeKey'';
          parentContext = obj_with (getSafeObject context) [(''workflowStack'', JArr base)];
          childContext = obj_with parentContext
            [(''parentWorkflowCode'', jget defn ''workflowCode''),
             (''parentWorkflowRunRecordId'', r_recordId ids), (''parentNodeKey'', nodeKey),
             (''workflowStack'', JArr (base @ [JStr childWorkflowCode]))];
          childInput = obj_with (getSafeObject parameters)
            [(''runSource'', JStr ''child_workflow''), (''triggerType'', JStr ''CHILD_WORKFLOW''),
             (''parentWorkflowRunRecordId'', r_recordId ids),
             (''parentWorkflowCode'', jget defn ''workflowCode''), (''parentNodeKey'', nodeKey)];
          childWorkflowId = normalizeWorkflowIdPart
            (JStr (r_workflowId ids @ ''-'' @ to_str nodeKey @ ''-child-'' @ nat_str n))
            (''child-'' @ to_str nodeKey)
      in ebind (activity ''startChildSkyserverWorkflowRunActivity''
           (JObj [(''parentWorkflowRunRecordId'', r_recordId ids),
                  (''parentWorkflowCode'', jget defn ''workflowCode''), (''parentNodeKey'', nodeKey),
                  (''childWorkflowCode'', JStr childWorkflowCode), (''input'', childInput),
                  (''user'', r_user ids), (''context'', parentContext), (''permissions'', r_permissions ids)]))
         (\<lambda>childRun.
         ebind (eread childRun ''definition'') (\<lambda>childDefinition.
         ebind (eread childDefinition ''workflowCode'') (\<lambda>childCode.
         ebind (eread childRun ''run'') (\<lambda>run.
         ebind (eread run ''workflowRunRecordId'') (\<lambda>childRecordId.
         ebind (ask (RunChild (JObj
           [(''workflowId'', JStr childWorkflowId), (''taskQueue'', jor (r_taskQueue ids) JUndef),
            (''args'', JArr [JObj
              [(''workflowCode'', childCode), (''workflowRunRecordId'', childRecordId), (''input'', childInput),
               (''user'', r_user ids), (''session'', r_session ids), (''permissions'', r_permissions ids),
               (''context'', childContext), (''taskQueue'', r_taskQueue ids)]])]))) (\<lambda>childResult.
         ebind (eread childResult ''temporalWorkflowId'') (\<lambda>childTemporalId.
           complete_node nodeRun
             (safeR4Value (JObj
               [(''kind'', JStr ''child_workflow_execution''), (''status'', JStr ''SUCCESS''),
                (''workflowCode'', childCode),
                (''workflowDisplayName'', jget childDefinition ''displayName''),
                (''workflowRunRecordId'', childRecordId), (''temporalWorkflowId'', childTemporalId),
                (''temporalRunId'', jget childResult ''temporalRunId''),
                (''childSummary'', jget childResult ''summary''),
                (''childNodeCount'', jor (jget (jget childResult ''nodeRuns'') ''length'') (jnat 0)),
                (''summary'', JStr (''Child workflow '' @ to_str (jget childDefinition ''displayName'')
                                    @ '' completed successfully.''))]) context)
             [(''parameters'', safeR4Value parameters context),
              (''attemptCount'', displayed attemptOffset n), (''internalAttempt'', attempt_no n),
              (''manualRetryAttemptOffset'', jnum (of_int attemptOffset)),
              (''retryPolicy'', retry_policy_value policy), (''childWorkflowCode'', JStr childWorkflowCode),
              (''childWorkflowRunRecordId'', childRecordId)]))))))))"

definition child_body ::
  "jsval \<Rightarrow> jsval \<Rightarrow> jsval \<Rightarrow> jsval \<Rightarrow> int \<Rightarrow> run_ids \<Rightarrow> jsval \<Rightarrow> retry_policy \<Rightarrow> string \<Rightarrow> nat \<Rightarrow> jsval attempt eff" where
  "child_body defn node parameters nodeRun attemptOffset ids context policy childWorkflowCode n =
     ebind (mark_retry nodeRun policy attemptOffset n [(''childWorkflowCode'', JStr childWorkflowCode)]) (\<lambda>_.
       retried (child_attempt defn node parameters nodeRun attemptOffset ids context policy childWorkflowCode n))"

definition target_code :: "jsval \<Rightarrow> jsval \<Rightarrow> string" where
  "target_code node parameters =
     trim (to_str (jors [jget parameters ''workflowCode'', jget node ''targetCode'', JStr []]))"

definition executeChildWorkflowNodeWithRetries ::
  "jsval \<Rightarrow> jsval \<Rightarrow> jsval \<Rightarrow> jsval \<Rightarrow> int \<Rightarrow> run_ids \<Rightarrow> jsval \<Rightarrow> jsval eff" where
  "executeChildWorkflowNodeWithRetries defn node parameters nodeRun attemptOffset ids context =
     (let policy = getNodeRetryPolicy node; code = target_code node parameters
      in if code = []
         then ethrow (JObj [(''name'', JStr ''ApplicationFailure''),
                (''message'', JStr ''Child workflow target is required.''),
                (''type'', JStr ''SkyServerChildWorkflowInputError''), (''nonRetryable'', JBool True)])
         else ebind (retry_loop policy (child_body defn node parameters nodeRun attemptOffset ids context policy code))
           (\<lambda>r. case r of
              Inr completed \<Rightarrow> eret completed
            | Inl err \<Rightarrow> give_up nodeRun parameters context policy attemptOffset
                [(''childWorkflowCode'', JStr code)] ''SkyServerChildWorkflowFailure'' err))"

subsection \<open>Temporal workflow templates\<close>

definition template_attempt ::
  "jsval \<Rightarrow> jsval \<Rightarrow> jsval \<Rightarrow> int \<Rightarrow> run_ids \<Rightarrow> jsval \<Rightarrow> string \<Rightarrow> retry_policy \<Rightarrow> string \<Rightarrow> nat \<Rightarrow> jsval eff" where
  "template_attempt node parameters nodeRun attemptOffset ids context productIdentity policy templateWorkflowCode n =
     ebind (activity ''loadTemporalWorkflowDefinitionActivity''
             (JObj [(''workflowCode'', JStr templateWorkflowCode)])) (\<lambda>template.
     ebind (eread template ''startPermissionCode'') (\<lambda>permissionCode.
     ebind (lift_res (assertWorkflowPermission permissionCode (r_permissions ids)
                        ''start_temporal_workflow_template_node'')) (\<lambda>_.
       let childWorkflowId = normalizeWorkflowIdPart
             (JStr (r_workflowId ids @ ''-'' @ to_str (jget node ''nodeKey'') @ ''-temporal-'' @ nat_str n))
             (''temporal-'' @ to_str (jget node ''nodeKey''));
           childInput = buildTemporalTemplateInput template parameters childWorkflowId;
           templateName = to_str (jor (jget template ''displayName'') (jget template ''workflowCode''))
       in ebind (ask (StartChild (JObj
            [(''workflowType'', jget template ''workflowType''), (''workflowId'', JStr childWorkflowId),
             (''taskQueue'', jors [jget template ''taskQueue'', r_taskQueue ids, JUndef]),
             (''args'', JArr [childInput])]))) (\<lambda>childHandle.
          ebind (ask (ChildRunId childHandle)) (\<lambda>childRunId.
          ebind (ask (ChildResult childHandle)) (\<lambda>childResult.
          if truthy childResult \<and> strict_eq (jget childResult ''ok'') (JBool False)
          then ethrow (application_failure
            (''Temporal workflow template '' @ templateName @ '' completed with a failed result.'')
            ''SkyServerTemporalWorkflowTemplateFailedResult''
            [JObj [(''templateWorkflowCode'', JStr templateWorkflowCode), (''childResult'', childResult)]])
          else complete_node nodeRun
            (safeR4Value (JObj
              [(''kind'', JStr ''temporal_workflow_execution''), (''status'', JStr ''SUCCESS''),
               (''workflowCode'', jget template ''workflowCode''), (''workflowType'', jget template ''workflowType''),
               (''workflowDisplayName'', jget template ''displayName''),
               (''temporalWorkflowId'', jget childHandle ''workflowId''), (''temporalRunId'', childRunId),
               (''taskQueue'', jors [jget template ''taskQueue'', r_taskQueue ids, JNull]),
               (''namespace'', jor (jget template ''namespace'') JNull),
               (''resultOk'', JBool (\<not> strict_eq (jget childResult ''ok'') (JBool False))),
               (''resultSummary'', jor (jget childResult ''summary'') JNull),
               (''resultPreview'', JStr (buildTemporalResultPreview childResult 4000 productIdentity)),
               (''summary'', JStr (''Temporal workflow template '' @ templateName
                                   @ '' completed successfully.''))]) context)
            [(''parameters'', safeR4Value parameters context),
             (''attemptCount'', displayed attemptOffset n), (''internalAttempt'', attempt_no n),
             (''manualRetryAttemptOffset'', jnum (of_int attemptOffset)),
             (''retryPolicy'', retry_policy_value policy),
             (''templateWorkflowCode'', JStr templateWorkflowCode),
             (''temporalTemplateWorkflowId'', jget childHandle ''workflowId''),
             (''temporalTemplateRunId'', childRunId), (''workflowRunRecordId'', r_recordId ids)]))))))"

definition template_body ::
  "jsval \<Rightarrow> jsval \<Rightarrow> jsval \<Rightarrow> int \<Rightarrow> run_ids \<Rightarrow> jsval \<Rightarrow> string \<Rightarrow> retry_policy \<Rightarrow> string \<Rightarrow> nat \<Rightarrow> jsval attempt eff" where
  "template_body node parameters nodeRun attemptOffset ids context productIdentity policy code n =
     ebind (mark_retry nodeRun policy attemptOffset n [(''templateWorkflowCode'', JStr code)]) (\<lambda>_.
       retried (template_attempt node parameters nodeRun attemptOffset ids context productIdentity policy code n))"

definition executeTemporalWorkflowTemplateNodeWithRetries ::
  "jsval \<Rightarrow> jsval \<Rightarrow> jsval \<Rightarrow> int \<Rightarrow> run_ids \<Rightarrow> jsval \<Rightarrow> string \<Rightarrow> jsval eff" where
  "executeTemporalWorkflowTemplateNodeWithRetries node parameters nodeRun attemptOffset ids context productIdentity =
     (let policy = getNodeRetryPolicy node; code = target_code node parameters
      in if code = []
         then ethrow (JObj [(''name'', JStr ''ApplicationFailure''),
                (''message'', JStr ''Temporal workflow template node target is required.''),
                (''type'', JStr ''SkyServerTemporalWorkflowInputError''), (''nonRetryable'', JBool True)])
         else ebind (retry_loop policy
                (template_body node parameters nodeRun attemptOffset ids context productIdentity policy code))
           (\<lambda>r. case r of
              Inr completed \<Rightarrow> eret completed
            | Inl err \<Rightarrow> give_up nodeRun parameters context policy attemptOffset
                [(''templateWorkflowCode'', JStr code)] ''SkyServerTemporalWorkflowTemplateFailure'' err))"

section \<open>The lane\<close>

text \<open>What stays fixed during a run, and what the loop over the nodes updates.\<close>

record lane =
  l_input :: jsval
  l_requestInput :: jsval
  l_recovery :: jsval
  l_recoveryKey :: string
  l_definition :: jsval
  l_workflowId :: string
  l_runId :: string
  l_recordId :: jsval
  l_startedAt :: rat
  l_skyCommand :: bool

record lane_state =
  nodeRuns :: "jsval list"
  nodeOutputsByKey :: "(string \<times> jsval) list"
  runtimeContext :: jsval
  previousNodeOutput :: jsval
  conditionRoutes :: "jsval list"
  approvalRoutes :: "jsval list"

datatype stop = RanToEnd | ConditionStop jsval jsval | ApprovalStop jsval jsval

definition node_count :: "jsval \<Rightarrow> nat" where
  "node_count defn =
     (case jget (jget defn ''nodes'') ''length'' of JNum (Fin r) \<Rightarrow> nat \<lfloor>r\<rfloor> | _ \<Rightarrow> 0)"

definition node_context :: "lane \<Rightarrow> lane_state \<Rightarrow> jsval \<Rightarrow> jsval" where
  "node_context L st node =
     obj_with (buildWorkflowExecutionContext (jget (l_input L) ''context'') (runtimeContext st)
                 (l_requestInput L) (JObj (nodeOutputsByKey st)) (previousNodeOutput st) (jget node ''nodeKey''))
       ([(''definition'', l_definition L), (''workflowRunRecordId'', l_recordId L),
         (''nodeRuns'', JArr (nodeRuns st)), (''startedAtMs'', jnum (l_startedAt L)),
         (''totalNodeCount'', jget (jget (l_definition L) ''nodes'') ''length'')]
        @ (if l_recoveryKey L \<noteq> []
           then [(''nodeRecovery'', obj_with (l_recovery L)
                  [(''active'', JBool True), (''recoveryNodeKey'', JStr (l_recoveryKey L))])]
           else []))"

definition recovery_attempt :: "lane \<Rightarrow> jsval" where
  "recovery_attempt L = jor (jget (l_recovery L) ''recoveryAttemptNumber'') (jnat 1)"

definition start_node :: "lane \<Rightarrow> jsval \<Rightarrow> int \<Rightarrow> jsval eff" where
  "start_node L node attemptOffset =
     activity ''startSkyserverWorkflowNodeRunActivity''
       (JObj [(''workflowRunRecordId'', l_recordId L), (''node'', node),
              (''attemptCount'', displayed attemptOffset 1),
              (''metadata'', JObj
                ([(''temporalWorkflowId'', JStr (l_workflowId L)), (''temporalRunId'', JStr (l_runId L)),
                  (''manualRetryAttemptOffset'', jnum (of_int attemptOffset)),
                  (''displayedAttemptCount'', displayed attemptOffset 1)]
                 @ (if l_recoveryKey L \<noteq> [] \<and> strict_eq (jget node ''nodeKey'') (JStr (l_recoveryKey L))
                    then [(''manualNodeRecovery'', JBool True),
                          (''nodeRecoveryNodeKey'', JStr (l_recoveryKey L)),
                          (''nodeRecoveryAttemptNumber'', recovery_attempt L),
                          (''nodeRecoveryRequestedAt'', jor (jget (l_recovery L) ''requestedAt'') JNull)]
                    else [])))])"

definition node_type :: "jsval \<Rightarrow> string \<Rightarrow> bool" where
  "node_type node t = strict_eq (jget node ''nodeTypeCode'') (JStr t)"

definition dispatch_node :: "lane \<Rightarrow> jsval \<Rightarrow> jsval \<Rightarrow> jsval \<Rightarrow> int \<Rightarrow> jsval \<Rightarrow> jsval eff" where
  "dispatch_node L node parameters nodeRun attemptOffset context =
     (let input = l_input L;
          ids = \<lparr>r_user = jor (jget input ''user'') JNull, r_session = jor (jget input ''session'') JNull,
                 r_permissions = jor (jget input ''permissions'') (JArr []),
                 r_workflowId = l_workflowId L, r_runId = l_runId L, r_recordId = l_recordId L,
                 r_taskQueue = jget input ''taskQueue''\<rparr>
      in if node_type node ''WAIT'' then executeWaitNode node parameters nodeRun context
         else if node_type node ''HUMAN_APPROVAL''
         then executeHumanApprovalNode node parameters nodeRun context
                \<lparr>ap_user = jor (jget input ''user'') JNull, ap_workflowId = l_workflowId L,
                 ap_runId = l_runId L, ap_recordId = l_recordId L\<rparr>
         else if node_type node ''WORKFLOW''
         then executeChildWorkflowNodeWithRetries (l_definition L) node parameters nodeRun attemptOffset ids context
         else if node_type node ''TEMPORAL_WORKFLOW''
         then executeTemporalWorkflowTemplateNodeWithRetries node parameters nodeRun attemptOffset ids context
                (if l_skyCommand L then ''SkyCommand'' else ''SkyServer'')
         else executeNodeWithRetries node parameters nodeRun attemptOffset ids context)"

definition run_node :: "lane \<Rightarrow> lane_state \<Rightarrow> jsval \<Rightarrow> jsval eff" where
  "run_node L st node =
     (let context = node_context L st node;
          parameters = buildNodeParameters node (l_requestInput L) context;
          attemptOffset = getNodeAttemptOffset (l_requestInput L) (to_str (jget node ''nodeKey''))
      in ebind (start_node L node attemptOffset) (\<lambda>nodeRun.
           dispatch_node L node parameters nodeRun attemptOffset context))"

definition record_result :: "lane_state \<Rightarrow> jsval \<Rightarrow> jsval \<Rightarrow> lane_state" where
  "record_result st node completed =
     (let out = jor (jget completed ''output'') (JObj [])
      in st\<lparr>nodeRuns := nodeRuns st @ [completed],
            nodeOutputsByKey := kv_set (nodeOutputsByKey st) (to_str (jget node ''nodeKey'')) out,
            previousNodeOutput := out,
            runtimeContext := applyContextPatch (runtimeContext st) (buildNodeContextPatch completed)\<rparr>)"

text \<open>Where the lane goes after a node, with the routes taken.\<close>

datatype route = Goto nat lane_state | Halt stop

definition gate_failure :: "string \<Rightarrow> string \<Rightarrow> jsval \<Rightarrow> jsval \<Rightarrow> jsval" where
  "gate_failure otherwise type node out =
     application_failure (to_str (jor (jget out ''summary'') (JStr otherwise))) type
       [JObj [(''nodeKey'', jget node ''nodeKey''), (''output'', out)]]"

definition condition_route :: "execution_plan \<Rightarrow> nat \<Rightarrow> jsval \<Rightarrow> jsval \<Rightarrow> lane_state \<Rightarrow> route res" where
  "condition_route plan i node completed st =
     (let out = jget completed ''output''
      in rbind (resolveConditionBranchIndex (jor out (JObj [])) i plan) (\<lambda>target.
         case target of
           Some j \<Rightarrow> Inr (Goto j (st\<lparr>conditionRoutes := conditionRoutes st @ [JObj
              [(''nodeKey'', jget node ''nodeKey''),
               (''branchLabel'', jor (jget out ''branchLabel'')
                  (JStr (if truthy (jget out ''passed'') then ''TRUE'' else ''FALSE''))),
               (''targetNodeKey'', jget out ''branchTargetNodeKey'')]]\<rparr>))
         | None \<Rightarrow>
             if strict_eq (jget out ''passed'') (JBool False)
             then (let onFalse = normalizeConditionOnFalseAction (jget out ''onFalse'')
                   in if onFalse = ''FAIL_WORKFLOW''
                      then Inl (gate_failure ''Workflow condition failed.''
                                  ''SkyServerWorkflowConditionFailed'' node out)
                      else if onFalse = ''STOP_SUCCESS''
                      then Inr (Halt (ConditionStop (jget node ''nodeKey'') out))
                      else Inr (Goto (Suc i) st))
             else Inr (Goto (Suc i) st)))"

definition approval_route :: "execution_plan \<Rightarrow> nat \<Rightarrow> jsval \<Rightarrow> jsval \<Rightarrow> lane_state \<Rightarrow> route res" where
  "approval_route plan i node completed st =
     (let out = jget completed ''output''
      in if strict_eq (jget out ''status'') (JStr ''APPROVED'') then Inr (Goto (Suc i) st)
         else rbind (resolveHumanApprovalBranchIndex (jor out (JObj [])) i plan) (\<lambda>target.
         case target of
           Some j \<Rightarrow> Inr (Goto j (st\<lparr>approvalRoutes := approvalRoutes st @ [JObj
              [(''nodeKey'', jget node ''nodeKey''), (''branchLabel'', JStr ''REJECTED''),
               (''targetNodeKey'', jget out ''branchTargetNodeKey'')]]\<rparr>))
         | None \<Rightarrow>
             rbind (jread completed ''output'') (\<lambda>_. rbind (jread out ''action'') (\<lambda>act.
             let action = jor act (JStr ''FAIL_WORKFLOW'')
             in if strict_eq action (JStr ''FAIL_WORKFLOW'')
                then Inl (gate_failure ''Workflow human approval gate failed.''
                            ''SkyServerWorkflowApprovalFailed'' node out)
                else if strict_eq action (JStr ''STOP_SUCCESS'')
                then Inr (Halt (ApprovalStop (jget node ''nodeKey'') out))
                else Inr (Goto (Suc i) st)))))"

definition route_after :: "execution_plan \<Rightarrow> nat \<Rightarrow> jsval \<Rightarrow> jsval \<Rightarrow> lane_state \<Rightarrow> route res" where
  "route_after plan i node completed st =
     (if node_type node ''CONDITION'' then condition_route plan i node completed st
      else if node_type node ''HUMAN_APPROVAL'' then approval_route plan i node completed st
      else Inr (Goto (Suc i) st))"

text \<open>A route never goes back.\<close>

lemma condition_route_later: "condition_route plan i node c st = Inr (Goto j st') \<Longrightarrow> i < j"
  by (auto simp: condition_route_def Let_def rbind_Inr_iff
      split: option.splits if_splits dest: resolveConditionBranchIndex_later)

lemma approval_route_later: "approval_route plan i node c st = Inr (Goto j st') \<Longrightarrow> i < j"
  by (auto simp: approval_route_def Let_def rbind_Inr_iff
      split: option.splits if_splits dest: resolveHumanApprovalBranchIndex_later)

lemma route_later: "route_after plan i node c st = Inr (Goto j st') \<Longrightarrow> i < j"
  by (auto simp: route_after_def split: if_splits dest: condition_route_later approval_route_later)

function run_lane ::
  "lane \<Rightarrow> execution_plan \<Rightarrow> nat \<Rightarrow> lane_state \<Rightarrow> (lane_state \<times> (jsval + stop)) eff" where
  "run_lane L plan i st =
     (if i < length (nodes plan)
      then ebind (etry (run_node L st (nodes plan ! i))) (\<lambda>r.
        case r of
          Inl err \<Rightarrow> eret (st, Inl err)
        | Inr completed \<Rightarrow>
            (let st1 = record_result st (nodes plan ! i) completed
             in case route_after plan i (nodes plan ! i) completed st1 of
                  Inl err \<Rightarrow> eret (st1, Inl err)
                | Inr (Halt stop) \<Rightarrow> eret (st1, Inr stop)
                | Inr (Goto j st2) \<Rightarrow> run_lane L plan j st2))
      else eret (st, Inr RanToEnd))"
  by pat_completeness auto
termination
  by (relation "measure (\<lambda>(L, plan, i, st). length (nodes plan) - i)")
    (auto dest!: route_later)

declare run_lane.simps [simp del]

section \<open>The workflow\<close>

definition input_failure :: "string \<Rightarrow> string \<Rightarrow> jsval" where
  "input_failure message type = JObj
     [(''name'', JStr ''ApplicationFailure''), (''message'', JStr message),
      (''type'', JStr type), (''nonRetryable'', JBool True)]"

text \<open>The state restored for a recovery run: the prior node runs, their outputs, the persisted
  context and the patch of the last completed node.\<close>

fun restore_outputs :: "(string \<times> jsval) list \<Rightarrow> jsval list \<Rightarrow> (string \<times> jsval) list res" where
  "restore_outputs outs [] = Inr outs"
| "restore_outputs outs (r # rs) =
     rbind (jread r ''nodeKey'') (\<lambda>k.
       restore_outputs (kv_set outs (to_str k) (getSafeObject (jget r ''output''))) rs)"

definition restored_state :: "jsval \<Rightarrow> lane_state res" where
  "restored_state recoveryState =
     (let prior = arr_items (getSafeArray (jget recoveryState ''priorNodeRuns''));
          context = buildContextObjectFromPersistedRows (jor (jget recoveryState ''contextValues'') (JArr []));
          previous = (if prior = [] then JNull else jor (last prior) JNull)
      in rbind (restore_outputs [] prior) (\<lambda>outs.
         Inr \<lparr>nodeRuns = prior, nodeOutputsByKey = outs,
              runtimeContext = (if truthy previous then applyContextPatch context (buildNodeContextPatch previous)
                                else context),
              previousNodeOutput = (if truthy previous then getSafeObject (jget previous ''output'') else JNull),
              conditionRoutes = [], approvalRoutes = []\<rparr>))"

definition recovery_start :: "jsval \<Rightarrow> rat \<Rightarrow> rat eff" where
  "recovery_start recoveryState startedAtMs =
     (let run = jget recoveryState ''run''
      in ebind (date_parse (to_str (jors [jget run ''startedAt'', jget run ''createdAt'', JStr []]))) (\<lambda>ms.
         eret (case ms of Some t \<Rightarrow> t | None \<Rightarrow> startedAtMs)))"

definition fresh_state :: "jsval \<Rightarrow> jsval \<Rightarrow> jsval \<Rightarrow> lane_state res" where
  "fresh_state recordId defn requestInput =
     (if defn = JNull then Inl (type_error JNull ''workflowCode'')
      else Inr \<lparr>nodeRuns = [], nodeOutputsByKey = [],
                runtimeContext = buildContextObjectFromPatch
                  (buildInitialWorkflowContextPatch recordId defn requestInput),
                previousNodeOutput = JNull, conditionRoutes = [], approvalRoutes = []\<rparr>)"

definition identity_name :: "lane \<Rightarrow> string" where
  "identity_name L = (if l_skyCommand L then ''SkyCommand'' else ''SkyServer'')"

definition link_run :: "lane \<Rightarrow> jsval \<Rightarrow> jsval eff" where
  "link_run L workflowCode =
     ebind (eread (l_definition L) ''displayName'') (\<lambda>displayName.
     ebind (eread (jget (l_definition L) ''nodes'') ''length'') (\<lambda>nodeCount.
     ebind (eread (jget (l_definition L) ''edges'') ''length'') (\<lambda>edgeCount.
       activity ''linkSkyserverWorkflowRunToTemporalActivity''
         (JObj
           [(''workflowRunRecordId'', l_recordId L), (''temporalWorkflowId'', JStr (l_workflowId L)),
            (''temporalRunId'', JStr (l_runId L)),
            (''summary'', JStr (''Workflow '' @ to_str displayName
               @ (if l_recoveryKey L \<noteq> [] then '' is recovering from failed node '' @ l_recoveryKey L @ '' through''
                  else '' is running through'')
               @ '' Temporal-backed '' @ identity_name L @ '' executor.'')),
            (''metadata'', JObj
              ([(''workflowCode'', workflowCode), (''nodeCount'', nodeCount), (''edgeCount'', edgeCount),
                (''temporalWorkflowType'', JStr ''skyserverWorkflowExecutorWorkflow'')]
               @ (if l_recoveryKey L \<noteq> []
                  then [(''manualNodeRecovery'', JBool True), (''nodeRecoveryActive'', JBool True),
                        (''nodeRecoveryNodeKey'', JStr (l_recoveryKey L)),
                        (''nodeRecoveryAttemptNumber'', recovery_attempt L),
                        (''previousTemporalWorkflowId'', jor (jget (l_recovery L) ''previousTemporalWorkflowId'') JNull),
                        (''previousTemporalRunId'', jor (jget (l_recovery L) ''previousTemporalRunId'') JNull)]
                  else [])
               @ (if l_skyCommand L then [(''productIdentity'', JStr ''SkyCommand'')] else [])))]))))"

text \<open>Inside the try block: the plan, the first node, the lane.\<close>

definition first_index :: "lane \<Rightarrow> execution_plan \<Rightarrow> nat res" where
  "first_index L plan =
     (if l_recoveryKey L = [] then Inr 0
      else case map_of (nodeIndexByKey plan) (l_recoveryKey L) of
             Some i \<Rightarrow> Inr i
           | None \<Rightarrow> Inl (input_failure
               (''Recovery node '' @ l_recoveryKey L @ '' is not present in workflow version ''
                @ to_str (jors [jget (l_requestInput L) ''workflowVersionId'',
                                jget (l_definition L) ''publishedVersionId'', JStr ''unknown'']) @ ''.'')
               ''SkyServerWorkflowNodeRecoveryInputError''))"

definition run_plan :: "lane \<Rightarrow> lane_state \<Rightarrow> (lane_state \<times> (jsval + stop)) eff" where
  "run_plan L st =
     (case rbind (buildWorkflowExecutionPlan (jget (l_definition L) ''nodes''))
             (\<lambda>plan. rbind (first_index L plan) (\<lambda>i. Inr (plan, i))) of
        Inl err \<Rightarrow> eret (st, Inl err)
      | Inr (plan, i) \<Rightarrow> run_lane L plan i st)"

definition run_summary :: "lane \<Rightarrow> lane_state \<Rightarrow> stop \<Rightarrow> jsval" where
  "run_summary L st stop =
     (let defn = l_definition L; finished = length (nodeRuns st); total = node_count defn
      in case stop of
           ConditionStop _ out \<Rightarrow> JStr (buildConditionStopSummary defn out finished total)
         | ApprovalStop _ out \<Rightarrow> JStr (buildHumanApprovalStopSummary defn out finished total)
         | RanToEnd \<Rightarrow>
             jor (jget (getWorkflowRunSummaryOutput (JObj (nodeOutputsByKey st))) ''summary'')
               (JStr (''Workflow '' @ to_str (jget defn ''displayName'') @ '' completed: '' @ nat_str finished
                      @ ''/'' @ to_str (jget (jget defn ''nodes'') ''length'') @ '' node(s) succeeded.'')))"

definition complete_run :: "lane \<Rightarrow> lane_state \<Rightarrow> stop \<Rightarrow> rat \<Rightarrow> jsval eff" where
  "complete_run L st stop durationMs =
     (let summaryOutput = getWorkflowRunSummaryOutput (JObj (nodeOutputsByKey st))
      in ebind clock_iso (\<lambda>iso.
       activity ''completeSkyserverWorkflowRunActivity''
        (JObj
          [(''workflowRunRecordId'', l_recordId L),
           (''summary'', safeR4Value (run_summary L st stop) (jget (l_input L) ''context'')),
           (''metadata'', JObj
             ([(''durationMs'', jnum durationMs), (''completedNodeCount'', jnat (length (nodeRuns st))),
               (''skippedNodeCount'', jnat (node_count (l_definition L) - length (nodeRuns st))),
               (''conditionStopNodeKey'', case stop of ConditionStop k _ \<Rightarrow> jor k JNull | _ \<Rightarrow> JNull),
               (''approvalStopNodeKey'', case stop of ApprovalStop k _ \<Rightarrow> jor k JNull | _ \<Rightarrow> JNull),
               (''conditionBranchRoutes'', JArr (conditionRoutes st)),
               (''approvalBranchRoutes'', JArr (approvalRoutes st)),
               (''summaryNodeKey'', jor (jget summaryOutput ''nodeKey'') JNull),
               (''summaryTitle'', jor (jget summaryOutput ''title'') JNull),
               (''temporalWorkflowId'', JStr (l_workflowId L)), (''temporalRunId'', JStr (l_runId L))]
              @ (if l_recoveryKey L \<noteq> []
                 then [(''manualNodeRecovery'', JBool True), (''nodeRecoveryActive'', JBool False),
                       (''nodeRecoveryNodeKey'', JStr (l_recoveryKey L)),
                       (''nodeRecoveryAttemptNumber'', recovery_attempt L),
                       (''nodeRecoveryCompletedAt'', JStr iso), (''recoveredSuccessfully'', JBool True),
                       (''errorMessage'', JNull), (''errorName'', JNull)]
                 else [])))])))"

definition settle_promotion :: "lane \<Rightarrow> jsval \<Rightarrow> jsval eff" where
  "settle_promotion L workflowCode =
     (if list_ex (strict_eq workflowCode) [JStr ''skyserver_dev_commit'', JStr ''skycommand-dev-promo-alt'']
      then ecatch (activity ''settleDevPromotionAdmissionActivity''
             (JObj [(''workflowRunRecordId'', l_recordId L),
                    (''settlementSource'', JStr ''temporal_terminal_activity'')]))
           (\<lambda>_. eret JNull)
      else eret JNull)"

definition finish_run :: "lane \<Rightarrow> jsval \<Rightarrow> lane_state \<Rightarrow> stop \<Rightarrow> jsval eff" where
  "finish_run L workflowCode st stop =
     ebind clock (\<lambda>now. let durationMs = now - l_startedAt L in
     ebind (complete_run L st stop durationMs) (\<lambda>completedRun.
     ebind (settle_promotion L workflowCode) (\<lambda>promotionSettlement.
     eret (JObj
       [(''ok'', JBool True), (''workflowRunRecordId'', l_recordId L), (''workflowCode'', workflowCode),
        (''workflowDisplayName'', jget (l_definition L) ''displayName''),
        (''temporalWorkflowId'', JStr (l_workflowId L)), (''temporalRunId'', JStr (l_runId L)),
        (''summary'', run_summary L st stop), (''run'', completedRun),
        (''promotionSettlement'', promotionSettlement), (''nodeRuns'', JArr (nodeRuns st)),
        (''durationMs'', jnum durationMs)]))))"

definition failed_count :: "lane_state \<Rightarrow> nat" where
  "failed_count st = length (filter (\<lambda>r. strict_eq (jget r ''status'') (JStr ''FAILED'')) (nodeRuns st))"

definition fail_run :: "lane \<Rightarrow> jsval \<Rightarrow> lane_state \<Rightarrow> jsval \<Rightarrow> jsval eff" where
  "fail_run L workflowCode st err =
     (let normalizedError = serializeError err (jget (l_input L) ''context'')
      in ebind clock (\<lambda>now. ebind clock_iso (\<lambda>iso.
       ebind (activity ''failSkyserverWorkflowRunActivity''
        (JObj
          [(''workflowRunRecordId'', l_recordId L),
           (''summary'', JStr (redactR4AgentText (JStr (''Workflow '' @ to_str (jget (l_definition L) ''displayName'')
               @ '' failed: '' @ err_message normalizedError)))),
           (''metadata'', JObj
             ([(''durationMs'', jnum (now - l_startedAt L)),
               (''failedNodeCount'', jor (jnat (failed_count st)) (jnat 1)),
               (''errorMessage'', JStr (err_message normalizedError)), (''errorName'', err_name normalizedError),
               (''temporalWorkflowId'', JStr (l_workflowId L)), (''temporalRunId'', JStr (l_runId L))]
              @ (if l_recoveryKey L \<noteq> []
                 then [(''manualNodeRecovery'', JBool True), (''nodeRecoveryActive'', JBool False),
                       (''nodeRecoveryNodeKey'', JStr (l_recoveryKey L)),
                       (''nodeRecoveryAttemptNumber'', recovery_attempt L),
                       (''nodeRecoveryFailedAt'', JStr iso), (''recoveredSuccessfully'', JBool False)]
                 else [])))])) (\<lambda>_.
       ebind (if strict_eq workflowCode (JStr ''dev_change_finalize'')
              then ecatch (activity ''reconcileDevFinalizationFailureActivity''
                     (JObj [(''workflowCode'', workflowCode), (''workflowRunRecordId'', l_recordId L),
                            (''error'', JObj [(''code'', jor (err_name normalizedError) (JStr ''R5_FINALIZATION_FAILED'')),
                                              (''message'', JStr (err_message normalizedError))])]))
                   (\<lambda>_. eret JNull)
              else eret JNull) (\<lambda>_.
       ethrow (node_failure normalizedError ''SkyServerWorkflowFailure''))))))"

text \<open>The try and catch around the lane.\<close>

definition run_and_settle :: "lane \<Rightarrow> jsval \<Rightarrow> lane_state \<Rightarrow> jsval eff" where
  "run_and_settle L workflowCode st0 =
     ebind (run_plan L st0) (\<lambda>(st, outcome).
     case outcome of
       Inl err \<Rightarrow> fail_run L workflowCode st err
     | Inr stop \<Rightarrow> ecatch (finish_run L workflowCode st stop) (fail_run L workflowCode st))"

definition skyserverWorkflowExecutorWorkflow :: "jsval \<Rightarrow> string \<Rightarrow> string \<Rightarrow> jsval eff" where
  "skyserverWorkflowExecutorWorkflow input0 temporalWorkflowId temporalRunId =
     (let input = (if input0 = JUndef then JObj [] else input0);
          requestInput = getSafeObject (jget input ''input'');
          nodeRecovery = getSafeObject (jget requestInput ''nodeRecovery'');
          recoveryNodeKey = (if strict_eq (jget nodeRecovery ''active'') (JBool True)
            then trim (to_str (jor (jget nodeRecovery ''nodeKey'') (JStr []))) else []);
          recordId = jget input ''workflowRunRecordId'';
          versionId = jget requestInput ''workflowVersionId''
      in ebind clock (\<lambda>started.
         ebind (eread input ''workflowCode'') (\<lambda>workflowCode.
         if \<not> truthy workflowCode
         then ethrow (input_failure ''workflowCode is required.'' ''SkyServerWorkflowInputError'')
         else if \<not> truthy recordId
         then ethrow (input_failure ''workflowRunRecordId is required.'' ''SkyServerWorkflowInputError'')
         else
           ebind (activity ''loadSkyserverWorkflowDefinitionActivity''
             (JObj ((''workflowCode'', workflowCode)
                    # (if truthy versionId then [(''workflowVersionId'', versionId)] else [])))) (\<lambda>defn.
           ebind (if recoveryNodeKey \<noteq> []
                  then ebind (activity ''loadSkyserverWorkflowNodeRecoveryStateActivity''
                         (JObj [(''workflowRunRecordId'', recordId), (''nodeKey'', JStr recoveryNodeKey)]))
                       (\<lambda>recoveryState.
                        ebind (recovery_start recoveryState started) (\<lambda>startedAtMs.
                        ebind (lift_res (restored_state recoveryState)) (\<lambda>st. eret (startedAtMs, st))))
                  else ebind (lift_res (fresh_state recordId defn requestInput)) (\<lambda>st. eret (started, st)))
             (\<lambda>(startedAtMs, st).
           let L = \<lparr>l_input = input, l_requestInput = requestInput, l_recovery = nodeRecovery,
                    l_recoveryKey = recoveryNodeKey, l_definition = defn,
                    l_workflowId = temporalWorkflowId, l_runId = temporalRunId, l_recordId = recordId,
                    l_startedAt = startedAtMs,
                    l_skyCommand = strict_eq (jget input ''identityVersion'') (JStr ''skycommand.v1'')\<rparr>
           in ebind (link_run L workflowCode) (\<lambda>_. run_and_settle L workflowCode st))))))"

section \<open>Which requests the executors make\<close>

abbreviation tool_call :: "request \<Rightarrow> bool" where
  "tool_call \<equiv> is_act ''executeSkyserverWorkflowNodeActivity''"

abbreviation node_start :: "request \<Rightarrow> bool" where
  "node_start \<equiv> is_act ''startSkyserverWorkflowNodeRunActivity''"

abbreviation complete_call :: "request \<Rightarrow> bool" where
  "complete_call \<equiv> is_act ''completeSkyserverWorkflowRunActivity''"

abbreviation fail_call :: "request \<Rightarrow> bool" where
  "fail_call \<equiv> is_act ''failSkyserverWorkflowRunActivity''"

abbreviation link_call :: "request \<Rightarrow> bool" where
  "link_call \<equiv> is_act ''linkSkyserverWorkflowRunToTemporalActivity''"

text \<open>The requests of a node executor: its own activities, timers of at most a day, and waits for a
  decision with no deadline or one of at most 30 days.\<close>

definition node_activities :: "string set" where
  "node_activities =
     {''markSkyserverWorkflowNodeAttemptActivity'', ''completeSkyserverWorkflowNodeRunActivity'',
      ''failSkyserverWorkflowNodeRunActivity'', ''createSkyserverWorkflowApprovalRequestActivity'',
      ''resolveSkyserverWorkflowApprovalRequestActivity'', ''startChildSkyserverWorkflowRunActivity'',
      ''loadTemporalWorkflowDefinitionActivity'', ''executeSkyserverWorkflowNodeActivity''}"

definition bounded_wait :: "request \<Rightarrow> bool" where
  "bounded_wait q =
     (case q of
        Nap d \<Rightarrow> 0 \<le> d \<and> d \<le> 24 * 60 * 60 * 1000
      | AwaitDecision ks (Some d) \<Rightarrow> 0 < d \<and> d \<le> 30 * 24 * 60 * 60 * 1000
      | _ \<Rightarrow> True)"

definition node_request :: "request \<Rightarrow> bool" where
  "node_request q = (bounded_wait q \<and> (case q of Act n _ \<Rightarrow> n \<in> node_activities | _ \<Rightarrow> True))"

lemma node_request_not [simp]:
  "node_request q \<Longrightarrow> \<not> node_start q" "node_request q \<Longrightarrow> \<not> complete_call q"
  "node_request q \<Longrightarrow> \<not> fail_call q" "node_request q \<Longrightarrow> \<not> link_call q"
  by (cases q; simp add: node_request_def node_activities_def; force)+

lemma only_node_run_id [run_intros]: "only P (node_run_id nodeRun)"
  unfolding node_run_id_def by (rule only_eread)

lemma only_mark_attempt [run_intros]:
  "(\<And>a. P (Act ''markSkyserverWorkflowNodeAttemptActivity'' a)) \<Longrightarrow> only P (mark_attempt nodeRun c m)"
  unfolding mark_attempt_def by (intro run_intros)

lemma only_complete_node [run_intros]:
  "(\<And>a. P (Act ''completeSkyserverWorkflowNodeRunActivity'' a)) \<Longrightarrow> only P (complete_node nodeRun c m)"
  unfolding complete_node_def by (intro run_intros)

lemma only_fail_node [run_intros]:
  "(\<And>a. P (Act ''failSkyserverWorkflowNodeRunActivity'' a)) \<Longrightarrow> only P (fail_node nodeRun p c e m ty)"
  unfolding fail_node_def Let_def by (intro run_intros)

lemma node_request_acts [simp]: "n \<in> node_activities \<Longrightarrow> node_request (Act n a)"
  by (simp add: node_request_def bounded_wait_def)

lemma node_activities_simps [simp]:
  "''markSkyserverWorkflowNodeAttemptActivity'' \<in> node_activities"
  "''completeSkyserverWorkflowNodeRunActivity'' \<in> node_activities"
  "''failSkyserverWorkflowNodeRunActivity'' \<in> node_activities"
  "''createSkyserverWorkflowApprovalRequestActivity'' \<in> node_activities"
  "''resolveSkyserverWorkflowApprovalRequestActivity'' \<in> node_activities"
  "''startChildSkyserverWorkflowRunActivity'' \<in> node_activities"
  "''loadTemporalWorkflowDefinitionActivity'' \<in> node_activities"
  "''executeSkyserverWorkflowNodeActivity'' \<in> node_activities"
  by (simp_all only: node_activities_def insert_iff simp_thms)

lemma node_request_child [simp]:
  "node_request (RunChild v)" "node_request (StartChild v)" "node_request (ChildRunId v)" "node_request (ChildResult v)"
  by (simp_all add: node_request_def bounded_wait_def)

section \<open>Tool nodes: one success\<close>

lemma tool_body_runs:
  "runs (tool_body node parameters nodeRun off ids context policy n)
     (\<lambda>h t r. length (answers tool_call t) \<le> 1
        \<and> (\<forall>er. r = Inr (Again er) \<longrightarrow> failed_only (answers tool_call t))
        \<and> (\<forall>x. r = Inr (Done x) \<longrightarrow> \<not> failed_only (answers tool_call t)))"
proof -
  have mark: "runs (mark_retry nodeRun policy off n []) (\<lambda>h t r. answers tool_call t = [])"
    unfolding mark_retry_def by (intro only_answers run_intros) simp
  have id: "runs (node_run_id nodeRun) (\<lambda>h t r. answers tool_call t = [])"
    by (intro only_answers run_intros)
  have call: "runs (etry (ebind (node_run_id nodeRun) (\<lambda>id. activity ''executeSkyserverWorkflowNodeActivity'' (arg id))))
      (\<lambda>h t r. \<exists>v. r = Inr v \<and> length (answers tool_call t) \<le> 1 \<and> isl v = failed_only (answers tool_call t))"
    for arg
    unfolding activity_def
    by (rule runs_etry, rule runs_bind [OF id runs_once [where P = tool_call]]) (auto simp: failed_only_def)
  have throw: "runs (ebind (node_run_id nodeRun) (\<lambda>id. ethrow (g id))) (\<lambda>h t r. answers tool_call t = [] \<and> isl r)"
    for g :: "jsval \<Rightarrow> jsval"
    by (rule runs_bind [OF id, where R = "\<lambda>_ h t r. t = [] \<and> isl r"]) (auto intro: runs_ethrow)
  have settle: "runs (case c of Inr completed \<Rightarrow> eret (Done completed)
        | Inl pe \<Rightarrow> ebind (node_run_id nodeRun) (\<lambda>id. ethrow (failure pe id)))
         (\<lambda>h t r'. answers tool_call t = [] \<and> (\<forall>er. r' \<noteq> Inr (Again er)))"
    for c :: "jsval + jsval" and failure
    by (cases c) (auto intro!: runs_eret runs_weaken [OF throw])
  have rest: "runs (case r of Inl err \<Rightarrow> eret (Again err) | Inr out \<Rightarrow>
      ebind (etry (complete_node nodeRun out (meta out))) (\<lambda>c. case c of Inr completed \<Rightarrow> eret (Done completed)
        | Inl pe \<Rightarrow> ebind (node_run_id nodeRun) (\<lambda>id. ethrow (failure pe id))))
      (\<lambda>h t r'. answers tool_call t = [] \<and> (\<forall>er. r' = Inr (Again er) \<longrightarrow> isl r) \<and> (\<forall>x. r' = Inr (Done x) \<longrightarrow> \<not> isl r))"
    for r :: "jsval + jsval" and meta failure
  proof (cases r)
    case (Inr out)
    have c: "runs (etry (complete_node nodeRun out (meta out))) (\<lambda>h t r. answers tool_call t = [])"
      by (intro only_answers run_intros) simp
    show ?thesis unfolding Inr sum.case by (rule runs_bind [OF c settle]) auto
  qed (auto intro: runs_eret)
  show ?thesis
    unfolding tool_body_def Let_def
    by (rule runs_bind [OF mark runs_bind [OF call rest]]) auto
qed

section \<open>Requests of each executor\<close>

lemma wait_requests: "only node_request (executeWaitNode node parameters nodeRun context)"
  unfolding executeWaitNode_def
proof (rule only_bind_returning [OF only_returning_etry])
  show "only_returning node_request (\<lambda>w. normalizeWaitParameters parameters = Inr w)
      (ebind (mark_attempt nodeRun (jnat 1) [(''waitNode'', JBool True)]) (\<lambda>_. lift_res (normalizeWaitParameters parameters)))"
    by (intro only_returning_after run_intros only_returning_lift) simp_all
next
  fix r :: "jsval + jsval"
  assume w: "\<forall>x. r = Inr x \<longrightarrow> normalizeWaitParameters parameters = Inr x"
  show "only node_request (case r of Inl err \<Rightarrow> wait_failed parameters nodeRun context JNull err
     | Inr waitParameters \<Rightarrow>
         ecatch
           (ebind clock (\<lambda>startedAtMs.
            ebind (nap (wait_ms waitParameters)) (\<lambda>_.
            ebind clock (\<lambda>completedAtMs.
            complete_node nodeRun
              (safeR4Value (buildWaitNodeOutput node waitParameters startedAtMs completedAtMs) context)
              [(''parameters'', safeR4Value parameters context), (''waitNode'', JBool True),
               (''waitDurationMs'', jget waitParameters ''durationMs'')]))))
           (wait_failed parameters nodeRun context waitParameters))"
  proof (cases r)
    case (Inl err)
    then show ?thesis by (auto simp: wait_failed_def intro!: run_intros)
  next
    case (Inr x)
    with w wait_ms_bounds have "node_request (Nap (wait_ms x))"
      by (simp add: node_request_def bounded_wait_def MAX_WAIT_DURATION_MS_def)
    with Inr show ?thesis by (auto simp: wait_failed_def intro!: run_intros)
  qed
qed

lemma timeout_bounds:
  "normalizeHumanApprovalParameters p node = Inr a \<Longrightarrow> node_request (AwaitDecision ks (timeout_of a))"
  using normalizeHumanApprovalParameters_timeout [of p node a]
  by (auto simp: node_request_def bounded_wait_def timeout_of_def MAX_HUMAN_APPROVAL_TIMEOUT_MS_def split: jsval.splits)

lemma await_requests:
  assumes "\<And>ks. node_request (AwaitDecision ks (timeout_of a))"
  shows "only node_request (await_decision approval rid nodeRun node a)"
  using assms unfolding await_decision_def Let_def
  by (auto intro!: run_intros only_ask split: option.splits)

lemma approval_requests: "only node_request (executeHumanApprovalNode node parameters nodeRun context ids)"
  unfolding executeHumanApprovalNode_def
proof (rule only_bind_returning [OF only_returning_etry])
  show "only_returning node_request (\<lambda>(a, _). normalizeHumanApprovalParameters parameters node = Inr a)
      (approval_requested node parameters nodeRun context ids)"
    unfolding approval_requested_def
    apply (rule only_returning_after)
     apply (intro run_intros, simp)
    apply (rule only_returning_bind [OF only_returning_lift, where U = "\<lambda>a. normalizeHumanApprovalParameters parameters node = Inr a"])
     apply simp
    apply (rule only_returning_after, rule only_node_run_id)
    apply (rule only_returning_after)
     apply (intro run_intros, simp)
    apply (rule only_returning_eret, simp)
    done
next
  fix r :: "jsval + jsval \<times> jsval"
  assume w: "\<forall>x. r = Inr x \<longrightarrow> (case x of (a, _) \<Rightarrow> normalizeHumanApprovalParameters parameters node = Inr a)"
  show "only node_request (case r of Inl err \<Rightarrow> approval_failed parameters nodeRun context JNull err
     | Inr (approvalParameters, approval) \<Rightarrow>
         ecatch (approval_resolved node parameters nodeRun context ids approvalParameters approval)
           (approval_failed parameters nodeRun context approval))"
  proof (cases r)
    case (Inl err)
    then show ?thesis by (auto simp: approval_failed_def intro!: run_intros)
  next
    case (Inr x)
    obtain a ap where x: "x = (a, ap)" by (cases x)
    from Inr x w timeout_bounds have "\<And>ks. node_request (AwaitDecision ks (timeout_of a))" by simp
    note await = await_requests [OF this]
    show ?thesis unfolding Inr x sum.case prod.case approval_resolved_def Let_def approval_failed_def
      by (intro run_intros await) simp_all
  qed
qed

lemma retry_requests:
  assumes "\<And>n. only node_request (body n)"
  shows "only node_request (retry_loop (getNodeRetryPolicy node) body)"
  unfolding retry_loop_def
proof (rule only_attempts [OF assms])
  fix m
  let ?p = "getNodeRetryPolicy node"
  assume "1 \<le> m" "m < 1 + nat (maximumAttempts ?p)"
  with maximumAttempts_range [of node] have m: "m \<le> 10" by linarith
  have i: "1 \<le> initialIntervalSeconds ?p" "initialIntervalSeconds ?p \<le> 3600"
    by (rule initialIntervalSeconds_range)+
  have "initialIntervalSeconds ?p * 1000 * int m \<le> 3600 * 1000 * 10"
    using m i by (intro mult_mono) auto
  then have "retry_delay ?p m \<le> 24 * 60 * 60 * 1000"
    unfolding retry_delay_def by (simp add: of_int_le_iff [symmetric, where 'a = rat] del: of_int_le_iff)
  moreover have "0 \<le> retry_delay ?p m" using i by (simp add: retry_delay_def)
  ultimately show "node_request (Nap (retry_delay ?p m))"
    by (simp add: node_request_def bounded_wait_def)
qed

lemma give_up_requests: "only node_request (give_up nodeRun parameters context policy off target ty err)"
  unfolding give_up_def by (intro run_intros) simp

lemma retried_requests: "only P m \<Longrightarrow> only P (retried m)"
  unfolding retried_def by (intro run_intros)

lemma tool_requests: "only node_request (executeNodeWithRetries node parameters nodeRun off ids context)"
proof -
  have "only node_request (tool_body node parameters nodeRun off ids context p n)" for p n
    unfolding tool_body_def mark_retry_def Let_def
    by (auto intro!: run_intros split: sum.splits)
  note loop = retry_requests [OF this]
  show ?thesis
    unfolding executeNodeWithRetries_def Let_def
    by (auto intro!: only_bind only_eret loop give_up_requests split: sum.splits)
qed

lemma child_requests:
  "only node_request (executeChildWorkflowNodeWithRetries defn node parameters nodeRun off ids context)"
proof -
  have "only node_request (child_body defn node parameters nodeRun off ids context p code n)" for p code n
    unfolding child_body_def child_attempt_def mark_retry_def Let_def
    by (intro run_intros retried_requests only_ask) simp_all
  note loop = retry_requests [OF this]
  show ?thesis
    unfolding executeChildWorkflowNodeWithRetries_def Let_def
    by (auto intro!: only_bind only_eret only_ethrow loop give_up_requests split: sum.splits)
qed

lemma template_requests:
  "only node_request (executeTemporalWorkflowTemplateNodeWithRetries node parameters nodeRun off ids context pid)"
proof -
  have if_only: "only P a \<Longrightarrow> only P b \<Longrightarrow> only P (if c then a else b)" for P c and a b :: "jsval eff"
    by simp
  have "only node_request (template_body node parameters nodeRun off ids context pid p code n)" for p code n
    unfolding template_body_def template_attempt_def mark_retry_def Let_def
    by (intro run_intros retried_requests only_ask if_only) simp_all
  note loop = retry_requests [OF this]
  show ?thesis
    unfolding executeTemporalWorkflowTemplateNodeWithRetries_def Let_def
    by (auto intro!: only_bind only_eret only_ethrow loop give_up_requests split: sum.splits)
qed

lemma dispatch_requests: "only node_request (dispatch_node L node parameters nodeRun off context)"
  unfolding dispatch_node_def Let_def
  by (simp add: wait_requests approval_requests child_requests template_requests tool_requests)

section \<open>The order of the lane\<close>

text \<open>The nodes that the start requests of a segment name.\<close>

definition started_node :: "step \<Rightarrow> jsval list" where
  "started_node s =
     (case req s of Act n a \<Rightarrow> if n = ''startSkyserverWorkflowNodeRunActivity'' then [jget a ''node''] else []
      | _ \<Rightarrow> [])"

definition started_nodes :: "step list \<Rightarrow> jsval list" where
  "started_nodes t = concat (map started_node t)"

lemma started_nodes_append [simp]: "started_nodes (t @ t') = started_nodes t @ started_nodes t'"
  by (simp add: started_nodes_def)

lemma started_nodes_Nil [simp]: "started_nodes [] = []"
  by (simp add: started_nodes_def)

lemma started_none: "\<forall>s \<in> set t. \<not> node_start (req s) \<Longrightarrow> started_nodes t = []"
  by (auto simp: started_nodes_def started_node_def is_act_def split: request.splits)

lemma run_node_starts: "runs (run_node L st node) (\<lambda>h t r. started_nodes t = [node])"
proof -
  have s: "runs (start_node L node off) (\<lambda>h t r. started_nodes t = [node])" for off
    unfolding start_node_def activity_def
    by (rule runs_ask) (simp add: started_nodes_def started_node_def)
  have d: "runs (dispatch_node L node p nr off c) (\<lambda>h t r. started_nodes t = [])" for p nr off c
    using dispatch_requests unfolding only_def by (rule runs_weaken) (auto intro: started_none)
  show ?thesis
    unfolding run_node_def Let_def by (rule runs_bind [OF s d]) auto
qed

lemma lane_starts:
  "runs (run_lane L plan i st) (\<lambda>h t r. subseq (started_nodes t) (drop i (nodes plan)))"
proof (induction L plan i st rule: run_lane.induct)
  case (1 L plan i st)
  show ?case
  proof (cases "i < length (nodes plan)")
    case False
    then show ?thesis by (subst run_lane.simps) (auto intro: runs_eret)
  next
    case True
    let ?n = "nodes plan ! i"
    have head: "runs (etry (run_node L st ?n)) (\<lambda>h t r. started_nodes t = [?n])"
      by (rule runs_etry [OF run_node_starts]) simp
    have later: "subseq xs (drop (Suc i) (nodes plan))" if "subseq xs (drop j (nodes plan))" "i < j" for xs j
    proof -
      have "drop j (nodes plan) = drop (j - Suc i) (drop (Suc i) (nodes plan))" using that(2) by simp
      then have "subseq (drop j (nodes plan)) (drop (Suc i) (nodes plan))"
        by (metis suffix_drop suffix_imp_subseq)
      with that(1) show ?thesis by (rule subseq_order.trans)
    qed
    have rest: "runs (case r of Inl err \<Rightarrow> eret (st, Inl err)
        | Inr completed \<Rightarrow>
            (let st1 = record_result st ?n completed
             in case route_after plan i ?n completed st1 of
                  Inl err \<Rightarrow> eret (st1, Inl err)
                | Inr (Halt stop) \<Rightarrow> eret (st1, Inr stop)
                | Inr (Goto j st2) \<Rightarrow> run_lane L plan j st2))
        (\<lambda>h t r. subseq (started_nodes t) (drop (Suc i) (nodes plan)))" for r
    proof (cases r)
      case (Inl e)
      then show ?thesis by (auto intro: runs_eret)
    next
      case (Inr c)
      let ?st1 = "record_result st ?n c"
      show ?thesis
      proof (cases "route_after plan i ?n c ?st1")
        case (Inl e)
        with Inr show ?thesis by (auto simp: Let_def intro: runs_eret)
      next
        case (Inr w)
        show ?thesis
        proof (cases w)
          case (Halt s)
          with Inr \<open>r = Inr c\<close> show ?thesis by (auto simp: Let_def intro: runs_eret)
        next
          case (Goto j st2)
          have "runs (run_lane L plan j st2) (\<lambda>h t r. subseq (started_nodes t) (drop j (nodes plan)))"
            by (rule 1 [OF True \<open>r = Inr c\<close> refl Inr Goto])
          then have "runs (run_lane L plan j st2) (\<lambda>h t r. subseq (started_nodes t) (drop (Suc i) (nodes plan)))"
            by (rule runs_weaken) (use later route_later Inr Goto in blast)
          with Inr Goto \<open>r = Inr c\<close> show ?thesis by (simp add: Let_def)
        qed
      qed
    qed
    show ?thesis
      apply (subst run_lane.simps)
      apply (simp only: True if_True)
      apply (rule runs_bind [OF head rest])
      using True by (auto simp: Cons_nth_drop_Suc [symmetric])
  qed
qed

section \<open>Interpretations of the retry contracts\<close>

interpretation tool: retry_once tool_call "tool_body node parameters nodeRun off ids ctx policy"
  for node parameters nodeRun off ids ctx policy
proof unfold_locales
  fix n d
  let ?b = "tool_body node parameters nodeRun off ids ctx policy n"
  note w = runs_weaken [OF tool_body_runs]
  show "runs ?b (\<lambda>h t r. length (answers tool_call t) \<le> 1)" by (rule w) blast
  show "runs ?b (\<lambda>h t r. \<forall>er. r = Inr (Again er) \<longrightarrow> failed_only (answers tool_call t))" by (rule w) blast
  show "runs ?b (\<lambda>h t r. \<forall>x. r = Inr (Done x) \<longrightarrow> \<not> failed_only (answers tool_call t))" by (rule w) blast
  show "\<not> tool_call (Nap d)" by simp
qed

abbreviation child_call :: "request \<Rightarrow> bool" where
  "child_call q \<equiv> (case q of RunChild _ \<Rightarrow> True | _ \<Rightarrow> False)"

abbreviation template_call :: "request \<Rightarrow> bool" where
  "template_call q \<equiv> (case q of StartChild _ \<Rightarrow> True | _ \<Rightarrow> False)"

lemma child_body_uses:
  "uses 1 child_call (child_body defn node parameters nodeRun off ids context policy code n)"
proof -
  have "uses 1 child_call (child_attempt defn node parameters nodeRun off ids context policy code n)"
    unfolding child_attempt_def Let_def by (intro uses_intros run_intros) simp_all
  then show ?thesis
    unfolding child_body_def retried_def mark_retry_def
    by (intro uses_intros uses_silent [OF only_mark_attempt] uses_then_silent [OF uses_etry] run_intros) simp_all
qed

lemma template_body_uses:
  "uses 1 template_call (template_body node parameters nodeRun off ids context pid policy code n)"
proof -
  have "uses 1 template_call (template_attempt node parameters nodeRun off ids context pid policy code n)"
    unfolding template_attempt_def Let_def by (intro uses_intros run_intros only_ask) simp_all
  then show ?thesis
    unfolding template_body_def retried_def mark_retry_def
    by (intro uses_intros uses_silent [OF only_mark_attempt] uses_then_silent [OF uses_etry] run_intros) simp_all
qed

interpretation child: retry_budget child_call "child_body defn node parameters nodeRun off ids ctx policy code"
  for defn node parameters nodeRun off ids ctx policy code
  by unfold_locales (use child_body_uses in \<open>auto simp: uses_def\<close>)

interpretation template: retry_budget template_call "template_body node parameters nodeRun off ids ctx pid policy code"
  for node parameters nodeRun off ids ctx pid policy code
  by unfold_locales (use template_body_uses in \<open>auto simp: uses_def\<close>)

lemma budget: "nat (maximumAttempts (getNodeRetryPolicy node)) \<le> 10"
  using maximumAttempts_range [of node] by linarith

lemma fail_node_throws:
  assumes "\<And>a. \<not> P (Act ''failSkyserverWorkflowNodeRunActivity'' a)"
  shows "runs (fail_node nodeRun parameters context err meta ty) (\<lambda>h t r. answers P t = [] \<and> isl r)"
proof -
  have f: "runs (ebind (activity ''failSkyserverWorkflowNodeRunActivity'' a) (\<lambda>_. ethrow e))
      (\<lambda>h t r. answers P t = [] \<and> isl r)" for a e
    by (rule runs_bind [OF only_answers, where R = "\<lambda>_ h t r. t = [] \<and> isl r"])
      (use assms in \<open>auto intro: run_intros runs_ethrow\<close>)
  show ?thesis
    unfolding fail_node_def Let_def
    by (rule runs_bind [OF only_answers [OF only_node_run_id] f]) auto
qed

lemma after_loop:
  assumes "\<And>a. \<not> P (Act ''failSkyserverWorkflowNodeRunActivity'' a)"
  shows "runs (case r of Inl err \<Rightarrow> give_up nodeRun parameters context policy off target ty err
       | Inr completed \<Rightarrow> eret completed) (\<lambda>h t r'. answers P t = [] \<and> (isl r \<longrightarrow> isl r'))"
proof (cases r)
  case (Inl err)
  show ?thesis
    unfolding Inl sum.case give_up_def by (rule runs_weaken [OF fail_node_throws [of P, OF assms]]) simp
qed (simp add: runs_eret)

text \<open>A run of a tool node that completes has a tool call that succeeded.\<close>

definition completed_by_success :: "hist \<Rightarrow> jsval + jsval \<Rightarrow> bool" where
  "completed_by_success t r = (isl r \<or> \<not> failed_only (answers tool_call t))"

text \<open>C4 (tool_succeeds_once): However the activities behave, a tool node makes at most ten tool calls, makes
  none after one that succeeded, and completes only if one succeeded.\<close>

theorem tool_succeeds_once:
  "runs (executeNodeWithRetries node parameters nodeRun off ids context)
     (\<lambda>h t r. length (answers tool_call t) \<le> 10 \<and> at_most_last (answers tool_call t)
        \<and> completed_by_success t r)"
proof -
  let ?p = "getNodeRetryPolicy node"
  let ?b = "tool_body node parameters nodeRun off ids context ?p"
  have loop: "runs (retry_loop ?p ?b) (\<lambda>h t r. length (answers tool_call t) \<le> 10
      \<and> at_most_last (answers tool_call t) \<and> (\<forall>v. r = Inr v \<longrightarrow> \<not> isl v \<longrightarrow> \<not> failed_only (answers tool_call t)))"
    unfolding retry_loop_def
    by (rule runs_weaken [OF runs_conj [OF tool.attempts_budget tool.attempts_once]])
      (elim conjE, intro conjI allI impI, rule le_trans [OF _ budget], assumption+, metis sum.collapse(2))
  show ?thesis
    unfolding executeNodeWithRetries_def Let_def
    by (rule runs_bind [OF loop after_loop [of tool_call]]) (auto simp: completed_by_success_def)
qed

text \<open>A child workflow node starts at most ten child workflows, however the activities
  behave.\<close>

theorem child_budget:
  "runs (executeChildWorkflowNodeWithRetries defn node parameters nodeRun off ids context)
     (\<lambda>h t r. length (answers child_call t) \<le> 10)"
proof -
  let ?p = "getNodeRetryPolicy node" and ?code = "target_code node parameters"
  have loop: "runs (retry_loop ?p (child_body defn node parameters nodeRun off ids context ?p ?code))
      (\<lambda>h t r. length (answers child_call t) \<le> 10)"
    unfolding retry_loop_def
    by (rule runs_weaken [OF child.attempts_budget]) (rule le_trans [OF _ budget])
  show ?thesis
    unfolding executeChildWorkflowNodeWithRetries_def Let_def
    using runs_bind [OF loop after_loop [of child_call], where Q = "\<lambda>h t r. length (answers child_call t) \<le> 10"]
    by (cases "?code = []") (simp_all add: runs_ethrow)
qed

text \<open>An environment in which the child workflow always succeeds and the completion of the node run
  is never recorded.\<close>

definition lost_completion :: env where
  "lost_completion =
     \<lparr>answer = (\<lambda>h q. (case q of
        Act n _ \<Rightarrow>
          if n = ''startChildSkyserverWorkflowRunActivity''
          then Inr (JObj [(''definition'', JObj [(''workflowCode'', JStr ''c'')]),
                          (''run'', JObj [(''workflowRunRecordId'', JStr ''r'')])])
          else if n = ''completeSkyserverWorkflowNodeRunActivity'' then Inl (JObj [(''message'', JStr ''down'')])
          else Inr JNull
      | RunChild _ \<Rightarrow> Inr (JObj [(''summary'', JStr ''charged'')])
      | _ \<Rightarrow> Inr JNull, [])),
      now = (\<lambda>_. 0), now_iso = (\<lambda>_. []), parse_date = (\<lambda>_. None)\<rparr>"

text \<open>The completion of a child workflow node is recorded inside the retried block:
  when recording it fails, a child workflow that already succeeded is run a second time, which the
  tool executor excludes.\<close>

theorem child_success_repeated:
  "let node = JObj [(''nodeKey'', JStr ''n''), (''targetCode'', JStr ''c''),
                    (''retryPolicy'', JObj [(''maximumAttempts'', jnum 2)])];
       run = executeChildWorkflowNodeWithRetries (JObj []) node (JObj []) (JObj [(''workflowNodeRunRecordId'', JStr ''x'')])
               0 ids (JObj []);
       t = snd (run lost_completion [])
   in filter (\<lambda>a. \<not> isl a) (answers child_call t) = replicate 2 (Inr (JObj [(''summary'', JStr ''charged'')]))"
proof -
  let ?node = "JObj [(''nodeKey'', JStr ''n''), (''targetCode'', JStr ''c''),
                    (''retryPolicy'', JObj [(''maximumAttempts'', jnum 2)])]"
  have p: "getNodeRetryPolicy ?node = \<lparr>maximumAttempts = 2, initialIntervalSeconds = 5\<rparr>"
    by code_simp
  have c: "target_code ?node (JObj []) = ''c''"
    by code_simp

  show ?thesis
    unfolding Let_def executeChildWorkflowNodeWithRetries_def p c
    by (simp add: retry_loop_def numeral_2_eq_2 child_body_def child_attempt_def retried_def mark_retry_def mark_attempt_def
      complete_node_def node_run_id_def eread_def jread_def activity_def give_up_def fail_node_def
      ebind_def etry_def eret_def ethrow_def ask_def nap_def lift_res_def lost_completion_def answers_def Let_def
      del: jors.simps)
qed

end
