(* ===== verification/WorkflowGuarantees.thy ===== *)
theory WorkflowGuarantees
  imports WorkflowExecutor
begin

text \<open>
  What a run of the executor guarantees against every environment: the order of the lane, the records
  of success and failure, the bounds on waiting, and the origin of approvals.
\<close>

section \<open>The lane\<close>

text \<open>C2 (lane_in_order): The nodes a run starts form a subsequence of the lane from the position it
  starts at: no node is started twice and none before an earlier one, whatever branches the nodes
  take and whatever the activities answer.\<close>

theorem lane_in_order:
  "runs (run_lane L plan i st) (\<lambda>h t r. subseq (started_nodes t) (drop i (nodes plan)))"
  by (rule lane_starts)

section \<open>The outcome of a run\<close>

definition lane_request :: "request \<Rightarrow> bool" where
  "lane_request q = (node_request q \<or> node_start q)"

lemma lane_request_not [simp]:
  "lane_request q \<Longrightarrow> \<not> complete_call q" "lane_request q \<Longrightarrow> \<not> fail_call q" "lane_request q \<Longrightarrow> \<not> link_call q"
  unfolding lane_request_def
  by (erule disjE, erule node_request_not, rule notI, drule (1) is_act_same, simp)+

lemma run_node_requests: "only lane_request (run_node L st node)"
proof -
  have "only lane_request (dispatch_node L node p nr off c)" for p nr off c
    by (rule only_mono [OF dispatch_requests]) (simp add: lane_request_def)
  then show ?thesis
    unfolding run_node_def start_node_def Let_def
    by (intro only_bind only_activity) (simp add: lane_request_def)
qed

lemma lane_requests: "only lane_request (run_lane L plan i st)"
proof (induction L plan i st rule: run_lane.induct)
  case (1 L plan i st)
  let ?n = "nodes plan ! i"
  have rest: "only lane_request (case r of Inl err \<Rightarrow> eret (st, Inl err)
        | Inr completed \<Rightarrow>
            (let st1 = record_result st ?n completed
             in case route_after plan i ?n completed st1 of
                  Inl err \<Rightarrow> eret (st1, Inl err)
                | Inr (Halt stop) \<Rightarrow> eret (st1, Inr stop)
                | Inr (Goto j st2) \<Rightarrow> run_lane L plan j st2))" if "i < length (nodes plan)" for r
    using 1 [OF that] by (auto intro: only_eret split: sum.splits route.splits simp: Let_def)
  show ?case
    by (subst run_lane.simps) (auto intro!: only_bind [OF only_etry [OF run_node_requests]] rest only_eret)
qed

lemma plan_requests: "only lane_request (run_plan L st)"
  unfolding run_plan_def by (auto intro: only_eret lane_requests split: sum.splits)

lemma lane_returns: "runs (run_lane L plan i st) (\<lambda>h t r. \<not> isl r)"
proof (induction L plan i st rule: run_lane.induct)
  case (1 L plan i st)
  let ?n = "nodes plan ! i"
  have rest: "runs (case r of Inl err \<Rightarrow> eret (st, Inl err)
        | Inr completed \<Rightarrow>
            (let st1 = record_result st ?n completed
             in case route_after plan i ?n completed st1 of
                  Inl err \<Rightarrow> eret (st1, Inl err)
                | Inr (Halt stop) \<Rightarrow> eret (st1, Inr stop)
                | Inr (Goto j st2) \<Rightarrow> run_lane L plan j st2)) (\<lambda>h t r. \<not> isl r)" if "i < length (nodes plan)" for r
    using 1 [OF that] by (auto intro: runs_eret split: sum.splits route.splits simp: Let_def)
  have step: "runs (etry (run_node L st ?n)) (\<lambda>h t r. \<not> isl r)"
    by (rule runs_etry [OF run_node_requests [unfolded only_def]]) simp
  show ?case
    by (subst run_lane.simps) (auto intro!: runs_bind [OF step rest] runs_eret)
qed

lemma plan_returns: "runs (run_plan L st) (\<lambda>h t r. \<not> isl r)"
  unfolding run_plan_def by (auto intro: runs_eret lane_returns split: sum.splits)

lemma settle_requests: "only (is_act ''settleDevPromotionAdmissionActivity'') (settle_promotion L code)"
  unfolding settle_promotion_def by (auto intro!: run_intros)

lemma settle_returns: "runs (settle_promotion L code) (\<lambda>h t r. \<not> isl r)"
  unfolding settle_promotion_def
  by (auto intro!: runs_eret runs_catch [where P = "\<lambda>h t r. True" and R = "\<lambda>_ h t r. \<not> isl r"] simp: activity_def runs_ask)

text \<open>The records a finished attempt to complete or to fail the run leaves.\<close>

lemma runs_activity: "runs (activity n a) (\<lambda>h t r. \<exists>s. t = [\<lparr>req = Act n a, resp = r, signals = s\<rparr>])"
  unfolding activity_def by (rule runs_ask) blast

definition no_marks :: "step list \<Rightarrow> bool" where
  "no_marks t = (answers link_call t = [] \<and> answers complete_call t = [] \<and> answers fail_call t = [])"

lemma no_marksI: "only (\<lambda>q. \<not> link_call q \<and> \<not> complete_call q \<and> \<not> fail_call q) m \<Longrightarrow> runs m (\<lambda>h t r. no_marks t)"
  unfolding only_def no_marks_def by (erule runs_weaken) (auto intro!: answers_none)

lemma complete_run_runs:
  "runs (complete_run L st stop d) (\<lambda>h t r. answers link_call t = [] \<and> answers fail_call t = []
      \<and> answers complete_call t = [r])"
proof -
  have act: "runs (activity ''completeSkyserverWorkflowRunActivity'' a) (\<lambda>h t r. answers link_call t = []
      \<and> answers fail_call t = [] \<and> answers complete_call t = [r])" for a
    by (rule runs_weaken [OF runs_activity]) (auto simp: answers_Cons)
  have iso: "runs clock_iso (\<lambda>h t r. t = [] \<and> \<not> isl r)"
    by (rule runs_clock_iso) simp
  show ?thesis unfolding complete_run_def Let_def by (rule runs_bind [OF iso act]) auto
qed

lemma finish_run_runs:
  "runs (finish_run L code st stop) (\<lambda>h t r. answers link_call t = [] \<and> answers fail_call t = []
      \<and> isl r = failed_only (answers complete_call t))"
proof -
  have s: "runs (settle_promotion L code) (\<lambda>h t r. no_marks t \<and> \<not> isl r)"
    by (intro runs_conj settle_returns no_marksI only_mono [OF settle_requests]) (auto simp: is_act_def split: request.splits)
  have e: "runs (ebind (settle_promotion L code) (\<lambda>p. eret (f p))) (\<lambda>h t r. no_marks t \<and> \<not> isl r)" for f
    by (rule runs_bind [OF s, where R = "\<lambda>_ h t r. t = [] \<and> \<not> isl r"]) (auto intro: runs_eret)
  have c: "runs clock (\<lambda>h t r. t = [] \<and> \<not> isl r)" by (rule runs_clock) simp
  show ?thesis
    unfolding finish_run_def Let_def
    by (rule runs_bind [OF c runs_bind [OF complete_run_runs e]])
      (auto simp: no_marks_def failed_only_def)
qed

lemma fail_run_runs:
  "runs (fail_run L code st err) (\<lambda>h t r. answers link_call t = [] \<and> answers complete_call t = []
      \<and> answers fail_call t \<noteq> [] \<and> isl r)"
proof -
  have clocks: "runs clock (\<lambda>h t r. t = [] \<and> \<not> isl r)" "runs clock_iso (\<lambda>h t r. t = [] \<and> \<not> isl r)"
    by (auto intro: runs_clock runs_clock_iso)
  have act: "runs (activity ''failSkyserverWorkflowRunActivity'' a) (\<lambda>h t r. answers link_call t = []
      \<and> answers complete_call t = [] \<and> answers fail_call t = [r])" for a
    by (rule runs_weaken [OF runs_activity]) (auto simp: answers_Cons)
  have rec: "runs (if c then ecatch (activity ''reconcileDevFinalizationFailureActivity'' a) (\<lambda>_. eret JNull)
      else eret JNull) (\<lambda>h t r. no_marks t)" for c a
    by (intro no_marksI run_intros) auto
  have tail: "runs (ebind (if c then ecatch (activity ''reconcileDevFinalizationFailureActivity'' a) (\<lambda>_. eret JNull)
      else eret JNull) (\<lambda>_. ethrow f)) (\<lambda>h t r. no_marks t \<and> isl r)" for c a and f :: jsval
    by (rule runs_bind [OF rec, where R = "\<lambda>_ h t r. t = [] \<and> isl r"]) (auto intro: runs_ethrow)
  show ?thesis
    unfolding fail_run_def Let_def
    by (rule runs_bind [OF clocks(1) runs_bind [OF clocks(2) runs_bind [OF act tail]]])
      (auto simp: no_marks_def)
qed

text \<open>A run is recorded as complete exactly when the workflow returns, never as both, and once it is
  linked to its Temporal run it does not end without a record.\<close>

definition run_settled :: "step list \<Rightarrow> jsval + 'a \<Rightarrow> bool" where
  "run_settled t r =
     (isl r = failed_only (answers complete_call t)
      \<and> (\<not> isl r \<longrightarrow> answers fail_call t = [])
      \<and> (isl r \<and> \<not> failed_only (answers link_call t) \<longrightarrow> answers fail_call t \<noteq> []))"

lemma run_and_settle_runs:
  "runs (run_and_settle L code st0) (\<lambda>h t r. isl r = failed_only (answers complete_call t)
      \<and> answers link_call t = [] \<and> (isl r = (answers fail_call t \<noteq> [])))"
proof -
  have plan: "runs (run_plan L st0) (\<lambda>h t r. no_marks t \<and> \<not> isl r)"
    by (intro runs_conj plan_returns no_marksI only_mono [OF plan_requests]) simp
  have body: "runs (ecatch (finish_run L code st stop) (fail_run L code st))
     (\<lambda>h t r. isl r = failed_only (answers complete_call t)
      \<and> answers link_call t = [] \<and> (isl r = (answers fail_call t \<noteq> [])))" for st stop
    by (rule runs_catch [OF finish_run_runs fail_run_runs]) auto
  have fail: "runs (fail_run L code st err)
     (\<lambda>h t r. isl r = failed_only (answers complete_call t)
      \<and> answers link_call t = [] \<and> (isl r = (answers fail_call t \<noteq> [])))" for st err
    by (rule runs_weaken [OF fail_run_runs]) auto
  have rest: "runs (case x of (st, outcome) \<Rightarrow> (case outcome of
       Inl err \<Rightarrow> fail_run L code st err
     | Inr stop \<Rightarrow> ecatch (finish_run L code st stop) (fail_run L code st)))
     (\<lambda>h t r. isl r = failed_only (answers complete_call t)
      \<and> answers link_call t = [] \<and> (isl r = (answers fail_call t \<noteq> [])))" for x
    using body fail by (auto split: prod.splits sum.splits)
  show ?thesis
    unfolding run_and_settle_def
    by (rule runs_bind [OF plan rest]) (auto simp: no_marks_def)
qed

lemma link_run_runs:
  "runs (link_run L code) (\<lambda>h t r. answers complete_call t = [] \<and> answers fail_call t = []
     \<and> (isl r \<longrightarrow> failed_only (answers link_call t)))"
proof -
  have read: "runs (eread v k) (\<lambda>h t r. no_marks t)" for v k
    by (intro no_marksI run_intros)
  have act: "runs (activity ''linkSkyserverWorkflowRunToTemporalActivity'' a) (\<lambda>h t r. answers complete_call t = []
      \<and> answers fail_call t = [] \<and> (isl r \<longrightarrow> failed_only (answers link_call t)))" for a
    by (rule runs_weaken [OF runs_activity]) (auto simp: answers_Cons failed_only_def)
  show ?thesis
    unfolding link_run_def
    by (rule runs_bind [OF read runs_bind [OF read runs_bind [OF read act]]]) (auto simp: no_marks_def)
qed

lemma run_settled_after:
  assumes "no_marks t" "run_settled t' r"
  shows "run_settled (t @ t') r"
  using assms by (simp add: run_settled_def no_marks_def)

lemma recovery_start_only [run_intros]: "only P (recovery_start v s)"
  unfolding recovery_start_def Let_def by (intro run_intros)


text \<open>No run of the workflow ever sleeps longer than a day in one timer, nor waits for
  an approval with a deadline beyond 30 days.\<close>

theorem waits_bounded:
  "only bounded_wait (skyserverWorkflowExecutorWorkflow input temporalWorkflowId temporalRunId)"
proof -
  have acts [simp]: "bounded_wait (Act n a)" for n a by (simp add: bounded_wait_def)
  have plan: "only bounded_wait (run_plan L st)" for L st
    by (rule only_mono [OF plan_requests])
      (auto simp: lane_request_def node_request_def is_act_def split: request.splits)
  have finish: "only bounded_wait (finish_run L code st stop)" for L code st stop
    unfolding finish_run_def complete_run_def settle_promotion_def Let_def by (intro run_intros) simp_all
  have fail: "only bounded_wait (fail_run L code st err)" for L code st err
    unfolding fail_run_def Let_def by (intro run_intros) simp_all
  have settle: "only bounded_wait (run_and_settle L code st)" for L code st
    unfolding run_and_settle_def
    by (intro run_intros plan) (auto intro: run_intros finish fail split: prod.splits sum.splits)
  have link: "only bounded_wait (link_run L code)" for L code
    unfolding link_run_def by (intro run_intros) simp_all
  show ?thesis
    unfolding skyserverWorkflowExecutorWorkflow_def Let_def
    by (intro run_intros) (auto intro!: run_intros settle link)
qed


section \<open>Approvals come from signals\<close>

definition delivered :: "hist \<Rightarrow> jsval list" where
  "delivered h = concat (map signals h)"

definition approved_by :: "jsval list \<Rightarrow> string list \<Rightarrow> bool" where
  "approved_by payloads keys =
     (\<exists>p \<in> set payloads. normalizeApprovalDecision (jget p ''decision'') = Inr ''APPROVED''
        \<and> set (getApprovalDecisionLookupKeys p) \<inter> set keys \<noteq> {})"

definition grants :: "request \<Rightarrow> bool" where
  "grants q = (case q of
     Act n a \<Rightarrow> n = ''resolveSkyserverWorkflowApprovalRequestActivity'' \<and> jget a ''decision'' = JStr ''APPROVED''
   | _ \<Rightarrow> False)"

definition signalled_keys :: "step list \<Rightarrow> string list" where
  "signalled_keys t = concat (map (\<lambda>s. case req s of AwaitDecision ks _ \<Rightarrow> ks | _ \<Rightarrow> []) t)"

text \<open>Before every request that records an approval, a payload that approves was delivered under a
  key the node waited for.\<close>

definition approvals_signalled :: "hist \<Rightarrow> step list \<Rightarrow> bool" where
  "approvals_signalled h t =
     (\<forall>t1 s t2. t = t1 @ s # t2 \<and> grants (req s) \<longrightarrow> approved_by (delivered (h @ t1)) (signalled_keys t1))"

lemma file_decision_get:
  "map_of (file_decision m p) k
     = (if k \<in> set (getApprovalDecisionLookupKeys (getSafeObject p)) then Some (getSafeObject p) else map_of m k)"
proof -
  let ?d = "getSafeObject p"
  have "foldl (\<lambda>m key. kv_set m key ?d) m ks = foldl (\<lambda>m (k, v). kv_set m k v) m (map (\<lambda>k. (k, ?d)) ks)" for ks
    by (induction ks arbitrary: m) auto
  moreover have "map_of (rev (map (\<lambda>k. (k, ?d)) ks)) k = (if k \<in> set ks then Some ?d else None)" for ks
    by (induction ks) (auto simp: map_add_def)
  ultimately show ?thesis
    by (simp add: file_decision_def Let_def own.get_writes)
qed

lemma lookup_keys_safe: "getApprovalDecisionLookupKeys (getSafeObject p) = getApprovalDecisionLookupKeys p"
  by (simp add: getApprovalDecisionLookupKeys_def)

lemma lookup_keys_obj: "k \<in> set (getApprovalDecisionLookupKeys p) \<Longrightarrow> getSafeObject p = p"
  by (cases p) (auto simp: getApprovalDecisionLookupKeys_def getSafeObject_def)

lemma decisions_delivered:
  "map_of (foldl file_decision [] ps) k = Some d \<Longrightarrow> d \<in> set ps \<and> k \<in> set (getApprovalDecisionLookupKeys d)"
  by (induction ps rule: rev_induct)
    (auto simp: file_decision_get lookup_keys_safe lookup_keys_obj split: if_splits)

lemma first_decision_Some: "first_decision m ks = Some d \<Longrightarrow> \<exists>k \<in> set ks. map_of m k = Some d"
  by (induction ks) (auto split: option.splits)

lemma timed_out_not_approved:
  "normalizeApprovalDecision (jget (timed_out_payload a rid nodeRun node ap) ''decision'') \<noteq> Inr ''APPROVED''"
proof -
  have "normalizeApprovalDecision (JStr ''TIMED_OUT'') = Inr ''TIMED_OUT''" by code_simp
  then show ?thesis by (simp add: timed_out_payload_def)
qed

lemma await_decision_runs:
  "runs (await_decision a rid nodeRun node ap)
     (\<lambda>h t r. (\<forall>s \<in> set t. \<not> grants (req s))
        \<and> (\<forall>p. r = Inr p \<and> normalizeApprovalDecision (jget p ''decision'') = Inr ''APPROVED''
              \<longrightarrow> approved_by (delivered (h @ t)) (signalled_keys t)))"
proof -
  let ?ks = "wait_keys a nodeRun node ap" and ?tm = "timeout_of ap"
  let ?f = "\<lambda>signalled h. case first_decision (approval_decisions h) ?ks of
                Some d \<Rightarrow> eret (if ?tm = None \<or> truthy signalled then getSafeObject d
                                else timed_out_payload a rid nodeRun node ap)
              | None \<Rightarrow> eret (timed_out_payload a rid nodeRun node ap)"
  have wait: "runs (ask (AwaitDecision ?ks ?tm)) (\<lambda>h t r. (\<forall>s \<in> set t. \<not> grants (req s)) \<and> signalled_keys t = ?ks)"
    by (rule runs_ask) (simp add: grants_def signalled_keys_def)
  have pick: "runs (?f signalled g) (\<lambda>h t r. t = [] \<and> (\<forall>p. r = Inr p
      \<and> normalizeApprovalDecision (jget p ''decision'') = Inr ''APPROVED'' \<longrightarrow> approved_by (delivered g) ?ks))"
    for signalled g
  proof (cases "first_decision (approval_decisions g) ?ks")
    case None
    then show ?thesis by (auto intro!: runs_eret simp: timed_out_not_approved)
  next
    case (Some d)
    then obtain k where k: "k \<in> set ?ks" "map_of (foldl file_decision [] (delivered g)) k = Some d"
      by (auto dest: first_decision_Some simp: approval_decisions_def delivered_def)
    from decisions_delivered [OF k(2)] lookup_keys_obj have
      "d \<in> set (delivered g)" "k \<in> set (getApprovalDecisionLookupKeys d)" "getSafeObject d = d" by auto
    with k(1) Some show ?thesis
      by (auto intro!: runs_eret simp: timed_out_not_approved approved_by_def)
  qed
  have hist: "runs get_hist (\<lambda>h t r. t = [] \<and> r = Inr h)"
    by (rule runs_get_hist) simp
  have rest: "runs (ebind get_hist (?f signalled)) (\<lambda>h t r. t = [] \<and> (\<forall>p. r = Inr p
      \<and> normalizeApprovalDecision (jget p ''decision'') = Inr ''APPROVED'' \<longrightarrow> approved_by (delivered h) ?ks))"
    for signalled
    by (rule runs_bind [OF hist pick]) auto
  show ?thesis
    unfolding await_decision_def Let_def by (rule runs_bind [OF wait rest]) auto
qed

lemma not_grants: "only (\<lambda>q. \<not> grants q) m \<Longrightarrow> runs m (\<lambda>h t r. \<forall>s \<in> set t. \<not> grants (req s))"
  by (simp add: only_def)

lemma grants_only [simp]:
  "n \<noteq> ''resolveSkyserverWorkflowApprovalRequestActivity'' \<Longrightarrow> \<not> grants (Act n a)"
  by (simp add: grants_def)

lemma signalled_keys_append [simp]: "signalled_keys (t @ t') = signalled_keys t @ signalled_keys t'"
  by (simp add: signalled_keys_def)

lemma delivered_append [simp]: "delivered (h @ h') = delivered h @ delivered h'"
  by (simp add: delivered_def)

lemma approved_by_mono:
  "approved_by ps ks \<Longrightarrow> set ps \<subseteq> set ps' \<Longrightarrow> set ks \<subseteq> set ks' \<Longrightarrow> approved_by ps' ks'"
  unfolding approved_by_def by blast

lemma approvals_none: "\<forall>s \<in> set t. \<not> grants (req s) \<Longrightarrow> approvals_signalled h t"
  by (auto simp: approvals_signalled_def)

text \<open>An approval may be recorded once a silent segment has received it; nothing is lost by a silent
  segment before or after.\<close>

lemma approvals_after:
  assumes t: "\<forall>s \<in> set t. \<not> grants (req s)"
    and t': "\<And>s. s \<in> set t' \<Longrightarrow> grants (req s) \<Longrightarrow> approved_by (delivered (h @ t)) (signalled_keys t)"
  shows "approvals_signalled h (t @ t')"
  unfolding approvals_signalled_def
proof (intro allI impI)
  fix t1 s t2
  assume a: "t @ t' = t1 @ s # t2 \<and> grants (req s)"
  from a t obtain u where u: "t1 = t @ u" "t' = u @ s # t2"
    by (auto simp: append_eq_append_conv2 append_eq_Cons_conv)
  with a t' [of s] have "approved_by (delivered (h @ t)) (signalled_keys t)" by simp
  then show "approved_by (delivered (h @ t1)) (signalled_keys t1)"
    by (rule approved_by_mono) (auto simp: u)
qed

lemma approvals_before:
  assumes "\<forall>s \<in> set t. \<not> grants (req s)" "approvals_signalled (h @ t) t'"
  shows "approvals_signalled h (t @ t')"
  unfolding approvals_signalled_def
proof (intro allI impI)
  fix t1 s t2
  assume a: "t @ t' = t1 @ s # t2 \<and> grants (req s)"
  from a assms(1) obtain u where u: "t1 = t @ u" "t' = u @ s # t2"
    by (auto simp: append_eq_append_conv2 append_eq_Cons_conv)
  with a assms(2) have "approved_by (delivered ((h @ t) @ u)) (signalled_keys u)"
    unfolding approvals_signalled_def by blast
  then show "approved_by (delivered (h @ t1)) (signalled_keys t1)"
    by (rule approved_by_mono) (auto simp: u)
qed

lemma approvals_then:
  assumes "approvals_signalled h t" "\<forall>s \<in> set t'. \<not> grants (req s)"
  shows "approvals_signalled h (t @ t')"
  unfolding approvals_signalled_def
proof (intro allI impI)
  fix t1 s t2
  assume a: "t @ t' = t1 @ s # t2 \<and> grants (req s)"
  then have "s \<notin> set t'" using assms(2) by auto
  with a obtain u where "t = t1 @ s # u"
    by (auto simp: append_eq_append_conv2 append_eq_Cons_conv)
  with a assms(1) show "approved_by (delivered (h @ t1)) (signalled_keys t1)"
    unfolding approvals_signalled_def by blast
qed

lemma approval_resolved_runs:
  "runs (approval_resolved node parameters nodeRun context ids ap a) (\<lambda>h t r. approvals_signalled h t)"
proof -
  have tail: "runs (ebind (lift_res (normalizeApprovalDecision (jget p ''decision''))) (\<lambda>decision.
     ebind (eread a ''approvalRequestId'') (\<lambda>requestId.
     ebind (activity ''resolveSkyserverWorkflowApprovalRequestActivity''
       (JObj [(''approvalRequestId'', requestId), (''decision'', JStr decision),
              (''decisionNote'', nt), (''user'', usr), (''metadata'', meta decision)])) (\<lambda>resolved.
     ebind (lift_res (build decision resolved)) (\<lambda>built.
       complete_node nodeRun (out built) (cmeta requestId built))))))
     (\<lambda>h t r. \<forall>s \<in> set t. grants (req s) \<longrightarrow> normalizeApprovalDecision (jget p ''decision'') = Inr ''APPROVED'')"
    for p nt usr meta build out cmeta
  proof -
    have d: "runs (lift_res (normalizeApprovalDecision (jget p ''decision'')))
      (\<lambda>h t r. t = [] \<and> r = normalizeApprovalDecision (jget p ''decision''))"
      by (rule runs_lift_res) simp
    have rest: "only (\<lambda>q. grants q \<longrightarrow> decision = ''APPROVED'') (ebind (eread a ''approvalRequestId'') (\<lambda>requestId.
     ebind (activity ''resolveSkyserverWorkflowApprovalRequestActivity''
       (JObj [(''approvalRequestId'', requestId), (''decision'', JStr decision),
              (''decisionNote'', nt), (''user'', usr), (''metadata'', meta decision)])) (\<lambda>resolved.
     ebind (lift_res (build decision resolved)) (\<lambda>built.
       complete_node nodeRun (out built) (cmeta requestId built)))))" for decision
      by (intro run_intros) (simp_all add: grants_def)
    show ?thesis by (rule runs_bind [OF d rest [unfolded only_def]]) auto
  qed
  show ?thesis
    unfolding approval_resolved_def Let_def
    by (rule runs_bind [OF await_decision_runs tail]) (auto intro: approvals_none approvals_after)
qed

text \<open>C3 (approval_needs_signal): A human approval node records the decision APPROVED only if, earlier in the
  run, a signal whose decision reads as an approval was delivered under one of the keys the node
  waited for; a timeout, a rejection or a malformed answer never becomes an approval.\<close>

theorem approval_needs_signal:
  "runs (executeHumanApprovalNode node parameters nodeRun context ids) (\<lambda>h t r. approvals_signalled h t)"
proof -
  have request: "runs (etry (approval_requested node parameters nodeRun context ids))
      (\<lambda>h t r. \<forall>s \<in> set t. \<not> grants (req s))"
    unfolding approval_requested_def by (intro not_grants run_intros) simp_all
  have fail: "runs (approval_failed parameters nodeRun context ap err) (\<lambda>h t r. \<forall>s \<in> set t. \<not> grants (req s))" for ap err
    unfolding approval_failed_def by (intro not_grants run_intros) simp_all
  have resolve: "runs (ecatch (approval_resolved node parameters nodeRun context ids ap a)
      (approval_failed parameters nodeRun context a)) (\<lambda>h t r. approvals_signalled h t)" for ap a
    by (rule runs_catch [OF approval_resolved_runs fail]) (auto intro: approvals_then)
  have rest: "runs (case r of Inl err \<Rightarrow> approval_failed parameters nodeRun context JNull err
     | Inr (ap, a) \<Rightarrow> ecatch (approval_resolved node parameters nodeRun context ids ap a)
           (approval_failed parameters nodeRun context a)) (\<lambda>h t r. approvals_signalled h t)" for r
    using resolve runs_weaken [OF fail approvals_none] by (auto split: sum.splits prod.splits)
  show ?thesis
    unfolding executeHumanApprovalNode_def
    by (rule runs_bind [OF request rest]) (auto intro: approvals_none approvals_before)
qed


end
