(* ===== verification/JsonText.thy ===== *)
theory JsonText
  imports JsPrelude
begin

text \<open>
  \<open>JSON.parse\<close>: the grammar of JSON texts with blanks, escapes and numbers; a repeated member keeps
  its first position and its last value.  A \<open>\u\<close> escape beyond the 8-bit characters of the model
  reads as a question mark.  The parser runs on fuel; one more than the length of the text is enough:
  whatever some amount of fuel reads is read with that amount (\<open>fuel_enough\<close>).
\<close>

section \<open>Lexical parts\<close>

definition json_ws :: "char \<Rightarrow> bool" where
  "json_ws c = (code_of c \<in> {9, 10, 13, 32})"

definition skip_ws :: "string \<Rightarrow> string" where
  "skip_ws s = dropWhile json_ws s"

fun hex4 :: "nat \<Rightarrow> nat \<Rightarrow> string \<Rightarrow> (nat \<times> string) option" where
  "hex4 0 acc s = Some (acc, s)"
| "hex4 (Suc n) acc [] = None"
| "hex4 (Suc n) acc (c # cs) =
     (case hex_digit c of None \<Rightarrow> None | Some d \<Rightarrow> hex4 n (16 * acc + d) cs)"

definition escape_char :: "char \<Rightarrow> char option" where
  "escape_char c =
     map_of [(CHR 0x22, CHR 0x22), (CHR 0x5C, CHR 0x5C), (CHR ''/'', CHR ''/''), (CHR ''b'', CHR 0x08),
             (CHR ''f'', CHR 0x0C), (CHR ''n'', CHR 0x0A), (CHR ''r'', CHR 0x0D), (CHR ''t'', CHR 0x09)] c"

definition unicode_char :: "nat \<Rightarrow> char" where
  "unicode_char n = (if n < 256 then char_of n else CHR ''?'')"

lemma hex4_length: "hex4 n acc s = Some (v, r) \<Longrightarrow> length r \<le> length s"
  by (induction n acc s rule: hex4.induct) (auto split: option.splits)

text \<open>The characters after an opening quote, up to and with the closing one.\<close>

function string_body :: "string \<Rightarrow> (string \<times> string) option" where
  "string_body [] = None"
| "string_body (c # cs) =
     (if c = CHR 0x22 then Some ([], cs)
      else if c = CHR 0x5C then
        (case cs of
           [] \<Rightarrow> None
         | e # es \<Rightarrow>
             (case (if e = CHR ''u'' then map_option (\<lambda>(n, r). (unicode_char n, r)) (hex4 4 0 es)
                    else map_option (\<lambda>x. (x, es)) (escape_char e)) of
                None \<Rightarrow> None
              | Some (x, r) \<Rightarrow> map_option (\<lambda>(t, r'). (x # t, r')) (string_body r)))
      else if code_of c < 32 then None
      else map_option (\<lambda>(t, r). (c # t, r)) (string_body cs))"
  by pat_completeness auto
termination
  by (relation "measure length") (auto split: if_splits dest: hex4_length)

declare string_body.simps [simp del]

text \<open>A number: an optional minus, an integer part without leading zeros, a fraction, an exponent.\<close>

definition number_text :: "string \<Rightarrow> (string \<times> string) option" where
  "number_text s =
     (let sgn = (case s of [] \<Rightarrow> [] | c # _ \<Rightarrow> if c = CHR ''-'' then [c] else []);
          s1 = drop (length sgn) s;
          ip = takeWhile is_digit s1;
          s2 = dropWhile is_digit s1;
          fp = (case s2 of c # cs \<Rightarrow> if c = CHR ''.'' then c # takeWhile is_digit cs else [] | [] \<Rightarrow> []);
          s3 = drop (length fp) s2;
          ex = (case s3 of
                  c # cs \<Rightarrow>
                    if c = CHR ''e'' \<or> c = CHR ''E''
                    then (let sg = (case cs of d # _ \<Rightarrow> if d = CHR ''-'' \<or> d = CHR ''+'' then [d] else [] | [] \<Rightarrow> [])
                          in c # sg @ takeWhile is_digit (drop (length sg) cs))
                    else []
                | [] \<Rightarrow> [])
      in if ip = [] \<or> (1 < length ip \<and> hd ip = CHR ''0'') \<or> fp = ''.''
            \<or> (ex \<noteq> [] \<and> \<not> is_digit (last ex))
         then None
         else Some (sgn @ ip @ fp @ ex, drop (length ex) s3))"

definition literal :: "string \<Rightarrow> jsval \<Rightarrow> string \<Rightarrow> (jsval \<times> string) option" where
  "literal w v s = (if prefix w s then Some (v, drop (length w) s) else None)"

section \<open>Values\<close>

fun parse_value :: "nat \<Rightarrow> string \<Rightarrow> (jsval \<times> string) option"
and parse_items :: "nat \<Rightarrow> jsval list \<Rightarrow> string \<Rightarrow> (jsval \<times> string) option"
and parse_members :: "nat \<Rightarrow> (string \<times> jsval) list \<Rightarrow> string \<Rightarrow> (jsval \<times> string) option" where
  "parse_value 0 s = None"
| "parse_value (Suc n) s =
     (case skip_ws s of
        [] \<Rightarrow> None
      | c # cs \<Rightarrow>
          if c = CHR 0x22 then map_option (\<lambda>(t, r). (JStr t, r)) (string_body cs)
          else if c = CHR ''['' then
            (case skip_ws cs of
               [] \<Rightarrow> None
             | d # ds \<Rightarrow> if d = CHR '']'' then Some (JArr [], ds) else parse_items n [] cs)
          else if c = CHR ''{'' then
            (case skip_ws cs of
               [] \<Rightarrow> None
             | d # ds \<Rightarrow> if d = CHR ''}'' then Some (JObj [], ds) else parse_members n [] cs)
          else if c = CHR ''t'' then literal ''true'' (JBool True) (c # cs)
          else if c = CHR ''f'' then literal ''false'' (JBool False) (c # cs)
          else if c = CHR ''n'' then literal ''null'' JNull (c # cs)
          else map_option (\<lambda>(t, r). (JNum (str_num t), r)) (number_text (c # cs)))"
| "parse_items 0 acc s = None"
| "parse_items (Suc n) acc s =
     (case parse_value n s of
        None \<Rightarrow> None
      | Some (v, r) \<Rightarrow>
          (case skip_ws r of
             [] \<Rightarrow> None
           | d # ds \<Rightarrow>
               if d = CHR '','' then parse_items n (acc @ [v]) ds
               else if d = CHR '']'' then Some (JArr (acc @ [v]), ds)
               else None))"
| "parse_members 0 acc s = None"
| "parse_members (Suc n) acc s =
     (case skip_ws s of
        [] \<Rightarrow> None
      | q # qs \<Rightarrow>
          if q \<noteq> CHR 0x22 then None
          else (case string_body qs of
             None \<Rightarrow> None
           | Some (k, r0) \<Rightarrow>
               (case skip_ws r0 of
                  [] \<Rightarrow> None
                | c # r1 \<Rightarrow>
                    if c \<noteq> CHR '':'' then None
                    else (case parse_value n r1 of
                       None \<Rightarrow> None
                     | Some (v, r2) \<Rightarrow>
                         (case skip_ws r2 of
                            [] \<Rightarrow> None
                          | d # ds \<Rightarrow>
                              if d = CHR '','' then parse_members n (kv_set acc k v) ds
                              else if d = CHR ''}'' then Some (JObj (kv_set acc k v), ds)
                              else None)))))"

definition json_parse :: "string \<Rightarrow> jsval option" where
  "json_parse s =
     (case parse_value (Suc (length s)) s of
        Some (v, r) \<Rightarrow> if skip_ws r = [] then Some v else None
      | None \<Rightarrow> None)"

section \<open>The fuel is enough\<close>

lemma skip_ws_length: "length (skip_ws s) \<le> length s"
  by (simp add: skip_ws_def length_dropWhile_le)

lemma skip_ws_cons: "skip_ws s = c # cs \<Longrightarrow> length cs < length s"
  using skip_ws_length [of s] by simp

lemma string_body_length: "string_body s = Some (t, r) \<Longrightarrow> length r < length s"
proof (induction s arbitrary: t r rule: length_induct)
  case (1 s)
  then have IH: "length r' < length s'" if "string_body s' = Some (t', r')" "length s' < length s" for s' t' r'
    using that by blast
  show ?case
  proof (cases s)
    case (Cons c cs)
    with 1(2) show ?thesis
      by (auto simp: string_body.simps(2) [of c cs] split: if_splits list.splits option.splits
          dest!: IH hex4_length)
  qed (use 1(2) in \<open>simp add: string_body.simps\<close>)
qed

lemma number_text_length:
  assumes "number_text s = Some (t, r)"
  shows "length r < length s"
proof -
  obtain a b where r: "drop b (dropWhile is_digit (drop a s)) = r"
    and ip: "takeWhile is_digit (drop a s) \<noteq> []"
    using assms unfolding number_text_def Let_def
    by (simp split: if_split_asm, elim conjE) (rule that, assumption+)
  have "length (takeWhile is_digit (drop a s)) + length (dropWhile is_digit (drop a s)) = length (drop a s)"
    by (metis length_append takeWhile_dropWhile_id)
  moreover have "0 < length (takeWhile is_digit (drop a s))" using ip by simp
  moreover have "length (drop a s) \<le> length s" by simp
  ultimately have "length (dropWhile is_digit (drop a s)) < length s" by linarith
  then show ?thesis unfolding r [symmetric] by simp
qed

lemma literal_length: "literal w v s = Some (u, r) \<Longrightarrow> w \<noteq> [] \<Longrightarrow> length r < length s"
  by (auto simp: literal_def prefix_def split: if_splits)

definition settled :: "(nat \<Rightarrow> (jsval \<times> string) option) \<Rightarrow> string \<Rightarrow> jsval \<Rightarrow> string \<Rightarrow> bool" where
  "settled p s v r = (length r < length s \<and> (\<forall>m \<ge> length s - length r. p m = Some (v, r)))"

lemma settled_leaf: "(\<And>m. p (Suc m) = Some (v, r)) \<Longrightarrow> length r < length s \<Longrightarrow> settled p s v r"
  unfolding settled_def by (metis Suc_pred diff_is_0_eq less_le_not_le linorder_not_le not_gr_zero order_trans)

lemma settled_step: "(\<And>m. p (Suc m) = q m) \<Longrightarrow> settled q t v r \<Longrightarrow> length t < length s \<Longrightarrow> settled p s v r"
  unfolding settled_def
proof (intro conjI allI impI; elim conjE)
  fix m
  assume a: "\<And>m. p (Suc m) = q m" "length t < length s" "length s - length r \<le> m" "length r < length t"
    "\<forall>m\<ge>length t - length r. q m = Some (v, r)"
  from a(2,3,4) obtain m' where m: "m = Suc m'" "length t - length r \<le> m'" by (cases m) auto
  with a(1,5) show "p m = Some (v, r)" by simp
qed simp

text \<open>A value, then what follows it.\<close>

lemma settled_seq:
  assumes "settled p s u t" "settled q t' v r" "length t' < length t"
    and "\<And>m. p m = Some (u, t) \<Longrightarrow> f (Suc m) = q m"
  shows "settled f s v r"
  unfolding settled_def
proof (intro conjI allI impI)
  show "length r < length s" using assms by (simp add: settled_def)
  fix m
  assume "length s - length r \<le> m"
  with assms(1,2,3) obtain m' where m: "m = Suc m'" "length s - length t \<le> m'" "length t' - length r \<le> m'"
    by (cases m) (auto simp: settled_def)
  with assms show "f m = Some (v, r)" by (simp add: settled_def)
qed

lemma settled_last:
  assumes "settled p s u t" "length r < length t" "\<And>m. p m = Some (u, t) \<Longrightarrow> f (Suc m) = Some (v, r)"
  shows "settled f s v r"
  unfolding settled_def
proof (intro conjI allI impI)
  show "length r < length s" using assms by (simp add: settled_def)
  fix m
  assume "length s - length r \<le> m"
  with assms(1,2) obtain m' where m: "m = Suc m'" "length s - length t \<le> m'"
    by (cases m) (auto simp: settled_def)
  with assms show "f m = Some (v, r)" by (simp add: settled_def)
qed

lemma settled_value:
  "parse_value n s = Some (v, r) \<Longrightarrow> settled (\<lambda>m. parse_value m s) s v r"
  "parse_items n vs s = Some (v, r) \<Longrightarrow> settled (\<lambda>m. parse_items m vs s) s v r"
  "parse_members n kvs s = Some (v, r) \<Longrightarrow> settled (\<lambda>m. parse_members m kvs s) s v r"
proof (induction n s and n vs s and n kvs s arbitrary: v r and v r and v r
    rule: parse_value_parse_items_parse_members.induct)
  case (2 n s)
  then obtain c cs where s: "skip_ws s = c # cs" by (cases "skip_ws s") auto
  from skip_ws_cons [OF s] skip_ws_length [of s] s
  have len: "length cs < length s" "length (c # cs) \<le> length s" by simp_all
  consider (items) d ds where "c = CHR ''[''" "skip_ws cs = d # ds" "d \<noteq> CHR '']''"
    | (members) d ds where "c = CHR ''{''" "skip_ws cs = d # ds" "d \<noteq> CHR ''}''"
    | (leaf) "\<not> (\<exists>d ds. c = CHR ''['' \<and> skip_ws cs = d # ds \<and> d \<noteq> CHR '']'')"
        "\<not> (\<exists>d ds. c = CHR ''{'' \<and> skip_ws cs = d # ds \<and> d \<noteq> CHR ''}'')"
    by blast
  then show ?case
  proof cases
    case items
    with 2(1) [OF s] 2(3) s have "settled (\<lambda>m. parse_items m [] cs) cs v r" by simp
    show ?thesis by (rule settled_step [OF _ \<open>settled _ _ _ _\<close> len(1)]) (simp add: s items)
  next
    case members
    with 2(2) [OF s] 2(3) s have "settled (\<lambda>m. parse_members m [] cs) cs v r" by simp
    show ?thesis by (rule settled_step [OF _ \<open>settled _ _ _ _\<close> len(1)]) (simp add: s members)
  next
    case none: leaf
    have leaf: "parse_value (Suc m) s = parse_value (Suc m') s" for m m'
      using none by (cases "skip_ws cs") (auto simp: s)
    show ?thesis
    proof (rule settled_leaf)
      show "parse_value (Suc m) s = Some (v, r)" for m using leaf [of m n] 2(3) by simp
      from leaf [of 0 n] 2(3) len show "length r < length s"
        by (simp add: s split: if_splits list.splits)
          (auto dest: string_body_length number_text_length literal_length skip_ws_cons)
    qed
  qed
next
  case (4 n acc s)
  then obtain u t where u: "parse_value n s = Some (u, t)" by (auto split: option.splits)
  with 4(3) obtain d ds where d: "skip_ws t = d # ds" by (cases "skip_ws t") auto
  note len = skip_ws_cons [OF d] and su = 4(1) [OF u]
  show ?case
  proof (cases "d = CHR '',''")
    case True
    with 4(2) [OF u refl d] 4(3) u d have "settled (\<lambda>m. parse_items m (acc @ [u]) ds) ds v r" by simp
    from settled_seq [OF su this len] show ?thesis by (simp add: d True)
  next
    case False
    with 4(3) u d have "r = ds" "v = JArr (acc @ [u])" "d = CHR '']''" by (simp_all split: if_splits)
    with settled_last [OF su len] show ?thesis by (simp add: d)
  qed
next
  case (6 n acc s)
  then obtain qs where q: "skip_ws s = CHR 0x22 # qs" by (cases "skip_ws s") (auto split: if_splits)
  with 6(3) obtain k r0 where k: "string_body qs = Some (k, r0)" by (cases "string_body qs") auto
  with 6(3) q obtain r1 where r1: "skip_ws r0 = CHR '':'' # r1" by (cases "skip_ws r0") (auto split: if_splits)
  with 6(3) q k obtain u t where u: "parse_value n r1 = Some (u, t)" by (auto split: option.splits)
  with 6(3) q k r1 obtain d ds where d: "skip_ws t = d # ds" by (cases "skip_ws t") auto
  have short: "length r1 < length s"
    using skip_ws_cons [OF q] skip_ws_cons [OF r1] string_body_length [OF k] by simp
  note len = skip_ws_cons [OF d]
  have su: "settled (\<lambda>m. parse_value m r1) r1 u t" using 6(1) q k r1 u by simp
  have "settled (\<lambda>m. parse_members m acc s) r1 v r"
  proof (cases "d = CHR '',''")
    case True
    with 6 q k r1 u d have "settled (\<lambda>m. parse_members m (kv_set acc k u) ds) ds v r" by simp
    from settled_seq [OF su this len] show ?thesis by (simp add: q k r1 d True)
  next
    case False
    with 6(3) q k r1 u d have "r = ds" "v = JObj (kv_set acc k u)" "d = CHR ''}''" by (simp_all split: if_splits)
    with settled_last [OF su len] show ?thesis by (simp add: q k r1 d)
  qed
  with short show ?case by (auto simp: settled_def)
qed simp_all

text \<open>Every text that some amount of fuel reads is read with one more than its length.\<close>

lemma fuel_enough: "json_parse s = Some v \<longleftrightarrow> (\<exists>n r. parse_value n s = Some (v, r) \<and> skip_ws r = [])"
proof
  assume "json_parse s = Some v"
  then show "\<exists>n r. parse_value n s = Some (v, r) \<and> skip_ws r = []"
    unfolding json_parse_def by (intro exI [of _ "Suc (length s)"]) (auto split: option.splits if_splits)
next
  assume "\<exists>n r. parse_value n s = Some (v, r) \<and> skip_ws r = []"
  then obtain n r where r: "parse_value n s = Some (v, r)" "skip_ws r = []" by blast
  from settled_value(1) [OF r(1)] have "parse_value (Suc (length s)) s = Some (v, r)"
    unfolding settled_def by (metis diff_le_self le_Suc_eq)
  with r(2) show "json_parse s = Some v" by (simp add: json_parse_def)
qed

end
