(* ===== verification/ConditionService.thy ===== *)
theory ConditionService
  imports WorkflowNodes JsonText
begin

text \<open>
  The CONDITION node of a workflow, \<open>apps/api/src/services/workflowConditionService.js\<close> with
  \<open>workflowServiceError.js\<close>: the operators and their aliases, typed literals, the comparison, and the
  output that the executor of \<open>WorkflowExecutor\<close> routes on.  \<open>getSafeObject\<close>,
  \<open>normalizeContextKey\<close>, \<open>isBlankValue\<close> and \<open>normalizeConditionBranchTargetNodeKey\<close> are the same
  functions as in the executor and are shared.  The text of a JSON syntax error is the engine's: the
  parameter \<open>jsonError\<close>.
\<close>

section \<open>Errors\<close>

definition WorkflowServiceError :: "string \<Rightarrow> nat \<Rightarrow> jsval \<Rightarrow> jsval" where
  "WorkflowServiceError message statusCode details = JObj
     [(''name'', JStr ''WorkflowServiceError''), (''message'', JStr message),
      (''statusCode'', jnat statusCode), (''details'', details)]"

definition str_arr :: "string list \<Rightarrow> jsval" where
  "str_arr ws = JArr (map JStr ws)"

section \<open>Normalization\<close>

definition UNARY_CONDITION_OPERATORS :: "string list" where
  "UNARY_CONDITION_OPERATORS = [''TRUTHY'', ''FALSY'', ''EXISTS'', ''NOT_EXISTS'']"

definition condition_operators :: "string list" where
  "condition_operators =
     [''TRUTHY'', ''FALSY'', ''EXISTS'', ''NOT_EXISTS'', ''EQUALS'', ''NOT_EQUALS'', ''CONTAINS'',
      ''NOT_CONTAINS'', ''GREATER_THAN'', ''GREATER_OR_EQUAL'', ''LESS_THAN'', ''LESS_OR_EQUAL'']"

definition operator_aliases :: "(string \<times> string) list" where
  "operator_aliases =
     [([], ''TRUTHY''), (''TRUE'', ''TRUTHY''), (''IS_TRUE'', ''TRUTHY''), (''TRUTHY'', ''TRUTHY''),
      (''FALSE'', ''FALSY''), (''IS_FALSE'', ''FALSY''), (''FALSY'', ''FALSY''),
      (''EXISTS'', ''EXISTS''), (''NOT_EXISTS'', ''NOT_EXISTS''), (''MISSING'', ''NOT_EXISTS''),
      (''EQUALS'', ''EQUALS''), (''EQUAL'', ''EQUALS''), (''EQ'', ''EQUALS''),
      (''NOT_EQUALS'', ''NOT_EQUALS''), (''NOT_EQUAL'', ''NOT_EQUALS''), (''NE'', ''NOT_EQUALS''),
      (''CONTAINS'', ''CONTAINS''), (''NOT_CONTAINS'', ''NOT_CONTAINS''),
      (''GREATER_THAN'', ''GREATER_THAN''), (''GT'', ''GREATER_THAN''),
      (''GREATER_OR_EQUAL'', ''GREATER_OR_EQUAL''), (''GTE'', ''GREATER_OR_EQUAL''),
      (''LESS_THAN'', ''LESS_THAN''), (''LT'', ''LESS_THAN''),
      (''LESS_OR_EQUAL'', ''LESS_OR_EQUAL''), (''LTE'', ''LESS_OR_EQUAL'')]"

definition normalizeConditionOperator :: "jsval \<Rightarrow> string res" where
  "normalizeConditionOperator v =
     (let operator = via_alias operator_aliases (normal_token token_char (jor v (JStr ''truthy'')))
      in if operator \<notin> set condition_operators
         then Inl (WorkflowServiceError ''Unsupported CONDITION operator.'' 400
                (JObj [(''operator'', v), (''allowed'', str_arr condition_operators)]))
         else Inr operator)"

definition on_false_actions :: "string list" where
  "on_false_actions = [''STOP_SUCCESS'', ''FAIL_WORKFLOW'', ''CONTINUE'']"

definition normalizeConditionOnFalse :: "jsval \<Rightarrow> string res" where
  "normalizeConditionOnFalse v =
     (let action = via_alias (continuation_aliases ''STOP_SUCCESS'')
                     (normal_token token_char (jor v (JStr ''STOP_SUCCESS'')))
      in if action \<notin> set on_false_actions
         then Inl (WorkflowServiceError ''Unsupported CONDITION onFalse action.'' 400
                (JObj [(''onFalse'', v), (''allowed'', str_arr on_false_actions)]))
         else Inr action)"

definition value_types :: "string list" where
  "value_types = [''AUTO'', ''STRING'', ''NUMBER'', ''BOOLEAN'', ''JSON'']"

definition normalizeConditionValueType :: "jsval \<Rightarrow> string res" where
  "normalizeConditionValueType v =
     (let normalized = to_upper (trim (to_str (jor v (JStr ''AUTO''))))
      in if normalized \<notin> set value_types
         then Inl (WorkflowServiceError ''Unsupported CONDITION value type.'' 400
                (JObj [(''valueType'', v), (''allowed'', str_arr value_types)]))
         else Inr normalized)"

text \<open>\<open>/^-?\d+(\.\d+)?$/\<close>.\<close>

definition decimal_text :: "string \<Rightarrow> bool" where
  "decimal_text s =
     (let u = (case s of [] \<Rightarrow> [] | c # cs \<Rightarrow> if c = CHR ''-'' then cs else s);
          ip = takeWhile is_digit u; r = dropWhile is_digit u
      in ip \<noteq> [] \<and> (r = [] \<or> (hd r = CHR ''.'' \<and> tl r \<noteq> [] \<and> list_all is_digit (tl r))))"

definition parse_boolean :: "jsval \<Rightarrow> jsval res" where
  "parse_boolean v =
     (if jtypeof v = ''boolean'' then Inr v
      else
        let normalized = to_lower (trim (to_str (jor v (JStr []))))
        in if normalized \<in> {''true'', ''1'', ''yes'', ''y'', ''on''} then Inr (JBool True)
           else if normalized \<in> {''false'', ''0'', ''no'', ''n'', ''off'', []} then Inr (JBool False)
           else Inl (WorkflowServiceError ''CONDITION boolean value must be true or false.'' 400
                  (JObj [(''value'', v)])))"

definition parse_json_value :: "(string \<Rightarrow> string) \<Rightarrow> jsval \<Rightarrow> jsval res" where
  "parse_json_value jsonError v =
     (if jtypeof v = ''object'' then Inr v
      else
        let text = to_str (jor v (JStr ''null''))
        in case json_parse text of
             Some x \<Rightarrow> Inr x
           | None \<Rightarrow> Inl (WorkflowServiceError ''CONDITION JSON value must be valid JSON.'' 400
                       (JObj [(''value'', v), (''parseError'', JStr (jsonError text))])))"

definition parse_auto :: "jsval \<Rightarrow> jsval" where
  "parse_auto v =
     (case v of
        JStr s \<Rightarrow>
          (let text = trim s; low = to_lower text
           in if text = [] then JStr []
              else if low = ''true'' then JBool True
              else if low = ''false'' then JBool False
              else if low = ''null'' then JNull
              else if decimal_text text \<and> is_finite (str_num text) then JNum (str_num text)
              else JStr text)
      | _ \<Rightarrow> v)"

definition parseConditionTypedValue :: "(string \<Rightarrow> string) \<Rightarrow> jsval \<Rightarrow> jsval \<Rightarrow> jsval res" where
  "parseConditionTypedValue jsonError v valueType =
     rbind (normalizeConditionValueType valueType) (\<lambda>normalizedType.
       if normalizedType = ''STRING'' then Inr (JStr (if is_nullish v then [] else to_str v))
       else if normalizedType = ''NUMBER'' then
         (case finite_num v of
            Some r \<Rightarrow> Inr (jnum r)
          | None \<Rightarrow> Inl (WorkflowServiceError ''CONDITION number value must be numeric.'' 400
                      (JObj [(''value'', v)])))
       else if normalizedType = ''BOOLEAN'' then parse_boolean v
       else if normalizedType = ''JSON'' then parse_json_value jsonError v
       else Inr (parse_auto v))"

definition strict_true :: "jsval \<Rightarrow> bool" where
  "strict_true v = (strict_eq v (JBool True) \<or> strict_eq v (JStr ''true'') \<or> strict_eq v (JStr ''1''))"

definition normalizeConditionParameters :: "jsval \<Rightarrow> jsval res" where
  "normalizeConditionParameters parameters =
     (let input = getSafeObject parameters;
          leftPath = trim (to_str (jors [jget input ''leftPath'', jget input ''sourcePath'',
                                         jget input ''path'', JStr []]));
          hasLeftLiteral = (has_own input ''leftValue'' \<and> \<not> isBlankValue (jget input ''leftValue''));
          hasRightValue = (has_own input ''rightValue'' \<and> \<not> isBlankValue (jget input ''rightValue''))
      in rbind (normalizeConditionOperator (jor (jget input ''operator'') (jget input ''conditionOperator'')))
           (\<lambda>operator.
         rbind (normalizeConditionOnFalse (jor (jget input ''onFalse'') (jget input ''falseAction''))) (\<lambda>onFalse.
         rbind (normalizeConditionValueType
                  (jors [jget input ''rightType'', jget input ''valueType'', JStr ''AUTO''])) (\<lambda>rightType.
         rbind (normalizeConditionValueType (jor (jget input ''leftType'') (JStr ''AUTO''))) (\<lambda>leftType.
         if leftPath = [] \<and> \<not> hasLeftLiteral
         then Inl (WorkflowServiceError ''CONDITION nodes require a leftPath or leftValue.'' 400
                (JObj [(''fieldName'', JStr ''leftPath'')]))
         else if operator \<notin> set UNARY_CONDITION_OPERATORS \<and> \<not> hasRightValue
         then Inl (WorkflowServiceError ''CONDITION comparison operators require rightValue.'' 400
                (JObj [(''fieldName'', JStr ''rightValue''), (''operator'', JStr operator)]))
         else Inr (obj_with input
           [(''leftPath'', JStr leftPath), (''leftValue'', jget input ''leftValue''),
            (''leftType'', JStr leftType), (''operator'', JStr operator),
            (''rightValue'', jget input ''rightValue''), (''rightType'', JStr rightType),
            (''caseSensitive'', JBool (strict_true (jget input ''caseSensitive''))),
            (''onFalse'', JStr onFalse),
            (''trueTargetNodeKey'', JStr (normalizeConditionBranchTargetNodeKey
               (jors [jget input ''trueTargetNodeKey'', jget input ''trueTarget'',
                      jget input ''onTrueTargetNodeKey'']))),
            (''falseTargetNodeKey'', JStr (normalizeConditionBranchTargetNodeKey
               (jors [jget input ''falseTargetNodeKey'', jget input ''falseTarget'',
                      jget input ''onFalseTargetNodeKey''])))]))))))"

section \<open>Values at a path\<close>

text \<open>\<open>path.replace(/\[(\w+)\]/g, '.$1')\<close>.\<close>

function bracket_dots :: "string \<Rightarrow> string" where
  "bracket_dots [] = []"
| "bracket_dots (c # cs) =
     (let w = takeWhile is_word cs; r = dropWhile is_word cs
      in if c = CHR ''['' \<and> w \<noteq> [] \<and> r \<noteq> [] \<and> hd r = CHR '']''
         then CHR ''.'' # w @ bracket_dots (tl r)
         else c # bracket_dots cs)"
  by pat_completeness auto
termination
proof (relation "measure length", goal_cases)
  case (2 c cs x xa)
  have "length (tl (dropWhile is_word cs)) \<le> length cs"
    using length_dropWhile_le [of is_word cs] by simp
  with 2 show ?case by simp
qed auto

definition path_segments :: "string \<Rightarrow> string list" where
  "path_segments path = filter (\<lambda>s. s \<noteq> []) (map trim (split_on (CHR ''.'') (bracket_dots path)))"

fun own_step :: "jsval \<Rightarrow> string \<Rightarrow> jsval" where
  "own_step (JArr vs) seg =
     (if seg \<noteq> [] \<and> list_all is_digit seg then arr_nth vs (digits_val seg)
      else if seg = ''length'' then jnat (length vs)
      else JUndef)"
| "own_step (JObj kvs) seg = kv_get kvs seg"
| "own_step v seg = JUndef"

fun own_walk :: "jsval \<Rightarrow> string list \<Rightarrow> jsval" where
  "own_walk current [] = current"
| "own_walk current (seg # segs) =
     (if is_nullish current then JUndef else own_walk (own_step current seg) segs)"

definition getValueAtPath :: "jsval \<Rightarrow> string \<Rightarrow> jsval" where
  "getValueAtPath source path =
     (if trim path = [] then JUndef else own_walk source (path_segments (trim path)))"

section \<open>Comparison\<close>

definition isConditionTruthy :: "jsval \<Rightarrow> bool" where
  "isConditionTruthy v =
     (case v of
        JUndef \<Rightarrow> False
      | JNull \<Rightarrow> False
      | JBool b \<Rightarrow> b
      | JNum n \<Rightarrow> is_finite n \<and> n \<noteq> Fin 0
      | JStr s \<Rightarrow> to_lower (trim s) \<notin> {[], ''false'', ''0'', ''no'', ''off'', ''null'', ''undefined''}
      | JArr vs \<Rightarrow> vs \<noteq> []
      | JObj kvs \<Rightarrow> kvs \<noteq> [])"

definition normalizeComparable :: "bool \<Rightarrow> jsval \<Rightarrow> jsval" where
  "normalizeComparable caseSensitive v =
     (case v of
        JStr s \<Rightarrow> JStr (if caseSensitive then s else to_lower s)
      | JArr _ \<Rightarrow> (case json v of Some t \<Rightarrow> JStr (if caseSensitive then t else to_lower t) | None \<Rightarrow> JUndef)
      | JObj _ \<Rightarrow> (case json v of Some t \<Rightarrow> JStr (if caseSensitive then t else to_lower t) | None \<Rightarrow> JUndef)
      | _ \<Rightarrow> v)"

definition compare_numbers :: "string \<Rightarrow> rat \<Rightarrow> rat \<Rightarrow> bool" where
  "compare_numbers operator l r =
     (if operator = ''GREATER_THAN'' then r < l
      else if operator = ''GREATER_OR_EQUAL'' then r \<le> l
      else if operator = ''LESS_THAN'' then l < r
      else l \<le> r)"

definition condition_contains :: "jsval \<Rightarrow> jsval \<Rightarrow> bool \<Rightarrow> bool" where
  "condition_contains left right caseSensitive =
     (case left of
        JArr items \<Rightarrow> list_ex (\<lambda>item. strict_eq (normalizeComparable caseSensitive item)
                                  (normalizeComparable caseSensitive right)) items
      | _ \<Rightarrow>
          (let leftText = (if is_nullish left then [] else to_str left);
               rightText = (if is_nullish right then [] else to_str right)
           in if caseSensitive then str_includes leftText rightText
              else str_includes (to_lower leftText) (to_lower rightText)))"

definition compareConditionValues :: "jsval \<Rightarrow> jsval \<Rightarrow> string \<Rightarrow> bool \<Rightarrow> bool" where
  "compareConditionValues left right operator caseSensitive =
     (if operator = ''TRUTHY'' then isConditionTruthy left
      else if operator = ''FALSY'' then \<not> isConditionTruthy left
      else if operator = ''EXISTS'' then \<not> is_nullish left
      else if operator = ''NOT_EXISTS'' then is_nullish left
      else if operator \<in> {''GREATER_THAN'', ''GREATER_OR_EQUAL'', ''LESS_THAN'', ''LESS_OR_EQUAL''}
      then (case (finite_num left, finite_num right) of
              (Some l, Some r) \<Rightarrow> compare_numbers operator l r
            | _ \<Rightarrow> False)
      else if operator = ''CONTAINS'' then condition_contains left right caseSensitive
      else if operator = ''NOT_CONTAINS'' then \<not> condition_contains left right caseSensitive
      else
        let equals = strict_eq (normalizeComparable caseSensitive left) (normalizeComparable caseSensitive right)
        in if operator = ''NOT_EQUALS'' then \<not> equals else equals)"

definition serializeConditionValue :: "jsval \<Rightarrow> jsval" where
  "serializeConditionValue v =
     (case v of JUndef \<Rightarrow> JNull | JArr _ \<Rightarrow> json_clone v | JObj _ \<Rightarrow> json_clone v | _ \<Rightarrow> v)"

section \<open>Evaluation\<close>

text \<open>The two sides of the comparison, and where the left one came from.\<close>

definition condition_sides ::
  "(string \<Rightarrow> string) \<Rightarrow> jsval \<Rightarrow> jsval \<Rightarrow> jsval \<Rightarrow> (jsval \<times> jsval \<times> bool \<times> bool) res" where
  "condition_sides jsonError node p context =
     (let evaluationContext = getSafeObject (jget context ''conditionEvaluation'');
          leftPath = to_str (jget p ''leftPath'');
          operator = to_str (jget p ''operator'');
          fromPath = (if leftPath \<noteq> [] then getValueAtPath evaluationContext leftPath else JUndef);
          useLeftPathValue = (leftPath \<noteq> [] \<and> fromPath \<noteq> JUndef);
          hasFallbackValue = (\<not> isBlankValue (jget p ''leftValue''))
      in if leftPath \<noteq> [] \<and> \<not> useLeftPathValue \<and> \<not> hasFallbackValue
         then Inl (WorkflowServiceError
                (''Condition path '' @ leftPath @ '' was not found in the live workflow scope.'') 400
                (JObj [(''code'', JStr ''WORKFLOW_CONDITION_PATH_NOT_FOUND''),
                       (''nodeKey'', jor (jget node ''nodeKey'') JNull), (''leftPath'', JStr leftPath),
                       (''guidance'', JStr ''Use nodes.<nodeKey>.output.<customPath> for domain output or provide a left fallback value.'')]))
         else
           rbind (if useLeftPathValue then Inr fromPath
                  else parseConditionTypedValue jsonError (jget p ''leftValue'') (jget p ''leftType'')) (\<lambda>left.
           rbind (if operator \<in> set UNARY_CONDITION_OPERATORS then Inr JUndef
                  else parseConditionTypedValue jsonError (jget p ''rightValue'') (jget p ''rightType'')) (\<lambda>right.
           Inr (left, right, useLeftPathValue, hasFallbackValue))))"

definition condition_summary :: "jsval \<Rightarrow> jsval \<Rightarrow> bool \<Rightarrow> jsval \<Rightarrow> string" where
  "condition_summary node target passed onFalse =
     (let name = to_str (jor (jget node ''displayName'') (jget node ''nodeKey''))
      in ''Condition '' @ name
         @ (if truthy target
            then '' resolved '' @ (if passed then ''TRUE'' else ''FALSE'') @ ''; routing to '' @ to_str target @ ''.''
            else if passed then '' passed; continuing workflow.''
            else '' did not pass; '' @ action_phrase (to_str onFalse) @ ''.''))"

definition condition_updates :: "jsval \<Rightarrow> bool \<Rightarrow> jsval \<Rightarrow> string \<Rightarrow> string \<Rightarrow> jsval" where
  "condition_updates node passed target summary nowIso =
     (let key = normalizeContextKey
            (jors [jget node ''nodeKey'', jget node ''displayName'', JStr ''condition'']) ''condition'';
          k = (\<lambda>f. ''conditions.'' @ key @ ''.'' @ f);
          nodeKey = jor (jget node ''nodeKey'') JNull;
          status = JStr (if passed then ''PASSED'' else ''FAILED'');
          label = JStr (if passed then ''TRUE'' else ''FALSE'')
      in JObj
       [(k ''nodeKey'', nodeKey), (k ''passed'', JBool passed), (k ''status'', status),
        (k ''branchLabel'', label), (k ''branchTargetNodeKey'', target), (k ''evaluatedAt'', JStr nowIso),
        (k ''summary'', JStr summary),
        (''lastCondition.nodeKey'', nodeKey), (''lastCondition.passed'', JBool passed),
        (''lastCondition.status'', status), (''lastCondition.branchLabel'', label),
        (''lastCondition.branchTargetNodeKey'', target), (''lastCondition.summary'', JStr summary)])"

definition evaluateConditionNode ::
  "(string \<Rightarrow> string) \<Rightarrow> string \<Rightarrow> jsval \<Rightarrow> jsval \<Rightarrow> jsval \<Rightarrow> jsval res" where
  "evaluateConditionNode jsonError nowIso node parameters context =
     rbind (normalizeConditionParameters parameters) (\<lambda>p.
     rbind (condition_sides jsonError node p context) (\<lambda>(left, right, useLeftPathValue, hasFallbackValue).
       let leftPath = jget p ''leftPath'';
           caseSensitive = (jget p ''caseSensitive'' = JBool True);
           passed = compareConditionValues left right (to_str (jget p ''operator'')) caseSensitive;
           target = jor (if passed then jget p ''trueTargetNodeKey'' else jget p ''falseTargetNodeKey'') JNull;
           label = (if passed then ''TRUE'' else ''FALSE'');
           summary = condition_summary node target passed (jget p ''onFalse'')
       in Inr (JObj
         [(''kind'', JStr ''condition_evaluation''),
          (''status'', JStr (if passed then ''PASSED'' else ''FAILED'')), (''passed'', JBool passed),
          (''route'', JStr label), (''reason'', JStr summary), (''operator'', jget p ''operator''),
          (''leftPath'', jor leftPath JNull), (''leftPathResolved'', JBool useLeftPathValue),
          (''leftPathUsedFallback'', JBool (truthy leftPath \<and> \<not> useLeftPathValue \<and> hasFallbackValue)),
          (''leftValue'', serializeConditionValue left), (''leftExists'', JBool (\<not> is_nullish left)),
          (''rightValue'', serializeConditionValue right), (''rightType'', jget p ''rightType''),
          (''caseSensitive'', jget p ''caseSensitive''), (''onFalse'', jget p ''onFalse''),
          (''trueTargetNodeKey'', jor (jget p ''trueTargetNodeKey'') JNull),
          (''falseTargetNodeKey'', jor (jget p ''falseTargetNodeKey'') JNull),
          (''branchTargetNodeKey'', target), (''branchLabel'', JStr label),
          (''branchTaken'', JBool (truthy target)), (''summary'', JStr summary),
          (''contextUpdates'', condition_updates node passed target summary nowIso)])))"

text \<open>The service's own resolution of a branch; the executor has a second one that throws the
  failures of Temporal.\<close>

definition resolveConditionBranchIndex_api :: "jsval \<Rightarrow> nat \<Rightarrow> execution_plan \<Rightarrow> nat option res" where
  "resolveConditionBranchIndex_api out currentIndex plan =
     (let key = getConditionBranchTargetKeyFromOutput out
      in if key = [] then Inr None
         else case map_of (nodeIndexByKey plan) key of
                None \<Rightarrow> Inl (WorkflowServiceError
                  ''Condition branch target was not found in the workflow graph.'' 500
                  (JObj [(''branchTargetNodeKey'', JStr key), (''output'', out)]))
              | Some targetIndex \<Rightarrow>
                  if targetIndex \<le> currentIndex
                  then Inl (WorkflowServiceError
                    ''Condition branch target must point to a later node in the sequential lane.'' 500
                    (JObj [(''branchTargetNodeKey'', JStr key), (''currentIndex'', jnat currentIndex),
                           (''targetIndex'', jnat targetIndex)]))
                  else Inr (Some targetIndex))"

section \<open>Lemmas\<close>

lemma normalizeConditionOnFalse_range: "normalizeConditionOnFalse v = Inr a \<Longrightarrow> a \<in> set on_false_actions"
  by (auto simp: normalizeConditionOnFalse_def Let_def split: if_splits)

lemma on_false_kept: "a \<in> set on_false_actions \<Longrightarrow> normalizeConditionOnFalseAction (JStr a) = a"
proof -
  have "normalizeConditionOnFalseAction (JStr ''STOP_SUCCESS'') = ''STOP_SUCCESS''"
    "normalizeConditionOnFalseAction (JStr ''FAIL_WORKFLOW'') = ''FAIL_WORKFLOW''"
    "normalizeConditionOnFalseAction (JStr ''CONTINUE'') = ''CONTINUE''"
    by code_simp+
  then show "a \<in> set on_false_actions \<Longrightarrow> normalizeConditionOnFalseAction (JStr a) = a"
    by (auto simp: on_false_actions_def)
qed

text \<open>What the normalized parameters hold.\<close>

lemma condition_parameters:
  assumes "normalizeConditionParameters ps = Inr p"
  shows "\<exists>a tt ft. jget p ''onFalse'' = JStr a \<and> a \<in> set on_false_actions
     \<and> jget p ''trueTargetNodeKey'' = JStr tt \<and> trim tt = tt \<and> jget p ''falseTargetNodeKey'' = JStr ft \<and> trim ft = ft"
  using assms unfolding normalizeConditionParameters_def Let_def
  by (simp only: rbind_Inr_iff split: if_splits)
    (auto simp: jget_obj_with normalizeConditionBranchTargetNodeKey_def
      dest: normalizeConditionOnFalse_range simp del: jors.simps)

text \<open>The target the outcome selects, read from the normalized parameters.\<close>

definition selected_target :: "jsval \<Rightarrow> bool \<Rightarrow> string" where
  "selected_target p passed = to_str (if passed then jget p ''trueTargetNodeKey'' else jget p ''falseTargetNodeKey'')"

lemma evaluated_output:
  assumes "evaluateConditionNode jsonError nowIso node ps context = Inr out"
  shows "\<exists>p passed. normalizeConditionParameters ps = Inr p \<and> jget out ''passed'' = JBool passed
     \<and> jget out ''onFalse'' = jget p ''onFalse''
     \<and> jget out ''branchTargetNodeKey'' = jor (if passed then jget p ''trueTargetNodeKey'' else jget p ''falseTargetNodeKey'') JNull
     \<and> jget out ''nextNodeKey'' = JUndef \<and> jget out ''targetNodeKey'' = JUndef"
proof -
  from assms obtain p sides where
    p: "normalizeConditionParameters ps = Inr p"
    and y: "condition_sides jsonError node p context = Inr sides"
    unfolding evaluateConditionNode_def rbind_Inr_iff by blast
  obtain left right use fb where "sides = (left, right, use, fb)" by (cases sides)
  with y have sides: "condition_sides jsonError node p context = Inr (left, right, use, fb)" by simp
  note o = assms [unfolded evaluateConditionNode_def p sides rbind.simps prod.case Let_def sum.inject, symmetric]
  show ?thesis
    by (intro exI [of _ p] exI conjI p) (simp_all add: o del: jors.simps)
qed

lemma evaluation_succeeds:
  assumes "normalizeConditionParameters ps = Inr p" "condition_sides jsonError node p context = Inr sides"
  shows "\<exists>out. evaluateConditionNode jsonError nowIso node ps context = Inr out"
  unfolding evaluateConditionNode_def assms rbind.simps Let_def by (cases sides) simp

text \<open>Whatever a condition node evaluates to, the executor reads the outcome the
  service meant: the branch it looks up is the target configured for the outcome, and the action on a
  failed condition is the configured one, among the three it knows.\<close>

theorem condition_output_understood:
  assumes "evaluateConditionNode jsonError nowIso node ps context = Inr out"
  shows "\<exists>p passed. normalizeConditionParameters ps = Inr p \<and> jget out ''passed'' = JBool passed
     \<and> getConditionBranchTargetKeyFromOutput out = selected_target p passed
     \<and> jget p ''onFalse'' = JStr (normalizeConditionOnFalseAction (jget out ''onFalse''))
     \<and> normalizeConditionOnFalseAction (jget out ''onFalse'') \<in> {''STOP_SUCCESS'', ''FAIL_WORKFLOW'', ''CONTINUE''}"
proof -
  from evaluated_output [OF assms] obtain p passed where
    p: "normalizeConditionParameters ps = Inr p" and o: "jget out ''passed'' = JBool passed"
      "jget out ''onFalse'' = jget p ''onFalse''"
      "jget out ''branchTargetNodeKey'' = jor (if passed then jget p ''trueTargetNodeKey'' else jget p ''falseTargetNodeKey'') JNull"
      "jget out ''nextNodeKey'' = JUndef" "jget out ''targetNodeKey'' = JUndef"
    by auto
  from condition_parameters [OF p] obtain a tt ft where
    a: "jget p ''onFalse'' = JStr a" "a \<in> set on_false_actions"
    and t: "jget p ''trueTargetNodeKey'' = JStr tt" "trim tt = tt" "jget p ''falseTargetNodeKey'' = JStr ft" "trim ft = ft"
    by auto
  have "getConditionBranchTargetKeyFromOutput out = selected_target p passed"
    unfolding getConditionBranchTargetKeyFromOutput_def normalizeConditionBranchTargetNodeKey_def selected_target_def o
    using t by (cases passed) (auto simp: jor_def)
  with p o(1,2) a on_false_kept [OF a(2)] show ?thesis
    by (auto simp: on_false_actions_def)
qed


theorem condition_output_understood_witness:
  "\<exists>out p passed. normalizeConditionParameters (JObj [(''leftValue'', JStr ''no''), (''falseTarget'', JStr '' end '')]) = Inr p
     \<and> jget out ''passed'' = JBool passed \<and> getConditionBranchTargetKeyFromOutput out = selected_target p passed
     \<and> jget p ''onFalse'' = JStr (normalizeConditionOnFalseAction (jget out ''onFalse''))
     \<and> normalizeConditionOnFalseAction (jget out ''onFalse'') \<in> {''STOP_SUCCESS'', ''FAIL_WORKFLOW'', ''CONTINUE''}"
proof -
  let ?ps = "JObj [(''leftValue'', JStr ''no''), (''falseTarget'', JStr '' end '')]"
  let ?p = "JObj [(''leftValue'', JStr ''no''), (''falseTarget'', JStr '' end ''), (''leftPath'', JStr []),
     (''leftType'', JStr ''AUTO''), (''operator'', JStr ''TRUTHY''), (''rightValue'', JUndef),
     (''rightType'', JStr ''AUTO''), (''caseSensitive'', JBool False), (''onFalse'', JStr ''STOP_SUCCESS''),
     (''trueTargetNodeKey'', JStr []), (''falseTargetNodeKey'', JStr ''end'')]"
  have p: "normalizeConditionParameters ?ps = Inr ?p"
    by code_simp
  have sides: "condition_sides (\<lambda>_. []) (JObj []) ?p (JObj []) = Inr (JStr ''no'', JUndef, False, True)"
    by code_simp
  have "\<exists>out. evaluateConditionNode (\<lambda>_. []) [] (JObj []) ?ps (JObj []) = Inr out"
    by (rule evaluation_succeeds [OF p sides])
  then obtain out where "evaluateConditionNode (\<lambda>_. []) [] (JObj []) ?ps (JObj []) = Inr out" ..
  from condition_output_understood [OF this] show ?thesis by (rule exI [of _ out])
qed

text \<open>A condition over a path that the workflow scope does not have, with no fallback
  literal, is an error with its own code; it never counts as a condition that did not pass.\<close>

theorem missing_path_is_error:
  assumes "normalizeConditionParameters ps = Inr p"
    and "jget p ''leftPath'' = JStr path" "path \<noteq> []"
    and "getValueAtPath (getSafeObject (jget context ''conditionEvaluation'')) path = JUndef"
    and "isBlankValue (jget p ''leftValue'')"
  shows "\<exists>e. evaluateConditionNode jsonError nowIso node ps context = Inl e
     \<and> jget (jget e ''details'') ''code'' = JStr ''WORKFLOW_CONDITION_PATH_NOT_FOUND''"
  using assms by (simp add: evaluateConditionNode_def condition_sides_def Let_def WorkflowServiceError_def)

theorem missing_path_is_error_witness:
  "\<exists>e. evaluateConditionNode (\<lambda>_. []) [] (JObj []) (JObj [(''path'', JStr ''nodes.a'')]) (JObj []) = Inl e
     \<and> jget (jget e ''details'') ''code'' = JStr ''WORKFLOW_CONDITION_PATH_NOT_FOUND''"
proof -
  let ?ps = "JObj [(''path'', JStr ''nodes.a'')]"
  let ?p = "JObj [(''path'', JStr ''nodes.a''), (''leftPath'', JStr ''nodes.a''), (''leftValue'', JUndef),
     (''leftType'', JStr ''AUTO''), (''operator'', JStr ''TRUTHY''), (''rightValue'', JUndef),
     (''rightType'', JStr ''AUTO''), (''caseSensitive'', JBool False), (''onFalse'', JStr ''STOP_SUCCESS''),
     (''trueTargetNodeKey'', JStr []), (''falseTargetNodeKey'', JStr [])]"
  have "normalizeConditionParameters ?ps = Inr ?p" "jget ?p ''leftPath'' = JStr ''nodes.a''" "''nodes.a'' \<noteq> []"
    "getValueAtPath (getSafeObject (jget (JObj []) ''conditionEvaluation'')) ''nodes.a'' = JUndef"
    "isBlankValue (jget ?p ''leftValue'')"
    by code_simp+
  from missing_path_is_error [OF this] show ?thesis .
qed

text \<open>The two copies of the branch resolution, in the API service and in the
  Temporal workflow, find the same target or both fail.\<close>

theorem branch_resolutions_agree:
  "result_of (resolveConditionBranchIndex_api out i plan) = result_of (resolveConditionBranchIndex out i plan)"
  by (simp add: resolveConditionBranchIndex_api_def resolveConditionBranchIndex_def result_of_def Let_def
      split: option.splits)

end
