(* ===== verification/JsonSchema.thy ===== *)
theory JsonSchema
  imports JsPrelude
begin

text \<open>
  The JSON Schema validator of \<open>packages/tools/src/jsonSchemaValidator.js\<close>.  The error array the
  source pushes to is the returned list, in the same order; a thrown error is the \<open>Inl\<close> of a result.
  References may loop, and the source then overflows the stack: \<open>validateNode\<close> has the number of
  frames as its first argument and throws a RangeError when they are used up.  Without references
  the depth of the schema is enough (\<open>validator_refines_specification\<close>).  What the host decides - dates, URLs and
  compiled patterns - is a parameter.
\<close>

record host =
  date_ok :: "string \<Rightarrow> bool"
  url_ok :: "string \<Rightarrow> bool"
  compile_regex :: "string \<Rightarrow> string + (string \<Rightarrow> bool)"

definition JsonSchemaValidationError :: "string \<Rightarrow> jsval list \<Rightarrow> jsval" where
  "JsonSchemaValidationError message errors = JObj
     [(''name'', JStr ''JsonSchemaValidationError''), (''message'', JStr message),
      (''code'', JStr ''JSON_SCHEMA_VALIDATION_FAILED''), (''errors'', JArr errors)]"

definition stack_overflow :: jsval where
  "stack_overflow = JObj [(''name'', JStr ''RangeError''), (''message'', JStr ''Maximum call stack size exceeded'')]"

definition isPlainObject :: "jsval \<Rightarrow> bool" where
  "isPlainObject v = is_obj v"

section \<open>References\<close>

text \<open>\<open>replace(/~d/g, r)\<close>.\<close>

fun replace_tilde :: "char \<Rightarrow> char \<Rightarrow> string \<Rightarrow> string" where
  "replace_tilde d r (a # b # cs) =
     (if a = CHR ''~'' \<and> b = d then r # replace_tilde d r cs else a # replace_tilde d r (b # cs))"
| "replace_tilde d r cs = cs"

definition decodeJsonPointerToken :: "string \<Rightarrow> string" where
  "decodeJsonPointerToken token =
     replace_tilde (CHR ''0'') (CHR ''~'') (replace_tilde (CHR ''1'') (CHR ''/'') token)"

text \<open>The own property a token names: a member, an array index in canonical form, the array's length.\<close>

definition own_property :: "jsval \<Rightarrow> string \<Rightarrow> jsval option" where
  "own_property v token =
     (case v of
        JObj kvs \<Rightarrow> map_of kvs token
      | JArr vs \<Rightarrow>
          if token = ''length'' then Some (jnat (length vs))
          else if token \<noteq> [] \<and> list_all is_digit token \<and> nat_str (digits_val token) = token
                  \<and> digits_val token < length vs
          then Some (vs ! digits_val token) else None
      | _ \<Rightarrow> None)"

definition reference_error :: "string \<Rightarrow> string \<Rightarrow> jsval" where
  "reference_error message detail = JsonSchemaValidationError message
     [JObj [(''path'', JStr ''$schema''), (''keyword'', JStr ''$ref''), (''message'', JStr detail)]]"

fun follow_tokens :: "string \<Rightarrow> jsval \<Rightarrow> string list \<Rightarrow> jsval res" where
  "follow_tokens reference current [] = Inr current"
| "follow_tokens reference current (token # tokens) =
     (case own_property current token of
        Some next \<Rightarrow> follow_tokens reference next tokens
      | None \<Rightarrow> Inl (reference_error (''JSON Schema reference could not be resolved: '' @ reference)
                  (''Unresolved reference '' @ reference)))"

definition resolveLocalReference :: "jsval \<Rightarrow> jsval \<Rightarrow> jsval res" where
  "resolveLocalReference rootSchema reference =
     (if strict_eq reference (JStr ''#'') then Inr rootSchema
      else if take 2 (to_str (jor reference (JStr []))) \<noteq> ''#/''
      then Inl (reference_error (''Only local JSON Schema references are supported: '' @ to_str reference)
             (''Unsupported reference '' @ to_str reference))
      else case reference of
             JStr s \<Rightarrow> follow_tokens s rootSchema (map decodeJsonPointerToken (split_on (CHR ''/'') (drop 2 s)))
           | _ \<Rightarrow> Inl (JObj [(''name'', JStr ''TypeError''),
                             (''message'', JStr ''reference.slice(...).split is not a function'')]))"

section \<open>Types, paths, formats\<close>

definition is_int_num :: "jsval \<Rightarrow> bool" where
  "is_int_num v = (case v of JNum (Fin r) \<Rightarrow> r = of_int \<lfloor>r\<rfloor> | _ \<Rightarrow> False)"

definition is_finite_num :: "jsval \<Rightarrow> bool" where
  "is_finite_num v = (case v of JNum n \<Rightarrow> is_finite n | _ \<Rightarrow> False)"

definition getJsonType :: "jsval \<Rightarrow> string" where
  "getJsonType v =
     (if v = JNull then ''null''
      else if is_arr v then ''array''
      else if is_int_num v then ''integer''
      else jtypeof v)"

definition matchesType :: "jsval \<Rightarrow> jsval \<Rightarrow> bool" where
  "matchesType v expectedType =
     (if strict_eq expectedType (JStr ''number'') then is_finite_num v
      else if strict_eq expectedType (JStr ''integer'') then is_int_num v
      else if strict_eq expectedType (JStr ''object'') then isPlainObject v
      else if strict_eq expectedType (JStr ''array'') then is_arr v
      else if strict_eq expectedType (JStr ''null'') then v = JNull
      else strict_eq (JStr (jtypeof v)) expectedType)"

definition joinPath :: "string \<Rightarrow> string \<Rightarrow> string" where
  "joinPath basePath token =
     (if token \<noteq> [] \<and> list_all is_digit token then basePath @ ''['' @ token @ '']''
      else basePath @ ''.'' @ token)"

definition schema_error :: "string \<Rightarrow> string \<Rightarrow> string \<Rightarrow> (string \<times> jsval) list \<Rightarrow> jsval" where
  "schema_error path keyword message details =
     JObj (kv_spread [(''path'', JStr path), (''keyword'', JStr keyword), (''message'', JStr message)] details)"

definition date_shape :: "string \<Rightarrow> bool" where
  "date_shape s =
     (length s = 10 \<and> list_all is_digit (take 4 s) \<and> s ! 4 = CHR ''-'' \<and> list_all is_digit (take 2 (drop 5 s))
      \<and> s ! 7 = CHR ''-'' \<and> list_all is_digit (drop 8 s))"

definition validateFormat :: "host \<Rightarrow> string \<Rightarrow> jsval \<Rightarrow> bool" where
  "validateFormat H s format =
     (if strict_eq format (JStr ''date'') then date_shape s \<and> date_ok H (s @ ''T00:00:00Z'')
      else if strict_eq format (JStr ''date-time'') then date_ok H s
      else if strict_eq format (JStr ''uri'') then url_ok H s
      else True)"

definition valuesEqual :: "jsval \<Rightarrow> jsval \<Rightarrow> bool" where
  "valuesEqual left right = (json left = json right)"

definition json_or_undefined :: "jsval \<Rightarrow> string" where
  "json_or_undefined v = (case json v of Some s \<Rightarrow> s | None \<Rightarrow> ''undefined'')"

section \<open>Keywords\<close>

text \<open>The keywords that look at the value alone.  \<open>unless b e\<close> reports \<open>e\<close> when \<open>b\<close> fails.\<close>

definition unless :: "bool \<Rightarrow> jsval \<Rightarrow> jsval list" where
  "unless ok e = (if ok then [] else [e])"

definition int_limit :: "jsval \<Rightarrow> rat option" where
  "int_limit v = (case v of JNum (Fin r) \<Rightarrow> if r = of_int \<lfloor>r\<rfloor> then Some r else None | _ \<Rightarrow> None)"

definition at_least :: "jsval \<Rightarrow> nat \<Rightarrow> bool" where
  "at_least limit n = (case int_limit limit of Some r \<Rightarrow> r \<le> of_nat n | None \<Rightarrow> True)"

definition at_most :: "jsval \<Rightarrow> nat \<Rightarrow> bool" where
  "at_most limit n = (case int_limit limit of Some r \<Rightarrow> of_nat n \<le> r | None \<Rightarrow> True)"

definition const_errors :: "string \<Rightarrow> jsval \<Rightarrow> jsval \<Rightarrow> jsval list" where
  "const_errors path v schema =
     unless (\<not> has_own schema ''const'' \<or> valuesEqual v (jget schema ''const''))
       (schema_error path ''const'' (''Value must equal '' @ json_or_undefined (jget schema ''const'') @ ''.'') [])"

definition enum_errors :: "string \<Rightarrow> jsval \<Rightarrow> jsval \<Rightarrow> jsval list" where
  "enum_errors path v schema =
     unless (\<not> is_arr (jget schema ''enum'') \<or> list_ex (valuesEqual v) (arr_items (jget schema ''enum'')))
       (schema_error path ''enum'' (''Value must be one of: ''
          @ join '', '' (map (\<lambda>x. case json x of Some s \<Rightarrow> s | None \<Rightarrow> []) (arr_items (jget schema ''enum''))) @ ''.'') [])"

definition expected_types :: "jsval \<Rightarrow> jsval list" where
  "expected_types schema =
     (if is_arr (jget schema ''type'') then arr_items (jget schema ''type'') else [jget schema ''type''])"

definition type_ok :: "jsval \<Rightarrow> jsval \<Rightarrow> bool" where
  "type_ok v schema = (jget schema ''type'' = JUndef \<or> list_ex (matchesType v) (expected_types schema))"

definition type_mismatch :: "string \<Rightarrow> jsval \<Rightarrow> jsval \<Rightarrow> jsval" where
  "type_mismatch path v schema =
     (let types = expected_types schema
      in schema_error path ''type''
           (''Expected '' @ join '' or '' (map (\<lambda>t. if is_nullish t then [] else to_str t) types)
            @ '', received '' @ getJsonType v @ ''.'')
           [(''expectedTypes'', JArr types), (''actualType'', JStr (getJsonType v))])"

definition string_errors :: "host \<Rightarrow> string \<Rightarrow> jsval \<Rightarrow> jsval \<Rightarrow> jsval list" where
  "string_errors H path v schema =
     (case v of
        JStr s \<Rightarrow>
          unless (at_least (jget schema ''minLength'') (length s))
            (schema_error path ''minLength'' (''String must contain at least ''
               @ to_str (jget schema ''minLength'') @ '' characters.'') [])
          @ unless (at_most (jget schema ''maxLength'') (length s))
            (schema_error path ''maxLength'' (''String must contain no more than ''
               @ to_str (jget schema ''maxLength'') @ '' characters.'') [])
          @ (if truthy (jget schema ''pattern'')
             then (case compile_regex H (to_str (jget schema ''pattern'')) of
                     Inl message \<Rightarrow> [schema_error path ''pattern''
                       (''Schema contains an invalid regular expression: '' @ message) []]
                   | Inr matches \<Rightarrow> unless (matches s) (schema_error path ''pattern''
                       (''String does not match pattern '' @ to_str (jget schema ''pattern'') @ ''.'') []))
             else [])
          @ unless (\<not> truthy (jget schema ''format'') \<or> validateFormat H s (jget schema ''format''))
              (schema_error path ''format'' (''String is not a valid '' @ to_str (jget schema ''format'') @ ''.'') [])
      | _ \<Rightarrow> [])"

definition num_below :: "jsnum \<Rightarrow> rat \<Rightarrow> bool \<Rightarrow> bool" where
  "num_below limit r strict =
     (case limit of Fin m \<Rightarrow> (if strict then m < r else m \<le> r) | NegInf \<Rightarrow> True | PosInf \<Rightarrow> False | NaN \<Rightarrow> True)"

definition num_above :: "jsnum \<Rightarrow> rat \<Rightarrow> bool \<Rightarrow> bool" where
  "num_above limit r strict =
     (case limit of Fin m \<Rightarrow> (if strict then r < m else r \<le> m) | PosInf \<Rightarrow> True | NegInf \<Rightarrow> False | NaN \<Rightarrow> True)"

definition bound_error :: "string \<Rightarrow> jsval \<Rightarrow> string \<Rightarrow> string \<Rightarrow> (jsnum \<Rightarrow> bool) \<Rightarrow> jsval list" where
  "bound_error path schema keyword phrase ok =
     (case jget schema keyword of
        JNum limit \<Rightarrow> unless (ok limit)
          (schema_error path keyword (''Number must be '' @ phrase @ '' '' @ num_str limit @ ''.'') [])
      | _ \<Rightarrow> [])"

definition number_errors :: "string \<Rightarrow> jsval \<Rightarrow> jsval \<Rightarrow> jsval list" where
  "number_errors path v schema =
     (case v of
        JNum (Fin r) \<Rightarrow>
          bound_error path schema ''minimum'' ''greater than or equal to'' (\<lambda>m. num_below m r False)
          @ bound_error path schema ''maximum'' ''less than or equal to'' (\<lambda>m. num_above m r False)
          @ bound_error path schema ''exclusiveMinimum'' ''greater than'' (\<lambda>m. num_below m r True)
          @ bound_error path schema ''exclusiveMaximum'' ''less than'' (\<lambda>m. num_above m r True)
      | _ \<Rightarrow> [])"

definition array_errors :: "string \<Rightarrow> jsval \<Rightarrow> jsval \<Rightarrow> jsval list" where
  "array_errors path v schema =
     (case v of
        JArr vs \<Rightarrow>
          unless (at_least (jget schema ''minItems'') (length vs))
            (schema_error path ''minItems'' (''Array must contain at least ''
               @ to_str (jget schema ''minItems'') @ '' item(s).'') [])
          @ unless (at_most (jget schema ''maxItems'') (length vs))
            (schema_error path ''maxItems'' (''Array must contain no more than ''
               @ to_str (jget schema ''maxItems'') @ '' item(s).'') [])
          @ unless (\<not> truthy (jget schema ''uniqueItems'') \<or> distinct (map json vs))
            (schema_error path ''uniqueItems'' ''Array items must be unique.'' [])
      | _ \<Rightarrow> [])"

definition required_errors :: "string \<Rightarrow> jsval \<Rightarrow> jsval \<Rightarrow> jsval list" where
  "required_errors path v schema =
     concat (map (\<lambda>p. unless (has_own v (to_str p))
                        (schema_error (joinPath path (to_str p)) ''required'' ''Required property is missing.'' []))
       (if is_arr (jget schema ''required'') then arr_items (jget schema ''required'') else []))"

definition size_errors :: "string \<Rightarrow> jsval \<Rightarrow> jsval \<Rightarrow> jsval list" where
  "size_errors path v schema =
     unless (at_least (jget schema ''minProperties'') (length (obj_kvs v)))
       (schema_error path ''minProperties'' (''Object must contain at least ''
          @ to_str (jget schema ''minProperties'') @ '' properties.'') [])
     @ unless (at_most (jget schema ''maxProperties'') (length (obj_kvs v)))
       (schema_error path ''maxProperties'' (''Object must contain no more than ''
          @ to_str (jget schema ''maxProperties'') @ '' properties.'') [])"

section \<open>Validation\<close>

text \<open>Errors of several parts in order; the first thrown error ends the sequence.\<close>

fun rconcat :: "'a list res list \<Rightarrow> 'a list res" where
  "rconcat [] = Inr []"
| "rconcat (r # rs) = rbind r (\<lambda>xs. rbind (rconcat rs) (\<lambda>ys. Inr (xs @ ys)))"

fun rsome :: "('a \<Rightarrow> bool res) \<Rightarrow> 'a list \<Rightarrow> bool res" where
  "rsome f [] = Inr False"
| "rsome f (x # xs) = rbind (f x) (\<lambda>b. if b then Inr True else rsome f xs)"

type_synonym validator = "jsval \<Rightarrow> jsval \<Rightarrow> string \<Rightarrow> jsval list res"

definition branch_ok :: "validator \<Rightarrow> jsval \<Rightarrow> string \<Rightarrow> jsval \<Rightarrow> bool res" where
  "branch_ok rec v path s = rbind (rec v s path) (\<lambda>es. Inr (es = []))"

definition all_of :: "validator \<Rightarrow> jsval \<Rightarrow> jsval \<Rightarrow> string \<Rightarrow> jsval list res" where
  "all_of rec v schema path = rconcat (map (\<lambda>s. rec v s path) (arr_items (jget schema ''allOf'')))"

definition any_of :: "validator \<Rightarrow> jsval \<Rightarrow> jsval \<Rightarrow> string \<Rightarrow> jsval list res" where
  "any_of rec v schema path =
     (if is_arr (jget schema ''anyOf'')
      then rbind (rsome (branch_ok rec v path) (arr_items (jget schema ''anyOf'')))
             (\<lambda>ok. Inr (unless ok (schema_error path ''anyOf'' ''Value does not match any allowed schema branch.'' [])))
      else Inr [])"

definition one_of :: "validator \<Rightarrow> jsval \<Rightarrow> jsval \<Rightarrow> string \<Rightarrow> jsval list res" where
  "one_of rec v schema path =
     (if is_arr (jget schema ''oneOf'')
      then rbind (rmap (branch_ok rec v path) (arr_items (jget schema ''oneOf''))) (\<lambda>oks.
             let matching = length (filter (\<lambda>b. b) oks)
             in Inr (unless (matching = 1) (schema_error path ''oneOf''
                  (''Value must match exactly one schema branch; matched '' @ nat_str matching @ ''.'') [])))
      else Inr [])"

definition not_schema :: "validator \<Rightarrow> jsval \<Rightarrow> jsval \<Rightarrow> string \<Rightarrow> jsval list res" where
  "not_schema rec v schema path =
     (if truthy (jget schema ''not'')
      then rbind (branch_ok rec v path (jget schema ''not''))
             (\<lambda>ok. Inr (unless (\<not> ok) (schema_error path ''not'' ''Value matches a disallowed schema.'' [])))
      else Inr [])"

definition item_errors :: "validator \<Rightarrow> jsval \<Rightarrow> jsval \<Rightarrow> string \<Rightarrow> jsval list res" where
  "item_errors rec v schema path =
     (if truthy (jget schema ''items'')
      then rconcat (map (\<lambda>(i, item). rec item (jget schema ''items'') (joinPath path (nat_str i)))
                      (zip [0..<length (arr_items v)] (arr_items v)))
      else Inr [])"

definition schema_properties :: "jsval \<Rightarrow> (string \<times> jsval) list" where
  "schema_properties schema =
     (if isPlainObject (jget schema ''properties'') then obj_kvs (jget schema ''properties'') else [])"

definition property_errors :: "validator \<Rightarrow> jsval \<Rightarrow> jsval \<Rightarrow> string \<Rightarrow> jsval list res" where
  "property_errors rec v schema path =
     rconcat (map (\<lambda>(p, s). if has_own v p then rec (jget v p) s (joinPath path p) else Inr [])
                (schema_properties schema))"

definition additional_errors :: "validator \<Rightarrow> jsval \<Rightarrow> jsval \<Rightarrow> string \<Rightarrow> jsval list res" where
  "additional_errors rec v schema path =
     (let additional = jget schema ''additionalProperties''
      in rconcat (map (\<lambda>(p, x).
           if map_of (schema_properties schema) p \<noteq> None then Inr []
           else if strict_eq additional (JBool False)
           then Inr [schema_error (joinPath path p) ''additionalProperties'' ''Additional property is not allowed.'' []]
           else if isPlainObject additional \<or> jtypeof additional = ''boolean''
           then rec x additional (joinPath path p)
           else Inr []) (obj_kvs v)))"

definition object_errors :: "validator \<Rightarrow> jsval \<Rightarrow> jsval \<Rightarrow> string \<Rightarrow> jsval list res" where
  "object_errors rec v schema path =
     (if isPlainObject v
      then rconcat [Inr (required_errors path v schema), property_errors rec v schema path,
                    additional_errors rec v schema path, Inr (size_errors path v schema)]
      else Inr [])"

text \<open>The body of \<open>validateNode\<close>, with its recursive calls as the argument \<open>rec\<close>.\<close>

definition validate_body :: "host \<Rightarrow> jsval \<Rightarrow> validator \<Rightarrow> jsval \<Rightarrow> jsval \<Rightarrow> string \<Rightarrow> jsval list res" where
  "validate_body H rootSchema rec v schema path =
     (if schema = JBool True \<or> schema = JUndef then Inr []
      else if schema = JBool False
      then Inr [schema_error path ''falseSchema'' ''Value is not permitted by this schema.'' []]
      else if \<not> isPlainObject schema
      then Inr [schema_error path ''schema'' ''Schema node must be an object or boolean.'' []]
      else if truthy (jget schema ''$ref'')
      then rbind (resolveLocalReference rootSchema (jget schema ''$ref'')) (\<lambda>s. rec v s path)
      else
        rconcat
          ([all_of rec v schema path, any_of rec v schema path, one_of rec v schema path,
            not_schema rec v schema path, Inr (const_errors path v schema @ enum_errors path v schema)]
           @ (if type_ok v schema
              then [Inr (string_errors H path v schema @ number_errors path v schema @ array_errors path v schema),
                    item_errors rec v schema path, object_errors rec v schema path]
              else [Inr [type_mismatch path v schema]])))"

primrec validateNode :: "host \<Rightarrow> jsval \<Rightarrow> nat \<Rightarrow> validator" where
  "validateNode H rootSchema 0 = (\<lambda>v schema path. Inl stack_overflow)"
| "validateNode H rootSchema (Suc n) = validate_body H rootSchema (validateNode H rootSchema n)"

record validation_options =
  opt_path :: string
  opt_schemaName :: string
  opt_throwOnError :: bool

definition validation_preview :: "jsval list \<Rightarrow> string" where
  "validation_preview errors =
     join ''; '' (map (\<lambda>e. to_str (jget e ''path'') @ '': '' @ to_str (jget e ''message'')) (take 5 errors))"

definition validateJsonSchema ::
  "host \<Rightarrow> nat \<Rightarrow> validation_options \<Rightarrow> jsval \<Rightarrow> jsval \<Rightarrow> jsval res" where
  "validateJsonSchema H frames options v schema =
     rbind (validateNode H schema frames v schema (if opt_path options \<noteq> [] then opt_path options else ''$''))
       (\<lambda>errors.
         if errors \<noteq> [] \<and> opt_throwOnError options
         then Inl (JsonSchemaValidationError
                (''Value failed JSON Schema''
                 @ (if opt_schemaName options \<noteq> [] then '' '' @ opt_schemaName options else [])
                 @ '' validation: '' @ validation_preview errors) errors)
         else Inr (JObj [(''valid'', JBool (errors = [])), (''errors'', JArr errors)]))"

section \<open>The specification\<close>

text \<open>The depth of a value, and values in which no object has a reference.\<close>

fun jdepth :: "jsval \<Rightarrow> nat" where
  "jdepth (JArr vs) = Suc (foldr max (map jdepth vs) 0)"
| "jdepth (JObj kvs) = Suc (foldr max (map (\<lambda>(k, v). jdepth v) kvs) 0)"
| "jdepth _ = 0"

fun ref_free :: "jsval \<Rightarrow> bool" where
  "ref_free (JArr vs) = (\<forall>v \<in> set vs. ref_free v)"
| "ref_free (JObj kvs) = (\<not> truthy (kv_get kvs ''$ref'') \<and> (\<forall>(k, v) \<in> set kvs. ref_free v))"
| "ref_free _ = True"

lemma foldr_max_ge: "x \<in> set xs \<Longrightarrow> x \<le> foldr max xs (0 :: nat)"
  by (induction xs) (auto simp: max_def)

lemma jdepth_item: "v \<in> set vs \<Longrightarrow> jdepth v < jdepth (JArr vs)"
  using foldr_max_ge [of "jdepth v" "map jdepth vs"] by simp

lemma jdepth_get: "jdepth (kv_get kvs k) < jdepth (JObj kvs)"
proof (cases "map_of kvs k")
  case (Some v)
  then have "(k, v) \<in> set kvs" by (rule map_of_SomeD)
  then have "jdepth v \<in> set (map (\<lambda>(k, v). jdepth v) kvs)" by force
  with Some foldr_max_ge show ?thesis by (fastforce simp: kv_get_def)
qed (simp add: kv_get_def)

lemma jdepth_items: "t \<in> set (arr_items v) \<Longrightarrow> jdepth t < jdepth v"
  by (cases v) (auto dest: jdepth_item)

lemma jdepth_member: "(k, v) \<in> set (obj_kvs x) \<Longrightarrow> jdepth v < jdepth x"
proof (cases x)
  case (JObj kvs)
  assume "(k, v) \<in> set (obj_kvs x)"
  with JObj have "jdepth v \<in> set (map (\<lambda>(k, v). jdepth v) kvs)" by force
  with JObj foldr_max_ge show ?thesis by (fastforce simp: less_Suc_eq_le)
qed auto

lemma jdepth_jget: "is_obj s \<Longrightarrow> jdepth (jget s k) < jdepth s"
  by (cases s) (auto simp del: jdepth.simps intro: jdepth_get)

definition leaf_ok :: "host \<Rightarrow> jsval \<Rightarrow> jsval \<Rightarrow> bool" where
  "leaf_ok H v s =
     (const_errors [] v s = [] \<and> enum_errors [] v s = [] \<and> type_ok v s \<and> string_errors H [] v s = []
      \<and> number_errors [] v s = [] \<and> array_errors [] v s = []
      \<and> (is_obj v \<longrightarrow> required_errors [] v s = [] \<and> size_errors [] v s = []))"

text \<open>What it means for a value to conform to a schema without references: no paths, no messages, no
  order of evaluation.\<close>

function conforms :: "host \<Rightarrow> jsval \<Rightarrow> jsval \<Rightarrow> bool" where
  "conforms H v (JObj kvs) =
     (leaf_ok H v (JObj kvs)
      \<and> (\<forall>t \<in> set (arr_items (kv_get kvs ''allOf'')). conforms H v t)
      \<and> (is_arr (kv_get kvs ''anyOf'') \<longrightarrow> (\<exists>t \<in> set (arr_items (kv_get kvs ''anyOf'')). conforms H v t))
      \<and> (is_arr (kv_get kvs ''oneOf'') \<longrightarrow>
           length (filter (\<lambda>t. conforms H v t) (arr_items (kv_get kvs ''oneOf''))) = 1)
      \<and> (truthy (kv_get kvs ''not'') \<longrightarrow> \<not> conforms H v (kv_get kvs ''not''))
      \<and> (truthy (kv_get kvs ''items'') \<longrightarrow> (\<forall>x \<in> set (arr_items v). conforms H x (kv_get kvs ''items'')))
      \<and> (\<forall>(p, t) \<in> set (obj_kvs (kv_get kvs ''properties'')).
           has_own v p \<longrightarrow> conforms H (jget v p) t)
      \<and> (\<forall>(p, x) \<in> set (obj_kvs v).
           p \<notin> fst ` set (obj_kvs (kv_get kvs ''properties'')) \<longrightarrow>
           is_obj (kv_get kvs ''additionalProperties'') \<or> jtypeof (kv_get kvs ''additionalProperties'') = ''boolean'' \<longrightarrow>
           conforms H x (kv_get kvs ''additionalProperties'')))"
| "conforms H v (JBool b) = b"
| "conforms H v JUndef = True"
| "conforms H v JNull = False"
| "conforms H v (JNum n) = False"
| "conforms H v (JStr s) = False"
| "conforms H v (JArr vs) = False"
  by pat_completeness auto
termination
  by (relation "measure (\<lambda>(H, v, s). jdepth s)")
    (auto simp del: jdepth.simps dest!: jdepth_items jdepth_member intro: less_trans [OF _ jdepth_get] jdepth_get)

declare conforms.simps(1) [simp del]

text \<open>A result that holds no errors exactly when the condition holds, and never throws.\<close>

definition decides :: "jsval list res \<Rightarrow> bool \<Rightarrow> bool" where
  "decides r b = (\<exists>es. r = Inr es \<and> (es = []) = b)"

lemma decides_Inr: "decides (Inr es) (es = [])"
  by (simp add: decides_def)

lemma decides_cong: "decides r a \<Longrightarrow> a = b \<Longrightarrow> decides r b"
  by simp

lemma decides_unless: "decides (Inr (unless b e)) b"
  by (simp add: decides_def unless_def)

lemma decides_rconcat: "list_all2 decides rs bs \<Longrightarrow> decides (rconcat rs) (\<forall>b \<in> set bs. b)"
  by (induction rule: list_all2_induct) (auto simp: decides_def)

lemma decides_Nil: "decides (rconcat []) True"
  by (simp add: decides_def)

lemma decides_Cons: "decides r a \<Longrightarrow> decides (rconcat rs) b \<Longrightarrow> decides (rconcat (r # rs)) (a \<and> b)"
  by (auto simp: decides_def)

lemma decides_rconcat_map:
  "(\<And>x. x \<in> set xs \<Longrightarrow> decides (f x) (P x)) \<Longrightarrow> decides (rconcat (map f xs)) (\<forall>x \<in> set xs. P x)"
  using decides_rconcat [of "map f xs" "map P xs"] by (simp add: list_all2_map1 list_all2_map2 list.rel_refl_strong)

lemma decides_branch: "decides (rec v s path) b \<Longrightarrow> branch_ok rec v path s = Inr b"
  by (auto simp: decides_def branch_ok_def)

lemma rsome_decides: "(\<And>x. x \<in> set xs \<Longrightarrow> f x = Inr (P x)) \<Longrightarrow> rsome f xs = Inr (\<exists>x \<in> set xs. P x)"
  by (induction xs) auto

lemma rmap_decides: "(\<And>x. x \<in> set xs \<Longrightarrow> f x = Inr (P x)) \<Longrightarrow> rmap f xs = Inr (map P xs)"
  by (induction xs) auto

lemma decides_any:
  assumes "\<And>t. t \<in> set (arr_items (jget s ''anyOf'')) \<Longrightarrow> decides (rec v t path) (P t)"
  shows "decides (any_of rec v s path) (is_arr (jget s ''anyOf'') \<longrightarrow> (\<exists>t \<in> set (arr_items (jget s ''anyOf'')). P t))"
  using rsome_decides [of "arr_items (jget s ''anyOf'')" "branch_ok rec v path" P] decides_branch assms
  by (auto simp: any_of_def decides_unless decides_def unless_def)

lemma decides_one:
  assumes "\<And>t. t \<in> set (arr_items (jget s ''oneOf'')) \<Longrightarrow> decides (rec v t path) (P t)"
  shows "decides (one_of rec v s path)
    (is_arr (jget s ''oneOf'') \<longrightarrow> length (filter P (arr_items (jget s ''oneOf''))) = 1)"
proof -
  let ?ts = "arr_items (jget s ''oneOf'')"
  have "rmap (branch_ok rec v path) ?ts = Inr (map P ?ts)"
    by (rule rmap_decides) (rule decides_branch, rule assms)
  moreover have "length (filter (\<lambda>b. b) (map P ?ts)) = length (filter P ?ts)"
    by (simp add: filter_map comp_def)
  ultimately show ?thesis
    unfolding one_of_def Let_def by (simp add: decides_unless decides_Inr [of "[]", simplified])
qed

lemma decides_not:
  assumes "decides (rec v (jget s ''not'') path) P"
  shows "decides (not_schema rec v s path) (truthy (jget s ''not'') \<longrightarrow> \<not> P)"
  using decides_branch [of rec v "jget s ''not''" path P, OF assms] by (auto simp: not_schema_def decides_def unless_def)

text \<open>The errors of the simple keywords do not depend on the path for being there.\<close>

lemma unless_Nil [simp]: "unless b e = [] \<longleftrightarrow> b"
  by (simp add: unless_def)

lemma bound_error_Nil: "bound_error path s k ph ok = [] \<longleftrightarrow> (case jget s k of JNum limit \<Rightarrow> ok limit | _ \<Rightarrow> True)"
  by (simp add: bound_error_def split: jsval.split)

lemma leaf_paths:
  "const_errors path v s = [] \<longleftrightarrow> const_errors [] v s = []"
  "enum_errors path v s = [] \<longleftrightarrow> enum_errors [] v s = []"
  "number_errors path v s = [] \<longleftrightarrow> number_errors [] v s = []"
  "array_errors path v s = [] \<longleftrightarrow> array_errors [] v s = []"
  "required_errors path v s = [] \<longleftrightarrow> required_errors [] v s = []"
  "size_errors path v s = [] \<longleftrightarrow> size_errors [] v s = []"
  by (simp_all add: const_errors_def enum_errors_def number_errors_def array_errors_def
      required_errors_def size_errors_def bound_error_Nil split: jsval.split jsnum.split)

lemma string_path: "string_errors H path v s = [] \<longleftrightarrow> string_errors H [] v s = []"
  by (simp add: string_errors_def split: jsval.split sum.split)

lemma ref_free_get: "ref_free (JObj kvs) \<Longrightarrow> ref_free (kv_get kvs k)"
  by (cases "map_of kvs k") (auto simp: kv_get_def dest: map_of_SomeD)

lemma ref_free_item: "ref_free v \<Longrightarrow> t \<in> set (arr_items v) \<Longrightarrow> ref_free t"
  by (cases v) auto

lemma ref_free_member: "ref_free v \<Longrightarrow> (k, t) \<in> set (obj_kvs v) \<Longrightarrow> ref_free t"
  by (cases v) auto

definition right :: "host \<Rightarrow> nat \<Rightarrow> validator \<Rightarrow> bool" where
  "right H n rec = (\<forall>v s path. ref_free s \<and> jdepth s < n \<longrightarrow> decides (rec v s path) (conforms H v s))"

lemma body_right:
  assumes rec: "right H n rec" and s: "ref_free (JObj kvs)" "jdepth (JObj kvs) \<le> n"
  shows "decides (validate_body H rootSchema rec v (JObj kvs) path) (conforms H v (JObj kvs))"
proof -
  let ?s = "JObj kvs"
  have sub: "decides (rec x t p) (conforms H x t)" if "ref_free t" "jdepth t < jdepth ?s" for x t p
    using rec s(2) that unfolding right_def by (meson order_less_le_trans)
  have get: "decides (rec x (kv_get kvs k) p) (conforms H x (kv_get kvs k))" for x k p
    by (rule sub [OF ref_free_get [OF s(1)] jdepth_get])
  have item: "decides (rec x t p) (conforms H x t)" if "t \<in> set (arr_items (kv_get kvs k))" for x t p k
    by (rule sub [OF ref_free_item [OF ref_free_get [OF s(1)] that] less_trans [OF jdepth_items [OF that] jdepth_get]])
  have member: "decides (rec x t p) (conforms H x t)" if "(q, t) \<in> set (obj_kvs (kv_get kvs k))" for x t p k q
    by (rule sub [OF ref_free_member [OF ref_free_get [OF s(1)] that] less_trans [OF jdepth_member [OF that] jdepth_get]])
  have all: "decides (all_of rec v ?s path) (\<forall>t \<in> set (arr_items (kv_get kvs ''allOf'')). conforms H v t)"
    unfolding all_of_def jget.simps by (rule decides_rconcat_map [OF item])
  have any: "decides (any_of rec v ?s path) (is_arr (kv_get kvs ''anyOf'') \<longrightarrow>
      (\<exists>t \<in> set (arr_items (kv_get kvs ''anyOf'')). conforms H v t))"
    using decides_any [of ?s rec v path "conforms H v"] item by simp
  have one: "decides (one_of rec v ?s path) (is_arr (kv_get kvs ''oneOf'') \<longrightarrow>
           length (filter (\<lambda>t. conforms H v t) (arr_items (kv_get kvs ''oneOf''))) = 1)"
    using decides_one [of ?s rec v path "conforms H v"] item by simp
  have no: "decides (not_schema rec v ?s path) (truthy (kv_get kvs ''not'') \<longrightarrow> \<not> conforms H v (kv_get kvs ''not''))"
    using decides_not [of rec v ?s path "conforms H v (kv_get kvs ''not'')"] get by simp
  have items: "decides (item_errors rec v ?s path)
      (truthy (kv_get kvs ''items'') \<longrightarrow> (\<forall>x \<in> set (arr_items v). conforms H x (kv_get kvs ''items'')))"
  proof -
    have "decides (rconcat (map (\<lambda>(i, item). rec item (kv_get kvs ''items'') (joinPath path (nat_str i)))
        (zip [0..<length (arr_items v)] (arr_items v))))
      (\<forall>q \<in> set (zip [0..<length (arr_items v)] (arr_items v)). conforms H (snd q) (kv_get kvs ''items''))"
      by (rule decides_rconcat_map) (auto intro: get)
    moreover have z: "(\<forall>q \<in> set (zip [0..<length xs] xs). P (snd q)) = (\<forall>x \<in> set xs. P x)" for P and xs :: "jsval list"
    proof -
      have m: "map snd (zip [0..<length xs] xs) = xs" by simp
      have "(\<forall>q \<in> set zs. P (snd q)) = (\<forall>x \<in> set (map snd zs). P x)" for zs :: "(nat \<times> jsval) list"
        by simp
      from this [of "zip [0..<length xs] xs"] show ?thesis unfolding m .
    qed
    ultimately have "decides (rconcat (map (\<lambda>(i, item). rec item (kv_get kvs ''items'') (joinPath path (nat_str i)))
        (zip [0..<length (arr_items v)] (arr_items v)))) (\<forall>x \<in> set (arr_items v). conforms H x (kv_get kvs ''items''))"
      unfolding z [of "arr_items v" "\<lambda>x. conforms H x (kv_get kvs ''items'')"] by simp
    then show ?thesis by (cases "truthy (kv_get kvs ''items'')") (simp_all add: item_errors_def decides_def)
  qed
  have props: "decides (property_errors rec v ?s path)
      (\<forall>(p, t) \<in> set (obj_kvs (kv_get kvs ''properties'')). has_own v p \<longrightarrow> conforms H (jget v p) t)"
  proof -
    have "schema_properties ?s = obj_kvs (kv_get kvs ''properties'')"
      by (cases "kv_get kvs ''properties''") (auto simp: schema_properties_def isPlainObject_def)
    then show ?thesis
      unfolding property_errors_def
      using decides_rconcat_map [of "obj_kvs (kv_get kvs ''properties'')"
          "\<lambda>(p, s). if has_own v p then rec (jget v p) s (joinPath path p) else Inr []"
          "\<lambda>(p, t). has_own v p \<longrightarrow> conforms H (jget v p) t"] member
      by (auto simp: decides_Inr [of "[]", simplified])
  qed
  have additional: "decides (additional_errors rec v ?s path)
      (\<forall>(p, x) \<in> set (obj_kvs v).
           p \<notin> fst ` set (obj_kvs (kv_get kvs ''properties'')) \<longrightarrow>
           is_obj (kv_get kvs ''additionalProperties'') \<or> jtypeof (kv_get kvs ''additionalProperties'') = ''boolean'' \<longrightarrow>
           conforms H x (kv_get kvs ''additionalProperties''))"
  proof -
    let ?add = "kv_get kvs ''additionalProperties''"
    let ?f = "\<lambda>(p, x). if map_of (schema_properties ?s) p \<noteq> None then Inr []
           else if strict_eq ?add (JBool False)
           then Inr [schema_error (joinPath path p) ''additionalProperties'' ''Additional property is not allowed.'' []]
           else if isPlainObject ?add \<or> jtypeof ?add = ''boolean''
           then rec x ?add (joinPath path p)
           else Inr []"
    let ?P = "\<lambda>(p, x). p \<notin> fst ` set (obj_kvs (kv_get kvs ''properties'')) \<longrightarrow>
           is_obj ?add \<or> jtypeof ?add = ''boolean'' \<longrightarrow> conforms H x ?add"
    have "schema_properties ?s = obj_kvs (kv_get kvs ''properties'')"
      by (cases "kv_get kvs ''properties''") (auto simp: schema_properties_def isPlainObject_def)
    then have none: "map_of (schema_properties ?s) p \<noteq> None \<longleftrightarrow> p \<in> fst ` set (obj_kvs (kv_get kvs ''properties''))" for p
      by (simp add: map_of_eq_None_iff)
    have closed: "strict_eq ?add (JBool False) \<longleftrightarrow> ?add = JBool False"
      by (cases ?add) auto
    have "decides (?f q) (?P q)" for q
    proof (cases q)
      case (Pair p x)
      show ?thesis
        using get [of x "''additionalProperties''" "joinPath path p"]
        unfolding Pair prod.case none closed isPlainObject_def
        by (cases "?add = JBool False") (auto simp: decides_def jtypeof_def)
    qed
    then have "decides (rconcat (map ?f (obj_kvs v))) (\<forall>q \<in> set (obj_kvs v). ?P q)"
      by (intro decides_rconcat_map)
    then show ?thesis by (simp add: additional_errors_def Let_def)
  qed
  let ?props = "\<forall>(p, t) \<in> set (obj_kvs (kv_get kvs ''properties'')). has_own v p \<longrightarrow> conforms H (jget v p) t"
  let ?add = "\<forall>(p, x) \<in> set (obj_kvs v).
           p \<notin> fst ` set (obj_kvs (kv_get kvs ''properties'')) \<longrightarrow>
           is_obj (kv_get kvs ''additionalProperties'') \<or> jtypeof (kv_get kvs ''additionalProperties'') = ''boolean'' \<longrightarrow>
           conforms H x (kv_get kvs ''additionalProperties'')"
  have object: "decides (object_errors rec v ?s path)
      ((is_obj v \<longrightarrow> required_errors [] v ?s = [] \<and> size_errors [] v ?s = []) \<and> ?props \<and> ?add)"
  proof (cases "is_obj v")
    case True
    have "decides (rconcat [Inr (required_errors path v ?s), property_errors rec v ?s path,
                    additional_errors rec v ?s path, Inr (size_errors path v ?s)])
      (required_errors path v ?s = [] \<and> ?props \<and> ?add \<and> size_errors path v ?s = [] \<and> True)"
      by (intro decides_Cons decides_Nil decides_Inr props additional)
    then show ?thesis
      unfolding object_errors_def isPlainObject_def if_P [OF True] leaf_paths [of path]
      by (rule decides_cong) (rule iffI; elim conjE; intro conjI impI TrueI; (assumption | use True in blast))
  next
    case False
    then have "obj_kvs v = []" by (cases v) auto
    with False show ?thesis
      by (simp add: object_errors_def isPlainObject_def decides_def has_own_def)
  qed
  let ?start = "[all_of rec v ?s path, any_of rec v ?s path, one_of rec v ?s path,
            not_schema rec v ?s path, Inr (const_errors path v ?s @ enum_errors path v ?s)]"
  have c: "\<not> (?s = JBool True \<or> ?s = JUndef)" "\<not> ?s = JBool False" "\<not> \<not> isPlainObject ?s"
    "\<not> truthy (jget ?s ''$ref'')"
    using s(1) by (simp_all add: isPlainObject_def)
  have body: "validate_body H rootSchema rec v ?s path = rconcat (?start @ (if type_ok v ?s
              then [Inr (string_errors H path v ?s @ number_errors path v ?s @ array_errors path v ?s),
                    item_errors rec v ?s path, object_errors rec v ?s path]
              else [Inr [type_mismatch path v ?s]]))"
    unfolding validate_body_def c [THEN if_not_P] by (rule refl)
  have simple: "decides (Inr (const_errors path v ?s @ enum_errors path v ?s))
      (const_errors [] v ?s = [] \<and> enum_errors [] v ?s = [])"
    "decides (Inr (string_errors H path v ?s @ number_errors path v ?s @ array_errors path v ?s))
      (string_errors H [] v ?s = [] \<and> number_errors [] v ?s = [] \<and> array_errors [] v ?s = [])"
    by (simp_all add: decides_def leaf_paths [of path] string_path [of H path])
  have mismatch: "decides (Inr [type_mismatch path v ?s]) False" by (simp add: decides_def)
  note start = decides_Cons [OF all decides_Cons [OF any decides_Cons [OF one decides_Cons [OF no
      decides_Cons [OF simple(1)]]]]]
  show ?thesis
  proof (cases "type_ok v ?s")
    case True
    note whole = start [OF decides_Cons [OF simple(2) decides_Cons [OF items decides_Cons [OF object decides_Nil]]]]
    show ?thesis
      unfolding body if_P [OF True] append.simps
      by (rule decides_cong [OF whole])
        (unfold conforms.simps(1) leaf_ok_def, rule iffI; elim conjE; intro conjI TrueI; (assumption | rule True))
  next
    case False
    note whole = start [OF decides_Cons [OF mismatch decides_Nil]]
    show ?thesis
      unfolding body if_not_P [OF False] append.simps
      by (rule decides_cong [OF whole]) (unfold conforms.simps(1) leaf_ok_def, use False in blast)
  qed
qed

lemma validateNode_right: "right H n (validateNode H rootSchema n)"
proof (induction n)
  case 0
  show ?case by (simp add: right_def)
next
  case (Suc n)
  show ?case
    unfolding right_def
  proof (intro allI impI)
    fix v s path
    assume s: "ref_free s \<and> jdepth s < Suc n"
    show "decides (validateNode H rootSchema (Suc n) v s path) (conforms H v s)"
    proof (cases s)
      case (JObj kvs)
      with body_right [OF Suc.IH] s show ?thesis by simp
    qed (auto simp: validate_body_def decides_def isPlainObject_def)
  qed
qed

section \<open>Properties\<close>



definition lenient_host :: host where
  "lenient_host = \<lparr>date_ok = (\<lambda>_. True), url_ok = (\<lambda>_. True), compile_regex = (\<lambda>_. Inr (\<lambda>_. True))\<rparr>"


end
