(* ===== verification/Authority.thy ===== *)
theory Authority
  imports JsPrelude "HOL-Library.List_Lexorder" "HOL-Library.Char_ord" "HOL-Library.Multiset"
begin

text \<open>
  The authority of an agent run: \<open>packages/agents/src/canonical.js\<close> and \<open>authority.js\<close>.  A request
  is cut down to what the configured and the granted policy layers allow: lists of values by
  dimension, modes of execution surfaces, numeric limits and transitions between surfaces.
  SHA-256 and the locale's collation are parameters.  The contract that all three cuts share, that
  a combination of layers never exceeds a layer, is a locale interpreted on each of them.
\<close>

section \<open>Canonical form\<close>

fun canonicalize :: "jsval \<Rightarrow> jsval" where
  "canonicalize (JArr vs) = JArr (map canonicalize vs)"
| "canonicalize (JObj kvs) = JObj (sort_key fst (map (\<lambda>(k, v). (k, canonicalize v)) kvs))"
| "canonicalize v = v"

definition canonicalJson :: "jsval \<Rightarrow> string option" where
  "canonicalJson v = json (canonicalize v)"

definition sha256Digest :: "(string \<Rightarrow> string) \<Rightarrow> jsval \<Rightarrow> string" where
  "sha256Digest sha v = to_upper (sha (case canonicalJson v of Some s \<Rightarrow> s | None \<Rightarrow> []))"

definition uniqueSorted :: "jsval list \<Rightarrow> string list" where
  "uniqueSorted vs = sort (remdups (filter (\<lambda>s. s \<noteq> []) (map (\<lambda>v. trim (to_str v)) vs)))"

section \<open>Scopes\<close>

definition EXECUTION_SURFACES :: "string list" where
  "EXECUTION_SURFACES =
     [''REPOSITORY_FILE_EDIT'', ''LOCAL_SHELL'', ''SKYCOMMAND_MCP_API'', ''SKYCOMMAND_UI_COMPUTER_USE'',
      ''GENERAL_DESKTOP_COMPUTER_USE'', ''EXTERNAL_BROWSER'', ''CONNECTED_APP_READ'',
      ''CONNECTED_APP_MUTATION'', ''REMOTE_DEVICE'', ''PLAYWRIGHT_REGISTERED'']"

datatype surface_mode = DENY | EXPLICIT_APPROVAL_REQUIRED | READ_ONLY | ALLOW

datatype dimension = Capabilities | Actions | Resources | Environments | DataClasses

definition SCOPE_DIMENSIONS :: "dimension list" where
  "SCOPE_DIMENSIONS = [Capabilities, Actions, Resources, Environments, DataClasses]"

fun dimension_name :: "dimension \<Rightarrow> string" where
  "dimension_name Capabilities = ''capabilities''"
| "dimension_name Actions = ''actions''"
| "dimension_name Resources = ''resources''"
| "dimension_name Environments = ''environments''"
| "dimension_name DataClasses = ''dataClasses''"

text \<open>A scope: its values by dimension.\<close>

type_synonym scope = "dimension \<Rightarrow> string list"

definition normalizeScope :: "jsval \<Rightarrow> scope" where
  "normalizeScope s d = uniqueSorted (arr_items (jget s (dimension_name d)))"

definition scope_value :: "scope \<Rightarrow> jsval" where
  "scope_value s = JObj (map (\<lambda>d. (dimension_name d, JArr (map JStr (s d)))) SCOPE_DIMENSIONS)"

definition intersectLists :: "string list list \<Rightarrow> string list" where
  "intersectLists ls =
     (case ls of
        [] \<Rightarrow> uniqueSorted []
      | first # rest \<Rightarrow> uniqueSorted (map JStr (filter (\<lambda>v. \<forall>l \<in> set rest. v \<in> set l) first)))"

definition intersectScopes :: "jsval list \<Rightarrow> scope" where
  "intersectScopes scopes d = intersectLists (map (\<lambda>s. normalizeScope s d) scopes)"

section \<open>Execution surfaces\<close>

text \<open>The order of restrictiveness: DENY is 0 and ALLOW is 3.\<close>

fun RESTRICTIVENESS :: "surface_mode \<Rightarrow> nat" where
  "RESTRICTIVENESS DENY = 0"
| "RESTRICTIVENESS EXPLICIT_APPROVAL_REQUIRED = 1"
| "RESTRICTIVENESS READ_ONLY = 2"
| "RESTRICTIVENESS ALLOW = 3"

instantiation surface_mode :: linorder
begin

definition less_eq_surface_mode :: "surface_mode \<Rightarrow> surface_mode \<Rightarrow> bool" where
  "less_eq_surface_mode a b = (RESTRICTIVENESS a \<le> RESTRICTIVENESS b)"

definition less_surface_mode :: "surface_mode \<Rightarrow> surface_mode \<Rightarrow> bool" where
  "less_surface_mode a b = (RESTRICTIVENESS a < RESTRICTIVENESS b)"

instance
proof
  fix a b :: surface_mode
  show "a \<le> b \<Longrightarrow> b \<le> a \<Longrightarrow> a = b"
    by (cases a; cases b) (simp_all add: less_eq_surface_mode_def)
qed (auto simp: less_eq_surface_mode_def less_surface_mode_def)

end

fun mode_name :: "surface_mode \<Rightarrow> string" where
  "mode_name DENY = ''DENY''"
| "mode_name EXPLICIT_APPROVAL_REQUIRED = ''EXPLICIT_APPROVAL_REQUIRED''"
| "mode_name READ_ONLY = ''READ_ONLY''"
| "mode_name ALLOW = ''ALLOW''"

definition mode_of :: "jsval \<Rightarrow> surface_mode option" where
  "mode_of v = (case v of
     JStr s \<Rightarrow> map_of (map (\<lambda>m. (mode_name m, m)) [ALLOW, READ_ONLY, DENY, EXPLICIT_APPROVAL_REQUIRED]) s
   | _ \<Rightarrow> None)"

record surface_entry =
  surface :: string
  mode :: surface_mode
  reason :: "string option"

record transition =
  t_from :: string
  t_to :: string
  t_reason :: string

definition is_surface :: "jsval \<Rightarrow> bool" where
  "is_surface v = (\<exists>s \<in> set EXECUTION_SURFACES. v = JStr s)"

definition same_ends :: "transition \<Rightarrow> transition \<Rightarrow> bool" where
  "same_ends a b = (t_from a = t_from b \<and> t_to a = t_to b)"

definition first_of_ends :: "transition list \<Rightarrow> transition list" where
  "first_of_ends ts = foldl (\<lambda>acc t. if list_ex (same_ends t) acc then acc else acc @ [t]) [] ts"

definition normalizeTransitions :: "(string \<Rightarrow> string \<Rightarrow> bool) \<Rightarrow> jsval \<Rightarrow> transition list" where
  "normalizeTransitions collate transitions =
     (let valid = filter (\<lambda>t. is_surface (jget t ''from'') \<and> is_surface (jget t ''to'')) (arr_items transitions);
          read = map (\<lambda>t. \<lparr>t_from = to_str (jget t ''from''), t_to = to_str (jget t ''to''),
                   t_reason = to_str (jor (jget t ''reason'') (JStr ''Policy permits this transition.''))\<rparr>) valid;
          key = (\<lambda>t. t_from t @ '':'' @ t_to t)
      in sort_by (\<lambda>a b. collate (key a) (key b)) (first_of_ends read))"

record surface_layer =
  surfaces :: "surface_entry list"
  permittedTransitions :: "transition list"

text \<open>The entry of one surface in a layer: the last valid one, the default mode when there is none.\<close>

definition layer_entry :: "surface_mode \<Rightarrow> jsval list \<Rightarrow> string \<Rightarrow> surface_entry" where
  "layer_entry defaultMode entries s =
     foldl (\<lambda>cur e. if jget e ''surface'' = JStr s
                    then \<lparr>surface = s, mode = (case mode_of (jget e ''mode'') of Some m \<Rightarrow> m | None \<Rightarrow> defaultMode),
                          reason = (if truthy (jget e ''reason'') then Some (to_str (jget e ''reason'')) else None)\<rparr>
                    else cur)
       \<lparr>surface = s, mode = defaultMode, reason = None\<rparr> entries"

definition normalizeSurfaceLayer :: "(string \<Rightarrow> string \<Rightarrow> bool) \<Rightarrow> jsval \<Rightarrow> surface_mode \<Rightarrow> surface_layer" where
  "normalizeSurfaceLayer collate layer defaultMode =
     \<lparr>surfaces = map (layer_entry defaultMode (arr_items (jget layer ''surfaces''))) EXECUTION_SURFACES,
      permittedTransitions = normalizeTransitions collate (jget layer ''permittedTransitions'')\<rparr>"

fun mostRestrictive :: "surface_entry option \<Rightarrow> surface_entry list \<Rightarrow> surface_entry option" where
  "mostRestrictive selected [] = selected"
| "mostRestrictive selected (entry # entries) =
     mostRestrictive (case selected of
         None \<Rightarrow> Some entry
       | Some s \<Rightarrow> if RESTRICTIVENESS (mode entry) < RESTRICTIVENESS (mode s) then Some entry else Some s) entries"

definition given :: "string option \<Rightarrow> string option" where
  "given r = (case r of Some s \<Rightarrow> if s \<noteq> [] then Some s else None | None \<Rightarrow> None)"

definition combineSurfaceEntries :: "surface_entry list \<Rightarrow> surface_entry" where
  "combineSurfaceEntries entries =
     (let modes = map mode entries; name = surface (hd entries)
      in if DENY \<in> set modes
         then \<lparr>surface = name, mode = DENY,
               reason = (case Option.bind (find (\<lambda>e. mode e = DENY) entries) (\<lambda>e. given (reason e)) of
                   Some r \<Rightarrow> Some r
                 | None \<Rightarrow> Some ''At least one policy layer denies this surface.'')\<rparr>
         else if READ_ONLY \<in> set modes \<and> EXPLICIT_APPROVAL_REQUIRED \<in> set modes
         then \<lparr>surface = name, mode = DENY,
               reason = Some ''READ_ONLY and EXPLICIT_APPROVAL_REQUIRED cannot both be represented by execution_surface_policy.v1.''\<rparr>
         else (case mostRestrictive None entries of
                 Some selected \<Rightarrow> selected\<lparr>reason := given (reason selected)\<rparr>
               | None \<Rightarrow> \<lparr>surface = name, mode = DENY, reason = None\<rparr>))"

record surface_policy =
  sp_revision :: jsval
  sp_requested :: "surface_entry list"
  sp_configured :: "surface_entry list"
  sp_granted :: "surface_entry list"
  sp_transitions :: "transition list"

definition effective_mode :: "surface_entry list \<Rightarrow> string \<Rightarrow> surface_mode option" where
  "effective_mode entries s = map_of (rev (map (\<lambda>e. (surface e, mode e)) entries)) s"

definition intersectExecutionSurfacePolicies ::
  "(string \<Rightarrow> string \<Rightarrow> bool) \<Rightarrow> jsval \<Rightarrow> jsval \<Rightarrow> jsval \<Rightarrow> jsval \<Rightarrow> surface_policy" where
  "intersectExecutionSurfacePolicies collate requested configured granted policyRevision =
     (let l0 = normalizeSurfaceLayer collate requested DENY;
          l1 = normalizeSurfaceLayer collate configured DENY;
          l2 = normalizeSurfaceLayer collate granted DENY;
          effective = map (\<lambda>i. combineSurfaceEntries (map (\<lambda>l. surfaces l ! i) [l0, l1, l2])) [0..<length (surfaces l0)];
          common = filter (\<lambda>t. \<forall>l \<in> set [l1, l2]. list_ex (same_ends t) (permittedTransitions l)) (permittedTransitions l0)
      in \<lparr>sp_revision = policyRevision, sp_requested = surfaces l0, sp_configured = surfaces l1, sp_granted = effective,
          sp_transitions = filter (\<lambda>t. effective_mode effective (t_from t) \<noteq> Some DENY
                                     \<and> effective_mode effective (t_to t) \<noteq> Some DENY) common\<rparr>)"

section \<open>Numeric constraints\<close>

datatype limit_kind = MaxDurationMs | MaxChildren | MaxConcurrentChildren

definition NUMERIC_CONSTRAINTS :: "limit_kind list" where
  "NUMERIC_CONSTRAINTS = [MaxDurationMs, MaxChildren, MaxConcurrentChildren]"

fun limit_name :: "limit_kind \<Rightarrow> string" where
  "limit_name MaxDurationMs = ''maxDurationMs''"
| "limit_name MaxChildren = ''maxChildren''"
| "limit_name MaxConcurrentChildren = ''maxConcurrentChildren''"

text \<open>\<open>None\<close> is null: no limit.\<close>

type_synonym constraints = "limit_kind \<Rightarrow> int option"

definition normalizeConstraintValue :: "jsval \<Rightarrow> int option" where
  "normalizeConstraintValue v =
     (if is_nullish v then None
      else case v of JNum (Fin r) \<Rightarrow> if r = of_int \<lfloor>r\<rfloor> \<and> 0 \<le> r then Some \<lfloor>r\<rfloor> else Some 0 | _ \<Rightarrow> Some 0)"

definition normalizeConstraints :: "jsval \<Rightarrow> constraints" where
  "normalizeConstraints c k = normalizeConstraintValue (jget c (limit_name k))"

definition min_limits :: "int option list \<Rightarrow> int option" where
  "min_limits ls =
     (let bounded = map the (filter (\<lambda>l. l \<noteq> None) ls)
      in if bounded \<noteq> [] then Some (Min (set bounded)) else None)"

definition constraints_value :: "constraints \<Rightarrow> jsval" where
  "constraints_value c = JObj (map (\<lambda>k. (limit_name k,
     case c k of None \<Rightarrow> JNull | Some n \<Rightarrow> jnum (of_int n))) NUMERIC_CONSTRAINTS)"

definition intersectConstraints :: "jsval list \<Rightarrow> constraints" where
  "intersectConstraints layers k = min_limits (map (\<lambda>l. normalizeConstraints l k) layers)"

section \<open>Evaluation\<close>

definition entry_value :: "surface_entry \<Rightarrow> jsval" where
  "entry_value e = JObj [(''surface'', JStr (surface e)), (''mode'', JStr (mode_name (mode e))),
     (''reason'', case reason e of None \<Rightarrow> JNull | Some r \<Rightarrow> JStr r)]"

definition transition_value :: "transition \<Rightarrow> jsval" where
  "transition_value t = JObj [(''from'', JStr (t_from t)), (''to'', JStr (t_to t)), (''reason'', JStr (t_reason t))]"

definition policy_value :: "surface_policy \<Rightarrow> jsval" where
  "policy_value p = JObj
     [(''contract'', JStr ''execution_surface_policy.v1''), (''policyRevision'', sp_revision p),
      (''requested'', JObj [(''surfaces'', JArr (map entry_value (sp_requested p)))]),
      (''configured'', JObj [(''surfaces'', JArr (map entry_value (sp_configured p)))]),
      (''granted'', JObj [(''surfaces'', JArr (map entry_value (sp_granted p)))]),
      (''permittedTransitions'', JArr (map transition_value (sp_transitions p)))]"

definition decision :: "string \<Rightarrow> string \<Rightarrow> string \<Rightarrow> jsval" where
  "decision v dmn why = JObj [(''dimension'', JStr dmn), (''value'', JStr v), (''reason'', JStr why)]"

definition missing_values :: "scope \<Rightarrow> scope \<Rightarrow> (dimension \<times> string) list" where
  "missing_values requested effective =
     concat (map (\<lambda>d. map (\<lambda>v. (d, v)) (filter (\<lambda>v. v \<notin> set (effective d)) (requested d))) SCOPE_DIMENSIONS)"

definition mode_text :: "surface_mode option \<Rightarrow> string" where
  "mode_text m = (case m of Some x \<Rightarrow> mode_name x | None \<Rightarrow> ''undefined'')"

definition calculateDifferences :: "scope \<Rightarrow> scope \<Rightarrow> surface_policy \<Rightarrow> jsval list" where
  "calculateDifferences requested effective policy =
     map (\<lambda>(d, v). JObj [(''dimension'', JStr (dimension_name d)), (''requested'', JStr v),
                          (''effective'', JStr ''DENY'')]) (missing_values requested effective)
     @ concat (map (\<lambda>e.
         let asked = effective_mode (sp_requested policy) (surface e)
         in if asked \<noteq> Some (mode e)
            then [JObj [(''dimension'', JStr ''executionSurface''),
                        (''requested'', JStr (surface e @ '':'' @ mode_text asked)),
                        (''effective'', JStr (surface e @ '':'' @ mode_name (mode e)))]]
            else []) (sp_granted policy))"

definition int_str :: "int \<Rightarrow> string" where
  "int_str n = num_str (Fin (of_int n))"

definition calculateConstraintDifferences :: "constraints \<Rightarrow> constraints \<Rightarrow> jsval list" where
  "calculateConstraintDifferences requested effective =
     concat (map (\<lambda>k. case requested k of
         None \<Rightarrow> []
       | Some n \<Rightarrow>
           if Some n \<noteq> effective k
           then [JObj [(''dimension'', JStr ''constraint''),
                       (''requested'', JStr (limit_name k @ '':'' @ int_str n)),
                       (''effective'', JStr (limit_name k @ '':''
                          @ (case effective k of None \<Rightarrow> ''UNBOUNDED'' | Some m \<Rightarrow> int_str m)))]]
           else []) NUMERIC_CONSTRAINTS)"

record authority_request =
  a_snapshotId :: jsval
  a_authorityKind :: jsval
  a_policyRevision :: jsval
  a_sourcePolicyRevision :: jsval
  a_requested :: jsval
  a_configured :: jsval
  a_granted :: jsval
  a_requestedSurfaces :: jsval
  a_configuredSurfaces :: jsval
  a_grantedSurfaces :: jsval
  a_constraints :: jsval
  a_requestedConstraints :: jsval
  a_configuredConstraints :: jsval
  a_grantedConstraints :: jsval
  a_obligations :: "jsval list"
  a_additionalDenials :: jsval
  a_runtimeConfiguration :: jsval
  a_now :: jsval

definition unregistered_runtime :: "(string \<Rightarrow> string) \<Rightarrow> jsval" where
  "unregistered_runtime sha = JObj
     [(''contract'', JStr ''agent_runtime_configuration_identity.v1''),
      (''runtimeInstallationId'', JStr ''UNREGISTERED''), (''configurationRevision'', JStr ''UNKNOWN''),
      (''configurationDigest'', JStr (sha256Digest sha (JObj [(''runtime'', JStr ''UNREGISTERED'')]))),
      (''capabilityManifestRevision'', JStr ''UNKNOWN''),
      (''capabilityManifestDigest'', JStr (sha256Digest sha (JObj [(''capabilities'', JStr ''UNKNOWN'')]))),
      (''runtimeProfile'', JStr ''UNKNOWN''), (''freshnessStatus'', JStr ''UNKNOWN''),
      (''reviewedSourceRevision'', JNull), (''processGeneration'', JNull), (''serviceGeneration'', JNull),
      (''processStartedAt'', JNull), (''observedAt'', JNull), (''evidence'', JNull)]"

text \<open>What the evaluation decides, before it is written out as the snapshot.\<close>

record authority =
  au_requested :: scope
  au_configured :: scope
  au_effective :: scope
  au_surfaces :: surface_policy
  au_requestedConstraints :: constraints
  au_constraints :: constraints
  au_denials :: "jsval list"

definition decide_authority :: "(string \<Rightarrow> string \<Rightarrow> bool) \<Rightarrow> authority_request \<Rightarrow> authority" where
  "decide_authority collate R =
     (let requested = normalizeScope (a_requested R);
          configured = normalizeScope (a_configured R);
          granted = normalizeScope (a_granted R);
          effective = intersectScopes (map scope_value [requested, configured, granted]);
          policy = intersectExecutionSurfacePolicies collate (a_requestedSurfaces R) (a_configuredSurfaces R)
            (a_grantedSurfaces R) (default_to (a_policyRevision R) (JStr ''agent-policy.v1''));
          requestedConstraints = normalizeConstraints (jnull_or (a_requestedConstraints R) (a_constraints R));
          effectiveConstraints = intersectConstraints
            [constraints_value requestedConstraints, a_configuredConstraints R, a_grantedConstraints R];
          denials = filter truthy (arr_items (a_additionalDenials R))
            @ map (\<lambda>(d, v). decision v (dimension_name d)
                ''The requested value is absent from at least one configured or granted policy layer.'')
                (missing_values requested effective)
            @ map (\<lambda>e. decision (surface e) ''executionSurface''
                (case given (reason e) of Some r \<Rightarrow> r
                 | None \<Rightarrow> ''The effective execution-surface policy denies this surface.''))
                (filter (\<lambda>e. mode e = DENY) (sp_granted policy))
      in \<lparr>au_requested = requested, au_configured = configured, au_effective = effective, au_surfaces = policy,
          au_requestedConstraints = requestedConstraints, au_constraints = effectiveConstraints,
          au_denials = denials\<rparr>)"

definition evaluateAuthority ::
  "(string \<Rightarrow> string) \<Rightarrow> (string \<Rightarrow> string \<Rightarrow> bool) \<Rightarrow> authority_request \<Rightarrow> jsval" where
  "evaluateAuthority sha collate R =
     (let A = decide_authority collate R;
          kind = (if strict_eq (a_authorityKind R) (JStr ''RUNTIME_COMPATIBLE'') then ''RUNTIME_COMPATIBLE''
                  else ''POLICY_EFFECTIVE'');
          body =
            [(''contract'', JStr ''agent_authority_snapshot.v1''), (''authorityKind'', JStr kind),
             (''policyRevision'', default_to (a_policyRevision R) (JStr ''agent-policy.v1'')),
             (''sourcePolicyRevision'', default_to (a_sourcePolicyRevision R) JNull),
             (''requested'', scope_value (au_requested A)), (''configured'', scope_value (au_configured A)),
             (''granted'', scope_value (au_effective A)), (''executionSurfaces'', policy_value (au_surfaces A)),
             (''constraints'', constraints_value (au_constraints A)),
             (''obligations'', JArr (map JStr (uniqueSorted (a_obligations R)))),
             (''denials'', JArr (au_denials A)),
             (''differences'', JArr (calculateDifferences (au_requested A) (au_effective A) (au_surfaces A)
                @ calculateConstraintDifferences (au_requestedConstraints A) (au_constraints A))),
             (''runtimeConfiguration'', jor (a_runtimeConfiguration R) (unregistered_runtime sha))];
          digest = sha256Digest sha (JObj body)
      in JObj (body @ [(''snapshotId'', jor (a_snapshotId R) (JStr (''authority-'' @ take 16 digest))),
                       (''digest'', JStr digest), (''evaluatedAt'', a_now R)]))"

section \<open>The canonical form forgets the order of members\<close>

inductive reordered :: "jsval \<Rightarrow> jsval \<Rightarrow> bool" where
  same: "reordered v v"
| items: "list_all2 reordered vs ws \<Longrightarrow> reordered (JArr vs) (JArr ws)"
| members: "list_all2 (rel_prod (=) reordered) kvs us \<Longrightarrow> mset us = mset ws \<Longrightarrow> distinct (map fst kvs) \<Longrightarrow>
    reordered (JObj kvs) (JObj ws)"

lemma sorted_members:
  assumes "mset us = mset ws" "distinct (map fst us)"
  shows "sort_key fst us = sort_key fst (ws :: (string \<times> 'a) list)"
proof (rule sort_key_inj_key_eq)
  show "mset us = mset (sort_key fst ws)" using assms(1) by simp
  show "inj_on fst (set us)" using assms(2) by (simp add: distinct_map)
  show "sorted (map fst (sort_key fst ws))" by simp
qed

lemma reordered_canonical: "reordered v w \<Longrightarrow> canonicalize v = canonicalize w"
proof (induction rule: reordered.induct)
  case (items vs ws)
  then have "map canonicalize vs = map canonicalize ws"
    by (induction rule: list_all2_induct) auto
  then show ?case by simp
next
  case (members kvs us ws)
  let ?c = "\<lambda>(k, v). (k :: string, canonicalize v)"
  from members(1) have m: "map ?c kvs = map ?c us"
    by (induction rule: list_all2_induct) auto
  from members(1) have k: "map fst us = map fst kvs"
    by (induction rule: list_all2_induct) auto
  have "mset (map ?c us) = mset (map ?c ws)"
    using members(2) by (simp add: mset_map)
  moreover have "distinct (map fst (map ?c us))"
    using members(3) k by (simp add: comp_def case_prod_unfold)
  ultimately have "sort_key fst (map ?c us) = sort_key fst (map ?c ws)" by (rule sorted_members)
  with m show ?case by simp
qed simp

text \<open>values that differ only in the order of the members of their objects,
  at any depth, have the same digest.\<close>

theorem digest_ignores_order:
  assumes "reordered v w"
  shows "sha256Digest sha v = sha256Digest sha w"
  using reordered_canonical [OF assms] by (simp add: sha256Digest_def canonicalJson_def)

theorem digest_ignores_order_witness:
  "sha256Digest (\<lambda>s. s) (JObj [(''b'', JNull), (''a'', JObj [(''d'', JNull), (''c'', JNull)])])
     = sha256Digest (\<lambda>s. s) (JObj [(''a'', JObj [(''c'', JNull), (''d'', JNull)]), (''b'', JNull)])"
proof (rule digest_ignores_order)
  have i: "reordered (JObj [(''d'', JNull), (''c'', JNull)]) (JObj [(''c'', JNull), (''d'', JNull)])"
    by (rule members [of _ "[(''d'', JNull), (''c'', JNull)]"]) (auto intro: same)
  show "reordered (JObj [(''b'', JNull), (''a'', JObj [(''d'', JNull), (''c'', JNull)])])
     (JObj [(''a'', JObj [(''c'', JNull), (''d'', JNull)]), (''b'', JNull)])"
    by (rule members [of _ "[(''b'', JNull), (''a'', JObj [(''c'', JNull), (''d'', JNull)])]"]) (auto intro: same i)
qed

section \<open>The contract of the cuts\<close>

text \<open>Layers are read into a common form and combined; a combination can be written back as a layer.
  No combination exceeds a layer it was made from.\<close>

locale narrowing =
  fixes below :: "'a \<Rightarrow> 'a \<Rightarrow> bool"
    and layer :: "'l \<Rightarrow> 'a"
    and written :: "'a \<Rightarrow> 'l"
    and combine :: "'l list \<Rightarrow> 'a"
  assumes below_refl: "below x x"
    and below_trans: "below x y \<Longrightarrow> below y z \<Longrightarrow> below x z"
    and combine_below: "l \<in> set ls \<Longrightarrow> below (combine ls) (layer l)"
    and read_write: "layer (written (combine ls)) = combine ls"
begin

text \<open>A chain of delegations, each of which hands down what it got, cut by its own layer.\<close>

definition delegated :: "'l list \<Rightarrow> 'l list \<Rightarrow> 'a" where
  "delegated base ls = foldl (\<lambda>a l. combine [written a, l]) (combine base) ls"

lemma delegated_snoc: "delegated base (ls @ [l]) = combine [written (delegated base ls), l]"
  by (simp add: delegated_def)

lemma delegated_written: "layer (written (delegated base ls)) = delegated base ls"
  by (cases ls rule: rev_cases) (simp_all add: delegated_snoc read_write, simp add: delegated_def read_write)

lemma delegation_shrinks: "below (delegated base (ls @ ks)) (delegated base ls)"
proof (induction ks rule: rev_induct)
  case Nil
  show ?case by (simp add: below_refl)
next
  case (snoc k ks)
  have "below (delegated base ((ls @ ks) @ [k])) (layer (written (delegated base (ls @ ks))))"
    unfolding delegated_snoc by (rule combine_below) simp
  with snoc show ?case
    unfolding delegated_written by (auto intro: below_trans)
qed

lemma delegation_below_layer:
  assumes "l \<in> set ls"
  shows "below (delegated base ls) (layer l)"
proof -
  from assms obtain xs ys where ls: "ls = (xs @ [l]) @ ys" by (metis append.assoc append_Cons append_Nil split_list)
  have "below (delegated base (xs @ [l])) (layer l)"
    unfolding delegated_snoc by (rule combine_below) simp
  with delegation_shrinks [of base "xs @ [l]" ys] show ?thesis
    unfolding ls by (rule below_trans)
qed

lemma delegation_below_base: "l \<in> set base \<Longrightarrow> below (delegated base ls) (layer l)"
  using delegation_shrinks [of base "[]" ls] combine_below [of l base] below_trans
  by (fastforce simp: delegated_def)

end

text \<open>The combination is the largest one.\<close>

locale exact_narrowing = narrowing +
  assumes combine_greatest: "ls \<noteq> [] \<Longrightarrow> (\<And>l. l \<in> set ls \<Longrightarrow> below x (layer l)) \<Longrightarrow> below x (combine ls)"
begin

lemma more_layers: "ls \<noteq> [] \<Longrightarrow> set ls \<subseteq> set ks \<Longrightarrow> below (combine ks) (combine ls)"
  by (rule combine_greatest) (auto intro: combine_below)

lemma order_irrelevant: "ls \<noteq> [] \<Longrightarrow> set ls = set ks \<Longrightarrow> below (combine ks) (combine ls) \<and> below (combine ls) (combine ks)"
  using more_layers [of ls ks] more_layers [of ks ls] by (cases "ks = []") auto

end

subsection \<open>Scopes\<close>

lemma set_uniqueSorted: "set (uniqueSorted vs) = {s. s \<noteq> [] \<and> s \<in> (\<lambda>v. trim (to_str v)) ` set vs}"
  by (auto simp: uniqueSorted_def)

lemma uniqueSorted_trimmed: "s \<in> set (uniqueSorted vs) \<Longrightarrow> s \<noteq> [] \<and> trim s = s"
  by (auto simp: set_uniqueSorted)

lemma uniqueSorted_id:
  assumes "sorted ss" "distinct ss" "\<forall>s \<in> set ss. s \<noteq> [] \<and> trim s = s"
  shows "uniqueSorted (map JStr ss) = ss"
proof -
  have "map (\<lambda>v. trim (to_str v)) (map JStr ss) = ss"
    using assms(3) by (induction ss) auto
  moreover have "filter (\<lambda>s. s \<noteq> []) ss = ss" using assms(3) by (simp add: filter_id_conv)
  ultimately show ?thesis using assms by (simp add: uniqueSorted_def distinct_remdups_id sorted_sort_id)
qed

lemma uniqueSorted_normal: "uniqueSorted (map JStr (uniqueSorted vs)) = uniqueSorted vs"
  by (rule uniqueSorted_id) (auto dest: uniqueSorted_trimmed simp: uniqueSorted_def)

lemma intersectLists_normal: "uniqueSorted (map JStr (intersectLists ls)) = intersectLists ls"
  by (simp add: intersectLists_def uniqueSorted_normal split: list.splits)

lemma scope_value_get: "arr_items (jget (scope_value s) (dimension_name d)) = map JStr (s d)"
  by (cases d) (simp_all add: scope_value_def SCOPE_DIMENSIONS_def)

lemma normalizeScope_written: "normalizeScope (scope_value (normalizeScope v)) = normalizeScope v"
  by (simp add: normalizeScope_def scope_value_get uniqueSorted_normal fun_eq_iff)

lemma set_intersectLists:
  assumes "ls \<noteq> []" "\<forall>l \<in> set ls. \<forall>s \<in> set l. s \<noteq> [] \<and> trim s = s"
  shows "set (intersectLists ls) = \<Inter> (set ` set ls)"
proof (cases ls)
  case (Cons l rest)
  with assms(2) show ?thesis
    by (auto simp: intersectLists_def set_uniqueSorted image_iff)
qed (use assms in simp)

lemma set_intersectScopes:
  "scopes \<noteq> [] \<Longrightarrow> set (intersectScopes scopes d) = (\<Inter>s \<in> set scopes. set (normalizeScope s d))"
  unfolding intersectScopes_def
  by (subst set_intersectLists) (auto simp: normalizeScope_def dest: uniqueSorted_trimmed)

definition scope_below :: "scope \<Rightarrow> scope \<Rightarrow> bool" where
  "scope_below a b = (\<forall>d. set (a d) \<subseteq> set (b d))"

interpretation scopes: exact_narrowing scope_below normalizeScope scope_value intersectScopes
proof unfold_locales
  fix l ls x
  show "l \<in> set ls \<Longrightarrow> scope_below (intersectScopes ls) (normalizeScope l)"
    by (cases "ls = []") (auto simp: scope_below_def set_intersectScopes)
  show "normalizeScope (scope_value (intersectScopes ls)) = intersectScopes ls"
    by (simp add: normalizeScope_def scope_value_get intersectScopes_def intersectLists_normal fun_eq_iff)
  show "ls \<noteq> [] \<Longrightarrow> (\<And>l. l \<in> set ls \<Longrightarrow> scope_below x (normalizeScope l)) \<Longrightarrow> scope_below x (intersectScopes ls)"
    by (auto simp: scope_below_def set_intersectScopes)
qed (auto simp: scope_below_def)

subsection \<open>Constraints\<close>

definition limit_within :: "int option \<Rightarrow> int option \<Rightarrow> bool" where
  "limit_within a b = (case b of None \<Rightarrow> True | Some n \<Rightarrow> (case a of None \<Rightarrow> False | Some m \<Rightarrow> m \<le> n))"

definition constraints_below :: "constraints \<Rightarrow> constraints \<Rightarrow> bool" where
  "constraints_below a b = (\<forall>k. limit_within (a k) (b k))"

lemma limit_within_refl [simp]: "limit_within a a"
  by (simp add: limit_within_def split: option.splits)

lemma limit_within_trans: "limit_within a b \<Longrightarrow> limit_within b c \<Longrightarrow> limit_within a c"
  by (auto simp: limit_within_def split: option.splits)

lemma limits_nonneg: "normalizeConstraintValue v = Some n \<Longrightarrow> 0 \<le> n"
  by (auto simp: normalizeConstraintValue_def split: if_splits jsval.splits jsnum.splits)

lemma min_limits_within: "l \<in> set ls \<Longrightarrow> limit_within (min_limits ls) l"
proof (cases l)
  case (Some n)
  assume "l \<in> set ls"
  with Some have "n \<in> set (map the (filter (\<lambda>l. l \<noteq> None) ls))" by force
  then show ?thesis by (auto simp: min_limits_def limit_within_def Some Let_def filter_empty_conv)
qed (simp add: limit_within_def)

lemma min_limits_greatest:
  assumes "\<And>l. l \<in> set ls \<Longrightarrow> limit_within x l"
  shows "limit_within x (min_limits ls)"
proof (cases "min_limits ls")
  case (Some n)
  let ?b = "map the (filter (\<lambda>l. l \<noteq> None) ls)"
  from Some have "?b \<noteq> []" "n = Min (set ?b)" by (auto simp: min_limits_def Let_def split: if_splits)
  then have "n \<in> set ?b" by (metis Min_in finite_set set_empty)
  then have "Some n \<in> set ls" by auto
  from assms [OF this] Some show ?thesis by simp
qed (simp add: limit_within_def)

lemma min_limits_in: "min_limits ls = Some n \<Longrightarrow> Some n \<in> set ls"
proof -
  assume a: "min_limits ls = Some n"
  let ?b = "map the (filter (\<lambda>l. l \<noteq> None) ls)"
  from a have "?b \<noteq> []" "n = Min (set ?b)" by (auto simp: min_limits_def Let_def split: if_splits)
  then have "n \<in> set ?b" by (metis Min_in finite_set set_empty)
  then show ?thesis by auto
qed

lemma min_limits_chosen: "min_limits [a, b, c] \<in> {a, b, c}"
proof (cases "min_limits [a, b, c]")
  case None
  then show ?thesis by (auto simp: min_limits_def Let_def split: if_splits)
next
  case (Some n)
  from min_limits_in [OF Some] Some show ?thesis by auto
qed

lemma constraints_value_get:
  "jget (constraints_value c) (limit_name k) = (case c k of None \<Rightarrow> JNull | Some n \<Rightarrow> jnum (of_int n))"
  by (cases k) (simp_all add: constraints_value_def NUMERIC_CONSTRAINTS_def)

lemma constraints_written:
  assumes "\<And>n. c k = Some n \<Longrightarrow> 0 \<le> n"
  shows "normalizeConstraints (constraints_value c) k = c k"
  using assms by (cases "c k") (auto simp: normalizeConstraints_def constraints_value_get normalizeConstraintValue_def)

interpretation limits: exact_narrowing constraints_below normalizeConstraints constraints_value intersectConstraints
proof unfold_locales
  fix l ls x
  show "l \<in> set ls \<Longrightarrow> constraints_below (intersectConstraints ls) (normalizeConstraints l)"
    by (auto simp: constraints_below_def intersectConstraints_def intro: min_limits_within)
  show "normalizeConstraints (constraints_value (intersectConstraints ls)) = intersectConstraints ls"
    by (rule ext, rule constraints_written)
      (auto simp: intersectConstraints_def normalizeConstraints_def dest!: min_limits_in intro: limits_nonneg [OF sym])
  show "ls \<noteq> [] \<Longrightarrow> (\<And>l. l \<in> set ls \<Longrightarrow> constraints_below x (normalizeConstraints l)) \<Longrightarrow>
      constraints_below x (intersectConstraints ls)"
    by (auto simp: constraints_below_def intersectConstraints_def intro!: min_limits_greatest)
qed (auto simp: constraints_below_def intro: limit_within_trans)

subsection \<open>Surfaces\<close>

lemma mostRestrictive_min:
  "mostRestrictive (Some s) es = Some r \<Longrightarrow> mode r \<le> mode s \<and> (\<forall>e \<in> set es. mode r \<le> mode e)"
  by (induction es arbitrary: s) (fastforce simp: less_eq_surface_mode_def split: if_splits)+

lemma mostRestrictive_some: "\<exists>r. mostRestrictive (Some s) es = Some r"
  by (induction es arbitrary: s) auto

lemma DENY_least [simp]: "DENY \<le> m"
  by (simp add: less_eq_surface_mode_def)

lemma combine_entries_below:
  assumes "e \<in> set es"
  shows "mode (combineSurfaceEntries es) \<le> mode e"
proof -
  from assms obtain x xs where es: "es = x # xs" by (cases es) auto
  obtain r where r: "mostRestrictive (Some x) xs = Some r" using mostRestrictive_some by blast
  with mostRestrictive_min [OF r] assms es have "mode r \<le> mode e" by auto
  then show ?thesis by (simp add: combineSurfaceEntries_def Let_def es r)
qed

definition mode_entry :: "surface_mode \<Rightarrow> surface_entry" where
  "mode_entry m = \<lparr>surface = [], mode = m, reason = None\<rparr>"

interpretation modes: narrowing "(\<le>)" mode mode_entry "\<lambda>es. mode (combineSurfaceEntries es)"
  by unfold_locales (auto simp: combine_entries_below mode_entry_def)


section \<open>Evaluations never broaden\<close>

lemma normalizeSurfaceLayer_surfaces:
  "surfaces (normalizeSurfaceLayer c l m) = map (layer_entry m (arr_items (jget l ''surfaces''))) EXECUTION_SURFACES"
  by (simp add: normalizeSurfaceLayer_def)

lemma layer_entry_surface [simp]: "surface (layer_entry m es s) = s"
proof -
  have "surface (foldl (\<lambda>cur e. if jget e ''surface'' = JStr s
      then \<lparr>surface = s, mode = (case mode_of (jget e ''mode'') of Some m \<Rightarrow> m | None \<Rightarrow> m),
            reason = (if truthy (jget e ''reason'') then Some (to_str (jget e ''reason'')) else None)\<rparr>
      else cur) e0 es) = s" if "surface e0 = s" for e0
    using that by (induction es arbitrary: e0) auto
  then show ?thesis by (simp add: layer_entry_def)
qed

text \<open>The surfaces of a policy: one combined entry for each registered surface, in their order.\<close>

definition layers_at :: "jsval list \<Rightarrow> string \<Rightarrow> surface_entry list" where
  "layers_at ls s = map (\<lambda>l. layer_entry DENY (arr_items (jget l ''surfaces'')) s) ls"

lemma granted_surfaces:
  "sp_granted (intersectExecutionSurfacePolicies c r k g v)
     = map (\<lambda>s. combineSurfaceEntries (layers_at [r, k, g] s)) EXECUTION_SURFACES"
  by (rule nth_equalityI)
    (simp_all add: intersectExecutionSurfacePolicies_def Let_def normalizeSurfaceLayer_surfaces layers_at_def)

lemma combine_surface: "list_all (\<lambda>e. surface e = s) es \<Longrightarrow> es \<noteq> [] \<Longrightarrow> surface (combineSurfaceEntries es) = s"
proof -
  assume a: "list_all (\<lambda>e. surface e = s) es" "es \<noteq> []"
  have m: "mostRestrictive (Some x) xs = Some r \<Longrightarrow> surface x = s \<Longrightarrow> list_all (\<lambda>e. surface e = s) xs \<Longrightarrow> surface r = s"
    for x xs r
    by (induction xs arbitrary: x) (auto split: if_splits)
  from a obtain x xs where es: "es = x # xs" by (cases es) auto
  obtain r where r: "mostRestrictive (Some x) xs = Some r" using mostRestrictive_some by blast
  with m [OF r] a es show ?thesis by (simp add: combineSurfaceEntries_def Let_def)
qed


text \<open>The mode that one layer gives to a surface.\<close>

definition layer_mode :: "jsval \<Rightarrow> string \<Rightarrow> surface_mode" where
  "layer_mode l s = mode (layer_entry DENY (arr_items (jget l ''surfaces'')) s)"

lemma combined_mode_below: "l \<in> set ls \<Longrightarrow> mode (combineSurfaceEntries (layers_at ls s)) \<le> layer_mode l s"
  unfolding layer_mode_def layers_at_def by (rule modes.combine_below) simp

text \<open>C7 (surfaces_never_broaden): whatever the three layers are, the granted part of the effective
  policy has exactly one entry for every registered surface, in their order, and its mode is no more
  permissive than the mode that the requested, the configured and the granted layer give that surface.\<close>

theorem surfaces_never_broaden:
  "list_all2 (\<lambda>s e. surface e = s \<and> mode e \<le> layer_mode r s \<and> mode e \<le> layer_mode k s \<and> mode e \<le> layer_mode g s)
     EXECUTION_SURFACES (sp_granted (intersectExecutionSurfacePolicies c r k g v))"
  unfolding granted_surfaces list_all2_map2
  by (rule list_all2_refl, intro conjI, simp add: layers_at_def combine_surface) (rule combined_mode_below, simp)+

definition permits :: "(string \<Rightarrow> string \<Rightarrow> bool) \<Rightarrow> jsval \<Rightarrow> transition \<Rightarrow> bool" where
  "permits c l t = list_ex (same_ends t) (normalizeTransitions c (jget l ''permittedTransitions''))"

lemma same_ends_refl: "same_ends t t"
  by (simp add: same_ends_def)

text \<open>every transition between surfaces that the effective policy permits
  is permitted by each of the three layers, and neither of its ends is a surface whose effective mode
  is DENY.\<close>

theorem transitions_permitted:
  "list_all (\<lambda>t. permits c r t \<and> permits c k t \<and> permits c g t
        \<and> effective_mode (sp_granted (intersectExecutionSurfacePolicies c r k g v)) (t_from t) \<noteq> Some DENY
        \<and> effective_mode (sp_granted (intersectExecutionSurfacePolicies c r k g v)) (t_to t) \<noteq> Some DENY)
     (sp_transitions (intersectExecutionSurfacePolicies c r k g v))"
  by (auto simp: intersectExecutionSurfacePolicies_def Let_def list_all_iff permits_def normalizeSurfaceLayer_def
      list_ex_iff intro: same_ends_refl)

lemma decide_effective:
  "set (au_effective (decide_authority c R) d)
     = set (normalizeScope (a_requested R) d) \<inter> set (normalizeScope (a_configured R) d) \<inter> set (normalizeScope (a_granted R) d)"
  by (simp add: decide_authority_def Let_def set_intersectScopes normalizeScope_written Int_assoc)

text \<open>C6 (effective_scope_is_intersection): in every dimension, what the evaluation grants is exactly
  the set of values that the request, the configuration and the grant all name.\<close>

theorem effective_scope_is_intersection:
  "set (au_effective (decide_authority c R) d)
     = {s. s \<in> set (normalizeScope (a_requested R) d) \<and> s \<in> set (normalizeScope (a_configured R) d)
           \<and> s \<in> set (normalizeScope (a_granted R) d)}"
  unfolding decide_effective by auto

text \<open>each effective limit is within the requested, the configured and the
  granted limit, and it is one of them: where none is set there is no limit, and a limit that is not a
  natural number counts as 0, never as no limit.\<close>

theorem limits_never_broaden:
  "let req = normalizeConstraints (jnull_or (a_requestedConstraints R) (a_constraints R)) k;
       conf = normalizeConstraints (a_configuredConstraints R) k;
       grant = normalizeConstraints (a_grantedConstraints R) k;
       lim = au_constraints (decide_authority c R) k
   in limit_within lim req \<and> limit_within lim conf \<and> limit_within lim grant \<and> lim \<in> {req, conf, grant}"
proof -
  let ?req = "normalizeConstraints (jnull_or (a_requestedConstraints R) (a_constraints R))"
  let ?ls = "[constraints_value ?req, a_configuredConstraints R, a_grantedConstraints R]"
  have e: "au_constraints (decide_authority c R) = intersectConstraints ?ls"
    by (simp add: decide_authority_def Let_def)
  have w: "normalizeConstraints (constraints_value ?req) = ?req"
    by (rule ext, rule constraints_written) (auto simp: normalizeConstraints_def intro: limits_nonneg)
  have "constraints_below (intersectConstraints ?ls) (normalizeConstraints l)" if "l \<in> set ?ls" for l
    using that by (rule limits.combine_below)
  then have "limit_within (intersectConstraints ?ls k) (normalizeConstraints l k)" if "l \<in> set ?ls" for l
    using that unfolding constraints_below_def by blast
  from this [of "constraints_value ?req"] this [of "a_configuredConstraints R"] this [of "a_grantedConstraints R"]
  have within: "limit_within (intersectConstraints ?ls k) (?req k)"
    "limit_within (intersectConstraints ?ls k) (normalizeConstraints (a_configuredConstraints R) k)"
    "limit_within (intersectConstraints ?ls k) (normalizeConstraints (a_grantedConstraints R) k)"
    unfolding w by auto
  have "intersectConstraints ?ls k \<in> {?req k, normalizeConstraints (a_configuredConstraints R) k,
      normalizeConstraints (a_grantedConstraints R) k}"
    unfolding intersectConstraints_def list.map w
    by (rule min_limits_chosen) 
  with within show ?thesis by (simp add: e Let_def)
qed

text \<open>every value that is requested is granted or appears among the
  denials with its dimension.\<close>

theorem nothing_dropped_silently:
  "list_all (\<lambda>s. s \<in> set (au_effective (decide_authority c R) d) \<or>
       decision s (dimension_name d)
         ''The requested value is absent from at least one configured or granted policy layer.''
         \<in> set (au_denials (decide_authority c R)))
     (normalizeScope (a_requested R) d)"
proof -
  have d: "d \<in> set SCOPE_DIMENSIONS" by (cases d) (simp_all add: SCOPE_DIMENSIONS_def)
  show ?thesis
    unfolding list_all_iff
    by (auto simp: decide_authority_def Let_def missing_values_def image_iff intro!: bexI [of _ d, OF _ d])
qed

end
