(* ===== verification/AgentRunKernel.thy ===== *)
theory AgentRunKernel
  imports Authority JsonSchema
begin

text \<open>
  The life of an agent run: \<open>packages/agents/src/agentRunKernel.js\<close>.  The statuses of a run and the
  table of transitions, the neutral form of the usage a runtime reports, and the summary that is
  written when a run has ended.  The JSON Schema file of the summary is a parameter.
\<close>

section \<open>Statuses\<close>

definition AGENT_RUN_STATUSES :: "string list" where
  "AGENT_RUN_STATUSES =
     [''ADMITTED'', ''QUEUED'', ''STARTING'', ''RUNNING'', ''WAITING_FOR_APPROVAL'', ''WAITING_FOR_USER_INPUT'',
      ''WAITING_FOR_CHILDREN'', ''CLOSING'', ''FINALIZING'', ''COMPLETED'', ''FAILED'', ''TIMED_OUT'',
      ''CANCEL_REQUESTED'', ''CANCELLING'', ''CANCELED'', ''RECONCILING'', ''RECOVERY_REQUIRED'']"

definition TERMINAL_STATUSES :: "string list" where
  "TERMINAL_STATUSES = [''COMPLETED'', ''FAILED'', ''TIMED_OUT'', ''CANCELED'', ''RECOVERY_REQUIRED'']"

definition ALLOWED_TRANSITIONS :: "(string \<times> string list) list" where
  "ALLOWED_TRANSITIONS =
     [(''ADMITTED'', [''QUEUED'', ''STARTING'', ''CANCEL_REQUESTED'', ''CANCELED'', ''RECOVERY_REQUIRED'']),
      (''QUEUED'', [''STARTING'', ''CANCEL_REQUESTED'', ''CANCELED'', ''RECOVERY_REQUIRED'']),
      (''STARTING'', [''RUNNING'', ''CANCEL_REQUESTED'', ''CANCELED'', ''RECOVERY_REQUIRED'']),
      (''RUNNING'', [''WAITING_FOR_APPROVAL'', ''WAITING_FOR_USER_INPUT'', ''CLOSING'', ''CANCEL_REQUESTED'',
         ''CANCELLING'', ''RECONCILING'', ''FAILED'', ''RECOVERY_REQUIRED'']),
      (''WAITING_FOR_APPROVAL'', [''RUNNING'', ''CANCEL_REQUESTED'', ''CANCELLING'', ''FAILED'', ''RECOVERY_REQUIRED'']),
      (''WAITING_FOR_USER_INPUT'', [''RUNNING'', ''CANCEL_REQUESTED'', ''CANCELLING'', ''FAILED'', ''RECOVERY_REQUIRED'']),
      (''CLOSING'', [''FINALIZING'', ''CANCEL_REQUESTED'', ''CANCELED'', ''RECOVERY_REQUIRED'']),
      (''FINALIZING'', [''COMPLETED'', ''FAILED'', ''CANCELED'', ''RECOVERY_REQUIRED'']),
      (''CANCEL_REQUESTED'', [''CANCELLING'', ''CANCELED'', ''RECOVERY_REQUIRED'']),
      (''CANCELLING'', [''CANCELED'', ''RECOVERY_REQUIRED'']),
      (''RECONCILING'', [''CLOSING'', ''FINALIZING'', ''COMPLETED'', ''RECOVERY_REQUIRED'', ''CANCELED''])]"

definition isTerminalStatus :: "jsval \<Rightarrow> bool" where
  "isTerminalStatus status = (trim (to_str (jor status (JStr []))) \<in> set TERMINAL_STATUSES)"

definition canTransition :: "string \<Rightarrow> string \<Rightarrow> bool" where
  "canTransition old new =
     (old = new \<or> (case map_of ALLOWED_TRANSITIONS old of Some targets \<Rightarrow> new \<in> set targets | None \<Rightarrow> False))"

definition assertTransition :: "string \<Rightarrow> string \<Rightarrow> unit res" where
  "assertTransition old new =
     (if canTransition old new then Inr ()
      else Inl (JObj [(''name'', JStr ''Error''),
             (''message'', JStr (''Agent Run state transition '' @ old @ '' -> '' @ new @ '' is not allowed.'')),
             (''code'', JStr ''AGENT_RUN_STATE_TRANSITION_INVALID'')]))"

section \<open>Usage\<close>

definition reported_usage :: "string \<Rightarrow> jsval \<Rightarrow> jsval \<Rightarrow> string \<Rightarrow> jsval" where
  "reported_usage availability operationId runtimeKind freshness = JObj
     [(''availability'', JStr availability), (''observationsRef'', jor operationId JNull),
      (''scope'', JStr ''RUN''), (''source'', runtimeKind), (''freshness'', JStr freshness),
      (''measurements'', JArr [])]"

definition normalizeUsageForSummary :: "jsval \<Rightarrow> jsval \<Rightarrow> jsval \<Rightarrow> jsval" where
  "normalizeUsageForSummary usage operationId runtimeKind =
     (let isObject = is_obj usage;
          canonical = (isObject \<and> has_own usage ''availability'' \<and> has_own usage ''observationsRef'')
      in if strict_eq runtimeKind (JStr ''OPENAI_CODEX_APP_SERVER'') \<and> \<not> canonical
         then reported_usage (if isObject then ''REPORTED'' else ''NOT_REPORTED'') operationId runtimeKind
                (if isObject then ''CURRENT'' else ''UNKNOWN'')
         else if truthy usage then usage
         else reported_usage ''NOT_REPORTED'' operationId (jor runtimeKind JNull) ''UNKNOWN'')"

section \<open>The terminal summary\<close>

record summary_request =
  s_runId :: jsval
  s_sessionId :: jsval
  s_projectId :: jsval
  s_agentDefinitionId :: jsval
  s_agentRevision :: jsval
  s_runtimeKind :: jsval
  s_rootExecutionId :: jsval
  s_rootAgentRunId :: jsval
  s_initiatingUserId :: jsval
  s_initiatingActor :: jsval
  s_triggerSource :: jsval
  s_status :: string
  s_outcome :: jsval
  s_taskOutput :: jsval
  s_usage :: jsval
  s_operationId :: jsval
  s_caseId :: jsval
  s_capabilityEffects :: jsval
  s_providerEvidence :: jsval
  s_stopState :: string
  s_errorCode :: jsval

definition summary_text :: "bool \<Rightarrow> string \<Rightarrow> string" where
  "summary_text codex status =
     (if status = ''COMPLETED''
      then (if codex then ''Managed Codex Agent Run completed with a validated provider-neutral structured result.''
            else ''Fake Agent Run completed with a validated structured result.'')
      else if status = ''CANCELED''
      then (if codex then ''Managed Codex Agent Run was canceled after authority revocation.''
            else ''Fake Agent Run was canceled after authority revocation.'')
      else (if codex then ''Managed Codex Agent Run requires recovery or failed before a successful result.''
            else ''Fake Agent Run requires recovery or failed before a successful result.''))"

definition recommendations_of :: "summary_request \<Rightarrow> jsval list" where
  "recommendations_of R =
     (if truthy (s_errorCode R)
      then [JObj [(''text'', JStr (''Terminal evidence code: '' @ to_str (s_errorCode R) @ ''.'')),
                  (''kind'', JStr ''RECOVERY''), (''evidenceRef'', s_operationId R)]]
      else [])
     @ (if s_stopState R \<noteq> ''NONE''
        then [JObj [(''text'', JStr (''Physical stop evidence is '' @ s_stopState R
                       @ ''; authority revocation is recorded separately.'')),
                    (''kind'', JStr ''CANCELLATION''), (''evidenceRef'', s_operationId R)]]
        else [])"

definition terminal_summary :: "summary_request \<Rightarrow> jsval" where
  "terminal_summary R =
     (let codex = strict_eq (s_runtimeKind R) (JStr ''OPENAI_CODEX_APP_SERVER'')
      in JObj
       [(''runId'', s_runId R), (''sessionId'', s_sessionId R), (''projectId'', s_projectId R),
        (''agentDefinitionId'', s_agentDefinitionId R), (''agentRevision'', s_agentRevision R),
        (''runtimeKind'', s_runtimeKind R), (''rootExecutionId'', s_rootExecutionId R),
        (''rootAgentRunId'', s_rootAgentRunId R), (''parentAgentRunId'', JNull),
        (''initiatingUserId'', jor (s_initiatingUserId R) JNull), (''initiatingActor'', s_initiatingActor R),
        (''triggerSource'', s_triggerSource R), (''status'', JStr (s_status R)),
        (''outcome'', jor (s_outcome R) JNull), (''summary'', JStr (summary_text codex (s_status R))),
        (''taskOutput'', s_taskOutput R),
        (''taskOutputSchema'',
           if s_status R = ''COMPLETED''
           then JStr (if codex then ''agent-provider-result.v1'' else ''fake-runtime-result.v1'') else JNull),
        (''artifacts'', JArr []), (''changes'', JArr []), (''childRuns'', JArr []),
        (''usage'', normalizeUsageForSummary (s_usage R) (s_operationId R) (s_runtimeKind R)),
        (''cost'', JObj
           [(''availability'', JStr ''NOT_REPORTED''), (''amount'', JNull), (''currency'', JNull),
            (''scope'', JStr ''RUN''), (''basis'', JNull), (''reliability'', JNull),
            (''priceSourceRevision'', JNull), (''observationsRef'', JNull)]),
        (''recommendations'', JArr (recommendations_of R)),
        (''extensions'', JObj
           [(''fakeRuntime'', JBool (\<not> codex)), (''caseId'', s_caseId R), (''operationId'', s_operationId R),
            (''stopState'', JStr (s_stopState R)),
            (''capabilityEffects'', if is_arr (s_capabilityEffects R) then s_capabilityEffects R else JArr []),
            (''providerEvidence'',
               if is_obj (s_providerEvidence R) \<or> is_arr (s_providerEvidence R)
               then s_providerEvidence R else JNull)])])"

definition buildTerminalSummary :: "host \<Rightarrow> nat \<Rightarrow> jsval \<Rightarrow> summary_request \<Rightarrow> jsval res" where
  "buildTerminalSummary H frames summarySchema R =
     rbind (validateJsonSchema H frames
              \<lparr>opt_path = [], opt_schemaName = ''agent run summary'', opt_throwOnError = True\<rparr>
              (terminal_summary R) summarySchema)
       (\<lambda>_. Inr (terminal_summary R))"

definition resultDigest :: "(string \<Rightarrow> string) \<Rightarrow> jsval \<Rightarrow> string" where
  "resultDigest sha result = sha256Digest sha result"

section \<open>The table\<close>

lemma terminal_no_row: "status \<in> set TERMINAL_STATUSES \<Longrightarrow> map_of ALLOWED_TRANSITIONS status = None"
proof -
  have "list_all (\<lambda>s. map_of ALLOWED_TRANSITIONS s = None) TERMINAL_STATUSES" by code_simp
  then show "status \<in> set TERMINAL_STATUSES \<Longrightarrow> map_of ALLOWED_TRANSITIONS status = None"
    by (simp add: list_all_iff)
qed

lemma terminal_no_exit:
  "status \<in> set TERMINAL_STATUSES \<Longrightarrow> canTransition status new \<longleftrightarrow> new = status"
  by (auto simp: canTransition_def terminal_no_row)

text \<open>The statuses that the table reaches from an admitted run.\<close>

inductive table_reachable :: "string \<Rightarrow> bool" where
  admitted: "table_reachable ''ADMITTED''"
| moved: "table_reachable s \<Longrightarrow> canTransition s t \<Longrightarrow> table_reachable t"

definition unreached_statuses :: "string list" where
  "unreached_statuses = [''WAITING_FOR_CHILDREN'', ''TIMED_OUT'']"

lemma table_targets:
  "map_of ALLOWED_TRANSITIONS s = Some ts \<Longrightarrow>
     list_all (\<lambda>t. t \<in> set AGENT_RUN_STATUSES \<and> t \<notin> set unreached_statuses) ts"
proof (drule map_of_SomeD)
  have "list_all (\<lambda>p. list_all (\<lambda>t. t \<in> set AGENT_RUN_STATUSES \<and> t \<notin> set unreached_statuses) (snd p))
      ALLOWED_TRANSITIONS"
    by code_simp
  then have all: "\<forall>p \<in> set ALLOWED_TRANSITIONS.
      list_all (\<lambda>t. t \<in> set AGENT_RUN_STATUSES \<and> t \<notin> set unreached_statuses) (snd p)"
    by (simp only: list_all_iff [of _ ALLOWED_TRANSITIONS])
  show "(s, ts) \<in> set ALLOWED_TRANSITIONS \<Longrightarrow>
      list_all (\<lambda>t. t \<in> set AGENT_RUN_STATUSES \<and> t \<notin> set unreached_statuses) ts"
    using bspec [OF all, of "(s, ts)"] by (simp only: snd_conv)
qed

lemma table_reachable_known:
  "table_reachable s \<Longrightarrow> s \<in> set AGENT_RUN_STATUSES \<and> s \<notin> set unreached_statuses"
proof (induction rule: table_reachable.induct)
  case admitted
  show ?case by code_simp
next
  case (moved s t)
  then show ?case
    by (cases "map_of ALLOWED_TRANSITIONS s") (auto simp only: canTransition_def option.case list_all_iff dest!: table_targets)
qed

text \<open>A path of statuses that follows the table.\<close>

fun follows_table :: "string list \<Rightarrow> bool" where
  "follows_table (s # t # ss) = (canTransition s t \<and> follows_table (t # ss))"
| "follows_table ss = True"

lemma follows_table_reachable:
  "table_reachable s \<Longrightarrow> follows_table (s # ss) \<Longrightarrow> list_all table_reachable (s # ss)"
  by (induction ss arbitrary: s) (auto intro: table_reachable.moved)

lemma shortest_paths:
  "list_all (\<lambda>path. follows_table (''ADMITTED'' # path))
     [[''QUEUED'', ''STARTING'', ''RUNNING'', ''RECONCILING'', ''CLOSING'', ''FINALIZING'', ''COMPLETED''],
      [''STARTING'', ''RUNNING'', ''WAITING_FOR_APPROVAL'', ''FAILED''],
      [''STARTING'', ''RUNNING'', ''WAITING_FOR_USER_INPUT'', ''RECOVERY_REQUIRED''],
      [''CANCEL_REQUESTED'', ''CANCELLING'', ''CANCELED'']]"
  by code_simp

lemma paths_cover:
  "list_all (\<lambda>s. s \<in> set (concat
     [[''ADMITTED''],
      [''QUEUED'', ''STARTING'', ''RUNNING'', ''RECONCILING'', ''CLOSING'', ''FINALIZING'', ''COMPLETED''],
      [''STARTING'', ''RUNNING'', ''WAITING_FOR_APPROVAL'', ''FAILED''],
      [''STARTING'', ''RUNNING'', ''WAITING_FOR_USER_INPUT'', ''RECOVERY_REQUIRED''],
      [''CANCEL_REQUESTED'', ''CANCELLING'', ''CANCELED'']]) \<or> s \<in> set unreached_statuses) AGENT_RUN_STATUSES"
  by code_simp

lemma table_reaches_known:
  assumes "s \<in> set AGENT_RUN_STATUSES" "s \<notin> set unreached_statuses"
  shows "table_reachable s"
proof -
  define paths where "paths =
     [[''QUEUED'', ''STARTING'', ''RUNNING'', ''RECONCILING'', ''CLOSING'', ''FINALIZING'', ''COMPLETED''],
      [''STARTING'', ''RUNNING'', ''WAITING_FOR_APPROVAL'', ''FAILED''],
      [''STARTING'', ''RUNNING'', ''WAITING_FOR_USER_INPUT'', ''RECOVERY_REQUIRED''],
      [''CANCEL_REQUESTED'', ''CANCELLING'', ''CANCELED'']]"
  have "list_all (\<lambda>path. follows_table (''ADMITTED'' # path)) paths"
    unfolding paths_def by (rule shortest_paths)
  then have reach: "path \<in> set paths \<Longrightarrow> list_all table_reachable (''ADMITTED'' # path)" for path
    using follows_table_reachable [OF table_reachable.admitted, of path] by (simp only: list_all_iff [of _ paths])
  have "list_all (\<lambda>s. s \<in> set (concat ([''ADMITTED''] # paths)) \<or> s \<in> set unreached_statuses) AGENT_RUN_STATUSES"
    unfolding paths_def by (rule paths_cover)
  then have "s \<in> set (concat ([''ADMITTED''] # paths))"
    using assms by (simp only: list_all_iff) blast
  then consider "s = ''ADMITTED''" | path where "path \<in> set paths" "s \<in> set path"
    by (simp only: concat.simps set_append set_concat list.set Un_iff UN_iff insert_iff empty_iff) blast
  then show ?thesis
  proof cases
    case 1
    then show ?thesis by (simp only: table_reachable.admitted)
  next
    case 2
    then show ?thesis using reach [of path] by (simp only: list_all_iff list.set) blast
  qed
qed

text \<open>The table of transitions takes an admitted run to exactly the known statuses other than
  WAITING_FOR_CHILDREN and TIMED_OUT, which no row of the table names.\<close>

theorem statuses_reached:
  "table_reachable s = (s \<in> set AGENT_RUN_STATUSES \<and> s \<notin> set unreached_statuses)"
  using table_reachable_known table_reaches_known by (intro iffI conjI) blast+

lemma exits_of_table:
  "list_all (\<lambda>s. s \<in> set unreached_statuses \<or> s \<in> set TERMINAL_STATUSES \<or> canTransition s ''RECOVERY_REQUIRED'')
     AGENT_RUN_STATUSES"
  by code_simp

lemma terminal_texts: "list_all (\<lambda>s. isTerminalStatus (JStr s) = (s \<in> set TERMINAL_STATUSES)) AGENT_RUN_STATUSES"
  by code_simp

lemma recovery_known: "''RECOVERY_REQUIRED'' \<in> set TERMINAL_STATUSES"
  by code_simp

text \<open>A status that a run can reach is final, in the sense of \<open>isTerminalStatus\<close>, exactly
  when the table lets nothing else follow it; every other one can go to RECOVERY_REQUIRED directly.\<close>

theorem dead_ends_are_terminal:
  "list_all (\<lambda>s. if isTerminalStatus (JStr s) then list_all (\<lambda>t. canTransition s t = (t = s)) AGENT_RUN_STATUSES
          else canTransition s ''RECOVERY_REQUIRED'')
     (filter table_reachable AGENT_RUN_STATUSES)"
proof -
  have "if isTerminalStatus (JStr s) then list_all (\<lambda>t. canTransition s t = (t = s)) AGENT_RUN_STATUSES
          else canTransition s ''RECOVERY_REQUIRED''" if "table_reachable s" for s
  proof -
    from that have s: "s \<in> set AGENT_RUN_STATUSES" "s \<notin> set unreached_statuses"
      using table_reachable_known by blast+
    have t: "isTerminalStatus (JStr s) = (s \<in> set TERMINAL_STATUSES)"
      using terminal_texts s(1) by (simp only: list_all_iff)
    show ?thesis
    proof (cases "s \<in> set TERMINAL_STATUSES")
      case True
      have "list_all (\<lambda>t. canTransition s t = (t = s)) AGENT_RUN_STATUSES"
        by (simp only: terminal_no_exit [OF True] list_all_iff) blast
      with True t show ?thesis by (simp only: if_True)
    next
      case False
      with t exits_of_table s show ?thesis by (simp only: list_all_iff if_False) blast
    qed
  qed
  then show ?thesis by (simp only: list_all_iff set_filter mem_Collect_eq) blast
qed

end
