(* ===== verification/AgentRunWorkflow.thy ===== *)
theory AgentRunWorkflow
  imports AgentRunKernel Effects
begin

text \<open>
  The durable workflow of one agent run, \<open>packages/temporal/src/workflows/agentRunWorkflow.js\<close>, over the
  requests of \<open>Effects\<close>.  Control and runtime activities are \<open>Act\<close> requests under their own names, and the
  race of a condition with \<open>sleep\<close> in \<open>waitForInteraction\<close> is \<open>AwaitDecision\<close>.  The object \<open>control\<close> that
  the three signal handlers write is recomputed from the signals of the history: a signal is an object with the
  members \<open>signal\<close> (its name) and \<open>payload\<close>.  \<open>waitForInteraction\<close> loops for ever in the source; here it has
  fuel, one unit for each turn of the loop, and \<open>None\<close> says that the fuel is used up.  The queues and retry
  options of the activities are those of the Temporal server and are not part of the model.
\<close>

section \<open>Control\<close>

record control =
  stopRequested :: bool
  reason :: jsval
  interactionDecisions :: "(string \<times> string) list"

definition clean_text :: "jsval \<Rightarrow> string" where
  "clean_text v = trim (to_str (jor v (JStr [])))"

definition stop_signal :: "jsval \<Rightarrow> string \<Rightarrow> control \<Rightarrow> control" where
  "stop_signal payload fallback c =
     c\<lparr>stopRequested := True, reason := JStr (to_str (jor (jget payload ''reason'') (JStr fallback)))\<rparr>"

definition decision_signal :: "jsval \<Rightarrow> control \<Rightarrow> control" where
  "decision_signal payload c =
     (let interactionId = clean_text (jget payload ''interactionRequestId'');
          decisionId = clean_text (jget payload ''decisionId'')
      in if interactionId \<noteq> [] \<and> decisionId \<noteq> []
         then c\<lparr>interactionDecisions := kv_set (interactionDecisions c) interactionId decisionId\<rparr> else c)"

definition handle_signal :: "control \<Rightarrow> jsval \<Rightarrow> control" where
  "handle_signal c s =
     (if jget s ''signal'' = JStr ''agentRunCancel'' then stop_signal (jget s ''payload'') ''run_cancel_requested'' c
      else if jget s ''signal'' = JStr ''agentRootStop'' then stop_signal (jget s ''payload'') ''root_stop_requested'' c
      else if jget s ''signal'' = JStr ''agentInteractionDecision'' then decision_signal (jget s ''payload'') c
      else c)"

definition control_of :: "hist \<Rightarrow> control" where
  "control_of h = foldl handle_signal
     \<lparr>stopRequested = False, reason = JNull, interactionDecisions = []\<rparr> (concat (map signals h))"

definition get_control :: "control eff" where
  "get_control = ebind get_hist (\<lambda>h. eret (control_of h))"

section \<open>Results without a runtime\<close>

definition USER_INPUT_CASES :: "string list" where
  "USER_INPUT_CASES = [''user-input-success'', ''user-input-restart'']"

definition APPROVAL_CASES :: "string list" where
  "APPROVAL_CASES = [''approval-required-success'', ''approval-revoked-during-wait'', ''approval-expiry'']"

definition MANAGED_CAPABILITY_CASES :: "string list" where
  "MANAGED_CAPABILITY_CASES =
     [''browser-capability-success'', ''browser-capability-duplicate-retry'',
      ''browser-capability-revoked-before-dispatch'', ''browser-capability-unknown-dispatch'',
      ''browser-capability-unknown-send''] @ APPROVAL_CASES"

definition noRuntimeResult :: "jsval \<Rightarrow> string \<Rightarrow> jsval \<Rightarrow> jsval" where
  "noRuntimeResult runtimeKind physicalStopState runtimeDescriptor =
     (let providerBacked = strict_eq (jget runtimeDescriptor ''providerBacked'') (JBool True)
      in JObj
       [(''runtimeKind'', runtimeKind),
        (''runtimeMode'', jor (jget runtimeDescriptor ''runtimeMode'')
            (JStr (if providerBacked then ''PROVIDER_BACKED'' else ''FIXTURE''))),
        (''providerBacked'', JBool providerBacked),
        (''adapterVersion'', jor (jget runtimeDescriptor ''adapterVersion'')
            (JStr (if providerBacked then ''provider-runtime-adapter.v1'' else ''fake-runtime-adapter.v1''))),
        (''sendAcceptance'', JStr ''REJECTED_BEFORE_ACCEPTANCE''),
        (''outcomeCertainty'', JStr ''REJECTED''),
        (''usage'', JObj
           [(''availability'', JStr ''NOT_REPORTED''), (''observationsRef'', JNull), (''scope'', JStr ''RUN''),
            (''source'', runtimeKind), (''freshness'', JStr ''UNKNOWN''), (''measurements'', JArr [])]),
        (''physicalStop'', JObj
           [(''state'', JStr physicalStopState),
            (''evidence'', JStr (if physicalStopState = ''CONFIRMED''
               then ''authority_revoked_before_runtime_start'' else ''interaction_not_applied''))]),
        (''worker'', JNull), (''events'', JArr []), (''capabilityInvocations'', JArr []),
        (''taskOutputCandidate'', JNull)])"

definition mismatch :: "jsval \<Rightarrow> jsval \<Rightarrow> string \<Rightarrow> bool" where
  "mismatch recovery value k = (truthy (jget recovery k) \<and> \<not> strict_eq (jget value k) (jget recovery k))"

definition validDurableTerminalObservation :: "jsval \<Rightarrow> jsval \<Rightarrow> bool" where
  "validDurableTerminalObservation value recovery =
     (is_obj value
      \<and> strict_eq (jget value ''schemaVersion'') (JStr ''AGENT_PROVIDER_TERMINAL_OBSERVATION_V1'')
      \<and> strict_eq (jget value ''providerBacked'') (JBool True)
      \<and> strict_eq (jget value ''sendAcceptance'') (JStr ''ACKNOWLEDGED'')
      \<and> to_upper (to_str (jor (jget value ''providerTerminalStatus'') (JStr [])))
          \<in> set [''COMPLETED'', ''FAILED'', ''CANCELED'', ''CANCELLED'', ''INTERRUPTED'']
      \<and> truthy (jget value ''providerTurnId'')
      \<and> \<not> mismatch recovery value ''providerTurnId''
      \<and> \<not> mismatch recovery value ''providerSessionReference''
      \<and> \<not> mismatch recovery value ''providerOperationReference'')"

section \<open>Waiting for an interaction\<close>

text \<open>\<open>new Date(v).getTime()\<close>, \<open>None\<close> for NaN.\<close>

definition date_ms :: "jsval \<Rightarrow> rat option eff" where
  "date_ms v =
     (case v of JUndef \<Rightarrow> eret None
      | JNull \<Rightarrow> eret (Some 0)
      | JBool b \<Rightarrow> eret (Some (if b then 1 else 0))
      | JNum (Fin r) \<Rightarrow> eret (Some r)
      | JNum _ \<Rightarrow> eret None
      | _ \<Rightarrow> date_parse (to_str v))"

definition passed :: "rat option \<Rightarrow> rat \<Rightarrow> bool" where
  "passed deadline t = (case deadline of Some d \<Rightarrow> d \<le> t | None \<Rightarrow> False)"

definition poll_ms :: "rat option \<Rightarrow> rat \<Rightarrow> rat option" where
  "poll_ms deadline t = (case deadline of Some d \<Rightarrow> Some (max 1 (min 5000 (d - t))) | None \<Rightarrow> None)"

definition unapplied :: "jsval \<Rightarrow> jsval \<Rightarrow> jsval \<Rightarrow> jsval" where
  "unapplied applicationStatus why interaction = JObj
     [(''applicationStatus'', applicationStatus), (''reason'', why), (''interaction'', interaction),
      (''capabilityRequest'', JNull), (''input'', JNull)]"

definition stop_reason :: "control \<Rightarrow> jsval" where
  "stop_reason c = jor (reason c) (JStr ''RUN_OR_ROOT_STOP_REQUESTED'')"

definition closed_interaction :: "jsval \<Rightarrow> bool" where
  "closed_interaction loaded =
     (jget loaded ''status'' \<in> set (map JStr [''EXPIRED'', ''CANCELED'', ''BLOCKED'', ''REJECTED'']))"

definition deliver_decision :: "jsval \<Rightarrow> jsval \<Rightarrow> jsval eff" where
  "deliver_decision interactionId saved =
     (let arg = JObj [(''interactionId'', interactionId), (''decisionId'', jget saved ''decisionId'')]
      in ebind (activity ''acknowledgeAgentInteractionDeliveryActivity'' arg)
           (\<lambda>_. activity ''applyAgentInteractionDecisionActivity'' arg))"

fun wait_loop :: "nat \<Rightarrow> jsval \<Rightarrow> jsval \<Rightarrow> rat option \<Rightarrow> jsval \<Rightarrow> jsval option eff" where
  "wait_loop 0 runId interactionId deadline lastLoaded = eret None"
| "wait_loop (Suc n) runId interactionId deadline lastLoaded =
     ebind get_control (\<lambda>c.
     if stopRequested c
     then ebind (activity ''cancelAgentInteractionsActivity'' (JObj [(''runId'', runId), (''reason'', stop_reason c)]))
            (\<lambda>_. ebind get_control (\<lambda>c'. eret (Some (unapplied (JStr ''CANCELED'') (stop_reason c') lastLoaded))))
     else ebind clock (\<lambda>t.
     if passed deadline t
     then ebind (activity ''expireAgentInteractionActivity'' (JObj [(''interactionId'', interactionId)]))
            (\<lambda>_. eret (Some (unapplied (JStr ''EXPIRED'') (JStr ''INTERACTION_EXPIRED'') lastLoaded)))
     else ebind (ask (AwaitDecision [to_str interactionId] (poll_ms deadline t))) (\<lambda>_.
     ebind get_control (\<lambda>c'.
     if stopRequested c' then wait_loop n runId interactionId deadline lastLoaded
     else ebind (activity ''loadAgentInteractionActivity'' (JObj [(''interactionId'', interactionId)])) (\<lambda>loaded.
     if \<not> truthy loaded then eret (Some (unapplied (JStr ''BLOCKED'') (JStr ''INTERACTION_NOT_FOUND'') JNull))
     else if closed_interaction loaded
     then eret (Some (unapplied (jget loaded ''status'') (jor (jget loaded ''statusReason'') (jget loaded ''status'')) loaded))
     else if \<not> truthy (jget loaded ''decision'') then wait_loop n runId interactionId deadline loaded
     else ebind (deliver_decision interactionId (jget loaded ''decision'')) (\<lambda>applied.
     ebind (eread applied ''applicationStatus'') (\<lambda>status.
     if status \<noteq> JStr ''PENDING'' then eret (Some applied)
     else wait_loop n runId interactionId deadline loaded)))))))"

definition waitForInteraction :: "nat \<Rightarrow> jsval \<Rightarrow> jsval option eff" where
  "waitForInteraction fuel interaction =
     ebind (eread interaction ''interactionId'') (\<lambda>interactionId.
     ebind (date_ms (jget interaction ''expiresAt'')) (\<lambda>deadline.
     wait_loop fuel (jget interaction ''runId'') interactionId deadline interaction))"

section \<open>Requests that several steps make\<close>

definition mark_state :: "string \<Rightarrow> string \<Rightarrow> jsval \<Rightarrow> jsval eff" where
  "mark_state runId status why = activity ''markAgentRunStateActivity''
     (JObj [(''runId'', JStr runId), (''status'', JStr status), (''reason'', why)])"

definition finalize_run ::
  "string \<Rightarrow> string \<Rightarrow> jsval \<Rightarrow> jsval \<Rightarrow> jsval \<Rightarrow> jsval option \<Rightarrow> jsval \<Rightarrow> jsval eff" where
  "finalize_run runId temporalRunId operation runtimeResult reconciliation capabilityEffects interactionOutcome =
     activity ''finalizeAgentRunActivity''
       (JObj ([(''runId'', JStr runId), (''temporalRunId'', JStr temporalRunId), (''operation'', operation),
               (''runtimeResult'', runtimeResult), (''reconciliation'', reconciliation)]
              @ (case capabilityEffects of Some es \<Rightarrow> [(''capabilityEffects'', es)] | None \<Rightarrow> [])
              @ [(''interactionOutcome'', interactionOutcome)]))"

definition record_observation :: "string \<Rightarrow> jsval \<Rightarrow> jsval \<Rightarrow> jsval eff" where
  "record_observation runId operation runtimeResult =
     (if strict_eq (jget runtimeResult ''providerBacked'') (JBool True)
         \<and> truthy (jget runtimeResult ''providerTerminalStatus'')
         \<and> jget runtimeResult ''providerTerminalStatus'' \<noteq> JStr ''UNKNOWN''
      then activity ''recordProviderObservationActivity''
        (JObj [(''runId'', JStr runId), (''operationId'', jget operation ''operationId''),
               (''turnId'', jget operation ''turnId''), (''runtimeResult'', runtimeResult)])
      else eret JUndef)"

section \<open>Recovery of a journaled operation\<close>

definition recovery_text :: "jsval \<Rightarrow> string \<Rightarrow> jsval" where
  "recovery_text recovery k = JStr (clean_text (jget recovery k))"

definition recovery_operation :: "string \<Rightarrow> jsval \<Rightarrow> string \<Rightarrow> jsval" where
  "recovery_operation runId recovery runtimeKind = JObj
     [(''operationId'', recovery_text recovery ''operationId''), (''turnId'', recovery_text recovery ''turnId''),
      (''sessionId'', recovery_text recovery ''sessionId''), (''runId'', JStr runId),
      (''runtimeKind'', JStr runtimeKind),
      (''runtimeMode'', JStr (if strict_eq (jget recovery ''runtimeMode'') (JStr ''PROVIDER_BACKED'')
         then ''PROVIDER_BACKED'' else ''FIXTURE'')),
      (''providerBacked'', JBool (strict_eq (jget recovery ''providerBacked'') (JBool True))),
      (''recoverySupported'', JBool (strict_eq (jget recovery ''recoverySupported'') (JBool True))),
      (''adapterVersion'', jor (jget recovery ''adapterVersion'') JNull),
      (''providerOperationReference'', recovery_text recovery ''providerOperationReference''),
      (''providerModel'', jor (jget recovery ''providerModel'') JNull),
      (''providerReasoningEffort'', jor (jget recovery ''providerReasoningEffort'') JNull),
      (''fakeRuntimeCaseId'', JNull), (''deadlineAt'', jor (jget recovery ''deadlineAt'') JNull)]"

definition is_integer :: "jsval \<Rightarrow> bool" where
  "is_integer v = (case v of JNum (Fin r) \<Rightarrow> of_int \<lfloor>r\<rfloor> = r | _ \<Rightarrow> False)"

definition recovery_runtime_input :: "string \<Rightarrow> jsval \<Rightarrow> jsval \<Rightarrow> jsval" where
  "recovery_runtime_input runId recovery operation = JObj
     [(''runId'', JStr runId), (''operationId'', jget operation ''operationId''),
      (''sessionId'', jget operation ''sessionId''), (''runtimeKind'', jget operation ''runtimeKind''),
      (''runtimeMode'', jget operation ''runtimeMode''), (''providerBacked'', jget operation ''providerBacked''),
      (''adapterVersion'', jget operation ''adapterVersion''),
      (''providerTurnId'', recovery_text recovery ''providerTurnId''),
      (''providerSessionReference'', recovery_text recovery ''providerSessionReference''),
      (''threadId'', recovery_text recovery ''threadId''),
      (''providerOperationReference'', jget operation ''providerOperationReference''),
      (''providerModel'', jget operation ''providerModel''),
      (''providerReasoningEffort'', jget operation ''providerReasoningEffort''),
      (''sessionBinding'', jor (jget operation ''sessionBinding'') JNull),
      (''deadlineAt'', jget operation ''deadlineAt''),
      (''timeoutMs'', if is_integer (jget recovery ''timeoutMs'') then jget recovery ''timeoutMs'' else jnat 120000),
      (''runtimeEvidenceBoundary'', jor (jget recovery ''runtimeEvidenceBoundary'') JNull)]"

definition dispatch_mode :: "jsval \<Rightarrow> jsval" where
  "dispatch_mode operation = JStr (if truthy (jget operation ''providerBacked'') then ''RUNTIME'' else ''CONTROL'')"

definition observation_failed :: "jsval \<Rightarrow> jsval \<Rightarrow> jsval \<Rightarrow> jsval" where
  "observation_failed operation runtimeInput err =
     obj_with (noRuntimeResult (jget operation ''runtimeKind'') ''NOT_REQUESTED'' operation)
       [(''sendAcceptance'', JStr ''UNKNOWN''), (''outcomeCertainty'', JStr ''UNKNOWN''),
        (''runtimeMode'', jget operation ''runtimeMode''), (''providerBacked'', jget operation ''providerBacked''),
        (''capabilityDispatchMode'', dispatch_mode operation),
        (''providerTurnId'', jor (jget runtimeInput ''providerTurnId'') JNull),
        (''providerSessionReference'', jor (jget runtimeInput ''providerSessionReference'') JNull),
        (''threadId'', jor (jget runtimeInput ''threadId'') JNull),
        (''providerOperationReference'', jget operation ''providerOperationReference''),
        (''recoveryRequired'', JBool True),
        (''providerErrorCode'', JStr (to_str (jor (jget err ''code'') (JStr ''RUNTIME_OPERATION_OBSERVATION_UNKNOWN''))))]"

definition recovered_result :: "jsval \<Rightarrow> jsval \<Rightarrow> jsval \<Rightarrow> jsval eff" where
  "recovered_result recovery operation runtimeInput =
     (let durable = jor (jget recovery ''durableTerminalObservation'') JNull
      in if validDurableTerminalObservation durable recovery
         then eret (obj_with durable
           [(''runtimeMode'', jget operation ''runtimeMode''), (''providerBacked'', jget operation ''providerBacked''),
            (''capabilityDispatchMode'', dispatch_mode operation),
            (''providerOperationReference'',
               jor (jget durable ''providerOperationReference'') (jget operation ''providerOperationReference'')),
            (''recoveryRequired'', JBool False)])
         else ecatch
           (ebind (activity ''observeRuntimeActivity'' runtimeInput) (\<lambda>observed.
            ebind (eread observed ''runtimeResult'') (\<lambda>r. eret (jor r observed))))
           (\<lambda>err. eret (observation_failed operation runtimeInput err)))"

definition recovered_reconciliation :: "jsval \<Rightarrow> jsval \<Rightarrow> jsval \<Rightarrow> jsval eff" where
  "recovered_reconciliation operation runtimeInput acceptance =
     (if strict_eq acceptance (JStr ''UNKNOWN'')
      then ecatch (activity ''reconcileRuntimeActivity'' runtimeInput)
        (\<lambda>err. eret (JObj
           [(''disposition'', JStr ''RECOVERY_REQUIRED''),
            (''operationReference'', jget operation ''providerOperationReference''),
            (''providerTurnId'', jor (jget runtimeInput ''providerTurnId'') JNull),
            (''providerSessionReference'', jor (jget runtimeInput ''providerSessionReference'') JNull),
            (''reason'', JStr (to_str (jor (jget err ''code'') (JStr ''RUNTIME_OPERATION_RECONCILIATION_UNKNOWN''))))]))
      else eret JNull)"

definition recoverProviderOperation :: "jsval \<Rightarrow> string \<Rightarrow> jsval eff" where
  "recoverProviderOperation input temporalRunId =
     (let recovery = jor (jget input ''recovery'') (JObj []); runId = clean_text (jget input ''runId'')
      in ebind (activity ''getAgentRunStateActivity'' (JObj [(''runId'', JStr runId)])) (\<lambda>currentState.
         if \<not> truthy currentState
         then ethrow (js_error ''Agent Run not found while recovering provider operation.'')
         else if jget currentState ''status'' \<in> set (map JStr TERMINAL_STATUSES)
         then eret (JObj [(''runId'', JStr runId), (''status'', jget currentState ''status''),
                          (''idempotent'', JBool True), (''recoveryStarted'', JBool False)])
         else (let runtimeKind = clean_text (jget recovery ''runtimeKind'')
         in if runtimeKind = []
         then ethrow (js_error ''Agent runtime identity is required while recovering a provider operation.'')
         else (let operation = recovery_operation runId recovery runtimeKind;
                   runtimeInput = recovery_runtime_input runId recovery operation
         in ebind (recovered_result recovery operation runtimeInput) (\<lambda>runtimeResult.
            ebind (record_observation runId operation runtimeResult) (\<lambda>_.
            ebind (eread runtimeResult ''sendAcceptance'') (\<lambda>acceptance.
            ebind (recovered_reconciliation operation runtimeInput acceptance) (\<lambda>reconciliation.
            ebind (activity ''getManagedCapabilityEffectsActivity'' (JObj [(''runId'', JStr runId)])) (\<lambda>effects.
            finalize_run runId temporalRunId operation runtimeResult reconciliation (Some effects) JNull)))))))))"


section \<open>Before the runtime\<close>

definition run_context :: "jsval \<Rightarrow> jsval" where
  "run_context input = jor (jget input ''executionContext'') (JObj [])"

definition runtime_case :: "jsval \<Rightarrow> jsval" where
  "runtime_case input = jor (jget input ''fakeRuntimeCase'') (JObj [])"

definition runtime_case_id :: "jsval \<Rightarrow> string" where
  "runtime_case_id input = clean_text (jget (runtime_case input) ''caseId'')"

definition canceled_before_start :: "string \<Rightarrow> string \<Rightarrow> jsval \<Rightarrow> jsval eff" where
  "canceled_before_start runId temporalRunId input =
     (let runtime = jget (run_context input) ''runtime''
      in if runtime = JNull then ethrow (type_error JNull ''providerBacked'')
         else finalize_run runId temporalRunId JNull
           (noRuntimeResult (jor (jget runtime ''runtimeKind'') (JStr ''FAKE_PERSISTENT'')) ''CONFIRMED'' runtime)
           JNull None (JStr ''CANCELED''))"

definition stopped_in_queue :: "control \<Rightarrow> jsval \<Rightarrow> bool" where
  "stopped_in_queue c state =
     (stopRequested c
      \<or> jget state ''status'' \<in> set (map JStr [''CANCEL_REQUESTED'', ''CANCELLING'', ''CANCELED''])
      \<or> \<not> strict_eq (jget state ''scopeStatus'') (JStr ''ACTIVE''))"

definition stop_text :: "control \<Rightarrow> string" where
  "stop_text c = (if stopRequested c then ''CONFIRMED'' else ''NOT_REQUESTED'')"

definition effect_list :: "jsval \<Rightarrow> jsval" where
  "effect_list managedCapability =
     JArr (if truthy (jget managedCapability ''effect'') then [jget managedCapability ''effect''] else [])"

text \<open>The end of a run whose runtime is never started after the operation was journaled.\<close>

definition finalize_unstarted ::
  "string \<Rightarrow> string \<Rightarrow> jsval \<Rightarrow> string \<Rightarrow> jsval option \<Rightarrow> jsval \<Rightarrow> jsval eff" where
  "finalize_unstarted runId temporalRunId operation stop capabilityEffects interactionOutcome =
     finalize_run runId temporalRunId operation
       (noRuntimeResult (jget operation ''runtimeKind'') stop operation) JNull capabilityEffects interactionOutcome"

definition with_suffix :: "jsval \<Rightarrow> string \<Rightarrow> jsval" where
  "with_suffix v ending = JStr (to_str v @ ending)"

definition responder_scope :: jsval where
  "responder_scope = JObj [(''mode'', JStr ''INITIATING_USER_OR_PROJECT_READER'')]"

definition approval_request :: "string \<Rightarrow> jsval \<Rightarrow> jsval \<Rightarrow> jsval \<Rightarrow> jsval" where
  "approval_request runId input operation managedCapability =
     (let effect = jget managedCapability ''effect''
      in JObj
       [(''runId'', JStr runId), (''interactionType'', JStr ''APPROVAL''),
        (''operationKind'', JStr ''MANAGED_CAPABILITY_APPROVAL''),
        (''operationId'', jget operation ''operationId''),
        (''capabilityEffectId'', jor (jget effect ''effectId'') JNull),
        (''operationKey'', jor (jget effect ''effectKey'') (with_suffix (jget operation ''operationKey'') '':approval'')),
        (''inputDigest'', jor (jget effect ''requestDigest'') (jget operation ''inputDigest'')),
        (''safePrompt'', JStr ''Approve the bounded read-only managed Browser capability for this Agent Run.''),
        (''policyRevision'', jor (jget effect ''policyRevision'') (JStr ''agent-policy.v1'')),
        (''eligibleResponderScope'', responder_scope),
        (''authorityEpoch'', jor (jget effect ''authorityEpoch'') (jget operation ''fenceEpoch'')),
        (''ttlMs'', jnat (if runtime_case_id input = ''approval-expiry'' then 1500 else 90 * 1000))])"

definition user_input_request :: "string \<Rightarrow> jsval \<Rightarrow> jsval" where
  "user_input_request runId operation = JObj
     [(''runId'', JStr runId), (''interactionType'', JStr ''USER_INPUT''),
      (''operationKind'', JStr ''FAKE_RUNTIME_USER_INPUT''),
      (''operationId'', jget operation ''operationId''),
      (''operationKey'', with_suffix (jget operation ''operationKey'') '':user-input''),
      (''inputDigest'', jget operation ''inputDigest''),
      (''safePrompt'', JStr ''Provide the bounded answer required by the fake runtime fixture.''),
      (''policyRevision'', JStr ''agent-policy.v1''), (''eligibleResponderScope'', responder_scope),
      (''authorityEpoch'', jget operation ''fenceEpoch'')]"

text \<open>Creating an interaction and waiting for it: the response of the creation and the result.\<close>

definition interact :: "nat \<Rightarrow> jsval \<Rightarrow> (jsval \<times> jsval) option eff" where
  "interact fuel request =
     ebind (activity ''createAgentInteractionActivity'' request) (\<lambda>created.
     ebind (eread created ''interaction'') (\<lambda>interaction.
     ebind (waitForInteraction fuel interaction) (\<lambda>result.
     eret (map_option (\<lambda>r. (created, r)) result))))"

section \<open>The runtime\<close>

definition managed_request :: "jsval \<Rightarrow> jsval \<Rightarrow> jsval" where
  "managed_request managedCapability interactionResult =
     (let request = jget managedCapability ''capabilityRequest''; effect = jget managedCapability ''effect''
      in if truthy request
         then obj_with request
           [(''credential'', jors [jget (jget interactionResult ''capabilityRequest'') ''credential'',
                                   jget request ''credential'', JNull])]
         else if truthy effect
         then JObj
           [(''effectId'', jget effect ''effectId''), (''effectKey'', jget effect ''effectKey''),
            (''audience'', JNull), (''capabilityKind'', jget effect ''capabilityKind''),
            (''capabilityCode'', jget effect ''capabilityCode''),
            (''capabilityVersion'', jget effect ''capabilityVersion''),
            (''requestDigest'', jget effect ''requestDigest''), (''credential'', JNull)]
         else JNull)"

definition case_of_run :: "jsval \<Rightarrow> jsval \<Rightarrow> jsval" where
  "case_of_run input operation = jor (jget operation ''fakeRuntimeCaseId'') (jget (runtime_case input) ''caseId'')"

definition runtime_input :: "string \<Rightarrow> jsval \<Rightarrow> jsval \<Rightarrow> jsval \<Rightarrow> jsval \<Rightarrow> bool \<Rightarrow> jsval" where
  "runtime_input runId input operation managedCapability interactionResult stop = JObj
     [(''runId'', JStr runId), (''operationId'', jget operation ''operationId''),
      (''sessionId'', jget operation ''sessionId''), (''instruction'', jget operation ''instruction''),
      (''runtimeKind'', jget operation ''runtimeKind''), (''runtimeMode'', jget operation ''runtimeMode''),
      (''providerBacked'', jget operation ''providerBacked''), (''adapterVersion'', jget operation ''adapterVersion''),
      (''providerOperationReference'', jget operation ''providerOperationReference''),
      (''deadlineAt'', jget operation ''deadlineAt''), (''providerModel'', jget operation ''providerModel''),
      (''providerReasoningEffort'', jget operation ''providerReasoningEffort''),
      (''managedCapabilityRequest'', managed_request managedCapability interactionResult),
      (''sessionBinding'', jor (jget operation ''sessionBinding'') JNull),
      (''caseId'', case_of_run input operation), (''cancellationRequested'', JBool stop),
      (''userInput'', jor (jget interactionResult ''input'') JNull)]"

definition provider_handles :: "jsval \<Rightarrow> jsval \<Rightarrow> (string \<times> jsval) list" where
  "provider_handles operation startResponse =
     [(''providerTurnId'', jget startResponse ''providerTurnId''),
      (''providerSessionReference'', jget startResponse ''providerSessionReference''),
      (''providerOperationReference'',
         jor (jget startResponse ''providerOperationReference'') (jget operation ''providerOperationReference'')),
      (''threadId'', jget startResponse ''threadId''),
      (''runtimeEvidenceBoundary'', jor (jget startResponse ''runtimeEvidenceBoundary'') JNull)]"

text \<open>The race of the observation with the stop: \<open>None\<close> when the stop wins.  When a stop arrives while the
  observation runs, either may settle first: the environment answers which.\<close>

definition observe_or_stop :: "jsval \<Rightarrow> jsval option eff" where
  "observe_or_stop observationInput =
     ebind get_control (\<lambda>before.
     ebind (etry (activity ''observeRuntimeActivity'' observationInput)) (\<lambda>observed.
     ebind get_control (\<lambda>after.
     if stopRequested before then eret None
     else if stopRequested after
     then ebind (etry (ask (AwaitDecision [] None))) (\<lambda>first.
            if first = Inr (JStr ''STOP'') then eret None else ebind (lift_res observed) (\<lambda>v. eret (Some v)))
     else ebind (lift_res observed) (\<lambda>v. eret (Some v)))))"

definition stopped_result :: "jsval \<Rightarrow> jsval \<Rightarrow> jsval \<Rightarrow> jsval \<Rightarrow> jsval" where
  "stopped_result operation startResponse interrupt terminalObservation =
     (let observed = jor (jget terminalObservation ''runtimeResult'') JNull;
          canceled = strict_eq (jget observed ''outcomeCertainty'') (JStr ''CANCELED'')
      in obj_with (jor observed startResponse)
        [(''runtimeMode'', jor (jget startResponse ''runtimeMode'') (jget operation ''runtimeMode'')),
         (''providerBacked'', JBool (strict_eq (jget startResponse ''providerBacked'') (JBool True))),
         (''physicalStop'', jors [jget interrupt ''physicalStop'', jget observed ''physicalStop'',
            JObj [(''state'', JStr ''UNCONFIRMED''), (''evidence'', JStr ''provider_stop_confirmation_unavailable'')]]),
         (''terminalConfirmation'', JStr (if canceled then ''CONFIRMED'' else ''UNKNOWN'')),
         (''recoveryRequired'', JBool (\<not> canceled))])"

definition stop_turn :: "string \<Rightarrow> jsval \<Rightarrow> jsval \<Rightarrow> jsval \<Rightarrow> jsval eff" where
  "stop_turn runId operation startResponse observationInput =
     ebind get_control (\<lambda>c.
     ebind (mark_state runId ''CANCELLING'' (jor (reason c) (JStr ''provider_turn_stop_requested''))) (\<lambda>_.
     ebind (etry (activity ''interruptRuntimeActivity'' observationInput)) (\<lambda>interrupted.
     case interrupted of
       Inl _ \<Rightarrow> eret (stopped_result operation startResponse JNull JNull)
     | Inr interrupt \<Rightarrow>
         ebind clock (\<lambda>t.
         ebind (etry (activity ''observeRuntimeActivity''
           (obj_with observationInput
             [(''timeoutMs'', jnat 15000), (''deadlineAt'', JStr (iso_text (t + 15000)))]))) (\<lambda>observed.
         eret (stopped_result operation startResponse interrupt
                 (case observed of Inr v \<Rightarrow> v | Inl _ \<Rightarrow> JNull)))))))"

definition start_runtime :: "string \<Rightarrow> jsval \<Rightarrow> jsval \<Rightarrow> jsval eff" where
  "start_runtime runId operation runtimeInput =
     ebind (activity ''startRuntimeActivity'' runtimeInput) (\<lambda>startResponse.
     ebind (eread startResponse ''observationRequired'') (\<lambda>observationRequired.
     if strict_eq observationRequired (JBool True)
     then ebind (activity ''recordProviderAcceptanceActivity''
            (JObj ([(''runId'', JStr runId), (''operationId'', jget operation ''operationId''),
                    (''turnId'', jget operation ''turnId'')] @ provider_handles operation startResponse))) (\<lambda>_.
          (let observationInput = obj_with runtimeInput (provider_handles operation startResponse)
           in ebind (observe_or_stop observationInput) (\<lambda>winner.
              case winner of
                None \<Rightarrow> stop_turn runId operation startResponse observationInput
              | Some v \<Rightarrow> eret (jor (jget v ''runtimeResult'') v))))
     else eret (jor (jget startResponse ''runtimeResult'') startResponse)))"


section \<open>Capability effects and evidence\<close>

definition dispatch_request :: "jsval \<Rightarrow> jsval \<Rightarrow> jsval \<Rightarrow> jsval \<Rightarrow> string \<Rightarrow> jsval \<Rightarrow> jsval" where
  "dispatch_request managedCapability interactionResult runtimeResult invocation caseId effectId = JObj
     [(''effectId'', jor (jget invocation ''effectId'') effectId),
      (''credential'', jors [jget invocation ''credential'',
         jget (jget interactionResult ''capabilityRequest'') ''credential'',
         jget (jget managedCapability ''capabilityRequest'') ''credential'', JNull]),
      (''runtimeWorker'', jor (jget runtimeResult ''worker'') JNull),
      (''simulateUnknownDispatch'', JBool (caseId = ''browser-capability-unknown-dispatch''))]"

fun dispatch_all :: "(jsval \<Rightarrow> jsval) \<Rightarrow> jsval list \<Rightarrow> jsval list eff" where
  "dispatch_all request [] = eret []"
| "dispatch_all request (invocation # invocations) =
     ebind (eread invocation ''effectId'') (\<lambda>_.
     ebind (activity ''dispatchManagedCapabilityActivity'' (request invocation)) (\<lambda>effect.
     ebind (dispatch_all request invocations) (\<lambda>effects. eret (effect # effects))))"

definition revoke_before_dispatch :: "string \<Rightarrow> string \<Rightarrow> jsval \<Rightarrow> bool eff" where
  "revoke_before_dispatch runId caseId effectId =
     (if caseId = ''browser-capability-revoked-before-dispatch''
      then ebind (activity ''revokeManagedCapabilityBeforeDispatchActivity''
             (JObj [(''runId'', JStr runId), (''effectId'', effectId)])) (\<lambda>_. eret True)
      else eret False)"

definition spread_items :: "jsval \<Rightarrow> jsval list res" where
  "spread_items v =
     (case v of JArr vs \<Rightarrow> Inr vs
      | JStr s \<Rightarrow> Inr (map (\<lambda>c. JStr [c]) s)
      | _ \<Rightarrow> Inl (JObj [(''name'', JStr ''TypeError''), (''message'', JStr (to_str v @ '' is not iterable''))]))"

text \<open>The effects of the capabilities that the runtime asked for, and whether the run revoked itself.\<close>

definition capability_effects ::
  "string \<Rightarrow> string \<Rightarrow> jsval \<Rightarrow> jsval \<Rightarrow> jsval \<Rightarrow> jsval list \<Rightarrow> (jsval list \<times> bool) eff" where
  "capability_effects runId caseId managedCapability interactionResult runtimeResult invocations =
     (let effectId = jget (jget managedCapability ''effect'') ''effectId'';
          byRuntime = strict_eq (jget runtimeResult ''capabilityDispatchMode'') (JStr ''RUNTIME'')
      in if \<not> truthy effectId \<or> invocations = [] then eret ([], False)
         else if byRuntime
         then ebind (activity ''getManagedCapabilityEffectsActivity'' (JObj [(''runId'', JStr runId)])) (\<lambda>recorded.
              ebind (lift_res (spread_items recorded)) (\<lambda>effects. eret (effects, False)))
         else ebind (revoke_before_dispatch runId caseId effectId) (\<lambda>revoked.
              ebind (dispatch_all
                (\<lambda>invocation. dispatch_request managedCapability interactionResult runtimeResult invocation caseId effectId)
                invocations) (\<lambda>effects. eret (effects, revoked))))"

definition invocation_keys :: "string list" where
  "invocation_keys = [''effectId'', ''effectKey'', ''audience'', ''capabilityKind'', ''capabilityCode'',
     ''capabilityVersion'', ''requestDigest'', ''deliveryIndex'']"

definition redact_invocation :: "jsval \<Rightarrow> jsval res" where
  "redact_invocation invocation =
     rbind (jread invocation ''effectId'') (\<lambda>_.
     Inr (JObj (map (\<lambda>k. (k, jor (jget invocation k) JNull)) invocation_keys)))"

definition executed_keys :: "string list" where
  "executed_keys = [''effectId'', ''capabilityKind'', ''capabilityCode'', ''authorityDecision'', ''dispatchState'',
     ''outcomeCertainty'', ''browserAutomationRunId'', ''nativeBrowserWorkflowId'', ''browserResult'']"

definition executed_capability :: "jsval \<Rightarrow> jsval res" where
  "executed_capability effect =
     rbind (jread effect ''effectId'') (\<lambda>_.
     Inr (JObj (map (\<lambda>k. (k, jor (jget effect k) JNull)) executed_keys
                @ [(''replayed'', JBool (truthy (jget effect ''replayed''))),
                   (''denied'', JBool (truthy (jget effect ''denied'')))])))"

definition redacted_output :: "jsval \<Rightarrow> jsval list \<Rightarrow> jsval res" where
  "redacted_output taskOutput effects =
     (if truthy taskOutput
      then rbind (rmap executed_capability effects)
             (\<lambda>executed. Inr (obj_with taskOutput [(''capabilitiesExecuted'', JArr executed)]))
      else Inr taskOutput)"

definition redacted_result :: "jsval \<Rightarrow> jsval list \<Rightarrow> jsval list \<Rightarrow> jsval res" where
  "redacted_result runtimeResult invocations effects =
     rbind (rmap redact_invocation invocations) (\<lambda>redacted.
     rbind (redacted_output (jget runtimeResult ''taskOutputCandidate'') effects) (\<lambda>output.
     Inr (obj_with runtimeResult
       ([(''capabilityInvocations'', JArr redacted), (''taskOutputCandidate'', output)]
        @ (if truthy (jget runtimeResult ''policyViolation'')
           then [(''sendAcceptance'', JStr ''REJECTED_BEFORE_ACCEPTANCE''),
                 (''outcomeCertainty'', JStr ''REJECTED''), (''taskOutputCandidate'', JNull)]
           else [])))))"

definition reconcile_send :: "string \<Rightarrow> jsval \<Rightarrow> jsval \<Rightarrow> jsval \<Rightarrow> jsval eff" where
  "reconcile_send runId input operation runtimeResult =
     (if strict_eq (jget runtimeResult ''sendAcceptance'') (JStr ''UNKNOWN'')
      then ebind (mark_state runId ''RECONCILING'' (JStr ''runtime_send_acceptance_unknown'')) (\<lambda>_.
           activity ''reconcileRuntimeActivity'' (JObj
             [(''runId'', JStr runId), (''operationId'', jget operation ''operationId''),
              (''providerTurnId'', jget runtimeResult ''providerTurnId''),
              (''providerSessionReference'', jget runtimeResult ''providerSessionReference''),
              (''providerOperationReference'', jor (jget runtimeResult ''providerOperationReference'')
                 (jget operation ''providerOperationReference'')),
              (''providerModel'', jget operation ''providerModel''),
              (''providerReasoningEffort'', jget operation ''providerReasoningEffort''),
              (''runtimeKind'', jget operation ''runtimeKind''), (''runtimeMode'', jget operation ''runtimeMode''),
              (''providerBacked'', jget operation ''providerBacked''), (''caseId'', case_of_run input operation)]))
      else eret JNull)"

definition close_run :: "string \<Rightarrow> jsval \<Rightarrow> jsval \<Rightarrow> bool \<Rightarrow> unit eff" where
  "close_run runId runtimeResult reconciliation stop =
     (let managed = truthy (jget runtimeResult ''providerBacked'')
      in if \<not> stop \<and> \<not> strict_eq (jget reconciliation ''disposition'') (JStr ''RECOVERY_REQUIRED'')
         then ebind (mark_state runId ''CLOSING''
                (JStr (if managed then ''managed_provider_evidence_received'' else ''fake_runtime_evidence_received''))) (\<lambda>_.
              ebind (mark_state runId ''FINALIZING''
                (JStr (if managed then ''validating_managed_provider_result'' else ''validating_fake_runtime_result'')))
              (\<lambda>_. eret ()))
         else eret ())"

definition settled_outcome :: "jsval \<Rightarrow> jsval" where
  "settled_outcome interactionResult =
     (if strict_eq (jget interactionResult ''applicationStatus'') (JStr ''APPLIED'') then JNull
      else jor (jget interactionResult ''applicationStatus'') JNull)"

text \<open>From the answer of the runtime to the end of the run.\<close>

definition after_runtime ::
  "string \<Rightarrow> string \<Rightarrow> jsval \<Rightarrow> jsval \<Rightarrow> jsval \<Rightarrow> jsval \<Rightarrow> jsval \<Rightarrow> jsval eff" where
  "after_runtime runId temporalRunId input operation managedCapability interactionResult runtimeResult =
     ebind (record_observation runId operation runtimeResult) (\<lambda>_.
     ebind (eread runtimeResult ''capabilityInvocations'') (\<lambda>requested.
     ebind (capability_effects runId (runtime_case_id input) managedCapability interactionResult runtimeResult
              (arr_items requested)) (\<lambda>(effects, revoked).
     ebind (lift_res (redacted_result runtimeResult (arr_items requested) effects)) (\<lambda>redacted.
     ebind (reconcile_send runId input operation runtimeResult) (\<lambda>reconciliation.
     ebind get_control (\<lambda>c.
     ebind (close_run runId runtimeResult reconciliation (stopRequested c \<or> revoked)) (\<lambda>_.
     finalize_run runId temporalRunId operation redacted reconciliation (Some (JArr effects))
       (settled_outcome interactionResult))))))))"

section \<open>The workflow\<close>

definition run_operation ::
  "string \<Rightarrow> string \<Rightarrow> jsval \<Rightarrow> jsval \<Rightarrow> jsval \<Rightarrow> jsval \<Rightarrow> jsval \<Rightarrow> jsval eff" where
  "run_operation runId temporalRunId input operation managedCapability interaction interactionResult =
     ebind get_control (\<lambda>c.
     if stopRequested c
     then finalize_unstarted runId temporalRunId operation ''CONFIRMED'' (Some (effect_list managedCapability))
            (JStr ''CANCELED'')
     else ebind (mark_state runId ''RUNNING'' (JStr
            (if strict_eq (jget operation ''providerBacked'') (JBool True) then ''managed_runtime_operation_starting''
             else if truthy interaction then ''durable_interaction_applied'' else ''fake_runtime_operation_started''))) (\<lambda>_.
          ebind get_control (\<lambda>c'.
          ebind (start_runtime runId operation
                   (runtime_input runId input operation managedCapability interactionResult (stopRequested c'))) (\<lambda>runtimeResult.
          after_runtime runId temporalRunId input operation managedCapability interactionResult runtimeResult))))"

text \<open>A run that needs an interaction: it goes on only when the decision was applied.\<close>

definition with_interaction ::
  "nat \<Rightarrow> string \<Rightarrow> string \<Rightarrow> jsval \<Rightarrow> jsval \<Rightarrow> jsval \<Rightarrow> jsval \<Rightarrow> jsval option \<Rightarrow> jsval option eff" where
  "with_interaction fuel runId temporalRunId input operation managedCapability request unappliedEffects =
     ebind (interact fuel request) (\<lambda>waited.
     case waited of
       None \<Rightarrow> eret None
     | Some (interaction, result) \<Rightarrow>
         ebind (eread result ''applicationStatus'') (\<lambda>status.
         if status = JStr ''APPLIED''
         then ebind (run_operation runId temporalRunId input operation managedCapability interaction result)
                (\<lambda>v. eret (Some v))
         else ebind get_control (\<lambda>c.
              ebind (finalize_unstarted runId temporalRunId operation (stop_text c) unappliedEffects status)
                (\<lambda>v. eret (Some v)))))"

definition prepare_capability :: "string \<Rightarrow> jsval \<Rightarrow> jsval \<Rightarrow> jsval eff" where
  "prepare_capability runId operation managedCapabilityCase =
     (if truthy managedCapabilityCase
      then activity ''prepareManagedCapabilityEffectActivity''
        (JObj [(''runId'', JStr runId), (''operationId'', jget operation ''operationId''),
               (''turnId'', jget operation ''turnId''), (''caseId'', managedCapabilityCase)])
      else eret JNull)"

definition case_needing_capability :: "jsval \<Rightarrow> jsval" where
  "case_needing_capability input =
     (if runtime_case_id input \<in> set MANAGED_CAPABILITY_CASES then JStr (runtime_case_id input) else JNull)"

definition run_prepared :: "nat \<Rightarrow> string \<Rightarrow> string \<Rightarrow> jsval \<Rightarrow> jsval \<Rightarrow> jsval \<Rightarrow> jsval option eff" where
  "run_prepared fuel runId temporalRunId input operation managedCapability =
     (if strict_eq (jget operation ''providerBacked'') (JBool True)
         \<and> \<not> strict_eq (jget managedCapability ''decision'') (JStr ''ALLOW'')
      then ebind get_control (\<lambda>c.
           ebind (finalize_unstarted runId temporalRunId operation (stop_text c)
                    (Some (effect_list managedCapability)) (JStr ''BLOCKED'')) (\<lambda>v. eret (Some v)))
      else if strict_eq (jget managedCapability ''decision'') (JStr ''EXPLICIT_APPROVAL_REQUIRED'')
      then with_interaction fuel runId temporalRunId input operation managedCapability
             (approval_request runId input operation managedCapability) (Some (effect_list managedCapability))
      else if runtime_case_id input \<in> set USER_INPUT_CASES
      then with_interaction fuel runId temporalRunId input operation managedCapability
             (user_input_request runId operation) None
      else ebind (run_operation runId temporalRunId input operation managedCapability JNull JNull)
             (\<lambda>v. eret (Some v)))"

definition run_started :: "nat \<Rightarrow> string \<Rightarrow> string \<Rightarrow> jsval \<Rightarrow> jsval option eff" where
  "run_started fuel runId temporalRunId input =
     ebind (mark_state runId ''STARTING'' (JStr ''agent_run_workflow_starting'')) (\<lambda>_.
     ebind (activity ''prepareProviderOperationActivity''
       (JObj [(''runId'', JStr runId), (''instruction'', jor (jget input ''instruction'') (JStr [])),
              (''deadlineAt'', jor (jget input ''deadlineAt'') JNull)])) (\<lambda>operation.
     ebind (eread operation ''managedCapabilityCase'') (\<lambda>operationCase.
     ebind get_control (\<lambda>c.
     if truthy (jget operation ''canceled'') \<or> stopRequested c
     then ebind (canceled_before_start runId temporalRunId input) (\<lambda>v. eret (Some v))
     else ebind (prepare_capability runId operation (jor operationCase (case_needing_capability input)))
            (run_prepared fuel runId temporalRunId input operation)))))"

definition run_queued :: "nat \<Rightarrow> string \<Rightarrow> string \<Rightarrow> jsval \<Rightarrow> jsval option eff" where
  "run_queued fuel runId temporalRunId input =
     ebind (mark_state runId ''QUEUED'' (JStr ''temporal_workflow_started'')) (\<lambda>_.
     ebind (activity ''getAgentRunStateActivity'' (JObj [(''runId'', JStr runId)])) (\<lambda>state.
     ebind get_control (\<lambda>c.
     if stopped_in_queue c state
     then ebind (canceled_before_start runId temporalRunId input) (\<lambda>v. eret (Some v))
     else run_started fuel runId temporalRunId input)))"

definition agentRunWorkflow :: "nat \<Rightarrow> string \<Rightarrow> jsval \<Rightarrow> jsval option eff" where
  "agentRunWorkflow fuel temporalRunId argument =
     (let input = (if argument = JUndef then JObj [] else argument)
      in ebind (eread input ''runId'') (\<lambda>given.
         let runId = clean_text given
         in if runId = [] then ethrow (js_error ''Agent Run workflow requires a server-derived runId.'')
            else if strict_eq (jget (jget input ''recovery'') ''mode'') (JStr ''OBSERVE_PROVIDER_OPERATION'')
            then ebind (recoverProviderOperation input temporalRunId) (\<lambda>v. eret (Some v))
            else run_queued fuel runId temporalRunId input))"

end
