(* ===== verification/AgentRunGuarantees.thy ===== *)
theory AgentRunGuarantees
  imports AgentRunWorkflow
begin

text \<open>
  What the durable workflow of an agent run guarantees against every environment: how it ends, what the runtime
  is told, in which order it marks the states of the run, what leaves the workflow about capability
  invocations, and that waiting for a person ends.
\<close>

section \<open>Requests of the steps\<close>

text \<open>Whatever a predicate on requests is, these steps only make the requests named here.\<close>

lemma only_get_control [run_intros]: "only P get_control"
  unfolding get_control_def by (intro run_intros)

lemma only_date_ms [run_intros]: "only P (date_ms v)"
  unfolding date_ms_def by (auto intro!: run_intros split: jsval.splits jsnum.splits)

lemma only_option_case [run_intros]:
  "only P m \<Longrightarrow> (\<And>x. only P (f x)) \<Longrightarrow> only P (case v of None \<Rightarrow> m | Some x \<Rightarrow> f x)"
  by (cases v) auto

lemma only_sum_case [run_intros]:
  "(\<And>x. only P (f x)) \<Longrightarrow> (\<And>x. only P (g x)) \<Longrightarrow> only P (case v of Inl x \<Rightarrow> f x | Inr x \<Rightarrow> g x)"
  by (cases v) auto

lemma only_prod_case [run_intros]: "(\<And>x y. only P (f x y)) \<Longrightarrow> only P (case v of (x, y) \<Rightarrow> f x y)"
  by (cases v) auto

lemma only_await: "P (AwaitDecision ks d) \<Longrightarrow> only P (ask (AwaitDecision ks d))"
  by (rule only_ask)

text \<open>The activities that finalize, start and mark a run.\<close>

abbreviation finalizes :: "request \<Rightarrow> bool" where
  "finalizes \<equiv> is_act ''finalizeAgentRunActivity''"

abbreviation starts_runtime :: "request \<Rightarrow> bool" where
  "starts_runtime \<equiv> is_act ''startRuntimeActivity''"

abbreviation marks_state :: "request \<Rightarrow> bool" where
  "marks_state \<equiv> is_act ''markAgentRunStateActivity''"

definition interaction_request :: "request \<Rightarrow> bool" where
  "interaction_request q =
     (case q of Act n a \<Rightarrow> n \<in> set [''cancelAgentInteractionsActivity'', ''expireAgentInteractionActivity'',
        ''loadAgentInteractionActivity'', ''acknowledgeAgentInteractionDeliveryActivity'',
        ''applyAgentInteractionDecisionActivity'', ''createAgentInteractionActivity'']
      | AwaitDecision ks d \<Rightarrow> True | _ \<Rightarrow> False)"

lemma interaction_request_simps [simp]:
  "interaction_request (Act ''cancelAgentInteractionsActivity'' a)"
  "interaction_request (Act ''expireAgentInteractionActivity'' a)"
  "interaction_request (Act ''loadAgentInteractionActivity'' a)"
  "interaction_request (Act ''acknowledgeAgentInteractionDeliveryActivity'' a)"
  "interaction_request (Act ''applyAgentInteractionDecisionActivity'' a)"
  "interaction_request (Act ''createAgentInteractionActivity'' a)"
  "interaction_request (AwaitDecision ks d)"
  by (simp_all add: interaction_request_def)

lemma interaction_request_other:
  "interaction_request q \<Longrightarrow> \<not> finalizes q \<and> \<not> starts_runtime q \<and> \<not> marks_state q"
  by (auto simp: interaction_request_def is_act_def split: request.splits)

lemma wait_loop_requests: "only interaction_request (wait_loop n runId i d l)"
  by (induction n arbitrary: l)
    (auto intro!: run_intros only_await simp: deliver_decision_def Let_def)

lemma interact_requests: "only interaction_request (interact fuel request)"
  unfolding interact_def waitForInteraction_def
  by (intro run_intros wait_loop_requests) simp_all

text \<open>Requests that neither finalize, start nor mark.\<close>

definition aside :: "request \<Rightarrow> bool" where
  "aside q = (\<not> finalizes q \<and> \<not> starts_runtime q \<and> \<not> marks_state q)"

lemma aside_await [simp]: "aside (AwaitDecision ks d)"
  by (simp add: aside_def)

lemma aside_act [simp]:
  "aside (Act n a) = (n \<noteq> ''finalizeAgentRunActivity'' \<and> n \<noteq> ''startRuntimeActivity'' \<and> n \<noteq> ''markAgentRunStateActivity'')"
  by (simp add: aside_def)

lemma interact_aside: "only aside (interact fuel request)"
  by (rule only_mono [OF interact_requests]) (simp add: aside_def interaction_request_other)

lemma record_observation_aside: "only aside (record_observation runId operation v)"
  unfolding record_observation_def by (auto intro!: run_intros)

lemma dispatch_all_aside: "only aside (dispatch_all request invocations)"
  by (induction invocations) (auto intro!: run_intros)

lemma capability_effects_aside: "only aside (capability_effects runId c mc ir rr invs)"
  unfolding capability_effects_def revoke_before_dispatch_def Let_def
  by (auto intro!: run_intros dispatch_all_aside)

lemma prepare_capability_aside: "only aside (prepare_capability runId operation c)"
  unfolding prepare_capability_def by (auto intro!: run_intros)

lemma observe_or_stop_aside: "only aside (observe_or_stop v)"
  unfolding observe_or_stop_def by (auto intro!: run_intros only_await)

lemma recovered_result_aside: "only aside (recovered_result recovery operation v)"
  unfolding recovered_result_def Let_def by (auto intro!: run_intros)

lemma recovered_reconciliation_aside: "only aside (recovered_reconciliation operation v acceptance)"
  unfolding recovered_reconciliation_def by (auto intro!: run_intros)

lemmas aside_steps = interact_aside record_observation_aside capability_effects_aside prepare_capability_aside
  observe_or_stop_aside recovered_result_aside recovered_reconciliation_aside

lemma aside_not: "only aside m \<Longrightarrow> only (\<lambda>q. \<not> finalizes q) m" "only aside m \<Longrightarrow> only (\<lambda>q. \<not> starts_runtime q) m"
  by (auto elim!: only_mono simp: aside_def)

lemma mark_state_requests: "only marks_state (mark_state runId status why)"
  unfolding mark_state_def by (intro run_intros) simp

lemma stop_turn_requests: "only (\<lambda>q. marks_state q \<or> aside q) (stop_turn runId operation v w)"
  unfolding stop_turn_def mark_state_def by (auto intro!: run_intros)

lemma reconcile_requests: "only (\<lambda>q. marks_state q \<or> aside q) (reconcile_send runId input operation v)"
  unfolding reconcile_send_def mark_state_def by (auto intro!: run_intros)

lemma close_requests: "only marks_state (close_run runId v w b)"
  unfolding close_run_def mark_state_def Let_def by (auto intro!: run_intros)

lemma marks_not: "marks_state q \<Longrightarrow> \<not> finalizes q \<and> \<not> starts_runtime q"
  by (auto simp: is_act_def split: request.splits)

section \<open>How a run ends\<close>

definition ended :: "(jsval \<Rightarrow> 'a) \<Rightarrow> ('a \<Rightarrow> bool) \<Rightarrow> step list \<Rightarrow> jsval + 'a \<Rightarrow> bool" where
  "ended emb excused t r =
     (answers finalizes t = [] \<and> (case r of Inl _ \<Rightarrow> True | Inr x \<Rightarrow> excused x)
      \<or> (\<exists>t' s. t = t' @ [s] \<and> finalizes (req s) \<and> answers finalizes t' = []
            \<and> r = map_sum id emb (resp s)))"

abbreviation finalizing :: "jsval eff \<Rightarrow> bool" where
  "finalizing m \<equiv> runs m (\<lambda>h. ended id (\<lambda>_. False))"

lemma ended_after:
  assumes m: "only (\<lambda>q. \<not> finalizes q) m" and f: "\<And>x. runs (f x) (\<lambda>h. ended emb excused)"
  shows "runs (ebind m f) (\<lambda>h. ended emb excused)"
proof (rule runs_bind [OF only_answers [OF m] f])
  show "ended emb excused t (Inl v)" if "answers finalizes t = []" for t v
    using that by (simp add: ended_def)
  show "ended emb excused (t @ t') r" if "answers finalizes t = []" "ended emb excused t' r" for t t' r
    using that unfolding ended_def by fastforce
qed

lemma ended_eret: "excused x \<Longrightarrow> runs (eret x) (\<lambda>h. ended emb excused)"
  by (rule runs_eret) (simp add: ended_def)

lemma ended_ethrow: "runs (ethrow v) (\<lambda>h. ended emb excused)"
  by (rule runs_ethrow) (simp add: ended_def)

lemma finalize_run_ends: "runs (finalize_run runId tr operation rr rc es io) (\<lambda>h. ended id excused)"
  unfolding finalize_run_def activity_def
  by (rule runs_ask) (auto simp: ended_def sum.map_id)

lemma ended_some:
  assumes "finalizing m"
  shows "runs (ebind m (\<lambda>v. eret (Some v))) (\<lambda>h. ended Some excused)"
  by (rule runs_bind [OF assms, where R = "\<lambda>v h t r. t = [] \<and> r = Inr (Some v)"])
    (auto intro: runs_eret simp: ended_def sum.map_id dest!: sym [of _ "resp _"])

lemma finalizes_not_aside: "only aside m \<Longrightarrow> only (\<lambda>q. \<not> finalizes q) m"
  "only marks_state m \<Longrightarrow> only (\<lambda>q. \<not> finalizes q) m"
  "only (\<lambda>q. marks_state q \<or> aside q) m \<Longrightarrow> only (\<lambda>q. \<not> finalizes q) m"
  by (auto elim!: only_mono simp: aside_def dest: marks_not)

lemma start_runtime_not_final: "only (\<lambda>q. \<not> finalizes q) (start_runtime runId operation v)"
  unfolding start_runtime_def Let_def
  by (intro run_intros finalizes_not_aside(1) [OF observe_or_stop_aside] finalizes_not_aside(3) [OF stop_turn_requests]) simp_all

lemmas not_final = run_intros mark_state_requests [THEN finalizes_not_aside(2)] close_requests [THEN finalizes_not_aside(2)]
  reconcile_requests [THEN finalizes_not_aside(3)] aside_steps [THEN finalizes_not_aside(1)] start_runtime_not_final

lemma ended_if:
  "(c \<Longrightarrow> runs m (\<lambda>h. ended emb excused)) \<Longrightarrow> (\<not> c \<Longrightarrow> runs m' (\<lambda>h. ended emb excused))
     \<Longrightarrow> runs (if c then m else m') (\<lambda>h. ended emb excused)"
  by simp

lemma ended_prod: "(\<And>x y. runs (f x y) (\<lambda>h. ended emb excused)) \<Longrightarrow> runs (case v of (x, y) \<Rightarrow> f x y) (\<lambda>h. ended emb excused)"
  by (cases v) auto

lemmas ending = ended_if ended_prod ended_some finalize_run_ends ended_ethrow ended_after [OF only_get_control]
  ended_after [OF only_eread] ended_after [OF only_lift_res]
  mark_state_requests [THEN finalizes_not_aside(2), THEN ended_after]
  close_requests [THEN finalizes_not_aside(2), THEN ended_after]
  reconcile_requests [THEN finalizes_not_aside(3), THEN ended_after]
  aside_steps [THEN finalizes_not_aside(1), THEN ended_after] ended_after [OF start_runtime_not_final]

lemma after_runtime_ends: "finalizing (after_runtime runId tr input operation mc ir rr)"
  unfolding after_runtime_def by (intro ending)

lemma run_operation_ends: "finalizing (run_operation runId tr input operation mc i ir)"
  unfolding run_operation_def finalize_unstarted_def by (intro ending after_runtime_ends)

lemma canceled_before_start_ends: "finalizing (canceled_before_start runId tr input)"
  unfolding canceled_before_start_def Let_def by (intro ending)

lemma recover_ends:
  "runs (recoverProviderOperation input tr) (\<lambda>h. ended id (\<lambda>v. jget v ''idempotent'' = JBool True))"
  unfolding recoverProviderOperation_def Let_def
  by (rule ended_after) (auto intro!: ending run_intros ended_after [of "activity n a" for n a] ended_eret)


lemma run_prepared_ends:
  "runs (run_prepared fuel runId tr input operation mc) (\<lambda>h. ended Some (\<lambda>v. v = None))"
proof -
  have gate: "runs (with_interaction fuel runId tr input operation mc request es) (\<lambda>h. ended Some (\<lambda>v. v = None))" for request es
    unfolding with_interaction_def finalize_unstarted_def
    by (rule ended_after [OF aside_not(1) [OF interact_aside]])
      (auto split: option.splits intro!: ending ended_eret run_operation_ends)
  show ?thesis
    unfolding run_prepared_def finalize_unstarted_def by (intro ending gate run_operation_ends)
qed

lemma run_queued_ends: "runs (run_queued fuel runId tr input) (\<lambda>h. ended Some (\<lambda>v. v = None))"
proof -
  have started: "runs (run_started fuel runId tr input) (\<lambda>h. ended Some (\<lambda>v. v = None))"
    unfolding run_started_def
    by (intro ending canceled_before_start_ends run_prepared_ends ended_after [OF only_activity]) simp
  show ?thesis
    unfolding run_queued_def
    by (intro ending canceled_before_start_ends started ended_after [OF only_activity]) simp
qed

definition already_settled :: "jsval option \<Rightarrow> bool" where
  "already_settled v = (case v of None \<Rightarrow> True | Some w \<Rightarrow> jget w ''idempotent'' = JBool True)"

text \<open>C8 (agent_run_settles): A run of the workflow asks for its finalization at most once, as its very last request, and then
  ends as that request ends.  Otherwise it throws, is still waiting for a person when the fuel is used up, or reports
  that the run it should recover had ended before.\<close>

theorem agent_run_settles:
  "runs (agentRunWorkflow fuel temporalRunId argument) (\<lambda>h. ended Some already_settled)"
proof -
  have recovered: "runs (ebind (recoverProviderOperation input tr) (\<lambda>v. eret (Some v))) (\<lambda>h. ended Some already_settled)"
    for input tr
    by (rule runs_bind [OF recover_ends, where R = "\<lambda>v h t r. t = [] \<and> r = Inr (Some v)"])
      (auto intro: runs_eret simp: ended_def already_settled_def sum.map_id dest!: sym [of _ "resp _"])
  have fresh: "runs (run_queued fuel runId tr input) (\<lambda>h. ended Some already_settled)" for runId tr input
    by (rule runs_weaken [OF run_queued_ends]) (auto simp: ended_def already_settled_def split: sum.splits)
  show ?thesis
    unfolding agentRunWorkflow_def Let_def by (intro ending recovered fresh)
qed

section \<open>What the runtime is told\<close>

fun told_of_stop :: "hist \<Rightarrow> step list \<Rightarrow> bool" where
  "told_of_stop h [] = True"
| "told_of_stop h (s # t) =
     ((case req s of
         Act n a \<Rightarrow> (if n = ''startRuntimeActivity''
           then jget a ''cancellationRequested'' = JBool (stopRequested (control_of h)) else True)
       | _ \<Rightarrow> True) \<and> told_of_stop (h @ [s]) t)"

lemma told_append: "told_of_stop h (t @ t') = (told_of_stop h t \<and> told_of_stop (h @ t) t')"
  by (induction t arbitrary: h) auto

lemma told_silent: "\<forall>s \<in> set t. \<not> starts_runtime (req s) \<Longrightarrow> told_of_stop h t"
  by (induction t arbitrary: h) (auto split: request.splits)

definition told :: "hist \<Rightarrow> step list \<Rightarrow> bool" where
  "told h t = (told_of_stop h t \<and> length (answers starts_runtime t) \<le> 1)"

abbreviation telling :: "'a eff \<Rightarrow> bool" where
  "telling m \<equiv> runs m (\<lambda>h t r. told h t)"

lemma told_only: "only (\<lambda>q. \<not> starts_runtime q) m \<Longrightarrow> runs m (\<lambda>h t r. told_of_stop h t \<and> answers starts_runtime t = [])"
  unfolding only_def by (erule runs_weaken) (auto intro: told_silent answers_none)

lemma telling_only: "only (\<lambda>q. \<not> starts_runtime q) m \<Longrightarrow> telling m"
  by (drule told_only, erule runs_weaken) (simp add: told_def)

lemma telling_after:
  assumes "only (\<lambda>q. \<not> starts_runtime q) m" "\<And>x. telling (f x)"
  shows "telling (ebind m f)"
  by (rule runs_bind [OF told_only [OF assms(1)] assms(2)]) (auto simp: told_append told_def)

lemma telling_before:
  assumes "telling m" "\<And>x. only (\<lambda>q. \<not> starts_runtime q) (f x)"
  shows "telling (ebind m f)"
  by (rule runs_bind [OF assms(1) told_only [OF assms(2)]]) (auto simp: told_append told_def)

lemma starts_not_aside: "only aside m \<Longrightarrow> only (\<lambda>q. \<not> starts_runtime q) m"
  "only marks_state m \<Longrightarrow> only (\<lambda>q. \<not> starts_runtime q) m"
  "only (\<lambda>q. marks_state q \<or> aside q) m \<Longrightarrow> only (\<lambda>q. \<not> starts_runtime q) m"
  by (auto elim!: only_mono simp: aside_def dest: marks_not)

lemma finalize_not_start: "only (\<lambda>q. \<not> starts_runtime q) (finalize_run runId tr operation rr rc es io)"
  unfolding finalize_run_def by (intro run_intros) simp

lemmas not_started = run_intros finalize_not_start mark_state_requests [THEN starts_not_aside(2)]
  close_requests [THEN starts_not_aside(2)] stop_turn_requests [THEN starts_not_aside(3)]
  reconcile_requests [THEN starts_not_aside(3)] aside_steps [THEN starts_not_aside(1)]

lemma after_runtime_not_start: "only (\<lambda>q. \<not> starts_runtime q) (after_runtime runId tr input operation mc ir rr)"
  unfolding after_runtime_def by (intro not_started)

lemma start_runtime_tells:
  assumes "jget a ''cancellationRequested'' = JBool b"
  shows "runs (start_runtime runId operation a)
     (\<lambda>h t r. stopRequested (control_of h) = b \<longrightarrow> told h t)"
proof -
  have first: "runs (activity ''startRuntimeActivity'' a)
     (\<lambda>h t r. stopRequested (control_of h) = b \<longrightarrow> told h t)"
    unfolding activity_def by (rule runs_ask) (simp add: assms answers_Cons told_def)
  show ?thesis
    unfolding start_runtime_def Let_def
    by (rule runs_bind [OF first told_only])
      (intro not_started, simp, auto simp: told_append told_def)
qed

lemma run_operation_tells: "telling (run_operation runId tr input operation mc i ir)"
proof -
  have input: "jget (runtime_input runId input operation mc ir b) ''cancellationRequested'' = JBool b" for b
    by (simp add: runtime_input_def)
  have control: "runs get_control (\<lambda>h t r. t = [] \<and> r = Inr (control_of h))"
    unfolding get_control_def
    by (rule runs_bind [where P = "\<lambda>h t r. t = [] \<and> r = Inr h" and R = "\<lambda>x h t r. t = [] \<and> r = Inr (control_of x)"])
      (auto intro: runs_get_hist runs_eret)
  have start: "runs (ebind (start_runtime runId operation (runtime_input runId input operation mc ir b))
      (\<lambda>rr. after_runtime runId tr input operation mc ir rr))
     (\<lambda>h t r. stopRequested (control_of h) = b \<longrightarrow> told h t)" for b
    by (rule runs_bind [OF start_runtime_tells [OF input] told_only [OF after_runtime_not_start]]) (auto simp: told_append told_def)
  have tell: "telling (ebind get_control (\<lambda>c'. ebind (start_runtime runId operation
       (runtime_input runId input operation mc ir (stopRequested c'))) (\<lambda>rr. after_runtime runId tr input operation mc ir rr)))"
    by (rule runs_bind [OF control start]) auto
  show ?thesis
    unfolding run_operation_def finalize_unstarted_def
    by (intro telling_after [OF only_get_control])
      (auto intro!: telling_only [OF finalize_not_start] telling_after [OF mark_state_requests [THEN starts_not_aside(2)]] tell)
qed

lemma canceled_not_start: "only (\<lambda>q. \<not> starts_runtime q) (canceled_before_start runId tr input)"
  unfolding canceled_before_start_def Let_def by (intro not_started)

lemma run_prepared_tells: "telling (run_prepared fuel runId tr input operation mc)"
proof -
  have some: "telling (ebind (run_operation runId tr input operation mc i ir) (\<lambda>v. eret (Some v)))" for i ir
    by (intro telling_before run_operation_tells only_eret)
  have quit: "telling (ebind get_control (\<lambda>c. ebind (finalize_run runId tr operation (rr c) rc es io) (\<lambda>v. eret (Some v))))"
    for rr :: "control \<Rightarrow> jsval" and rc es io
    by (intro telling_only not_started)
  have gate: "telling (with_interaction fuel runId tr input operation mc request es)" for request es
    unfolding with_interaction_def finalize_unstarted_def
    by (rule telling_after [OF aside_not(2) [OF interact_aside]])
      (auto split: option.splits intro!: some quit telling_only [OF only_eret] telling_after [OF only_eread])
  show ?thesis
    unfolding run_prepared_def finalize_unstarted_def
    by (auto intro!: gate some quit)
qed

lemma run_queued_tells: "telling (run_queued fuel runId tr input)"
proof -
  have started: "telling (run_started fuel runId tr input)"
    unfolding run_started_def
    by (intro telling_after [OF mark_state_requests [THEN starts_not_aside(2)]] telling_after [OF only_activity]
        telling_after [OF only_eread] telling_after [OF only_get_control])
      (auto intro!: telling_only not_started canceled_not_start run_prepared_tells
        telling_after [OF prepare_capability_aside [THEN starts_not_aside(1)]])
  show ?thesis
    unfolding run_queued_def
    by (intro telling_after [OF mark_state_requests [THEN starts_not_aside(2)]] telling_after [OF only_activity]
        telling_after [OF only_get_control])
      (auto intro!: telling_only not_started canceled_not_start started)
qed

text \<open>A run starts the runtime at most once, and the request it starts it with says whether a stop
  had been requested by then.\<close>

theorem runtime_told_of_stop:
  "runs (agentRunWorkflow fuel temporalRunId argument) (\<lambda>h t r. told h t)"
proof -
  have "only (\<lambda>q. \<not> starts_runtime q) (recoverProviderOperation input tr)" for input tr
    unfolding recoverProviderOperation_def Let_def by (auto intro!: not_started)
  then show ?thesis
    unfolding agentRunWorkflow_def Let_def
    by (intro telling_after [OF only_eread])
      (auto intro!: telling_only only_ethrow only_bind only_eret run_queued_tells)
qed


section \<open>The states a run marks\<close>

definition marked :: "step list \<Rightarrow> string list" where
  "marked t = map (\<lambda>s. case req s of Act n a \<Rightarrow> to_str (jget a ''status'') | _ \<Rightarrow> [])
     (filter (\<lambda>s. marks_state (req s)) t)"

lemma marked_append [simp]: "marked (t @ t') = marked t @ marked t'"
  by (simp add: marked_def)

lemma marked_Nil [simp]: "marked [] = []"
  by (simp add: marked_def)

definition stopped :: "hist \<Rightarrow> bool" where
  "stopped h = stopRequested (control_of h)"

lemma stop_persists: "stopped h \<Longrightarrow> stopped (h @ t)"
proof -
  have "stopRequested c \<Longrightarrow> stopRequested (foldl handle_signal c ss)" for c ss
    by (induction ss arbitrary: c)
      (auto simp: handle_signal_def stop_signal_def decision_signal_def Let_def)
  then show "stopped h \<Longrightarrow> stopped (h @ t)"
    by (simp add: stopped_def control_of_def)
qed

lemma unmarked: "only aside m \<Longrightarrow> runs m (\<lambda>h t r. marked t = [])"
  unfolding only_def marked_def by (erule runs_weaken) (auto simp: aside_def filter_empty_conv)

lemma unmarked_only: "only (\<lambda>q. \<not> marks_state q) m \<Longrightarrow> runs m (\<lambda>h t r. marked t = [])"
  unfolding only_def marked_def by (erule runs_weaken) (auto simp: filter_empty_conv)

lemma unmarked_activity: "n \<noteq> ''markAgentRunStateActivity'' \<Longrightarrow> runs (activity n a) (\<lambda>h t r. marked t = [])"
  unfolding activity_def by (rule runs_ask) (simp add: marked_def)

lemma unmarked_get_control: "runs get_control (\<lambda>h t r. marked t = [] \<and> t = [] \<and> r = Inr (control_of h))"
  unfolding get_control_def
  by (rule runs_bind [where P = "\<lambda>h t r. t = [] \<and> r = Inr h" and R = "\<lambda>x h t r. t = [] \<and> r = Inr (control_of x)"])
    (auto intro: runs_get_hist runs_eret)

lemma mark_state_marks: "runs (mark_state runId status why) (\<lambda>h t r. marked t = [status])"
  unfolding mark_state_def activity_def by (rule runs_ask) (simp add: marked_def)

text \<open>Predicates on the stop state at the start of a step and the marks it makes, and how they compose.\<close>

abbreviation marking :: "(bool \<Rightarrow> string list \<Rightarrow> bool) \<Rightarrow> 'a eff \<Rightarrow> bool" where
  "marking P m \<equiv> runs m (\<lambda>h t r. P (stopped h) (marked t))"

lemma marks_bind:
  assumes m: "runs m (\<lambda>h t r. marked t = ms)" and f: "\<And>x. marking R (f x)"
    and alone: "\<And>b. P b ms" and both: "\<And>b b' ms'. R b' ms' \<Longrightarrow> b \<le> b' \<Longrightarrow> P b (ms @ ms')"
  shows "marking P (ebind m f)"
proof (rule runs_bind [OF m f])
  show "P (stopped h) (marked t)" if "marked t = ms" for h t
    by (simp add: that alone)
  show "P (stopped h) (marked (t @ t'))" if "marked t = ms" "R (stopped (h @ t)) (marked t')" for h t t'
    using both [OF that(2), of "stopped h"] stop_persists [of h t] that(1) by (simp add: le_bool_def)
qed

lemma marks_silent:
  assumes "runs m (\<lambda>h t r. marked t = [])" "\<And>x. marking P (f x)" "\<And>b. P b []"
    and "\<And>b b' ms. P b' ms \<Longrightarrow> b \<le> b' \<Longrightarrow> P b ms"
  shows "marking P (ebind m f)"
proof (rule marks_bind [where m = m and ms = "[]" and R = P and P = P])
  show "P b ([] @ ms')" if "P b' ms'" "b \<le> b'" for b b' ms'
    using assms(4) [OF that] by simp
qed (rule assms)+

lemma marks_control:
  assumes "\<And>c. runs (f c) (\<lambda>h t r. stopRequested c = stopped h \<longrightarrow> P (stopped h) (marked t))"
  shows "marking P (ebind get_control f)"
  by (rule runs_bind [OF unmarked_get_control assms]) (auto simp: stopped_def)

lemma close_marks:
  "runs (close_run runId v w b) (\<lambda>h t r. prefix (marked t) [''CLOSING'', ''FINALIZING''] \<and> (b \<longrightarrow> marked t = []))"
proof -
  have second: "runs (ebind (mark_state runId ''FINALIZING'' why) (\<lambda>_. eret ())) (\<lambda>h t r. prefix (marked t) [''FINALIZING''])" for why
    by (rule runs_bind [OF mark_state_marks, where R = "\<lambda>_ h t r. t = []"]) (auto intro: runs_eret)
  have both: "runs (ebind (mark_state runId ''CLOSING'' why) (\<lambda>_. ebind (mark_state runId ''FINALIZING'' why') (\<lambda>_. eret ())))
      (\<lambda>h t r. prefix (marked t) [''CLOSING'', ''FINALIZING''])" for why why'
    by (rule runs_bind [OF mark_state_marks second]) auto
  show ?thesis
    unfolding close_run_def Let_def by (auto intro!: both runs_eret simp: runs_conj)
qed


definition closing_marks :: "bool \<Rightarrow> string list \<Rightarrow> bool" where
  "closing_marks b ms = (prefix ms [''CLOSING'', ''FINALIZING''] \<and> (b \<longrightarrow> ms = []))"

definition settling_marks :: "bool \<Rightarrow> string list \<Rightarrow> bool" where
  "settling_marks b ms =
     (\<exists>ms' k. ms = take k [''RECONCILING''] @ ms' \<and> closing_marks b ms')"

lemma closing_marks_less: "closing_marks b' ms \<Longrightarrow> b \<le> b' \<Longrightarrow> closing_marks b ms"
  by (auto simp: closing_marks_def)

lemma settling_marks_less: "settling_marks b' ms \<Longrightarrow> b \<le> b' \<Longrightarrow> settling_marks b ms"
  unfolding settling_marks_def by (blast intro: closing_marks_less)

lemma closing_settling: "closing_marks b ms \<Longrightarrow> settling_marks b ms" "closing_marks b ms \<Longrightarrow> settling_marks b (''RECONCILING'' # ms)"
proof -
  assume c: "closing_marks b ms"
  show "settling_marks b ms" unfolding settling_marks_def
    by (rule exI [of _ ms], rule exI [of _ 0]) (simp add: c)
  show "settling_marks b (''RECONCILING'' # ms)" unfolding settling_marks_def
    by (rule exI [of _ ms], rule exI [of _ 1]) (simp add: c)
qed

lemma few_marks [simp]: "closing_marks b []" "settling_marks b []" "settling_marks b [''RECONCILING'']"
  by (auto simp: closing_marks_def intro: closing_settling)

lemma finalize_unmarked: "runs (finalize_run runId tr operation rr rc es io) (\<lambda>h t r. marked t = [])"
  unfolding finalize_run_def by (rule unmarked_activity) simp

lemma reconcile_marks:
  "runs (reconcile_send runId input operation v) (\<lambda>h t r. marked t = [] \<or> marked t = [''RECONCILING''])"
  unfolding reconcile_send_def
  by (auto intro!: runs_eret runs_bind [OF mark_state_marks unmarked_activity])

lemma after_runtime_marks: "marking settling_marks (after_runtime runId tr input operation mc ir rr)"
proof -
  have close: "runs (ebind (close_run runId rr rc (stopRequested c \<or> revoked)) (\<lambda>_. finalize_run runId tr operation red rc es io))
      (\<lambda>h t r. stopRequested c = stopped h \<longrightarrow> closing_marks (stopped h) (marked t))" for rc c revoked red es io
    by (rule runs_bind [OF close_marks finalize_unmarked]) (auto simp: closing_marks_def)
  have settle: "marking settling_marks (ebind (reconcile_send runId input operation rr) (\<lambda>rc. ebind get_control (\<lambda>c.
      ebind (close_run runId rr rc (stopRequested c \<or> revoked)) (\<lambda>_. finalize_run runId tr operation red rc es io))))" for revoked red es io
  proof (rule runs_bind [OF reconcile_marks marks_control [OF close]])
    show "settling_marks (stopped h) (marked (t @ t'))"
      if "marked t = [] \<or> marked t = [''RECONCILING'']" "closing_marks (stopped (h @ t)) (marked t')" for h t t'
    proof -
      have "closing_marks (stopped h) (marked t')"
        using that(2) by (rule closing_marks_less) (simp add: le_bool_def stop_persists)
      with that(1) show ?thesis by (auto intro: closing_settling)
    qed
  qed (auto intro: closing_settling)
  show ?thesis
    unfolding after_runtime_def
    by (intro marks_silent [OF unmarked, OF record_observation_aside] marks_silent [OF unmarked, OF only_eread]
        marks_silent [OF unmarked, OF capability_effects_aside])
      (auto intro: settling_marks_less split: prod.splits intro!: marks_silent [OF unmarked, OF only_lift_res] settle)
qed

text \<open>Starting the runtime marks nothing, or CANCELLING because of a stop.\<close>

definition starting :: "step list \<Rightarrow> hist \<Rightarrow> bool" where
  "starting t h = (marked t = [] \<or> marked t = [''CANCELLING''] \<and> stopped (h @ t))"

lemma start_runtime_marks: "runs (start_runtime runId operation a) (\<lambda>h t r. starting t h)"
proof -
  have observe: "runs (observe_or_stop v) (\<lambda>h t r. marked t = [] \<and> (r = Inr None \<longrightarrow> stopped (h @ t)))" for v
  proof -
    have control: "runs get_control (\<lambda>h t r. t = [] \<and> r = Inr (control_of h))"
      by (rule runs_weaken [OF unmarked_get_control]) simp
    have after: "runs (if stopRequested before then eret None
       else if stopRequested c
       then ebind (etry (ask (AwaitDecision [] None))) (\<lambda>first.
            if first = Inr (JStr ''STOP'') then eret None else ebind (lift_res observed) (\<lambda>v. eret (Some v)))
       else ebind (lift_res observed) (\<lambda>v. eret (Some v)))
      (\<lambda>h t r. r = Inr None \<longrightarrow> stopRequested before \<or> stopRequested c)" for before c and observed :: "jsval + jsval"
      by (cases observed) (auto intro!: runs_eret runs_ethrow runs_bind [OF runs_etry [OF runs_ask]])
    have second: "runs (ebind get_control (\<lambda>c. if stopRequested before then eret None
       else if stopRequested c
       then ebind (etry (ask (AwaitDecision [] None))) (\<lambda>first.
            if first = Inr (JStr ''STOP'') then eret None else ebind (lift_res observed) (\<lambda>v. eret (Some v)))
       else ebind (lift_res observed) (\<lambda>v. eret (Some v))))
      (\<lambda>h t r. r = Inr None \<longrightarrow> stopRequested before \<or> stopped (h @ t))" for before and observed :: "jsval + jsval"
      by (rule runs_bind [OF control after]) (auto simp: stopped_def [symmetric] intro: stop_persists)
    have middle: "runs (ebind (etry (activity ''observeRuntimeActivity'' v)) (\<lambda>observed. ebind get_control (\<lambda>c.
       if stopRequested before then eret None
       else if stopRequested c
       then ebind (etry (ask (AwaitDecision [] None))) (\<lambda>first.
            if first = Inr (JStr ''STOP'') then eret None else ebind (lift_res observed) (\<lambda>v. eret (Some v)))
       else ebind (lift_res observed) (\<lambda>v. eret (Some v)))))
      (\<lambda>h t r. r = Inr None \<longrightarrow> stopRequested before \<or> stopped (h @ t))" for before
      by (rule runs_bind [where P = "\<lambda>h t r. True", OF _ second])
        (auto intro: runs_etry [OF runs_ask [where Q = "\<lambda>h t r. True"]] simp: activity_def)
    have "runs (observe_or_stop v) (\<lambda>h t r. r = Inr None \<longrightarrow> stopped (h @ t))"
      unfolding observe_or_stop_def
      by (rule runs_bind [OF control middle]) (auto simp: stopped_def [symmetric] intro: stop_persists)
    with unmarked [OF observe_or_stop_aside] show ?thesis by (rule runs_conj)
  qed
  have stop: "runs (stop_turn runId operation v w) (\<lambda>h t r. marked t = [''CANCELLING''])" for v w
  proof -
    have rest: "runs (ebind (etry (activity ''interruptRuntimeActivity'' w)) (\<lambda>interrupted.
       case interrupted of
         Inl _ \<Rightarrow> eret (stopped_result operation v JNull JNull)
       | Inr interrupt \<Rightarrow> ebind clock (\<lambda>t. ebind (etry (activity ''observeRuntimeActivity''
           (obj_with w [(''timeoutMs'', jnat 15000), (''deadlineAt'', JStr (iso_text (t + 15000)))]))) (\<lambda>observed.
         eret (stopped_result operation v interrupt (case observed of Inr v \<Rightarrow> v | Inl _ \<Rightarrow> JNull)))))) (\<lambda>h t r. marked t = [])"
      by (rule unmarked) (auto intro!: run_intros)
    show ?thesis
      unfolding stop_turn_def
      by (rule runs_bind [where R = "\<lambda>c h t r. marked t = [''CANCELLING'']", OF unmarked_get_control])
        (rule runs_bind [OF mark_state_marks rest], auto)
  qed
  have act: "runs (activity n a) (\<lambda>h t r. marked t = [])" if "n \<noteq> ''markAgentRunStateActivity''" for n a
    by (rule unmarked_activity [OF that])
  have finish: "runs (case winner of None \<Rightarrow> stop_turn runId operation x y | Some v \<Rightarrow> eret (g v))
      (\<lambda>h t r. if winner = None then marked t = [''CANCELLING''] else marked t = [])" for winner :: "jsval option" and x y g
    using stop [of x y] by (cases winner) (auto intro: runs_eret)
  have turn: "runs (ebind (observe_or_stop y) (\<lambda>winner. case winner of None \<Rightarrow> stop_turn runId operation x y | Some v \<Rightarrow> eret (g v)))
      (\<lambda>h t r. starting t h)" for x y g
    by (rule runs_bind [OF observe finish])
      (auto simp: starting_def simp flip: append_assoc intro: stop_persists split: if_splits)
  have quiet: "runs (ebind m f) (\<lambda>h t r. starting t h)"
    if "runs m (\<lambda>h t r. marked t = [])" "\<And>x. runs (f x) (\<lambda>h t r. starting t h)" for m :: "jsval eff" and f :: "jsval \<Rightarrow> jsval eff"
    by (rule runs_bind [OF that]) (auto simp: starting_def)
  have ret: "runs (eret v) (\<lambda>h t r. starting t h)" for v :: jsval
    by (rule runs_eret) (simp add: starting_def)
  show ?thesis
    unfolding start_runtime_def Let_def
    by (intro quiet only_if act unmarked [OF only_eread]) (simp_all add: ret quiet act turn)
qed


text \<open>What can follow RUNNING, and the marks of a whole run.\<close>

definition run_tails :: "string list list" where
  "run_tails = [[], [''CLOSING''], [''CLOSING'', ''FINALIZING''], [''RECONCILING''], [''RECONCILING'', ''CLOSING''],
     [''RECONCILING'', ''CLOSING'', ''FINALIZING''], [''CANCELLING''], [''CANCELLING'', ''RECONCILING'']]"

definition run_marks :: "string list list" where
  "run_marks = [[], [''QUEUED''], [''QUEUED'', ''STARTING'']] @ map (\<lambda>ms. [''QUEUED'', ''STARTING'', ''RUNNING''] @ ms) run_tails"

lemma settling_tail:
  "settling_marks b ms \<Longrightarrow> ms \<in> set run_tails"
  "settling_marks True ms \<Longrightarrow> ''CANCELLING'' # ms \<in> set run_tails"
proof -
  have prefixes: "prefix ms [''CLOSING'', ''FINALIZING''] \<longleftrightarrow> ms \<in> set [[], [''CLOSING''], [''CLOSING'', ''FINALIZING'']]" for ms
    by (auto simp: prefix_Cons)
  have takes: "take k [''RECONCILING''] \<in> set [[], [''RECONCILING'']]" for k
    by (cases k) simp_all
  show "settling_marks b ms \<Longrightarrow> ms \<in> set run_tails"
    using takes unfolding settling_marks_def closing_marks_def prefixes run_tails_def by fastforce
  show "settling_marks True ms \<Longrightarrow> ''CANCELLING'' # ms \<in> set run_tails"
    using takes unfolding settling_marks_def closing_marks_def run_tails_def by fastforce
qed

lemma run_operation_marks:
  "runs (run_operation runId tr input operation mc i ir)
     (\<lambda>h t r. marked t = [] \<or> (\<exists>ms \<in> set run_tails. marked t = ''RUNNING'' # ms))"
proof -
  have tails: "[] \<in> set run_tails" "[''CANCELLING''] \<in> set run_tails"
    by (simp_all add: run_tails_def)
  have go: "runs (ebind (start_runtime runId operation a) (\<lambda>rr. after_runtime runId tr input operation mc ir rr))
      (\<lambda>h t r. marked t \<in> set run_tails)" for a
  proof (rule runs_bind [OF start_runtime_marks after_runtime_marks])
    show "marked t \<in> set run_tails" if "starting t h" for h t
      using that tails by (auto simp: starting_def)
    show "marked (t @ t') \<in> set run_tails" if "starting t h" "settling_marks (stopped (h @ t)) (marked t')" for h t t'
      using that settling_tail by (auto simp: starting_def)
  qed
  have told: "runs (ebind get_control (\<lambda>c'. ebind (start_runtime runId operation (a c')) (\<lambda>rr. after_runtime runId tr input operation mc ir rr)))
      (\<lambda>h t r. marked t \<in> set run_tails)" for a
    by (rule runs_bind [OF unmarked_get_control go]) (auto simp: tails)
  have run: "runs (ebind (mark_state runId ''RUNNING'' why) (\<lambda>_. ebind get_control (\<lambda>c'.
      ebind (start_runtime runId operation (a c')) (\<lambda>rr. after_runtime runId tr input operation mc ir rr))))
      (\<lambda>h t r. marked t = [] \<or> (\<exists>ms \<in> set run_tails. marked t = ''RUNNING'' # ms))" for why a
    by (rule runs_bind [OF mark_state_marks told]) (auto simp: tails)
  show ?thesis
    unfolding run_operation_def finalize_unstarted_def
    by (rule runs_bind [OF unmarked_get_control, where R = "\<lambda>c h t r. marked t = [] \<or> (\<exists>ms \<in> set run_tails. marked t = ''RUNNING'' # ms)"])
      (auto intro: run runs_weaken [OF finalize_unmarked])
qed

text \<open>The marks before RUNNING: a step that marks its own state and goes on to a language of marks.\<close>

abbreviation mark_language :: "string list set \<Rightarrow> 'a eff \<Rightarrow> bool" where
  "mark_language L m \<equiv> runs m (\<lambda>h t r. marked t \<in> L)"

lemma language_silent:
  "runs m (\<lambda>h t r. marked t = []) \<Longrightarrow> (\<And>x. mark_language L (f x)) \<Longrightarrow> [] \<in> L \<Longrightarrow> mark_language L (ebind m f)"
  by (rule runs_bind [where P = "\<lambda>h t r. marked t = []" and R = "\<lambda>_ h t r. marked t \<in> L"]) auto

lemma language_mark:
  "(\<And>x. mark_language L (f x)) \<Longrightarrow> [] \<in> L \<Longrightarrow> mark_language ((#) s ` L) (ebind (mark_state runId s why) f)"
  by (rule runs_bind [OF mark_state_marks, where R = "\<lambda>_ h t r. marked t \<in> L"]) auto

lemma language_before:
  "mark_language L m \<Longrightarrow> mark_language L (ebind m (\<lambda>v. eret (g v)))"
  by (rule runs_bind [where R = "\<lambda>_ h t r. t = []"]) (auto intro: runs_eret)

lemma language_unmarked: "runs m (\<lambda>h t r. marked t = []) \<Longrightarrow> [] \<in> L \<Longrightarrow> mark_language L m"
  by (erule runs_weaken) simp

lemma language_mono: "mark_language L m \<Longrightarrow> L \<subseteq> L' \<Longrightarrow> mark_language L' m"
  by (erule runs_weaken) blast

definition running :: "string list set" where
  "running = insert [] ((#) ''RUNNING'' ` set run_tails)"

lemma empty_running [simp]: "[] \<in> running"
  by (simp add: running_def)

definition queued :: "string list set" where
  "queued = insert [] ((#) ''STARTING'' ` running)"

lemma empty_queued [simp]: "[] \<in> queued"
  by (simp add: queued_def)

lemma canceled_unmarked: "runs (canceled_before_start runId tr input) (\<lambda>h t r. marked t = [])"
  unfolding canceled_before_start_def Let_def
  by (auto intro: finalize_unmarked runs_ethrow)

lemma run_prepared_marks: "mark_language running (run_prepared fuel runId tr input operation mc)"
proof -
  have some: "mark_language running (ebind (run_operation runId tr input operation mc i ir) (\<lambda>v. eret (Some v)))" for i ir
    by (rule language_before, rule runs_weaken [OF run_operation_marks]) (auto simp: running_def)
  have quit: "mark_language running (ebind get_control (\<lambda>c. ebind (finalize_run runId tr operation (rr c) rc es io) (\<lambda>v. eret (Some v))))"
    for rr :: "control \<Rightarrow> jsval" and rc es io
    by (intro language_silent [OF unmarked, OF only_get_control] language_before language_unmarked [OF finalize_unmarked])
      simp_all
  have gate: "mark_language running (with_interaction fuel runId tr input operation mc request es)" for request es
    unfolding with_interaction_def finalize_unstarted_def
    by (rule language_silent [OF unmarked, OF interact_aside])
      (auto split: option.splits intro!: some quit language_unmarked [OF runs_eret] language_silent [OF unmarked, OF only_eread])
  show ?thesis
    unfolding run_prepared_def finalize_unstarted_def
    by (auto intro!: gate some quit)
qed

lemma run_queued_marks: "mark_language ((#) ''QUEUED'' ` queued) (run_queued fuel runId tr input)"
proof -
  have none: "mark_language L (ebind (canceled_before_start runId tr input) (\<lambda>v. eret (Some v)))" if "[] \<in> L" for L
    using that by (intro language_before language_unmarked [OF canceled_unmarked])
  have act: "runs (activity n a) (\<lambda>h t r. marked t = [])" if "n \<noteq> ''markAgentRunStateActivity''" for n a
    by (rule unmarked_activity [OF that])
  have started: "mark_language ((#) ''STARTING'' ` running) (run_started fuel runId tr input)"
    unfolding run_started_def
    by (intro language_mark language_silent [OF act] language_silent [OF unmarked, OF only_eread]
        language_silent [OF unmarked, OF only_get_control])
      (auto intro!: none run_prepared_marks language_silent [OF unmarked, OF prepare_capability_aside])
  show ?thesis
    unfolding run_queued_def
    by (intro language_mark language_silent [OF act] language_silent [OF unmarked, OF only_get_control])
      (auto intro!: none language_mono [OF started] simp: subset_iff queued_def simp del: insert_iff)
qed

lemma run_marks_legal:
  "list_all (\<lambda>ms. follows_table (''ADMITTED'' # ms) \<or> sublist [''CANCELLING'', ''RECONCILING''] ms) run_marks"
  by code_simp

text \<open>C9 (marks_follow_table): The states that a run asks to be marked follow the transition table of the kernel from ADMITTED
  on.  The one exception is a stopped turn whose acceptance stays unknown: it marks RECONCILING after CANCELLING.\<close>

theorem marks_follow_table:
  "runs (agentRunWorkflow fuel temporalRunId argument)
     (\<lambda>h t r. follows_table (''ADMITTED'' # marked t) \<or> sublist [''CANCELLING'', ''RECONCILING''] (marked t))"
proof -
  have "mark_language (set run_marks) (agentRunWorkflow fuel temporalRunId argument)"
  proof -
    have all: "insert [] ((#) ''QUEUED'' ` queued) \<subseteq> set run_marks"
      by (auto simp: run_marks_def running_def queued_def image_iff)
    have empty: "[] \<in> set run_marks" by (simp add: run_marks_def)
    have recover: "mark_language (set run_marks) (ebind (recoverProviderOperation input tr) (\<lambda>v. eret (Some v)))" for input tr
      unfolding recoverProviderOperation_def Let_def finalize_run_def
      by (rule language_unmarked [OF unmarked_only empty])
        (auto intro!: run_intros aside_steps [THEN only_mono] simp: aside_def)
    have fresh: "mark_language (set run_marks) (run_queued fuel runId tr input)" for runId tr input
      by (rule language_mono [OF run_queued_marks]) (use all in blast)
    show ?thesis
      unfolding agentRunWorkflow_def Let_def
      by (intro language_silent [OF unmarked, OF only_eread])
        (auto intro!: recover fresh language_unmarked [OF runs_ethrow] simp: empty)
  qed
  then show ?thesis
    by (rule runs_weaken) (rule bspec [OF run_marks_legal [unfolded list_all_iff]])
qed


section \<open>What leaves the workflow\<close>

definition redacted_invocation :: "jsval \<Rightarrow> bool" where
  "redacted_invocation v = (map fst (obj_kvs v) = invocation_keys)"

definition redacted_request :: "request \<Rightarrow> bool" where
  "redacted_request q =
     (case q of Act n a \<Rightarrow> if n = ''finalizeAgentRunActivity''
         then list_all redacted_invocation (arr_items (jget (jget a ''runtimeResult'') ''capabilityInvocations'')) else True
      | _ \<Rightarrow> True)"

lemma redacted_request_simps [simp]:
  "redacted_request (AwaitDecision ks d)"
  "n \<noteq> ''finalizeAgentRunActivity'' \<Longrightarrow> redacted_request (Act n a)"
  by (simp_all add: redacted_request_def)

lemma not_final_redacted: "\<not> finalizes q \<Longrightarrow> redacted_request q"
  by (cases q) (simp_all add: redacted_request_def)

lemma aside_redacted: "only aside m \<Longrightarrow> only redacted_request m" "only marks_state m \<Longrightarrow> only redacted_request m"
  "only (\<lambda>q. marks_state q \<or> aside q) m \<Longrightarrow> only redacted_request m"
  by (auto elim!: only_mono intro: not_final_redacted simp: aside_def dest: marks_not)

lemma redact_invocation_keys: "rmap redact_invocation vs = Inr ws \<Longrightarrow> list_all redacted_invocation ws"
proof (induction vs arbitrary: ws)
  case (Cons v vs)
  then show ?case
    by (auto simp: rbind_Inr_iff redact_invocation_def redacted_invocation_def comp_def)
qed simp

lemma redacted_result_invocations:
  assumes "redacted_result rr invs effects = Inr v"
  shows "list_all redacted_invocation (arr_items (jget v ''capabilityInvocations''))"
proof -
  from assms obtain ws out more where ws: "rmap redact_invocation invs = Inr ws"
    and v: "v = obj_with rr ([(''capabilityInvocations'', JArr ws), (''taskOutputCandidate'', out)] @ more)"
    and more: "more = [] \<or> more = [(''sendAcceptance'', JStr ''REJECTED_BEFORE_ACCEPTANCE''),
        (''outcomeCertainty'', JStr ''REJECTED''), (''taskOutputCandidate'', JNull)]"
    unfolding redacted_result_def by (auto simp: rbind_Inr_iff split: if_splits)
  have "jget v ''capabilityInvocations'' = JArr ws"
    using more unfolding v obj_with_def by (auto simp: kv_get_spread)
  with redact_invocation_keys [OF ws] show ?thesis by simp
qed

lemma finalize_redacted:
  "list_all redacted_invocation (arr_items (jget rr ''capabilityInvocations''))
     \<Longrightarrow> only redacted_request (finalize_run runId tr operation rr rc es io)"
  unfolding finalize_run_def by (intro run_intros) (simp add: redacted_request_def)

lemma finalize_nothing: "only redacted_request (finalize_run runId tr operation (noRuntimeResult k p d) rc es io)"
  by (rule finalize_redacted) (simp add: noRuntimeResult_def Let_def)

lemma start_runtime_redacted: "only redacted_request (start_runtime runId operation v)"
  unfolding start_runtime_def Let_def
  by (intro run_intros aside_redacted(1) [OF observe_or_stop_aside] aside_redacted(3) [OF stop_turn_requests]) simp_all

lemma after_runtime_redacted: "only redacted_request (after_runtime runId tr input operation mc ir rr)"
proof -
  have tail: "only redacted_request (ebind (lift_res (redacted_result rr invs effects)) (\<lambda>redacted.
     ebind (reconcile_send runId input operation rr) (\<lambda>rc. ebind get_control (\<lambda>c.
     ebind (close_run runId rr rc (stopRequested c \<or> revoked)) (\<lambda>_. finalize_run runId tr operation redacted rc es io)))))"
    for invs effects revoked es io
  proof (rule only_bind_returning [OF only_returning_lift])
    show "list_all redacted_invocation (arr_items (jget x ''capabilityInvocations''))"
      if "redacted_result rr invs effects = Inr x" for x
      using that by (rule redacted_result_invocations)
    show "only redacted_request (ebind (reconcile_send runId input operation rr) (\<lambda>rc. ebind get_control (\<lambda>c.
       ebind (close_run runId rr rc (stopRequested c \<or> revoked)) (\<lambda>_. finalize_run runId tr operation x rc es io))))"
      if "list_all redacted_invocation (arr_items (jget x ''capabilityInvocations''))" for x
      using that by (intro only_bind aside_redacted(3) [OF reconcile_requests] only_get_control
          aside_redacted(2) [OF close_requests] finalize_redacted)
  qed
  show ?thesis
    unfolding after_runtime_def
    by (intro only_bind aside_redacted(1) [OF record_observation_aside] only_eread only_prod_case
        aside_redacted(1) [OF capability_effects_aside] tail)
qed

lemma run_operation_redacted: "only redacted_request (run_operation runId tr input operation mc i ir)"
  unfolding run_operation_def finalize_unstarted_def
  by (intro only_bind only_if only_get_control finalize_nothing aside_redacted(2) [OF mark_state_requests]
      start_runtime_redacted after_runtime_redacted)

text \<open>When the workflow of a new run finalizes it, every capability invocation of the runtime result it
  sends has exactly the eight public members; no credential of an invocation goes with it.\<close>

theorem invocations_redacted:
  "only redacted_request (run_queued fuel runId temporalRunId input)"
proof -
  have canceled: "only redacted_request (canceled_before_start runId temporalRunId input)"
    unfolding canceled_before_start_def Let_def by (intro only_if only_ethrow finalize_nothing)
  have gate: "only redacted_request (with_interaction fuel runId temporalRunId input operation mc request es)" for operation mc request es
    unfolding with_interaction_def finalize_unstarted_def
    by (intro only_bind aside_redacted(1) [OF interact_aside] only_option_case only_prod_case only_eret only_eread only_if
        run_operation_redacted only_get_control finalize_nothing)
  show ?thesis
    unfolding run_queued_def run_started_def run_prepared_def finalize_unstarted_def
    by (intro only_bind only_if only_eret only_get_control only_eread canceled gate run_operation_redacted finalize_nothing
        aside_redacted(2) [OF mark_state_requests] aside_redacted(1) [OF prepare_capability_aside] only_activity) simp_all
qed

section \<open>Waiting for a person\<close>

definition applied_by_activity :: "step list \<Rightarrow> jsval + jsval option \<Rightarrow> bool" where
  "applied_by_activity t r =
     (case r of Inr (Some v) \<Rightarrow>
        (if jget v ''applicationStatus'' = JStr ''APPLIED''
         then \<exists>t' s. t = t' @ [s] \<and> is_act ''applyAgentInteractionDecisionActivity'' (req s) \<and> resp s = Inr v else True)
      | _ \<Rightarrow> True)"

lemma applied_after:
  assumes "only P m" "\<And>x. runs (f x) (\<lambda>h. applied_by_activity)"
  shows "runs (ebind m f) (\<lambda>h. applied_by_activity)"
  by (rule runs_bind [where P = "\<lambda>h t r. True" and R = "\<lambda>_ h. applied_by_activity"])
    (use assms in \<open>auto simp: only_def applied_by_activity_def elim: runs_weaken split: sum.splits option.splits\<close>)

lemma applied_thrown: "applied_by_activity t (Inl v)"
  by (simp add: applied_by_activity_def)

lemma unapplied_ret: "s \<noteq> JStr ''APPLIED'' \<Longrightarrow> runs (eret (Some (unapplied s why i))) (\<lambda>h. applied_by_activity)"
  by (rule runs_eret) (simp add: applied_by_activity_def unapplied_def)

lemma closed_not_applied: "closed_interaction v \<Longrightarrow> jget v ''status'' \<noteq> JStr ''APPLIED''"
  by (auto simp: closed_interaction_def)

text \<open>C10 (applied_decision): The workflow takes an interaction as applied only on the answer of the activity that applied it, and that
  is the last thing the wait did: a stop, the deadline, a closed or a missing interaction never read as applied.\<close>

theorem applied_decision: "runs (waitForInteraction fuel interaction) (\<lambda>h. applied_by_activity)"
proof -
  have deliver: "runs (ebind (deliver_decision i d) (\<lambda>applied. ebind (eread applied ''applicationStatus'') (\<lambda>status.
      if status \<noteq> JStr ''PENDING'' then eret (Some applied) else m))) (\<lambda>h. applied_by_activity)"
    if m: "runs m (\<lambda>h. applied_by_activity)" for i d and m :: "jsval option eff"
  proof -
    have last: "runs (deliver_decision i d) (\<lambda>h t r. \<forall>v. r = Inr v \<longrightarrow>
        (\<exists>t' s. t = t' @ [s] \<and> is_act ''applyAgentInteractionDecisionActivity'' (req s) \<and> resp s = Inr v))"
      unfolding deliver_decision_def Let_def activity_def
      by (rule runs_bind [where P = "\<lambda>h t r. True" and R = "\<lambda>_ h t r. \<exists>s. t = [s] \<and> is_act ''applyAgentInteractionDecisionActivity'' (req s) \<and> resp s = r"])
        (auto intro: runs_ask)
    have rest: "runs (ebind (eread v ''applicationStatus'') (\<lambda>status.
      if status \<noteq> JStr ''PENDING'' then eret (Some v) else m))
      (\<lambda>h t r. t = [] \<and> r = Inr (Some v) \<or> applied_by_activity t r)" for v
      unfolding eread_def
      by (rule runs_bind [where P = "\<lambda>h t r. t = []" and R = "\<lambda>_ h t r. t = [] \<and> r = Inr (Some v) \<or> applied_by_activity t r"])
        (auto intro: runs_lift_res runs_eret runs_weaken [OF m] applied_thrown)
    show ?thesis
      by (rule runs_bind [OF last rest])
        (auto simp: applied_by_activity_def split: sum.splits option.splits)
  qed
  have loop: "runs (wait_loop n runId i d l) (\<lambda>h. applied_by_activity)" for n runId i d l
  proof (induction n arbitrary: l)
    case 0
    show ?case unfolding wait_loop.simps by (rule runs_eret) (simp add: applied_by_activity_def)
  next
    case (Suc n)
    then show ?case
      unfolding wait_loop.simps
      by (auto intro!: applied_after [OF only_get_control] applied_after [OF only_clock(1)] applied_after [OF only_activity, of "\<lambda>_. True"]
          applied_after [OF only_ask, of "\<lambda>_. True"] unapplied_ret closed_not_applied deliver)
  qed
  show ?thesis
    unfolding waitForInteraction_def
    by (intro applied_after [OF only_eread] applied_after [OF only_date_ms] loop)
qed

text \<open>A clock that every request moves on by at least a given time.\<close>

definition clock_advances :: "env \<Rightarrow> rat \<Rightarrow> bool" where
  "clock_advances e d = (0 < d \<and> (\<forall>h s. now e h + d \<le> now e (h @ [s])))"

lemma clock_after:
  assumes "clock_advances e d"
  shows "now e h + of_nat (length t) * d \<le> now e (h @ t)"
proof (induction t rule: rev_induct)
  case (snoc s t)
  have "now e (h @ t) + d \<le> now e (h @ t @ [s])"
    using assms by (simp add: clock_advances_def flip: append_assoc)
  with snoc show ?case by (simp add: algebra_simps)
qed simp

text \<open>How the steps of one turn pass on that a run does not end with its fuel.\<close>

abbreviation finishes :: "jsval option eff \<Rightarrow> env \<Rightarrow> hist \<Rightarrow> bool" where
  "finishes m e h \<equiv> fst (m e h) \<noteq> Inr None"

lemma finishes_control: "(\<And>c. finishes (f c) e h) \<Longrightarrow> finishes (ebind get_control f) e h"
  by (simp add: ebind_def get_control_def get_hist_def eret_def)

lemma finishes_clock: "finishes (f (now e h)) e h \<Longrightarrow> finishes (ebind clock f) e h"
  by (simp add: ebind_def clock_def)

lemma finishes_ask: "(\<And>x s. finishes (f x) e (h @ [s])) \<Longrightarrow> finishes (ebind (ask q) f) e h"
  by (auto simp: ebind_def ask_def split: prod.splits sum.splits)

lemma finishes_eread: "(\<And>x. finishes (f x) e h) \<Longrightarrow> finishes (ebind (eread v k) f) e h"
  by (auto simp: ebind_def eread_def lift_res_def split: prod.splits sum.splits)

lemma finishes_deliver: "(\<And>x s s'. finishes (f x) e (h @ [s, s'])) \<Longrightarrow> finishes (ebind (deliver_decision i d) f) e h"
  unfolding deliver_decision_def Let_def activity_def ebind_assoc
  by (intro finishes_ask) simp

lemma finishes_eret: "finishes (eret (Some v)) e h"
  by (simp add: eret_def)

lemma finishes_if: "(c \<Longrightarrow> finishes m e h) \<Longrightarrow> (\<not> c \<Longrightarrow> finishes m' e h) \<Longrightarrow> finishes (if c then m else m') e h"
  by simp

lemma wait_turn:
  assumes more: "\<And>t l. t \<noteq> [] \<Longrightarrow> \<not> passed deadline (now e h) \<Longrightarrow> finishes (wait_loop n runId i deadline l) e (h @ t)"
  shows "finishes (wait_loop (Suc n) runId i deadline l) e h"
  unfolding wait_loop.simps activity_def
  by (intro finishes_control finishes_if finishes_clock finishes_ask finishes_deliver finishes_eread finishes_eret)
    (simp_all add: more)

text \<open>C11 (interaction_wait_ends): When the clock moves on with every request by at least a time d, waiting for an interaction
  with a deadline ends: one turn of the loop for each d until the deadline, and one more, are enough.\<close>

theorem interaction_wait_ends:
  assumes "clock_advances e d" "jget interaction ''expiresAt'' = JStr expires" "parse_date e expires = Some deadline"
    "deadline - now e h < of_nat n * d"
  shows "fst (waitForInteraction (Suc n) interaction e h) \<noteq> Inr None"
proof -
  have loop: "deadline - now e h < of_nat n * d \<Longrightarrow> fst (wait_loop (Suc n) runId i (Some deadline) l e h) \<noteq> Inr None" for n h l runId i
  proof (induction n arbitrary: h l)
    case 0
    then show ?case by (intro wait_turn) (simp add: passed_def)
  next
    case (Suc n)
    show ?case
    proof (rule wait_turn)
      fix t :: "step list" and l
      assume "t \<noteq> []"
      then have "1 \<le> length t" by (cases t) auto
      moreover have "0 < d" using assms(1) by (simp add: clock_advances_def)
      ultimately have "d \<le> of_nat (length t) * d" by (cases t) (auto simp: algebra_simps)
      with clock_after [OF assms(1), of h t] Suc.prems have "deadline - now e (h @ t) < of_nat n * d"
        by (simp add: algebra_simps)
      then show "fst (wait_loop (Suc n) runId i (Some deadline) l e (h @ t)) \<noteq> Inr None"
        by (rule Suc.IH)
    qed
  qed
  show ?thesis
    using loop [OF assms(4)] assms(2,3)
    by (auto simp: waitForInteraction_def date_ms_def ebind_def eread_def lift_res_def jread_def date_parse_def
        split: prod.splits sum.splits)
qed

text \<open>Waiting ninety seconds against a server where every request takes a second.\<close>

definition slow_env :: env where
  "slow_env = \<lparr>answer = (\<lambda>h q. (Inr JNull, [])), now = (\<lambda>h. of_nat (length h) * 1000), now_iso = (\<lambda>h. []),
     parse_date = (\<lambda>s. Some 90000)\<rparr>"

theorem interaction_wait_ends_witness:
  "fst (waitForInteraction 92 (JObj [(''interactionId'', JStr ''i''), (''expiresAt'', JStr ''1970-01-01T00:01:30.000Z'')]) slow_env [])
     \<noteq> Inr None"
proof -
  have adv: "clock_advances slow_env 1000"
    by (simp add: clock_advances_def slow_env_def algebra_simps)
  have e: "jget (JObj [(''interactionId'', JStr ''i''), (''expiresAt'', JStr ''1970-01-01T00:01:30.000Z'')]) ''expiresAt''
      = JStr ''1970-01-01T00:01:30.000Z''" by simp
  have p: "parse_date slow_env ''1970-01-01T00:01:30.000Z'' = Some 90000"
    and n: "90000 - now slow_env [] < of_nat 91 * 1000" by (simp_all add: slow_env_def)
  show ?thesis using interaction_wait_ends [OF adv e p n] by simp
qed

end
