(* ===== verification/AgentRunActivities.thy ===== *)
theory AgentRunActivities
  imports AgentRunWorkflow
begin

text \<open>
  The activities that keep the record of an agent run,
  \<open>packages/temporal/src/activities/agentRunActivities.js\<close>, as transactions on the rows of one run: the run with
  its scope and session, its provider operation and turn, the runtime cell, leases, grants, Temporal
  segments, the published result and the events.  A transaction returns a value and the new rows or throws and
  leaves the rows as they were; \<open>None\<close> is a run that is not there.  The SQL statements are written as updates of
  these rows; time stamps, and columns that no statement of the file reads back, are left out.  SHA-256,
  \<open>Date.parse\<close>, the current time, the ids that the database generates and the schema of the summary are
  parameters (\<open>services\<close>).  The activities that only pass their argument to another service are not here.
\<close>

section \<open>Rows\<close>

record services =
  sv_sha :: "string \<Rightarrow> string"
  sv_parse_date :: "string \<Rightarrow> rat option"
  sv_now :: string
  sv_new_id :: "string \<Rightarrow> string"
  sv_host :: host
  sv_frames :: nat
  sv_summary_schema :: jsval

record agent_event =
  ev_sequence :: nat
  ev_type :: jsval
  ev_turn :: jsval
  ev_kind :: string
  ev_instance :: string
  ev_cursor :: "string option"
  ev_availability :: string
  ev_freshness :: string
  ev_observed :: jsval
  ev_payload :: jsval

record provider_operation =
  op_id :: string
  op_reference :: string
  op_digest :: string
  op_fence :: int
  op_deadline :: jsval
  op_state :: string
  op_certainty :: string
  op_outcome :: jsval

record agent_turn =
  turn_id :: string
  turn_digest :: string
  turn_status :: string
  turn_provider :: jsval
  turn_session :: jsval
  turn_output :: jsval

record runtime_cell =
  cell_columns :: jsval
  cell_quarantined :: bool
  cell_reason :: string
  cell_evidence :: jsval

record resource_lease =
  lease_state :: string
  lease_reason :: string

record execution_grant =
  grant_id :: string
  grant_kind :: string
  grant_state :: string
  grant_epoch :: int
  grant_effect :: "string option"
  grant_audience :: jsval
  grant_hash :: jsval
  grant_expires :: "int option"
  grant_granted :: jsval
  grant_closed :: jsval
  grant_metadata :: jsval

record run_rows =
  run_status :: string
  run_outcome :: jsval
  run_stop :: string
  run_epoch :: int
  run_columns :: jsval
  scope_status :: string
  scope_epoch :: int
  scope_reason :: jsval
  session_status :: string
  session_model :: string
  run_operation_row :: "provider_operation option"
  run_turn :: "agent_turn option"
  run_cell :: "runtime_cell option"
  run_leases :: "resource_lease list"
  run_grants :: "execution_grant list"
  run_segments :: "(string \<times> string) list"
  run_result :: "(string \<times> string \<times> jsval) option"
  run_events :: "agent_event list"

definition column :: "run_rows \<Rightarrow> string \<Rightarrow> jsval" where
  "column rows k = jget (run_columns rows) k"

definition safeObject :: "jsval \<Rightarrow> jsval \<Rightarrow> jsval" where
  "safeObject v fallback = (if is_obj v then v else fallback)"

definition serialize :: "jsval \<Rightarrow> jsval" where
  "serialize v = json_clone (jnull_or v JNull)"

text \<open>\<open>withTransaction\<close> around a body that first loads the run.\<close>

type_synonym 'a body = "run_rows \<Rightarrow> ('a \<times> run_rows) res"

definition withTransaction :: "string \<Rightarrow> jsval body \<Rightarrow> run_rows option \<Rightarrow> jsval res \<times> run_rows option" where
  "withTransaction missing work rows =
     (case rows of
        None \<Rightarrow> (Inl (js_error missing), None)
      | Some r \<Rightarrow> (case work r of Inl err \<Rightarrow> (Inl err, Some r) | Inr (v, r') \<Rightarrow> (Inr v, Some r')))"

text \<open>The next sequence number of a run, and the unique key of an event.\<close>

definition next_sequence :: "agent_event list \<Rightarrow> nat" where
  "next_sequence es = Suc (foldr max (map ev_sequence es) 0)"

definition same_source :: "agent_event \<Rightarrow> agent_event \<Rightarrow> bool" where
  "same_source a b =
     (ev_cursor a \<noteq> None \<and> ev_kind a = ev_kind b \<and> ev_instance a = ev_instance b \<and> ev_cursor a = ev_cursor b)"

definition appendEvent :: "agent_event \<Rightarrow> run_rows \<Rightarrow> run_rows" where
  "appendEvent e rows =
     (if list_ex (\<lambda>a. same_source a e) (run_events rows) then rows
      else rows\<lparr>run_events := run_events rows @ [e\<lparr>ev_sequence := next_sequence (run_events rows)\<rparr>]\<rparr>)"

definition workflow_event :: "services \<Rightarrow> string \<Rightarrow> jsval \<Rightarrow> string \<Rightarrow> jsval \<Rightarrow> agent_event" where
  "workflow_event S eventType turnId sourceCursor payload =
     \<lparr>ev_sequence = 0, ev_type = JStr eventType, ev_turn = turnId, ev_kind = ''SKYCOMMAND_AGENT_RUN_WORKFLOW'',
      ev_instance = ''control-plane'', ev_cursor = Some sourceCursor, ev_availability = ''REPORTED'',
      ev_freshness = ''CURRENT'', ev_observed = JStr (sv_now S), ev_payload = payload\<rparr>"

definition adapter_event :: "services \<Rightarrow> string \<Rightarrow> jsval \<Rightarrow> string \<Rightarrow> string \<Rightarrow> jsval \<Rightarrow> jsval \<Rightarrow> agent_event" where
  "adapter_event S eventType turnId sourceInstance sourceCursor observedAt payload =
     (workflow_event S eventType turnId sourceCursor payload)
       \<lparr>ev_kind := ''SKYCOMMAND_AGENT_RUNTIME_ADAPTER'', ev_instance := sourceInstance, ev_observed := observedAt\<rparr>"

section \<open>Marking a state\<close>

definition cancel_statuses :: "string list" where
  "cancel_statuses = [''CANCEL_REQUESTED'', ''CANCELLING'', ''CANCELED'']"

definition mark_body :: "services \<Rightarrow> string \<Rightarrow> string \<Rightarrow> jsval \<Rightarrow> jsval body" where
  "mark_body S runId status why rows =
     (let old = run_status rows; skipped = JObj [(''runId'', JStr runId), (''status'', JStr old), (''skipped'', JBool True)]
      in if isTerminalStatus (JStr old) then Inr (skipped, rows)
         else if old \<in> set cancel_statuses then Inr (skipped, rows)
         else rbind (if old \<noteq> status then assertTransition old status else Inr ()) (\<lambda>_.
           Inr (JObj [(''runId'', JStr runId), (''status'', JStr status)],
                if old \<noteq> status
                then appendEvent (workflow_event S ''RUN_STATE_CHANGED'' JNull (''state:'' @ old @ '':'' @ status)
                       (JObj [(''from'', JStr old), (''to'', JStr status), (''reason'', why)]))
                       (rows\<lparr>run_status := status\<rparr>)
                else rows)))"

definition markAgentRunStateActivity ::
  "services \<Rightarrow> string \<Rightarrow> string \<Rightarrow> jsval \<Rightarrow> run_rows option \<Rightarrow> jsval res \<times> run_rows option" where
  "markAgentRunStateActivity S runId status why =
     withTransaction ''Agent Run not found while updating workflow state.'' (mark_body S runId status why)"

section \<open>Preparing the provider operation\<close>

definition operation_key :: "string \<Rightarrow> string" where
  "operation_key runId = runId @ '':SUBMIT_TURN:1''"

definition prepared_turn :: "services \<Rightarrow> string \<Rightarrow> run_rows \<Rightarrow> agent_turn" where
  "prepared_turn S inputDigest rows =
     (case run_turn rows of Some t \<Rightarrow> t
      | None \<Rightarrow> \<lparr>turn_id = sv_new_id S ''turn'', turn_digest = inputDigest, turn_status = ''PREPARED'',
                 turn_provider = JNull, turn_session = JNull, turn_output = JNull\<rparr>)"

definition prepared_operation :: "services \<Rightarrow> string \<Rightarrow> string \<Rightarrow> jsval \<Rightarrow> run_rows \<Rightarrow> provider_operation" where
  "prepared_operation S runId inputDigest deadlineAt rows =
     (case run_operation_row rows of Some p \<Rightarrow> p
      | None \<Rightarrow> \<lparr>op_id = sv_new_id S ''operation'',
          op_reference = (if strict_eq (column rows ''runtime_code'') (JStr ''OPENAI_CODEX_APP_SERVER'') then ''codex'' else ''fake'')
                         @ ''-operation:'' @ operation_key runId,
          op_digest = inputDigest, op_fence = max (run_epoch rows) (scope_epoch rows), op_deadline = deadlineAt,
          op_state = ''JOURNALED'', op_certainty = ''UNKNOWN'', op_outcome = JNull\<rparr>)"

definition runtime_context :: "run_rows \<Rightarrow> jsval" where
  "runtime_context rows = jor (jget (safeObject (column rows ''execution_context'') (JObj [])) ''runtime'') (JObj [])"

definition prepared_response ::
  "string \<Rightarrow> jsval \<Rightarrow> provider_operation \<Rightarrow> agent_turn \<Rightarrow> run_rows \<Rightarrow> jsval" where
  "prepared_response runId instruction p t rows =
     (let runtime = runtime_context rows;
          configuration = safeObject (column rows ''definition_configuration'') (JObj [])
      in JObj
       [(''canceled'', JBool False), (''operationId'', JStr (op_id p)), (''operationKey'', JStr (operation_key runId)),
        (''turnId'', JStr (turn_id t)), (''sessionId'', column rows ''session_id''), (''runId'', JStr runId),
        (''fenceEpoch'', jint (op_fence p)), (''inputDigest'', JStr (op_digest p)),
        (''providerOperationReference'', JStr (op_reference p)), (''deadlineAt'', op_deadline p),
        (''runtimeKind'', column rows ''runtime_code''),
        (''runtimeMode'', JStr (if strict_eq (jget runtime ''runtimeMode'') (JStr ''PROVIDER_BACKED'')
           then ''PROVIDER_BACKED'' else ''FIXTURE'')),
        (''providerBacked'', JBool (strict_eq (jget runtime ''providerBacked'') (JBool True))),
        (''recoverySupported'', JBool (strict_eq (jget runtime ''recoverySupported'') (JBool True))),
        (''adapterVersion'', jors [column rows ''adapter_version'', jget runtime ''adapterVersion'', JNull]),
        (''runtimeProfile'', column rows ''runtime_profile''),
        (''fakeRuntimeCaseId'', column rows ''fake_runtime_case_id''),
        (''managedCapabilityCase'', jor (jget configuration ''managedCapabilityCase'') JNull),
        (''providerModel'', jor (jget configuration ''model'') JNull),
        (''providerReasoningEffort'', jor (jget configuration ''reasoningEffort'') JNull),
        (''sessionBinding'', jor (jget (safeObject (column rows ''execution_context'') (JObj [])) ''sessionBinding'') JNull),
        (''instruction'', JStr (to_str (jor instruction (JStr []))))])"

definition prepare_body :: "services \<Rightarrow> string \<Rightarrow> jsval \<Rightarrow> jsval \<Rightarrow> jsval body" where
  "prepare_body S runId instruction deadlineAt rows =
     (if run_status rows \<in> set cancel_statuses \<or> scope_status rows \<noteq> ''ACTIVE''
      then Inr (JObj [(''canceled'', JBool True), (''runId'', JStr runId),
                      (''fenceEpoch'', jint (max (run_epoch rows) (scope_epoch rows)))], rows)
      else
        (let inputDigest = sha256Digest (sv_sha S) (JObj [(''instruction'', JStr (to_str (jor instruction (JStr []))))]);
             t = prepared_turn S inputDigest rows;
             p = prepared_operation S runId inputDigest deadlineAt rows;
             rows' = rows\<lparr>run_turn := Some (t\<lparr>turn_status := ''SUBMITTED''\<rparr>), run_operation_row := Some p,
                          run_status := (if run_status rows \<in> set [''ADMITTED'', ''QUEUED'', ''STARTING'']
                                         then ''RUNNING'' else run_status rows)\<rparr>
         in Inr (prepared_response runId instruction p t rows,
              appendEvent (workflow_event S ''PROVIDER_OPERATION_JOURNALED'' (JStr (turn_id t))
                (''operation:'' @ op_id p @ '':journaled'')
                (JObj [(''operationId'', JStr (op_id p)), (''operationType'', JStr ''SUBMIT_TURN''),
                       (''inputDigest'', JStr (op_digest p)), (''fenceEpoch'', jint (op_fence p)),
                       (''resubmissionAllowed'', JBool False)])) rows')))"

definition prepareProviderOperationActivity ::
  "services \<Rightarrow> string \<Rightarrow> jsval \<Rightarrow> jsval \<Rightarrow> run_rows option \<Rightarrow> jsval res \<times> run_rows option" where
  "prepareProviderOperationActivity S runId instruction deadlineAt =
     withTransaction ''Agent Run not found while preparing provider operation.'' (prepare_body S runId instruction deadlineAt)"


section \<open>Recording what the provider did\<close>

definition str_slice :: "nat \<Rightarrow> jsval \<Rightarrow> jsval" where
  "str_slice n v = (case v of JStr s \<Rightarrow> JStr (take n s) | _ \<Rightarrow> JNull)"

definition is_safe_integer :: "jsval \<Rightarrow> bool" where
  "is_safe_integer v = (is_integer v \<and> (case v of JNum (Fin r) \<Rightarrow> \<bar>r\<bar> \<le> 9007199254740991 | _ \<Rightarrow> False))"

definition terminal_provider_statuses :: "string list" where
  "terminal_provider_statuses = [''COMPLETED'', ''FAILED'', ''CANCELED'', ''CANCELLED'', ''INTERRUPTED'']"

definition provider_status :: "jsval \<Rightarrow> string" where
  "provider_status runtimeResult =
     (case jget runtimeResult ''providerTerminalStatus'' of JStr s \<Rightarrow> take 40 (to_upper s) | _ \<Rightarrow> ''UNKNOWN'')"

definition projected_acceptance :: "jsval \<Rightarrow> string" where
  "projected_acceptance v =
     (if v = JStr ''ACKNOWLEDGED'' then ''ACKNOWLEDGED''
      else if v = JStr ''REJECTED_BEFORE_ACCEPTANCE'' then ''REJECTED_BEFORE_ACCEPTANCE'' else ''UNKNOWN'')"

definition message_digest :: "jsval \<Rightarrow> jsval" where
  "message_digest v =
     (case v of JStr s \<Rightarrow> if length s = 64 \<and> list_all (\<lambda>c. hex_digit c \<noteq> None) s then JStr (to_upper s) else JNull
      | _ \<Rightarrow> JNull)"

definition projected_invocation :: "jsval \<Rightarrow> jsval" where
  "projected_invocation entry = JObj (map (\<lambda>k. (k, jor (jget entry k) JNull)) invocation_keys)"

definition projected_observation :: "services \<Rightarrow> jsval \<Rightarrow> jsval" where
  "projected_observation S rr = JObj
     [(''schemaVersion'', JStr ''AGENT_PROVIDER_TERMINAL_OBSERVATION_V1''), (''providerBacked'', JBool True),
      (''sendAcceptance'', JStr (projected_acceptance (jget rr ''sendAcceptance''))),
      (''outcomeCertainty'', case jget rr ''outcomeCertainty'' of JStr s \<Rightarrow> JStr (take 40 s) | _ \<Rightarrow> JStr ''UNKNOWN''),
      (''providerTerminalStatus'', JStr (provider_status rr)),
      (''providerTerminalFailure'', JBool (strict_eq (jget rr ''providerTerminalFailure'') (JBool True))),
      (''providerTurnId'', str_slice 160 (jget rr ''providerTurnId'')),
      (''providerSessionReference'', str_slice 160 (jget rr ''providerSessionReference'')),
      (''providerOperationReference'', str_slice 240 (jget rr ''providerOperationReference'')),
      (''requestedModel'', str_slice 120 (jget rr ''requestedModel'')),
      (''observedModel'', str_slice 120 (jget rr ''observedModel'')),
      (''requestedReasoningEffort'', str_slice 40 (jget rr ''requestedReasoningEffort'')),
      (''observedReasoningEffort'', str_slice 40 (jget rr ''observedReasoningEffort'')),
      (''providerErrorCode'', str_slice 80 (jget rr ''providerErrorCode'')),
      (''providerErrorKind'', str_slice 80 (jget rr ''providerErrorKind'')),
      (''providerErrorHttpStatusCode'',
         if is_safe_integer (jget rr ''providerErrorHttpStatusCode'') then jget rr ''providerErrorHttpStatusCode'' else JNull),
      (''providerErrorMessageDigest'', message_digest (jget rr ''providerErrorMessageDigest'')),
      (''providerErrorMessageClass'', str_slice 80 (jget rr ''providerErrorMessageClass'')),
      (''providerErrorAdditionalDetails'', safeObject (jget rr ''providerErrorAdditionalDetails'') JNull),
      (''usage'', safeObject (jget rr ''usage'') JNull), (''physicalStop'', safeObject (jget rr ''physicalStop'') JNull),
      (''terminalConfirmation'', str_slice 40 (jget rr ''terminalConfirmation'')),
      (''worker'', safeObject (jget rr ''worker'') JNull),
      (''containmentProfile'', safeObject (jget rr ''containmentProfile'') JNull),
      (''egressEvidence'', safeObject (jget rr ''egressEvidence'') JNull),
      (''capabilityInvocations'', JArr (map projected_invocation (arr_items (jget rr ''capabilityInvocations'')))),
      (''taskOutputCandidate'', safeObject (jget rr ''taskOutputCandidate'') JNull),
      (''policyViolation'', str_slice 120 (jget rr ''policyViolation'')),
      (''recoveryRequired'', JBool (strict_eq (jget rr ''recoveryRequired'') (JBool True))),
      (''observedAt'', JStr (sv_now S))]"

definition projectDurableProviderObservation :: "services \<Rightarrow> jsval \<Rightarrow> jsval option" where
  "projectDurableProviderObservation S rr =
     (if is_obj rr \<and> strict_eq (jget rr ''providerBacked'') (JBool True)
         \<and> truthy (str_slice 160 (jget rr ''providerTurnId''))
         \<and> provider_status rr \<in> set terminal_provider_statuses
      then Some (projected_observation S rr) else None)"

definition schema_version :: "string \<Rightarrow> bool" where
  "schema_version s =
     (case s of [] \<Rightarrow> False
      | c # cs \<Rightarrow> is_upper c \<and> 1 \<le> length cs \<and> length cs \<le> 63
          \<and> list_all (\<lambda>d. is_upper d \<or> is_digit d \<or> d = CHR ''_'') cs)"

definition generation_text :: "string \<Rightarrow> bool" where
  "generation_text s = (length s = 36 \<and> list_all (\<lambda>c. hex_digit c \<noteq> None \<or> c = CHR ''-'') s)"

definition is_count :: "jsval \<Rightarrow> bool" where
  "is_count v = (is_safe_integer v \<and> (case v of JNum (Fin r) \<Rightarrow> 0 \<le> r | _ \<Rightarrow> False))"

definition projectRuntimeEvidenceBoundary :: "services \<Rightarrow> jsval \<Rightarrow> jsval" where
  "projectRuntimeEvidenceBoundary S v =
     (case jget v ''observedAt'' of
        JStr observedAt \<Rightarrow>
          (case sv_parse_date S observedAt of
             Some ms \<Rightarrow>
               if is_obj v \<and> schema_version (to_str (jor (jget v ''schemaVersion'') (JStr [])))
                  \<and> generation_text (to_str (jor (jget v ''generation'') (JStr [])))
                  \<and> is_count (jget v ''cursor'') \<and> is_count (jget v ''pendingConnects'')
               then JObj [(''schemaVersion'', jget v ''schemaVersion''), (''generation'', jget v ''generation''),
                      (''cursor'', jget v ''cursor''), (''pendingConnects'', jget v ''pendingConnects''),
                      (''observedAt'', JStr (iso_text ms))]
               else JNull
           | None \<Rightarrow> JNull)
      | _ \<Rightarrow> JNull)"

text \<open>The row that a statement with \<open>WHERE ..._id = $1\<close> updates, if the run has it.\<close>

definition update_operation :: "jsval \<Rightarrow> (provider_operation \<Rightarrow> provider_operation) \<Rightarrow> run_rows \<Rightarrow> run_rows" where
  "update_operation i f rows =
     (case run_operation_row rows of
        Some p \<Rightarrow> if i = JStr (op_id p) then rows\<lparr>run_operation_row := Some (f p)\<rparr> else rows
      | None \<Rightarrow> rows)"

definition update_turn :: "jsval \<Rightarrow> (agent_turn \<Rightarrow> agent_turn) \<Rightarrow> run_rows \<Rightarrow> run_rows" where
  "update_turn i f rows =
     (case run_turn rows of
        Some t \<Rightarrow> if i = JStr (turn_id t) then rows\<lparr>run_turn := Some (f t)\<rparr> else rows
      | None \<Rightarrow> rows)"

definition acceptance_body :: "services \<Rightarrow> string \<Rightarrow> jsval \<Rightarrow> jsval body" where
  "acceptance_body S runId arg rows =
     (let operationId = jget arg ''operationId''; turnId = jget arg ''turnId'';
          outcome = JObj
            [(''sendAcceptance'', JStr ''ACKNOWLEDGED''),
             (''providerOperationReference'', or_null (jget arg ''providerOperationReference'')),
             (''providerTurnId'', or_null (jget arg ''providerTurnId'')),
             (''providerSessionReference'', or_null (jget arg ''providerSessionReference'')),
             (''threadId'', or_null (jget arg ''threadId'')),
             (''runtimeEvidenceBoundary'', projectRuntimeEvidenceBoundary S (jget arg ''runtimeEvidenceBoundary''))];
          rows1 = update_operation operationId
            (\<lambda>p. p\<lparr>op_state := ''ACKNOWLEDGED'', op_certainty := ''ACKNOWLEDGED'', op_outcome := outcome\<rparr>) rows;
          rows2 = update_turn turnId
            (\<lambda>t. t\<lparr>turn_provider := or_null (jget arg ''providerTurnId''),
                  turn_session := or_null (jget arg ''providerSessionReference''), turn_status := ''ACKNOWLEDGED''\<rparr>) rows1
      in Inr (JObj [(''runId'', JStr runId), (''operationId'', operationId), (''turnId'', turnId),
                    (''providerTurnId'', or_null (jget arg ''providerTurnId'')), (''acknowledged'', JBool True)],
           appendEvent (adapter_event S ''PROVIDER_OPERATION_ACCEPTED'' turnId ''codex-agent-runtime-worker''
             (''operation:'' @ to_str operationId @ '':accepted'') (JStr (sv_now S))
             (JObj [(''operationId'', operationId),
                    (''providerOperationReference'', or_null (jget arg ''providerOperationReference'')),
                    (''providerTurnId'', or_null (jget arg ''providerTurnId'')),
                    (''providerSessionReference'', or_null (jget arg ''providerSessionReference'')),
                    (''threadId'', or_null (jget arg ''threadId''))])) rows2))"

definition recordProviderAcceptanceActivity ::
  "services \<Rightarrow> string \<Rightarrow> jsval \<Rightarrow> run_rows option \<Rightarrow> jsval res \<times> run_rows option" where
  "recordProviderAcceptanceActivity S runId arg =
     withTransaction ''Agent Run not found while recording provider acceptance.'' (acceptance_body S runId arg)"

definition differ :: "jsval \<Rightarrow> jsval \<Rightarrow> bool" where
  "differ a b = (truthy a \<and> truthy b \<and> \<not> strict_eq a b)"

definition owned_operation :: "jsval \<Rightarrow> jsval \<Rightarrow> run_rows \<Rightarrow> provider_operation option" where
  "owned_operation operationId turnId rows =
     (case (run_operation_row rows, run_turn rows) of
        (Some p, Some t) \<Rightarrow> if operationId = JStr (op_id p) \<and> turnId = JStr (turn_id t) then Some p else None
      | _ \<Rightarrow> None)"

definition recorded_before :: "services \<Rightarrow> string \<Rightarrow> jsval \<Rightarrow> jsval \<Rightarrow> jsval \<Rightarrow> jsval res" where
  "recorded_before S runId operationId observation prior =
     (if \<not> strict_eq (jget prior ''providerTurnId'') (jget observation ''providerTurnId'')
         \<or> differ (jget prior ''providerOperationReference'') (jget observation ''providerOperationReference'')
      then Inl (js_error ''Conflicting terminal provider observation already exists for this operation.'')
      else Inr (JObj [(''runId'', JStr runId), (''operationId'', operationId), (''recorded'', JBool False),
                      (''idempotent'', JBool True), (''digest'', JStr (sha256Digest (sv_sha S) prior)),
                      (''observation'', prior)]))"

definition observation_body :: "services \<Rightarrow> string \<Rightarrow> jsval \<Rightarrow> jsval \<Rightarrow> jsval \<Rightarrow> jsval body" where
  "observation_body S runId operationId turnId observation rows =
     (case owned_operation operationId turnId rows of
        None \<Rightarrow> Inl (js_error ''Provider operation not found while recording terminal observation.'')
      | Some p \<Rightarrow>
          (let existing = safeObject (op_outcome p) (JObj []);
               expected = jor (JStr (op_reference p)) JNull;
               prior = safeObject (jget existing ''durableTerminalObservation'') JNull
           in if differ expected (jget observation ''providerOperationReference'')
              then Inl (js_error ''Provider operation reference mismatch while recording terminal observation.'')
              else if truthy prior
              then rbind (recorded_before S runId operationId observation prior) (\<lambda>v. Inr (v, rows))
              else (let durable = obj_with observation [(''providerOperationReference'',
                          jors [jget observation ''providerOperationReference'', expected, JNull])];
                        worker = jor (jget (jget durable ''worker'') ''identity'') (JStr ''runtime-worker'')
                    in Inr (JObj [(''runId'', JStr runId), (''operationId'', operationId), (''recorded'', JBool True),
                         (''idempotent'', JBool False), (''digest'', JStr (sha256Digest (sv_sha S) durable)),
                         (''observation'', durable)],
                         appendEvent (adapter_event S ''PROVIDER_TERMINAL_OBSERVED'' turnId (to_str worker)
                           (''operation:'' @ to_str operationId @ '':terminal-observed'') (jget durable ''observedAt'') durable)
                           (update_operation operationId
                             (\<lambda>p. p\<lparr>op_outcome := obj_with (op_outcome p) [(''durableTerminalObservation'', durable)]\<rparr>) rows)))))"

definition recordProviderObservationActivity ::
  "services \<Rightarrow> string \<Rightarrow> jsval \<Rightarrow> jsval \<Rightarrow> jsval \<Rightarrow> run_rows option \<Rightarrow> jsval res \<times> run_rows option" where
  "recordProviderObservationActivity S runId operationId turnId runtimeResult rows =
     (case projectDurableProviderObservation S runtimeResult of
        None \<Rightarrow> (Inr (JObj [(''runId'', JStr runId), (''operationId'', operationId), (''recorded'', JBool False),
                    (''reason'', JStr ''TERMINAL_PROVIDER_OBSERVATION_NOT_AVAILABLE'')]), rows)
      | Some observation \<Rightarrow>
          withTransaction ''Agent Run not found while recording provider observation.''
            (observation_body S runId operationId turnId observation) rows)"


section \<open>The verdict on a run\<close>

record verdict =
  v_stop :: bool
  v_rejected :: bool
  v_failed :: bool
  v_blocked :: bool
  v_unconfirmed :: bool
  v_terminal_unconfirmed :: bool
  v_unknown :: bool
  v_recovery :: bool
  v_hold :: bool
  v_interaction :: string

definition is_string :: "jsval \<Rightarrow> string \<Rightarrow> bool" where
  "is_string v s = strict_eq v (JStr s)"

definition provider_backed :: "jsval \<Rightarrow> bool" where
  "provider_backed runtimeResult = strict_eq (jget runtimeResult ''providerBacked'') (JBool True)"

definition judge :: "run_rows \<Rightarrow> jsval \<Rightarrow> jsval \<Rightarrow> jsval \<Rightarrow> verdict" where
  "judge rows rr reconciliation interactionOutcome =
     (let stop = (run_status rows \<in> set cancel_statuses \<or> scope_status rows \<noteq> ''ACTIVE'');
          backed = provider_backed rr;
          interaction = to_upper (to_str (jor interactionOutcome (JStr [])));
          physical = is_string (jget (jget rr ''physicalStop'') ''state'') ''CONFIRMED'';
          terminalUnconfirmed = (stop \<and> backed \<and> \<not> is_string (jget rr ''terminalConfirmation'') ''CONFIRMED'');
          unconfirmed = (stop \<and> (\<not> physical \<or> terminalUnconfirmed));
          unknown = (backed \<and> (strict_eq (jget rr ''recoveryRequired'') (JBool True)
            \<or> is_string (jget rr ''outcomeCertainty'') ''UNKNOWN''
            \<or> is_string (jget rr ''providerTerminalStatus'') ''UNKNOWN''));
          recovery = (is_string (jget reconciliation ''disposition'') ''RECOVERY_REQUIRED''
            \<or> is_string (jget rr ''sendAcceptance'') ''UNKNOWN'' \<and> \<not> truthy reconciliation
            \<or> unknown \<or> unconfirmed)
      in \<lparr>v_stop = stop, v_rejected = is_string (jget rr ''sendAcceptance'') ''REJECTED_BEFORE_ACCEPTANCE'',
          v_failed = (backed \<and> strict_eq (jget rr ''providerTerminalFailure'') (JBool True)),
          v_blocked = (interaction \<in> set [''BLOCKED'', ''EXPIRED'', ''REJECTED'', ''CANCELED'']),
          v_unconfirmed = unconfirmed, v_terminal_unconfirmed = terminalUnconfirmed, v_unknown = unknown,
          v_recovery = recovery, v_hold = (recovery \<and> backed), v_interaction = interaction\<rparr>)"

definition verdict_status :: "verdict \<Rightarrow> string" where
  "verdict_status v =
     (if v_recovery v then ''RECOVERY_REQUIRED'' else if v_stop v then ''CANCELED''
      else if v_blocked v \<or> v_rejected v \<or> v_failed v then ''FAILED'' else ''COMPLETED'')"

definition verdict_outcome :: "verdict \<Rightarrow> string" where
  "verdict_outcome v =
     (if v_recovery v then ''RECOVERY_REQUIRED'' else if v_stop v then ''CANCELED''
      else if v_blocked v then ''INTERACTION_'' @ v_interaction v else if v_rejected v then ''SAFE_TO_REJECT''
      else if v_failed v then ''PROVIDER_TERMINAL_FAILED'' else ''SUCCESS'')"

definition stop_state :: "verdict \<Rightarrow> string" where
  "stop_state v = (if v_stop v then if v_unconfirmed v then ''UNCONFIRMED'' else ''CONFIRMED'' else ''NONE'')"

definition error_code :: "verdict \<Rightarrow> jsval" where
  "error_code v =
     (if v_unconfirmed v
      then JStr (if v_terminal_unconfirmed v then ''PROVIDER_TERMINAL_CONFIRMATION_UNKNOWN'' else ''PHYSICAL_STOP_NOT_CONFIRMED'')
      else if v_unknown v then JStr ''PROVIDER_OUTCOME_UNKNOWN''
      else if v_recovery v then JStr ''PROVIDER_SEND_UNKNOWN''
      else if v_blocked v then JStr (''INTERACTION_'' @ v_interaction v)
      else if v_rejected v then JStr ''PROVIDER_REJECTED_BEFORE_ACCEPTANCE''
      else if v_failed v then JStr ''PROVIDER_TERMINAL_FAILED'' else JNull)"

definition operation_state :: "verdict \<Rightarrow> string" where
  "operation_state v =
     (if v_recovery v then ''RECOVERY_REQUIRED'' else if v_stop v then ''CANCELED''
      else if v_rejected v then ''REJECTED'' else ''COMPLETED'')"

definition operation_certainty :: "verdict \<Rightarrow> string" where
  "operation_certainty v =
     (if v_recovery v then ''UNKNOWN'' else if v_stop v then ''NOT_CONFIRMED''
      else if v_rejected v then ''REJECTED'' else ''ACKNOWLEDGED'')"

definition settled_turn :: "verdict \<Rightarrow> string" where
  "settled_turn v =
     (if v_stop v then ''CANCELED'' else if v_recovery v then ''RECOVERY_REQUIRED''
      else if v_rejected v then ''REJECTED'' else if v_failed v then ''FAILED'' else ''COMPLETED'')"

definition quarantines :: "verdict \<Rightarrow> bool" where
  "quarantines v = (v_unconfirmed v \<or> v_hold v)"

definition hold_reason :: "verdict \<Rightarrow> string" where
  "hold_reason v = (if v_unconfirmed v then ''PHYSICAL_STOP_NOT_CONFIRMED'' else ''PROVIDER_OUTCOME_UNKNOWN'')"

section \<open>Settling the operation, the cell and the leases\<close>

definition settle_operation :: "services \<Rightarrow> verdict \<Rightarrow> jsval \<Rightarrow> jsval \<Rightarrow> jsval \<Rightarrow> run_rows \<Rightarrow> run_rows" where
  "settle_operation S v operation rr reconciliation rows =
     (if truthy (jget operation ''operationId'')
      then update_turn (jget operation ''turnId'')
        (\<lambda>t. t\<lparr>turn_provider := or_null (jget rr ''providerTurnId''),
              turn_session := or_null (jget rr ''providerSessionReference''), turn_status := settled_turn v,
              turn_output := (if truthy (jget rr ''taskOutputCandidate'')
                then JStr (sha256Digest (sv_sha S) (jget rr ''taskOutputCandidate'')) else JNull)\<rparr>)
        (update_operation (jget operation ''operationId'')
          (\<lambda>p. p\<lparr>op_state := operation_state v, op_certainty := operation_certainty v,
                op_outcome := obj_with (op_outcome p)
                  [(''runtimeResult'', or_null rr), (''reconciliation'', or_null reconciliation)]\<rparr>) rows)
      else rows)"

definition no_containment :: jsval where
  "no_containment = JObj (map (\<lambda>k. (k, JBool False))
     [''liveCheckoutMount'', ''arbitraryHostFilesystem'', ''dockerSocket'', ''githubCredentials'',
      ''hostAgentCredentials'', ''supervisorCredentials'', ''providerCredentials''])"

definition evidence_of :: "jsval \<Rightarrow> (string \<times> jsval) list" where
  "evidence_of rr =
     (let worker = safeObject (jget rr ''worker'') (JObj [])
      in [(''workerGeneration'', or_null (jget worker ''generation'')),
          (''workerIdentity'', or_null (jget worker ''identity'')),
          (''physicalStop'', or_null (jget rr ''physicalStop'')),
          (''providerTurnId'', or_null (jget rr ''providerTurnId'')),
          (''providerOperationReference'', or_null (jget rr ''providerOperationReference''))])"

definition observed_cell :: "jsval \<Rightarrow> run_rows \<Rightarrow> runtime_cell" where
  "observed_cell rr rows =
     (let worker = safeObject (jget rr ''worker'') (JObj []);
          columns = JObj
            [(''runtime_kind'', column rows ''runtime_code''),
             (''adapter_version'', jor (jget rr ''adapterVersion'') (JStr ''fake-runtime-adapter.v1'')),
             (''task_queue'', jor (jget (jget rr ''worker'') ''taskQueue'') (JStr ''skycommand-agent-runtime-local'')),
             (''worker_identity'', or_null (jget worker ''identity'')),
             (''worker_generation'', or_null (jget worker ''generation'')),
             (''worker_process_id'', or_null (jget worker ''processId'')),
             (''worker_hostname'', or_null (jget worker ''hostname'')), (''readiness_status'', JStr ''CURRENT''),
             (''containment_profile'', jor (jget rr ''containmentProfile'') no_containment)]
      in case run_cell rows of
           Some c \<Rightarrow> c\<lparr>cell_columns := columns\<rparr>
         | None \<Rightarrow> \<lparr>cell_columns = columns, cell_quarantined = False, cell_reason = [], cell_evidence = JNull\<rparr>)"

definition settle_cell :: "services \<Rightarrow> verdict \<Rightarrow> jsval \<Rightarrow> run_rows \<Rightarrow> run_rows" where
  "settle_cell S v rr rows =
     (if truthy rr
      then rows\<lparr>run_cell := Some
        (let c = observed_cell rr rows
         in if quarantines v
            then c\<lparr>cell_quarantined := True, cell_reason := hold_reason v,
                   cell_evidence := obj_with (cell_evidence c)
                     ((''requestedAt'', JStr (sv_now S)) # evidence_of rr)\<rparr>
            else c)\<rparr>
      else rows)"

definition settle_lease :: "verdict \<Rightarrow> resource_lease \<Rightarrow> resource_lease" where
  "settle_lease v l =
     (if lease_state l = ''ACTIVE''
      then l\<lparr>lease_state := (if stop_state v = ''UNCONFIRMED'' \<or> v_hold v then ''QUARANTINED''
                 else if stop_state v = ''CANCELED'' then ''REVOKED'' else ''RELEASED''),
             lease_reason := (if stop_state v = ''UNCONFIRMED'' then ''PHYSICAL_STOP_NOT_CONFIRMED''
                 else if v_hold v then ''PROVIDER_OUTCOME_UNKNOWN'' else lease_reason l)\<rparr>
      else l)"

definition settle_session :: "verdict \<Rightarrow> string \<Rightarrow> string" where
  "settle_session v model =
     (if verdict_status v = ''CANCELED'' \<or> verdict_status v = ''RECOVERY_REQUIRED'' \<or> stop_state v = ''UNCONFIRMED''
      then ''RECOVERY_REQUIRED''
      else if model = ''PERSISTENT'' \<and> verdict_status v = ''COMPLETED'' then ''ACTIVE'' else ''CLOSED'')"

definition settle_scope :: "verdict \<Rightarrow> run_rows \<Rightarrow> run_rows" where
  "settle_scope v rows =
     (if quarantines v
      then rows\<lparr>scope_status := ''RECOVERY_REQUIRED'', scope_reason := jnull_or (scope_reason rows) (JStr (hold_reason v))\<rparr>
      else rows)"

definition settle_grant :: "services \<Rightarrow> execution_grant \<Rightarrow> execution_grant" where
  "settle_grant S g =
     (if grant_kind g \<in> set [''ROOT_RUN'', ''MANAGED_CAPABILITY''] \<and> grant_state g = ''ACTIVE''
      then g\<lparr>grant_state := ''EXPIRED'', grant_closed := jnull_or (grant_closed g) (JStr (sv_now S)),
             grant_metadata := obj_with (jnull_or (grant_metadata g) (JObj [])) [(''lifecycleReason'', JStr ''AGENT_RUN_TERMINAL'')]\<rparr>
      else g)"

definition segment_status :: "verdict \<Rightarrow> string" where
  "segment_status v =
     (if verdict_status v = ''COMPLETED'' then ''COMPLETED'' else if verdict_status v = ''CANCELED'' then ''CANCELED'' else ''FAILED'')"

definition settle_segments :: "verdict \<Rightarrow> jsval \<Rightarrow> (string \<times> string) list \<Rightarrow> (string \<times> string) list" where
  "settle_segments v temporalRunId segments =
     (if truthy temporalRunId
      then map (\<lambda>(i, s). (i, if JStr i = temporalRunId then segment_status v else s)) segments else segments)"

definition settle_run :: "verdict \<Rightarrow> run_rows \<Rightarrow> run_rows" where
  "settle_run v rows =
     (if isTerminalStatus (JStr (run_status rows)) then rows
      else rows\<lparr>run_status := verdict_status v, run_outcome := JStr (verdict_outcome v), run_stop := stop_state v\<rparr>)"


section \<open>Events of the end of a run\<close>

text \<open>The default of the parameter only replaces undefined: null throws.\<close>

definition normalizeRuntimeEvents :: "jsval \<Rightarrow> jsval list res" where
  "normalizeRuntimeEvents rr =
     (if rr = JNull then Inl (type_error JNull ''events'') else Inr (arr_items (jget rr ''events'')))"

definition known_text :: "string list \<Rightarrow> jsval \<Rightarrow> string \<Rightarrow> string" where
  "known_text known v fallback = (case v of JStr s \<Rightarrow> if s \<in> set known then s else fallback | _ \<Rightarrow> fallback)"

definition default_instance :: "jsval \<Rightarrow> jsval" where
  "default_instance rr =
     (let worker = safeObject (jget rr ''worker'') (JObj [])
      in jors [jget worker ''generation'', jget worker ''identity'',
               JStr (if provider_backed rr then ''managed-codex-runtime'' else ''unknown-runtime-worker'')])"

definition runtime_event :: "services \<Rightarrow> jsval \<Rightarrow> jsval \<Rightarrow> jsval \<Rightarrow> agent_event res" where
  "runtime_event S operation rr event =
     rbind (jread event ''eventType'') (\<lambda>eventType.
     (let source = jget event ''source''; type = jor eventType (JStr ''RUNTIME_EVENT'')
      in Inr \<lparr>ev_sequence = 0, ev_type = type, ev_turn = or_null (jget operation ''turnId''),
         ev_kind = to_str (jor (jget source ''kind'')
           (JStr (if provider_backed rr then ''OPENAI_CODEX_APP_SERVER'' else ''FAKE_RUNTIME_WORKER''))),
         ev_instance = to_str (jor (jget source ''instance'') (default_instance rr)),
         ev_cursor = Some (to_str (jor (jget source ''cursor'')
           (JStr (to_str (jor (jget event ''eventId'') (JStr ''event'')) @ '':'' @ to_str type)))),
         ev_availability = known_text [''REPORTED'', ''NOT_REPORTED'', ''UNSUPPORTED'', ''ERROR''] (jget event ''availability'') ''ERROR'',
         ev_freshness = known_text [''CURRENT'', ''STALE'', ''UNKNOWN''] (jget event ''freshness'') ''UNKNOWN'',
         ev_observed = jor (jget event ''observedAt'') (JStr (sv_now S)),
         ev_payload = JObj [(''contract'', jget event ''contract''), (''eventId'', jget event ''eventId''),
           (''payload'', safeObject (jget event ''payload'') (JObj [])),
           (''measurements'', or_null (jget event ''measurements''))]\<rparr>))"

definition egress_events :: "services \<Rightarrow> string \<Rightarrow> jsval \<Rightarrow> jsval \<Rightarrow> agent_event list" where
  "egress_events S runId operation rr =
     (let egress = jget rr ''egressEvidence''
      in if provider_backed rr \<and> truthy egress
         then [(workflow_event S ''PROVIDER_EGRESS_OBSERVATION'' (or_null (jget operation ''turnId''))
             (''provider-egress:'' @ to_str (jor (jget operation ''operationId'') (JStr runId)) @ '':terminal'') egress)
             \<lparr>ev_kind := ''SKYCOMMAND_MANAGED_EGRESS_PROXY'',
              ev_instance := to_str (jor (jget (jget rr ''worker'') ''generation'') (JStr ''unknown-runtime-generation'')),
              ev_availability := (if is_string (jget egress ''availability'') ''UNAVAILABLE'' then ''NOT_REPORTED'' else ''REPORTED'')\<rparr>]
         else [])"

definition reconciled_events :: "services \<Rightarrow> jsval \<Rightarrow> jsval \<Rightarrow> agent_event list" where
  "reconciled_events S operation reconciliation =
     (if truthy reconciliation
      then [(adapter_event S ''PROVIDER_OPERATION_RECONCILED'' (or_null (jget operation ''turnId''))
           (to_str (jor (jget reconciliation ''workerIdentity'') (JStr ''runtime-worker'')))
           (to_str (jget reconciliation ''operationId'') @ '':reconciled'') (JStr (sv_now S)) (serialize reconciliation))
           \<lparr>ev_availability := (if is_string (jget reconciliation ''disposition'') ''RECOVERY_REQUIRED''
              then ''ERROR'' else ''REPORTED'')\<rparr>]
      else [])"

definition safe_credential :: "jsval \<Rightarrow> jsval" where
  "safe_credential c =
     (if truthy c
      then JObj
        [(''grantId'', or_null (jget c ''grantId'')), (''reference'', or_null (jget c ''reference'')),
         (''credentialFingerprint'', or_null (jget c ''credentialFingerprint'')), (''audience'', or_null (jget c ''audience'')),
         (''issuedAt'', or_null (jget c ''issuedAt'')), (''expiresAt'', or_null (jget c ''expiresAt'')),
         (''state'', if is_string (jget c ''state'') ''ACTIVE'' then JStr ''EXPIRED'' else or_null (jget c ''state'')),
         (''closedAt'', or_null (jget c ''closedAt'')), (''revokedAt'', or_null (jget c ''revokedAt'')),
         (''expiredAt'', or_null (jget c ''expiredAt'')), (''statusReason'', or_null (jget c ''statusReason'')),
         (''revocationEpoch'', jnull_or (jget c ''revocationEpoch'') JNull)]
      else JNull)"

definition safe_effect :: "jsval \<Rightarrow> jsval" where
  "safe_effect e = JObj
     [(''effectId'', or_null (jget e ''effectId'')), (''effectKey'', or_null (jget e ''effectKey'')),
      (''capabilityKind'', or_null (jget e ''capabilityKind'')), (''capabilityCode'', or_null (jget e ''capabilityCode'')),
      (''capabilityVersion'', or_null (jget e ''capabilityVersion'')),
      (''authorityDecision'', or_null (jget e ''authorityDecision'')),
      (''authorityEpoch'', jnull_or (jget e ''authorityEpoch'') JNull),
      (''policyRevision'', or_null (jget e ''policyRevision'')),
      (''executionSurfaceDecision'', jor (jget e ''executionSurfaceDecision'') (JObj [])),
      (''managedCredential'', safe_credential (jget e ''managedCredential'')),
      (''nativeBrowserExecutionId'', or_null (jget e ''nativeBrowserExecutionId'')),
      (''nativeBrowserWorkflowId'', or_null (jget e ''nativeBrowserWorkflowId'')),
      (''browserAutomationRunId'', or_null (jget e ''browserAutomationRunId'')),
      (''runtimeWorker'', or_null (jget e ''runtimeWorker'')), (''dispatchState'', or_null (jget e ''dispatchState'')),
      (''outcomeCertainty'', or_null (jget e ''outcomeCertainty'')), (''denialReason'', or_null (jget e ''denialReason'')),
      (''reconciliation'', jor (jget e ''reconciliation'') (JObj [])), (''result'', or_null (jget e ''result'')),
      (''browserResult'', or_null (jget e ''browserResult'')), (''replayed'', JBool (truthy (jget e ''replayed''))),
      (''denied'', JBool (truthy (jget e ''denied'')))]"

definition effect_event :: "services \<Rightarrow> jsval \<Rightarrow> jsval \<Rightarrow> agent_event" where
  "effect_event S operation e =
     (workflow_event S ''AGENT_CAPABILITY_EFFECT_RECORDED'' (or_null (jget operation ''turnId''))
        (''capability:'' @ to_str (jget e ''effectId'') @ '':final:''
           @ to_str (jor (jget e ''dispatchState'') (JStr ''UNKNOWN''))) e)
       \<lparr>ev_kind := ''SKYCOMMAND_AGENT_CAPABILITY_AUTHORIZATION'',
        ev_instance := to_str (jor (jget (jget e ''runtimeWorker'') ''identity'') (JStr ''control-plane'')),
        ev_availability := (if truthy (jget e ''denied'') then ''ERROR'' else ''REPORTED'')\<rparr>"

definition append_all :: "agent_event list \<Rightarrow> run_rows \<Rightarrow> run_rows" where
  "append_all es rows = foldl (\<lambda>r e. appendEvent e r) rows es"

section \<open>The summary and the end of a run\<close>

definition summary_usage :: "jsval \<Rightarrow> jsval \<Rightarrow> run_rows \<Rightarrow> jsval" where
  "summary_usage operation rr rows =
     normalizeUsageForSummary (jnull_or (jget rr ''usage'') JNull) (or_null (jget operation ''operationId''))
       (column rows ''runtime_code'')"

definition provider_evidence :: "jsval \<Rightarrow> jsval \<Rightarrow> jsval \<Rightarrow> jsval" where
  "provider_evidence operation rr usage =
     (if provider_backed rr
      then (let plain = (\<lambda>k. (k, or_null (jget rr k)))
        in JObj
          ([plain ''providerSessionReference'', plain ''providerTurnId'',
            (''providerOperationReference'', jors [jget rr ''providerOperationReference'',
               jget operation ''providerOperationReference'', JNull])]
           @ map plain [''requestedModel'', ''observedModel'', ''requestedReasoningEffort'', ''observedReasoningEffort'',
               ''providerErrorCode'', ''providerErrorKind'', ''providerErrorHttpStatusCode'', ''providerErrorMessageDigest'',
               ''providerErrorMessageClass'']
           @ [(''providerErrorAdditionalDetails'', safeObject (jget rr ''providerErrorAdditionalDetails'') JNull),
              plain ''providerTerminalStatus'', plain ''egressEvidence'',
              (''usageSource'', JStr (if is_string (jget usage ''availability'') ''REPORTED''
                 then ''OPENAI_CODEX_APP_SERVER'' else ''NOT_REPORTED'')),
              (''usageFreshness'', jor (jget usage ''freshness'') (JStr ''UNKNOWN'')),
              plain ''rateLimits'', plain ''accountUsage'',
              (''mcpCapabilityInvocationCount'', jnat (length (arr_items (jget rr ''capabilityInvocations'')))),
              plain ''physicalStop'', plain ''terminalConfirmation'', plain ''worker'']))
      else JNull)"

definition summary_of ::
  "string \<Rightarrow> verdict \<Rightarrow> jsval \<Rightarrow> jsval \<Rightarrow> jsval list \<Rightarrow> run_rows \<Rightarrow> summary_request" where
  "summary_of runId v operation rr effects rows =
     (let usage = summary_usage operation rr rows
      in \<lparr>s_runId = JStr runId, s_sessionId = column rows ''session_id'', s_projectId = column rows ''project_id'',
          s_agentDefinitionId = column rows ''definition_id'', s_agentRevision = column rows ''agent_revision'',
          s_runtimeKind = column rows ''runtime_code'', s_rootExecutionId = column rows ''execution_scope_id'',
          s_rootAgentRunId = JStr runId, s_initiatingUserId = column rows ''initiating_user_id'',
          s_initiatingActor = safeObject (column rows ''initiating_actor_snapshot'')
            (JObj [(''kind'', column rows ''initiating_actor_kind''), (''id'', column rows ''initiating_actor_id''),
                   (''displayNameSnapshot'', JNull)]),
          s_triggerSource = column rows ''trigger_source'', s_status = verdict_status v,
          s_outcome = JStr (verdict_outcome v),
          s_taskOutput = (if verdict_status v = ''COMPLETED'' then or_null (jget rr ''taskOutputCandidate'') else JNull),
          s_usage = usage, s_operationId = or_null (jget operation ''operationId''),
          s_caseId = column rows ''fake_runtime_case_id'', s_capabilityEffects = JArr effects,
          s_providerEvidence = provider_evidence operation rr usage, s_stopState = stop_state v,
          s_errorCode = error_code v\<rparr>)"

definition publish_result :: "services \<Rightarrow> verdict \<Rightarrow> string \<Rightarrow> jsval \<Rightarrow> run_rows \<Rightarrow> run_rows" where
  "publish_result S v digest summary rows =
     (if run_result rows = None then rows\<lparr>run_result := Some (verdict_status v, digest, summary)\<rparr> else rows)"

record final_request =
  f_operation :: jsval
  f_runtimeResult :: jsval
  f_reconciliation :: jsval
  f_temporalRunId :: jsval
  f_effects :: jsval
  f_interactionOutcome :: jsval

definition published_event :: "services \<Rightarrow> verdict \<Rightarrow> final_request \<Rightarrow> string \<Rightarrow> agent_event" where
  "published_event S v F digest =
     (let resultId = sv_new_id S ''result''
      in workflow_event S ''RUN_TERMINAL_RESULT_PUBLISHED'' (or_null (jget (f_operation F) ''turnId''))
        (''result:'' @ resultId)
        (JObj [(''status'', JStr (verdict_status v)), (''outcome'', JStr (verdict_outcome v)),
          (''resultId'', JStr resultId), (''resultDigest'', JStr digest), (''stopState'', JStr (stop_state v)),
          (''interactionOutcome'', or_null (f_interactionOutcome F)),
          (''quarantineState'', JStr (if quarantines v then ''QUARANTINED'' else ''NOT_APPLICABLE''))]))"

text \<open>The rows after the result is known: the result, the run, the leases, the session, the scope, the grants, the
  segments and the last event.\<close>

definition settle_rows :: "services \<Rightarrow> verdict \<Rightarrow> final_request \<Rightarrow> jsval \<Rightarrow> string \<Rightarrow> run_rows \<Rightarrow> run_rows" where
  "settle_rows S v F summary digest rows =
     (let rows1 = settle_scope v (settle_run v (publish_result S v digest summary rows))
      in appendEvent (published_event S v F digest)
        (rows1\<lparr>run_leases := map (settle_lease v) (run_leases rows1),
               session_status := settle_session v (session_model rows1),
               run_grants := map (settle_grant S) (run_grants rows1),
               run_segments := settle_segments v (f_temporalRunId F) (run_segments rows1)\<rparr>))"

definition final_body :: "services \<Rightarrow> string \<Rightarrow> final_request \<Rightarrow> jsval body" where
  "final_body S runId F rows =
     (let operation = f_operation F; rr = f_runtimeResult F; reconciliation = f_reconciliation F;
          v = judge rows rr reconciliation (f_interactionOutcome F);
          effects = map safe_effect (arr_items (f_effects F))
      in rbind (rbind (normalizeRuntimeEvents rr) (rmap (runtime_event S operation rr))) (\<lambda>events.
         (let rows1 = append_all (events @ egress_events S runId operation rr @ reconciled_events S operation reconciliation
                        @ map (effect_event S operation) effects)
                        (settle_cell S v rr (settle_operation S v operation rr reconciliation rows))
          in rbind (buildTerminalSummary (sv_host S) (sv_frames S) (sv_summary_schema S)
                     (summary_of runId v operation rr effects rows)) (\<lambda>summary.
             (let digest = resultDigest (sv_sha S) summary
              in Inr (JObj [(''runId'', JStr runId), (''status'', JStr (verdict_status v)),
                       (''outcome'', JStr (verdict_outcome v)), (''resultId'', JStr (sv_new_id S ''result'')),
                       (''resultDigest'', JStr digest), (''summary'', summary)],
                      settle_rows S v F summary digest rows1))))))"

definition finalizeAgentRunActivity ::
  "services \<Rightarrow> string \<Rightarrow> final_request \<Rightarrow> run_rows option \<Rightarrow> jsval res \<times> run_rows option" where
  "finalizeAgentRunActivity S runId F = withTransaction ''Agent Run not found while finalizing.'' (final_body S runId F)"

definition getAgentRunStateActivity :: "string \<Rightarrow> run_rows option \<Rightarrow> jsval" where
  "getAgentRunStateActivity runId rows =
     (case rows of
        None \<Rightarrow> JNull
      | Some r \<Rightarrow> JObj
          [(''runId'', JStr runId), (''status'', JStr (run_status r)), (''revocationEpoch'', jint (run_epoch r)),
           (''scopeStatus'', JStr (scope_status r)), (''scopeRevocationEpoch'', jint (scope_epoch r)),
           (''grantState'', case filter (\<lambda>g. grant_kind g = ''ROOT_RUN'') (run_grants r) of
              g # _ \<Rightarrow> JStr (grant_state g) | [] \<Rightarrow> JNull)])"


end
