(* ===== verification/AgentRunLedger.thy ===== *)
theory AgentRunLedger
  imports AgentRunActivities
begin

text \<open>
  What the record of an agent run guarantees under every sequence of activities: ended runs stay ended, the
  published result agrees with the run, events are numbered, a finalization completes a run only when
  nothing speaks against it and holds its resources when something is in doubt; and what a repeated
  finalization changes.
\<close>

section \<open>Sequences of activities\<close>

datatype run_activity =
    Mark string jsval
  | Prepare jsval jsval
  | Accept jsval
  | Observe jsval jsval jsval
  | Finalize final_request

fun perform :: "services \<Rightarrow> string \<Rightarrow> run_activity \<Rightarrow> run_rows option \<Rightarrow> jsval res \<times> run_rows option" where
  "perform S runId (Mark status why) = markAgentRunStateActivity S runId status why"
| "perform S runId (Prepare instruction deadlineAt) = prepareProviderOperationActivity S runId instruction deadlineAt"
| "perform S runId (Accept arg) = recordProviderAcceptanceActivity S runId arg"
| "perform S runId (Observe operationId turnId rr) = recordProviderObservationActivity S runId operationId turnId rr"
| "perform S runId (Finalize F) = finalizeAgentRunActivity S runId F"

definition after_activities :: "services \<Rightarrow> string \<Rightarrow> run_activity list \<Rightarrow> run_rows \<Rightarrow> run_rows" where
  "after_activities S runId as rows = foldl (\<lambda>r a. case snd (perform S runId a (Some r)) of Some r' \<Rightarrow> r' | None \<Rightarrow> r) rows as"

text \<open>The body of each activity; its result is what a committed transaction leaves.\<close>

fun body_of :: "services \<Rightarrow> string \<Rightarrow> run_activity \<Rightarrow> jsval body" where
  "body_of S runId (Mark status why) = mark_body S runId status why"
| "body_of S runId (Prepare instruction deadlineAt) = prepare_body S runId instruction deadlineAt"
| "body_of S runId (Accept arg) = acceptance_body S runId arg"
| "body_of S runId (Observe operationId turnId rr) =
     (\<lambda>rows. case projectDurableProviderObservation S rr of
        None \<Rightarrow> Inr (JNull, rows)
      | Some observation \<Rightarrow> observation_body S runId operationId turnId observation rows)"
| "body_of S runId (Finalize F) = final_body S runId F"

lemma performed:
  "snd (perform S runId a (Some rows)) = Some (case body_of S runId a rows of Inl err \<Rightarrow> rows | Inr (v, rows') \<Rightarrow> rows')"
  by (cases a)
    (auto simp: markAgentRunStateActivity_def prepareProviderOperationActivity_def recordProviderAcceptanceActivity_def
      recordProviderObservationActivity_def finalizeAgentRunActivity_def withTransaction_def
      split: sum.splits prod.splits option.splits)

text \<open>What every committed body keeps, any sequence of activities keeps.\<close>

lemma after_activities_keep:
  assumes step: "\<And>a rows v rows'. a \<in> set as \<Longrightarrow> P rows \<Longrightarrow> body_of S runId a rows = Inr (v, rows') \<Longrightarrow> P rows'"
    and start: "P rows"
  shows "P (after_activities S runId as rows)"
  using assms unfolding after_activities_def
proof (induction as arbitrary: rows)
  case (Cons a as)
  define rows' where "rows' = (case body_of S runId a rows of Inl err \<Rightarrow> rows | Inr (v, r) \<Rightarrow> r)"
  have "P rows'"
    using Cons.prems(1) [of a rows] Cons.prems(2) by (auto simp: rows'_def split: sum.splits)
  moreover have "P r'" if "b \<in> set as" "P r" "body_of S runId b r = Inr (v, r')" for b r v r'
    using Cons.prems(1) [of b r v r'] that by simp
  ultimately show ?case
    using Cons.IH [of rows'] by (simp add: performed rows'_def)
qed simp

section \<open>The fields that the updates leave alone\<close>

lemma appendEvent_fields [simp]:
  "run_status (appendEvent e rows) = run_status rows" "run_outcome (appendEvent e rows) = run_outcome rows"
  "run_stop (appendEvent e rows) = run_stop rows" "run_result (appendEvent e rows) = run_result rows"
  "run_turn (appendEvent e rows) = run_turn rows" "run_operation_row (appendEvent e rows) = run_operation_row rows"
  "run_leases (appendEvent e rows) = run_leases rows" "run_grants (appendEvent e rows) = run_grants rows"
  "scope_status (appendEvent e rows) = scope_status rows" "session_status (appendEvent e rows) = session_status rows"
  "run_cell (appendEvent e rows) = run_cell rows" "run_columns (appendEvent e rows) = run_columns rows"
  by (simp_all add: appendEvent_def)

lemma append_all_fields [simp]:
  "run_status (append_all es rows) = run_status rows" "run_outcome (append_all es rows) = run_outcome rows"
  "run_stop (append_all es rows) = run_stop rows" "run_result (append_all es rows) = run_result rows"
  "run_turn (append_all es rows) = run_turn rows" "run_leases (append_all es rows) = run_leases rows"
  "run_grants (append_all es rows) = run_grants rows" "scope_status (append_all es rows) = scope_status rows"
  "run_cell (append_all es rows) = run_cell rows"
  by (induction es arbitrary: rows) (simp_all add: append_all_def)

lemma update_fields [simp]:
  "run_status (update_operation i f rows) = run_status rows" "run_outcome (update_operation i f rows) = run_outcome rows"
  "run_stop (update_operation i f rows) = run_stop rows" "run_result (update_operation i f rows) = run_result rows"
  "run_leases (update_operation i f rows) = run_leases rows" "run_grants (update_operation i f rows) = run_grants rows"
  "scope_status (update_operation i f rows) = scope_status rows" "run_events (update_operation i f rows) = run_events rows"
  "run_turn (update_operation i f rows) = run_turn rows"
  "run_status (update_turn i g rows) = run_status rows" "run_outcome (update_turn i g rows) = run_outcome rows"
  "run_stop (update_turn i g rows) = run_stop rows" "run_result (update_turn i g rows) = run_result rows"
  "run_leases (update_turn i g rows) = run_leases rows" "run_grants (update_turn i g rows) = run_grants rows"
  "scope_status (update_turn i g rows) = scope_status rows" "run_events (update_turn i g rows) = run_events rows"
  by (simp_all add: update_operation_def update_turn_def split: option.splits)

lemma settle_fields [simp]:
  "run_status (settle_operation S v operation rr rc rows) = run_status rows"
  "run_outcome (settle_operation S v operation rr rc rows) = run_outcome rows"
  "run_stop (settle_operation S v operation rr rc rows) = run_stop rows"
  "run_result (settle_operation S v operation rr rc rows) = run_result rows"
  "run_leases (settle_operation S v operation rr rc rows) = run_leases rows"
  "run_grants (settle_operation S v operation rr rc rows) = run_grants rows"
  "scope_status (settle_operation S v operation rr rc rows) = scope_status rows"
  "run_events (settle_operation S v operation rr rc rows) = run_events rows"
  "run_status (settle_cell S v rr rows) = run_status rows" "run_outcome (settle_cell S v rr rows) = run_outcome rows"
  "run_stop (settle_cell S v rr rows) = run_stop rows" "run_result (settle_cell S v rr rows) = run_result rows"
  "run_leases (settle_cell S v rr rows) = run_leases rows" "run_grants (settle_cell S v rr rows) = run_grants rows"
  "scope_status (settle_cell S v rr rows) = scope_status rows" "run_events (settle_cell S v rr rows) = run_events rows"
  "run_turn (settle_cell S v rr rows) = run_turn rows"
  "run_leases (settle_run v rows) = run_leases rows" "run_grants (settle_run v rows) = run_grants rows"
  "scope_status (settle_run v rows) = scope_status rows" "run_result (settle_run v rows) = run_result rows"
  "run_events (settle_run v rows) = run_events rows" "run_turn (settle_run v rows) = run_turn rows" "run_cell (settle_run v rows) = run_cell rows"
  "run_leases (settle_scope v rows) = run_leases rows" "run_grants (settle_scope v rows) = run_grants rows"
  "run_result (settle_scope v rows) = run_result rows" "run_status (settle_scope v rows) = run_status rows"
  "run_outcome (settle_scope v rows) = run_outcome rows" "run_stop (settle_scope v rows) = run_stop rows"
  "run_events (settle_scope v rows) = run_events rows" "run_turn (settle_scope v rows) = run_turn rows" "run_cell (settle_scope v rows) = run_cell rows"
  by (simp_all add: settle_operation_def settle_cell_def settle_run_def settle_scope_def)

lemma publish_fields [simp]:
  "run_status (publish_result S v d m rows) = run_status rows" "run_outcome (publish_result S v d m rows) = run_outcome rows"
  "run_stop (publish_result S v d m rows) = run_stop rows" "run_leases (publish_result S v d m rows) = run_leases rows"
  "run_grants (publish_result S v d m rows) = run_grants rows" "scope_status (publish_result S v d m rows) = scope_status rows"
  "run_events (publish_result S v d m rows) = run_events rows" "run_turn (publish_result S v d m rows) = run_turn rows"
  "run_cell (publish_result S v d m rows) = run_cell rows"
  by (simp_all add: publish_result_def)

text \<open>What a committed finalization did.\<close>

lemma final_body_commits:
  assumes "final_body S runId F rows = Inr (x, rows')"
  obtains events summary where
    "buildTerminalSummary (sv_host S) (sv_frames S) (sv_summary_schema S)
       (summary_of runId (judge rows (f_runtimeResult F) (f_reconciliation F) (f_interactionOutcome F)) (f_operation F)
         (f_runtimeResult F) (map safe_effect (arr_items (f_effects F))) rows) = Inr summary"
    "rows' = settle_rows S (judge rows (f_runtimeResult F) (f_reconciliation F) (f_interactionOutcome F)) F summary
       (resultDigest (sv_sha S) summary)
       (append_all events (settle_cell S (judge rows (f_runtimeResult F) (f_reconciliation F) (f_interactionOutcome F)) (f_runtimeResult F)
         (settle_operation S (judge rows (f_runtimeResult F) (f_reconciliation F) (f_interactionOutcome F)) (f_operation F)
           (f_runtimeResult F) (f_reconciliation F) rows)))"
  using assms unfolding final_body_def Let_def by (auto simp: rbind_Inr_iff simp del: rbind.simps)


section \<open>Ended runs stay ended\<close>

definition final :: "string \<Rightarrow> bool" where
  "final s = isTerminalStatus (JStr s)"

definition settled_as :: "run_rows \<Rightarrow> run_rows \<Rightarrow> bool" where
  "settled_as r0 r = (run_status r = run_status r0 \<and> run_outcome r = run_outcome r0 \<and> run_stop r = run_stop r0
     \<and> (run_result r0 = None \<or> run_result r = run_result r0))"

lemma final_known: "list_all (\<lambda>s. final s = (s \<in> set TERMINAL_STATUSES)) AGENT_RUN_STATUSES"
  unfolding final_def by (rule terminal_texts)

lemma not_final_start: "list_all (\<lambda>s. \<not> final s) [''ADMITTED'', ''QUEUED'', ''STARTING'', ''RUNNING'']"
  unfolding final_def by code_simp

lemma settle_rows_fields:
  "run_status (settle_rows S v F summary digest rows) = (if final (run_status rows) then run_status rows else verdict_status v)"
  "run_outcome (settle_rows S v F summary digest rows) = (if final (run_status rows) then run_outcome rows else JStr (verdict_outcome v))"
  "run_stop (settle_rows S v F summary digest rows) = (if final (run_status rows) then run_stop rows else stop_state v)"
  "run_result (settle_rows S v F summary digest rows)
     = (case run_result rows of Some r \<Rightarrow> Some r | None \<Rightarrow> Some (verdict_status v, digest, summary))"
  by (auto simp: settle_rows_def Let_def settle_run_def publish_result_def final_def settle_scope_def split: option.splits)

lemma observation_keeps:
  assumes "observation_body S runId i t ob rows = Inr (v, rows')"
  shows "run_status rows' = run_status rows \<and> run_outcome rows' = run_outcome rows \<and> run_stop rows' = run_stop rows
    \<and> run_result rows' = run_result rows"
  using assms unfolding observation_body_def Let_def
  by (auto simp: rbind_Inr_iff split: option.splits if_splits)

lemma mark_final: "final (run_status rows) \<Longrightarrow> mark_body S runId status why rows = Inr (v, rows') \<Longrightarrow> rows' = rows"
  by (simp add: mark_body_def Let_def final_def split: if_splits)

lemma prepare_keeps:
  assumes "prepare_body S runId i d rows = Inr (v, rows')"
  shows "run_outcome rows' = run_outcome rows \<and> run_stop rows' = run_stop rows \<and> run_result rows' = run_result rows
    \<and> (run_status rows' = run_status rows
         \<or> run_status rows \<in> set [''ADMITTED'', ''QUEUED'', ''STARTING''] \<and> run_status rows' = ''RUNNING'')"
  using assms unfolding prepare_body_def Let_def by (auto split: if_splits)

lemma body_keeps_settled:
  assumes "final (run_status rows)" "body_of S runId a rows = Inr (v, rows')"
  shows "settled_as rows rows'"
proof (cases a)
  case (Mark status why)
  with assms mark_final [OF assms(1), of S runId status why v rows'] show ?thesis by (auto simp: settled_as_def)
next
  case (Prepare instruction deadline)
  have "\<not> run_status rows \<in> set [''ADMITTED'', ''QUEUED'', ''STARTING'']"
    using assms(1) not_final_start by (auto simp only: list.pred_inject list.set insert_iff empty_iff)
  with assms(2) Prepare prepare_keeps [of S runId instruction deadline rows v rows'] show ?thesis
    by (simp only: body_of.simps settled_as_def) blast
next
  case (Accept arg)
  with assms(2) show ?thesis by (auto simp: acceptance_body_def Let_def settled_as_def)
next
  case (Observe i t rr)
  with assms(2) observation_keeps show ?thesis
    by (fastforce simp: settled_as_def split: option.splits)
next
  case (Finalize F)
  then have "final_body S runId F rows = Inr (v, rows')" using assms(2) by simp
  then obtain events summary where "rows' = settle_rows S (judge rows (f_runtimeResult F) (f_reconciliation F) (f_interactionOutcome F)) F summary
       (resultDigest (sv_sha S) summary)
       (append_all events (settle_cell S (judge rows (f_runtimeResult F) (f_reconciliation F) (f_interactionOutcome F)) (f_runtimeResult F)
         (settle_operation S (judge rows (f_runtimeResult F) (f_reconciliation F) (f_interactionOutcome F)) (f_operation F)
           (f_runtimeResult F) (f_reconciliation F) rows)))"
    by (rule final_body_commits)
  with assms(1) show ?thesis by (auto simp: settled_as_def settle_rows_fields split: option.splits)
qed

text \<open>C12 (ended_run_stays_ended): Once a run has a terminal status no sequence of activities changes its status, its outcome, its stop
  state or a result that was published.\<close>

theorem ended_run_stays_ended:
  "if isTerminalStatus (JStr (run_status rows)) then settled_as rows (after_activities S runId as rows) else True"
proof -
  have "settled_as rows (after_activities S runId as rows)" if "final (run_status rows)"
  proof (rule after_activities_keep [where P = "settled_as rows"])
    show "settled_as rows r'" if "settled_as rows r" "body_of S runId a r = Inr (v, r')" for a r v r'
    proof -
      have "final (run_status r)" using that(1) \<open>final (run_status rows)\<close> by (simp add: settled_as_def)
      from body_keeps_settled [OF this that(2)] that(1) show ?thesis
        by (auto simp: settled_as_def)
    qed
  qed (simp add: settled_as_def)
  then show ?thesis by (simp add: final_def)
qed


section \<open>The published result\<close>

definition published_agrees :: "services \<Rightarrow> run_rows \<Rightarrow> bool" where
  "published_agrees S rows =
     (case run_result rows of
        None \<Rightarrow> \<not> isTerminalStatus (JStr (run_status rows))
      | Some (status, digest, summary) \<Rightarrow>
          isTerminalStatus (JStr (run_status rows)) \<and> status = run_status rows
          \<and> digest = resultDigest (sv_sha S) summary \<and> jget summary ''status'' = JStr status)"

text \<open>Marks of states that are not terminal, as the workflow makes them.\<close>

definition passing :: "run_activity \<Rightarrow> bool" where
  "passing a = (case a of Mark status why \<Rightarrow> \<not> isTerminalStatus (JStr status) | _ \<Rightarrow> True)"

lemma verdict_final: "final (verdict_status v)"
proof -
  have "list_all final [''RECOVERY_REQUIRED'', ''CANCELED'', ''FAILED'', ''COMPLETED'']"
    unfolding final_def by code_simp
  then show ?thesis by (simp only: verdict_status_def list.pred_inject split: if_splits) blast
qed

lemma summary_status:
  "buildTerminalSummary H n schema R = Inr m \<Longrightarrow> jget m ''status'' = JStr (s_status R)"
  by (auto simp: buildTerminalSummary_def rbind_Inr_iff terminal_summary_def Let_def)

lemma body_keeps_published:
  assumes "published_agrees S rows" "passing a" "body_of S runId a rows = Inr (v, rows')"
  shows "published_agrees S rows'"
proof (cases "final (run_status rows)")
  case True
  then obtain r where r: "run_result rows = Some r"
    using assms(1) by (auto simp: published_agrees_def final_def split: option.splits)
  with body_keeps_settled [OF True assms(3)] assms(1) show ?thesis
    by (auto simp: settled_as_def published_agrees_def)
next
  case False
  then have none: "run_result rows = None"
    using assms(1) by (auto simp: published_agrees_def final_def split: option.splits)
  have agrees: "run_result rows' = None \<Longrightarrow> \<not> final (run_status rows') \<Longrightarrow> published_agrees S rows'"
    by (simp add: published_agrees_def final_def)
  show ?thesis
  proof (cases a)
    case (Mark status why)
    with assms(2,3) False none show ?thesis
      by (intro agrees) (auto simp: mark_body_def Let_def passing_def final_def rbind_Inr_iff split: if_splits)
  next
    case (Prepare instruction deadline)
    have "\<not> final ''RUNNING''" unfolding final_def by code_simp
    moreover have "prepare_body S runId instruction deadline rows = Inr (v, rows')" using assms(3) Prepare by simp
    ultimately show ?thesis using prepare_keeps [of S runId instruction deadline rows v rows'] False none
      by (intro agrees) metis+
  next
    case (Accept arg)
    with assms(3) False none show ?thesis by (intro agrees) (auto simp: acceptance_body_def Let_def)
  next
    case (Observe i t rr)
    with assms(3) False none observation_keeps show ?thesis by (intro agrees) (fastforce split: option.splits)+
  next
    case (Finalize F)
    then have "final_body S runId F rows = Inr (v, rows')" using assms(3) by simp
    then obtain events summary where
      "buildTerminalSummary (sv_host S) (sv_frames S) (sv_summary_schema S)
       (summary_of runId (judge rows (f_runtimeResult F) (f_reconciliation F) (f_interactionOutcome F)) (f_operation F)
         (f_runtimeResult F) (map safe_effect (arr_items (f_effects F))) rows) = Inr summary"
      "rows' = settle_rows S (judge rows (f_runtimeResult F) (f_reconciliation F) (f_interactionOutcome F)) F summary
       (resultDigest (sv_sha S) summary)
       (append_all events (settle_cell S (judge rows (f_runtimeResult F) (f_reconciliation F) (f_interactionOutcome F)) (f_runtimeResult F)
         (settle_operation S (judge rows (f_runtimeResult F) (f_reconciliation F) (f_interactionOutcome F)) (f_operation F)
           (f_runtimeResult F) (f_reconciliation F) rows)))"
      by (rule final_body_commits)
    with summary_status [of _ _ _ _ summary] False none verdict_final show ?thesis
      by (simp add: published_agrees_def settle_rows_fields final_def summary_of_def Let_def)
  qed
qed


section \<open>The events of a run\<close>

definition numbered :: "agent_event list \<Rightarrow> bool" where
  "numbered es = (map ev_sequence es = [1..<Suc (length es)] \<and> sorted_wrt (\<lambda>a b. \<not> same_source a b) es)"

lemma foldr_max_upt: "foldr max [1..<Suc n] (0::nat) = n"
proof -
  have "foldr max [1..<Suc n] b = max n b" for b
    by (induction n arbitrary: b) auto
  then show ?thesis by simp
qed

lemma numbered_append:
  assumes "numbered (run_events rows)"
  shows "numbered (run_events (appendEvent e rows))"
proof (cases "list_ex (\<lambda>a. same_source a e) (run_events rows)")
  case True
  with assms show ?thesis by (simp add: appendEvent_def)
next
  case False
  have n: "next_sequence (run_events rows) = Suc (length (run_events rows))"
    using assms foldr_max_upt unfolding next_sequence_def numbered_def by metis
  have same: "same_source a (e\<lparr>ev_sequence := k\<rparr>) = same_source a e" for a k
    by (simp add: same_source_def)
  from False assms n show ?thesis
    by (simp add: appendEvent_def numbered_def sorted_wrt_append same list_ex_iff)
qed

lemma numbered_append_all: "numbered (run_events rows) \<Longrightarrow> numbered (run_events (append_all es rows))"
  by (induction es arbitrary: rows) (simp_all add: append_all_def numbered_append)

lemma body_keeps_numbers:
  assumes "numbered (run_events rows)" "body_of S runId a rows = Inr (v, rows')"
  shows "numbered (run_events rows')"
proof (cases a)
  case (Mark status why)
  with assms show ?thesis
    by (auto simp: mark_body_def Let_def rbind_Inr_iff split: if_splits intro!: numbered_append)
next
  case (Prepare instruction deadline)
  with assms show ?thesis
    by (auto simp: prepare_body_def Let_def split: if_splits intro!: numbered_append)
next
  case (Accept arg)
  with assms show ?thesis by (auto simp: acceptance_body_def Let_def intro!: numbered_append)
next
  case (Observe i t rr)
  with assms show ?thesis
    by (auto simp: observation_body_def Let_def rbind_Inr_iff split: option.splits if_splits intro!: numbered_append)
next
  case (Finalize F)
  then have "final_body S runId F rows = Inr (v, rows')" using assms(2) by simp
  then obtain events summary where "rows' = settle_rows S (judge rows (f_runtimeResult F) (f_reconciliation F) (f_interactionOutcome F)) F summary
       (resultDigest (sv_sha S) summary)
       (append_all events (settle_cell S (judge rows (f_runtimeResult F) (f_reconciliation F) (f_interactionOutcome F)) (f_runtimeResult F)
         (settle_operation S (judge rows (f_runtimeResult F) (f_reconciliation F) (f_interactionOutcome F)) (f_operation F)
           (f_runtimeResult F) (f_reconciliation F) rows)))"
    by (rule final_body_commits)
  with assms(1) show ?thesis
    by (simp add: settle_rows_def Let_def numbered_append numbered_append_all)
qed

text \<open>The events of a run are numbered 1, 2, 3, ... in the order they were appended, and no two of them come from the
  same cursor of the same source, however often an activity is repeated.\<close>

theorem events_numbered:
  "if numbered (run_events rows) then numbered (run_events (after_activities S runId as rows)) else True"
proof -
  have "numbered (run_events (after_activities S runId as rows))" if "numbered (run_events rows)"
    by (rule after_activities_keep [where P = "\<lambda>r. numbered (run_events r)", OF body_keeps_numbers that])
  then show ?thesis by simp
qed


section \<open>What a finalization leaves\<close>

text \<open>Nothing speaks against success: no stop, no rejection, no failure, no closed interaction and no doubt.\<close>

definition clean_finish :: "run_rows \<Rightarrow> final_request \<Rightarrow> bool" where
  "clean_finish rows F =
     (let rr = f_runtimeResult F; rc = f_reconciliation F
      in run_status rows \<notin> set cancel_statuses \<and> scope_status rows = ''ACTIVE''
       \<and> jget rr ''sendAcceptance'' \<noteq> JStr ''REJECTED_BEFORE_ACCEPTANCE''
       \<and> (jget rr ''sendAcceptance'' = JStr ''UNKNOWN'' \<longrightarrow> truthy rc)
       \<and> jget rc ''disposition'' \<noteq> JStr ''RECOVERY_REQUIRED''
       \<and> to_upper (to_str (jor (f_interactionOutcome F) (JStr []))) \<notin> set [''BLOCKED'', ''EXPIRED'', ''REJECTED'', ''CANCELED'']
       \<and> (jget rr ''providerBacked'' = JBool True \<longrightarrow>
            jget rr ''providerTerminalFailure'' \<noteq> JBool True \<and> jget rr ''recoveryRequired'' \<noteq> JBool True
            \<and> jget rr ''outcomeCertainty'' \<noteq> JStr ''UNKNOWN'' \<and> jget rr ''providerTerminalStatus'' \<noteq> JStr ''UNKNOWN''))"

lemma strict_eq_str: "strict_eq v (JStr s) = (v = JStr s)"
  by (cases v) auto

lemma strict_eq_bool: "strict_eq v (JBool b) = (v = JBool b)"
  by (cases v) auto

lemma completed_verdict:
  "(verdict_status v = ''COMPLETED'') = (\<not> v_recovery v \<and> \<not> v_stop v \<and> \<not> v_blocked v \<and> \<not> v_rejected v \<and> \<not> v_failed v)"
  by (simp add: verdict_status_def)

lemma clean_verdict:
  "(verdict_status (judge rows (f_runtimeResult F) (f_reconciliation F) (f_interactionOutcome F)) = ''COMPLETED'') = clean_finish rows F"
  unfolding completed_verdict judge_def clean_finish_def Let_def is_string_def provider_backed_def strict_eq_str strict_eq_bool verdict.simps
  by argo

text \<open>C14 (completed_exactly): A finalization that commits leaves a run COMPLETED exactly when nothing speaks against success or it had
  been completed before; one that does not commit changes nothing.\<close>

theorem completed_exactly:
  "case finalizeAgentRunActivity S runId F (Some rows) of
     (Inr response, Some rows') \<Rightarrow>
       (run_status rows' = ''COMPLETED'')
         = (if isTerminalStatus (JStr (run_status rows)) then run_status rows = ''COMPLETED'' else clean_finish rows F)
   | (_, rows') \<Rightarrow> rows' = Some rows"
proof (cases "final_body S runId F rows")
  case (Inl err)
  then show ?thesis by (simp add: finalizeAgentRunActivity_def withTransaction_def)
next
  case (Inr r)
  obtain x rows' where r: "final_body S runId F rows = Inr (x, rows')" using Inr by (cases r) simp
  then obtain events summary where "rows' = settle_rows S (judge rows (f_runtimeResult F) (f_reconciliation F) (f_interactionOutcome F)) F summary
       (resultDigest (sv_sha S) summary)
       (append_all events (settle_cell S (judge rows (f_runtimeResult F) (f_reconciliation F) (f_interactionOutcome F)) (f_runtimeResult F)
         (settle_operation S (judge rows (f_runtimeResult F) (f_reconciliation F) (f_interactionOutcome F)) (f_operation F)
           (f_runtimeResult F) (f_reconciliation F) rows)))"
    by (rule final_body_commits)
  then show ?thesis
    by (simp add: finalizeAgentRunActivity_def withTransaction_def r settle_rows_fields final_def clean_verdict)
qed

definition in_doubt :: "verdict \<Rightarrow> bool" where
  "in_doubt v = (v_unconfirmed v \<or> v_hold v)"

definition resources_settled :: "verdict \<Rightarrow> jsval \<Rightarrow> run_rows \<Rightarrow> run_rows \<Rightarrow> bool" where
  "resources_settled v rr rows rows' =
     (list_all2 (\<lambda>l l'. lease_state l' =
          (if lease_state l = ''ACTIVE'' then if in_doubt v then ''QUARANTINED'' else ''RELEASED'' else lease_state l))
        (run_leases rows) (run_leases rows')
      \<and> list_all (\<lambda>g. grant_state g \<noteq> ''ACTIVE'' \<or> grant_kind g \<notin> set [''ROOT_RUN'', ''MANAGED_CAPABILITY'']) (run_grants rows')
      \<and> (if in_doubt v
         then scope_status rows' = ''RECOVERY_REQUIRED'' \<and> session_status rows' = ''RECOVERY_REQUIRED''
           \<and> (truthy rr \<longrightarrow> (\<exists>c. run_cell rows' = Some c \<and> cell_quarantined c \<and> cell_reason c = hold_reason v))
         else scope_status rows' = scope_status rows))"

lemma settled_lease_state:
  "lease_state (settle_lease v l)
     = (if lease_state l = ''ACTIVE'' then if v_stop v \<and> v_unconfirmed v \<or> v_hold v then ''QUARANTINED'' else ''RELEASED'' else lease_state l)"
  by (simp add: settle_lease_def stop_state_def)

lemma judge_unconfirmed:
  "v_unconfirmed (judge rows rr rc io) \<Longrightarrow> v_stop (judge rows rr rc io)"
  "v_hold (judge rows rr rc io) \<Longrightarrow> v_recovery (judge rows rr rc io)"
  "v_unconfirmed (judge rows rr rc io) \<Longrightarrow> v_recovery (judge rows rr rc io)"
  by (auto simp: judge_def Let_def)

text \<open>C15 (doubt_holds_resources): A committed finalization leaves no lease of the run active and no grant of it usable.  When the stop or
  the outcome at the provider is in doubt, the leases and the cell are quarantined and scope and session wait for
  recovery; otherwise the leases are released and the scope is left as it was.\<close>

theorem doubt_holds_resources:
  "case finalizeAgentRunActivity S runId F (Some rows) of
     (Inr response, Some rows') \<Rightarrow>
       resources_settled (judge rows (f_runtimeResult F) (f_reconciliation F) (f_interactionOutcome F)) (f_runtimeResult F) rows rows'
   | (_, rows') \<Rightarrow> rows' = Some rows"
proof (cases "final_body S runId F rows")
  case (Inl err)
  then show ?thesis by (simp add: finalizeAgentRunActivity_def withTransaction_def)
next
  case (Inr r)
  let ?v = "judge rows (f_runtimeResult F) (f_reconciliation F) (f_interactionOutcome F)"
  obtain x rows' where r: "final_body S runId F rows = Inr (x, rows')" using Inr by (cases r) simp
  then obtain events summary where rows': "rows' = settle_rows S ?v F summary (resultDigest (sv_sha S) summary)
       (append_all events (settle_cell S ?v (f_runtimeResult F) (settle_operation S ?v (f_operation F)
           (f_runtimeResult F) (f_reconciliation F) rows)))"
    by (rule final_body_commits)
  have leases: "run_leases rows' = map (settle_lease ?v) (run_leases rows)"
    and grants: "run_grants rows' = map (settle_grant S) (run_grants rows)"
    and scope: "scope_status rows' = (if in_doubt ?v then ''RECOVERY_REQUIRED'' else scope_status rows)"
    and session: "session_status rows' = settle_session ?v (session_model (settle_scope ?v (settle_run ?v (publish_result S ?v (resultDigest (sv_sha S) summary) summary
        (append_all events (settle_cell S ?v (f_runtimeResult F) (settle_operation S ?v (f_operation F)
           (f_runtimeResult F) (f_reconciliation F) rows)))))))"
    unfolding rows' settle_rows_def Let_def in_doubt_def
    by (simp_all, simp_all add: settle_scope_def quarantines_def)
  have cell: "run_cell rows' = run_cell (settle_cell S ?v (f_runtimeResult F) (settle_operation S ?v (f_operation F)
           (f_runtimeResult F) (f_reconciliation F) rows))"
    unfolding rows' settle_rows_def Let_def by simp
  have "list_all2 (\<lambda>l l'. lease_state l' =
          (if lease_state l = ''ACTIVE'' then if in_doubt ?v then ''QUARANTINED'' else ''RELEASED'' else lease_state l))
        (run_leases rows) (run_leases rows')"
    unfolding leases list_all2_map2
    by (rule list_all2_refl) (use judge_unconfirmed in \<open>auto simp: settled_lease_state in_doubt_def\<close>)
  moreover have "list_all (\<lambda>g. grant_state g \<noteq> ''ACTIVE'' \<or> grant_kind g \<notin> set [''ROOT_RUN'', ''MANAGED_CAPABILITY'']) (run_grants rows')"
    unfolding grants by (auto simp: list_all_iff settle_grant_def)
  moreover have "in_doubt ?v \<Longrightarrow> session_status rows' = ''RECOVERY_REQUIRED''"
    unfolding session using judge_unconfirmed
    by (auto simp: in_doubt_def settle_session_def verdict_status_def)
  moreover have "in_doubt ?v \<Longrightarrow> truthy (f_runtimeResult F) \<Longrightarrow> \<exists>c. run_cell rows' = Some c \<and> cell_quarantined c \<and> cell_reason c = hold_reason ?v"
    unfolding cell by (simp add: settle_cell_def in_doubt_def quarantines_def Let_def)
  ultimately have "resources_settled ?v (f_runtimeResult F) rows rows'"
    by (simp add: resources_settled_def scope)
  then show ?thesis
    by (simp add: finalizeAgentRunActivity_def withTransaction_def r)
qed


section \<open>A repeated finalization\<close>

text \<open>
  An activity that committed may run again when its answer is lost.  A repeated finalization keeps the status and
  the result, but it judges the run by the scope that the first one set.
\<close>

lemma settled_turn_of:
  assumes "final_body S runId F rows = Inr (x, rows')" "run_turn rows = Some t"
    "jget (f_operation F) ''turnId'' = JStr (turn_id t)" "truthy (jget (f_operation F) ''operationId'')"
  shows "\<exists>t'. run_turn rows' = Some t' \<and> turn_id t' = turn_id t
    \<and> turn_status t' = settled_turn (judge rows (f_runtimeResult F) (f_reconciliation F) (f_interactionOutcome F))"
proof -
  let ?v = "judge rows (f_runtimeResult F) (f_reconciliation F) (f_interactionOutcome F)"
  obtain events summary where "rows' = settle_rows S ?v F summary (resultDigest (sv_sha S) summary)
       (append_all events (settle_cell S ?v (f_runtimeResult F) (settle_operation S ?v (f_operation F)
           (f_runtimeResult F) (f_reconciliation F) rows)))"
    using assms(1) by (rule final_body_commits)
  then have "run_turn rows' = run_turn (settle_operation S ?v (f_operation F) (f_runtimeResult F) (f_reconciliation F) rows)"
    by (simp add: settle_rows_def Let_def)
  with assms(2-4) show ?thesis
    by (simp add: settle_operation_def update_turn_def)
qed

lemma scope_after:
  assumes "final_body S runId F rows = Inr (x, rows')"
  shows "scope_status rows' = (if in_doubt (judge rows (f_runtimeResult F) (f_reconciliation F) (f_interactionOutcome F))
     then ''RECOVERY_REQUIRED'' else scope_status rows)"
proof -
  obtain events summary where "rows' = settle_rows S (judge rows (f_runtimeResult F) (f_reconciliation F) (f_interactionOutcome F)) F summary
       (resultDigest (sv_sha S) summary)
       (append_all events (settle_cell S (judge rows (f_runtimeResult F) (f_reconciliation F) (f_interactionOutcome F)) (f_runtimeResult F)
         (settle_operation S (judge rows (f_runtimeResult F) (f_reconciliation F) (f_interactionOutcome F)) (f_operation F)
           (f_runtimeResult F) (f_reconciliation F) rows)))"
    using assms by (rule final_body_commits)
  then show ?thesis
    by (simp add: settle_rows_def Let_def) (simp add: settle_scope_def in_doubt_def quarantines_def)
qed

text \<open>When the outcome of a provider turn is unknown and no stop was requested, the finalization sets the turn to
  RECOVERY_REQUIRED; the same finalization, repeated, sets it to CANCELED, although nobody canceled anything.\<close>

theorem repeated_finalization_relabels:
  assumes "final_body S runId F rows = Inr (x, rows1)" "final_body S runId F rows1 = Inr (y, rows2)"
    "v_hold (judge rows (f_runtimeResult F) (f_reconciliation F) (f_interactionOutcome F))"
    "\<not> v_stop (judge rows (f_runtimeResult F) (f_reconciliation F) (f_interactionOutcome F))"
    "run_turn rows = Some t" "jget (f_operation F) ''turnId'' = JStr (turn_id t)"
    "truthy (jget (f_operation F) ''operationId'')"
  shows "map_option turn_status (run_turn rows1) = Some ''RECOVERY_REQUIRED''
    \<and> map_option turn_status (run_turn rows2) = Some ''CANCELED''"
proof -
  let ?j = "\<lambda>r. judge r (f_runtimeResult F) (f_reconciliation F) (f_interactionOutcome F)"
  obtain t1 where t1: "run_turn rows1 = Some t1" "turn_id t1 = turn_id t" "turn_status t1 = settled_turn (?j rows)"
    using settled_turn_of [OF assms(1,5,6,7)] by blast
  then obtain t2 where t2: "run_turn rows2 = Some t2" "turn_status t2 = settled_turn (?j rows1)"
    using settled_turn_of [OF assms(2) t1(1) _ assms(7)] assms(6) by auto
  have "scope_status rows1 = ''RECOVERY_REQUIRED''"
    using scope_after [OF assms(1)] assms(3) by (simp add: in_doubt_def)
  then have "v_stop (?j rows1)" by (simp add: judge_def Let_def)
  moreover have "settled_turn (?j rows) = ''RECOVERY_REQUIRED''"
    using assms(3,4) judge_unconfirmed(2) [of rows] by (simp add: settled_turn_def)
  ultimately show ?thesis using t1 t2 by (simp add: settled_turn_def)
qed

text \<open>A run whose provider turn was never observed to end, with a schema that accepts every summary.\<close>

definition example_services :: services where
  "example_services = \<lparr>sv_sha = (\<lambda>s. []), sv_parse_date = (\<lambda>s. None), sv_now = ''now'', sv_new_id = (\<lambda>k. k),
     sv_host = lenient_host, sv_frames = 1, sv_summary_schema = JBool True\<rparr>"

definition example_rows :: run_rows where
  "example_rows = \<lparr>run_status = ''FINALIZING'', run_outcome = JNull, run_stop = ''NONE'', run_epoch = 0,
     run_columns = JObj [(''runtime_code'', JStr ''OPENAI_CODEX_APP_SERVER'')], scope_status = ''ACTIVE'', scope_epoch = 0,
     scope_reason = JNull, session_status = ''ACTIVE'', session_model = ''PERSISTENT'',
     run_operation_row = Some \<lparr>op_id = ''op'', op_reference = ''codex-operation'', op_digest = ''digest'', op_fence = 0,
       op_deadline = JNull, op_state = ''ACKNOWLEDGED'', op_certainty = ''ACKNOWLEDGED'', op_outcome = JNull\<rparr>,
     run_turn = Some \<lparr>turn_id = ''turn'', turn_digest = ''digest'', turn_status = ''ACKNOWLEDGED'', turn_provider = JNull,
       turn_session = JNull, turn_output = JNull\<rparr>,
     run_cell = None, run_leases = [\<lparr>lease_state = ''ACTIVE'', lease_reason = []\<rparr>],
     run_grants = [\<lparr>grant_id = ''grant'', grant_kind = ''ROOT_RUN'', grant_state = ''ACTIVE'', grant_epoch = 0, grant_effect = None,
       grant_audience = JNull, grant_hash = JNull, grant_expires = None, grant_granted = JNull, grant_closed = JNull,
       grant_metadata = JObj []\<rparr>], run_segments = [(''segment'', ''ACTIVE'')],
     run_result = None, run_events = []\<rparr>"

definition example_request :: final_request where
  "example_request = \<lparr>f_operation = JObj [(''operationId'', JStr ''op''), (''turnId'', JStr ''turn'')],
     f_runtimeResult = JObj [(''providerBacked'', JBool True), (''sendAcceptance'', JStr ''ACKNOWLEDGED''),
       (''providerTerminalStatus'', JStr ''UNKNOWN'')],
     f_reconciliation = JNull, f_temporalRunId = JStr ''segment'', f_effects = JArr [], f_interactionOutcome = JNull\<rparr>"

lemma example_commits: "\<exists>x rows'. final_body example_services ''run'' example_request rows = Inr (x, rows')"
  by (simp add: final_body_def Let_def normalizeRuntimeEvents_def example_request_def example_services_def
      buildTerminalSummary_def validateJsonSchema_def validate_body_def)

theorem repeated_finalization_relabels_witness:
  "\<exists>x rows1 y rows2. final_body example_services ''run'' example_request example_rows = Inr (x, rows1)
     \<and> final_body example_services ''run'' example_request rows1 = Inr (y, rows2)
     \<and> map_option turn_status (run_turn rows1) = Some ''RECOVERY_REQUIRED''
     \<and> map_option turn_status (run_turn rows2) = Some ''CANCELED''"
proof -
  obtain x rows1 where 1: "final_body example_services ''run'' example_request example_rows = Inr (x, rows1)"
    using example_commits by blast
  obtain y rows2 where 2: "final_body example_services ''run'' example_request rows1 = Inr (y, rows2)"
    using example_commits by blast
  have j: "v_hold (judge example_rows (f_runtimeResult example_request) (f_reconciliation example_request) (f_interactionOutcome example_request))"
    "\<not> v_stop (judge example_rows (f_runtimeResult example_request) (f_reconciliation example_request) (f_interactionOutcome example_request))"
    by (simp_all add: judge_def Let_def example_rows_def example_request_def provider_backed_def is_string_def cancel_statuses_def)
  obtain t where t: "run_turn example_rows = Some t" "turn_id t = ''turn''" by (simp add: example_rows_def)
  have "map_option turn_status (run_turn rows1) = Some ''RECOVERY_REQUIRED'' \<and> map_option turn_status (run_turn rows2) = Some ''CANCELED''"
    by (rule repeated_finalization_relabels [OF 1 2 j t(1)]) (simp_all add: t(2) example_request_def)
  with 1 2 show ?thesis by blast
qed

end
