(* ===== verification/ManagedCapabilities.thy ===== *)
theory ManagedCapabilities
  imports AgentRunLedger
begin

text \<open>
  The managed capabilities of an agent run, \<open>apps/api/src/services/agentCapabilityAuthorizationService.js\<close>: the
  durable effects, the live authorization, the one-time credentials and the dispatch to the registered browser
  automation, and the requests of \<open>agentExecutionService.js\<close> that stop a run or its scope.  The state is the
  rows of one run with its effects.  The queries on the tables of users, projects and principals and the registry of automations are
  read into a \<open>directory\<close>, the random bytes of a credential and the current time are members of \<open>bureau\<close>.
  An effect belongs to its run by a foreign key, so the branch of a missing run is only there where the caller
  names the run.
\<close>

section \<open>Rows and services\<close>

record bureau =
  bu_services :: services
  bu_now :: int
  bu_credential :: string

record directory =
  dir_service :: bool
  dir_project_active :: bool
  dir_admin :: bool
  dir_member :: bool
  dir_permission :: bool
  dir_automation :: jsval

record capability_effect =
  ce_id :: string
  ce_key :: string
  ce_columns :: jsval
  ce_turn :: jsval
  ce_operation :: jsval
  ce_digest :: string
  ce_metadata :: jsval
  ce_authority :: string
  ce_epoch :: int
  ce_policy_revision :: jsval
  ce_policy_digest :: jsval
  ce_surface :: jsval
  ce_reference :: jsval
  ce_execution :: jsval
  ce_workflow :: jsval
  ce_browser_run :: jsval
  ce_worker :: jsval
  ce_dispatch :: string
  ce_certainty :: string
  ce_denial :: jsval
  ce_reconciliation :: jsval
  ce_result :: jsval

record desk =
  dk_rows :: run_rows
  dk_effects :: "capability_effect list"

definition MANAGED_CREDENTIAL_AUDIENCE :: string where
  "MANAGED_CREDENTIAL_AUDIENCE = ''SKYCOMMAND_MANAGED_AGENT_CAPABILITY''"

definition CAPABILITY_KIND :: string where
  "CAPABILITY_KIND = ''BROWSER_AUTOMATION''"

definition CAPABILITY_VERSION :: string where
  "CAPABILITY_VERSION = ''registered.v1''"

definition CAPABILITY_CODE :: string where
  "CAPABILITY_CODE = ''command-center-status-snapshot''"

definition CAPABILITY_SURFACE :: string where
  "CAPABILITY_SURFACE = ''SKYCOMMAND_MCP_API''"

definition CAPABILITY_ENVIRONMENT :: string where
  "CAPABILITY_ENVIRONMENT = ''LOCAL''"

definition CREDENTIAL_TTL_MS :: int where
  "CREDENTIAL_TTL_MS = 5 * 60 * 1000"

definition BROWSER_WAIT_TIMEOUT_MS :: int where
  "BROWSER_WAIT_TIMEOUT_MS = 90 * 1000"

definition TERMINAL_BROWSER_STATUSES :: "string list" where
  "TERMINAL_BROWSER_STATUSES = [''SUCCESS'', ''FAILED'', ''CANCELED'', ''TERMINATED'', ''TIMED_OUT'']"

record browser_case =
  duplicateDeliveries :: nat
  requiresApproval :: bool

definition MANAGED_BROWSER_CASES :: "(string \<times> browser_case) list" where
  "MANAGED_BROWSER_CASES =
     [(''codex-read-only-pilot'', \<lparr>duplicateDeliveries = 1, requiresApproval = False\<rparr>),
      (''browser-capability-success'', \<lparr>duplicateDeliveries = 1, requiresApproval = False\<rparr>),
      (''browser-capability-duplicate-retry'', \<lparr>duplicateDeliveries = 2, requiresApproval = False\<rparr>),
      (''browser-capability-revoked-before-dispatch'', \<lparr>duplicateDeliveries = 1, requiresApproval = False\<rparr>),
      (''browser-capability-unknown-dispatch'', \<lparr>duplicateDeliveries = 1, requiresApproval = False\<rparr>),
      (''browser-capability-unknown-send'', \<lparr>duplicateDeliveries = 1, requiresApproval = False\<rparr>),
      (''approval-required-success'', \<lparr>duplicateDeliveries = 1, requiresApproval = True\<rparr>),
      (''approval-revoked-during-wait'', \<lparr>duplicateDeliveries = 1, requiresApproval = True\<rparr>),
      (''approval-expiry'', \<lparr>duplicateDeliveries = 1, requiresApproval = True\<rparr>)]"

text \<open>\<open>createCapabilityError\<close>.\<close>

definition capability_error :: "string \<Rightarrow> string \<Rightarrow> jsval" where
  "capability_error code message =
     JObj [(''name'', JStr ''Error''), (''message'', JStr message), (''code'', JStr code), (''details'', JObj [])]"

definition plain_text :: "jsval \<Rightarrow> string" where
  "plain_text v = trim (to_str (jnull_or v (JStr [])))"

definition managedBrowserCase :: "jsval \<Rightarrow> browser_case option" where
  "managedBrowserCase caseId = map_of MANAGED_BROWSER_CASES (plain_text caseId)"

definition hashCredential :: "services \<Rightarrow> jsval \<Rightarrow> string" where
  "hashCredential S credential = to_upper (sv_sha S (to_str (jor credential (JStr []))))"

definition iso_of :: "int \<Rightarrow> string" where
  "iso_of ms = iso_text (of_int ms)"

definition run_epochs :: "run_rows \<Rightarrow> int" where
  "run_epochs rows = max (run_epoch rows) (scope_epoch rows)"

section \<open>Credentials\<close>

text \<open>A row that was joined with no grant has the columns of one as null, and so gives an object of nulls.\<close>

definition grant_view :: "jsval \<Rightarrow> execution_grant option \<Rightarrow> jsval" where
  "grant_view reference g =
     (let state = (case g of Some g \<Rightarrow> or_null (JStr (grant_state g)) | None \<Rightarrow> JNull);
          closed = (case g of Some g \<Rightarrow> or_null (grant_closed g) | None \<Rightarrow> JNull);
          metadata = (case g of Some g \<Rightarrow> safeObject (grant_metadata g) (JObj []) | None \<Rightarrow> JObj []);
          i = (case g of Some g \<Rightarrow> or_null (JStr (grant_id g)) | None \<Rightarrow> JNull)
      in JObj
       [(''grantId'', i),
        (''reference'', jor reference (if truthy i then JStr (''grant:'' @ to_str i) else JNull)),
        (''credentialFingerprint'', case g of Some g \<Rightarrow> or_null (grant_hash g) | None \<Rightarrow> JNull),
        (''audience'', case g of Some g \<Rightarrow> or_null (grant_audience g) | None \<Rightarrow> JNull),
        (''issuedAt'', case g of Some g \<Rightarrow> or_null (grant_granted g) | None \<Rightarrow> JNull),
        (''expiresAt'', case g of Some g \<Rightarrow> (case grant_expires g of Some t \<Rightarrow> JStr (iso_of t) | None \<Rightarrow> JNull) | None \<Rightarrow> JNull),
        (''state'', state), (''closedAt'', closed),
        (''revokedAt'', if state = JStr ''REVOKED'' then closed else JNull),
        (''expiredAt'', if state = JStr ''EXPIRED'' then closed else JNull),
        (''statusReason'', jors [jget metadata ''revocationReason'', jget metadata ''lifecycleReason'',
           jget metadata ''statusReason'', JNull]),
        (''revocationEpoch'', case g of Some g \<Rightarrow> jint (grant_epoch g) | None \<Rightarrow> JNull)])"

definition safeManagedCredential :: "capability_effect \<Rightarrow> execution_grant \<Rightarrow> jsval" where
  "safeManagedCredential e g = grant_view (ce_reference e) (Some g)"

definition managed_grant :: "string \<Rightarrow> execution_grant list \<Rightarrow> execution_grant option" where
  "managed_grant effectId gs = find (\<lambda>g. grant_kind g = ''MANAGED_CAPABILITY'' \<and> grant_effect g = Some effectId) gs"

definition root_grant :: "execution_grant list \<Rightarrow> execution_grant option" where
  "root_grant gs = find (\<lambda>g. grant_kind g = ''ROOT_RUN'') gs"

definition isManagedCredentialValid ::
  "bureau \<Rightarrow> execution_grant option \<Rightarrow> jsval \<Rightarrow> run_rows \<Rightarrow> capability_effect \<Rightarrow> bool" where
  "isManagedCredentialValid B grant credential rows e =
     (case grant of
        None \<Rightarrow> False
      | Some g \<Rightarrow>
          grant_audience g = JStr MANAGED_CREDENTIAL_AUDIENCE \<and> grant_state g = ''ACTIVE''
          \<and> (case grant_expires g of Some t \<Rightarrow> bu_now B < t | None \<Rightarrow> False)
          \<and> grant_hash g = JStr (hashCredential (bu_services B) credential)
          \<and> grant_epoch g = scope_epoch rows \<and> ce_epoch e = scope_epoch rows)"

section \<open>The live authorization\<close>

definition buildManagedRequest :: "jsval \<Rightarrow> jsval" where
  "buildManagedRequest caseId = JObj
     [(''capabilityKind'', JStr CAPABILITY_KIND), (''capabilityCode'', JStr CAPABILITY_CODE),
      (''capabilityVersion'', JStr CAPABILITY_VERSION), (''environmentCode'', JStr CAPABILITY_ENVIRONMENT),
      (''parameters'', JObj []), (''caseId'', JStr (plain_text caseId))]"

definition required_scope :: "(string \<times> string) list" where
  "required_scope = [(''capabilities'', CAPABILITY_KIND), (''actions'', ''RUN''), (''resources'', CAPABILITY_CODE),
     (''environments'', CAPABILITY_ENVIRONMENT), (''dataClasses'', ''INTERNAL'')]"

definition policyScopeAllows :: "jsval \<Rightarrow> bool" where
  "policyScopeAllows policy =
     (let scope = (if is_obj policy \<or> is_arr policy then jor (jget policy ''scope'') (JObj []) else JObj [])
      in list_all (\<lambda>(dimension, needed). needed \<in> set (map to_str (arr_items (jget scope dimension)))) required_scope)"

definition policySurfaceAllows :: "jsval \<Rightarrow> bool" where
  "policySurfaceAllows policy =
     list_ex (\<lambda>entry. jget entry ''surface'' = JStr CAPABILITY_SURFACE \<and> jget entry ''mode'' = JStr ''ALLOW'')
       (arr_items (jget (jget policy ''executionSurfaces'') ''surfaces''))"

definition policyCapabilityAllows :: "jsval \<Rightarrow> bool" where
  "policyCapabilityAllows policy =
     (let configured = jget (jget policy ''managedCapabilities'') CAPABILITY_KIND;
          allowlist = jget policy ''managedCapabilityAllowlist''
      in if truthy allowlist
         then jget allowlist ''kind'' = JStr CAPABILITY_KIND \<and> JStr CAPABILITY_CODE \<in> set (arr_items (jget allowlist ''codes''))
              \<and> jget allowlist ''version'' = JStr CAPABILITY_VERSION
         else truthy configured \<and> JStr CAPABILITY_CODE \<in> set (arr_items (jget configured ''codes''))
              \<and> jget configured ''version'' = JStr CAPABILITY_VERSION
              \<and> jget configured ''sideEffectLevel'' = JStr ''READ_ONLY''
              \<and> jget configured ''idempotencyMode'' = JStr ''READ_ONLY''
              \<and> jget configured ''requiresConfirmation'' = JBool False
              \<and> jget configured ''environment'' = JStr CAPABILITY_ENVIRONMENT
              \<and> jget configured ''parameterMode'' = JStr ''EMPTY_OBJECT'')"

definition isAuthorizedInternalServiceRun :: "directory \<Rightarrow> run_rows \<Rightarrow> bool" where
  "isAuthorizedInternalServiceRun D rows =
     (\<not> truthy (column rows ''initiating_user_id'')
      \<and> column rows ''initiating_actor_kind'' = JStr ''INTERNAL_SERVICE''
      \<and> column rows ''initiating_actor_id'' = JStr ''internal:agent-run''
      \<and> truthy (column rows ''initiating_principal_id'') \<and> dir_service D)"

definition hasCurrentBrowserPermission :: "directory \<Rightarrow> run_rows \<Rightarrow> bool" where
  "hasCurrentBrowserPermission D rows =
     (isAuthorizedInternalServiceRun D rows \<or> truthy (column rows ''initiating_user_id'') \<and> dir_permission D)"

definition hasCurrentProjectRead :: "directory \<Rightarrow> run_rows \<Rightarrow> bool" where
  "hasCurrentProjectRead D rows =
     (if isAuthorizedInternalServiceRun D rows then dir_project_active D
      else truthy (column rows ''initiating_user_id'') \<and> (dir_admin D \<or> dir_member D))"

definition automation_allowed :: "jsval \<Rightarrow> bool" where
  "automation_allowed a =
     (jget (jget a ''scriptRepository'') ''repoCode'' = JStr ''SkyCommand''
      \<and> jget a ''sideEffectLevel'' = JStr ''READ_ONLY'' \<and> jget a ''idempotencyMode'' = JStr ''READ_ONLY''
      \<and> \<not> truthy (jget a ''requiresConfirmation'') \<and> jget a ''permissionCode'' = JStr ''BROWSER_AUTOMATION_RUN''
      \<and> list_ex (\<lambda>entry. truthy (jget entry ''enabled'') \<and> jget entry ''environmentCode'' = JStr CAPABILITY_ENVIRONMENT)
          (arr_items (jget a ''environments'')))"

definition loadAutomation :: "directory \<Rightarrow> string + jsval" where
  "loadAutomation D =
     (if \<not> truthy (dir_automation D) then Inl ''REGISTERED_AUTOMATION_NOT_FOUND''
      else if \<not> automation_allowed (dir_automation D) then Inl ''REGISTERED_AUTOMATION_NOT_ALLOWLISTED''
      else Inr (dir_automation D))"

record authorization =
  az_decision :: string
  az_reason :: jsval
  az_policyDigest :: jsval
  az_policyRevision :: jsval
  az_surface :: jsval
  az_automation :: jsval

definition denied_authorization :: "string \<Rightarrow> authorization" where
  "denied_authorization why = \<lparr>az_decision = ''DENY'', az_reason = JStr why, az_policyDigest = JUndef,
     az_policyRevision = JUndef, az_surface = JUndef, az_automation = JUndef\<rparr>"

definition run_policies :: "run_rows \<Rightarrow> jsval list" where
  "run_policies rows = map (column rows) [''authority_policy'', ''workspace_policy'', ''definition_configuration'',
     ''capability_policy'', ''capability_manifest'', ''account_policy'']"

definition policies_allow :: "run_rows \<Rightarrow> bool" where
  "policies_allow rows =
     (list_all policyScopeAllows (run_policies rows) \<and> list_all policySurfaceAllows (run_policies rows)
      \<and> list_all policyCapabilityAllows (drop 2 (run_policies rows)))"

definition revoked_statuses :: "string list" where
  "revoked_statuses = [''COMPLETED'', ''FAILED'', ''TIMED_OUT'', ''RECOVERY_REQUIRED'', ''CANCEL_REQUESTED'',
     ''CANCELLING'', ''CANCELED'']"

definition root_grant_current :: "run_rows \<Rightarrow> bool" where
  "root_grant_current rows =
     (case root_grant (run_grants rows) of
        Some g \<Rightarrow> grant_state g = ''ACTIVE'' \<and> grant_epoch g = scope_epoch rows | None \<Rightarrow> False)"

definition evaluateLiveAuthorization :: "services \<Rightarrow> directory \<Rightarrow> bool \<Rightarrow> run_rows \<Rightarrow> authorization" where
  "evaluateLiveAuthorization S D approvalApplied rows =
     (if scope_status rows \<noteq> ''ACTIVE'' \<or> run_status rows \<in> set revoked_statuses
      then denied_authorization ''RUN_OR_ROOT_REVOKED''
      else if \<not> root_grant_current rows then denied_authorization ''ROOT_GRANT_REVOKED_OR_EPOCH_MISMATCH''
      else if \<not> hasCurrentProjectRead D rows then denied_authorization ''PROJECT_ACCESS_REVOKED''
      else if \<not> hasCurrentBrowserPermission D rows then denied_authorization ''BROWSER_AUTOMATION_RUN_PERMISSION_MISSING''
      else case loadAutomation D of
        Inl why \<Rightarrow> denied_authorization why
      | Inr automation \<Rightarrow>
          (let digest = JStr (sha256Digest (sv_sha S) (JArr (run_policies rows)))
           in if \<not> policies_allow rows
              then (denied_authorization ''CURRENT_POLICY_CEILING_MISSING'')\<lparr>az_policyDigest := digest\<rparr>
              else if truthy (jget automation ''requiresConfirmation'') \<and> \<not> approvalApplied
              then (denied_authorization ''REGISTERED_AUTOMATION_REQUIRES_CONFIRMATION'')
                     \<lparr>az_decision := ''EXPLICIT_APPROVAL_REQUIRED''\<rparr>
              else \<lparr>az_decision = ''ALLOW'', az_reason = JNull, az_policyDigest = digest,
                    az_policyRevision = jor (column rows ''project_policy_revision'') (JStr ''agent-policy.v1''),
                    az_surface = JObj [(''surface'', JStr CAPABILITY_SURFACE), (''mode'', JStr ''ALLOW''),
                      (''reason'', JStr ''The admitted Agent surface is the bounded SkyCommand MCP/API bridge to the registered Browser Automation service.'')],
                    az_automation = automation\<rparr>))"

section \<open>Effects\<close>

definition normalizeActorSnapshot :: "run_rows \<Rightarrow> jsval" where
  "normalizeActorSnapshot rows =
     (let snapshot = column rows ''initiating_actor_snapshot''
      in if is_obj snapshot \<or> is_arr snapshot then snapshot
         else JObj [(''kind'', column rows ''initiating_actor_kind''), (''id'', column rows ''initiating_actor_id''),
                    (''displayNameSnapshot'', JNull)])"

definition safeEffect :: "capability_effect \<Rightarrow> jsval \<Rightarrow> jsval" where
  "safeEffect e credential =
     (let c = jget (ce_columns e)
      in JObj
       [(''effectId'', JStr (ce_id e)), (''effectKey'', JStr (ce_key e)), (''executionScopeId'', c ''execution_scope_id''),
        (''runId'', c ''agent_run_id''), (''sessionId'', c ''session_id''), (''turnId'', or_null (ce_turn e)),
        (''providerOperationId'', or_null (ce_operation e)), (''projectId'', c ''project_id''),
        (''agentDefinitionId'', c ''agent_definition_id''), (''definitionVersionId'', c ''definition_version_id''),
        (''initiatingUserId'', or_null (c ''initiating_user_id'')),
        (''initiatingActor'', or_null (c ''initiating_actor_snapshot'')), (''capabilityKind'', JStr CAPABILITY_KIND),
        (''capabilityCode'', JStr CAPABILITY_CODE), (''capabilityVersion'', JStr CAPABILITY_VERSION),
        (''requestDigest'', JStr (ce_digest e)), (''requestMetadata'', jor (ce_metadata e) (JObj [])),
        (''authorityDecision'', JStr (ce_authority e)), (''authoritySnapshotId'', or_null (c ''authority_snapshot_id'')),
        (''authorityEpoch'', jint (ce_epoch e)), (''policyRevision'', ce_policy_revision e),
        (''policyDigest'', or_null (ce_policy_digest e)), (''executionSurfaceDecision'', jor (ce_surface e) (JObj [])),
        (''managedCredential'', credential), (''nativeBrowserExecutionId'', or_null (ce_execution e)),
        (''nativeBrowserWorkflowId'', or_null (ce_workflow e)), (''browserAutomationRunId'', or_null (ce_browser_run e)),
        (''runtimeWorker'', if truthy (jget (ce_worker e) ''identity'')
           then JObj [(''identity'', jget (ce_worker e) ''identity''), (''generation'', or_null (jget (ce_worker e) ''generation'')),
                      (''taskQueue'', or_null (jget (ce_worker e) ''taskQueue'')),
                      (''observedAt'', or_null (jget (ce_worker e) ''observedAt''))]
           else JNull),
        (''dispatchState'', JStr (ce_dispatch e)), (''outcomeCertainty'', JStr (ce_certainty e)),
        (''denialReason'', or_null (ce_denial e)), (''reconciliation'', jor (ce_reconciliation e) (JObj [])),
        (''result'', or_null (ce_result e)), (''createdAt'', c ''created_at''), (''updatedAt'', c ''updated_at'')])"

text \<open>The row of \<open>loadEffect\<close>: an effect joined with its grant.\<close>

definition joined_view :: "desk \<Rightarrow> capability_effect \<Rightarrow> jsval" where
  "joined_view d e = safeEffect e (grant_view (ce_reference e) (managed_grant (ce_id e) (run_grants (dk_rows d))))"

definition load_effect :: "string \<Rightarrow> desk \<Rightarrow> capability_effect option" where
  "load_effect effectId d = find (\<lambda>e. ce_id e = effectId) (dk_effects d)"

definition update_effect :: "string \<Rightarrow> (capability_effect \<Rightarrow> capability_effect) \<Rightarrow> desk \<Rightarrow> desk" where
  "update_effect effectId f d = d\<lparr>dk_effects := map (\<lambda>e. if ce_id e = effectId then f e else e) (dk_effects d)\<rparr>"

definition update_rows :: "(run_rows \<Rightarrow> run_rows) \<Rightarrow> desk \<Rightarrow> desk" where
  "update_rows f d = d\<lparr>dk_rows := f (dk_rows d)\<rparr>"

definition capability_event :: "bureau \<Rightarrow> string \<Rightarrow> string \<Rightarrow> jsval \<Rightarrow> string \<Rightarrow> agent_event" where
  "capability_event B eventType sourceCursor payload availability =
     (workflow_event (bu_services B) eventType JNull sourceCursor payload)
       \<lparr>ev_kind := ''SKYCOMMAND_AGENT_CAPABILITY_AUTHORIZATION'', ev_availability := availability\<rparr>"

definition record_event :: "agent_event \<Rightarrow> desk \<Rightarrow> desk" where
  "record_event e = update_rows (appendEvent e)"

text \<open>A transaction on the rows of a run: a thrown error leaves them as they were.\<close>

type_synonym 'a work = "desk \<Rightarrow> ('a \<times> desk) res"

definition transact :: "('d \<Rightarrow> ('a \<times> 'd) res) \<Rightarrow> 'd \<Rightarrow> 'a res \<times> 'd" where
  "transact work d = (case work d of Inl err \<Rightarrow> (Inl err, d) | Inr (v, d') \<Rightarrow> (Inr v, d'))"

text \<open>\<open>buildWorkflowId\<close> of \<open>browserAutomationExecutionService.js\<close>.\<close>

definition buildWorkflowId :: "bureau \<Rightarrow> string" where
  "buildWorkflowId B = ''skycommand-browser-automation-'' @ CAPABILITY_CODE @ ''-'' @ int_str (bu_now B) @ ''-''
     @ take 8 (sv_new_id (bu_services B) ''workflow'')"

definition new_grant :: "bureau \<Rightarrow> string \<Rightarrow> string \<Rightarrow> (string \<times> jsval) list \<Rightarrow> run_rows \<Rightarrow> execution_grant" where
  "new_grant B grantId effectId extra rows =
     \<lparr>grant_id = grantId, grant_kind = ''MANAGED_CAPABILITY'', grant_state = ''ACTIVE'', grant_epoch = run_epochs rows,
      grant_effect = Some effectId, grant_audience = JStr MANAGED_CREDENTIAL_AUDIENCE,
      grant_hash = JStr (hashCredential (bu_services B) (JStr (bu_credential B))),
      grant_expires = Some (bu_now B + CREDENTIAL_TTL_MS), grant_granted = JStr (sv_now (bu_services B)),
      grant_closed = JNull,
      grant_metadata = JObj ([(''capabilityKind'', JStr CAPABILITY_KIND), (''capabilityCode'', JStr CAPABILITY_CODE),
        (''effectId'', JStr effectId), (''credentialReference'', JStr (''grant:'' @ grantId))] @ extra)\<rparr>"

text \<open>The unique index on the run and the effect of a managed grant.\<close>

definition insert_grant :: "execution_grant \<Rightarrow> run_rows \<Rightarrow> run_rows res" where
  "insert_grant g rows =
     (if list_ex (\<lambda>h. grant_kind h = ''MANAGED_CAPABILITY'' \<and> grant_effect h = grant_effect g) (run_grants rows)
      then Inl (js_error ''duplicate key value violates unique constraint uq_execution_grants_managed_effect'')
      else Inr (rows\<lparr>run_grants := run_grants rows @ [g]\<rparr>))"

section \<open>Preparing an effect\<close>

definition effect_key_of :: "jsval \<Rightarrow> string" where
  "effect_key_of caseId = ''browser:'' @ CAPABILITY_CODE @ '':'' @ plain_text caseId"

definition request_digest :: "services \<Rightarrow> jsval \<Rightarrow> string" where
  "request_digest S caseId =
     sha256Digest (sv_sha S)
       (JObj (kv_spread [(''effectKey'', JStr (effect_key_of caseId))] (obj_kvs (buildManagedRequest caseId))))"

record prepared_effect =
  pe_decision :: string
  pe_replayed :: bool
  pe_effect :: jsval
  pe_request :: jsval

definition case_authorization :: "bureau \<Rightarrow> directory \<Rightarrow> browser_case \<Rightarrow> run_rows \<Rightarrow> authorization" where
  "case_authorization B D cc rows =
     (let evaluated = evaluateLiveAuthorization (bu_services B) D False rows
      in if az_decision evaluated = ''ALLOW'' \<and> requiresApproval cc
         then evaluated\<lparr>az_decision := ''EXPLICIT_APPROVAL_REQUIRED'', az_reason := JStr ''PHASE19_2C_DURABLE_APPROVAL_REQUIRED''\<rparr>
         else evaluated)"

definition effect_columns :: "bureau \<Rightarrow> run_rows \<Rightarrow> jsval" where
  "effect_columns B rows = JObj
     [(''execution_scope_id'', column rows ''execution_scope_id''), (''agent_run_id'', column rows ''agent_run_id''),
      (''session_id'', column rows ''session_id''), (''project_id'', column rows ''project_id''),
      (''agent_definition_id'', column rows ''definition_id''),
      (''definition_version_id'', column rows ''definition_version_id''),
      (''initiating_user_id'', column rows ''initiating_user_id''),
      (''initiating_actor_kind'', column rows ''initiating_actor_kind''),
      (''initiating_actor_id'', column rows ''initiating_actor_id''),
      (''initiating_actor_snapshot'', normalizeActorSnapshot rows),
      (''authority_snapshot_id'', column rows ''authority_snapshot_id''),
      (''created_at'', JStr (sv_now (bu_services B))), (''updated_at'', JStr (sv_now (bu_services B)))]"

definition new_effect ::
  "bureau \<Rightarrow> jsval \<Rightarrow> jsval \<Rightarrow> jsval \<Rightarrow> browser_case \<Rightarrow> authorization \<Rightarrow> run_rows \<Rightarrow> capability_effect" where
  "new_effect B operationId turnId caseId cc a rows =
     (let S = bu_services B; allowed = (az_decision a = ''ALLOW'')
      in \<lparr>ce_id = sv_new_id S ''effect'', ce_key = effect_key_of caseId, ce_columns = effect_columns B rows,
          ce_turn = or_null turnId, ce_operation = or_null operationId, ce_digest = request_digest S caseId,
          ce_metadata = JObj [(''caseId'', JStr (plain_text caseId)), (''environmentCode'', JStr CAPABILITY_ENVIRONMENT),
            (''parameters'', JObj []), (''automationCode'', JStr CAPABILITY_CODE),
            (''allocation'', JStr (if allowed then ''PREALLOCATED_BEFORE_DISPATCH'' else ''NOT_ALLOCATED_DUE_TO_DENIAL'')),
            (''duplicateDeliveries'', jnat (duplicateDeliveries cc))],
          ce_authority = az_decision a, ce_epoch = run_epochs rows,
          ce_policy_revision = jors [az_policyRevision a, column rows ''project_policy_revision'', JStr ''agent-policy.v1''],
          ce_policy_digest = jor (az_policyDigest a) (JStr (sha256Digest (sv_sha S)
            (JObj [(''decision'', JStr (az_decision a)), (''reason'', az_reason a)]))),
          ce_surface = jor (az_surface a) (JObj [(''surface'', JStr CAPABILITY_SURFACE), (''mode'', JStr ''DENY''),
            (''reason'', az_reason a)]),
          ce_reference = (if allowed then JStr (''grant:'' @ sv_new_id S ''grant'') else JNull),
          ce_execution = (if allowed then JStr (sv_new_id S ''execution'') else JNull),
          ce_workflow = (if allowed then JStr (buildWorkflowId B) else JNull),
          ce_browser_run = JNull, ce_worker = JNull,
          ce_dispatch = (if allowed then ''INTENT''
             else if az_decision a = ''EXPLICIT_APPROVAL_REQUIRED'' then ''APPROVAL_REQUIRED'' else ''DENIED''),
          ce_certainty = (if allowed then ''UNKNOWN'' else ''REJECTED''), ce_denial = or_null (az_reason a),
          ce_reconciliation = JObj [], ce_result = JNull\<rparr>)"

text \<open>The request that goes to the runtime; it carries the raw credential only when the effect is allowed.\<close>

definition capability_request :: "bureau \<Rightarrow> bool \<Rightarrow> string \<Rightarrow> jsval \<Rightarrow> capability_effect \<Rightarrow> jsval" where
  "capability_request B allowed why parameters e =
     JObj ([(''effectId'', JStr (ce_id e)), (''effectKey'', JStr (ce_key e)),
        (''credential'', if allowed then JStr (bu_credential B) else JNull),
        (''audience'', if allowed then JStr MANAGED_CREDENTIAL_AUDIENCE else JNull),
        (''capabilityKind'', JStr CAPABILITY_KIND), (''capabilityCode'', JStr CAPABILITY_CODE),
        (''capabilityVersion'', JStr CAPABILITY_VERSION), (''environmentCode'', JStr CAPABILITY_ENVIRONMENT),
        (''parameters'', parameters), (''requestDigest'', JStr (ce_digest e))]
       @ (if allowed then [] else [(''decision'', JStr why)]))"

definition decided_event :: "bureau \<Rightarrow> authorization \<Rightarrow> capability_effect \<Rightarrow> jsval \<Rightarrow> agent_event" where
  "decided_event B a e credential =
     capability_event B ''AGENT_CAPABILITY_AUTHORIZATION_DECIDED'' (''capability:'' @ ce_id e @ '':decision'')
       (JObj [(''effectId'', JStr (ce_id e)), (''effectKey'', JStr (ce_key e)), (''capabilityKind'', JStr CAPABILITY_KIND),
         (''capabilityCode'', JStr CAPABILITY_CODE), (''capabilityVersion'', JStr CAPABILITY_VERSION),
         (''decision'', JStr (az_decision a)), (''reason'', or_null (az_reason a)), (''authorityEpoch'', jint (ce_epoch e)),
         (''policyRevision'', ce_policy_revision e), (''requestDigest'', JStr (ce_digest e)),
         (''nativeBrowserWorkflowId'', ce_workflow e), (''managedCredential'', credential)])
       (if az_decision a = ''ALLOW'' then ''REPORTED'' else ''ERROR'')"

definition insert_effect :: "bureau \<Rightarrow> authorization \<Rightarrow> capability_effect \<Rightarrow> prepared_effect work" where
  "insert_effect B a e d =
     (let allowed = (az_decision a = ''ALLOW'');
          g = new_grant B (sv_new_id (bu_services B) ''grant'') (ce_id e) [] (dk_rows d);
          credential = (if allowed then safeManagedCredential e g else JNull)
      in rbind (if allowed then insert_grant g (dk_rows d) else Inr (dk_rows d)) (\<lambda>rows.
         Inr (\<lparr>pe_decision = az_decision a, pe_replayed = False, pe_effect = safeEffect e credential,
               pe_request = capability_request B allowed (az_decision a) (JObj []) e\<rparr>,
              record_event (decided_event B a e credential) (d\<lparr>dk_rows := rows, dk_effects := dk_effects d @ [e]\<rparr>))))"

definition replayed_effect :: "desk \<Rightarrow> capability_effect \<Rightarrow> prepared_effect" where
  "replayed_effect d e =
     \<lparr>pe_decision = ce_authority e, pe_replayed = True,
      pe_effect = safeEffect e (case managed_grant (ce_id e) (run_grants (dk_rows d)) of
        Some g \<Rightarrow> safeManagedCredential e g | None \<Rightarrow> JNull),
      pe_request = JNull\<rparr>"

definition prepare_effect_body ::
  "bureau \<Rightarrow> directory \<Rightarrow> jsval \<Rightarrow> jsval \<Rightarrow> jsval \<Rightarrow> browser_case \<Rightarrow> prepared_effect work" where
  "prepare_effect_body B D operationId turnId caseId cc d =
     (case find (\<lambda>e. ce_key e = effect_key_of caseId) (dk_effects d) of
        Some e \<Rightarrow>
          if ce_digest e \<noteq> request_digest (bu_services B) caseId
          then Inl (capability_error ''AGENT_CAPABILITY_IDEMPOTENCY_CONFLICT''
            ''The managed capability effect key was reused with different content.'')
          else Inr (replayed_effect d e, d)
      | None \<Rightarrow>
          (let a = case_authorization B D cc (dk_rows d)
           in insert_effect B a (new_effect B operationId turnId caseId cc a (dk_rows d)) d))"

text \<open>An unknown case is skipped before the database is asked; \<open>None\<close> stands for a run that is not there.\<close>

definition prepareManagedCapabilityEffect ::
  "bureau \<Rightarrow> directory \<Rightarrow> jsval \<Rightarrow> jsval \<Rightarrow> jsval \<Rightarrow> desk option \<Rightarrow> prepared_effect res \<times> desk option" where
  "prepareManagedCapabilityEffect B D operationId turnId caseId desk =
     (case managedBrowserCase caseId of
        None \<Rightarrow> (Inr \<lparr>pe_decision = ''SKIP'', pe_replayed = False, pe_effect = JNull, pe_request = JNull\<rparr>, desk)
      | Some cc \<Rightarrow>
          (case desk of
             None \<Rightarrow> (Inl (capability_error ''AGENT_RUN_NOT_FOUND''
               ''Agent Run not found while preparing a managed capability effect.''), None)
           | Some d \<Rightarrow> (let (r, d') = transact (prepare_effect_body B D operationId turnId caseId cc) d in (r, Some d'))))"

section \<open>Revoking and stopping\<close>

definition revoke_grant :: "bureau \<Rightarrow> int \<Rightarrow> execution_grant \<Rightarrow> execution_grant" where
  "revoke_grant B epoch g =
     (if grant_state g = ''ACTIVE''
      then g\<lparr>grant_state := ''REVOKED'', grant_closed := JStr (sv_now (bu_services B)), grant_epoch := epoch\<rparr> else g)"

definition revoke_for :: "bureau \<Rightarrow> int \<Rightarrow> string \<Rightarrow> execution_grant \<Rightarrow> execution_grant" where
  "revoke_for B epoch why g =
     (if grant_state g = ''ACTIVE''
      then (revoke_grant B epoch g)\<lparr>grant_metadata :=
        obj_with (jnull_or (grant_metadata g) (JObj [])) [(''revocationReason'', JStr why)]\<rparr>
      else g)"

definition ended_statuses :: "string list" where
  "ended_statuses = [''COMPLETED'', ''FAILED'', ''TIMED_OUT'', ''CANCELED'', ''RECOVERY_REQUIRED'']"

definition stop_rows :: "int \<Rightarrow> string \<Rightarrow> run_rows \<Rightarrow> run_rows" where
  "stop_rows epoch why rows =
     (let ended = (run_status rows \<in> set ended_statuses)
      in rows\<lparr>scope_epoch := epoch, scope_status := ''STOP_REQUESTED'', scope_reason := JStr why, run_epoch := epoch,
              run_status := (if ended then run_status rows else ''CANCEL_REQUESTED''),
              run_stop := (if ended then run_stop rows else ''REQUESTED'')\<rparr>)"

definition revoke_before_dispatch_body :: "bureau \<Rightarrow> string \<Rightarrow> string \<Rightarrow> jsval work" where
  "revoke_before_dispatch_body B runId effectId d =
     (case load_effect effectId d of
        None \<Rightarrow> Inl (capability_error ''AGENT_CAPABILITY_EFFECT_NOT_FOUND'' ''Managed capability effect not found while revoking.'')
      | Some _ \<Rightarrow>
          (let epoch = run_epochs (dk_rows d) + 1; why = ''REVOCATION_EPOCH_CHANGED_BEFORE_DISPATCH'';
               rows = (stop_rows epoch ''PHASE19_2B_CAPABILITY_REVOCATION'' (dk_rows d))
                        \<lparr>run_grants := map (revoke_for B epoch why) (run_grants (dk_rows d))\<rparr>
           in Inr (JObj [(''effectId'', JStr effectId), (''runId'', JStr runId), (''revocationEpoch'', jint epoch),
                  (''decision'', JStr ''DENY''), (''reason'', JStr why)],
                record_event (capability_event B ''AGENT_CAPABILITY_REVOKED_BEFORE_DISPATCH''
                  (''capability:'' @ effectId @ '':revoked:'' @ int_str epoch)
                  (JObj [(''effectId'', JStr effectId), (''revocationEpoch'', jint epoch),
                    (''nativeBrowserExecutionStarted'', JBool False)]) ''ERROR'')
                  (update_effect effectId
                    (\<lambda>e. if ce_dispatch e \<in> set [''INTENT'', ''DISPATCHING'', ''RECONCILING'']
                         then e\<lparr>ce_dispatch := ''DENIED'', ce_certainty := ''REJECTED'', ce_denial := JStr why,
                                ce_reconciliation := JObj [(''revokedBeforeDispatch'', JBool True), (''revocationEpoch'', jint epoch)]\<rparr>
                         else e) (d\<lparr>dk_rows := rows\<rparr>)))))"

definition execution_event :: "bureau \<Rightarrow> string \<Rightarrow> string \<Rightarrow> jsval \<Rightarrow> agent_event" where
  "execution_event B eventType sourceCursor payload =
     (workflow_event (bu_services B) eventType JNull sourceCursor payload)
       \<lparr>ev_kind := ''SKYCOMMAND_AGENT_EXECUTION_SERVICE'', ev_instance := ''api''\<rparr>"

text \<open>The transactions of \<open>cancelAgentRun\<close> and \<open>stopExecutionScope\<close>; the journal entry of the stop,
  an operation of another type that nothing here reads, is left out.\<close>

definition cancel_run_body :: "bureau \<Rightarrow> string \<Rightarrow> jsval \<Rightarrow> jsval work" where
  "cancel_run_body B runId requestedBy d =
     (let rows = dk_rows d; epoch = run_epochs rows + 1;
          reply = (\<lambda>status more. JObj ([(''runId'', JStr runId), (''workflowId'', column rows ''stable_temporal_workflow_id''),
            (''status'', JStr status)] @ more))
      in if run_status rows \<in> set ended_statuses
         then Inr (reply (run_status rows) [(''idempotent'', JBool True)], d)
         else Inr (reply ''CANCEL_REQUESTED'' [(''revocationEpoch'', jint epoch), (''idempotent'', JBool False)],
           record_event (execution_event B ''RUN_CANCEL_REQUESTED'' (''cancel:'' @ int_str epoch)
             (JObj [(''requestedBy'', requestedBy), (''revocationEpoch'', jint epoch), (''physicalStop'', JStr ''PENDING'')]))
             (d\<lparr>dk_rows := (stop_rows epoch ''RUN_CANCEL_REQUESTED'' rows)
                             \<lparr>run_grants := map (revoke_grant B epoch) (run_grants rows)\<rparr>\<rparr>)))"

definition stop_scope_body :: "bureau \<Rightarrow> string \<Rightarrow> jsval work" where
  "stop_scope_body B scopeId d =
     (let rows = dk_rows d; epoch = scope_epoch rows + 1; live = (run_status rows \<notin> set ended_statuses);
          rows' = (if live
            then (stop_rows epoch ''ROOT_STOP_REQUESTED'' rows)\<lparr>run_grants := map (revoke_grant B epoch) (run_grants rows)\<rparr>
            else rows\<lparr>scope_epoch := epoch, scope_status := ''STOP_REQUESTED'', scope_reason := JStr ''ROOT_STOP_REQUESTED''\<rparr>)
      in Inr (JObj [(''executionScopeId'', JStr scopeId), (''status'', JStr ''STOP_REQUESTED''), (''revocationEpoch'', jint epoch),
             (''runs'', JArr (if live then [JObj [(''runId'', column rows ''agent_run_id''),
                (''workflowId'', column rows ''stable_temporal_workflow_id'')]] else []))],
           (if live then record_event (execution_event B ''ROOT_STOP_REQUESTED'' (''root-stop:'' @ int_str epoch)
              (JObj [(''revocationEpoch'', jint epoch), (''physicalStop'', JStr ''PENDING'')])) else id)
             (d\<lparr>dk_rows := rows'\<rparr>)))"

section \<open>Approving an effect\<close>

record approval =
  ap_allowed :: bool
  ap_replayed :: bool
  ap_reason :: jsval
  ap_effect :: jsval
  ap_request :: jsval

definition refused :: "jsval \<Rightarrow> jsval \<Rightarrow> approval" where
  "refused why view = \<lparr>ap_allowed = False, ap_replayed = False, ap_reason = why, ap_effect = view, ap_request = JNull\<rparr>"

definition deny_after_approval :: "string \<Rightarrow> jsval \<Rightarrow> approval work" where
  "deny_after_approval effectId why d =
     (let d' = update_effect effectId (\<lambda>e. e\<lparr>ce_authority := ''DENY'', ce_dispatch := ''DENIED'', ce_certainty := ''REJECTED'',
                 ce_denial := why\<rparr>) d
      in Inr (refused why (case load_effect effectId d' of Some e \<Rightarrow> joined_view d' e | None \<Rightarrow> JNull), d'))"

definition approved_effect :: "bureau \<Rightarrow> authorization \<Rightarrow> run_rows \<Rightarrow> capability_effect \<Rightarrow> capability_effect" where
  "approved_effect B a rows e =
     e\<lparr>ce_authority := ''ALLOW'', ce_dispatch := ''INTENT'', ce_certainty := ''UNKNOWN'', ce_denial := JNull,
       ce_reference := JStr (''grant:'' @ sv_new_id (bu_services B) ''grant''),
       ce_execution := jor (ce_execution e) (JStr (sv_new_id (bu_services B) ''execution'')),
       ce_workflow := jor (ce_workflow e) (JStr (buildWorkflowId B)), ce_epoch := run_epochs rows,
       ce_surface := jor (az_surface a) (JObj [(''surface'', JStr CAPABILITY_SURFACE), (''mode'', JStr ''ALLOW'')])\<rparr>"

definition grant_approval :: "bureau \<Rightarrow> authorization \<Rightarrow> capability_effect \<Rightarrow> approval work" where
  "grant_approval B a e d =
     (let rows = dk_rows d; effectId = ce_id e;
          g = new_grant B (sv_new_id (bu_services B) ''grant'') effectId [(''approvalApplied'', JBool True)] rows;
          e' = approved_effect B a rows e
      in rbind (insert_grant g rows) (\<lambda>rows'.
         Inr (\<lparr>ap_allowed = True, ap_replayed = False, ap_reason = JUndef, ap_effect = safeEffect e' (safeManagedCredential e' g),
               ap_request = capability_request B True [] (jor (jget (ce_metadata e) ''parameters'') (JObj [])) e'\<rparr>,
              record_event (capability_event B ''AGENT_CAPABILITY_APPROVAL_APPLIED''
                (''capability:'' @ effectId @ '':approval-applied'')
                (JObj [(''effectId'', JStr effectId), (''authorityDecision'', JStr ''ALLOW''),
                  (''authorityEpoch'', jint (run_epochs rows)), (''managedCredential'', safeManagedCredential e g)]) ''REPORTED'')
                (update_effect effectId (approved_effect B a rows) (d\<lparr>dk_rows := rows'\<rparr>)))))"

definition approve_body :: "bureau \<Rightarrow> directory \<Rightarrow> string \<Rightarrow> approval work" where
  "approve_body B D effectId d =
     (case load_effect effectId d of
        None \<Rightarrow> Inl (capability_error ''AGENT_CAPABILITY_EFFECT_NOT_FOUND''
                 ''Managed capability effect not found while applying approval.'')
      | Some e \<Rightarrow>
          (let a = evaluateLiveAuthorization (bu_services B) D True (dk_rows d)
           in if ce_dispatch e = ''COMPLETED''
              then Inr (\<lparr>ap_allowed = True, ap_replayed = True, ap_reason = JUndef, ap_effect = joined_view d e, ap_request = JNull\<rparr>, d)
              else if ce_authority e \<noteq> ''EXPLICIT_APPROVAL_REQUIRED'' \<or> ce_dispatch e \<notin> set [''APPROVAL_REQUIRED'', ''INTENT'']
              then Inr (refused (jor (ce_denial e) (JStr ''MANAGED_CAPABILITY_APPROVAL_NOT_PENDING'')) (joined_view d e), d)
              else if az_decision a \<noteq> ''ALLOW''
              then deny_after_approval effectId (jor (az_reason a) (JStr ''CURRENT_AUTHORITY_REJECTED_AFTER_APPROVAL'')) d
              else (case managed_grant effectId (run_grants (dk_rows d)) of
                      Some g \<Rightarrow> if grant_state g = ''ACTIVE''
                                then Inr (refused (JStr ''MANAGED_CREDENTIAL_ALREADY_ISSUED_REQUIRES_RECONCILIATION'')
                                       (safeEffect e (safeManagedCredential e g)), d)
                                else grant_approval B a e d
                    | None \<Rightarrow> grant_approval B a e d)))"

definition approveManagedCapabilityEffect :: "bureau \<Rightarrow> directory \<Rightarrow> string \<Rightarrow> desk \<Rightarrow> approval res \<times> desk" where
  "approveManagedCapabilityEffect B D effectId = transact (approve_body B D effectId)"

section \<open>Dispatching an effect\<close>

text \<open>What \<open>beginDispatch\<close> found: nothing to start (whether it had been settled before, whether it is denied, and the effect), or
  the effect as it was before, the automation and the identity it acts with.\<close>

datatype dispatch_start =
    NotStarted bool bool jsval
  | Started capability_effect jsval jsval

definition managed_context :: "run_rows \<Rightarrow> capability_effect \<Rightarrow> jsval" where
  "managed_context rows e = JObj
     [(''effectId'', JStr (ce_id e)), (''projectId'', column rows ''project_id''),
      (''executionScopeId'', column rows ''execution_scope_id''), (''agentRunId'', column rows ''agent_run_id''),
      (''sessionId'', column rows ''session_id''), (''turnId'', ce_turn e),
      (''agentDefinitionId'', column rows ''definition_id''), (''definitionVersionId'', column rows ''definition_version_id''),
      (''initiatingUserId'', column rows ''initiating_user_id''), (''initiatingActor'', normalizeActorSnapshot rows),
      (''authoritySnapshotId'', column rows ''authority_snapshot_id''), (''authorityEpoch'', jint (ce_epoch e)),
      (''policyRevision'', ce_policy_revision e)]"

definition settled_dispatch :: "string list" where
  "settled_dispatch = [''COMPLETED'', ''FAILED'', ''DENIED'', ''APPROVAL_REQUIRED'', ''CANCELED'']"

definition deny_dispatch ::
  "bureau \<Rightarrow> authorization \<Rightarrow> bool \<Rightarrow> jsval \<Rightarrow> capability_effect \<Rightarrow> dispatch_start work" where
  "deny_dispatch B a credentialValid runtimeWorker e d =
     (let S = bu_services B; effectId = ce_id e; rows = dk_rows d;
          why = jor (az_reason a) (JStr (if \<not> credentialValid then ''MANAGED_CREDENTIAL_INVALID_OR_STALE''
                  else ''MANAGED_CAPABILITY_DENIED''));
          deny = (\<lambda>e. e\<lparr>ce_dispatch := (if az_decision a = ''EXPLICIT_APPROVAL_REQUIRED'' then ''APPROVAL_REQUIRED'' else ''DENIED''),
             ce_certainty := ''REJECTED'', ce_denial := why,
             ce_reconciliation := JObj [(''checkedAt'', JStr (sv_now S)), (''runtimeWorker'', jor runtimeWorker (JObj []))]\<rparr>)
      in Inr (NotStarted False True (safeEffect (deny e)
                (case managed_grant effectId (run_grants rows) of Some g \<Rightarrow> safeManagedCredential (deny e) g | None \<Rightarrow> JNull)),
           record_event (capability_event B ''AGENT_CAPABILITY_DISPATCH_DENIED''
             (''capability:'' @ effectId @ '':dispatch-denied:'' @ sha256Digest (sv_sha S)
                (JObj [(''reason'', why), (''epoch'', jint (scope_epoch rows))]))
             (JObj [(''effectId'', JStr effectId), (''reason'', why), (''decision'', JStr (az_decision a)),
               (''authorityEpoch'', jint (scope_epoch rows)), (''nativeBrowserExecutionStarted'', JBool False)]) ''ERROR'')
             (update_effect effectId deny d)))"

definition begin_body :: "bureau \<Rightarrow> directory \<Rightarrow> string \<Rightarrow> jsval \<Rightarrow> jsval \<Rightarrow> dispatch_start work" where
  "begin_body B D effectId credential runtimeWorker d =
     (case load_effect effectId d of
        None \<Rightarrow> Inl (capability_error ''AGENT_CAPABILITY_EFFECT_NOT_FOUND'' ''Managed capability effect not found.'')
      | Some e \<Rightarrow>
          (let rows = dk_rows d;
               a = evaluateLiveAuthorization (bu_services B) D False rows;
               valid = isManagedCredentialValid B (managed_grant effectId (run_grants rows)) credential rows e
           in if ce_dispatch e \<in> set settled_dispatch
              then Inr (NotStarted True (ce_dispatch e \<in> set [''DENIED'', ''APPROVAL_REQUIRED'']) (joined_view d e), d)
              else if az_decision a \<noteq> ''ALLOW'' \<or> \<not> valid then deny_dispatch B a valid runtimeWorker e d
              else Inr (Started e (az_automation a) (managed_context rows e),
                update_effect effectId (\<lambda>e. e\<lparr>ce_dispatch := ''DISPATCHING'',
                  ce_worker := JObj [(''identity'', or_null (jget runtimeWorker ''identity'')),
                    (''generation'', or_null (jget runtimeWorker ''generation'')),
                    (''taskQueue'', or_null (jget runtimeWorker ''taskQueue'')),
                    (''observedAt'', JStr (sv_now (bu_services B)))]\<rparr>) d)))"

definition beginDispatch ::
  "bureau \<Rightarrow> directory \<Rightarrow> string \<Rightarrow> jsval \<Rightarrow> jsval \<Rightarrow> desk \<Rightarrow> dispatch_start res \<times> desk" where
  "beginDispatch B D effectId credential runtimeWorker = transact (begin_body B D effectId credential runtimeWorker)"

text \<open>The request for the browser automation; \<open>begun.effect\<close> is a row, so its \<open>requestMetadata\<close> is not there and the
  parameters are empty.\<close>

definition start_request :: "capability_effect \<Rightarrow> jsval \<Rightarrow> jsval \<Rightarrow> jsval" where
  "start_request e automation context = JObj
     [(''automationCode'', jget automation ''automationCode''),
      (''body'', JObj [(''environmentCode'', jor (jget automation ''defaultEnvironmentCode'') (JStr CAPABILITY_ENVIRONMENT)),
         (''parameters'', JObj []), (''executionMode'', JStr ''HEADLESS''), (''confirmed'', JBool False)]),
      (''permissions'', JArr [JObj [(''permissionCode'', JStr ''BROWSER_AUTOMATION_RUN'')]]),
      (''actor'', JObj [(''userId'', jget context ''initiatingUserId''),
         (''displayName'', jor (jget (jget context ''initiatingActor'') ''displayNameSnapshot'') (JStr ''Managed Agent Run User'')),
         (''roleCodes'', JArr [])]),
      (''triggerSource'', JStr ''AGENT_MANAGED''),
      (''preallocatedExecution'', JObj [(''executionId'', ce_execution e), (''workflowId'', ce_workflow e)]),
      (''managedContext'', context)]"

definition started_body :: "capability_effect \<Rightarrow> jsval \<Rightarrow> jsval work" where
  "started_body e execution d =
     (let workflowId = jor (ce_workflow e) (jget execution ''workflowId'')
      in Inr (workflowId, update_effect (ce_id e)
           (\<lambda>e. e\<lparr>ce_dispatch := ''RECONCILING'', ce_browser_run := jnull_or (jget execution ''browserAutomationRunId'') JNull,
                ce_execution := jnull_or (ce_execution e) (jnull_or (jget execution ''executionId'') JNull),
                ce_workflow := jnull_or (ce_workflow e) (jnull_or workflowId JNull)\<rparr>) d))"

definition safeBrowserResult :: "jsval \<Rightarrow> jsval" where
  "safeBrowserResult run =
     (if \<not> truthy run then JNull
      else (let plain = (\<lambda>k. (k, or_null (jget run k)))
        in JObj
         [(''browserAutomationRunId'', jors [jget run ''browserAutomationRunId'', jget run ''browser_automation_run_id'', JNull]),
          plain ''executionId'', plain ''workflowId'', plain ''runId'', plain ''automationCode'', plain ''status'',
          plain ''temporalStatus'', (''artifactCount'', JNum (to_num (jor (jget run ''artifactCount'') (jnat 0)))),
          plain ''sourceCommit'']))"

definition browser_status :: "jsval \<Rightarrow> jsval \<Rightarrow> string" where
  "browser_status run fallback = to_upper (to_str (jor (jget run ''status'') fallback))"

text \<open>The polls of \<open>waitForBrowserResult\<close>: the time of each check and what \<open>getRun\<close> answers.  \<open>None\<close> is a wait that
  these polls do not end.\<close>

fun waitForBrowserResult :: "int \<Rightarrow> jsval \<Rightarrow> (int \<times> jsval res) list \<Rightarrow> jsval res option" where
  "waitForBrowserResult started current [] = None"
| "waitForBrowserResult started current ((t, reply) # polls) =
     (if BROWSER_WAIT_TIMEOUT_MS < t - started then Some (Inr current)
      else case reply of
        Inl err \<Rightarrow> Some (Inl err)
      | Inr run \<Rightarrow> if truthy run \<and> browser_status run (JStr []) \<in> set TERMINAL_BROWSER_STATUSES then Some (Inr run)
                   else waitForBrowserResult started run polls)"

record effect_outcome =
  eo_state :: string
  eo_certainty :: string
  eo_result :: jsval
  eo_reason :: jsval
  eo_reconciliation :: jsval

definition observed_outcome :: "bool \<Rightarrow> jsval \<Rightarrow> jsval \<Rightarrow> effect_outcome" where
  "observed_outcome simulateUnknownDispatch workflowId run =
     (let status = browser_status run (JStr ''UNKNOWN''); success = (status = ''SUCCESS'');
          failure = (status \<in> set TERMINAL_BROWSER_STATUSES \<and> \<not> success)
      in \<lparr>eo_state = (if success then ''COMPLETED'' else if failure then ''FAILED'' else ''RECONCILING''),
          eo_certainty = (if success then ''ACKNOWLEDGED'' else if failure then ''REJECTED'' else ''UNKNOWN''),
          eo_result = safeBrowserResult run,
          eo_reason = (if failure then JStr (''NATIVE_BROWSER_'' @ status) else JNull),
          eo_reconciliation = JObj [(''nativeIdReused'', JBool True), (''simulatedUnknownDispatch'', JBool simulateUnknownDispatch),
            (''reconciledWorkflowId'', workflowId), (''browserStatus'', JStr status)]\<rparr>)"

definition failed_outcome :: "jsval \<Rightarrow> effect_outcome" where
  "failed_outcome err =
     \<lparr>eo_state = ''FAILED'', eo_certainty = ''UNKNOWN'', eo_result = JNull,
      eo_reason = jor (jget err ''code'') (JStr ''MANAGED_BROWSER_DISPATCH_FAILED''),
      eo_reconciliation = JObj [(''message'', JStr (let m = plain_text (jget err ''message'')
         in if m = [] then ''Managed Browser dispatch failed.'' else m))]\<rparr>"

definition finish_body :: "string \<Rightarrow> effect_outcome \<Rightarrow> jsval work" where
  "finish_body effectId outcome d =
     (let d' = update_effect effectId (\<lambda>e. e\<lparr>ce_dispatch := eo_state outcome, ce_certainty := eo_certainty outcome,
                 ce_result := or_null (eo_result outcome), ce_denial := eo_reason outcome,
                 ce_reconciliation := jor (eo_reconciliation outcome) (JObj [])\<rparr>) d
      in Inr (case load_effect effectId d' of Some e \<Rightarrow> joined_view d' e | None \<Rightarrow> JNull, d'))"

definition dispatch_reply :: "jsval \<Rightarrow> jsval \<Rightarrow> bool \<Rightarrow> bool \<Rightarrow> jsval" where
  "dispatch_reply view browserResult replayed is_denied =
     obj_with view [(''browserResult'', browserResult), (''replayed'', JBool replayed), (''denied'', JBool is_denied)]"

text \<open>The whole dispatch: \<open>start\<close> is what \<open>startRegisteredAutomation\<close> answers to the request, with its execution.\<close>

definition dispatchManagedCapability ::
  "bureau \<Rightarrow> directory \<Rightarrow> (jsval \<Rightarrow> jsval res) \<Rightarrow> int \<Rightarrow> (int \<times> jsval res) list \<Rightarrow> string \<Rightarrow> jsval \<Rightarrow> jsval \<Rightarrow> bool
     \<Rightarrow> desk \<Rightarrow> (jsval res \<times> desk) option" where
  "dispatchManagedCapability B D start started polls effectId credential runtimeWorker simulateUnknownDispatch d =
     (case beginDispatch B D effectId credential runtimeWorker d of
        (Inl err, d1) \<Rightarrow> Some (Inl err, d1)
      | (Inr (NotStarted replayed is_denied view), d1) \<Rightarrow>
          Some (Inr (dispatch_reply view (or_null (jget view ''result'')) replayed is_denied), d1)
      | (Inr (Started e automation context), d1) \<Rightarrow>
          (let fail = (\<lambda>err d. case transact (finish_body effectId (failed_outcome err)) d of
             (r, d') \<Rightarrow> (rbind r (\<lambda>view. Inr (dispatch_reply view JNull False False)), d'))
           in case start (start_request e automation context) of
                Inl err \<Rightarrow> Some (fail err d1)
              | Inr execution \<Rightarrow>
                  (case transact (started_body e execution) d1 of
                     (Inl err, d2) \<Rightarrow> Some (fail err d2)
                   | (Inr workflowId, d2) \<Rightarrow>
                       (case waitForBrowserResult started JNull polls of
                          None \<Rightarrow> None
                        | Some (Inl err) \<Rightarrow> Some (fail err d2)
                        | Some (Inr run) \<Rightarrow>
                            (case transact (finish_body effectId (observed_outcome simulateUnknownDispatch workflowId run)) d2 of
                               (r, d3) \<Rightarrow> Some (rbind r (\<lambda>view.
                                 Inr (dispatch_reply view (safeBrowserResult run) False False)), d3))))))"

definition getManagedCapabilityEffects :: "desk \<Rightarrow> jsval list" where
  "getManagedCapabilityEffects d = map (joined_view d) (dk_effects d)"

end
