(* ===== verification/AgentInteractions.thy ===== *)
theory AgentInteractions
  imports ManagedCapabilities
begin

text \<open>
  The interactions of an agent run with people, \<open>apps/api/src/services/agentInteractionService.js\<close>: requests for an
  approval or for input, the one decision that may be saved for each, its delivery and its application, expiry and
  cancellation, and the clearance of a quarantined runtime.  The state is the rows of one run with its effects and its
  interactions, and the outbox.  Each function is a transaction, or several in a row; what the visibility queries
  find is an argument.
\<close>

section \<open>Rows\<close>

record decision_row =
  dn_id :: string
  dn_user :: jsval
  dn_actor :: jsval
  dn_type :: string
  dn_value :: string
  dn_payload :: jsval
  dn_digest :: string
  dn_delivery :: string
  dn_application :: string
  dn_reason :: jsval
  dn_result :: jsval
  dn_stamps :: jsval

record interaction =
  it_id :: string
  it_type :: string
  it_kind :: string
  it_operation :: jsval
  it_effect :: "string option"
  it_key :: string
  it_digest :: string
  it_prompt :: string
  it_schema :: jsval
  it_policy :: string
  it_scope :: jsval
  it_initiator :: jsval
  it_epoch :: int
  it_expires :: int
  it_status :: string
  it_reason :: jsval
  it_link :: "string option"
  it_version :: nat
  it_stamps :: jsval
  it_decision :: "decision_row option"

record outbox_row =
  ob_interaction :: string
  ob_decision :: string
  ob_payload :: jsval

record board =
  bd_desk :: desk
  bd_interactions :: "interaction list"
  bd_outbox :: "outbox_row list"

type_synonym 'a task = "board \<Rightarrow> ('a \<times> board) res"

abbreviation board_rows :: "board \<Rightarrow> run_rows" where
  "board_rows b \<equiv> dk_rows (bd_desk b)"

definition OPEN_REQUEST_STATUSES :: "string list" where
  "OPEN_REQUEST_STATUSES = [''PENDING'', ''SAVED'', ''DELIVERED'']"

definition ADMIN_ROLE_CODES :: "string list" where
  "ADMIN_ROLE_CODES = [''SUPER_ADMIN'', ''ADMIN_ALL'']"

definition DEFAULT_APPROVAL_TTL_MS :: int where
  "DEFAULT_APPROVAL_TTL_MS = 90 * 1000"

definition DEFAULT_INPUT_TTL_MS :: int where
  "DEFAULT_INPUT_TTL_MS = 5 * 60 * 1000"

definition FORBIDDEN_PAYLOAD_WORDS :: "string list" where
  "FORBIDDEN_PAYLOAD_WORDS =
     [''credential'', ''secret'', ''token'', ''password'', ''grant'', ''authorization'', ''principal'', ''actor'',
      ''permission'', ''provider'', ''temporal'', ''workflow'', ''filesystem'', ''path'', ''environment'']"

definition open_request :: "interaction \<Rightarrow> bool" where
  "open_request it = (it_status it \<in> set OPEN_REQUEST_STATUSES)"

section \<open>Checking what comes in\<close>

text \<open>\<open>AgentInteractionServiceError\<close>.\<close>

definition interaction_error :: "nat \<Rightarrow> string \<Rightarrow> string \<Rightarrow> jsval \<Rightarrow> jsval" where
  "interaction_error status code message details =
     JObj [(''name'', JStr ''AgentInteractionServiceError''), (''message'', JStr message), (''statusCode'', jnat status),
           (''code'', JStr code), (''details'', details)]"

definition invalid :: "string \<Rightarrow> string \<Rightarrow> jsval" where
  "invalid code message = interaction_error 422 code message (JObj [])"

definition text_or :: "jsval \<Rightarrow> jsval \<Rightarrow> jsval" where
  "text_or v fallback = jor (JStr (plain_text v)) fallback"

definition is_hex :: "string \<Rightarrow> bool" where
  "is_hex s = list_all (\<lambda>c. hex_digit c \<noteq> None) s"

definition is_uuid :: "string \<Rightarrow> bool" where
  "is_uuid s =
     (case split_on CHR ''-'' s of
        [a, b, c, d, e] \<Rightarrow> map length [a, b, c, d, e] = [8, 4, 4, 4, 12] \<and> list_all is_hex [a, b, c, d, e]
          \<and> hd c \<in> set ''12345'' \<and> hd d \<in> set ''89abAB''
      | _ \<Rightarrow> False)"

definition assertUuid :: "jsval \<Rightarrow> string \<Rightarrow> string res" where
  "assertUuid v field =
     (if is_uuid (plain_text v) then Inr (plain_text v)
      else Inl (interaction_error 400 ''AGENT_INTERACTION_ID_INVALID'' (field @ '' must be a valid identifier.'') (JObj [])))"

definition cloneJson :: "jsval \<Rightarrow> string \<Rightarrow> nat \<Rightarrow> jsval res" where
  "cloneJson v field maxLength =
     (if \<not> is_obj v then Inl (invalid ''AGENT_INTERACTION_PAYLOAD_INVALID'' (field @ '' must be an object.''))
      else if maxLength < length (case json v of Some s \<Rightarrow> s | None \<Rightarrow> [])
      then Inl (invalid ''AGENT_INTERACTION_PAYLOAD_TOO_LARGE'' (field @ '' exceeds the supported size.''))
      else Inr (json_clone v))"

definition forbidden_key :: "string \<Rightarrow> bool" where
  "forbidden_key k = list_ex (\<lambda>word. str_includes (to_lower k) word) FORBIDDEN_PAYLOAD_WORDS"

fun scanSafePayload :: "jsval \<Rightarrow> string \<Rightarrow> unit res"
and scan_entries :: "jsval list \<Rightarrow> nat \<Rightarrow> string \<Rightarrow> unit res"
and scan_members :: "(string \<times> jsval) list \<Rightarrow> string \<Rightarrow> unit res" where
  "scanSafePayload (JArr vs) path = scan_entries vs 0 path"
| "scanSafePayload (JObj kvs) path = scan_members kvs path"
| "scanSafePayload _ path = Inr ()"
| "scan_entries [] i path = Inr ()"
| "scan_entries (v # vs) i path =
     rbind (scanSafePayload v (path @ ''['' @ nat_str i @ '']'')) (\<lambda>_. scan_entries vs (Suc i) path)"
| "scan_members [] path = Inr ()"
| "scan_members ((k, v) # kvs) path =
     (if forbidden_key k
      then Inl (invalid ''AGENT_INTERACTION_SECRET_FIELD'' (path @ ''.'' @ k @ '' is not permitted in an interaction payload.''))
      else rbind (scanSafePayload v (path @ ''.'' @ k)) (\<lambda>_. scan_members kvs path))"

record responder =
  rs_internal :: bool
  rs_user :: jsval
  rs_name :: jsval
  rs_admin :: bool

definition actorFromRequest :: "jsval \<Rightarrow> responder res" where
  "actorFromRequest http =
     (let internal = (jget (jget http ''session'') ''authMode'' = JStr ''INTERNAL_SERVICE_TOKEN'');
          user = jget http ''user''; userId = or_null (jget user ''userId'');
          roles = map (\<lambda>r. to_upper (to_str r)) (arr_items (jget user ''roleCodes''))
      in if \<not> truthy userId \<and> \<not> internal
         then Inl (interaction_error 401 ''AGENT_INTERACTION_AUTHENTICATION_REQUIRED''
                ''An authenticated user or authorized internal principal is required.'' (JObj []))
         else Inr \<lparr>rs_internal = internal, rs_user = userId,
                   rs_name = jors [jget user ''displayName'', jget user ''username'',
                     if internal then JStr ''SkyCommand Internal Service'' else JNull],
                   rs_admin = (internal \<or> list_ex (\<lambda>r. r \<in> set ADMIN_ROLE_CODES) roles)\<rparr>)"

text \<open>What \<open>assertProjectAccess\<close> reads: whether the project is active and the actor a member with the right to read.\<close>

record access =
  ac_project :: bool
  ac_member :: bool

definition not_visible :: jsval where
  "not_visible = interaction_error 404 ''AGENT_INTERACTION_NOT_FOUND''
     ''The requested interaction is not visible to this user.'' (JObj [])"

definition assertProjectAccess :: "access \<Rightarrow> responder \<Rightarrow> unit res" where
  "assertProjectAccess A actor =
     (if \<not> ac_project A then Inl not_visible else if rs_admin actor then Inr ()
      else if \<not> ac_member A then Inl not_visible else Inr ())"

definition responderEligible :: "interaction \<Rightarrow> responder \<Rightarrow> bool" where
  "responderEligible it actor =
     (rs_admin actor \<or> rs_internal actor \<or> jget (it_scope it) ''mode'' \<noteq> JStr ''INITIATING_USER''
      \<or> rs_user actor = it_initiator it)"

section \<open>What goes out\<close>

definition stamped :: "jsval \<Rightarrow> string \<Rightarrow> jsval" where
  "stamped stamps k = or_null (jget stamps k)"

definition safeDecision :: "string \<Rightarrow> decision_row \<Rightarrow> bool \<Rightarrow> jsval" where
  "safeDecision requestId dn includePayload =
     JObj ([(''decisionId'', JStr (dn_id dn)), (''requestId'', JStr requestId), (''responderUserId'', or_null (dn_user dn)),
        (''responderActor'', dn_actor dn), (''decisionType'', JStr (dn_type dn)), (''decisionValue'', JStr (dn_value dn)),
        (''payloadDigest'', or_null (JStr (dn_digest dn))), (''deliveryState'', JStr (dn_delivery dn)),
        (''applicationStatus'', JStr (dn_application dn)), (''applicationReason'', or_null (dn_reason dn)),
        (''applicationResult'', jor (dn_result dn) (JObj [])), (''createdAt'', jget (dn_stamps dn) ''created_at''),
        (''deliveredAt'', stamped (dn_stamps dn) ''delivered_at''),
        (''acknowledgedAt'', stamped (dn_stamps dn) ''acknowledged_at''), (''appliedAt'', stamped (dn_stamps dn) ''applied_at'')]
      @ (if includePayload then [(''safePayload'', jor (dn_payload dn) (JObj []))] else []))"

definition string_or_null :: "string option \<Rightarrow> jsval" where
  "string_or_null s = (case s of Some t \<Rightarrow> JStr t | None \<Rightarrow> JNull)"

text \<open>The names of project and agent come from joined tables: a row returned by an insertion has none.\<close>

definition safeInteraction :: "jsval \<Rightarrow> run_rows \<Rightarrow> interaction \<Rightarrow> bool \<Rightarrow> jsval" where
  "safeInteraction names rows it includePayload =
     (let stamp = stamped (it_stamps it)
      in JObj
       [(''interactionId'', JStr (it_id it)), (''rootExecutionId'', column rows ''execution_scope_id''),
        (''runId'', column rows ''agent_run_id''), (''sessionId'', column rows ''session_id''),
        (''projectId'', column rows ''project_id''), (''projectCode'', or_null (jget names ''project_code'')),
        (''projectName'', or_null (jget names ''project_name'')), (''agentCode'', or_null (jget names ''agent_code'')),
        (''interactionType'', JStr (it_type it)), (''operationKind'', JStr (it_kind it)),
        (''operationId'', or_null (it_operation it)), (''capabilityEffectId'', string_or_null (it_effect it)),
        (''operationKey'', JStr (it_key it)), (''inputDigest'', JStr (it_digest it)), (''prompt'', JStr (it_prompt it)),
        (''validationSchema'', jor (it_schema it) (JObj [])), (''policyRevision'', JStr (it_policy it)),
        (''eligibleResponderScope'', jor (it_scope it) (JObj [])), (''authorityEpoch'', jint (it_epoch it)),
        (''expiresAt'', JStr (iso_of (it_expires it))), (''status'', JStr (it_status it)),
        (''statusReason'', or_null (it_reason it)), (''version'', jnat (it_version it)),
        (''createdAt'', jget (it_stamps it) ''created_at''), (''savedAt'', stamp ''saved_at''),
        (''deliveredAt'', stamp ''delivered_at''), (''appliedAt'', stamp ''applied_at''), (''blockedAt'', stamp ''blocked_at''),
        (''expiredAt'', stamp ''expired_at''), (''canceledAt'', stamp ''canceled_at''),
        (''decision'', case it_decision it of Some dn \<Rightarrow> safeDecision (it_id it) dn includePayload | None \<Rightarrow> JNull)])"

definition joined_interaction :: "run_rows \<Rightarrow> interaction \<Rightarrow> bool \<Rightarrow> jsval" where
  "joined_interaction rows = safeInteraction (run_columns rows) rows"

section \<open>Updates\<close>

text \<open>The database compares identifiers without regard to case; it holds them in lower case.\<close>

definition load_interaction :: "string \<Rightarrow> board \<Rightarrow> interaction option" where
  "load_interaction i b = find (\<lambda>it. it_id it = to_lower i) (bd_interactions b)"

definition update_interaction :: "string \<Rightarrow> (interaction \<Rightarrow> interaction) \<Rightarrow> board \<Rightarrow> board" where
  "update_interaction i f b =
     b\<lparr>bd_interactions := map (\<lambda>it. if it_id it = i then f it else it) (bd_interactions b)\<rparr>"

definition update_decision :: "(decision_row \<Rightarrow> decision_row) \<Rightarrow> interaction \<Rightarrow> interaction" where
  "update_decision f it = it\<lparr>it_decision := map_option f (it_decision it)\<rparr>"

definition touch :: "interaction \<Rightarrow> interaction" where
  "touch it = it\<lparr>it_version := Suc (it_version it)\<rparr>"

definition stamp_at :: "bureau \<Rightarrow> string \<Rightarrow> jsval \<Rightarrow> jsval" where
  "stamp_at B k stamps = obj_with stamps [(k, JStr (sv_now (bu_services B)))]"

definition stamp_once :: "bureau \<Rightarrow> string \<Rightarrow> jsval \<Rightarrow> jsval" where
  "stamp_once B k stamps = (if is_nullish (jget stamps k) then stamp_at B k stamps else stamps)"

definition interaction_event :: "bureau \<Rightarrow> string \<Rightarrow> string \<Rightarrow> jsval \<Rightarrow> string \<Rightarrow> agent_event" where
  "interaction_event B eventType sourceCursor payload availability =
     (workflow_event (bu_services B) eventType JNull sourceCursor payload)
       \<lparr>ev_kind := ''SKYCOMMAND_AGENT_INTERACTION'', ev_availability := availability\<rparr>"

definition update_desk :: "(desk \<Rightarrow> desk) \<Rightarrow> board \<Rightarrow> board" where
  "update_desk f b = b\<lparr>bd_desk := f (bd_desk b)\<rparr>"

definition note_event :: "agent_event \<Rightarrow> board \<Rightarrow> board" where
  "note_event e = update_desk (record_event e)"

definition markEffectBlocked :: "string option \<Rightarrow> jsval \<Rightarrow> board \<Rightarrow> board" where
  "markEffectBlocked effect why =
     (case effect of
        None \<Rightarrow> id
      | Some i \<Rightarrow> update_desk (update_effect i (\<lambda>e.
          if ce_dispatch e \<notin> set [''COMPLETED'', ''FAILED'']
          then e\<lparr>ce_authority := ''DENY'', ce_dispatch := ''DENIED'', ce_certainty := ''REJECTED'', ce_denial := why,
                 ce_reconciliation := obj_with (jnull_or (ce_reconciliation e) (JObj [])) [(''interactionBlockedReason'', why)]\<rparr>
          else e)))"

text \<open>Closing a request: its status, reason and time stamp.\<close>

definition close_request :: "bureau \<Rightarrow> string \<Rightarrow> string \<Rightarrow> jsval \<Rightarrow> interaction \<Rightarrow> interaction" where
  "close_request B status k why it =
     touch (it\<lparr>it_status := status, it_reason := why, it_stamps := stamp_at B k (it_stamps it)\<rparr>)"

definition settle_decision :: "bureau \<Rightarrow> string \<Rightarrow> jsval \<Rightarrow> decision_row \<Rightarrow> decision_row" where
  "settle_decision B status why dn =
     dn\<lparr>dn_application := status, dn_reason := why, dn_stamps := stamp_at B ''applied_at'' (dn_stamps dn)\<rparr>"

definition expired_request :: "bureau \<Rightarrow> jsval \<Rightarrow> interaction \<Rightarrow> interaction" where
  "expired_request B why it =
     update_decision (\<lambda>dn. dn\<lparr>dn_application := (if dn_application dn = ''PENDING'' then ''EXPIRED'' else dn_application dn),
                          dn_reason := jnull_or (dn_reason dn) why\<rparr>)
       (touch (it\<lparr>it_status := ''EXPIRED'', it_reason := why, it_stamps := stamp_once B ''expired_at'' (it_stamps it)\<rparr>))"

text \<open>\<open>expireLockedInteraction\<close> with its default reason: the row that the caller goes on with, and the new state.\<close>

definition expireLockedInteraction :: "bureau \<Rightarrow> interaction \<Rightarrow> board \<Rightarrow> interaction \<times> board" where
  "expireLockedInteraction B it b =
     (let why = JStr ''INTERACTION_EXPIRED''
      in if \<not> open_request it then (it, b)
         else (it\<lparr>it_status := ''EXPIRED'', it_reason := why\<rparr>,
           note_event (interaction_event B ''AGENT_INTERACTION_EXPIRED'' (''interaction:'' @ it_id it @ '':expired'')
             (JObj [(''interactionId'', JStr (it_id it)), (''reason'', why)]) ''ERROR'')
             (markEffectBlocked (it_effect it) why (update_interaction (it_id it) (expired_request B why) b))))"

definition past_expiry :: "bureau \<Rightarrow> interaction \<Rightarrow> bool" where
  "past_expiry B it = (it_expires it \<le> bu_now B)"

text \<open>Whether the authority that an interaction was created under is no longer current.\<close>

definition authority_stale :: "run_rows \<Rightarrow> interaction \<Rightarrow> bool" where
  "authority_stale rows it =
     (run_status rows \<in> set TERMINAL_STATUSES \<or> scope_status rows \<noteq> ''ACTIVE'' \<or> run_epochs rows \<noteq> it_epoch it)"

section \<open>Creating a request\<close>

definition interactionValidationSchema :: "jsval \<Rightarrow> jsval" where
  "interactionValidationSchema interactionType =
     (if interactionType = JStr ''USER_INPUT''
      then JObj [(''type'', JStr ''object''), (''additionalProperties'', JBool False), (''required'', JArr [JStr ''answer'']),
        (''properties'', JObj [(''answer'', JObj [(''type'', JStr ''string''), (''minLength'', jnat 1), (''maxLength'', jnat 2000)])])]
      else JObj [])"

text \<open>\<open>Number(v)\<close> as the database takes it: an integer.\<close>

definition database_int :: "jsval \<Rightarrow> int res" where
  "database_int v =
     (case to_num v of
        Fin r \<Rightarrow> if of_int \<lfloor>r\<rfloor> = r then Inr \<lfloor>r\<rfloor> else Inl (js_error ''invalid input syntax for type integer'')
      | _ \<Rightarrow> Inl (js_error ''invalid input syntax for type integer''))"

definition canonical_digest :: "string \<Rightarrow> bool" where
  "canonical_digest s = (length s = 64 \<and> list_all (\<lambda>c. c \<in> set ''0123456789ABCDEF'') s)"

definition lifetime :: "jsval \<Rightarrow> jsval \<Rightarrow> int" where
  "lifetime interactionType ttl =
     (case ttl of
        JNum (Fin r) \<Rightarrow> if of_int \<lfloor>r\<rfloor> = r \<and> 0 < r then \<lfloor>r\<rfloor>
                        else if interactionType = JStr ''APPROVAL'' then DEFAULT_APPROVAL_TTL_MS else DEFAULT_INPUT_TTL_MS
      | _ \<Rightarrow> if interactionType = JStr ''APPROVAL'' then DEFAULT_APPROVAL_TTL_MS else DEFAULT_INPUT_TTL_MS)"

text \<open>The argument after the checks that precede the transaction.\<close>

record interaction_request =
  iq_run :: string
  iq_type :: string
  iq_kind :: string
  iq_operation :: jsval
  iq_effect :: "string option"
  iq_key :: string
  iq_digest :: string
  iq_prompt :: string
  iq_schema :: jsval
  iq_policy :: string
  iq_scope :: jsval
  iq_epoch :: jsval
  iq_lifetime :: int

definition checked_request :: "jsval \<Rightarrow> interaction_request res" where
  "checked_request arg =
     (let arg_or = (\<lambda>k d. default_to (jget arg k) d);
          type = jget arg ''interactionType''; operationId = arg_or ''operationId'' JNull
      in rbind (assertUuid (jget arg ''runId'') ''runId'') (\<lambda>runId.
         if type \<notin> {JStr ''APPROVAL'', JStr ''USER_INPUT''}
         then Inl (invalid ''AGENT_INTERACTION_TYPE_INVALID'' ''interactionType is not supported.'')
         else if plain_text (jget arg ''safePrompt'') = []
         then Inl (invalid ''AGENT_INTERACTION_PROMPT_INVALID'' ''A safe interaction prompt is required.'')
         else rbind (cloneJson (jor (arg_or ''validationSchema'' JNull) (interactionValidationSchema type))
                ''validationSchema'' 30000) (\<lambda>schema.
           if \<not> canonical_digest (plain_text (jget arg ''inputDigest''))
           then Inl (invalid ''AGENT_INTERACTION_DIGEST_INVALID'' ''inputDigest must be a canonical SHA-256 digest.'')
           else Inr \<lparr>iq_run = runId, iq_type = to_str type, iq_kind = to_str (text_or (jget arg ''operationKind'') type),
             iq_operation = operationId,
             iq_effect = (case jget arg ''capabilityEffectId'' of JStr s \<Rightarrow> if s = [] then None else Some s | _ \<Rightarrow> None),
             iq_key = to_str (text_or (jget arg ''operationKey'')
               (jor operationId (JStr (runId @ '':'' @ to_str type)))),
             iq_digest = plain_text (jget arg ''inputDigest''), iq_prompt = plain_text (jget arg ''safePrompt''),
             iq_schema = schema,
             iq_policy = to_str (text_or (arg_or ''policyRevision'' (JStr ''agent-policy.v1'')) (JStr ''agent-policy.v1'')),
             iq_scope = jor (arg_or ''eligibleResponderScope''
               (JObj [(''mode'', JStr ''INITIATING_USER_OR_PROJECT_READER'')])) (JObj []),
             iq_epoch = arg_or ''authorityEpoch'' (jnat 0), iq_lifetime = lifetime type (jget arg ''ttlMs'')\<rparr>)))"

definition revoked_before :: "run_rows \<Rightarrow> bool" where
  "revoked_before rows =
     (scope_status rows \<noteq> ''ACTIVE'' \<or> run_status rows \<in> set TERMINAL_STATUSES \<or> run_status rows \<in> set cancel_statuses)"

definition new_interaction :: "bureau \<Rightarrow> interaction_request \<Rightarrow> int \<Rightarrow> run_rows \<Rightarrow> interaction" where
  "new_interaction B Q epoch rows =
     (let revoked = revoked_before rows
      in \<lparr>it_id = sv_new_id (bu_services B) ''interaction'', it_type = iq_type Q, it_kind = iq_kind Q,
          it_operation = iq_operation Q, it_effect = iq_effect Q, it_key = iq_key Q, it_digest = iq_digest Q,
          it_prompt = iq_prompt Q, it_schema = iq_schema Q, it_policy = iq_policy Q, it_scope = iq_scope Q,
          it_initiator = column rows ''initiating_user_id'', it_epoch = max epoch (run_epochs rows),
          it_expires = bu_now B + iq_lifetime Q, it_status = (if revoked then ''CANCELED'' else ''PENDING''),
          it_reason = (if revoked then JStr ''RUN_OR_ROOT_REVOKED_BEFORE_INTERACTION'' else JNull), it_link = None,
          it_version = 0, it_stamps = JObj [(''created_at'', JStr (sv_now (bu_services B)))], it_decision = None\<rparr>)"

definition await_interaction :: "string \<Rightarrow> run_rows \<Rightarrow> run_rows" where
  "await_interaction type rows =
     (if \<not> revoked_before rows \<and> run_status rows = ''RUNNING''
      then rows\<lparr>run_status := (if type = ''APPROVAL'' then ''WAITING_FOR_APPROVAL'' else ''WAITING_FOR_USER_INPUT'')\<rparr>
      else rows)"

definition created_reply :: "bool \<Rightarrow> jsval \<Rightarrow> jsval" where
  "created_reply created view = JObj [(''created'', JBool created), (''interaction'', view)]"

definition create_body :: "bureau \<Rightarrow> interaction_request \<Rightarrow> jsval task" where
  "create_body B Q b =
     (let rows = board_rows b
      in case find (\<lambda>it. it_key it = iq_key Q \<and> it_type it = iq_type Q) (bd_interactions b) of
        Some it \<Rightarrow> Inr (created_reply False (joined_interaction rows it False), b)
      | None \<Rightarrow> rbind (database_int (iq_epoch Q)) (\<lambda>epoch.
          (let it = new_interaction B Q epoch rows
           in Inr (created_reply True (safeInteraction (JObj []) rows it False),
                note_event (interaction_event B ''AGENT_INTERACTION_REQUESTED'' (''interaction:'' @ it_id it @ '':requested'')
                  (JObj [(''interactionId'', JStr (it_id it)), (''interactionType'', JStr (it_type it)),
                    (''operationKind'', JStr (it_kind it)), (''operationId'', it_operation it),
                    (''capabilityEffectId'', string_or_null (it_effect it)), (''inputDigest'', JStr (it_digest it)),
                    (''authorityEpoch'', jint (it_epoch it)), (''expiresAt'', JStr (iso_of (it_expires it))),
                    (''status'', JStr (it_status it))])
                  (if revoked_before rows then ''ERROR'' else ''REPORTED''))
                  (update_desk (update_rows (await_interaction (it_type it)))
                    (b\<lparr>bd_interactions := bd_interactions b @ [it]\<rparr>))))))"

definition createAgentInteraction :: "bureau \<Rightarrow> jsval \<Rightarrow> board option \<Rightarrow> jsval res \<times> board option" where
  "createAgentInteraction B arg board =
     (case checked_request arg of
        Inl err \<Rightarrow> (Inl err, board)
      | Inr Q \<Rightarrow>
          (case board of
             None \<Rightarrow> (Inl (interaction_error 404 ''AGENT_RUN_NOT_FOUND'' ''Agent Run not found while creating an interaction.'' (JObj [])), None)
           | Some b \<Rightarrow> (case transact (create_body B Q) b of (r, b') \<Rightarrow> (r, Some b'))))"

section \<open>Loading, delivering, expiring and canceling\<close>

definition load_body :: "bureau \<Rightarrow> string \<Rightarrow> jsval task" where
  "load_body B i b =
     (case load_interaction i b of
        None \<Rightarrow> Inr (JNull, b)
      | Some it \<Rightarrow>
          (let (row, b') = (if open_request it \<and> past_expiry B it then expireLockedInteraction B it b else (it, b))
           in Inr (joined_interaction (board_rows b) row True, b')))"

definition loadAgentInteractionActivity :: "bureau \<Rightarrow> jsval \<Rightarrow> board \<Rightarrow> jsval res \<times> board" where
  "loadAgentInteractionActivity B interactionId b =
     (case assertUuid interactionId ''interactionId'' of Inl err \<Rightarrow> (Inl err, b) | Inr i \<Rightarrow> transact (load_body B i) b)"

definition current_decision :: "jsval \<Rightarrow> interaction \<Rightarrow> decision_row option" where
  "current_decision decisionId it =
     (case it_decision it of Some dn \<Rightarrow> if decisionId = JStr (dn_id dn) then Some dn else None | None \<Rightarrow> None)"

definition delivered_request :: "bureau \<Rightarrow> interaction \<Rightarrow> interaction" where
  "delivered_request B it =
     (let seen = update_decision (\<lambda>dn. dn\<lparr>dn_delivery := ''ACKNOWLEDGED'',
            dn_stamps := stamp_once B ''acknowledged_at'' (stamp_once B ''delivered_at'' (dn_stamps dn))\<rparr>) it
      in if open_request it
         then touch (seen\<lparr>it_status := ''DELIVERED'', it_stamps := stamp_once B ''delivered_at'' (it_stamps seen)\<rparr>)
         else seen)"

definition acknowledge_body :: "bureau \<Rightarrow> string \<Rightarrow> jsval \<Rightarrow> jsval task" where
  "acknowledge_body B i decisionId b =
     (case load_interaction i b of
        None \<Rightarrow> Inr (JObj [(''acknowledged'', JBool False), (''reason'', JStr ''DECISION_NOT_CURRENT'')], b)
      | Some it \<Rightarrow>
          (case current_decision decisionId it of
             None \<Rightarrow> Inr (JObj [(''acknowledged'', JBool False), (''reason'', JStr ''DECISION_NOT_CURRENT'')], b)
           | Some dn \<Rightarrow>
               Inr (JObj [(''acknowledged'', JBool True), (''interactionId'', JStr i), (''decisionId'', JStr (dn_id dn))],
                 if dn_delivery dn \<noteq> ''ACKNOWLEDGED''
                 then note_event (interaction_event B ''AGENT_INTERACTION_DECISION_DELIVERED''
                        (''interaction:'' @ i @ '':decision:'' @ dn_id dn @ '':delivered'')
                        (JObj [(''interactionId'', JStr i), (''decisionId'', JStr (dn_id dn))]) ''REPORTED'')
                        (update_interaction (it_id it) (delivered_request B) b)
                 else b)))"

definition acknowledgeAgentInteractionDelivery :: "bureau \<Rightarrow> jsval \<Rightarrow> jsval \<Rightarrow> board \<Rightarrow> jsval res \<times> board" where
  "acknowledgeAgentInteractionDelivery B interactionId decisionId b =
     (case assertUuid interactionId ''interactionId'' of Inl err \<Rightarrow> (Inl err, b)
      | Inr i \<Rightarrow> transact (acknowledge_body B i decisionId) b)"

definition expire_body :: "bureau \<Rightarrow> string \<Rightarrow> jsval task" where
  "expire_body B i b =
     (case load_interaction i b of
        None \<Rightarrow> Inr (JObj [(''expired'', JBool False), (''reason'', JStr ''NOT_FOUND'')], b)
      | Some it \<Rightarrow> Inr (JObj [(''expired'', JBool True), (''interactionId'', JStr i)], snd (expireLockedInteraction B it b)))"

definition expireInteractionActivity :: "bureau \<Rightarrow> jsval \<Rightarrow> board \<Rightarrow> jsval res \<times> board" where
  "expireInteractionActivity B interactionId b =
     (case assertUuid interactionId ''interactionId'' of Inl err \<Rightarrow> (Inl err, b) | Inr i \<Rightarrow> transact (expire_body B i) b)"

text \<open>The decision is found by the link in the row of its request.\<close>

definition canceled_request :: "bureau \<Rightarrow> jsval \<Rightarrow> interaction \<Rightarrow> interaction" where
  "canceled_request B why it =
     (let cancel = (\<lambda>dn. if it_link it = Some (dn_id dn) \<and> dn_application dn = ''PENDING''
            then dn\<lparr>dn_application := ''CANCELED'', dn_reason := why\<rparr> else dn)
      in update_decision cancel (close_request B ''CANCELED'' ''canceled_at'' why it))"

definition cancel_one :: "bureau \<Rightarrow> jsval \<Rightarrow> board \<Rightarrow> interaction \<Rightarrow> board" where
  "cancel_one B why b it =
     note_event (interaction_event B ''AGENT_INTERACTION_CANCELED'' (''interaction:'' @ it_id it @ '':canceled'')
       (JObj [(''interactionId'', JStr (it_id it)), (''reason'', why)]) ''ERROR'')
       (markEffectBlocked (it_effect it) why (update_interaction (it_id it) (canceled_request B why) b))"

definition cancel_body :: "bureau \<Rightarrow> string \<Rightarrow> jsval \<Rightarrow> jsval task" where
  "cancel_body B runId why b =
     (let rows = filter open_request (bd_interactions b)
      in Inr (JObj [(''canceled'', jnat (length rows)), (''runId'', JStr runId)], foldl (cancel_one B why) b rows))"

definition cancelAgentInteractionsForRun :: "bureau \<Rightarrow> jsval \<Rightarrow> jsval \<Rightarrow> board \<Rightarrow> jsval res \<times> board" where
  "cancelAgentInteractionsForRun B runId why b =
     (case assertUuid runId ''runId'' of Inl err \<Rightarrow> (Inl err, b)
      | Inr i \<Rightarrow> transact (cancel_body B i (default_to why (JStr ''RUN_OR_ROOT_STOP_REQUESTED''))) b)"

section \<open>Applying a decision\<close>

text \<open>The row as the database returns it, which the branch of a missing decision hands to the caller.\<close>

definition raw_decision :: "string \<Rightarrow> decision_row \<Rightarrow> jsval" where
  "raw_decision requestId dn = JObj
     [(''agent_interaction_decision_id'', JStr (dn_id dn)), (''agent_interaction_request_id'', JStr requestId),
      (''responder_user_id'', dn_user dn), (''responder_actor_kind'', jget (dn_actor dn) ''kind''),
      (''responder_actor_id'', jget (dn_actor dn) ''id''), (''responder_actor_snapshot'', dn_actor dn),
      (''decision_type'', JStr (dn_type dn)), (''decision_value'', JStr (dn_value dn)), (''safe_payload'', dn_payload dn),
      (''decision_digest'', JStr (dn_digest dn)), (''delivery_state'', JStr (dn_delivery dn)),
      (''application_status'', JStr (dn_application dn)), (''application_reason'', dn_reason dn),
      (''application_result'', dn_result dn), (''created_at'', jget (dn_stamps dn) ''created_at''),
      (''delivered_at'', stamped (dn_stamps dn) ''delivered_at''), (''acknowledged_at'', stamped (dn_stamps dn) ''acknowledged_at''),
      (''applied_at'', stamped (dn_stamps dn) ''applied_at'')]"

definition raw_row :: "run_rows \<Rightarrow> interaction \<Rightarrow> jsval" where
  "raw_row rows it =
     (let run = (\<lambda>k. (k, column rows k)); stamp = (\<lambda>k. (k, stamped (it_stamps it) k))
      in JObj
       ([(''agent_interaction_request_id'', JStr (it_id it)), run ''execution_scope_id'', run ''agent_run_id'', run ''session_id'',
         run ''project_id'', (''initiating_user_id'', it_initiator it), (''interaction_type'', JStr (it_type it)),
         (''operation_kind'', JStr (it_kind it)), (''operation_id'', it_operation it),
         (''capability_effect_id'', string_or_null (it_effect it)), (''operation_key'', JStr (it_key it)),
         (''input_digest'', JStr (it_digest it)), (''safe_prompt'', JStr (it_prompt it)), (''validation_schema'', it_schema it),
         (''policy_revision'', JStr (it_policy it)), (''eligible_responder_scope'', it_scope it),
         (''authority_epoch'', jint (it_epoch it)), (''expires_at'', JStr (iso_of (it_expires it))),
         (''status'', JStr (it_status it)), (''status_reason'', it_reason it), (''decision_id'', string_or_null (it_link it)),
         (''version'', jnat (it_version it)), (''created_at'', jget (it_stamps it) ''created_at'')]
        @ map stamp [''saved_at'', ''delivered_at'', ''applied_at'', ''blocked_at'', ''expired_at'', ''canceled_at'']
        @ [(''run_status'', JStr (run_status rows)), (''run_revocation_epoch'', jint (run_epoch rows)),
           (''scope_status'', JStr (scope_status rows)), (''scope_revocation_epoch'', jint (scope_epoch rows)),
           run ''project_code'', run ''project_name'', run ''agent_code'',
           (''decision'', case it_decision it of Some dn \<Rightarrow> raw_decision (it_id it) dn | None \<Rightarrow> JNull)]))"

record application =
  al_interaction :: jsval
  al_status :: string
  al_reason :: jsval
  al_input :: jsval
  al_request :: jsval
  al_effect :: jsval
  al_replayed :: jsval

datatype prepared_application =
    Missing jsval
  | Replay jsval string jsval
  | Blocked jsval string string
  | Rejected jsval
  | Ready interaction decision_row

definition settled_applications :: "string list" where
  "settled_applications = [''APPLIED'', ''BLOCKED'', ''REJECTED'', ''EXPIRED'', ''CANCELED'']"

text \<open>Closing the decision and its request together.\<close>

definition conclude :: "bureau \<Rightarrow> string \<Rightarrow> string \<Rightarrow> jsval \<Rightarrow> interaction \<Rightarrow> interaction" where
  "conclude B status k why it = update_decision (settle_decision B status why) (close_request B status k why it)"

definition block_application :: "bureau \<Rightarrow> string \<Rightarrow> decision_row \<Rightarrow> jsval \<Rightarrow> string \<Rightarrow> interaction \<Rightarrow> board \<Rightarrow> board" where
  "block_application B i dn why tag it b =
     note_event (interaction_event B ''AGENT_INTERACTION_DECISION_BLOCKED'' (''interaction:'' @ i @ '':decision:'' @ dn_id dn @ tag)
       (JObj [(''interactionId'', JStr i), (''decisionId'', JStr (dn_id dn)), (''reason'', why)]) ''ERROR'')
       (markEffectBlocked (it_effect it) why (update_interaction (it_id it) (conclude B ''BLOCKED'' ''blocked_at'' why) b))"

definition reject_application :: "bureau \<Rightarrow> string \<Rightarrow> decision_row \<Rightarrow> interaction \<Rightarrow> board \<Rightarrow> board" where
  "reject_application B i dn it b =
     note_event (interaction_event B ''AGENT_INTERACTION_DECISION_APPLIED''
       (''interaction:'' @ i @ '':decision:'' @ dn_id dn @ '':rejected'')
       (JObj [(''interactionId'', JStr i), (''decisionId'', JStr (dn_id dn)), (''applicationStatus'', JStr ''REJECTED''),
         (''reason'', JStr ''RESPONDER_REJECTED'')]) ''ERROR'')
       (markEffectBlocked (it_effect it) (JStr ''INTERACTION_REJECTED'')
         (update_interaction (it_id it) (conclude B ''REJECTED'' ''applied_at'' (JStr ''RESPONDER_REJECTED'')) b))"

definition prepare_application :: "bureau \<Rightarrow> string \<Rightarrow> jsval \<Rightarrow> prepared_application task" where
  "prepare_application B i decisionId b =
     (let rows = board_rows b
      in case load_interaction i b of
        None \<Rightarrow> Inr (Missing JNull, b)
      | Some it \<Rightarrow>
          (case current_decision decisionId it of
             None \<Rightarrow> Inr (Missing (raw_row rows it), b)
           | Some dn \<Rightarrow>
               if dn_application dn \<in> set settled_applications
               then Inr (Replay (joined_interaction rows it True) (dn_application dn) (jor (dn_result dn) (JObj [])), b)
               else if \<not> open_request it \<or> past_expiry B it
               then Inr (Blocked (joined_interaction rows (it\<lparr>it_status := ''EXPIRED''\<rparr>) True) ''EXPIRED'' ''INTERACTION_EXPIRED'',
                      snd (expireLockedInteraction B it b))
               else if authority_stale rows it
               then Inr (Blocked (joined_interaction rows (it\<lparr>it_status := ''BLOCKED''\<rparr>) False) ''BLOCKED'' ''INTERACTION_AUTHORITY_STALE'',
                      block_application B i dn (JStr ''INTERACTION_AUTHORITY_STALE'') '':authority-stale'' it b)
               else if dn_type dn = ''REJECT''
               then Inr (Rejected (joined_interaction rows (it\<lparr>it_status := ''REJECTED''\<rparr>) True), reject_application B i dn it b)
               else Inr (Ready it dn, b)))"

text \<open>The reply when the decision was not ready to be applied.\<close>

definition early_reply :: "prepared_application \<Rightarrow> application option" where
  "early_reply p =
     (case p of
        Ready it dn \<Rightarrow> None
      | Missing row \<Rightarrow> Some \<lparr>al_interaction = or_null row, al_status = ''BLOCKED'', al_reason = JNull, al_input = JNull,
          al_request = JNull, al_effect = JUndef, al_replayed = JBool False\<rparr>
      | Replay view status outcome \<Rightarrow> Some \<lparr>al_interaction = view, al_status = status, al_reason = JNull,
          al_input = (if status = ''APPLIED'' then or_null (jget outcome ''input'') else JNull),
          al_request = JNull, al_effect = JUndef, al_replayed = JBool True\<rparr>
      | Blocked view status why \<Rightarrow> Some \<lparr>al_interaction = view, al_status = status, al_reason = JStr why, al_input = JNull,
          al_request = JNull, al_effect = JUndef, al_replayed = JBool False\<rparr>
      | Rejected view \<Rightarrow> Some \<lparr>al_interaction = view, al_status = ''REJECTED'', al_reason = JStr ''RESPONDER_REJECTED'',
          al_input = JNull, al_request = JNull, al_effect = JUndef, al_replayed = JBool False\<rparr>)"

text \<open>The approval of the effect between the two transactions: the request, the effect, and why it is blocked.\<close>

definition approval_verdict :: "approval res \<Rightarrow> jsval \<times> jsval \<times> jsval" where
  "approval_verdict r =
     (case r of
        Inl err \<Rightarrow> (JNull, JNull, jor (jget err ''code'') (JStr ''INTERACTION_APPROVAL_REVALIDATION_FAILED''))
      | Inr a \<Rightarrow> (or_null (ap_request a), or_null (ap_effect a),
                  if ap_allowed a then JNull else jor (ap_reason a) (JStr ''CURRENT_AUTHORITY_REJECTED'')))"

definition approve_for :: "bureau \<Rightarrow> directory \<Rightarrow> interaction \<Rightarrow> board \<Rightarrow> (jsval \<times> jsval \<times> jsval) \<times> board" where
  "approve_for B D it b =
     (case (it_type it = ''APPROVAL'', it_effect it) of
        (True, Some effectId) \<Rightarrow>
          (case approveManagedCapabilityEffect B D effectId (bd_desk b) of
             (r, d) \<Rightarrow> (approval_verdict r, b\<lparr>bd_desk := d\<rparr>))
      | _ \<Rightarrow> ((JNull, JNull, JNull), b))"

definition plain_application :: "jsval \<Rightarrow> string \<Rightarrow> jsval \<Rightarrow> jsval \<Rightarrow> application" where
  "plain_application view status why replayed =
     \<lparr>al_interaction = view, al_status = status, al_reason = why, al_input = JNull, al_request = JNull,
      al_effect = JUndef, al_replayed = replayed\<rparr>"

definition application_result :: "interaction \<Rightarrow> decision_row \<Rightarrow> jsval" where
  "application_result it dn =
     (if it_type it = ''USER_INPUT'' then JObj [(''input'', jor (jget (jor (dn_payload dn) (JObj [])) ''input'') (JObj []))]
      else JObj [(''approved'', JBool True), (''effectId'', string_or_null (it_effect it))])"

definition applied_request :: "bureau \<Rightarrow> jsval \<Rightarrow> interaction \<Rightarrow> interaction" where
  "applied_request B outcome it =
     update_decision (\<lambda>dn. (settle_decision B ''APPLIED'' JNull dn)\<lparr>dn_result := outcome\<rparr>)
       (close_request B ''APPLIED'' ''applied_at'' JNull it)"

text \<open>The second transaction, with the request and the decision that the first one had found ready.\<close>

definition commit_application ::
  "bureau \<Rightarrow> string \<Rightarrow> jsval \<Rightarrow> interaction \<Rightarrow> decision_row \<Rightarrow> jsval \<times> jsval \<times> jsval \<Rightarrow> application task" where
  "commit_application B i decisionId ready readyDecision verdict b =
     (let rows = board_rows b; (request, effect, blocked) = verdict
      in case load_interaction i b of
        None \<Rightarrow> Inr (plain_application JNull ''BLOCKED'' (JStr ''DECISION_NOT_CURRENT'') JUndef, b)
      | Some it \<Rightarrow>
          (case current_decision decisionId it of
             None \<Rightarrow> Inr (plain_application JNull ''BLOCKED'' (JStr ''DECISION_NOT_CURRENT'') JUndef, b)
           | Some dn \<Rightarrow>
               if dn_application dn \<noteq> ''PENDING''
               then Inr (plain_application (joined_interaction rows it True) (dn_application dn) (or_null (dn_reason dn)) (JBool True), b)
               else (let why = (if authority_stale rows it then jor blocked (JStr ''INTERACTION_AUTHORITY_STALE'') else blocked);
                         outcome = application_result ready readyDecision
                     in if truthy why
                        then Inr (plain_application (joined_interaction rows (it\<lparr>it_status := ''BLOCKED''\<rparr>) False) ''BLOCKED'' why JUndef,
                               block_application B i dn why '':blocked'' it b)
                        else Inr (\<lparr>al_interaction = joined_interaction rows (it\<lparr>it_status := ''APPLIED''\<rparr>) False, al_status = ''APPLIED'',
                               al_reason = JNull, al_input = or_null (jget outcome ''input''), al_request = request,
                               al_effect = effect, al_replayed = JBool False\<rparr>,
                             note_event (interaction_event B ''AGENT_INTERACTION_DECISION_APPLIED''
                               (''interaction:'' @ i @ '':decision:'' @ dn_id dn @ '':applied'')
                               (JObj [(''interactionId'', JStr i), (''decisionId'', JStr (dn_id dn)),
                                 (''applicationStatus'', JStr ''APPLIED''), (''capabilityEffectId'', string_or_null (it_effect ready)),
                                 (''inputDigest'', if it_type ready = ''USER_INPUT''
                                    then JStr (sha256Digest (sv_sha (bu_services B))
                                      (jor (jget (jor (dn_payload readyDecision) (JObj [])) ''input'') (JObj [])))
                                    else JNull)]) ''REPORTED'')
                               (update_interaction (it_id it) (applied_request B outcome) b)))))"

definition applyAgentInteractionDecision ::
  "bureau \<Rightarrow> directory \<Rightarrow> jsval \<Rightarrow> jsval \<Rightarrow> board \<Rightarrow> application res \<times> board" where
  "applyAgentInteractionDecision B D interactionId decisionId b =
     (case assertUuid interactionId ''interactionId'' of
        Inl err \<Rightarrow> (Inl err, b)
      | Inr i \<Rightarrow>
          (case transact (prepare_application B i decisionId) b of
             (Inl err, b1) \<Rightarrow> (Inl err, b1)
           | (Inr (Ready it dn), b1) \<Rightarrow>
               (case approve_for B D it b1 of
                  (verdict, b2) \<Rightarrow> transact (commit_application B i decisionId it dn verdict) b2)
           | (Inr p, b1) \<Rightarrow> (case early_reply p of Some r \<Rightarrow> (Inr r, b1) | None \<Rightarrow> (Inl JUndef, b1))))"

section \<open>Saving a decision\<close>

text \<open>The type of the decision and its payload, as the type of the interaction allows them.\<close>

definition checked_decision :: "bureau \<Rightarrow> interaction \<Rightarrow> string \<Rightarrow> jsval \<Rightarrow> (string \<times> jsval) res" where
  "checked_decision B it v body =
     (if it_type it = ''APPROVAL''
      then if v \<in> {''APPROVE'', ''REJECT''} then Inr (v, JObj [])
           else Inl (invalid ''AGENT_INTERACTION_DECISION_INVALID'' ''Approval decisions must be APPROVE or REJECT.'')
      else if v \<noteq> ''SUBMIT''
      then Inl (invalid ''AGENT_INTERACTION_DECISION_INVALID'' ''User-input decisions must use SUBMIT.'')
      else rbind (cloneJson (jget body ''input'') ''input'' 30000) (\<lambda>input.
           rbind (scanSafePayload input ''input'') (\<lambda>_.
             (case validateJsonSchema (sv_host (bu_services B)) (sv_frames (bu_services B))
                     \<lparr>opt_path = [], opt_schemaName = ''Agent interaction input'', opt_throwOnError = True\<rparr>
                     input (jor (it_schema it) (JObj [])) of
                Inl err \<Rightarrow> Inl (invalid ''AGENT_INTERACTION_INPUT_SCHEMA_INVALID'' (to_str (jget err ''message'')))
              | Inr _ \<Rightarrow> Inr (''SUBMIT_INPUT'', JObj [(''input'', input)])))))"

definition decision_digest :: "services \<Rightarrow> string \<Rightarrow> string \<Rightarrow> string \<Rightarrow> jsval \<Rightarrow> string" where
  "decision_digest S i type v payload =
     sha256Digest (sv_sha S) (JObj [(''requestId'', JStr i), (''decisionType'', JStr type), (''decisionValue'', JStr v),
       (''safePayload'', payload)])"

definition responder_kind :: "responder \<Rightarrow> string" where
  "responder_kind actor = (if rs_internal actor then ''INTERNAL_SERVICE'' else ''USER'')"

definition new_decision :: "bureau \<Rightarrow> responder \<Rightarrow> string \<Rightarrow> string \<Rightarrow> jsval \<Rightarrow> string \<Rightarrow> decision_row" where
  "new_decision B actor type v payload digest =
     \<lparr>dn_id = sv_new_id (bu_services B) ''decision'', dn_user = rs_user actor,
      dn_actor = JObj [(''kind'', JStr (responder_kind actor)),
        (''id'', jor (rs_user actor) (JStr ''internal:agent-interaction'')), (''displayNameSnapshot'', rs_name actor)],
      dn_type = type, dn_value = v, dn_payload = payload, dn_digest = digest, dn_delivery = ''PENDING'',
      dn_application = ''PENDING'', dn_reason = JNull, dn_result = JObj [],
      dn_stamps = JObj [(''created_at'', JStr (sv_now (bu_services B)))]\<rparr>"

definition saved_request :: "bureau \<Rightarrow> decision_row \<Rightarrow> interaction \<Rightarrow> interaction" where
  "saved_request B dn it =
     touch (it\<lparr>it_decision := Some dn, it_link := Some (dn_id dn), it_status := ''SAVED'',
               it_stamps := stamp_at B ''saved_at'' (it_stamps it)\<rparr>)"

datatype submitted =
    SubmitExpired
  | Submitted bool jsval jsval

definition conflict :: "string \<Rightarrow> string \<Rightarrow> (string \<times> jsval) list \<Rightarrow> jsval" where
  "conflict code message details = interaction_error 409 code message (JObj details)"

text \<open>The new decision with its entry in the outbox and its event.\<close>

definition save_decision :: "bureau \<Rightarrow> string \<Rightarrow> responder \<Rightarrow> decision_row \<Rightarrow> interaction \<Rightarrow> submitted task" where
  "save_decision B i actor dn it b =
     (let rows = board_rows b; it' = saved_request B dn it;
          b1 = update_interaction (it_id it) (saved_request B dn) b;
          entry = \<lparr>ob_interaction = it_id it, ob_decision = dn_id dn,
            ob_payload = JObj [(''runId'', column rows ''agent_run_id''), (''workflowId'', column rows ''stable_temporal_workflow_id''),
              (''interactionRequestId'', JStr (it_id it)), (''decisionId'', JStr (dn_id dn))]\<rparr>
      in Inr (Submitted False (joined_interaction rows it' False) (safeDecision (it_id it) dn False),
           note_event (interaction_event B ''AGENT_INTERACTION_DECISION_SAVED''
             (''interaction:'' @ i @ '':decision:'' @ dn_id dn @ '':saved'')
             (JObj [(''interactionId'', JStr i), (''decisionId'', JStr (dn_id dn)), (''decisionType'', JStr (dn_type dn)),
               (''decisionValue'', JStr (dn_value dn)), (''decisionDigest'', JStr (dn_digest dn)),
               (''responder'', JObj [(''kind'', JStr (responder_kind actor)),
                  (''id'', jor (rs_user actor) (JStr ''internal:agent-interaction''))])]) ''REPORTED'')
             (b1\<lparr>bd_outbox := bd_outbox b1 @ [entry]\<rparr>)))"

definition decide_body :: "bureau \<Rightarrow> string \<Rightarrow> responder \<Rightarrow> string \<Rightarrow> jsval \<Rightarrow> interaction \<Rightarrow> submitted task" where
  "decide_body B i actor v body it b =
     rbind (checked_decision B it v body) (\<lambda>(type, payload).
       (let rows = board_rows b; digest = decision_digest (bu_services B) i type v payload
        in case it_decision it of
          Some dn \<Rightarrow>
            if dn_digest dn = digest
            then Inr (Submitted True (joined_interaction rows it False) (safeDecision (it_id it) dn False), b)
            else Inl (conflict ''AGENT_INTERACTION_CONFLICT'' ''A different decision is already saved for this interaction.''
                   [(''interactionId'', JStr i), (''decisionId'', JStr (dn_id dn))])
        | None \<Rightarrow>
            if \<not> open_request it
            then Inl (conflict ''AGENT_INTERACTION_NOT_OPEN'' ''The interaction is no longer accepting a decision.''
                   [(''interactionId'', JStr i), (''status'', JStr (it_status it))])
            else if authority_stale rows it
            then Inl (conflict ''AGENT_INTERACTION_AUTHORITY_STALE'' ''The interaction authority is no longer current.''
                   [(''interactionId'', JStr i), (''status'', JStr (it_status it))])
            else save_decision B i actor (new_decision B actor type v payload digest) it b))"

definition submit_body :: "bureau \<Rightarrow> access \<Rightarrow> string \<Rightarrow> responder \<Rightarrow> string \<Rightarrow> jsval \<Rightarrow> submitted task" where
  "submit_body B A i actor v body b =
     (case load_interaction i b of
        None \<Rightarrow> Inl not_visible
      | Some it \<Rightarrow> rbind (assertProjectAccess A actor) (\<lambda>_.
          if \<not> responderEligible it actor
          then Inl (interaction_error 403 ''AGENT_INTERACTION_RESPONDER_NOT_ELIGIBLE''
                 ''The authenticated responder is outside the eligible interaction scope.'' (JObj []))
          else if open_request it \<and> past_expiry B it
          then Inr (SubmitExpired, snd (expireLockedInteraction B it b))
          else decide_body B i actor v body it b))"

definition submit_reply :: "string \<Rightarrow> submitted \<Rightarrow> jsval res" where
  "submit_reply i r =
     (case r of
        SubmitExpired \<Rightarrow> Inl (conflict ''AGENT_INTERACTION_EXPIRED'' ''The interaction expired before a decision was saved.''
          [(''interactionId'', JStr i)])
      | Submitted replayed view dn \<Rightarrow> Inr (JObj [(''saved'', JBool True), (''replayed'', JBool replayed), (''interaction'', view),
          (''decision'', dn)]))"

definition checked_body :: "jsval \<Rightarrow> unit res" where
  "checked_body body =
     (if \<not> is_obj body then Inl (invalid ''AGENT_INTERACTION_DECISION_INVALID'' ''Decision body must be an object.'')
      else case filter (\<lambda>k. k \<notin> {''decision'', ''input''}) (map fst (obj_kvs body)) of
        [] \<Rightarrow> Inr ()
      | k # _ \<Rightarrow> Inl (invalid ''AGENT_INTERACTION_INPUT_NOT_ALLOWED''
          (''body.'' @ k @ '' is not an accepted interaction decision field.'')))"

text \<open>The signal to the workflow that follows a saved decision is not awaited; the outbox holds it too.\<close>

definition submitAgentInteractionDecision ::
  "bureau \<Rightarrow> access \<Rightarrow> jsval \<Rightarrow> jsval \<Rightarrow> jsval \<Rightarrow> board \<Rightarrow> jsval res \<times> board" where
  "submitAgentInteractionDecision B A http interactionId body b =
     (case rbind (actorFromRequest http) (\<lambda>actor. rbind (assertUuid interactionId ''interactionId'') (\<lambda>i.
             rbind (checked_body body) (\<lambda>_. Inr (actor, i)))) of
        Inl err \<Rightarrow> (Inl err, b)
      | Inr (actor, i) \<Rightarrow>
          (case transact (submit_body B A i actor (to_upper (plain_text (jget body ''decision''))) body) b of
             (r, b') \<Rightarrow> (rbind r (submit_reply i), b')))"

section \<open>Reading interactions\<close>

text \<open>\<open>visible\<close> is what the membership query finds.  A request past its expiry is expired first, and then read again.\<close>

definition seen_interaction :: "bool \<Rightarrow> responder \<Rightarrow> string \<Rightarrow> board \<Rightarrow> interaction option" where
  "seen_interaction visible actor i b =
     (if rs_admin actor \<or> rs_user actor = JNull \<or> visible then load_interaction i b else None)"

lemma find_updated:
  "(\<And>x. key (f x) = key x) \<Longrightarrow>
     find (\<lambda>x. key x = k) (map (\<lambda>x. if key x = k' then f x else x) xs)
       = map_option (\<lambda>x. if k = k' then f x else x) (find (\<lambda>x. key x = k) xs)"
  by (induction xs) auto

lemma interactions_kept [simp]:
  "bd_interactions (update_desk f b) = bd_interactions b" "bd_interactions (note_event e b) = bd_interactions b"
  "bd_interactions (markEffectBlocked i why b) = bd_interactions b"
  by (simp_all add: note_event_def update_desk_def markEffectBlocked_def split: option.splits)

lemma load_updated:
  "(\<And>it. it_id (f it) = it_id it) \<Longrightarrow>
     load_interaction i (update_interaction k f b)
       = map_option (\<lambda>it. if to_lower i = k then f it else it) (load_interaction i b)"
  by (simp add: load_interaction_def update_interaction_def find_updated)

lemma load_kept [simp]:
  "load_interaction i (update_desk f b) = load_interaction i b" "load_interaction i (note_event e b) = load_interaction i b"
  "load_interaction i (markEffectBlocked k why b) = load_interaction i b"
  by (simp_all add: load_interaction_def)

lemma loaded_id: "load_interaction i b = Some it \<Longrightarrow> to_lower i = it_id it"
  by (auto simp: load_interaction_def find_Some_iff)

lemma expired_id [simp]: "it_id (expired_request B why it) = it_id it"
  by (simp add: expired_request_def update_decision_def touch_def)

lemma expired_is_closed:
  assumes "load_interaction i b = Some it" and "open_request it"
  shows "\<exists>it'. load_interaction i (snd (expireLockedInteraction B it b)) = Some it' \<and> \<not> open_request it'"
proof -
  have "load_interaction i (snd (expireLockedInteraction B it b)) = Some (expired_request B (JStr ''INTERACTION_EXPIRED'') it)"
    using assms by (simp add: expireLockedInteraction_def Let_def load_updated loaded_id)
  then show ?thesis
    by (simp add: expired_request_def update_decision_def touch_def open_request_def OPEN_REQUEST_STATUSES_def)
qed

function read_interaction :: "bureau \<Rightarrow> bool \<Rightarrow> responder \<Rightarrow> bool \<Rightarrow> string \<Rightarrow> board \<Rightarrow> jsval res \<times> board" where
  "read_interaction B visible actor includePayload i b =
     (case seen_interaction visible actor i b of
        None \<Rightarrow> (Inl not_visible, b)
      | Some it \<Rightarrow>
          if open_request it \<and> past_expiry B it
          then read_interaction B visible actor includePayload i (snd (transact (expire_body B i) b))
          else (Inr (joined_interaction (board_rows b) it includePayload), b))"
  by pat_completeness auto
termination
proof (relation "measure (\<lambda>(B, visible, actor, includePayload, i, b).
    case load_interaction i b of Some it \<Rightarrow> if open_request it then 1 else 0 | None \<Rightarrow> 0)")
  fix B visible actor includePayload i b it
  assume "seen_interaction visible actor i b = Some it" and o: "open_request it \<and> past_expiry B it"
  then have l: "load_interaction i b = Some it" by (simp add: seen_interaction_def split: if_splits)
  then have "snd (transact (expire_body B i) b) = snd (expireLockedInteraction B it b)"
    by (simp add: transact_def expire_body_def)
  with expired_is_closed [OF l, of B] o l
  show "((B, visible, actor, includePayload, i, snd (transact (expire_body B i) b)), B, visible, actor, includePayload, i, b)
      \<in> measure (\<lambda>(B, visible, actor, includePayload, i, b).
          case load_interaction i b of Some it \<Rightarrow> if open_request it then 1 else 0 | None \<Rightarrow> 0)"
    by auto
qed simp

definition getInteractionForRequest ::
  "bureau \<Rightarrow> bool \<Rightarrow> jsval \<Rightarrow> jsval \<Rightarrow> bool \<Rightarrow> board \<Rightarrow> jsval res \<times> board" where
  "getInteractionForRequest B visible http interactionId includePayload b =
     (case rbind (actorFromRequest http) (\<lambda>actor. rbind (assertUuid interactionId ''interactionId'') (\<lambda>i. Inr (actor, i))) of
        Inl err \<Rightarrow> (Inl err, b)
      | Inr (actor, i) \<Rightarrow> read_interaction B visible actor includePayload i b)"

definition listAgentInteractionsForRun :: "board \<Rightarrow> jsval list" where
  "listAgentInteractionsForRun b = map (\<lambda>it. joined_interaction (board_rows b) it False) (bd_interactions b)"

section \<open>Clearing a quarantine\<close>

definition checked_evidence :: "jsval \<Rightarrow> jsval res" where
  "checked_evidence evidence =
     rbind (cloneJson evidence ''evidence'' 10000) (\<lambda>safe.
     rbind (scanSafePayload safe ''evidence'') (\<lambda>_.
       if jget safe ''confirmed'' \<noteq> JBool True \<or> plain_text (jget safe ''workerGeneration'') = []
          \<or> plain_text (jget safe ''sourceCursor'') = []
       then Inl (invalid ''AGENT_QUARANTINE_CONFIRMATION_INVALID''
              ''Quarantine clearance requires confirmed-stop evidence, workerGeneration, and sourceCursor.'')
       else Inr safe))"

definition release_lease :: "resource_lease \<Rightarrow> resource_lease" where
  "release_lease l = (if lease_state l = ''QUARANTINED'' then l\<lparr>lease_state := ''RELEASED''\<rparr> else l)"

text \<open>The evidence that the leases and the run keep of the clearance is not read back and left out.\<close>

definition clear_rows :: "jsval \<Rightarrow> runtime_cell \<Rightarrow> run_rows \<Rightarrow> run_rows" where
  "clear_rows safe c rows =
     rows\<lparr>run_cell := Some (c\<lparr>cell_quarantined := False,
            cell_evidence := obj_with (cell_evidence c) [(''clearance'', safe)]\<rparr>),
          run_leases := map release_lease (run_leases rows)\<rparr>"

definition quarantined_cell :: "run_rows \<Rightarrow> runtime_cell option" where
  "quarantined_cell rows =
     (case run_cell rows of Some c \<Rightarrow> if cell_quarantined c then Some c else None | None \<Rightarrow> None)"

definition clear_body :: "bureau \<Rightarrow> string \<Rightarrow> jsval \<Rightarrow> jsval task" where
  "clear_body B runId safe b =
     (let generation = jget safe ''workerGeneration''; cursor = jget safe ''sourceCursor''
      in case quarantined_cell (board_rows b) of
        None \<Rightarrow> Inr (JObj [(''runId'', JStr runId), (''cleared'', JBool False), (''reason'', JStr ''NOT_QUARANTINED'')], b)
      | Some c \<Rightarrow>
          Inr (JObj [(''runId'', JStr runId), (''cleared'', JBool True), (''workerGeneration'', generation), (''sourceCursor'', cursor)],
            note_event (interaction_event B ''AGENT_RUNTIME_QUARANTINE_CLEARED''
              (''runtime:'' @ runId @ '':quarantine:cleared:'' @ to_str cursor)
              (JObj [(''runId'', JStr runId), (''workerGeneration'', generation), (''sourceCursor'', cursor)]) ''REPORTED'')
              (update_desk (update_rows (clear_rows safe c)) b)))"

definition reconcileQuarantinedRuntimeActivity :: "bureau \<Rightarrow> jsval \<Rightarrow> jsval \<Rightarrow> board option \<Rightarrow> jsval res \<times> board option" where
  "reconcileQuarantinedRuntimeActivity B runId evidence board =
     (case rbind (checked_evidence (default_to evidence (JObj []))) (\<lambda>safe.
             rbind (assertUuid runId ''runId'') (\<lambda>i. Inr (safe, i))) of
        Inl err \<Rightarrow> (Inl err, board)
      | Inr (safe, i) \<Rightarrow>
          (case board of
             None \<Rightarrow> (Inl (interaction_error 404 ''AGENT_RUN_NOT_FOUND'' ''Agent Run not found while reconciling quarantine.'' (JObj [])), None)
           | Some b \<Rightarrow> (case transact (clear_body B i safe) b of (r, b') \<Rightarrow> (r, Some b'))))"

section \<open>Stopping a run\<close>

text \<open>\<open>cancelAgentRun\<close> after its checks: the transaction on the run and then the cancellation of its interactions.\<close>

definition cancelAgentRun :: "bureau \<Rightarrow> string \<Rightarrow> jsval \<Rightarrow> board \<Rightarrow> jsval res \<times> board" where
  "cancelAgentRun B runId requestedBy b =
     (case transact (cancel_run_body B runId requestedBy) (bd_desk b) of
        (r, d) \<Rightarrow> (r, snd (transact (cancel_body B runId (JStr ''RUN_CANCEL_REQUESTED'')) (b\<lparr>bd_desk := d\<rparr>))))"

end
