(* ===== verification/InteractionGuarantees.thy ===== *)
theory InteractionGuarantees
  imports AgentInteractions
begin

text \<open>
  What holds of the interactions and the managed capabilities of an agent run under every interleaving of their
  transactions with the activities of the run, with stops, and with changes made elsewhere to the policies and the
  epochs of the run: a step of the board is one committed transaction.
\<close>

section \<open>Steps\<close>

inductive board_step :: "board \<Rightarrow> board \<Rightarrow> bool" where
  Activity: "body_of S runId a (board_rows b) = Inr (v, rows) \<Longrightarrow> board_step b (update_desk (update_rows (\<lambda>_. rows)) b)"
| Policies: "board_step b (update_desk (update_rows (\<lambda>rows. rows\<lparr>run_columns := c\<rparr>)) b)"
| Fence: "run_epochs (board_rows b) < e \<Longrightarrow>
    board_step b (update_desk (update_rows (\<lambda>rows. rows\<lparr>run_epoch := e, scope_epoch := e\<rparr>)) b)"
| Prepare_Effect: "sv_new_id (bu_services B) ''effect'' \<notin> ce_id ` set (dk_effects (bd_desk b)) \<Longrightarrow>
    prepare_effect_body B D operationId turnId caseId cc (bd_desk b) = Inr (p, d) \<Longrightarrow> board_step b (b\<lparr>bd_desk := d\<rparr>)"
| Approve: "approve_body B D effectId (bd_desk b) = Inr (p, d) \<Longrightarrow> board_step b (b\<lparr>bd_desk := d\<rparr>)"
| Begin: "begin_body B D effectId credential worker (bd_desk b) = Inr (p, d) \<Longrightarrow> board_step b (b\<lparr>bd_desk := d\<rparr>)"
| Reply: "started_body e execution (bd_desk b) = Inr (p, d) \<Longrightarrow> board_step b (b\<lparr>bd_desk := d\<rparr>)"
| Finish: "finish_body effectId outcome (bd_desk b) = Inr (p, d) \<Longrightarrow> board_step b (b\<lparr>bd_desk := d\<rparr>)"
| Revoke: "revoke_before_dispatch_body B runId effectId (bd_desk b) = Inr (p, d) \<Longrightarrow> board_step b (b\<lparr>bd_desk := d\<rparr>)"
| Cancel_Run: "cancel_run_body B runId who (bd_desk b) = Inr (p, d) \<Longrightarrow> board_step b (b\<lparr>bd_desk := d\<rparr>)"
| Stop_Scope: "stop_scope_body B scopeId (bd_desk b) = Inr (p, d) \<Longrightarrow> board_step b (b\<lparr>bd_desk := d\<rparr>)"
| Create: "sv_new_id (bu_services B) ''interaction'' \<notin> it_id ` set (bd_interactions b) \<Longrightarrow>
    create_body B Q b = Inr (v, b') \<Longrightarrow> board_step b b'"
| Load: "load_body B i b = Inr (v, b') \<Longrightarrow> board_step b b'"
| Acknowledge: "acknowledge_body B i decisionId b = Inr (v, b') \<Longrightarrow> board_step b b'"
| Expire: "expire_body B i b = Inr (v, b') \<Longrightarrow> board_step b b'"
| Cancel: "cancel_body B runId why b = Inr (v, b') \<Longrightarrow> board_step b b'"
| Apply: "prepare_application B i decisionId b = Inr (p, b') \<Longrightarrow> board_step b b'"
| Commit: "commit_application B i decisionId it dn verdict b = Inr (r, b') \<Longrightarrow> board_step b b'"
| Submit: "submit_body B A i actor v body b = Inr (s, b') \<Longrightarrow> board_step b b'"
| Clear: "clear_body B runId safe b = Inr (v, b') \<Longrightarrow> board_step b b'"

section \<open>How an interaction evolves\<close>

text \<open>A value with no key, at any depth, that may not be stored.\<close>

definition harmless :: "jsval \<Rightarrow> bool" where
  "harmless v = list_all (\<lambda>k. \<not> forbidden_key k) (keys_of v)"

lemma scan_harmless:
  "scanSafePayload v path = Inr () \<longleftrightarrow> harmless v"
  "scan_entries vs i path = Inr () \<longleftrightarrow> list_all harmless vs"
  "scan_members kvs path = Inr () \<longleftrightarrow> list_all (\<lambda>(k, v). \<not> forbidden_key k \<and> harmless v) kvs"
  by (induction v path and vs i path and kvs path rule: scanSafePayload_scan_entries_scan_members.induct)
    (auto simp: harmless_def list_all_iff rbind_Inr_iff)

definition agrees :: "interaction \<Rightarrow> bool" where
  "agrees it =
     (it_link it = map_option dn_id (it_decision it) \<and> it_status it \<in> set (OPEN_REQUEST_STATUSES @ settled_applications)
      \<and> (case it_decision it of
           None \<Rightarrow> it_status it \<notin> set [''SAVED'', ''APPLIED'', ''BLOCKED'', ''REJECTED'']
         | Some dn \<Rightarrow> dn_application dn = (if open_request it then ''PENDING'' else it_status it)
             \<and> harmless (dn_payload dn)))"

definition same_decision :: "decision_row \<Rightarrow> decision_row \<Rightarrow> bool" where
  "same_decision dn dn' =
     (dn_id dn' = dn_id dn \<and> dn_user dn' = dn_user dn \<and> dn_type dn' = dn_type dn \<and> dn_value dn' = dn_value dn
      \<and> dn_payload dn' = dn_payload dn \<and> dn_digest dn' = dn_digest dn
      \<and> (dn_application dn \<noteq> ''PENDING'' \<longrightarrow>
           dn_application dn' = dn_application dn \<and> dn_reason dn' = dn_reason dn \<and> dn_result dn' = dn_result dn))"

definition evolves :: "interaction \<Rightarrow> interaction \<Rightarrow> bool" where
  "evolves it it' =
     (it_id it' = it_id it \<and> it_type it' = it_type it \<and> it_effect it' = it_effect it \<and> agrees it'
      \<and> (case it_decision it of
           None \<Rightarrow> open_request it \<or> it_decision it' = None
         | Some dn \<Rightarrow> (case it_decision it' of None \<Rightarrow> False | Some dn' \<Rightarrow> same_decision dn dn'))
      \<and> (\<not> open_request it \<longrightarrow> it_status it' = it_status it \<and> it_reason it' = it_reason it))"

lemma open_statuses [simp]:
  "open_request (it\<lparr>it_status := ''PENDING''\<rparr>)" "open_request (it\<lparr>it_status := ''SAVED''\<rparr>)"
  "open_request (it\<lparr>it_status := ''DELIVERED''\<rparr>)" "\<not> open_request (it\<lparr>it_status := ''APPLIED''\<rparr>)"
  "\<not> open_request (it\<lparr>it_status := ''BLOCKED''\<rparr>)" "\<not> open_request (it\<lparr>it_status := ''REJECTED''\<rparr>)"
  "\<not> open_request (it\<lparr>it_status := ''EXPIRED''\<rparr>)" "\<not> open_request (it\<lparr>it_status := ''CANCELED''\<rparr>)"
  by (simp_all add: open_request_def OPEN_REQUEST_STATUSES_def)

lemma evolves_refl: "agrees it \<Longrightarrow> evolves it it"
  by (auto simp: evolves_def same_decision_def split: option.splits)

lemma evolves_trans: "evolves a b \<Longrightarrow> evolves b c \<Longrightarrow> evolves a c"
  by (auto simp: evolves_def same_decision_def agrees_def open_request_def split: option.splits if_splits)

lemmas request_updates = update_decision_def touch_def close_request_def settle_decision_def settled_applications_def

lemma evolves_delivered: "agrees it \<Longrightarrow> evolves it (delivered_request B it)"
  by (auto simp: evolves_def agrees_def same_decision_def delivered_request_def request_updates Let_def open_request_def
      OPEN_REQUEST_STATUSES_def split: option.splits if_splits)

lemma evolves_expired: "agrees it \<Longrightarrow> open_request it \<Longrightarrow> evolves it (expired_request B why it)"
  by (auto simp: evolves_def agrees_def same_decision_def expired_request_def request_updates Let_def open_request_def
      OPEN_REQUEST_STATUSES_def split: option.splits if_splits)

lemma evolves_canceled: "agrees it \<Longrightarrow> open_request it \<Longrightarrow> evolves it (canceled_request B why it)"
  by (auto simp: evolves_def agrees_def same_decision_def canceled_request_def request_updates Let_def open_request_def
      OPEN_REQUEST_STATUSES_def split: option.splits if_splits)

lemma evolves_concluded:
  "agrees it \<Longrightarrow> open_request it \<Longrightarrow> it_decision it = Some dn \<Longrightarrow> status \<in> set [''BLOCKED'', ''REJECTED''] \<Longrightarrow>
     evolves it (conclude B status k why it)"
  by (auto simp: evolves_def agrees_def same_decision_def conclude_def request_updates Let_def open_request_def
      OPEN_REQUEST_STATUSES_def split: option.splits if_splits)

lemma evolves_applied:
  "agrees it \<Longrightarrow> open_request it \<Longrightarrow> it_decision it = Some dn \<Longrightarrow> evolves it (applied_request B outcome it)"
  by (auto simp: evolves_def agrees_def same_decision_def applied_request_def request_updates Let_def open_request_def
      OPEN_REQUEST_STATUSES_def split: option.splits if_splits)

lemma evolves_saved:
  "agrees it \<Longrightarrow> open_request it \<Longrightarrow> it_decision it = None \<Longrightarrow> dn_application dn = ''PENDING'' \<Longrightarrow>
     harmless (dn_payload dn) \<Longrightarrow> evolves it (saved_request B dn it)"
  by (auto simp: evolves_def agrees_def same_decision_def saved_request_def request_updates Let_def open_request_def
      OPEN_REQUEST_STATUSES_def split: option.splits if_splits)

section \<open>The shape of a step\<close>

definition board_ok :: "board \<Rightarrow> bool" where
  "board_ok b = (distinct (map it_id (bd_interactions b)) \<and> list_all agrees (bd_interactions b))"

text \<open>What a step makes of the interactions: each evolves, and new ones may follow.\<close>

definition grown :: "board \<Rightarrow> board \<Rightarrow> bool" where
  "grown b b' =
     (\<exists>g new. bd_interactions b' = map g (bd_interactions b) @ new
        \<and> (\<forall>it \<in> set (bd_interactions b). evolves it (g it)) \<and> board_ok b')"

lemma grown_same: "board_ok b \<Longrightarrow> bd_interactions b' = bd_interactions b \<Longrightarrow> grown b b'"
  by (auto simp: grown_def board_ok_def list_all_iff evolves_refl intro!: exI [of _ "\<lambda>it. it"] exI [of _ "[]"])

lemma grown_map:
  assumes ok: "board_ok b" and g: "\<And>it. it \<in> set (bd_interactions b) \<Longrightarrow> evolves it (g it)"
    and b': "bd_interactions b' = map g (bd_interactions b)"
  shows "grown b b'"
proof -
  have "map it_id (map g (bd_interactions b)) = map it_id (bd_interactions b)"
    using g by (simp add: evolves_def)
  moreover have "list_all agrees (map g (bd_interactions b))"
    using g by (auto simp: list_all_iff evolves_def)
  ultimately have "board_ok b'" using ok unfolding board_ok_def b' by (simp del: map_map)
  then show ?thesis
    unfolding grown_def using g b' by (intro exI [of _ g] exI [of _ "[]"]) simp
qed

lemma grown_update:
  assumes ok: "board_ok b" and l: "load_interaction i b = Some it"
    and f: "agrees it \<Longrightarrow> evolves it (f it)"
    and b': "bd_interactions b' = bd_interactions (update_interaction (it_id it) f b)"
  shows "grown b b'"
proof -
  have m: "it \<in> set (bd_interactions b)"
    using l by (metis (no_types, lifting) load_interaction_def find_Some_iff nth_mem)
  have "evolves jt (if it_id jt = it_id it then f jt else jt)" if "jt \<in> set (bd_interactions b)" for jt
  proof (cases "it_id jt = it_id it")
    case True
    with ok m that have "jt = it" by (auto simp: board_ok_def distinct_map dest: inj_onD)
    with ok that f show ?thesis by (simp add: board_ok_def list_all_iff)
  next
    case False
    with ok that show ?thesis by (auto simp: board_ok_def list_all_iff evolves_refl)
  qed
  then show ?thesis
    using b' by (intro grown_map [OF ok, where g = "\<lambda>jt. if it_id jt = it_id it then f jt else jt"])
      (simp_all add: update_interaction_def)
qed

lemma loaded_agrees: "board_ok b \<Longrightarrow> load_interaction i b = Some it \<Longrightarrow> agrees it"
  by (metis (no_types, lifting) board_ok_def list_all_iff load_interaction_def find_Some_iff nth_mem)

lemma grown_expired:
  assumes ok: "board_ok b" and l: "load_interaction i b = Some it"
  shows "grown b (snd (expireLockedInteraction B it b))"
proof (cases "open_request it")
  case True
  show ?thesis
    by (rule grown_update [OF ok l, where f = "expired_request B (JStr ''INTERACTION_EXPIRED'')"])
      (simp_all add: evolves_expired expireLockedInteraction_def Let_def True)
next
  case False
  then show ?thesis by (simp add: expireLockedInteraction_def grown_same [OF ok])
qed

text \<open>Cancellation closes exactly the open requests.\<close>

lemma cancel_one_interactions:
  "bd_interactions (cancel_one B why b it)
     = map (\<lambda>jt. if it_id jt = it_id it then canceled_request B why jt else jt) (bd_interactions b)"
  by (simp add: cancel_one_def update_interaction_def)

lemma canceled_id [simp]: "it_id (canceled_request B why it) = it_id it"
  by (simp add: canceled_request_def request_updates Let_def)

lemma cancel_all_interactions:
  "distinct (map it_id rows) \<Longrightarrow>
     bd_interactions (foldl (cancel_one B why) b rows)
       = map (\<lambda>jt. if it_id jt \<in> it_id ` set rows then canceled_request B why jt else jt) (bd_interactions b)"
proof (induction rows arbitrary: b)
  case (Cons it rows)
  then show ?case
    by (auto simp: cancel_one_interactions image_iff)
qed simp

lemma cancel_body_interactions:
  assumes "board_ok b" and "cancel_body B runId why b = Inr (v, b')"
  shows "bd_interactions b' = map (\<lambda>it. if open_request it then canceled_request B why it else it) (bd_interactions b)"
proof -
  have d: "distinct (map it_id (bd_interactions b))" using assms(1) by (simp add: board_ok_def)
  then have "distinct (map it_id (filter open_request (bd_interactions b)))"
    by (rule distinct_map_filter)
  moreover have "it_id it \<in> it_id ` set (filter open_request (bd_interactions b)) \<longleftrightarrow> open_request it"
    if "it \<in> set (bd_interactions b)" for it
    using d that by (auto simp: distinct_map dest: inj_onD)
  ultimately show ?thesis
    using assms(2) by (auto simp: cancel_body_def Let_def cancel_all_interactions)
qed

lemma grown_canceled: "board_ok b \<Longrightarrow> cancel_body B runId why b = Inr (v, b') \<Longrightarrow> grown b b'"
  by (rule grown_map [where g = "\<lambda>it. if open_request it then canceled_request B why it else it"])
    (simp_all add: cancel_body_interactions, auto simp: board_ok_def list_all_iff evolves_refl evolves_canceled)

lemma current_decision_Some: "current_decision d it = Some dn \<Longrightarrow> it_decision it = Some dn"
  by (auto simp: current_decision_def split: option.splits if_splits)

lemma pending_is_open:
  "board_ok b \<Longrightarrow> load_interaction i b = Some it \<Longrightarrow> it_decision it = Some dn \<Longrightarrow> dn_application dn = ''PENDING'' \<Longrightarrow> open_request it"
  by (drule (1) loaded_agrees) (auto simp: agrees_def open_request_def OPEN_REQUEST_STATUSES_def split: if_splits)

lemma grown_applying:
  assumes ok: "board_ok b" and "prepare_application B i decisionId b = Inr (p, b')"
  shows "grown b b'"
proof (cases "load_interaction i b")
  case None
  with assms show ?thesis by (auto simp: prepare_application_def Let_def intro: grown_same)
next
  case l: (Some it)
  show ?thesis
  proof (cases "current_decision decisionId it")
    case None
    with assms l show ?thesis by (auto simp: prepare_application_def Let_def intro: grown_same)
  next
    case c: (Some dn)
    then have dn: "it_decision it = Some dn" by (rule current_decision_Some)
    have done_: "grown b (block_application B i dn why tag it b)" "grown b (reject_application B i dn it b)"
      if "open_request it" for why tag
      by (rule grown_update [OF ok l, where f = "conclude B ''BLOCKED'' ''blocked_at'' why"],
          simp_all add: block_application_def evolves_concluded [OF _ that dn])
        (rule grown_update [OF ok l, where f = "conclude B ''REJECTED'' ''applied_at'' (JStr ''RESPONDER_REJECTED'')"],
          simp_all add: reject_application_def evolves_concluded [OF _ that dn])
    from assms(2) l c have "b' = b \<or> b' = snd (expireLockedInteraction B it b)
        \<or> open_request it \<and> b' = block_application B i dn (JStr ''INTERACTION_AUTHORITY_STALE'') '':authority-stale'' it b
        \<or> open_request it \<and> b' = reject_application B i dn it b"
      by (auto simp: prepare_application_def Let_def split: if_splits)
    then show ?thesis
      using done_ grown_expired [OF ok l] grown_same [OF ok] by blast
  qed
qed

lemma grown_committed:
  assumes ok: "board_ok b" and "commit_application B i decisionId ready rd verdict b = Inr (r, b')"
  shows "grown b b'"
proof (cases "load_interaction i b")
  case None
  with assms show ?thesis by (auto simp: commit_application_def Let_def split: prod.splits intro: grown_same)
next
  case l: (Some it)
  show ?thesis
  proof (cases "current_decision decisionId it")
    case None
    with assms l show ?thesis by (auto simp: commit_application_def Let_def split: prod.splits intro: grown_same)
  next
    case c: (Some dn)
    then have dn: "it_decision it = Some dn" by (rule current_decision_Some)
    show ?thesis
    proof (cases "dn_application dn = ''PENDING''")
      case False
      with assms l c show ?thesis by (auto simp: commit_application_def Let_def split: prod.splits intro: grown_same)
    next
      case True
      have o: "open_request it" by (rule pending_is_open [OF ok l dn True])
      have "grown b (block_application B i dn why tag it b)" for why tag
        by (rule grown_update [OF ok l, where f = "conclude B ''BLOCKED'' ''blocked_at'' why"])
          (simp_all add: block_application_def evolves_concluded [OF _ o dn])
      moreover have "grown b (note_event e (update_interaction (it_id it) (applied_request B outcome) b))" for e outcome
        by (rule grown_update [OF ok l, where f = "applied_request B outcome"]) (simp_all add: evolves_applied [OF _ o dn])
      ultimately show ?thesis
        using assms l c True by (auto simp: commit_application_def Let_def split: prod.splits if_splits)
    qed
  qed
qed

lemma input_key: "\<not> forbidden_key ''input''"
  by code_simp

lemma case_sum_Inr: "(case s of Inl a \<Rightarrow> Inl (f a) | Inr _ \<Rightarrow> Inr y) = Inr z \<longleftrightarrow> (\<exists>x. s = Inr x) \<and> y = z"
  by (cases s) auto

lemma checked_harmless:
  assumes "checked_decision B it v body = Inr (t, payload)"
  shows "harmless payload"
proof -
  from assms have "payload = JObj [] \<or> (\<exists>input. scanSafePayload input ''input'' = Inr () \<and> payload = JObj [(''input'', input)])"
    by (auto simp: checked_decision_def rbind_Inr_iff case_sum_Inr split: if_splits)
  then show ?thesis
    by (auto simp: scan_harmless) (simp_all add: harmless_def input_key)
qed

lemma grown_submitted:
  assumes ok: "board_ok b" and s: "submit_body B A i actor v body b = Inr (r, b')"
  shows "grown b b'"
proof -
  from s obtain it where l: "load_interaction i b = Some it"
    by (auto simp: submit_body_def split: option.splits)
  have saved: "grown b (note_event e (update_interaction (it_id it) (saved_request B (new_decision B actor t v payload digest)) b
                 \<lparr>bd_outbox := ob\<rparr>))"
    if "open_request it" "it_decision it = None" "harmless payload" for e t payload digest ob
    by (rule grown_update [OF ok l, where f = "saved_request B (new_decision B actor t v payload digest)"])
      (simp_all add: evolves_saved [OF _ that(1,2)] that(3) new_decision_def)
  from s l have "b' = b \<or> b' = snd (expireLockedInteraction B it b)
      \<or> (\<exists>t payload digest r. open_request it \<and> it_decision it = None \<and> harmless payload
           \<and> save_decision B i actor (new_decision B actor t v payload digest) it b = Inr (r, b'))"
    by (auto simp: submit_body_def decide_body_def Let_def rbind_Inr_iff dest: checked_harmless split: if_splits option.splits prod.splits)
  then show ?thesis
    using grown_expired [OF ok l] grown_same [OF ok] saved
    by (auto simp: save_decision_def Let_def)
qed

lemma grown_created:
  assumes ok: "board_ok b" and fresh: "sv_new_id (bu_services B) ''interaction'' \<notin> it_id ` set (bd_interactions b)"
    and c: "create_body B Q b = Inr (v, b')"
  shows "grown b b'"
proof (cases "find (\<lambda>it. it_key it = iq_key Q \<and> it_type it = iq_type Q) (bd_interactions b)")
  case (Some it)
  with c have "b' = b" by (auto simp: create_body_def Let_def)
  then show ?thesis using grown_same [OF ok] by simp
next
  case None
  with c obtain epoch where b': "bd_interactions b' = bd_interactions b @ [new_interaction B Q epoch (board_rows b)]"
    by (auto simp: create_body_def Let_def rbind_Inr_iff update_desk_def note_event_def)
  have n: "it_id (new_interaction B Q epoch (board_rows b)) = sv_new_id (bu_services B) ''interaction''"
    "agrees (new_interaction B Q epoch (board_rows b))"
    by (auto simp: new_interaction_def Let_def agrees_def OPEN_REQUEST_STATUSES_def settled_applications_def)
  then have "board_ok b'" using ok fresh unfolding board_ok_def b' by (simp add: image_iff)
  then show ?thesis
    unfolding grown_def using ok b'
    by (intro exI [of _ "\<lambda>it. it"] exI [of _ "[new_interaction B Q epoch (board_rows b)]"])
      (auto simp: board_ok_def list_all_iff evolves_refl)
qed

lemma step_grown:
  assumes step: "board_step b b'" and ok: "board_ok b"
  shows "grown b b'"
  using step
proof cases
  case (Load B i v)
  then show ?thesis
    using grown_expired [OF ok] grown_same [OF ok]
    by (auto simp: load_body_def Let_def split: option.splits prod.splits if_splits) (metis snd_conv)
next
  case (Acknowledge B i decisionId v)
  have "grown b (note_event e (update_interaction (it_id it) (delivered_request B) b))" if "load_interaction i b = Some it" for e it
    by (rule grown_update [OF ok that, where f = "delivered_request B"]) (simp_all add: evolves_delivered)
  with Acknowledge show ?thesis
    using grown_same [OF ok] by (auto simp: acknowledge_body_def split: option.splits if_splits)
next
  case (Expire B i v)
  then show ?thesis
    using grown_expired [OF ok] grown_same [OF ok] by (auto simp: expire_body_def split: option.splits)
next
  case (Clear B runId safe v)
  then show ?thesis
    using grown_same [OF ok] by (auto simp: clear_body_def Let_def split: option.splits)
qed (auto simp: update_desk_def intro: grown_same [OF ok] grown_canceled [OF ok] grown_applying [OF ok]
      grown_committed [OF ok] grown_submitted [OF ok] grown_created [OF ok])

lemma steps_grown:
  assumes "board_step\<^sup>*\<^sup>* b b'" and "board_ok b"
  shows "board_ok b' \<and> (\<forall>i it. load_interaction i b = Some it \<longrightarrow> (\<exists>it'. load_interaction i b' = Some it' \<and> evolves it it'))"
  using assms
proof (induction rule: rtranclp_induct)
  case base
  then show ?case by (auto intro: evolves_refl dest: loaded_agrees)
next
  case (step c d)
  then have ok: "board_ok c" by blast
  from step_grown [OF step(2) ok] obtain g new where d: "bd_interactions d = map g (bd_interactions c) @ new"
    and g: "\<forall>it \<in> set (bd_interactions c). evolves it (g it)" and "board_ok d"
    by (auto simp: grown_def)
  have "load_interaction i d = Some (g it) \<and> evolves it (g it)" if l: "load_interaction i c = Some it" for i it
  proof -
    have same: "find (\<lambda>it. it_id it = k) (map g its @ new) = Some (g it)"
      if "find (\<lambda>it. it_id it = k) its = Some it" "\<forall>it \<in> set its. it_id (g it) = it_id it" for its k
      using that by (induction its) (auto split: if_splits)
    have "it \<in> set (bd_interactions c)"
      using l by (metis (no_types, lifting) load_interaction_def find_Some_iff nth_mem)
    then show ?thesis
      using same [of "to_lower i" "bd_interactions c"] l g by (simp add: load_interaction_def d evolves_def)
  qed
  with step \<open>board_ok d\<close> show ?case by (metis evolves_trans)
qed

text \<open>C18 (decision_final): whatever happens on the board of a run, a request that is closed keeps its status and reason, and a
  decision that was saved keeps its identity, type, value, payload and digest, and its application once it is settled.\<close>

theorem decision_final:
  assumes "board_ok b" and "board_step\<^sup>*\<^sup>* b b'" and "load_interaction i b = Some it"
  shows "\<exists>it'. load_interaction i b' = Some it'
     \<and> (\<not> open_request it \<longrightarrow> it_status it' = it_status it \<and> it_reason it' = it_reason it
          \<and> map_option dn_id (it_decision it') = map_option dn_id (it_decision it))
     \<and> (\<forall>dn. it_decision it = Some dn \<longrightarrow> (\<exists>dn'. it_decision it' = Some dn' \<and> same_decision dn dn'))"
proof -
  from steps_grown [OF assms(2,1)] assms(3) obtain it' where "load_interaction i b' = Some it'" "evolves it it'" by blast
  then show ?thesis
    by (auto simp: evolves_def same_decision_def split: option.splits)
qed

text \<open>C19 (decisions_agree): on every board that grew from one without interactions, a request is open exactly while its decision, if it has one,
  waits to be applied; a closed one has the status that its decision was applied with, and no saved payload has a key that may not
  be stored, at any depth.\<close>

theorem decisions_agree:
  assumes "bd_interactions b = []" and "board_step\<^sup>*\<^sup>* b b'"
  shows "list_all (\<lambda>it. case it_decision it of
       None \<Rightarrow> it_status it \<notin> set [''SAVED'', ''APPLIED'', ''BLOCKED'', ''REJECTED'']
     | Some dn \<Rightarrow> dn_application dn = (if open_request it then ''PENDING'' else it_status it)
         \<and> list_all (\<lambda>k. \<not> forbidden_key k) (keys_of (dn_payload dn))) (bd_interactions b')"
proof -
  have "board_ok b" using assms(1) by (simp add: board_ok_def)
  with steps_grown [OF assms(2)] have "list_all agrees (bd_interactions b')" by (simp add: board_ok_def)
  then show ?thesis
    by (auto simp: list_all_iff agrees_def harmless_def split: option.splits)
qed

section \<open>Applying a decision\<close>

lemma approve_for_keeps: "approve_for B D it b = (verdict, b') \<Longrightarrow> bd_interactions b' = bd_interactions b"
  by (auto simp: approve_for_def split: bool.splits option.splits prod.splits)

lemma load_same: "bd_interactions b' = bd_interactions b \<Longrightarrow> load_interaction i b' = load_interaction i b"
  by (simp add: load_interaction_def)

lemma concluded:
  assumes "load_interaction i b = Some it"
  shows "load_interaction i (block_application B i dn why tag it b) = Some (conclude B ''BLOCKED'' ''blocked_at'' why it)"
    and "load_interaction i (reject_application B i dn it b)
           = Some (conclude B ''REJECTED'' ''applied_at'' (JStr ''RESPONDER_REJECTED'') it)"
    and "load_interaction i (update_interaction (it_id it) (applied_request B outcome) b) = Some (applied_request B outcome it)"
    and "open_request it \<Longrightarrow> load_interaction i (snd (expireLockedInteraction B it b)) = Some (expired_request B (JStr ''INTERACTION_EXPIRED'') it)"
  using assms loaded_id [OF assms]
  by (simp_all add: block_application_def reject_application_def expireLockedInteraction_def load_updated Let_def
      conclude_def applied_request_def request_updates)

text \<open>A request is settled with a status when both it and its decision have it.\<close>

definition settled_with :: "string \<Rightarrow> string \<Rightarrow> board \<Rightarrow> bool" where
  "settled_with status i b =
     (case load_interaction i b of
        None \<Rightarrow> False
      | Some it \<Rightarrow> \<not> open_request it \<and> it_status it = status
          \<and> (case it_decision it of None \<Rightarrow> False | Some dn \<Rightarrow> dn_application dn = status))"

lemma settled_withI:
  "load_interaction i b = Some it \<Longrightarrow> \<not> open_request it \<Longrightarrow> it_status it = status \<Longrightarrow> it_decision it = Some dn \<Longrightarrow>
     dn_application dn = status \<Longrightarrow> settled_with status i b"
  by (simp add: settled_with_def)

lemma updates_settle:
  assumes "load_interaction i b = Some it" and "it_decision it = Some dn"
  shows "settled_with ''BLOCKED'' i (block_application B i dn why tag it b)"
    and "settled_with ''REJECTED'' i (reject_application B i dn it b)"
    and "settled_with ''APPLIED'' i (note_event e (update_interaction (it_id it) (applied_request B outcome) b))"
    and "open_request it \<Longrightarrow> dn_application dn = ''PENDING'' \<Longrightarrow> settled_with ''EXPIRED'' i (snd (expireLockedInteraction B it b))"
  using assms
  by (simp_all add: settled_with_def concluded conclude_def applied_request_def expired_request_def request_updates
      open_request_def OPEN_REQUEST_STATUSES_def)

lemma preparing_settles:
  assumes ok: "board_ok b" and l: "load_interaction i b = Some it" and c: "current_decision decisionId it = Some dn"
    and p: "prepare_application B i decisionId b = Inr (p, b')"
  shows "(case early_reply p of Some r \<Rightarrow> settled_with (al_status r) i b' | None \<Rightarrow> p = Ready it dn \<and> b' = b \<and> dn_application dn = ''PENDING'')"
proof -
  have dn: "it_decision it = Some dn" by (rule current_decision_Some [OF c])
  have a: "dn_application dn = (if open_request it then ''PENDING'' else it_status it)"
    using loaded_agrees [OF ok l] dn by (simp add: agrees_def)
  show ?thesis
  proof (cases "dn_application dn \<in> set settled_applications")
    case True
    then have "\<not> open_request it" using a by (auto simp: settled_applications_def split: if_splits)
    with True p l c dn a show ?thesis
      by (auto simp: prepare_application_def early_reply_def Let_def intro!: settled_withI)
  next
    case False
    then have o: "open_request it"
      using a loaded_agrees [OF ok l] by (auto simp: agrees_def open_request_def settled_applications_def split: if_splits)
    with False p l c a show ?thesis
      by (auto simp: prepare_application_def early_reply_def Let_def split: if_splits intro!: updates_settle [OF l dn])
  qed
qed

lemma preparing_answers: "\<exists>p b'. prepare_application B i decisionId b = Inr (p, b')"
  by (simp add: prepare_application_def Let_def split: option.splits)

text \<open>C20 (application_settles): applying the saved decision of a request, with nothing in between, always answers and leaves the request
  closed, with the status of the answer in the request and in its decision.\<close>

theorem application_settles:
  assumes "bd_interactions b0 = []" and "board_step\<^sup>*\<^sup>* b0 b" and "assertUuid interactionId ''interactionId'' = Inr i"
    and "load_interaction i b = Some it" and "it_decision it = Some dn"
  shows "\<exists>r b'. applyAgentInteractionDecision B D interactionId (JStr (dn_id dn)) b = (Inr r, b') \<and> settled_with (al_status r) i b'"
proof -
  have ok: "board_ok b"
    using steps_grown [OF assms(2)] assms(1) by (simp add: board_ok_def)
  have c: "current_decision (JStr (dn_id dn)) it = Some dn"
    using assms(5) by (simp add: current_decision_def)
  obtain p b1 where p: "prepare_application B i (JStr (dn_id dn)) b = Inr (p, b1)"
    using preparing_answers by blast
  note first = preparing_settles [OF ok assms(4) c p]
  show ?thesis
  proof (cases "early_reply p")
    case (Some r)
    then show ?thesis
      using first p assms(3) by (auto simp: applyAgentInteractionDecision_def transact_def early_reply_def split: prepared_application.splits)
  next
    case None
    with first have ready: "p = Ready it dn" "b1 = b" "dn_application dn = ''PENDING''" by simp_all
    obtain verdict b2 where v: "approve_for B D it b = (verdict, b2)" by (cases "approve_for B D it b")
    have l2: "load_interaction i b2 = Some it"
      using load_same [OF approve_for_keeps [OF v]] assms(4) by simp
    have "\<exists>r b3. commit_application B i (JStr (dn_id dn)) it dn verdict b2 = Inr (r, b3) \<and> settled_with (al_status r) i b3"
      using l2 c ready(3)
      by (auto simp: commit_application_def plain_application_def Let_def split: prod.splits intro!: updates_settle [OF l2 assms(5)])
    then show ?thesis
      using p assms(3) ready v by (auto simp: applyAgentInteractionDecision_def transact_def)
  qed
qed


section \<open>An example\<close>

text \<open>A run that asks for an approval which an internal service gives.\<close>

definition example_id :: string where
  "example_id = ''11111111-1111-4111-8111-111111111111''"

definition example_bureau :: bureau where
  "example_bureau = \<lparr>bu_services = example_services\<lparr>sv_new_id := (\<lambda>k. example_id)\<rparr>, bu_now = 0, bu_credential = ''secret''\<rparr>"

definition example_directory :: directory where
  "example_directory = \<lparr>dir_service = True, dir_project_active = True, dir_admin = False, dir_member = False,
     dir_permission = False, dir_automation = JNull\<rparr>"

definition example_board :: board where
  "example_board = \<lparr>bd_desk = \<lparr>dk_rows = example_rows, dk_effects = []\<rparr>, bd_interactions = [], bd_outbox = []\<rparr>"

definition example_question :: interaction_request where
  "example_question = \<lparr>iq_run = example_id, iq_type = ''APPROVAL'', iq_kind = ''APPROVAL'', iq_operation = JNull, iq_effect = None,
     iq_key = ''key'', iq_digest = [], iq_prompt = ''Continue?'', iq_schema = JObj [], iq_policy = ''agent-policy.v1'',
     iq_scope = JObj [], iq_epoch = jnat 0, iq_lifetime = DEFAULT_APPROVAL_TTL_MS\<rparr>"

definition example_actor :: responder where
  "example_actor = \<lparr>rs_internal = True, rs_user = JNull, rs_name = JNull, rs_admin = True\<rparr>"

definition example_decision :: decision_row where
  "example_decision = new_decision example_bureau example_actor ''APPROVE'' ''APPROVE'' (JObj [])
     (decision_digest (bu_services example_bureau) example_id ''APPROVE'' ''APPROVE'' (JObj []))"

definition example_saved :: interaction where
  "example_saved = saved_request example_bureau example_decision (new_interaction example_bureau example_question 0 example_rows)"

lemma example_lower: "to_lower example_id = example_id" "is_uuid example_id" "plain_text (JStr example_id) = example_id"
  by code_simp+

lemma rows_kept [simp]:
  "board_rows (update_interaction i f b) = board_rows b" "board_rows (note_event e b) = appendEvent e (board_rows b)"
  "board_rows (update_desk (update_rows h) b) = h (board_rows b)" "board_rows (b\<lparr>bd_interactions := its\<rparr>) = board_rows b"
  "board_rows (b\<lparr>bd_outbox := ob\<rparr>) = board_rows b"
  by (simp_all add: update_interaction_def note_event_def update_desk_def record_event_def update_rows_def)

lemma epochs_kept [simp]: "run_epochs (appendEvent e rows) = run_epochs rows"
  by (simp add: run_epochs_def appendEvent_def)

lemma example_reached:
  "\<exists>b. board_step\<^sup>*\<^sup>* example_board b \<and> bd_interactions b = [example_saved] \<and> \<not> authority_stale (board_rows b) example_saved"
proof -
  let ?it = "new_interaction example_bureau example_question 0 example_rows"
  have rows: "\<not> revoked_before example_rows" "await_interaction t example_rows = example_rows" "run_epochs example_rows = 0" for t
    by (simp_all add: revoked_before_def await_interaction_def example_rows_def TERMINAL_STATUSES_def cancel_statuses_def run_epochs_def)
  have it: "it_id ?it = example_id" "open_request ?it" "it_decision ?it = None" "it_type ?it = ''APPROVAL''" "it_epoch ?it = 0"
    "it_expires ?it = 90000"
    by (simp_all add: new_interaction_def rows Let_def example_bureau_def example_question_def open_request_def
        OPEN_REQUEST_STATUSES_def DEFAULT_APPROVAL_TTL_MS_def)
  obtain v b1 where c: "create_body example_bureau example_question example_board = Inr (v, b1)" "bd_interactions b1 = [?it]"
      and e1: "\<exists>e. board_rows b1 = appendEvent e example_rows"
    by (auto simp: create_body_def Let_def example_board_def database_int_def example_question_def rows)
  have step1: "board_step example_board b1"
    by (rule Create [OF _ c(1)]) (simp add: example_board_def)
  have l: "load_interaction example_id b1 = Some ?it"
    using it(1) by (simp add: load_interaction_def c(2) example_lower)
  have fresh: "\<not> authority_stale (appendEvent e example_rows) jt" if "it_epoch jt = 0" for e jt
    using that rows(3) by (simp add: authority_stale_def)
      (simp add: example_rows_def TERMINAL_STATUSES_def)
  have "submit_body example_bureau \<lparr>ac_project = True, ac_member = True\<rparr> example_id example_actor ''APPROVE'' (JObj []) b1
      = decide_body example_bureau example_id example_actor ''APPROVE'' (JObj []) ?it b1"
    using l it(6) by (simp add: submit_body_def assertProjectAccess_def responderEligible_def example_actor_def past_expiry_def)
      (simp add: example_bureau_def)
  also have "\<dots> = save_decision example_bureau example_id example_actor example_decision ?it b1"
    using e1 fresh [OF it(5)] it(2,3,4)
    by (auto simp: decide_body_def checked_decision_def Let_def example_decision_def)
  finally obtain s b2 where s: "submit_body example_bureau \<lparr>ac_project = True, ac_member = True\<rparr> example_id example_actor ''APPROVE'' (JObj []) b1
        = Inr (s, b2)" "bd_interactions b2 = [example_saved]" "\<exists>e. board_rows b2 = appendEvent e (board_rows b1)"
    by (auto simp: save_decision_def Let_def update_interaction_def c(2) example_saved_def)
  have step2: "board_step b1 b2" by (rule Submit [OF s(1)])
  have "\<not> authority_stale (board_rows b2) example_saved"
  proof -
    obtain e e' where "board_rows b2 = appendEvent e' (appendEvent e example_rows)" using s(3) e1 by auto
    then show ?thesis
      using rows(3) it(5) by (simp add: authority_stale_def example_saved_def saved_request_def touch_def)
        (simp add: example_rows_def TERMINAL_STATUSES_def)
  qed
  with step1 step2 s(2) show ?thesis
    by (meson converse_rtranclp_into_rtranclp rtranclp.rtrancl_refl)
qed

lemma example_saved_facts:
  "it_decision example_saved = Some example_decision" "dn_id example_decision = example_id" "open_request example_saved"
  "dn_application example_decision = ''PENDING''" "dn_type example_decision = ''APPROVE''" "it_type example_saved = ''APPROVAL''"
  "it_effect example_saved = None" "it_id example_saved = example_id" "\<not> past_expiry example_bureau example_saved"
  by (simp_all add: example_saved_def saved_request_def touch_def example_decision_def new_decision_def new_interaction_def
      example_question_def example_bureau_def open_request_def OPEN_REQUEST_STATUSES_def past_expiry_def DEFAULT_APPROVAL_TTL_MS_def Let_def)

lemma example_load: "bd_interactions b = [example_saved] \<Longrightarrow> load_interaction example_id b = Some example_saved"
  by (simp add: load_interaction_def example_lower example_saved_facts)

lemma example_uuid: "assertUuid (JStr example_id) ''interactionId'' = Inr example_id"
  by (simp add: assertUuid_def example_lower)

lemma example_applied:
  assumes b: "bd_interactions b = [example_saved]" and "\<not> authority_stale (board_rows b) example_saved"
  shows "\<exists>r b'. applyAgentInteractionDecision example_bureau D (JStr example_id) (JStr example_id) b = (Inr r, b')
     \<and> al_status r = ''APPLIED'' \<and> al_replayed r = JBool False"
proof -
  have c: "current_decision (JStr example_id) example_saved = Some example_decision"
    by (simp add: current_decision_def example_saved_facts)
  have "prepare_application example_bureau example_id (JStr example_id) b = Inr (Ready example_saved example_decision, b)"
    using assms(2) by (simp add: prepare_application_def example_load [OF b] c example_saved_facts settled_applications_def)
  moreover have "approve_for example_bureau D example_saved b = ((JNull, JNull, JNull), b)"
    by (simp add: approve_for_def example_saved_facts)
  ultimately show ?thesis
    using assms(2)
    by (simp add: applyAgentInteractionDecision_def example_uuid transact_def commit_application_def example_load [OF b] c
        example_saved_facts Let_def)
qed

theorem decision_final_witness:
  "\<exists>b b'. board_step\<^sup>*\<^sup>* b b' \<and> load_interaction example_id b = Some example_saved
     \<and> (\<exists>it'. load_interaction example_id b' = Some it' \<and> map_option dn_value (it_decision it') = Some ''APPROVE'')"
proof -
  obtain b where b: "board_step\<^sup>*\<^sup>* example_board b" "bd_interactions b = [example_saved]"
    using example_reached by blast
  obtain p b' where p: "prepare_application example_bureau example_id (JStr example_id) b = Inr (p, b')"
    using preparing_answers by blast
  have "board_ok b" using steps_grown [OF b(1)] by (simp add: board_ok_def example_board_def)
  from decision_final [OF this r_into_rtranclp [of board_step, OF Apply [OF p]] example_load [OF b(2)]]
  have "\<exists>it'. load_interaction example_id b' = Some it' \<and> map_option dn_value (it_decision it') = Some ''APPROVE''"
    by (auto simp: example_saved_facts same_decision_def) (simp add: example_decision_def new_decision_def)
  with Apply [OF p] example_load [OF b(2)] show ?thesis by blast
qed

theorem decisions_agree_witness:
  "\<exists>b. board_step\<^sup>*\<^sup>* example_board b \<and> bd_interactions b = [example_saved] \<and> dn_application example_decision = ''PENDING''"
proof -
  obtain b where b: "board_step\<^sup>*\<^sup>* example_board b" "bd_interactions b = [example_saved]"
    using example_reached by blast
  have "bd_interactions example_board = []" by (simp add: example_board_def)
  from decisions_agree [OF this b(1)] b show ?thesis
    by (auto simp: example_saved_facts)
qed

theorem application_settles_witness:
  "\<exists>b r b'. board_step\<^sup>*\<^sup>* example_board b
     \<and> applyAgentInteractionDecision example_bureau example_directory (JStr example_id) (JStr example_id) b = (Inr r, b')
     \<and> settled_with (al_status r) example_id b'"
proof -
  obtain b where b: "board_step\<^sup>*\<^sup>* example_board b" "bd_interactions b = [example_saved]"
    using example_reached by blast
  have "bd_interactions example_board = []" by (simp add: example_board_def)
  from application_settles [OF this b(1) example_uuid example_load [OF b(2)] example_saved_facts(1)] b(1) show ?thesis
    unfolding example_saved_facts(2) by blast
qed


end
