(* ===== verification/CapabilityGuarantees.thy ===== *)
theory CapabilityGuarantees
  imports InteractionGuarantees
begin

text \<open>
  What holds of the managed capabilities of an agent run under every interleaving: when a dispatch starts, that a stop
  is final, that an effect gets at most one credential and that the credential itself is not kept, that the native
  execution of an effect is always the same, and that waiting for it ends.
\<close>

section \<open>The authorization of a dispatch\<close>

lemma allowed_iff:
  "az_decision (evaluateLiveAuthorization S D approvalApplied rows) = ''ALLOW'' \<longleftrightarrow>
     scope_status rows = ''ACTIVE'' \<and> run_status rows \<notin> set revoked_statuses \<and> root_grant_current rows
     \<and> hasCurrentProjectRead D rows \<and> hasCurrentBrowserPermission D rows \<and> truthy (dir_automation D)
     \<and> automation_allowed (dir_automation D) \<and> policies_allow rows"
  by (auto simp: evaluateLiveAuthorization_def denied_authorization_def loadAutomation_def Let_def automation_allowed_def
      split: sum.splits)

text \<open>The automations that are loaded need no confirmation, so the authorization never asks for an approval itself.\<close>

theorem approval_never_demanded:
  "az_decision (evaluateLiveAuthorization S D approvalApplied rows) \<in> {''ALLOW'', ''DENY''}"
  by (auto simp: evaluateLiveAuthorization_def denied_authorization_def loadAutomation_def Let_def automation_allowed_def
      split: sum.splits)

definition credential_of :: "bureau \<Rightarrow> string \<Rightarrow> jsval \<Rightarrow> desk \<Rightarrow> capability_effect \<Rightarrow> bool" where
  "credential_of B effectId credential d e =
     (\<exists>g t. managed_grant effectId (run_grants (dk_rows d)) = Some g \<and> grant_state g = ''ACTIVE''
        \<and> grant_audience g = JStr MANAGED_CREDENTIAL_AUDIENCE
        \<and> grant_hash g = JStr (hashCredential (bu_services B) credential) \<and> grant_expires g = Some t \<and> bu_now B < t
        \<and> grant_epoch g = scope_epoch (dk_rows d) \<and> ce_epoch e = scope_epoch (dk_rows d))"

lemma credential_valid:
  "isManagedCredentialValid B (managed_grant effectId (run_grants (dk_rows d))) credential (dk_rows d) e
     \<longleftrightarrow> credential_of B effectId credential d e"
  by (auto simp: isManagedCredentialValid_def credential_of_def split: option.splits)

lemma dispatch_begins_iff:
  "(\<exists>e automation context d'. begin_body B D effectId credential worker d = Inr (Started e automation context, d')) \<longleftrightarrow>
     (\<exists>e. load_effect effectId d = Some e \<and> ce_dispatch e \<notin> set settled_dispatch
        \<and> scope_status (dk_rows d) = ''ACTIVE'' \<and> run_status (dk_rows d) \<notin> set revoked_statuses
        \<and> root_grant_current (dk_rows d) \<and> hasCurrentProjectRead D (dk_rows d) \<and> hasCurrentBrowserPermission D (dk_rows d)
        \<and> truthy (dir_automation D) \<and> automation_allowed (dir_automation D) \<and> policies_allow (dk_rows d)
        \<and> credential_of B effectId credential d e)"
proof (cases "load_effect effectId d")
  case (Some e)
  then show ?thesis
    by (auto simp: begin_body_def deny_dispatch_def Let_def allowed_iff credential_valid)
qed (simp add: begin_body_def)


section \<open>Steps and the rows of the run\<close>

lemma settled_rows_scope: "scope_status (settle_rows S v F summary digest rows) = scope_status rows
    \<or> scope_status (settle_rows S v F summary digest rows) = ''RECOVERY_REQUIRED''"
  by (simp add: settle_rows_def Let_def settle_scope_def)

definition scope_ended :: "run_rows \<Rightarrow> bool" where
  "scope_ended rows = (scope_status rows \<noteq> ''ACTIVE'')"

text \<open>The effects that managed grants are for.\<close>

definition credentials :: "run_rows \<Rightarrow> string option list" where
  "credentials rows = map grant_effect (filter (\<lambda>g. grant_kind g = ''MANAGED_CAPABILITY'') (run_grants rows))"

lemma credentials_map:
  "(\<And>g. grant_kind (f g) = grant_kind g \<and> grant_effect (f g) = grant_effect g) \<Longrightarrow>
     map grant_effect (filter (\<lambda>g. grant_kind g = k) (map f gs)) = map grant_effect (filter (\<lambda>g. grant_kind g = k) gs)"
  by (induction gs) auto

lemma settled_credentials [simp]:
  "map grant_effect (filter (\<lambda>g. grant_kind g = k) (map (settle_grant S) gs)) = map grant_effect (filter (\<lambda>g. grant_kind g = k) gs)"
  "map grant_effect (filter (\<lambda>g. grant_kind g = k) (map (revoke_grant B n) gs)) = map grant_effect (filter (\<lambda>g. grant_kind g = k) gs)"
  "map grant_effect (filter (\<lambda>g. grant_kind g = k) (map (revoke_for B n why) gs)) = map grant_effect (filter (\<lambda>g. grant_kind g = k) gs)"
  by (rule credentials_map, simp add: settle_grant_def revoke_grant_def revoke_for_def)+

lemma activity_keeps:
  assumes "body_of S runId a rows = Inr (v, rows')"
  shows "credentials rows' = credentials rows \<and> (scope_ended rows \<longrightarrow> scope_ended rows')"
proof (cases a)
  case (Mark status why)
  with assms show ?thesis
    by (auto simp: mark_body_def Let_def rbind_Inr_iff credentials_def scope_ended_def split: if_splits)
next
  case (Prepare i t)
  with assms show ?thesis
    by (auto simp: prepare_body_def Let_def credentials_def scope_ended_def split: if_splits)
next
  case (Accept arg)
  with assms show ?thesis by (auto simp: acceptance_body_def Let_def credentials_def scope_ended_def)
next
  case (Observe i t rr)
  with assms show ?thesis
    by (auto simp: observation_body_def Let_def rbind_Inr_iff credentials_def scope_ended_def split: option.splits if_splits)
next
  case (Finalize F)
  then have "final_body S runId F rows = Inr (v, rows')" using assms by simp
  then obtain V G events summary digest where r: "rows' = settle_rows S V G summary digest
       (append_all events (settle_cell S V (f_runtimeResult G)
         (settle_operation S V (f_operation G) (f_runtimeResult G) (f_reconciliation G) rows)))"
    by (rule final_body_commits) blast
  show ?thesis
    unfolding r by (auto simp: settle_rows_def Let_def settle_scope_def credentials_def scope_ended_def)
qed

section \<open>Steps and the desk\<close>

text \<open>How an effect evolves: its identity, what it was asked for and its native execution stay, and an effect that does not wait for
  an approval never waits for one again.\<close>

definition effect_evolves :: "capability_effect \<Rightarrow> capability_effect \<Rightarrow> bool" where
  "effect_evolves e e' =
     (ce_id e' = ce_id e \<and> ce_key e' = ce_key e \<and> ce_digest e' = ce_digest e
      \<and> (truthy (ce_execution e) \<longrightarrow> ce_execution e' = ce_execution e)
      \<and> (truthy (ce_workflow e) \<longrightarrow> ce_workflow e' = ce_workflow e)
      \<and> (ce_authority e \<noteq> ''EXPLICIT_APPROVAL_REQUIRED'' \<longrightarrow> ce_authority e' \<noteq> ''EXPLICIT_APPROVAL_REQUIRED''))"

lemma effect_evolves_refl [simp]: "effect_evolves e e"
  by (simp add: effect_evolves_def)

lemma effect_evolves_trans: "effect_evolves a b \<Longrightarrow> effect_evolves b c \<Longrightarrow> effect_evolves a c"
  by (auto simp: effect_evolves_def)

definition desk_ok :: "desk \<Rightarrow> bool" where
  "desk_ok d =
     (distinct (map ce_id (dk_effects d)) \<and> distinct (credentials (dk_rows d))
      \<and> (\<forall>c \<in> set (credentials (dk_rows d)).
           \<exists>e \<in> set (dk_effects d). c = Some (ce_id e) \<and> ce_authority e \<noteq> ''EXPLICIT_APPROVAL_REQUIRED''))"

text \<open>What a step makes of the desk.\<close>

definition desk_grown :: "desk \<Rightarrow> desk \<Rightarrow> bool" where
  "desk_grown d d' =
     (desk_ok d' \<and> (scope_ended (dk_rows d) \<longrightarrow> scope_ended (dk_rows d'))
      \<and> (\<exists>h new. dk_effects d' = map h (dk_effects d) @ new \<and> (\<forall>e \<in> set (dk_effects d). effect_evolves e (h e))))"

text \<open>A step that only updates effects and issues no credential.\<close>

lemma desk_grown_update:
  assumes ok: "desk_ok d" and h: "\<And>e. e \<in> set (dk_effects d) \<Longrightarrow> effect_evolves e (h e)"
    and effects: "dk_effects d' = map h (dk_effects d)" and creds: "credentials (dk_rows d') = credentials (dk_rows d)"
    and scope: "scope_ended (dk_rows d) \<Longrightarrow> scope_ended (dk_rows d')"
  shows "desk_grown d d'"
proof -
  have ids: "map ce_id (map h (dk_effects d)) = map ce_id (dk_effects d)"
    using h by (simp add: effect_evolves_def)
  have "\<exists>e \<in> set (map h (dk_effects d)). c = Some (ce_id e) \<and> ce_authority e \<noteq> ''EXPLICIT_APPROVAL_REQUIRED''"
    if "c \<in> set (credentials (dk_rows d))" for c
  proof -
    have "\<exists>e \<in> set (dk_effects d). c = Some (ce_id e) \<and> ce_authority e \<noteq> ''EXPLICIT_APPROVAL_REQUIRED''"
      using ok that by (simp add: desk_ok_def)
    then obtain e where "e \<in> set (dk_effects d)" "c = Some (ce_id e)" "ce_authority e \<noteq> ''EXPLICIT_APPROVAL_REQUIRED''"
      by blast
    with h [of e] show ?thesis by (intro bexI [of _ "h e"]) (auto simp: effect_evolves_def)
  qed
  then have "desk_ok d'"
    using ok unfolding desk_ok_def effects creds ids by blast
  moreover have "\<exists>h new. dk_effects d' = map h (dk_effects d) @ new \<and> (\<forall>e \<in> set (dk_effects d). effect_evolves e (h e))"
    using h effects by (intro exI [of _ h] exI [of _ "[]"]) simp
  ultimately show ?thesis using scope by (simp add: desk_grown_def)
qed

lemma desk_grown_rows:
  "desk_ok d \<Longrightarrow> dk_effects d' = dk_effects d \<Longrightarrow> credentials (dk_rows d') = credentials (dk_rows d) \<Longrightarrow>
     (scope_ended (dk_rows d) \<Longrightarrow> scope_ended (dk_rows d')) \<Longrightarrow> desk_grown d d'"
  by (rule desk_grown_update [where h = "\<lambda>e. e"]) simp_all

lemma event_keeps [simp]:
  "credentials (appendEvent e rows) = credentials rows" "scope_ended (appendEvent e rows) = scope_ended rows"
  "dk_effects (record_event e d) = dk_effects d" "dk_rows (record_event e d) = appendEvent e (dk_rows d)"
  "dk_rows (update_effect i f d) = dk_rows d"
  "dk_effects (update_effect i f d) = map (\<lambda>e. if ce_id e = i then f e else e) (dk_effects d)"
  by (simp_all add: credentials_def scope_ended_def record_event_def update_rows_def update_effect_def)

text \<open>The two ways to a new credential: a new effect with its grant, and the approval of an effect that waits for it.\<close>

lemma inserted_credentials:
  "insert_grant g rows = Inr rows' \<Longrightarrow> grant_kind g = ''MANAGED_CAPABILITY'' \<Longrightarrow>
     credentials rows' = credentials rows @ [grant_effect g] \<and> scope_ended rows' = scope_ended rows"
  by (auto simp: insert_grant_def credentials_def scope_ended_def split: if_splits)

lemma new_effect_fields [simp]:
  "ce_id (new_effect B operationId turnId caseId cc a rows) = sv_new_id (bu_services B) ''effect''"
  "ce_authority (new_effect B operationId turnId caseId cc a rows) = az_decision a"
  by (simp_all add: new_effect_def Let_def)

lemma new_grant_fields [simp]:
  "grant_kind (new_grant B i effectId extra rows) = ''MANAGED_CAPABILITY''" "grant_effect (new_grant B i effectId extra rows) = Some effectId"
  by (simp_all add: new_grant_def)

lemma desk_grown_inserted:
  assumes ok: "desk_ok d" and fresh: "ce_id e \<notin> ce_id ` set (dk_effects d)" and auth: "ce_authority e = az_decision a"
    and s: "insert_effect B a e d = Inr (p, d')"
  shows "desk_grown d d'"
proof -
  from s obtain rows where rows: "(if az_decision a = ''ALLOW''
        then insert_grant (new_grant B (sv_new_id (bu_services B) ''grant'') (ce_id e) [] (dk_rows d)) (dk_rows d)
        else Inr (dk_rows d)) = Inr rows"
      and d': "dk_effects d' = dk_effects d @ [e]" "credentials (dk_rows d') = credentials rows"
        "scope_ended (dk_rows d') = scope_ended rows"
    by (auto simp: insert_effect_def Let_def rbind_Inr_iff)
  have c: "credentials rows = credentials (dk_rows d) @ (if az_decision a = ''ALLOW'' then [Some (ce_id e)] else [])"
      "scope_ended rows = scope_ended (dk_rows d)"
    using rows inserted_credentials by (auto split: if_splits)
  have "Some (ce_id e) \<notin> set (credentials (dk_rows d))"
    using ok fresh by (auto simp: desk_ok_def)
  then have "desk_ok d'"
    using ok fresh auth c(1) by (auto simp: desk_ok_def d')
  then show ?thesis
    using c(2) d' by (auto simp: desk_grown_def intro!: exI [of _ "\<lambda>e. e"])
qed

lemma approved_evolves: "ce_authority e = ''EXPLICIT_APPROVAL_REQUIRED'' \<Longrightarrow> effect_evolves e (approved_effect B a rows e)"
  by (auto simp: effect_evolves_def approved_effect_def)

lemma load_effect_Some: "load_effect i d = Some e \<Longrightarrow> e \<in> set (dk_effects d) \<and> ce_id e = i"
  by (metis (mono_tags, lifting) load_effect_def find_Some_iff nth_mem)

lemma desk_grown_approved:
  assumes ok: "desk_ok d" and l: "load_effect i d = Some e" and auth: "ce_authority e = ''EXPLICIT_APPROVAL_REQUIRED''"
    and s: "grant_approval B a e d = Inr (p, d')"
  shows "desk_grown d d'"
proof -
  note e = load_effect_Some [OF l]
  have only: "x = e" if "x \<in> set (dk_effects d)" "ce_id x = i" for x
    using ok e that by (auto simp: desk_ok_def distinct_map dest: inj_onD)
  from s e obtain rows where rows: "insert_grant (new_grant B (sv_new_id (bu_services B) ''grant'') i [(''approvalApplied'', JBool True)] (dk_rows d)) (dk_rows d) = Inr rows"
      and d': "dk_effects d' = map (\<lambda>x. if ce_id x = i then approved_effect B a (dk_rows d) x else x) (dk_effects d)"
        "credentials (dk_rows d') = credentials rows" "scope_ended (dk_rows d') = scope_ended rows"
    by (auto simp: grant_approval_def Let_def rbind_Inr_iff)
  from inserted_credentials [OF rows] have c: "credentials rows = credentials (dk_rows d) @ [Some i]"
      "scope_ended rows = scope_ended (dk_rows d)" by simp_all
  have ev: "effect_evolves x (if ce_id x = i then approved_effect B a (dk_rows d) x else x)" if "x \<in> set (dk_effects d)" for x
    using only [OF that] auth by (cases "ce_id x = i") (simp_all add: approved_evolves)
  have new: "Some i \<notin> set (credentials (dk_rows d))"
    using ok only auth by (auto simp: desk_ok_def)
  have "desk_grown d (d'\<lparr>dk_rows := dk_rows d\<rparr>)"
    by (rule desk_grown_update [OF ok ev]) (simp_all add: d')
  moreover have "approved_effect B a (dk_rows d) e \<in> set (dk_effects d')" "ce_id (approved_effect B a (dk_rows d) e) = i"
      "ce_authority (approved_effect B a (dk_rows d) e) \<noteq> ''EXPLICIT_APPROVAL_REQUIRED''"
    using e d'(1) by (auto simp: approved_effect_def image_iff)
  ultimately show ?thesis
    using c new d' by (auto simp: desk_grown_def desk_ok_def)
qed

lemma desk_grown_effect:
  "desk_ok d \<Longrightarrow> (\<And>e. effect_evolves e (f e)) \<Longrightarrow> dk_effects d1 = dk_effects d \<Longrightarrow>
     credentials (dk_rows d1) = credentials (dk_rows d) \<Longrightarrow> (scope_ended (dk_rows d) \<Longrightarrow> scope_ended (dk_rows d1)) \<Longrightarrow>
     desk_grown d (update_effect i f d1)"
  by (rule desk_grown_update [where h = "\<lambda>e. if ce_id e = i then f e else e"]) simp_all

lemma desk_grown_event: "desk_grown d d' \<Longrightarrow> desk_grown d (record_event e d')"
  by (simp add: desk_grown_def desk_ok_def)

lemma desk_grown_refl: "desk_ok d \<Longrightarrow> desk_grown d d"
  by (rule desk_grown_rows) simp_all

lemma stopped_rows [simp]:
  "scope_ended (stop_rows epoch why rows)" "run_grants (stop_rows epoch why rows) = run_grants rows"
  by (simp_all add: stop_rows_def scope_ended_def Let_def)

lemma grants_updated [simp]:
  "credentials (rows\<lparr>run_grants := map (revoke_grant B n) (run_grants rows')\<rparr>) = credentials rows'"
  "credentials (rows\<lparr>run_grants := map (revoke_for B n why) (run_grants rows')\<rparr>) = credentials rows'"
  "scope_ended (rows\<lparr>run_grants := gs\<rparr>) = scope_ended rows"
  by (simp_all add: credentials_def scope_ended_def)

lemma grown_prepare:
  assumes "desk_ok d" and "sv_new_id (bu_services B) ''effect'' \<notin> ce_id ` set (dk_effects d)"
    and "prepare_effect_body B D operationId turnId caseId cc d = Inr (p, d')"
  shows "desk_grown d d'"
  using assms
  by (auto simp: prepare_effect_body_def Let_def desk_grown_refl split: option.splits if_splits
      elim!: desk_grown_inserted [rotated 3])

lemma grown_approve:
  assumes ok: "desk_ok d" and a: "approve_body B D effectId d = Inr (p, d')"
  shows "desk_grown d d'"
proof -
  obtain e where l: "load_effect effectId d = Some e"
    using a by (auto simp: approve_body_def split: option.splits)
  have deny: "desk_grown d c" if "deny_after_approval effectId why d = Inr (q, c)" for why q c
    using that by (auto simp: deny_after_approval_def Let_def simp: effect_evolves_def intro!: desk_grown_effect [OF ok])
  from a l have "d' = d \<or> (\<exists>why. deny_after_approval effectId why d = Inr (p, d'))
      \<or> ce_authority e = ''EXPLICIT_APPROVAL_REQUIRED'' \<and> (\<exists>a. grant_approval B a e d = Inr (p, d'))"
    by (auto simp: approve_body_def Let_def split: if_splits option.splits)
  then show ?thesis
    using desk_grown_refl [OF ok] deny desk_grown_approved [OF ok l] by blast
qed

lemma grown_begin:
  assumes ok: "desk_ok d" and a: "begin_body B D effectId credential worker d = Inr (p, d')"
  shows "desk_grown d d'"
  using assms
  by (auto simp: begin_body_def deny_dispatch_def Let_def desk_grown_refl effect_evolves_def
      split: option.splits if_splits intro!: desk_grown_effect desk_grown_event)

lemma grown_reply: "desk_ok d \<Longrightarrow> started_body e execution d = Inr (p, d') \<Longrightarrow> desk_grown d d'"
  by (auto simp: started_body_def Let_def effect_evolves_def jnull_or_def truthy_not_nullish intro!: desk_grown_effect)

lemma grown_finish: "desk_ok d \<Longrightarrow> finish_body effectId outcome d = Inr (p, d') \<Longrightarrow> desk_grown d d'"
  by (auto simp: finish_body_def Let_def effect_evolves_def intro!: desk_grown_effect)

lemma grown_revoke: "desk_ok d \<Longrightarrow> revoke_before_dispatch_body B runId effectId d = Inr (p, d') \<Longrightarrow> desk_grown d d'"
  by (auto simp: revoke_before_dispatch_body_def Let_def effect_evolves_def split: option.splits intro!: desk_grown_effect desk_grown_event)

lemma grown_cancel_run: "desk_ok d \<Longrightarrow> cancel_run_body B runId who d = Inr (p, d') \<Longrightarrow> desk_grown d d'"
  by (auto simp: cancel_run_body_def Let_def desk_grown_refl split: if_splits intro!: desk_grown_rows)

lemma grown_stop_scope: "desk_ok d \<Longrightarrow> stop_scope_body B scopeId d = Inr (p, d') \<Longrightarrow> desk_grown d d'"
  by (auto simp: stop_scope_body_def Let_def scope_ended_def credentials_def stop_rows_def split: if_splits intro!: desk_grown_rows)

text \<open>The transactions on interactions change the desk only by blocking effects, by events and by the rows of the run.\<close>

definition desk_touched :: "board \<Rightarrow> board \<Rightarrow> bool" where
  "desk_touched b b' = (desk_ok (bd_desk b) \<longrightarrow> desk_grown (bd_desk b) (bd_desk b'))"

lemma touched_refl: "bd_desk b' = bd_desk b \<Longrightarrow> desk_touched b b'"
  by (simp add: desk_touched_def desk_grown_refl)

lemma desk_grown_trans: "desk_grown a b \<Longrightarrow> desk_grown b c \<Longrightarrow> desk_grown a c"
proof -
  assume ab: "desk_grown a b" and bc: "desk_grown b c"
  from ab obtain h new where b: "dk_effects b = map h (dk_effects a) @ new" "\<forall>e \<in> set (dk_effects a). effect_evolves e (h e)"
    unfolding desk_grown_def by blast
  from bc obtain k more where c: "dk_effects c = map k (dk_effects b) @ more" "\<forall>e \<in> set (dk_effects b). effect_evolves e (k e)"
    unfolding desk_grown_def by blast
  have "dk_effects c = map (k \<circ> h) (dk_effects a) @ (map k new @ more)"
    using b(1) c(1) by simp
  moreover have "\<forall>e \<in> set (dk_effects a). effect_evolves e ((k \<circ> h) e)"
    using b c(2) by (auto intro: effect_evolves_trans)
  ultimately have "\<exists>h new. dk_effects c = map h (dk_effects a) @ new \<and> (\<forall>e \<in> set (dk_effects a). effect_evolves e (h e))"
    by blast
  with ab bc show ?thesis by (auto simp: desk_grown_def)
qed

lemma touched_trans: "desk_touched a b \<Longrightarrow> desk_touched b c \<Longrightarrow> desk_touched a c"
  unfolding desk_touched_def by (metis desk_grown_def desk_grown_trans)

lemma touched_event: "desk_touched a b \<Longrightarrow> desk_touched a (note_event e b)"
  by (auto simp: desk_touched_def note_event_def update_desk_def intro: desk_grown_event)

lemma touched_blocked: "desk_touched a b \<Longrightarrow> desk_touched a (markEffectBlocked i why b)"
proof -
  have "desk_touched b (markEffectBlocked i why b)"
    by (auto simp: desk_touched_def markEffectBlocked_def update_desk_def effect_evolves_def desk_grown_refl
        split: option.splits intro!: desk_grown_effect)
  then show "desk_touched a b \<Longrightarrow> desk_touched a (markEffectBlocked i why b)" by (rule touched_trans [rotated])
qed

lemma touched_interactions:
  "desk_touched a b \<Longrightarrow> desk_touched a (update_interaction i f b)" "desk_touched a b \<Longrightarrow> desk_touched a (b\<lparr>bd_interactions := its\<rparr>)"
  "desk_touched a b \<Longrightarrow> desk_touched a (b\<lparr>bd_outbox := ob\<rparr>)"
  by (simp_all add: desk_touched_def update_interaction_def)

lemma touched_rows:
  "credentials (h (board_rows b)) = credentials (board_rows b) \<Longrightarrow> (scope_ended (board_rows b) \<Longrightarrow> scope_ended (h (board_rows b))) \<Longrightarrow>
     desk_touched b (update_desk (update_rows h) b)"
  by (auto simp: desk_touched_def update_desk_def update_rows_def intro: desk_grown_rows)

lemmas touched = touched_event touched_blocked touched_interactions touched_refl

lemma touched_expired: "desk_touched b (snd (expireLockedInteraction B it b))"
  by (simp add: expireLockedInteraction_def Let_def touched)

lemma touched_canceled: "desk_touched a b \<Longrightarrow> desk_touched a (foldl (cancel_one B why) b rows)"
  by (induction rows arbitrary: b) (simp_all add: cancel_one_def touched)

lemma touched_created:
  assumes "create_body B Q b = Inr (v, b')"
  shows "desk_touched b b'"
proof -
  have "desk_touched b (update_desk (update_rows (await_interaction t)) (b\<lparr>bd_interactions := its\<rparr>))" for t its
    by (rule touched_trans [OF _ touched_rows])
      (auto simp: touched await_interaction_def credentials_def scope_ended_def)
  with assms show ?thesis
    by (auto simp: create_body_def Let_def rbind_Inr_iff touched split: option.splits)
qed

lemma touched_applying:
  "prepare_application B i decisionId b = Inr (p, b') \<Longrightarrow> desk_touched b b'"
  "commit_application B i decisionId it dn verdict b = Inr (r, b') \<Longrightarrow> desk_touched b b'"
  by (auto simp: prepare_application_def commit_application_def block_application_def reject_application_def Let_def touched
      touched_expired split: option.splits if_splits prod.splits)

lemma touched_submitted: "submit_body B A i actor v body b = Inr (s, b') \<Longrightarrow> desk_touched b b'"
  by (auto simp: submit_body_def decide_body_def save_decision_def Let_def rbind_Inr_iff touched touched_expired
      split: option.splits if_splits prod.splits)

lemma touched_cleared: "clear_body B runId safe b = Inr (v, b') \<Longrightarrow> desk_touched b b'"
  by (auto simp: clear_body_def Let_def touched clear_rows_def credentials_def scope_ended_def
      split: option.splits intro!: touched_event touched_rows)

lemma step_touched:
  assumes "board_step b b'"
  shows "desk_touched b b'"
  using assms
proof cases
  case (Activity S runId a v rows)
  with activity_keeps [OF Activity(2)] show ?thesis by (auto intro!: touched_rows)
next
  case (Policies c)
  then show ?thesis by (auto intro!: touched_rows simp: credentials_def scope_ended_def)
next
  case (Fence e)
  then show ?thesis by (auto intro!: touched_rows simp: credentials_def scope_ended_def)
next
  case (Load B i v)
  then show ?thesis
    using touched_expired [of b B] by (auto simp: load_body_def Let_def touched split: option.splits prod.splits if_splits) (metis snd_conv)
next
  case (Acknowledge B i decisionId v)
  then show ?thesis by (auto simp: acknowledge_body_def touched split: option.splits if_splits)
next
  case (Expire B i v)
  then show ?thesis by (auto simp: expire_body_def touched touched_expired split: option.splits)
next
  case (Cancel B runId why v)
  then show ?thesis by (auto simp: cancel_body_def Let_def intro: touched_canceled touched_refl)
qed (auto simp: desk_touched_def intro: grown_prepare grown_approve grown_begin grown_reply grown_finish grown_revoke
      grown_cancel_run grown_stop_scope dest: touched_created touched_applying touched_submitted touched_cleared)

lemma steps_touched:
  assumes "board_step\<^sup>*\<^sup>* b b'" and "desk_ok (bd_desk b)"
  shows "desk_grown (bd_desk b) (bd_desk b')"
  using assms
proof (induction rule: rtranclp_induct)
  case base
  then show ?case by (rule desk_grown_refl)
next
  case (step c d)
  then have "desk_grown (bd_desk b) (bd_desk c)" by blast
  moreover have "desk_grown (bd_desk c) (bd_desk d)"
    using step_touched [OF step(2)] calculation by (simp add: desk_touched_def desk_grown_def)
  ultimately show ?case by (rule desk_grown_trans)
qed

section \<open>Stops are final\<close>

lemma ended_denies:
  assumes "scope_ended (dk_rows d)"
  shows "begin_body B D effectId credential worker d \<noteq> Inr (Started e automation context, d')"
    and "approve_body B D effectId d = Inr (p, d') \<Longrightarrow> ap_request p = JNull"
    and "prepare_effect_body B D operationId turnId caseId cc d = Inr (q, d') \<Longrightarrow> \<not> pe_replayed q \<Longrightarrow>
           pe_decision q = ''DENY'' \<and> jget (pe_request q) ''credential'' = JNull"
proof -
  have a: "az_decision (evaluateLiveAuthorization S D approvalApplied (dk_rows d)) = ''DENY''" for S D approvalApplied
    using assms by (simp add: evaluateLiveAuthorization_def denied_authorization_def scope_ended_def)
  show "begin_body B D effectId credential worker d \<noteq> Inr (Started e automation context, d')"
    by (auto simp: begin_body_def deny_dispatch_def Let_def a split: option.splits)
  show "approve_body B D effectId d = Inr (p, d') \<Longrightarrow> ap_request p = JNull"
    by (auto simp: approve_body_def deny_after_approval_def refused_def Let_def a split: option.splits if_splits)
  show "prepare_effect_body B D operationId turnId caseId cc d = Inr (q, d') \<Longrightarrow> \<not> pe_replayed q \<Longrightarrow>
      pe_decision q = ''DENY'' \<and> jget (pe_request q) ''credential'' = JNull"
    by (auto simp: prepare_effect_body_def replayed_effect_def insert_effect_def case_authorization_def capability_request_def
        Let_def a split: option.splits if_splits)
qed

text \<open>A revocation denies an effect whose automation was started already, and reports that it was not; when the automation ends, the
  denial is overwritten.\<close>

theorem denied_after_start:
  assumes "load_effect effectId d = Some e" and "ce_dispatch e = ''RECONCILING''"
    and "revoke_before_dispatch_body B runId effectId d = Inr (v, d')"
  shows "\<exists>e'. load_effect effectId d' = Some e' \<and> ce_dispatch e' = ''DENIED'' \<and> ce_browser_run e' = ce_browser_run e
     \<and> (\<exists>d'' view. finish_body effectId (observed_outcome False workflowId (JObj [(''status'', JStr ''SUCCESS'')])) d' = Inr (view, d'')
          \<and> map_option ce_dispatch (load_effect effectId d'') = Some ''COMPLETED'')"
proof -
  have l: "load_effect i (update_effect i f c) = map_option f (load_effect i c)" if "\<And>e. ce_id (f e) = ce_id e" for i f c
    using find_updated [of ce_id f i i] that by (simp add: load_effect_def update_effect_def)
  have k: "load_effect i (record_event ev c) = load_effect i c" "load_effect i (c\<lparr>dk_rows := rows\<rparr>) = load_effect i c" for i ev c rows
    by (simp_all add: load_effect_def)
  have "browser_status (JObj [(''status'', JStr ''SUCCESS'')]) (JStr ''UNKNOWN'') = ''SUCCESS''" by code_simp
  with assms show ?thesis
    by (auto simp: revoke_before_dispatch_body_def finish_body_def Let_def l k observed_outcome_def)
qed

text \<open>The three requests that stop a run.\<close>

inductive stops :: "desk \<Rightarrow> desk \<Rightarrow> bool" where
  Run_Canceled: "run_status (dk_rows d) \<notin> set ended_statuses \<Longrightarrow> cancel_run_body B runId who d = Inr (v, d') \<Longrightarrow> stops d d'"
| Scope_Stopped: "stop_scope_body B scopeId d = Inr (v, d') \<Longrightarrow> stops d d'"
| Revoked: "revoke_before_dispatch_body B runId effectId d = Inr (v, d') \<Longrightarrow> stops d d'"

lemma stops_end: "stops d d' \<Longrightarrow> scope_ended (dk_rows d')"
  by (induction rule: stops.induct)
    (auto simp: cancel_run_body_def stop_scope_body_def revoke_before_dispatch_body_def Let_def scope_ended_def stop_rows_def
      split: option.splits if_splits)

lemma stops_keep: "desk_ok d \<Longrightarrow> stops d d' \<Longrightarrow> desk_ok d'"
  by (erule stops.cases) (auto dest: grown_cancel_run grown_stop_scope grown_revoke simp: desk_grown_def)

text \<open>C17 (stop_is_final): once a run was canceled, its scope stopped or its capability revoked, then whatever happens on the board no dispatch
  starts, no approval hands out a credential, and every new effect is denied without one.\<close>

theorem stop_is_final:
  assumes "desk_ok (bd_desk b)" and "stops (bd_desk b) d" and "board_step\<^sup>*\<^sup>* (b\<lparr>bd_desk := d\<rparr>) b'"
  shows "begin_body B D effectId credential worker (bd_desk b') \<noteq> Inr (Started e automation context, d')
    \<and> (case approve_body B D effectId (bd_desk b') of Inl err \<Rightarrow> True | Inr (p, d') \<Rightarrow> ap_request p = JNull)
    \<and> (case prepare_effect_body B D operationId turnId caseId cc (bd_desk b') of
          Inl err \<Rightarrow> True
        | Inr (q, d') \<Rightarrow> pe_replayed q \<or> pe_decision q = ''DENY'' \<and> jget (pe_request q) ''credential'' = JNull)"
proof -
  have "desk_grown d (bd_desk b')"
    using steps_touched [OF assms(3)] stops_keep [OF assms(1,2)] by simp
  then have "scope_ended (board_rows b')"
    using stops_end [OF assms(2)] by (simp add: desk_grown_def)
  from ended_denies [OF this] show ?thesis
    by (auto split: sum.splits prod.splits)
qed

section \<open>Credentials and native executions\<close>

text \<open>C22 (one_credential): on every board that grew from one without effects and managed grants, an effect has at most one managed
  grant, and none while it waits for an approval; so approving never meets a credential issued before or the unique index.\<close>

theorem one_credential:
  assumes "dk_effects (bd_desk b) = []" and "credentials (board_rows b) = []" and "board_step\<^sup>*\<^sup>* b b'"
  shows "distinct (credentials (board_rows b'))
     \<and> list_all (\<lambda>e. ce_authority e = ''EXPLICIT_APPROVAL_REQUIRED'' \<longrightarrow> managed_grant (ce_id e) (run_grants (board_rows b')) = None)
          (dk_effects (bd_desk b'))
     \<and> (case approve_body B D effectId (bd_desk b') of
          Inl err \<Rightarrow> jget err ''code'' = JStr ''AGENT_CAPABILITY_EFFECT_NOT_FOUND''
        | Inr _ \<Rightarrow> True)"
proof -
  have "desk_ok (bd_desk b)" using assms(1,2) by (simp add: desk_ok_def)
  from steps_touched [OF assms(3) this] have ok: "desk_ok (bd_desk b')" by (simp add: desk_grown_def)
  have free: "Some (ce_id e) \<notin> set (credentials (board_rows b'))"
    if "e \<in> set (dk_effects (bd_desk b'))" "ce_authority e = ''EXPLICIT_APPROVAL_REQUIRED''" for e
    using ok that by (auto simp: desk_ok_def distinct_map dest: inj_onD)
  have ins: "\<exists>rows. insert_grant (new_grant B i (ce_id e) extra (board_rows b')) (board_rows b') = Inr rows"
    if "e \<in> set (dk_effects (bd_desk b'))" "ce_authority e = ''EXPLICIT_APPROVAL_REQUIRED''" for e B i extra
    using free [OF that] by (auto simp: insert_grant_def credentials_def list_ex_iff image_iff)
  have none: "managed_grant (ce_id e) (run_grants (board_rows b')) = None"
    if "e \<in> set (dk_effects (bd_desk b'))" "ce_authority e = ''EXPLICIT_APPROVAL_REQUIRED''" for e
    using free [OF that] by (auto simp: managed_grant_def find_None_iff credentials_def image_iff)
  have "case approve_body B D effectId (bd_desk b') of
      Inl err \<Rightarrow> jget err ''code'' = JStr ''AGENT_CAPABILITY_EFFECT_NOT_FOUND''
    | Inr _ \<Rightarrow> True"
  proof (cases "load_effect effectId (bd_desk b')")
    case None
    then show ?thesis by (simp add: approve_body_def capability_error_def)
  next
    case (Some e)
    note m = load_effect_Some [OF this]
    show ?thesis
    proof (cases "ce_authority e = ''EXPLICIT_APPROVAL_REQUIRED''")
      case True
      then obtain rows where "insert_grant (new_grant B (sv_new_id (bu_services B) ''grant'') (ce_id e) [(''approvalApplied'', JBool True)] (board_rows b')) (board_rows b') = Inr rows"
        using ins m by blast
      with Some show ?thesis
        by (auto simp: approve_body_def grant_approval_def deny_after_approval_def refused_def Let_def
            split: sum.splits option.splits prod.splits if_splits)
    next
      case False
      with Some show ?thesis by (simp add: approve_body_def refused_def Let_def)
    qed
  qed
  with ok none show ?thesis by (simp add: list_all_iff desk_ok_def)
qed

text \<open>the native execution and workflow that an effect was given never change, and every request to
  start the effect names them.\<close>

theorem native_execution_fixed:
  assumes "desk_ok (bd_desk b)" and "load_effect effectId (bd_desk b) = Some e" and "truthy (ce_execution e)" and "truthy (ce_workflow e)"
    and "board_step\<^sup>*\<^sup>* b b'" and "begin_body B D effectId credential worker (bd_desk b') = Inr (Started e' automation context, d')"
  shows "jget (start_request e' automation context) ''preallocatedExecution''
     = JObj [(''executionId'', ce_execution e), (''workflowId'', ce_workflow e)]"
proof -
  note e = load_effect_Some [OF assms(2)]
  from steps_touched [OF assms(5,1)] obtain h new where h: "dk_effects (bd_desk b') = map h (dk_effects (bd_desk b)) @ new"
      "\<forall>x \<in> set (dk_effects (bd_desk b)). effect_evolves x (h x)" and ok: "desk_ok (bd_desk b')"
    unfolding desk_grown_def by blast
  have l: "load_effect effectId (bd_desk b') = Some e'"
    using assms(6) by (auto simp: begin_body_def deny_dispatch_def Let_def split: option.splits if_splits)
  have "h e \<in> set (dk_effects (bd_desk b'))" "ce_id (h e) = effectId"
    using h e by (auto simp: effect_evolves_def)
  with load_effect_Some [OF l] ok have "e' = h e"
    by (auto simp: desk_ok_def distinct_map dest: inj_onD)
  with h(2) e assms(3,4) show ?thesis
    by (auto simp: effect_evolves_def start_request_def)
qed

text \<open>what a preparation or an approval leaves in the database depends on the credential it
  made only through its hash; so do its answers, except for the request to the runtime.\<close>

theorem credential_not_stored:
  assumes "hashCredential (bu_services B) (JStr c) = hashCredential (bu_services B) (JStr c')"
  shows "map_sum id (apfst (\<lambda>p. p\<lparr>pe_request := JNull\<rparr>)) (prepare_effect_body (B\<lparr>bu_credential := c\<rparr>) D operationId turnId caseId cc d)
       = map_sum id (apfst (\<lambda>p. p\<lparr>pe_request := JNull\<rparr>)) (prepare_effect_body (B\<lparr>bu_credential := c'\<rparr>) D operationId turnId caseId cc d)
    \<and> map_sum id (apfst (\<lambda>p. p\<lparr>ap_request := JNull\<rparr>)) (approve_body (B\<lparr>bu_credential := c\<rparr>) D effectId d)
       = map_sum id (apfst (\<lambda>p. p\<lparr>ap_request := JNull\<rparr>)) (approve_body (B\<lparr>bu_credential := c'\<rparr>) D effectId d)"
proof -
  let ?B = "\<lambda>c. B\<lparr>bu_credential := c\<rparr>"
  have g: "new_grant (?B c) i effectId extra rows = new_grant (?B c') i effectId extra rows" for i effectId extra rows
    using assms by (simp add: new_grant_def)
  have e: "new_effect (?B c) operationId turnId caseId cc a rows = new_effect (?B c') operationId turnId caseId cc a rows"
      "approved_effect (?B c) a rows = approved_effect (?B c') a rows"
      "case_authorization (?B c) D cc rows = case_authorization (?B c') D cc rows"
      "capability_event (?B c) = capability_event (?B c')" "decided_event (?B c) = decided_event (?B c')" for a rows
    by (simp_all add: new_effect_def approved_effect_def case_authorization_def capability_event_def decided_event_def
        effect_columns_def buildWorkflowId_def fun_eq_iff Let_def)
  have i: "map_sum id (apfst (\<lambda>p. p\<lparr>pe_request := JNull\<rparr>)) (insert_effect (?B c) a x d)
      = map_sum id (apfst (\<lambda>p. p\<lparr>pe_request := JNull\<rparr>)) (insert_effect (?B c') a x d)" for a x
    by (cases "if az_decision a = ''ALLOW'' then insert_grant (new_grant (?B c') (sv_new_id (bu_services B) ''grant'') (ce_id x) [] (dk_rows d)) (dk_rows d)
          else Inr (dk_rows d)") (simp_all add: insert_effect_def g e Let_def del: if_split)
  have j: "map_sum id (apfst (\<lambda>p. p\<lparr>ap_request := JNull\<rparr>)) (grant_approval (?B c) a x d)
      = map_sum id (apfst (\<lambda>p. p\<lparr>ap_request := JNull\<rparr>)) (grant_approval (?B c') a x d)" for a x
    by (cases "insert_grant (new_grant (?B c') (sv_new_id (bu_services B) ''grant'') (ce_id x) [(''approvalApplied'', JBool True)] (dk_rows d)) (dk_rows d)")
      (simp_all add: grant_approval_def g e Let_def)
  show ?thesis
    by (auto simp: prepare_effect_body_def approve_body_def e i j Let_def split: option.split)
qed

section \<open>Waiting for the automation\<close>

text \<open>when each poll comes at least a second after the one before, waiting for the automation ends within 92 polls.\<close>

theorem browser_wait_ends:
  assumes "92 \<le> length polls" and "\<forall>k < length polls. started + 1000 * int k \<le> fst (polls ! k)"
  shows "\<exists>r. waitForBrowserResult started current polls = Some r"
proof -
  have "\<exists>r. waitForBrowserResult started current polls = Some r"
    if "92 \<le> length polls + n" "\<forall>k < length polls. started + 1000 * int (k + n) \<le> fst (polls ! k)" "n \<le> 91" for polls n
    using that
  proof (induction polls arbitrary: n current)
    case (Cons p polls)
    obtain t reply where p: "p = (t, reply)" by (cases p)
    have t: "started + 1000 * int n \<le> t" using Cons.prems(2) p by force
    show ?case
    proof (cases "n = 91")
      case True
      with t p show ?thesis by (simp add: BROWSER_WAIT_TIMEOUT_MS_def)
    next
      case False
      have rest: "\<forall>k < length polls. started + 1000 * int (k + Suc n) \<le> fst (polls ! k)"
        using Cons.prems(2) by auto
      have "\<exists>r. waitForBrowserResult started current' polls = Some r" for current'
        by (rule Cons.IH [OF _ rest]) (use Cons.prems(1,3) False in auto)
      then show ?thesis using p by (simp split: sum.split)
    qed
  qed simp
  from this [of polls 0] assms show ?thesis by simp
qed

section \<open>An example\<close>

text \<open>A run of an internal service whose policies allow everything, with one effect and its credential.\<close>

definition open_policy :: jsval where
  "open_policy = JObj
     [(''scope'', JObj (map (\<lambda>(k, v). (k, JArr [JStr v])) required_scope)),
      (''executionSurfaces'', JObj [(''surfaces'', JArr [JObj [(''surface'', JStr CAPABILITY_SURFACE), (''mode'', JStr ''ALLOW'')]])]),
      (''managedCapabilityAllowlist'', JObj [(''kind'', JStr CAPABILITY_KIND), (''codes'', JArr [JStr CAPABILITY_CODE]),
        (''version'', JStr CAPABILITY_VERSION)])]"

definition open_directory :: directory where
  "open_directory = example_directory\<lparr>dir_automation := JObj
     [(''automationCode'', JStr CAPABILITY_CODE), (''scriptRepository'', JObj [(''repoCode'', JStr ''SkyCommand'')]),
      (''sideEffectLevel'', JStr ''READ_ONLY''), (''idempotencyMode'', JStr ''READ_ONLY''),
      (''permissionCode'', JStr ''BROWSER_AUTOMATION_RUN''),
      (''environments'', JArr [JObj [(''enabled'', JBool True), (''environmentCode'', JStr CAPABILITY_ENVIRONMENT)]])]\<rparr>"

definition open_effect :: capability_effect where
  "open_effect = new_effect example_bureau JNull JNull (JStr ''browser-capability-success'') \<lparr>duplicateDeliveries = 1, requiresApproval = False\<rparr>
     ((denied_authorization [])\<lparr>az_decision := ''ALLOW''\<rparr>) example_rows"

definition open_desk :: desk where
  "open_desk = \<lparr>dk_rows = example_rows\<lparr>run_status := ''RUNNING'',
       run_columns := JObj (map (\<lambda>k. (k, open_policy)) [''authority_policy'', ''workspace_policy'', ''definition_configuration'',
         ''capability_policy'', ''capability_manifest'', ''account_policy'']
         @ [(''initiating_actor_kind'', JStr ''INTERNAL_SERVICE''), (''initiating_actor_id'', JStr ''internal:agent-run''),
            (''initiating_principal_id'', JStr example_id)]),
       run_grants := run_grants example_rows @ [new_grant example_bureau example_id (ce_id open_effect) [] example_rows]\<rparr>,
     dk_effects = [open_effect]\<rparr>"

definition open_board :: board where
  "open_board = example_board\<lparr>bd_desk := open_desk\<rparr>"

lemma open_policy_allows: "policyScopeAllows open_policy" "policySurfaceAllows open_policy" "policyCapabilityAllows open_policy"
  by code_simp+

lemma open_automation: "truthy (dir_automation open_directory)" "automation_allowed (dir_automation open_directory)"
  by code_simp+

lemma open_columns:
  "run_policies (dk_rows open_desk) = replicate 6 open_policy" "isAuthorizedInternalServiceRun open_directory (dk_rows open_desk)"
  by (simp_all add: run_policies_def open_desk_def column_def numeral_eq_Suc isAuthorizedInternalServiceRun_def
      open_directory_def example_directory_def example_id_def)

lemma open_effect_facts:
  "ce_id open_effect = example_id" "ce_dispatch open_effect = ''INTENT''" "ce_epoch open_effect = 0" "ce_authority open_effect = ''ALLOW''"
  "truthy (ce_execution open_effect)" "truthy (ce_workflow open_effect)"
  by (simp_all add: open_effect_def new_effect_def Let_def example_bureau_def run_epochs_def example_rows_def example_id_def
      denied_authorization_def buildWorkflowId_def)

lemma open_starts: "\<exists>e automation context d'. begin_body example_bureau open_directory example_id JNull JNull open_desk = Inr (Started e automation context, d')"
proof -
  have l: "load_effect example_id open_desk = Some open_effect"
    by (simp add: load_effect_def open_desk_def open_effect_facts)
  have "credential_of example_bureau example_id JNull open_desk open_effect"
    by (simp add: credential_of_def open_desk_def managed_grant_def new_grant_def example_rows_def open_effect_facts
        run_epochs_def hashCredential_def example_bureau_def CREDENTIAL_TTL_MS_def example_services_def to_upper_def)
  moreover have "root_grant_current (dk_rows open_desk)"
    by (simp add: root_grant_current_def root_grant_def open_desk_def example_rows_def)
  moreover have "policies_allow (dk_rows open_desk)"
    by (simp add: policies_allow_def open_columns open_policy_allows numeral_eq_Suc)
  moreover have "scope_status (dk_rows open_desk) = ''ACTIVE''" "run_status (dk_rows open_desk) \<notin> set revoked_statuses"
    by (simp_all add: open_desk_def example_rows_def revoked_statuses_def)
  moreover have "hasCurrentProjectRead open_directory (dk_rows open_desk)" "hasCurrentBrowserPermission open_directory (dk_rows open_desk)"
    using open_columns(2) by (simp_all add: hasCurrentProjectRead_def hasCurrentBrowserPermission_def)
      (simp add: open_directory_def example_directory_def)
  ultimately show ?thesis
    unfolding dispatch_begins_iff using l open_automation by (auto simp: open_effect_facts settled_dispatch_def)
qed

lemma open_ok: "desk_ok (bd_desk open_board)"
  by (simp add: desk_ok_def open_board_def open_desk_def credentials_def example_rows_def open_effect_facts)

theorem stop_is_final_witness:
  "\<exists>d. stops open_desk d \<and> begin_body example_bureau open_directory example_id JNull JNull d \<noteq> Inr (Started open_effect JNull JNull, d)"
proof -
  obtain v d where "stop_scope_body example_bureau example_id open_desk = Inr (v, d)"
    by (simp add: stop_scope_body_def Let_def)
  then have s: "stops (bd_desk open_board) d" using Scope_Stopped by (simp add: open_board_def)
  from stop_is_final [OF open_ok s rtranclp.rtrancl_refl] have "begin_body example_bureau open_directory example_id JNull JNull d \<noteq> Inr (Started open_effect JNull JNull, d)"
    by simp
  with s show ?thesis by (auto simp: open_board_def)
qed

theorem one_credential_witness:
  "\<exists>b. board_step\<^sup>*\<^sup>* example_board b \<and> length (dk_effects (bd_desk b)) = 1 \<and> distinct (credentials (board_rows b))"
proof -
  let ?cc = "\<lparr>duplicateDeliveries = 1, requiresApproval = False\<rparr>"
  let ?a = "case_authorization example_bureau example_directory ?cc example_rows"
  let ?e = "new_effect example_bureau JNull JNull (JStr []) ?cc ?a example_rows"
  have "az_decision ?a = ''DENY''"
    by (simp add: case_authorization_def evaluateLiveAuthorization_def denied_authorization_def Let_def hasCurrentProjectRead_def
        isAuthorizedInternalServiceRun_def example_rows_def column_def)
  then obtain p d where p: "prepare_effect_body example_bureau example_directory JNull JNull (JStr []) ?cc (bd_desk example_board) = Inr (p, d)"
      "dk_effects d = [?e]"
    by (simp add: prepare_effect_body_def example_board_def insert_effect_def Let_def)
  have s: "board_step\<^sup>*\<^sup>* example_board (example_board\<lparr>bd_desk := d\<rparr>)"
    by (rule r_into_rtranclp, rule Prepare_Effect [OF _ p(1)]) (simp add: example_board_def)
  from one_credential [OF _ _ s] have "distinct (credentials (board_rows (example_board\<lparr>bd_desk := d\<rparr>)))"
    by (simp add: example_board_def credentials_def example_rows_def)
  with s p(2) show ?thesis by (intro exI [of _ "example_board\<lparr>bd_desk := d\<rparr>"]) simp
qed

theorem native_execution_fixed_witness:
  "\<exists>e automation context d'. begin_body example_bureau open_directory example_id JNull JNull open_desk = Inr (Started e automation context, d')
     \<and> jget (start_request e automation context) ''preallocatedExecution''
         = JObj [(''executionId'', ce_execution open_effect), (''workflowId'', ce_workflow open_effect)]"
proof -
  obtain e automation ctx d' where b: "begin_body example_bureau open_directory example_id JNull JNull (bd_desk open_board) = Inr (Started e automation ctx, d')"
    using open_starts by (auto simp: open_board_def)
  have "load_effect example_id (bd_desk open_board) = Some open_effect"
    by (simp add: load_effect_def open_board_def open_desk_def open_effect_facts)
  from native_execution_fixed [OF open_ok this open_effect_facts(5,6) rtranclp.rtrancl_refl b] b show ?thesis
    by (auto simp: open_board_def)
qed

theorem credential_not_stored_witness:
  "hashCredential (bu_services example_bureau) (JStr ''a'') = hashCredential (bu_services example_bureau) (JStr ''b'')
   \<and> map_sum id (apfst (\<lambda>p. p\<lparr>ap_request := JNull\<rparr>)) (approve_body (example_bureau\<lparr>bu_credential := ''a''\<rparr>) open_directory example_id open_desk)
     = map_sum id (apfst (\<lambda>p. p\<lparr>ap_request := JNull\<rparr>)) (approve_body (example_bureau\<lparr>bu_credential := ''b''\<rparr>) open_directory example_id open_desk)"
proof -
  have h: "hashCredential (bu_services example_bureau) (JStr ''a'') = hashCredential (bu_services example_bureau) (JStr ''b'')"
    by (simp add: hashCredential_def example_bureau_def example_services_def)
  from credential_not_stored [OF h] h show ?thesis by blast
qed

theorem browser_wait_ends_witness:
  "\<exists>r. waitForBrowserResult 0 JNull (map (\<lambda>k. (1000 * int k, Inr JNull)) [0..<92]) = Some r"
  by (rule browser_wait_ends) simp_all

end
