(* ===== verification/SourceRequests.thy ===== *)
theory SourceRequests
  imports JsPrelude
begin

text \<open>
  Requests to data sources (\<open>packages/ingestion/src/core/sourceRequestPolicy.js\<close>, \<open>retryExecutor.js\<close> and
  \<open>httpSourceClient.js\<close>): the policy of a source, the classification of a failed request, the delay before the next
  attempt, and the loop that makes the attempts.  What the world does during one attempt - the clock, the answer of the
  request, the random number, the observer of attempts - is a \<open>trial\<close>; a run reads a list of them.
\<close>

section \<open>The policy of a source\<close>

definition DEFAULT_RETRYABLE_HTTP_STATUSES :: "int list" where
  "DEFAULT_RETRYABLE_HTTP_STATUSES = [408, 425, 429, 500, 502, 503, 504]"

definition DEFAULT_RETRYABLE_ERROR_CODES :: "string list" where
  "DEFAULT_RETRYABLE_ERROR_CODES =
     [''ECONNABORTED'', ''ECONNREFUSED'', ''ECONNRESET'', ''EAI_AGAIN'', ''ENETDOWN'', ''ENETUNREACH'', ''ENOTFOUND'',
      ''ERR_NETWORK'', ''ETIMEDOUT'']"

record request_policy =
  rp_domain :: "string option"
  rp_source :: "string option"
  rp_timeout :: int
  rp_attempts :: int
  rp_base :: int
  rp_max :: int
  rp_elapsed :: int
  rp_jitter :: rat
  rp_respect :: jsval
  rp_statuses :: "int list"
  rp_codes :: "string list"
  rp_configuration :: jsval
  rp_active :: bool

definition normalizeCode :: "jsval \<Rightarrow> string option" where
  "normalizeCode v = (let s = to_upper (trim (to_str (jor v (JStr [])))) in if s = [] then None else Some s)"

definition positiveInteger :: "jsval \<Rightarrow> int \<Rightarrow> int \<Rightarrow> int" where
  "positiveInteger v fallback cap =
     (case parse_int v of None \<Rightarrow> fallback | Some n \<Rightarrow> if n \<le> 0 then fallback else min n cap)"

definition nonNegativeInteger :: "jsval \<Rightarrow> int \<Rightarrow> int \<Rightarrow> int" where
  "nonNegativeInteger v fallback cap =
     (case parse_int v of None \<Rightarrow> fallback | Some n \<Rightarrow> if n < 0 then fallback else min n cap)"

definition normalizeNumberArray :: "jsval \<Rightarrow> int list \<Rightarrow> int list" where
  "normalizeNumberArray v fallback =
     (case v of JArr vs \<Rightarrow> first_of_each (List.map_filter parse_int vs) | _ \<Rightarrow> first_of_each fallback)"

definition normalizeCodeArray :: "jsval \<Rightarrow> string list \<Rightarrow> string list" where
  "normalizeCodeArray v fallback =
     (case v of JArr vs \<Rightarrow> first_of_each (List.map_filter normalizeCode vs)
      | _ \<Rightarrow> first_of_each (List.map_filter (\<lambda>s. normalizeCode (JStr s)) fallback))"

text \<open>\<open>row.camelCase ?? row.snake_case\<close>.\<close>

definition either_name :: "jsval \<Rightarrow> string \<Rightarrow> string \<Rightarrow> jsval" where
  "either_name row camel snake = jnull_or (jget row camel) (jget row snake)"

definition normalizeSourceRequestPolicy :: "jsval \<Rightarrow> request_policy" where
  "normalizeSourceRequestPolicy row =
     (let base = nonNegativeInteger (either_name row ''baseDelayMs'' ''base_delay_ms'') 750 60000
      in \<lparr>rp_domain = normalizeCode (either_name row ''domainCode'' ''domain_code''),
          rp_source = normalizeCode (either_name row ''sourceCode'' ''source_code''),
          rp_timeout = positiveInteger (either_name row ''requestTimeoutMs'' ''request_timeout_ms'') 60000 900000,
          rp_attempts = positiveInteger (either_name row ''maxAttempts'' ''max_attempts'') 4 20,
          rp_base = base,
          rp_max = max base (nonNegativeInteger (either_name row ''maxDelayMs'' ''max_delay_ms'') 10000 300000),
          rp_elapsed = positiveInteger (either_name row ''maxElapsedMs'' ''max_elapsed_ms'') 180000 3600000,
          rp_jitter = (case finite_num (either_name row ''jitterRatio'' ''jitter_ratio'') of
             Some r \<Rightarrow> min (max r 0) 1 | None \<Rightarrow> 1 / 5),
          rp_respect = jnull_or (either_name row ''respectRetryAfter'' ''respect_retry_after'') (JBool True),
          rp_statuses = normalizeNumberArray (either_name row ''retryableHttpStatuses'' ''retryable_http_statuses'')
             DEFAULT_RETRYABLE_HTTP_STATUSES,
          rp_codes = normalizeCodeArray (either_name row ''retryableErrorCodes'' ''retryable_error_codes'')
             DEFAULT_RETRYABLE_ERROR_CODES,
          rp_configuration = (case jget row ''configuration'' of JObj c \<Rightarrow> JObj c | JArr vs \<Rightarrow> JArr vs | _ \<Rightarrow> JObj []),
          rp_active = (jget row ''active'' \<noteq> JBool False)\<rparr>)"

text \<open>\<open>find_policy\<close> is the query for the active policy of a domain and a source.\<close>

definition getSourceRequestPolicy ::
  "(string option \<Rightarrow> string \<Rightarrow> jsval option) \<Rightarrow> jsval \<Rightarrow> jsval \<Rightarrow> jsval \<Rightarrow> request_policy res" where
  "getSourceRequestPolicy find_policy sourceCode domainCode policy =
     (if truthy policy
      then Inr (normalizeSourceRequestPolicy (obj_with policy
        [(''sourceCode'', jor (jget policy ''sourceCode'') sourceCode),
         (''domainCode'', jors [jget policy ''domainCode'', domainCode, JStr ''MACRO''])]))
      else
        (let domain = normalizeCode (jor domainCode (JStr ''MACRO''))
         in case normalizeCode sourceCode of
           None \<Rightarrow> Inl (js_error ''sourceCode is required to resolve a request policy.'')
         | Some source \<Rightarrow>
             (case find_policy domain source of
                None \<Rightarrow> Inl (obj_with (js_error (''No active source request policy is registered for ''
                   @ (case domain of Some d \<Rightarrow> d | None \<Rightarrow> ''null'') @ ''/'' @ source @ ''.''))
                   [(''code'', JStr ''SOURCE_REQUEST_POLICY_MISSING'')])
              | Some row \<Rightarrow> Inr (normalizeSourceRequestPolicy row))))"

section \<open>Failed requests\<close>

definition AUTH_HTTP_STATUSES :: "rat list" where
  "AUTH_HTTP_STATUSES = [401, 403]"

definition TIMEOUT_ERROR_CODES :: "string list" where
  "TIMEOUT_ERROR_CODES = [''ECONNABORTED'', ''ETIMEDOUT'']"

definition NETWORK_ERROR_CODES :: "string list" where
  "NETWORK_ERROR_CODES =
     [''ECONNREFUSED'', ''ECONNRESET'', ''EAI_AGAIN'', ''ENETDOWN'', ''ENETUNREACH'', ''ENOTFOUND'', ''ERR_NETWORK'']"

definition getHttpStatus :: "jsval \<Rightarrow> rat option" where
  "getHttpStatus err =
     finite_num (jnull_or (jget (jget err ''response'') ''status'') (jnull_or (jget err ''status'') (jget err ''statusCode'')))"

definition getErrorCode :: "jsval \<Rightarrow> string option" where
  "getErrorCode err =
     (let v = jor (jget err ''code'') (jget (jget err ''cause'') ''code'')
      in if truthy v then Some (to_upper (trim (to_str v))) else None)"

definition getResponseHeaders :: "jsval \<Rightarrow> jsval" where
  "getResponseHeaders err = jors [jget (jget err ''response'') ''headers'', jget err ''headers'', JObj []]"

text \<open>Headers that bring a \<open>get\<close> of their own look the name up in the same way.\<close>

definition getHeader :: "jsval \<Rightarrow> string \<Rightarrow> jsval" where
  "getHeader headers name =
     (case find (\<lambda>kv. to_lower (fst kv) = to_lower name) (obj_kvs headers) of Some kv \<Rightarrow> snd kv | None \<Rightarrow> JNull)"

text \<open>The first argument is \<open>Date.parse\<close>.\<close>

definition parseRetryAfterMs :: "(string \<Rightarrow> int option) \<Rightarrow> jsval \<Rightarrow> int \<Rightarrow> int option" where
  "parseRetryAfterMs date_of headers nowMs =
     (let raw = getHeader headers ''retry-after'';
          dated = (case date_of (to_str raw) of None \<Rightarrow> None | Some d \<Rightarrow> Some (max 0 (d - nowMs)))
      in if is_nullish raw \<or> raw = JStr [] then None
         else case finite_num raw of
           Some s \<Rightarrow> if 0 \<le> s then Some (round_half_up (s * 1000)) else dated
         | None \<Rightarrow> dated)"

record classification =
  cl_category :: string
  cl_retryable :: bool
  cl_status :: "rat option"
  cl_code :: "string option"

definition classifyRequestError :: "jsval \<Rightarrow> request_policy \<Rightarrow> classification" where
  "classifyRequestError err P =
     (let code = getErrorCode err; listed = (case code of Some s \<Rightarrow> s \<noteq> [] \<and> s \<in> to_upper ` set (rp_codes P) | None \<Rightarrow> False)
      in case getHttpStatus err of
        Some s \<Rightarrow>
          if s \<in> set AUTH_HTTP_STATUSES
          then \<lparr>cl_category = ''AUTH'', cl_retryable = False, cl_status = Some s, cl_code = code\<rparr>
          else \<lparr>cl_category = ''HTTP'', cl_retryable = (s \<in> of_int ` set (rp_statuses P)), cl_status = Some s, cl_code = code\<rparr>
      | None \<Rightarrow>
          if code \<in> Some ` set TIMEOUT_ERROR_CODES
          then \<lparr>cl_category = ''TIMEOUT'', cl_retryable = True, cl_status = None, cl_code = code\<rparr>
          else if code \<in> Some ` set NETWORK_ERROR_CODES
          then \<lparr>cl_category = ''NETWORK'', cl_retryable = True, cl_status = None, cl_code = code\<rparr>
          else \<lparr>cl_category = ''UNKNOWN'', cl_retryable = listed, cl_status = None, cl_code = code\<rparr>)"

definition computeBackoffDelayMs :: "nat \<Rightarrow> request_policy \<Rightarrow> int option \<Rightarrow> rat \<Rightarrow> int" where
  "computeBackoffDelayMs attemptNumber P retryAfterMs random =
     (let base = max 0 (rp_base P); raw = min (max base (rp_max P)) (base * 2 ^ (attemptNumber - 1));
          factor = 1 + (random * 2 - 1) * min (max (rp_jitter P) 0) 1;
          delay = max 0 (round_half_up (of_int raw * factor))
      in case (truthy (rp_respect P), retryAfterMs) of (True, Some r) \<Rightarrow> max delay r | _ \<Rightarrow> delay)"

definition boundedMessage :: "jsval \<Rightarrow> string" where
  "boundedMessage err = take 2000 (to_str (jors [jget err ''message'', err, JStr ''Request failed.'']))"

section \<open>The attempts\<close>

record trial =
  tr_start :: int
  tr_answer :: "jsval res"
  tr_done :: int
  tr_told :: "unit res"
  tr_end :: int
  tr_random :: rat
  tr_noted :: "unit res"

record attempt =
  at_number :: nat
  at_outcome :: string
  at_retryable :: "bool option"
  at_will_retry :: "bool option"
  at_status :: "rat option"
  at_category :: "string option"
  at_code :: "string option"
  at_message :: "string option"
  at_started :: int
  at_completed :: int
  at_duration :: int
  at_wait :: int
  at_retry_after :: "int option"

definition success_attempt :: "nat \<Rightarrow> trial \<Rightarrow> attempt" where
  "success_attempt n t =
     \<lparr>at_number = n, at_outcome = ''SUCCESS'', at_retryable = None, at_will_retry = None, at_status = None, at_category = None,
      at_code = None, at_message = None, at_started = tr_start t, at_completed = tr_done t,
      at_duration = max 0 (tr_done t - tr_start t), at_wait = 0, at_retry_after = None\<rparr>"

definition failed_attempt :: "(string \<Rightarrow> int option) \<Rightarrow> request_policy \<Rightarrow> int \<Rightarrow> nat \<Rightarrow> trial \<Rightarrow> jsval \<Rightarrow> attempt" where
  "failed_attempt date_of P startedMs n t err =
     (let c = classifyRequestError err P; after = parseRetryAfterMs date_of (getResponseHeaders err) (tr_end t);
          wait = computeBackoffDelayMs n P after (tr_random t);
          remaining = max 0 (rp_elapsed P - max 0 (tr_end t - startedMs));
          again = (cl_retryable c \<and> int n < rp_attempts P \<and> wait < remaining)
      in \<lparr>at_number = n, at_outcome = ''FAILED'', at_retryable = Some (cl_retryable c), at_will_retry = Some again,
          at_status = cl_status c, at_category = Some (cl_category c), at_code = cl_code c, at_message = Some (boundedMessage err),
          at_started = tr_start t, at_completed = tr_end t, at_duration = max 0 (tr_end t - tr_start t),
          at_wait = (if again then wait else 0), at_retry_after = after\<rparr>)"

text \<open>The value with the attempts, the error thrown with the attempts as its \<open>retryAttempts\<close>, or an error of the observer.\<close>

datatype retried =
    Succeeded jsval "attempt list"
  | GaveUp jsval "attempt list"
  | Broke jsval

definition give_up :: "jsval \<Rightarrow> attempt list \<Rightarrow> retried" where
  "give_up lastError attempts =
     GaveUp (if truthy lastError then lastError else js_error ''Request failed without an error object.'') attempts"

text \<open>The handler: whether the loop goes on, and with which attempts.\<close>

definition handle_failure ::
  "(string \<Rightarrow> int option) \<Rightarrow> request_policy \<Rightarrow> int \<Rightarrow> nat \<Rightarrow> trial \<Rightarrow> jsval \<Rightarrow> attempt list \<Rightarrow> retried + attempt list" where
  "handle_failure date_of P startedMs n t err attempts =
     (let a = failed_attempt date_of P startedMs n t err
      in case tr_noted t of
        Inl e \<Rightarrow> Inl (Broke e)
      | Inr _ \<Rightarrow> if at_will_retry a = Some True then Inr (attempts @ [a]) else Inl (give_up err (attempts @ [a])))"

fun attempt_loop ::
  "(string \<Rightarrow> int option) \<Rightarrow> request_policy \<Rightarrow> int \<Rightarrow> nat \<Rightarrow> attempt list \<Rightarrow> jsval \<Rightarrow> trial list \<Rightarrow> retried option" where
  "attempt_loop date_of P startedMs n attempts lastError ts =
     (if rp_attempts P < int n then Some (give_up lastError attempts)
      else case ts of
        [] \<Rightarrow> None
      | t # rest \<Rightarrow>
          (case tr_answer t of
             Inr v \<Rightarrow>
               (let attempts' = attempts @ [success_attempt n t]
                in case tr_told t of
                  Inr _ \<Rightarrow> Some (Succeeded v attempts')
                | Inl err \<Rightarrow>
                    (case handle_failure date_of P startedMs n t err attempts' of
                       Inl r \<Rightarrow> Some r
                     | Inr as \<Rightarrow> attempt_loop date_of P startedMs (Suc n) as err rest))
           | Inl err \<Rightarrow>
               (case handle_failure date_of P startedMs n t err attempts of
                  Inl r \<Rightarrow> Some r
                | Inr as \<Rightarrow> attempt_loop date_of P startedMs (Suc n) as err rest)))"

declare attempt_loop.simps [simp del]

definition executeWithRetry :: "(string \<Rightarrow> int option) \<Rightarrow> request_policy \<Rightarrow> int \<Rightarrow> trial list \<Rightarrow> retried option" where
  "executeWithRetry date_of P startedMs ts = attempt_loop date_of P startedMs 1 [] JNull ts"

section \<open>What a caller sees\<close>

definition jopt :: "('a \<Rightarrow> jsval) \<Rightarrow> 'a option \<Rightarrow> jsval" where
  "jopt f v = (case v of Some x \<Rightarrow> f x | None \<Rightarrow> JNull)"

definition attempt_value :: "attempt \<Rightarrow> jsval" where
  "attempt_value a =
     JObj ([(''attemptNumber'', jnat (at_number a)), (''outcome'', JStr (at_outcome a)), (''retryable'', jopt JBool (at_retryable a))]
       @ (case at_will_retry a of Some b \<Rightarrow> [(''willRetry'', JBool b)] | None \<Rightarrow> [])
       @ [(''httpStatus'', jopt jnum (at_status a)), (''errorCategoryCode'', jopt JStr (at_category a)),
          (''errorCode'', jopt JStr (at_code a)), (''errorMessage'', jopt JStr (at_message a)),
          (''startedAt'', JStr (iso_text (of_int (at_started a)))), (''completedAt'', JStr (iso_text (of_int (at_completed a)))),
          (''durationMs'', jint (at_duration a)), (''waitBeforeNextMs'', jint (at_wait a)),
          (''retryAfterMs'', jopt jint (at_retry_after a))])"

definition thrown_error :: "jsval \<Rightarrow> attempt list \<Rightarrow> jsval" where
  "thrown_error err attempts =
     (if is_obj err then obj_with err [(''retryAttempts'', JArr (map attempt_value attempts))] else err)"

text \<open>The request of every attempt.\<close>

definition source_request :: "request_policy \<Rightarrow> jsval \<Rightarrow> jsval" where
  "source_request P request = obj_with (jor request (JObj [])) [(''timeout'', jint (rp_timeout P))]"

definition requestWithSourcePolicy ::
  "(string option \<Rightarrow> string \<Rightarrow> jsval option) \<Rightarrow> (string \<Rightarrow> int option) \<Rightarrow> jsval \<Rightarrow> jsval \<Rightarrow> jsval \<Rightarrow> int \<Rightarrow> trial list
     \<Rightarrow> (jsval \<times> jsval list \<times> request_policy) res option" where
  "requestWithSourcePolicy find_policy date_of sourceCode domainCode policy startedMs ts =
     (case getSourceRequestPolicy find_policy sourceCode domainCode policy of
        Inl err \<Rightarrow> Some (Inl err)
      | Inr P \<Rightarrow>
          map_option (\<lambda>r. case r of
              Succeeded v as \<Rightarrow> Inr (v, map attempt_value as, P)
            | GaveUp err as \<Rightarrow> Inl (thrown_error err as)
            | Broke err \<Rightarrow> Inl err) (executeWithRetry date_of P startedMs ts))"

section \<open>What every run of the loop satisfies\<close>

fun attempts_of :: "retried \<Rightarrow> attempt list" where
  "attempts_of (Succeeded v as) = as"
| "attempts_of (GaveUp err as) = as"
| "attempts_of (Broke err) = []"

lemma normal_policy:
  "1 \<le> rp_attempts (normalizeSourceRequestPolicy row)" "rp_attempts (normalizeSourceRequestPolicy row) \<le> 20"
  "rp_elapsed (normalizeSourceRequestPolicy row) \<le> 3600000"
  by (simp_all add: normalizeSourceRequestPolicy_def Let_def positiveInteger_def split: option.split)

text \<open>An attempt that the loop recorded: its number, its wait, and what a retry presupposes.\<close>

definition transient :: "jsval \<Rightarrow> request_policy \<Rightarrow> bool" where
  "transient err P =
     (case getHttpStatus err of
        Some s \<Rightarrow> s \<notin> set AUTH_HTTP_STATUSES \<and> s \<in> of_int ` set (rp_statuses P)
      | None \<Rightarrow> (\<exists>c. getErrorCode err = Some c
          \<and> (c \<in> set TIMEOUT_ERROR_CODES \<or> c \<in> set NETWORK_ERROR_CODES \<or> c \<noteq> [] \<and> c \<in> to_upper ` set (rp_codes P))))"

lemma retryable_transient: "cl_retryable (classifyRequestError err P) \<Longrightarrow> transient err P"
  by (auto simp: classifyRequestError_def transient_def Let_def split: option.splits if_splits)

definition errs_of :: "trial \<Rightarrow> jsval set" where
  "errs_of t = {err. tr_answer t = Inl err \<or> (\<exists>v. tr_answer t = Inr v) \<and> tr_told t = Inl err}"

definition recorded :: "request_policy \<Rightarrow> int \<Rightarrow> trial list \<Rightarrow> attempt \<Rightarrow> bool" where
  "recorded P startedMs ts a \<longleftrightarrow>
     int (at_number a) \<le> rp_attempts P \<and> 0 \<le> at_wait a
     \<and> (at_will_retry a = Some True \<longrightarrow>
          int (at_number a) < rp_attempts P \<and> at_completed a + at_wait a < startedMs + rp_elapsed P
          \<and> (\<exists>t \<in> set ts. \<exists>err \<in> errs_of t. transient err P))"

lemma recorded_success: "int n \<le> rp_attempts P \<Longrightarrow> recorded P startedMs ts (success_attempt n t)"
  by (simp add: recorded_def success_attempt_def)

lemma wait_nonneg: "0 \<le> computeBackoffDelayMs n P after random"
  by (auto simp: computeBackoffDelayMs_def Let_def le_max_iff_disj split: bool.split option.split)

lemma fits_iff:
  "computeBackoffDelayMs n P after random < max 0 e \<longleftrightarrow> computeBackoffDelayMs n P after random < e"
  using wait_nonneg [of n P after random] by auto

lemma within: "w < e - max 0 (t - s) \<Longrightarrow> t + w < s + (e::int)"
  by (simp add: max_def split: if_splits)

lemma recorded_failure:
  assumes "int n \<le> rp_attempts P" and "t \<in> set ts" and "err \<in> errs_of t"
  shows "recorded P startedMs ts (failed_attempt date_of P startedMs n t err)"
  using assms wait_nonneg [of n P] retryable_transient [of err P]
  by (auto simp: recorded_def failed_attempt_def Let_def fits_iff intro!: within)

lemma recorded_mono: "recorded P startedMs ts a \<Longrightarrow> set ts \<subseteq> set ts' \<Longrightarrow> recorded P startedMs ts' a"
  unfolding recorded_def by blast

lemma handled:
  assumes "int n \<le> rp_attempts P" and "t \<in> set ts" and "err \<in> errs_of t"
    and "\<forall>a \<in> set as. recorded P startedMs ts a"
  shows "case handle_failure date_of P startedMs n t err as of
      Inl r \<Rightarrow> \<forall>a \<in> set (attempts_of r). recorded P startedMs ts a | Inr as' \<Rightarrow> \<forall>a \<in> set as'. recorded P startedMs ts a"
  using assms recorded_failure [OF assms(1-3), of startedMs date_of]
  by (auto simp: handle_failure_def give_up_def Let_def split: sum.split)

lemma loop_recorded:
  assumes "attempt_loop date_of P startedMs n as lastError ts = Some r" and "set ts \<subseteq> set us"
    and "\<forall>a \<in> set as. recorded P startedMs us a"
  shows "\<forall>a \<in> set (attempts_of r). recorded P startedMs us a"
  using assms
proof (induction ts arbitrary: n as lastError)
  case Nil
  then show ?case by (subst (asm) attempt_loop.simps) (auto simp: give_up_def split: if_splits)
next
  case (Cons t ts)
  show ?case
  proof (cases "rp_attempts P < int n")
    case True
    with Cons.prems show ?thesis by (subst (asm) attempt_loop.simps) (auto simp: give_up_def)
  next
    case False
    then have n: "int n \<le> rp_attempts P" by simp
    have t: "t \<in> set us" using Cons.prems(2) by simp
    have step: "\<forall>a \<in> set (attempts_of r). recorded P startedMs us a"
      if "(case handle_failure date_of P startedMs n t err as' of Inl r \<Rightarrow> Some r
           | Inr as \<Rightarrow> attempt_loop date_of P startedMs (Suc n) as err ts) = Some r"
        "err \<in> errs_of t" "\<forall>a \<in> set as'. recorded P startedMs us a" for err as'
      using handled [OF n t that(2,3), of date_of] that(1) Cons.prems(2)
      by (force split: sum.splits dest: Cons.IH)
    show ?thesis
    proof (cases "tr_answer t")
      case (Inl err)
      then show ?thesis
        using Cons.prems(1,3) False step [of err as]
        by (subst (asm) attempt_loop.simps) (simp add: errs_of_def)
    next
      case (Inr v)
      show ?thesis
      proof (cases "tr_told t")
        case (Inl err)
        then show ?thesis
          using Cons.prems(1,3) False Inr step [of err "as @ [success_attempt n t]"] recorded_success [OF n]
          by (subst (asm) attempt_loop.simps) (auto simp: errs_of_def)
      next
        case (Inr u)
        then show ?thesis
          using Cons.prems(1,3) False \<open>tr_answer t = Inr v\<close> recorded_success [OF n, of startedMs us t]
          by (subst (asm) attempt_loop.simps) auto
      qed
    qed
  qed
qed

text \<open>The loop ends, and it reads no trial after the last attempt it may make.\<close>

lemma loop_ends:
  assumes "rp_attempts P < int n + int (length ts)" and "rp_attempts P < int n + int k"
  shows "\<exists>r. attempt_loop date_of P startedMs n as lastError ts = Some r
     \<and> attempt_loop date_of P startedMs n as lastError (take k ts) = Some r"
  using assms
proof (induction ts arbitrary: n as lastError k)
  case Nil
  then show ?case by (simp add: attempt_loop.simps)
next
  case (Cons t ts)
  show ?case
  proof (cases "rp_attempts P < int n")
    case False
    with Cons.prems(2) obtain j where k: "k = Suc j" by (cases k) auto
    have ih: "\<exists>r. attempt_loop date_of P startedMs (Suc n) as' err ts = Some r
        \<and> attempt_loop date_of P startedMs (Suc n) as' err (take j ts) = Some r" for as' err
      by (rule Cons.IH) (use Cons.prems k in auto)
    show ?thesis
      using False k ih
      by (auto simp: attempt_loop.simps [of date_of P startedMs n] Let_def split: sum.split)
  qed (auto simp: attempt_loop.simps)
qed

text \<open>C23 (requests_bounded): with the policy of a source, a request ends after at most 20 attempts, and no wait between
  attempts goes beyond an hour after the start.\<close>

theorem requests_bounded:
  assumes "P = normalizeSourceRequestPolicy row" and "20 \<le> length ts"
  shows "\<exists>r. executeWithRetry date_of P startedMs ts = Some r \<and> executeWithRetry date_of P startedMs (take 20 ts) = Some r
     \<and> list_all (\<lambda>a. at_number a \<le> 20 \<and> 0 \<le> at_wait a
          \<and> (at_will_retry a = Some True \<longrightarrow> at_completed a + at_wait a < startedMs + 3600000)) (attempts_of r)"
proof -
  have "rp_attempts P < int 1 + int 20" "rp_attempts P < int 1 + int (length ts)"
    using normal_policy [of row] assms by simp_all
  from loop_ends [OF this(2,1)] obtain r where r: "executeWithRetry date_of P startedMs ts = Some r"
      "executeWithRetry date_of P startedMs (take 20 ts) = Some r"
    unfolding executeWithRetry_def by blast
  have "\<forall>a \<in> set (attempts_of r). recorded P startedMs ts a"
    using loop_recorded [of date_of P startedMs 1 "[]" JNull ts r ts] r(1) by (simp add: executeWithRetry_def)
  with r normal_policy(2,3) [of row] assms(1) show ?thesis
    by (force simp: list_all_iff recorded_def)
qed

text \<open>a request is made again only after an error with a status that the policy lists, never
  401 or 403, or without a status and with the code of a timeout, of the network or of the policy.\<close>

theorem retries_only_transient:
  assumes "executeWithRetry date_of P startedMs ts = Some r" and "a \<in> set (attempts_of r)" and "at_will_retry a = Some True"
  shows "int (at_number a) < rp_attempts P \<and> at_completed a + at_wait a < startedMs + rp_elapsed P
     \<and> (\<exists>t \<in> set ts. \<exists>err \<in> errs_of t.
          case getHttpStatus err of
            Some s \<Rightarrow> s \<notin> {401, 403} \<and> s \<in> of_int ` set (rp_statuses P)
          | None \<Rightarrow> (\<exists>c. getErrorCode err = Some c
              \<and> (c \<in> set TIMEOUT_ERROR_CODES \<or> c \<in> set NETWORK_ERROR_CODES \<or> c \<noteq> [] \<and> c \<in> to_upper ` set (rp_codes P))))"
proof -
  have "recorded P startedMs ts a"
    using loop_recorded [of date_of P startedMs 1 "[]" JNull ts r ts] assms(1,2) by (simp add: executeWithRetry_def)
  with assms(3) show ?thesis
    by (auto simp: recorded_def transient_def AUTH_HTTP_STATUSES_def cong: option.case_cong)
qed

section \<open>Success\<close>

definition quiet :: "trial \<Rightarrow> bool" where
  "quiet t = (tr_told t = Inr () \<and> tr_noted t = Inr ())"

text \<open>An error at which the loop goes on.\<close>

definition passes_over :: "(string \<Rightarrow> int option) \<Rightarrow> request_policy \<Rightarrow> int \<Rightarrow> nat \<Rightarrow> trial \<Rightarrow> bool" where
  "passes_over date_of P startedMs n t =
     (case tr_answer t of
        Inl err \<Rightarrow> (let c = classifyRequestError err P;
             wait = computeBackoffDelayMs n P (parseRetryAfterMs date_of (getResponseHeaders err) (tr_end t)) (tr_random t)
           in cl_retryable c \<and> int n < rp_attempts P \<and> wait < rp_elapsed P - max 0 (tr_end t - startedMs))
      | Inr _ \<Rightarrow> False)"

lemma passes_over_iff:
  "passes_over date_of P startedMs n t \<longleftrightarrow>
     (\<exists>err. tr_answer t = Inl err \<and> at_will_retry (failed_attempt date_of P startedMs n t err) = Some True)"
  by (auto simp: passes_over_def failed_attempt_def Let_def fits_iff split: sum.split)

lemma loop_success:
  assumes "list_all quiet ts" and "int n \<le> rp_attempts P"
  shows "(\<exists>as. attempt_loop date_of P startedMs n as0 lastError ts = Some (Succeeded v as)) \<longleftrightarrow>
     (\<exists>k < length ts. tr_answer (ts ! k) = Inr v \<and> (\<forall>j < k. passes_over date_of P startedMs (n + j) (ts ! j)))"
  using assms
proof (induction ts arbitrary: n as0 lastError)
  case Nil
  then show ?case by (simp add: attempt_loop.simps)
next
  case (Cons t ts)
  have t: "tr_told t = Inr ()" "tr_noted t = Inr ()" "list_all quiet ts" using Cons.prems(1) by (simp_all add: quiet_def [of t])
  show ?case
  proof (cases "tr_answer t")
    case (Inr w)
    then show ?thesis
      using Cons.prems(2) t
      by (subst attempt_loop.simps) (auto simp: Let_def Ex_less_Suc2 All_less_Suc2 passes_over_def)
  next
    case (Inl err)
    show ?thesis
    proof (cases "passes_over date_of P startedMs n t")
      case True
      then have "int (Suc n) \<le> rp_attempts P" using Inl by (simp add: passes_over_def Let_def)
      note ih = Cons.IH [OF t(3) this]
      from True Inl have "at_will_retry (failed_attempt date_of P startedMs n t err) = Some True"
        by (simp add: passes_over_iff)
      then show ?thesis
        using Cons.prems(2) t Inl True
        by (subst attempt_loop.simps) (simp add: handle_failure_def Let_def ih Ex_less_Suc2 All_less_Suc2)
    next
      case False
      then have "at_will_retry (failed_attempt date_of P startedMs n t err) \<noteq> Some True"
        using Inl by (simp add: passes_over_iff)
      then show ?thesis
        using Cons.prems(2) t Inl False
        by (subst attempt_loop.simps) (auto simp: handle_failure_def give_up_def Let_def Ex_less_Suc2 All_less_Suc2)
    qed
  qed
qed

text \<open>C24 (first_success): when the observer of the attempts does not fail, a request returns a value exactly when it is the answer
  of an attempt that was reached: every earlier one failed with an error that may be retried, with attempts left and
  a wait that fits into the remaining time.\<close>

theorem first_success:
  assumes "list_all quiet ts" and "1 \<le> rp_attempts P"
  shows "(\<exists>as. executeWithRetry date_of P startedMs ts = Some (Succeeded v as)) \<longleftrightarrow>
     (\<exists>k < length ts. tr_answer (ts ! k) = Inr v \<and> (\<forall>j < k. passes_over date_of P startedMs (Suc j) (ts ! j)))"
  using loop_success [OF assms(1), of 1 P date_of startedMs "[]" JNull v] assms(2)
  by (simp add: executeWithRetry_def)

text \<open>the observer is called inside the guarded block; when it fails after a success with an error that
  looks transient, the success is recorded, followed by a failure with the same number, and the request is made again.\<close>

theorem success_requested_again:
  assumes "tr_answer t = Inr v" and "tr_told t = Inl err" and "tr_noted t = Inr ()" and "transient err P"
    and "computeBackoffDelayMs 1 P (parseRetryAfterMs date_of (getResponseHeaders err) (tr_end t)) (tr_random t)
           < rp_elapsed P - max 0 (tr_end t - startedMs)"
    and "tr_answer t' = Inr v'" and "tr_told t' = Inr ()" and "2 \<le> rp_attempts P"
  shows "\<exists>a. executeWithRetry date_of P startedMs [t, t']
       = Some (Succeeded v' [success_attempt 1 t, a, success_attempt 2 t'])
     \<and> at_number a = 1 \<and> at_outcome a = ''FAILED''"
proof -
  let ?a = "failed_attempt date_of P startedMs 1 t err"
  have "cl_retryable (classifyRequestError err P)"
    using assms(4) by (auto simp: classifyRequestError_def transient_def Let_def split: option.splits)
  then have "at_will_retry ?a = Some True"
    using assms(5,8) by (simp add: failed_attempt_def Let_def fits_iff)
  then have "executeWithRetry date_of P startedMs [t, t'] = Some (Succeeded v' [success_attempt 1 t, ?a, success_attempt 2 t'])"
    using assms(1-3,6-8)
    by (simp add: executeWithRetry_def attempt_loop.simps [of _ _ _ "Suc 0"] attempt_loop.simps [of _ _ _ "Suc (Suc 0)"]
        handle_failure_def Let_def numeral_2_eq_2)
  then show ?thesis by (auto simp: failed_attempt_def Let_def)
qed

section \<open>An example\<close>

definition instant :: "jsval res \<Rightarrow> unit res \<Rightarrow> trial" where
  "instant reply told =
     \<lparr>tr_start = 0, tr_answer = reply, tr_done = 0, tr_told = told, tr_end = 0, tr_random = 1 / 2, tr_noted = Inr ()\<rparr>"

definition timeout_error :: jsval where
  "timeout_error = JObj [(''code'', JStr ''ETIMEDOUT'')]"

abbreviation example_policy :: request_policy where
  "example_policy \<equiv> normalizeSourceRequestPolicy (JObj [])"

lemma example_policy_fields:
  "rp_attempts example_policy = 4" "rp_elapsed example_policy = 180000"
  "computeBackoffDelayMs (Suc 0) example_policy None (1 / 2) = 750"
  by code_simp+

lemma timeout_facts:
  "getErrorCode timeout_error = Some ''ETIMEDOUT''" "getHttpStatus timeout_error = None"
  "parseRetryAfterMs date_of (getResponseHeaders timeout_error) t = None"
  "transient timeout_error P"
  "cl_retryable (classifyRequestError timeout_error P)"
  by (simp_all add: timeout_error_def getErrorCode_def getHttpStatus_def transient_def jors.simps parseRetryAfterMs_def
      getResponseHeaders_def getHeader_def jnull_or_def finite_num_def jor_def to_upper_def trim_def trim_start_def is_ws_def upper_def
      is_lower_def Let_def TIMEOUT_ERROR_CODES_def kv_get_def classifyRequestError_def)

theorem requests_bounded_witness:
  "\<exists>r. executeWithRetry (\<lambda>s. None) example_policy 0 (replicate 20 (instant (Inl timeout_error) (Inr ()))) = Some r"
  using requests_bounded [of example_policy "JObj []" "replicate 20 (instant (Inl timeout_error) (Inr ()))" "\<lambda>s. None" 0]
  by auto

lemma example_passes: "passes_over (\<lambda>s. None) example_policy 0 1 (instant (Inl timeout_error) told)"
  by (simp add: passes_over_def instant_def timeout_facts example_policy_fields Let_def)

theorem first_success_witness:
  "\<exists>as. executeWithRetry (\<lambda>s. None) example_policy 0 [instant (Inl timeout_error) (Inr ()), instant (Inr (JBool True)) (Inr ())]
     = Some (Succeeded (JBool True) as)"
  using first_success [of "[instant (Inl timeout_error) (Inr ()), instant (Inr (JBool True)) (Inr ())]" example_policy
      "\<lambda>s. None" 0 "JBool True"] example_passes [of "Inr ()"]
  by (simp add: quiet_def instant_def example_policy_fields Ex_less_Suc2 All_less_Suc2)

theorem success_requested_again_witness:
  "\<exists>a. executeWithRetry (\<lambda>s. None) example_policy 0 [instant (Inr JNull) (Inl timeout_error), instant (Inr JNull) (Inr ())]
     = Some (Succeeded JNull [success_attempt 1 (instant (Inr JNull) (Inl timeout_error)), a,
                              success_attempt 2 (instant (Inr JNull) (Inr ()))])
     \<and> at_number a = 1 \<and> at_outcome a = ''FAILED''"
  by (rule success_requested_again [where v = JNull and v' = JNull and err = timeout_error])
    (simp_all add: instant_def timeout_facts example_policy_fields)

theorem retries_only_transient_witness:
  "\<exists>a :: attempt. at_will_retry a = Some True \<and> int (at_number a) < rp_attempts example_policy"
proof -
  let ?ts = "[instant (Inl timeout_error) (Inr ()), instant (Inr JNull) (Inr ())]"
  let ?a = "failed_attempt (\<lambda>s. None) example_policy 0 1 (instant (Inl timeout_error) (Inr ())) timeout_error"
  have w: "at_will_retry ?a = Some True"
    using example_passes by (simp add: passes_over_iff instant_def)
  have "tr_answer (instant reply told) = reply" "tr_told (instant reply told) = told" "tr_noted (instant reply told) = Inr ()" for reply told
    by (simp_all add: instant_def)
  with w have "executeWithRetry (\<lambda>s. None) example_policy 0 ?ts
      = Some (Succeeded JNull [?a, success_attempt 2 (instant (Inr JNull) (Inr ()))])"
    by (simp add: executeWithRetry_def attempt_loop.simps [of _ _ _ "Suc 0"] attempt_loop.simps [of _ _ _ "Suc (Suc 0)"]
        handle_failure_def Let_def numeral_2_eq_2 example_policy_fields)
  from retries_only_transient [OF this _ w] have "int (at_number ?a) < rp_attempts example_policy" by simp
  with w show ?thesis by blast
qed

end
