(* ===== verification/JsonRoundTrip.thy ===== *)
theory JsonRoundTrip
  imports JsonText
begin

text \<open>
  \<open>JSON.parse\<close> after \<open>JSON.stringify\<close>: a value with whole numbers and distinct keys is read back from its text
  (\<open>parse_stringify\<close>).  The parts are strings with their escapes, decimal numbers, items and members.
\<close>

section \<open>Parsing what was printed\<close>

text \<open>Numbers are whole, as the expansion of a fraction may be cut.\<close>

fun whole_numbers :: "jsval \<Rightarrow> bool" where
  "whole_numbers (JNum n) = (\<exists>i. n = Fin (of_int i))"
| "whole_numbers (JArr vs) = (\<forall>v \<in> set vs. whole_numbers v)"
| "whole_numbers (JObj kvs) = (\<forall>(k, v) \<in> set kvs. whole_numbers v)"
| "whole_numbers _ = True"

subsection \<open>Strings\<close>

lemma code_char: "c = char_of (code_of c)"
  by simp

lemma hex_back: "d < 16 \<Longrightarrow> hex_digit (hex_char d) = Some d"
proof -
  assume "d < 16"
  show "hex_digit (hex_char d) = Some d"
  proof (cases "d < 10")
    case True
    then show ?thesis by (simp add: hex_char_def hex_digit_def is_digit_def)
  next
    case False
    with \<open>d < 16\<close> have "code_of (hex_char d) = 87 + d" by (simp add: hex_char_def)
    moreover from this False \<open>d < 16\<close> have "lower (hex_char d) = hex_char d" by (simp add: lower_def is_upper_def)
    ultimately show ?thesis using False \<open>d < 16\<close> by (simp add: hex_digit_def is_digit_def)
  qed
qed

lemma hex4_control:
  "n < 32 \<Longrightarrow> hex4 4 0 (''00'' @ [hex_char (n div 16), hex_char (n mod 16)] @ r) = Some (n, r)"
proof -
  assume "n < 32"
  then have "hex_digit (hex_char (n div 16)) = Some (n div 16)" "hex_digit (hex_char (n mod 16)) = Some (n mod 16)"
    by (auto intro!: hex_back)
  moreover have "hex_digit (CHR ''0'') = Some 0" by (simp add: hex_digit_def is_digit_def)
  moreover have "(4::nat) = Suc (Suc (Suc (Suc 0)))" by simp
  ultimately show ?thesis by (simp only: append_Cons append_Nil hex4.simps option.case) simp
qed

lemma json_char_cases:
  obtains (esc) e where "json_char c = [CHR 0x5C, e]" "e \<noteq> CHR ''u''" "escape_char e = Some c"
  | (uni) "json_char c = CHR 0x5C # ''u00'' @ [hex_char (code_of c div 16), hex_char (code_of c mod 16)]" "code_of c < (32 :: nat)"
  | (plain) "json_char c = [c]" "c \<noteq> CHR 0x22" "c \<noteq> CHR 0x5C" "32 \<le> (code_of c :: nat)"
proof -
  have eq: "c = d" if "code_of c = n" "code_of d = n" for n d using that of_char_eq_iff by metis
  consider "code_of c = (34::nat)" | "code_of c = (92::nat)" | "code_of c = (8::nat)" | "code_of c = (9::nat)" | "code_of c = (10::nat)"
    | "code_of c = (12::nat)" | "code_of c = (13::nat)"
    | "code_of c \<notin> {34, 92, 8, 9, 10, 12, 13 :: nat}" "code_of c < (32::nat)"
    | "code_of c \<notin> {34, 92 :: nat}" "32 \<le> (code_of c :: nat)" by fastforce
  then show ?thesis
  proof cases
    case 8
    then show ?thesis by (intro uni) (simp_all add: json_char_def Let_def)
  next
    case 9
    then have "c \<noteq> CHR 0x22" "c \<noteq> CHR 0x5C" by auto
    with 9 show ?thesis by (intro plain) (simp_all add: json_char_def Let_def)
  next
    case 1
    then have "c = CHR 0x22" by (rule eq) simp
    then show ?thesis by (intro esc [of "CHR 0x22"]) (simp_all add: json_char_def escape_char_def)
  next
    case 2
    then have "c = CHR 0x5C" by (rule eq) simp
    then show ?thesis by (intro esc [of "CHR 0x5C"]) (simp_all add: json_char_def escape_char_def)
  next
    case 3
    then have "c = CHR 0x08" by (rule eq) simp
    then show ?thesis by (intro esc [of "CHR ''b''"]) (simp_all add: json_char_def escape_char_def)
  next
    case 4
    then have "c = CHR 0x09" by (rule eq) simp
    then show ?thesis by (intro esc [of "CHR ''t''"]) (simp_all add: json_char_def escape_char_def)
  next
    case 5
    then have "c = CHR 0x0A" by (rule eq) simp
    then show ?thesis by (intro esc [of "CHR ''n''"]) (simp_all add: json_char_def escape_char_def)
  next
    case 6
    then have "c = CHR 0x0C" by (rule eq) simp
    then show ?thesis by (intro esc [of "CHR ''f''"]) (simp_all add: json_char_def escape_char_def)
  next
    case 7
    then have "c = CHR 0x0D" by (rule eq) simp
    then show ?thesis by (intro esc [of "CHR ''r''"]) (simp_all add: json_char_def escape_char_def)
  qed
qed

lemma string_back: "string_body (concat (map json_char s) @ CHR 0x22 # r) = Some (s, r)"
proof (induction s)
  case Nil
  then show ?case by (simp add: string_body.simps)
next
  case (Cons c s)
  let ?rest = "concat (map json_char s) @ CHR 0x22 # r"
  have "string_body (json_char c @ ?rest) = Some (c # s, r)"
  proof (cases c rule: json_char_cases)
    case (esc e)
    then show ?thesis by (simp add: string_body.simps(2) [of "CHR 0x5C"] Cons.IH)
  next
    case uni
    then have "hex4 4 0 (CHR ''0'' # CHR ''0'' # hex_char (code_of c div 16) # hex_char (code_of c mod 16) # ?rest)
        = Some (code_of c, ?rest)"
      using hex4_control [of "code_of c" ?rest] by simp
    moreover from uni have "unicode_char (code_of c) = c" by (simp add: unicode_char_def)
    ultimately show ?thesis
      using uni by (simp add: string_body.simps(2) [of "CHR 0x5C"] Cons.IH)
  next
    case plain
    then show ?thesis by (simp add: string_body.simps(2) [of c] Cons.IH)
  qed
  then show ?case by simp
qed

subsection \<open>Whole numbers\<close>

lemma digit_char_code: "d < 10 \<Longrightarrow> code_of (digit_char d) = 48 + d"
  by (simp add: digit_char_def)

lemma nat_str_digits: "list_all is_digit (nat_str n) \<and> nat_str n \<noteq> []"
proof (induction n rule: nat_str.induct)
  case (1 n)
  have "is_digit (digit_char d)" if "d < 10" for d
    using that by (simp add: is_digit_def digit_char_code)
  with 1 show ?case by (subst (1 2) nat_str.simps) auto
qed

lemma digits_val_snoc: "digits_val (ds @ [digit_char d]) = 10 * digits_val ds + d" if "d < 10"
  using that by (simp add: digits_val_def digit_char_code)

lemma digits_val_nat_str [simp]: "digits_val (nat_str n) = n"
proof (induction n rule: nat_str.induct)
  case (1 n)
  show ?case
  proof (cases "n < 10")
    case True
    then show ?thesis by (subst nat_str.simps) (simp add: digits_val_def digit_char_code)
  next
    case False
    with 1 show ?thesis by (subst nat_str.simps) (simp add: digits_val_snoc)
  qed
qed

lemma nat_str_leading: "1 < length (nat_str n) \<Longrightarrow> hd (nat_str n) \<noteq> CHR ''0''"
proof (induction n rule: nat_str.induct)
  case (1 n)
  show ?case
  proof (cases "n < 10")
    case True
    with 1(2) show ?thesis by (simp add: nat_str.simps)
  next
    case False
    have ne: "nat_str (n div 10) \<noteq> []" using nat_str_digits by blast
    have "hd (nat_str (n div 10)) \<noteq> CHR ''0''"
    proof (cases "1 < length (nat_str (n div 10))")
      case True
      with 1(1) False show ?thesis by blast
    next
      case one: False
      with ne have "length (nat_str (n div 10)) = 1" by (cases "nat_str (n div 10)") auto
      then have small: "n div 10 < 10"
        by (subst (asm) nat_str.simps) (use ne nat_str_digits [of "n div 10 div 10"] in \<open>auto split: if_splits\<close>)
      then have "nat_str (n div 10) = [digit_char (n div 10)]" by (simp add: nat_str.simps)
      moreover have "code_of (digit_char (n div 10)) \<noteq> (48::nat)"
        using False small by (simp add: digit_char_code)
      ultimately show ?thesis by auto
    qed
    with ne False show ?thesis by (subst nat_str.simps) (simp add: hd_append)
  qed
qed


lemma takeWhile_digits:
  assumes "list_all is_digit ds" and "r = [] \<or> \<not> is_digit (hd r)"
  shows "takeWhile is_digit (ds @ r) = ds" "dropWhile is_digit (ds @ r) = r"
proof -
  have "takeWhile is_digit r = [] \<and> dropWhile is_digit r = r" using assms(2) by (cases r) auto
  with assms(1) show "takeWhile is_digit (ds @ r) = ds" "dropWhile is_digit (ds @ r) = r"
    by (simp_all add: list_all_iff)
qed

text \<open>What may follow a value.\<close>

definition ends :: "string \<Rightarrow> bool" where
  "ends r = (r = [] \<or> hd r \<in> {CHR '','', CHR '']'', CHR ''}''})"

lemma ends_simps [simp]: "ends []" "ends (CHR '','' # r)" "ends (CHR '']'' # r)" "ends (CHR ''}'' # r)"
  by (simp_all add: ends_def)

lemma ends_plain:
  assumes "ends r" shows "r = [] \<or> \<not> is_digit (hd r)" "r = [] \<or> hd r \<notin> {CHR ''.'', CHR ''e'', CHR ''E''}"
  using assms by (auto simp: ends_def is_digit_def)

definition sign_text :: "bool \<Rightarrow> string" where
  "sign_text neg = (if neg then ''-'' else [])"

lemma rat_str_int: "rat_str (of_int i) = sign_text (i < 0) @ nat_str (nat \<bar>i\<bar>)"
proof -
  have "quotient_of (of_int i) = (i, 1)" using quotient_of_int [of i] by (simp add: Rat.of_int_def)
  then show ?thesis by (simp add: rat_str_def sign_text_def Let_def)
qed

lemma number_back:
  assumes "ends r"
  shows "number_text (sign_text neg @ nat_str n @ r) = Some (sign_text neg @ nat_str n, r)"
proof -
  obtain d ds where d: "nat_str n = d # ds" "is_digit d" using nat_str_digits [of n] by (cases "nat_str n") auto
  then have "d \<noteq> CHR ''-''" by (auto simp: is_digit_def)
  note t = takeWhile_digits [OF conjunct1 [OF nat_str_digits] ends_plain(1) [OF assms], of n]
  have r: "(case r of c # cs \<Rightarrow> if c = CHR ''.'' then c # takeWhile is_digit cs else [] | [] \<Rightarrow> []) = []"
    "(case r of c # cs \<Rightarrow> if c = CHR ''e'' \<or> c = CHR ''E'' then f c cs else [] | [] \<Rightarrow> []) = []" for f :: "char \<Rightarrow> string \<Rightarrow> string"
    using ends_plain(2) [OF assms] by (auto split: list.split)
  show ?thesis
    using nat_str_leading [of n] t r d \<open>d \<noteq> CHR ''-''\<close> nat_str_digits [of n]
    by (auto simp: number_text_def sign_text_def Let_def)
qed

lemma trim_none: "list_all (\<lambda>c. \<not> is_ws c) s \<Longrightarrow> trim s = s"
proof -
  have keep: "list_all (\<lambda>c. \<not> is_ws c) t \<Longrightarrow> dropWhile is_ws t = t" for t by (cases t) simp_all
  assume "list_all (\<lambda>c. \<not> is_ws c) s"
  then show ?thesis using keep [of s] keep [of "rev s"] by (simp add: trim_def trim_start_def list_all_rev)
qed

lemma str_num_back: "str_num (sign_text neg @ nat_str n) = Fin (if neg then - of_nat n else of_nat n)"
proof -
  let ?s = "sign_text neg @ nat_str n"
  note digits = nat_str_digits [of n]
  obtain d ds where d: "nat_str n = d # ds" "is_digit d" using digits by (cases "nat_str n") auto
  have cs: "is_digit c \<or> c = CHR ''-''" if "c \<in> set ?s" for c
    using that digits by (auto simp: sign_text_def list_all_iff split: if_splits)
  have "\<not> is_ws c \<and> lower c = c" if "is_digit c \<or> c = CHR ''-''" for c
    using that by (auto simp: is_digit_def is_ws_def lower_def is_upper_def)
  note plain = this
  have tr: "trim ?s = ?s"
    by (rule trim_none, unfold list_all_iff, rule ballI, drule cs, drule plain, erule conjunct1)
  have low: "to_lower (take 2 ?s) = take 2 ?s"
    unfolding to_lower_def by (rule map_idI, drule in_set_takeD, drule cs, drule plain, erule conjunct2)
  have no: "take 2 ?s \<noteq> [CHR ''0'', c]" if "\<not> is_digit c" "c \<noteq> CHR ''-''" for c
  proof
    assume eq: "take 2 ?s = [CHR ''0'', c]"
    have "c \<in> set (take 2 ?s)" unfolding eq by simp
    from cs [OF in_set_takeD [OF this]] that show False by blast
  qed
  have radix: "take 2 ?s \<noteq> ''0x''" "take 2 ?s \<noteq> ''0o''" "take 2 ?s \<noteq> ''0b''"
    by (rule no; simp add: is_digit_def)+
  have "d \<noteq> CHR ''-''" "d \<noteq> CHR ''+''" "d \<noteq> CHR ''I''" using d(2) by (auto simp: is_digit_def)
  with d have sp: "split_sign ?s = (neg, nat_str n)" and inf: "nat_str n \<noteq> ''Infinity''"
    by (auto simp: split_sign_def sign_text_def)
  have tw: "takeWhile is_digit (nat_str n) = nat_str n" "dropWhile is_digit (nat_str n) = []"
    using takeWhile_digits [OF conjunct1 [OF digits], of "[]"] by (simp_all only: append_Nil2 simp_thms)
  have dv: "decimal_val (nat_str n) = Some (of_nat n)"
    unfolding decimal_val_def Let_def tw using digits by (simp add: exponent_val_def scale10_def)
  have ne: "?s \<noteq> []" using digits by simp
  show ?thesis
    unfolding str_num_def Let_def tr low sp prod.case by (simp only: radix inf dv ne simp_thms if_False option.case)
qed

subsection \<open>Values\<close>

definition json_text :: "jsval \<Rightarrow> string" where
  "json_text v = (case json v of None \<Rightarrow> ''null'' | Some t \<Rightarrow> t)"

text \<open>Enough fuel reads the value.\<close>

definition reads :: "(nat \<Rightarrow> (jsval \<times> string) option) \<Rightarrow> jsval \<Rightarrow> string \<Rightarrow> bool" where
  "reads p v r = (\<exists>N. \<forall>m \<ge> N. p m = Some (v, r))"

lemma reads_step: "(\<And>m. q m = Some (v, r) \<Longrightarrow> p (Suc m) = Some (v', r')) \<Longrightarrow> reads q v r \<Longrightarrow> reads p v' r'"
  unfolding reads_def by (metis Suc_le_D Suc_le_mono)

lemma reads_both:
  "reads p u t \<Longrightarrow> reads q v r \<Longrightarrow> (\<And>m. p m = Some (u, t) \<Longrightarrow> q m = Some (v, r) \<Longrightarrow> f (Suc m) = Some (v', r')) \<Longrightarrow> reads f v' r'"
  unfolding reads_def by (metis Suc_le_D Suc_le_mono le_trans linorder_le_cases)

lemma reads_leaf: "(\<And>m. p (Suc m) = Some (v, r)) \<Longrightarrow> reads p v r"
  unfolding reads_def by (metis Suc_le_D)

lemma reads_start:
  assumes "reads (\<lambda>m. parse_value m s) v r"
  obtains d ds where "skip_ws s = d # ds" "d \<noteq> CHR '']''" "d \<noteq> CHR ''}''"
proof -
  obtain N where "parse_value (Suc N) s = Some (v, r)" using assms unfolding reads_def by (meson le_SucI le_refl)
  then obtain d ds where d: "skip_ws s = d # ds" "parse_value (Suc N) s \<noteq> None" by (cases "skip_ws s") auto
  moreover from d have "d \<noteq> CHR '']'' \<and> d \<noteq> CHR ''}''"
    by (auto simp: number_text_def is_digit_def Let_def)
  ultimately show thesis using that by blast
qed

lemma skip_plain [simp]: "\<not> json_ws c \<Longrightarrow> skip_ws (c # s) = c # s"
  by (simp add: skip_ws_def)

lemma marks_plain [simp]: "\<not> json_ws (CHR '','')" "\<not> json_ws (CHR '']'')" "\<not> json_ws (CHR ''}'')" "\<not> json_ws (CHR '':'')"
  "\<not> json_ws (CHR 0x22)" "\<not> json_ws (CHR ''['')" "\<not> json_ws (CHR ''{'')" "\<not> json_ws (CHR ''t'')" "\<not> json_ws (CHR ''f'')"
  "\<not> json_ws (CHR ''n'')" "\<not> json_ws (CHR ''-'')"
  by (simp_all add: json_ws_def)

lemma items_back:
  assumes "vs \<noteq> []" and "\<And>v r. v \<in> set vs \<Longrightarrow> ends r \<Longrightarrow> reads (\<lambda>m. parse_value m (json_text v @ r)) v r"
  shows "reads (\<lambda>m. parse_items m acc (join '','' (map json_text vs) @ CHR '']'' # r)) (JArr (acc @ vs)) r"
  using assms
proof (induction vs arbitrary: acc)
  case (Cons v vs)
  show ?case
  proof (cases vs)
    case Nil
    then show ?thesis
      using Cons.prems(2) [of v "CHR '']'' # r"] by (auto elim!: reads_step [rotated])
  next
    case more: (Cons w ws)
    let ?rest = "join '','' (map json_text vs) @ CHR '']'' # r"
    have "reads (\<lambda>m. parse_value m (json_text v @ CHR '','' # ?rest)) v (CHR '','' # ?rest)"
      using Cons.prems(2) by simp
    moreover have "reads (\<lambda>m. parse_items m (acc @ [v]) ?rest) (JArr ((acc @ [v]) @ vs)) r"
      by (rule Cons.IH) (use Cons.prems(2) more in auto)
    ultimately show ?thesis
      by (rule reads_both) (simp add: more)
  qed
qed simp

definition member_text :: "string \<times> jsval \<Rightarrow> string" where
  "member_text kv = json_quote (fst kv) @ '':'' @ json_text (snd kv)"

lemma members_back:
  assumes "kvs \<noteq> []" and "\<And>k v r. (k, v) \<in> set kvs \<Longrightarrow> ends r \<Longrightarrow> reads (\<lambda>m. parse_value m (json_text v @ r)) v r"
    and "distinct (map fst (acc @ kvs))"
  shows "reads (\<lambda>m. parse_members m acc (join '','' (map member_text kvs) @ CHR ''}'' # r)) (JObj (acc @ kvs)) r"
  using assms
proof (induction kvs arbitrary: acc)
  case (Cons kv kvs)
  obtain k v where kv: "kv = (k, v)" by (cases kv)
  have new: "kv_set acc k v = acc @ [(k, v)]" using Cons.prems(3) kv by (intro kv_set_new) auto
  have key: "string_body (concat (map json_char k) @ CHR 0x22 # s) = Some (k, s)" for s by (rule string_back)
  show ?case
  proof (cases kvs)
    case Nil
    have "reads (\<lambda>m. parse_value m (json_text v @ CHR ''}'' # r)) v (CHR ''}'' # r)"
      by (rule Cons.prems(2) [of k]) (simp_all add: kv)
    then show ?thesis
      by (rule reads_step [rotated]) (simp add: Nil kv member_text_def json_quote_def key new)
  next
    case more: (Cons w ws)
    let ?rest = "join '','' (map member_text kvs) @ CHR ''}'' # r"
    have "reads (\<lambda>m. parse_value m (json_text v @ CHR '','' # ?rest)) v (CHR '','' # ?rest)"
      by (rule Cons.prems(2) [of k]) (simp_all add: kv)
    moreover have "reads (\<lambda>m. parse_members m (acc @ [kv]) ?rest) (JObj ((acc @ [kv]) @ kvs)) r"
      by (rule Cons.IH) (use Cons.prems more in auto)
    ultimately show ?thesis
      by (rule reads_both) (simp add: more kv member_text_def [of "(k, v)"] json_quote_def key new)
  qed
qed simp

lemma json_some: "is_json v \<Longrightarrow> json v = Some (json_text v)"
  by (cases v) (simp_all add: json_text_def)

lemma json_members_all: "\<forall>(k, v) \<in> set kvs. is_json v \<Longrightarrow>
    json_members (map (\<lambda>(k, v). (k, json v)) kvs) = map (\<lambda>(k, v). (k, json_text v)) kvs"
  by (induction kvs) (auto simp: json_some)

lemma null_back: "reads (\<lambda>m. parse_value m (json_text JNull @ r)) JNull r"
  by (intro reads_leaf) (simp add: json_text_def literal_def)

lemma truth_back: "reads (\<lambda>m. parse_value m (json_text (JBool b) @ r)) (JBool b) r"
  by (cases b) (auto intro!: reads_leaf simp: json_text_def literal_def bool_str_def)

lemma text_back: "reads (\<lambda>m. parse_value m (json_text (JStr s) @ r)) (JStr s) r"
  by (intro reads_leaf) (simp add: json_text_def json_quote_def string_back)

lemma value_back:
  assumes "is_json v" and "well_keyed v" and "whole_numbers v" and "ends r"
  shows "reads (\<lambda>m. parse_value m (json_text v @ r)) v r"
  using assms
proof (induction v arbitrary: r rule: json_clone.induct)
  case (2 n)
  then obtain i where n: "n = Fin (of_int i)" by auto
  let ?t = "sign_text (i < 0) @ nat_str (nat \<bar>i\<bar>)"
  have t: "json_text (JNum n) = ?t" by (simp add: n json_text_def rat_str_int)
  obtain c cs where c: "?t @ r = c # cs" "is_digit c \<or> c = CHR ''-''"
    using nat_str_digits [of "nat \<bar>i\<bar>"] by (cases "nat_str (nat \<bar>i\<bar>)"; cases "i < 0") (simp_all add: sign_text_def)
  have plain: "\<not> json_ws c" "c \<notin> set [CHR 0x22, CHR ''['', CHR ''{'', CHR ''t'', CHR ''f'', CHR ''n'']"
    using c(2) by (auto simp: is_digit_def json_ws_def)
  have "str_num ?t = n"
    unfolding n str_num_back by simp
  then have "parse_value (Suc m) (c # cs) = Some (JNum n, r)" for m
    using plain number_back [OF 2(4), of "i < 0" "nat \<bar>i\<bar>"] c(1) by simp
  then show ?case unfolding t append_assoc using c(1) by (intro reads_leaf) simp
next
  case (3 vs)
  show ?case
  proof (cases "vs = []")
    case True
    then show ?thesis by (intro reads_leaf) (simp add: json_text_def)
  next
    case False
    have t: "json_text (JArr vs) @ r = CHR ''['' # join '','' (map json_text vs) @ CHR '']'' # r"
      by (simp add: json_text_def [of "JArr vs"] json_text_def [abs_def])
    have items: "reads (\<lambda>m. parse_items m [] (join '','' (map json_text vs) @ CHR '']'' # r)) (JArr vs) r"
      using items_back [OF False, of "[]" r] 3 by simp
    obtain u us where u: "vs = u # us" using False by (cases vs) auto
    have "\<exists>s. join '','' (map json_text vs) @ CHR '']'' # r = json_text u @ s \<and> ends s"
      by (cases us) (simp_all add: u)
    then obtain s where s: "join '','' (map json_text vs) @ CHR '']'' # r = json_text u @ s" "ends s" by blast
    have "reads (\<lambda>m. parse_value m (json_text u @ s)) u s"
      by (rule 3(1)) (use 3 u s in auto)
    then obtain d ds where "skip_ws (join '','' (map json_text vs) @ CHR '']'' # r) = d # ds" "d \<noteq> CHR '']''"
      unfolding s(1) by (rule reads_start) blast
    with items show ?thesis unfolding t by (elim reads_step [rotated]) simp
  qed
next
  case (4 kvs)
  show ?case
  proof (cases "kvs = []")
    case True
    then show ?thesis by (intro reads_leaf) (simp add: json_text_def)
  next
    case False
    then obtain kv rest where kv: "kvs = kv # rest" by (cases kvs) auto
    have "map (\<lambda>(k, s). json_quote k @ '':'' @ s) (json_members (map (\<lambda>(k, v). (k, json v)) kvs)) = map member_text kvs"
      using 4(2) by (simp add: json_members_all member_text_def case_prod_beta comp_def)
    then have t: "json_text (JObj kvs) @ r = CHR ''{'' # join '','' (map member_text kvs) @ CHR ''}'' # r"
      by (simp add: json_text_def)
    have "\<exists>s. join '','' (map member_text kvs) @ CHR ''}'' # r = CHR 0x22 # s"
      by (cases rest) (simp_all add: kv member_text_def json_quote_def)
    moreover have "reads (\<lambda>m. parse_members m [] (join '','' (map member_text kvs) @ CHR ''}'' # r)) (JObj kvs) r"
      using members_back [OF False, of "[]" r] 4 by fastforce
    ultimately show ?thesis unfolding t by (elim exE reads_step [rotated]) simp
  qed
qed (simp_all add: null_back truth_back text_back)

text \<open>\<open>JSON.parse\<close> reads what \<open>JSON.stringify\<close> wrote.\<close>

theorem parse_stringify:
  assumes "is_json v" and "well_keyed v" and "whole_numbers v" and "json v = Some t"
  shows "json_parse t = Some v"
proof -
  have "reads (\<lambda>m. parse_value m t) v []"
    using value_back [OF assms(1-3), of "[]"] assms(4) by (simp add: json_text_def)
  then obtain n where "parse_value n t = Some (v, [])" unfolding reads_def by blast
  then show ?thesis unfolding fuel_enough by (intro exI [of _ n] exI [of _ "[]"]) (simp add: skip_ws_def)
qed

end
