(* ===== verification/ToolResults.thy ===== *)
theory ToolResults
  imports JsonSchema JsonRoundTrip
begin

text \<open>
  The structured results of tools (\<open>packages/tools/src/toolResultContract.js\<close>) and the file they travel through
  (\<open>toolResultTransport.js\<close>).  A tool writes its validated result once to a path of the wrapper; the wrapper reads,
  parses and validates it again.  Files are a map from paths to nodes; how paths are resolved is a parameter.
\<close>

section \<open>The contract\<close>

definition DEFAULT_TOOL_RESULT_MAX_BYTES :: int where
  "DEFAULT_TOOL_RESULT_MAX_BYTES = 1024 * 1024"

definition TOOL_RESULT_SCHEMA_VERSION :: string where
  "TOOL_RESULT_SCHEMA_VERSION = ''1.0''"

definition LEGACY_TOOL_OUTPUT_TYPE :: string where
  "LEGACY_TOOL_OUTPUT_TYPE = ''legacy_tool_execution.v1''"

definition ToolResultContractError :: "string \<Rightarrow> string \<Rightarrow> (string \<times> jsval) list \<Rightarrow> jsval" where
  "ToolResultContractError code message details = JObj
     [(''name'', JStr ''ToolResultContractError''), (''message'', JStr message), (''code'', JStr code), (''details'', JObj details)]"

text \<open>\<open>OUTPUT_TYPE_PATTERN\<close>.\<close>

definition output_type_ok :: "string \<Rightarrow> bool" where
  "output_type_ok s =
     (case s of
        [] \<Rightarrow> False
      | c # cs \<Rightarrow> (is_lower c \<or> is_digit c) \<and> 2 \<le> length cs \<and> length cs \<le> 119
          \<and> list_all (\<lambda>d. is_lower d \<or> is_digit d \<or> d \<in> set ''_.:-'') cs)"

definition UNSAFE_KEYS :: "string list" where
  "UNSAFE_KEYS = [''__proto__'', ''prototype'', ''constructor'']"

definition too_deep :: "string \<Rightarrow> jsval" where
  "too_deep path = ToolResultContractError ''TOOL_RESULT_MAX_DEPTH_EXCEEDED''
     (''Structured tool result exceeds the maximum nesting depth at '' @ path @ ''.'')
     [(''path'', JStr path), (''maxDepth'', jnat 40)]"

fun assertJsonSafe :: "jsval \<Rightarrow> string \<Rightarrow> nat \<Rightarrow> unit res"
and safe_items :: "jsval list \<Rightarrow> nat \<Rightarrow> string \<Rightarrow> nat \<Rightarrow> unit res"
and safe_members :: "(string \<times> jsval) list \<Rightarrow> string \<Rightarrow> nat \<Rightarrow> unit res" where
  "assertJsonSafe (JArr vs) path depth = (if 40 < depth then Inl (too_deep path) else safe_items vs 0 path depth)"
| "assertJsonSafe (JObj kvs) path depth = (if 40 < depth then Inl (too_deep path) else safe_members kvs path depth)"
| "assertJsonSafe (JNum n) path depth =
     (if 40 < depth then Inl (too_deep path)
      else if is_finite n then Inr ()
      else Inl (ToolResultContractError ''TOOL_RESULT_NON_FINITE_NUMBER''
             (''Structured tool result contains a non-finite number at '' @ path @ ''.'') [(''path'', JStr path)]))"
| "assertJsonSafe JUndef path depth =
     (if 40 < depth then Inl (too_deep path)
      else Inl (ToolResultContractError ''TOOL_RESULT_UNSAFE_VALUE''
             (''Structured tool result contains an unsupported undefined value at '' @ path @ ''.'')
             [(''path'', JStr path), (''valueType'', JStr ''undefined'')]))"
| "assertJsonSafe v path depth = (if 40 < depth then Inl (too_deep path) else Inr ())"
| "safe_items [] i path depth = Inr ()"
| "safe_items (v # vs) i path depth =
     rbind (assertJsonSafe v (path @ ''['' @ nat_str i @ '']'') (Suc depth)) (\<lambda>_. safe_items vs (Suc i) path depth)"
| "safe_members [] path depth = Inr ()"
| "safe_members ((k, v) # kvs) path depth =
     (if k \<in> set UNSAFE_KEYS
      then Inl (ToolResultContractError ''TOOL_RESULT_UNSAFE_KEY''
             (''Structured tool result contains an unsafe object key at '' @ path @ ''.'' @ k @ ''.'')
             [(''path'', JStr (path @ ''.'' @ k)), (''key'', JStr k)])
      else rbind (assertJsonSafe v (path @ ''.'' @ k) (Suc depth)) (\<lambda>_. safe_members kvs path depth))"

definition normalizeMaximumBytes :: "jsval \<Rightarrow> int" where
  "normalizeMaximumBytes v =
     (case finite_num v of Some r \<Rightarrow> if 0 < r then \<lfloor>r\<rfloor> else DEFAULT_TOOL_RESULT_MAX_BYTES
      | None \<Rightarrow> DEFAULT_TOOL_RESULT_MAX_BYTES)"

definition normalizeMessage :: "jsval \<Rightarrow> string res" where
  "normalizeMessage v =
     (let message = trim (to_str v)
      in if is_nullish v then Inr []
         else if 4000 < length message
         then Inl (ToolResultContractError ''TOOL_RESULT_MESSAGE_TOO_LONG''
                ''Structured tool result message exceeds 4,000 characters.'' [(''length'', jnat (length message))])
         else Inr message)"

record result_options =
  ro_expected :: jsval
  ro_schema :: jsval
  ro_maxBytes :: jsval

text \<open>\<open>String(v || '').trim()\<close>.\<close>

definition trimmed_text :: "jsval \<Rightarrow> string" where
  "trimmed_text v = trim (to_str (jor v (JStr [])))"

definition text_or_null :: "string \<Rightarrow> jsval" where
  "text_or_null s = (if s = [] then JNull else JStr s)"

text \<open>The checks of the members that come before the message.\<close>

definition checked_members :: "jsval \<Rightarrow> string \<Rightarrow> unit res" where
  "checked_members candidate expected =
     (let version = trimmed_text (jget candidate ''schemaVersion''); outputType = trimmed_text (jget candidate ''outputType'');
          warnings = jget candidate ''warnings''; failure = jget candidate ''error''; metadata = jget candidate ''metadata''
      in if \<not> is_obj candidate
         then Inl (ToolResultContractError ''TOOL_RESULT_NOT_OBJECT'' ''Structured tool result must be a JSON object.'' [])
         else if version \<noteq> TOOL_RESULT_SCHEMA_VERSION
         then Inl (ToolResultContractError ''TOOL_RESULT_UNSUPPORTED_SCHEMA_VERSION''
                (''Unsupported structured tool result schema version: '' @ (if version = [] then ''(blank)'' else version) @ ''.'')
                [(''schemaVersion'', text_or_null version), (''supportedVersions'', JArr [JStr TOOL_RESULT_SCHEMA_VERSION])])
         else if jtypeof (jget candidate ''success'') \<noteq> ''boolean''
         then Inl (ToolResultContractError ''TOOL_RESULT_SUCCESS_NOT_BOOLEAN''
                ''Structured tool result success must be a boolean.'' [])
         else if \<not> output_type_ok outputType
         then Inl (ToolResultContractError ''TOOL_RESULT_INVALID_OUTPUT_TYPE''
                ''Structured tool result outputType must be a stable lowercase code such as macro_ingestion_summary.v1.''
                [(''outputType'', text_or_null outputType)])
         else if \<not> has_own candidate ''output''
         then Inl (ToolResultContractError ''TOOL_RESULT_OUTPUT_MISSING''
                ''Structured tool result must include an output field.'' [(''outputType'', JStr outputType)])
         else if expected \<noteq> [] \<and> outputType \<noteq> expected
         then Inl (ToolResultContractError ''TOOL_RESULT_OUTPUT_TYPE_MISMATCH''
                (''Structured tool result outputType '' @ outputType @ '' does not match the declared contract '' @ expected @ ''.'')
                [(''outputType'', JStr outputType), (''expectedOutputType'', JStr expected)])
         else if warnings \<noteq> JUndef \<and> \<not> is_arr warnings
         then Inl (ToolResultContractError ''TOOL_RESULT_WARNINGS_NOT_ARRAY''
                ''Structured tool result warnings must be an array.'' [])
         else if \<not> is_nullish failure \<and> \<not> is_obj failure
         then Inl (ToolResultContractError ''TOOL_RESULT_ERROR_NOT_OBJECT''
                ''Structured tool result error must be an object or null.'' [])
         else if \<not> is_nullish metadata \<and> \<not> is_obj metadata
         then Inl (ToolResultContractError ''TOOL_RESULT_METADATA_NOT_OBJECT''
                ''Structured tool result metadata must be an object.'' [])
         else Inr ())"

definition normalized_result :: "jsval \<Rightarrow> string \<Rightarrow> jsval" where
  "normalized_result candidate message = JObj
     [(''schemaVersion'', JStr (trimmed_text (jget candidate ''schemaVersion''))), (''success'', jget candidate ''success''),
      (''message'', JStr message), (''outputType'', JStr (trimmed_text (jget candidate ''outputType''))),
      (''output'', jget candidate ''output''), (''warnings'', jor (jget candidate ''warnings'') (JArr [])),
      (''error'', or_null (jget candidate ''error'')), (''metadata'', jor (jget candidate ''metadata'') (JObj []))]"

definition schema_checked :: "host \<Rightarrow> nat \<Rightarrow> result_options \<Rightarrow> string \<Rightarrow> string \<Rightarrow> jsval \<Rightarrow> unit res" where
  "schema_checked H frames options expected outputType output =
     (if \<not> truthy (ro_schema options) then Inr ()
      else case validateJsonSchema H frames
             \<lparr>opt_path = ''$.output'', opt_schemaName = (if expected \<noteq> [] then expected else outputType), opt_throwOnError = True\<rparr>
             output (ro_schema options) of
        Inr _ \<Rightarrow> Inr ()
      | Inl err \<Rightarrow> Inl (ToolResultContractError ''TOOL_RESULT_OUTPUT_SCHEMA_INVALID''
          (to_str (jor (jget err ''message'') (JStr ''Structured tool result output failed its declared JSON Schema.'')))
          [(''outputType'', JStr outputType), (''expectedOutputType'', text_or_null expected),
           (''errors'', case jget err ''errors'' of JArr es \<Rightarrow> JArr es | _ \<Rightarrow> JArr [])]))"

text \<open>\<open>Buffer.byteLength\<close> of characters up to 255.\<close>

definition utf8_length :: "string \<Rightarrow> int" where
  "utf8_length s = sum_list (map (\<lambda>c. if code_of c < (128 :: nat) then 1 else 2) s)"

definition too_large :: "int \<Rightarrow> int \<Rightarrow> jsval" where
  "too_large bytes limit = ToolResultContractError ''TOOL_RESULT_TOO_LARGE''
     (''Structured tool result exceeds the maximum size of '' @ to_str (jint limit) @ '' bytes.'')
     [(''byteLength'', jint bytes), (''maximumBytes'', jint limit)]"

definition validateToolResult :: "host \<Rightarrow> nat \<Rightarrow> jsval \<Rightarrow> result_options \<Rightarrow> jsval res" where
  "validateToolResult H frames candidate options =
     (let expected = trimmed_text (ro_expected options); outputType = trimmed_text (jget candidate ''outputType'')
      in rbind (checked_members candidate expected) (\<lambda>_.
         rbind (normalizeMessage (jget candidate ''message'')) (\<lambda>message.
           (let normalized = normalized_result candidate message
            in rbind (assertJsonSafe normalized ''result'' 0) (\<lambda>_.
               rbind (schema_checked H frames options expected outputType (jget candidate ''output'')) (\<lambda>_.
                 (let bytes = utf8_length (json_text normalized); limit = normalizeMaximumBytes (ro_maxBytes options)
                  in if limit < bytes then Inl (too_large bytes limit)
                     else Inr (json_clone normalized))))))))"

definition isToolResult :: "jsval \<Rightarrow> bool" where
  "isToolResult v =
     (is_obj v \<and> is_str (jget v ''schemaVersion'') \<and> jtypeof (jget v ''success'') = ''boolean''
      \<and> is_str (jget v ''outputType'') \<and> has_own v ''output'')"

definition getToolResultDomainOutput :: "jsval \<Rightarrow> jsval" where
  "getToolResultDomainOutput v = (if isToolResult v then jget v ''output'' else v)"

definition createLegacyToolResult :: "host \<Rightarrow> nat \<Rightarrow> jsval \<Rightarrow> jsval res" where
  "createLegacyToolResult H frames arg =
     (let success = truthy (default_to (jget arg ''success'') (JBool True));
          null = (\<lambda>k. (k, default_to (jget arg k) JNull));
          given = (\<lambda>k. if truthy (jget arg k) then [(k, JStr (to_str (jget arg k)))] else [])
      in validateToolResult H frames (JObj
        [(''schemaVersion'', JStr TOOL_RESULT_SCHEMA_VERSION), (''success'', JBool success),
         (''message'', jor (jget arg ''message'') (JStr (if success then ''Tool completed successfully.'' else ''Tool execution failed.''))),
         (''outputType'', JStr LEGACY_TOOL_OUTPUT_TYPE),
         (''output'', JObj ([null ''executionId'', null ''toolCode'', null ''status'', null ''durationMs'',
             (''structuredOutputAvailable'', JBool False)]
           @ given ''structuredOutputStatus'' @ given ''structuredOutputExpectedType'' @ given ''structuredOutputError'')),
         (''warnings'', JArr []),
         (''error'', if success then JNull
            else JObj [(''code'', JStr ''LEGACY_TOOL_EXECUTION_FAILED''),
                       (''message'', jor (jget arg ''message'') (JStr ''Tool execution failed.''))]),
         (''metadata'', JObj [(''legacyTool'', JBool True)])])
        \<lparr>ro_expected = JUndef, ro_schema = JUndef, ro_maxBytes = JUndef\<rparr>)"

definition serializeContractError :: "jsval \<Rightarrow> jsval" where
  "serializeContractError err =
     (if \<not> truthy err then JNull
      else JObj [(''code'', jor (jget err ''code'') (JStr ''TOOL_RESULT_CONTRACT_ERROR'')),
        (''message'', jor (jget err ''message'') (JStr (to_str err))),
        (''details'', if is_obj (jget err ''details'') then jget err ''details'' else JObj [])])"

section \<open>The transport\<close>

text \<open>\<open>OtherNode\<close> is what cannot be read or removed as a file: a directory.\<close>

datatype node =
    RegularFile string
  | OtherNode

type_synonym files = "string \<Rightarrow> node option"

definition normalizeFileToken :: "jsval \<Rightarrow> string \<Rightarrow> string" where
  "normalizeFileToken v fallback =
     (let s = take 48 (strip_all (CHR ''-'') (squash (\<lambda>c. \<not> (is_alnum c \<or> c \<in> set ''_.-'')) (CHR ''-'') False
        (trim (to_str (jor v (JStr []))))))
      in if s = [] then fallback else s)"

text \<open>\<open>resolve\<close> is \<open>resolveWriterPaths\<close>: the path inside the directory of the wrapper, or the error thrown.\<close>

definition writeToolResult ::
  "host \<Rightarrow> nat \<Rightarrow> (string \<Rightarrow> string res) \<Rightarrow> string \<Rightarrow> result_options \<Rightarrow> jsval \<Rightarrow> files \<Rightarrow> jsval res \<times> files" where
  "writeToolResult H frames resolve resultPath options toolResult fs =
     (if resultPath = [] then (Inr (JObj [(''emitted'', JBool False), (''reason'', JStr ''result_path_not_configured'')]), fs)
      else case rbind (resolve resultPath) (\<lambda>path.
          rbind (validateToolResult H frames toolResult (options\<lparr>ro_maxBytes := jint (normalizeMaximumBytes (ro_maxBytes options))\<rparr>))
            (\<lambda>normalized. Inr (path, normalized))) of
        Inl err \<Rightarrow> (Inl err, fs)
      | Inr (path, normalized) \<Rightarrow>
          (let temporary = path @ ''.tmp''
           in if fs path \<noteq> None \<or> fs temporary \<noteq> None
              then (Inl (ToolResultContractError ''TOOL_RESULT_PATH_ALREADY_EXISTS''
                     ''Structured tool result transport path has already been used.'' [(''resultPath'', JStr path)]), fs)
              else (Inr (JObj [(''emitted'', JBool True), (''resultPath'', JStr path), (''outputType'', jget normalized ''outputType''),
                     (''schemaVersion'', jget normalized ''schemaVersion''),
                     (''byteLength'', jint (utf8_length (json_text normalized)))]),
                   fs(path \<mapsto> RegularFile (json_text normalized), temporary := None))))"

record transport =
  tp_path :: string
  tp_directory :: string
  tp_execution :: jsval
  tp_tool :: jsval
  tp_maxBytes :: int
  tp_expected :: jsval
  tp_schema :: jsval

text \<open>The file of an execution: \<open>token\<close> is a random identifier, and \<open>place\<close> joins and checks a name in the directory.\<close>

definition createToolResultTransport ::
  "(string \<Rightarrow> string res) \<Rightarrow> string \<Rightarrow> string \<Rightarrow> jsval \<Rightarrow> jsval \<Rightarrow> result_options \<Rightarrow> transport res" where
  "createToolResultTransport place directory token executionId toolCode options =
     rbind (place (normalizeFileToken executionId ''execution'' @ ''-'' @ take 12 (filter (\<lambda>c. c \<noteq> CHR ''-'') token) @ ''.tool-result''))
       (\<lambda>path. Inr \<lparr>tp_path = path, tp_directory = directory, tp_execution = executionId, tp_tool = toolCode,
          tp_maxBytes = normalizeMaximumBytes (ro_maxBytes options), tp_expected = default_to (ro_expected options) JNull,
          tp_schema = default_to (ro_schema options) JNull\<rparr>)"

definition getEnvironment :: "transport \<Rightarrow> (string \<times> string) list" where
  "getEnvironment T =
     [(''SKYCOMMAND_TOOL_RESULT_PATH'', tp_path T), (''SKYCOMMAND_TOOL_RESULT_DIRECTORY'', tp_directory T),
      (''SKYCOMMAND_EXECUTION_ID'', to_str (jor (tp_execution T) (JStr []))),
      (''SKYCOMMAND_TOOL_CODE'', to_str (jor (tp_tool T) (JStr []))),
      (''SKYCOMMAND_TOOL_RESULT_REQUIRED'', ''false''),
      (''SKYCOMMAND_TOOL_RESULT_MAX_BYTES'', to_str (jint (tp_maxBytes T)))]"

text \<open>\<open>complaint\<close> is the message of the JSON parser for a text.\<close>

definition readResult :: "host \<Rightarrow> nat \<Rightarrow> (string \<Rightarrow> string) \<Rightarrow> transport \<Rightarrow> files \<Rightarrow> jsval res" where
  "readResult H frames complaint T fs =
     (case fs (tp_path T) of
        None \<Rightarrow> Inr (JObj [(''status'', JStr ''NOT_EMITTED''), (''toolResult'', JNull), (''byteLength'', jnat 0)])
      | Some OtherNode \<Rightarrow> Inl (ToolResultContractError ''TOOL_RESULT_NOT_FILE''
          ''Structured tool result transport target is not a regular file.'' [(''resultPath'', JStr (tp_path T))])
      | Some (RegularFile raw) \<Rightarrow>
          if tp_maxBytes T < utf8_length raw then Inl (too_large (utf8_length raw) (tp_maxBytes T))
          else case json_parse raw of
            None \<Rightarrow> Inl (ToolResultContractError ''TOOL_RESULT_INVALID_JSON''
              (''Structured tool result is not valid JSON: '' @ complaint raw) [(''resultPath'', JStr (tp_path T))])
          | Some parsed \<Rightarrow>
              rbind (validateToolResult H frames parsed
                  \<lparr>ro_expected = tp_expected T, ro_schema = tp_schema T, ro_maxBytes = jint (tp_maxBytes T)\<rparr>)
                (\<lambda>toolResult. Inr (JObj [(''status'', JStr ''VALID''), (''toolResult'', toolResult),
                   (''byteLength'', jint (utf8_length raw))])))"

definition cleanup :: "transport \<Rightarrow> files \<Rightarrow> files" where
  "cleanup T fs = (\<lambda>p. if p \<in> {tp_path T, tp_path T @ ''.tmp''} then (case fs p of Some OtherNode \<Rightarrow> Some OtherNode | _ \<Rightarrow> None) else fs p)"

section \<open>Accepted results\<close>

text \<open>An empty list or object may be at depth 40, so the nesting is at most 41.\<close>

definition json_safe :: "jsval \<Rightarrow> nat \<Rightarrow> bool" where
  "json_safe v depth = (is_json v \<and> jdepth v + depth \<le> 41 \<and> list_all (\<lambda>k. k \<notin> set UNSAFE_KEYS) (keys_of v))"

lemma max_list_le: "(\<forall>x \<in> set xs. x + d \<le> n) \<Longrightarrow> d \<le> n \<Longrightarrow> foldr max xs 0 + d \<le> (n::nat)"
  by (induction xs) auto

lemma safe_value:
  "assertJsonSafe v path depth = Inr () \<Longrightarrow> json_safe v depth"
  "safe_items vs i path depth = Inr () \<Longrightarrow> list_all (\<lambda>v. json_safe v (Suc depth)) vs"
  "safe_members kvs path depth = Inr () \<Longrightarrow> list_all (\<lambda>(k, v). k \<notin> set UNSAFE_KEYS \<and> json_safe v (Suc depth)) kvs"
proof (induction v path depth and vs i path depth and kvs path depth rule: assertJsonSafe_safe_items_safe_members.induct)
  case (1 vs path depth)
  then have "list_all (\<lambda>v. json_safe v (Suc depth)) vs" "depth \<le> 40" by (auto split: if_splits)
  then show ?case
    using max_list_le [of "map jdepth vs" depth 40] by (auto simp: json_safe_def list_all_iff)
next
  case (2 kvs path depth)
  then have "list_all (\<lambda>(k, v). k \<notin> set UNSAFE_KEYS \<and> json_safe v (Suc depth)) kvs" "depth \<le> 40" by (auto split: if_splits)
  then show ?case
    using max_list_le [of "map (\<lambda>(k, v). jdepth v) kvs" depth 40] by (fastforce simp: json_safe_def list_all_iff)
qed (auto simp: json_safe_def rbind_Inr_iff split: if_splits)

lemma validated:
  assumes "validateToolResult H frames candidate options = Inr r"
  obtains message where "r = normalized_result candidate message" "normalizeMessage (jget candidate ''message'') = Inr message"
    "checked_members candidate (trimmed_text (ro_expected options)) = Inr ()" "assertJsonSafe r ''result'' 0 = Inr ()"
    "schema_checked H frames options (trimmed_text (ro_expected options)) (trimmed_text (jget candidate ''outputType''))
       (jget candidate ''output'') = Inr ()"
    "utf8_length (json_text r) \<le> normalizeMaximumBytes (ro_maxBytes options)"
proof -
  from assms obtain message where m: "normalizeMessage (jget candidate ''message'') = Inr message"
    "checked_members candidate (trimmed_text (ro_expected options)) = Inr ()"
    "assertJsonSafe (normalized_result candidate message) ''result'' 0 = Inr ()"
    "schema_checked H frames options (trimmed_text (ro_expected options)) (trimmed_text (jget candidate ''outputType''))
       (jget candidate ''output'') = Inr ()"
    "utf8_length (json_text (normalized_result candidate message)) \<le> normalizeMaximumBytes (ro_maxBytes options)"
    "r = json_clone (normalized_result candidate message)"
    by (auto simp: validateToolResult_def rbind_Inr_iff Let_def split: if_splits)
  moreover have "r = normalized_result candidate message"
    using m(6) json_clone_id safe_value(1) [OF m(3)] by (simp add: json_safe_def)
  ultimately show thesis using that by simp
qed

lemma message_back: "normalizeMessage v = Inr message \<Longrightarrow> normalizeMessage (JStr message) = Inr message"
  by (auto simp: normalizeMessage_def Let_def trim_Nil split: if_splits)

lemma trimmed_again [simp]: "trimmed_text (JStr (trim s)) = trim s" "trimmed_text (JStr (trimmed_text v)) = trimmed_text v"
  by (auto simp: trimmed_text_def jor_def trim_Nil)

lemma result_members [simp]:
  "jget (normalized_result c m) ''schemaVersion'' = JStr (trimmed_text (jget c ''schemaVersion''))"
  "jget (normalized_result c m) ''success'' = jget c ''success''"
  "jget (normalized_result c m) ''message'' = JStr m"
  "jget (normalized_result c m) ''outputType'' = JStr (trimmed_text (jget c ''outputType''))"
  "jget (normalized_result c m) ''output'' = jget c ''output''"
  "jget (normalized_result c m) ''warnings'' = jor (jget c ''warnings'') (JArr [])"
  "jget (normalized_result c m) ''error'' = or_null (jget c ''error'')"
  "jget (normalized_result c m) ''metadata'' = jor (jget c ''metadata'') (JObj [])"
  by (simp_all add: normalized_result_def kv_get_def)

lemma members_again:
  assumes "checked_members c expected = Inr ()"
  shows "checked_members (normalized_result c m) expected = Inr ()" "normalized_result (normalized_result c m) m = normalized_result c m"
proof -
  have w: "jget c ''warnings'' = JUndef \<or> is_arr (jget c ''warnings'')"
    and e: "is_nullish (jget c ''error'') \<or> is_obj (jget c ''error'')"
    and d: "is_nullish (jget c ''metadata'') \<or> is_obj (jget c ''metadata'')"
    using assms by (auto simp: checked_members_def Let_def split: if_splits)
  have tr: "truthy v" if "is_arr v" for v using that by (cases v) auto
  have "is_obj (normalized_result c m)" "has_own (normalized_result c m) ''output''"
    by (simp_all add: normalized_result_def has_own_def)
  moreover have "is_arr (jor (jget c ''warnings'') (JArr []))" using w tr by (auto simp: jor_def)
  moreover have "is_nullish (or_null (jget c ''error'')) \<or> is_obj (or_null (jget c ''error''))"
    using e by (auto simp: or_null_def jor_def)
  moreover have "is_obj (jor (jget c ''metadata'') (JObj []))"
    using d by (cases "jget c ''metadata''") (auto simp: jor_def)
  ultimately show "checked_members (normalized_result c m) expected = Inr ()"
    using assms by (auto simp: checked_members_def Let_def split: if_splits)
  show "normalized_result (normalized_result c m) m = normalized_result c m"
    using w e d tr by (auto simp: normalized_result_def kv_get_def jor_def or_null_def)
qed

text \<open>C25 (accepted_result_sound): an accepted result is a tool result of the supported version and with the success of the candidate,
  holds nothing that JSON cannot, no unsafe key and no nesting beyond the limit, is no larger than allowed, and its
  output conforms to the declared schema.\<close>

theorem accepted_result_sound:
  assumes "validateToolResult H frames candidate options = Inr r"
  shows "isToolResult r \<and> jget r ''schemaVersion'' = JStr TOOL_RESULT_SCHEMA_VERSION \<and> jget r ''success'' = jget candidate ''success''
     \<and> is_json r \<and> jdepth r \<le> 41 \<and> list_all (\<lambda>k. k \<notin> set UNSAFE_KEYS) (keys_of r)
     \<and> utf8_length (json_text r) \<le> normalizeMaximumBytes (ro_maxBytes options)
     \<and> (truthy (ro_schema options) \<longrightarrow> validateNode H (ro_schema options) frames (jget r ''output'') (ro_schema options) ''$.output'' = Inr [])"
proof -
  from validated [OF assms] obtain message where v: "r = normalized_result candidate message"
    "checked_members candidate (trimmed_text (ro_expected options)) = Inr ()" "assertJsonSafe r ''result'' 0 = Inr ()"
    "schema_checked H frames options (trimmed_text (ro_expected options)) (trimmed_text (jget candidate ''outputType''))
       (jget candidate ''output'') = Inr ()"
    "utf8_length (json_text r) \<le> normalizeMaximumBytes (ro_maxBytes options)" by metis
  have "isToolResult r" "jget r ''schemaVersion'' = JStr TOOL_RESULT_SCHEMA_VERSION"
    using v(1,2) members_again(1) [OF v(2), of message]
    by (auto simp: isToolResult_def checked_members_def Let_def split: if_splits)
  moreover have "validateNode H (ro_schema options) frames (jget r ''output'') (ro_schema options) ''$.output'' = Inr []"
    if "truthy (ro_schema options)"
    using v(1,4) that
    by (auto simp: schema_checked_def validateJsonSchema_def rbind_Inr_iff split: sum.splits if_splits)
  ultimately show ?thesis
    using v safe_value(1) [OF v(3)] by (simp add: json_safe_def)
qed

lemma revalidated_with:
  assumes "validateToolResult H frames candidate options = Inr r"
    and "trimmed_text (ro_expected options') = trimmed_text (ro_expected options)" and "jor (ro_schema options') JNull = jor (ro_schema options) JNull"
    and "normalizeMaximumBytes (ro_maxBytes options') = normalizeMaximumBytes (ro_maxBytes options)"
  shows "validateToolResult H frames r options' = Inr r"
proof -
  from validated [OF assms(1)] obtain message where v: "r = normalized_result candidate message"
    "normalizeMessage (jget candidate ''message'') = Inr message"
    "checked_members candidate (trimmed_text (ro_expected options)) = Inr ()" "assertJsonSafe r ''result'' 0 = Inr ()"
    "schema_checked H frames options (trimmed_text (ro_expected options)) (trimmed_text (jget candidate ''outputType''))
       (jget candidate ''output'') = Inr ()"
    "utf8_length (json_text r) \<le> normalizeMaximumBytes (ro_maxBytes options)" by metis
  have "json_clone r = r" using safe_value(1) [OF v(4)] by (simp add: json_safe_def json_clone_id)
  moreover have "schema_checked H frames options' = schema_checked H frames options"
    using assms(3) by (cases "truthy (ro_schema options)"; cases "truthy (ro_schema options')") (auto simp: schema_checked_def fun_eq_iff jor_def)
  ultimately show ?thesis
    using v assms(2,4) members_again [OF v(3), of message] message_back [OF v(2)]
    by (simp add: validateToolResult_def Let_def)
qed

text \<open>Validating an accepted result again, with the same options, returns it unchanged.\<close>

theorem accepted_result_stable:
  assumes "validateToolResult H frames candidate options = Inr r"
  shows "validateToolResult H frames r options = Inr r"
  using revalidated_with [OF assms] by simp

lemma accepted_json:
  assumes "validateToolResult H frames candidate options = Inr r"
  shows "is_json r" "utf8_length (json_text r) \<le> normalizeMaximumBytes (ro_maxBytes options)"
  using validated [OF assms] safe_value(1) by (metis json_safe_def)+

section \<open>Writing and reading\<close>

lemma bytes_again: "normalizeMaximumBytes (jint n) = n" if "0 < n"
  using that by (simp add: normalizeMaximumBytes_def jint_def finite_num_def)


text \<open>A small result, as a tool writes it.\<close>

definition sample_result :: jsval where
  "sample_result = JObj [(''schemaVersion'', JStr ''1.0''), (''success'', JBool True), (''message'', JStr ''ok''),
     (''outputType'', JStr ''run.v1''), (''output'', JObj [(''rows'', JArr [JBool True])]), (''warnings'', JArr []),
     (''error'', JNull), (''metadata'', JObj [])]"

abbreviation default_options :: result_options where
  "default_options \<equiv> \<lparr>ro_expected = JUndef, ro_schema = JUndef, ro_maxBytes = JUndef\<rparr>"

lemma sample_accepted: "validateToolResult lenient_host 0 sample_result default_options = Inr sample_result"
  by code_simp

theorem accepted_result_sound_witness: "isToolResult sample_result \<and> jdepth sample_result \<le> 41"
  using accepted_result_sound [OF sample_accepted] by blast

theorem accepted_result_stable_witness: "validateToolResult lenient_host 0 sample_result default_options = Inr sample_result"
  by (rule accepted_result_stable [OF sample_accepted])


end
