(* ===== verification/IngestionResults.thy ===== *)
theory IngestionResults
  imports ToolResults SourceRequests
begin

text \<open>
  The results of ingestion (\<open>packages/ingestion/src\<close>): what the pipeline keeps of an item (\<open>core/runPipeline.js\<close>), the
  summary of a macro ingestion (\<open>core/macroIngestionResult.js\<close>, \<open>core/macroIngestionPerformance.js\<close>) and the summary of a
  run for the ledger (\<open>ledger/ingestionRunResult.js\<close>).  Results, attempts, events and errors are objects, as the pipeline
  makes them; what a download, a normalization and a load answer is given, and so are the measured times.
\<close>

section \<open>Macro ingestion results\<close>

definition normalizeNumber :: "jsval \<Rightarrow> rat" where
  "normalizeNumber v = (case finite_num v of Some r \<Rightarrow> r | None \<Rightarrow> 0)"

definition normalizeNullableString :: "jsval \<Rightarrow> string option" where
  "normalizeNullableString v = (if is_nullish v \<or> v = JStr [] then None else Some (to_str v))"

definition normalizeError :: "jsval \<Rightarrow> jsval" where
  "normalizeError v =
     (if \<not> truthy v then JNull
      else if is_str v then JObj [(''code'', JStr ''MACRO_INGESTION_ERROR''), (''message'', v)]
      else JObj [(''code'', JStr (to_str (jor (jget v ''code'') (JStr ''MACRO_INGESTION_ERROR'')))),
                 (''message'', JStr (to_str (jor (jget v ''message'') (JStr ''Macro ingestion failed.''))))])"

definition MACRO_INGESTION_OUTPUT_TYPE :: string where
  "MACRO_INGESTION_OUTPUT_TYPE = ''macro_ingestion_summary.v1''"

definition MACRO_INGESTION_OUTCOMES :: "string list" where
  "MACRO_INGESTION_OUTCOMES = [''UPDATED'', ''UNCHANGED'', ''FAILED'', ''PARTIAL'']"

definition determineIndicatorOutcome :: "jsval \<Rightarrow> string" where
  "determineIndicatorOutcome result =
     (let explicit = to_upper (to_str (jor (jget result ''outcome'') (JStr [])))
      in if explicit \<in> set MACRO_INGESTION_OUTCOMES then explicit
         else if jget result ''ok'' = JBool False \<or> truthy (jget result ''error'') then ''FAILED''
         else if 0 < normalizeNumber (jget result ''rowsInserted'') \<or> 0 < normalizeNumber (jget result ''rowsUpdated'')
         then ''UPDATED'' else ''UNCHANGED'')"

record indicator =
  in_code :: string
  in_outcome :: string
  in_staging_rows :: rat
  in_staging_min :: "string option"
  in_staging_max :: "string option"
  in_new_rows :: rat
  in_inserted :: rat
  in_updated :: rat
  in_previous_max :: "string option"
  in_source_max :: "string option"
  in_current_max :: "string option"
  in_started :: "string option"
  in_completed :: "string option"
  in_duration :: rat
  in_error :: jsval

definition normalizeIndicatorResult :: "jsval \<Rightarrow> indicator" where
  "normalizeIndicatorResult result =
     (let num = (\<lambda>k. normalizeNumber (jget result k)); text = (\<lambda>k. normalizeNullableString (jget result k));
          outcome = determineIndicatorOutcome result
      in \<lparr>in_code = to_upper (to_str (jors [jget result ''indicatorCode'', jget result ''code'', JStr ''UNKNOWN''])),
          in_outcome = outcome, in_staging_rows = num ''stagingRows'', in_staging_min = text ''stagingMinDate'',
          in_staging_max = text ''stagingMaxDate'', in_new_rows = num ''newRowsDetected'', in_inserted = num ''rowsInserted'',
          in_updated = num ''rowsUpdated'', in_previous_max = text ''previousTargetMaxDate'',
          in_source_max = normalizeNullableString (jor (jget result ''sourceMaxDate'') (jget result ''stagingMaxDate'')),
          in_current_max = text ''currentTargetMaxDate'', in_started = text ''startedAt'',
          in_completed = normalizeNullableString (jor (jget result ''completedAt'') (jget result ''finishedAt'')),
          in_duration = num ''durationMs'',
          in_error = (if outcome = ''FAILED'' then normalizeError (jget result ''error'') else JNull)\<rparr>)"

record macro_totals =
  mt_requested :: nat
  mt_succeeded :: nat
  mt_failed :: nat
  mt_updated :: nat
  mt_unchanged :: nat
  mt_rows_staged :: rat
  mt_rows_new :: rat
  mt_rows_inserted :: rat
  mt_rows_updated :: rat

definition no_totals :: macro_totals where
  "no_totals = \<lparr>mt_requested = 0, mt_succeeded = 0, mt_failed = 0, mt_updated = 0, mt_unchanged = 0, mt_rows_staged = 0,
     mt_rows_new = 0, mt_rows_inserted = 0, mt_rows_updated = 0\<rparr>"

definition count_indicator :: "indicator \<Rightarrow> macro_totals \<Rightarrow> macro_totals" where
  "count_indicator i t =
     (let one = (\<lambda>b. if b then Suc 0 else 0); failed = (in_outcome i = ''FAILED'')
      in \<lparr>mt_requested = mt_requested t + 1, mt_succeeded = mt_succeeded t + one (\<not> failed), mt_failed = mt_failed t + one failed,
          mt_updated = mt_updated t + one (in_outcome i = ''UPDATED''),
          mt_unchanged = mt_unchanged t + one (in_outcome i = ''UNCHANGED''), mt_rows_staged = mt_rows_staged t + in_staging_rows i,
          mt_rows_new = mt_rows_new t + in_new_rows i, mt_rows_inserted = mt_rows_inserted t + in_inserted i,
          mt_rows_updated = mt_rows_updated t + in_updated i\<rparr>)"

definition summarizeMacroIngestionResults :: "jsval list \<Rightarrow> indicator list \<times> macro_totals" where
  "summarizeMacroIngestionResults results =
     (let indicators = map normalizeIndicatorResult results in (indicators, fold count_indicator indicators no_totals))"

definition determineBatchOutcome :: "macro_totals \<Rightarrow> string" where
  "determineBatchOutcome t =
     (if 0 < mt_failed t \<and> 0 < mt_succeeded t then ''PARTIAL''
      else if 0 < mt_failed t then ''FAILED''
      else if 0 < mt_updated t then ''UPDATED'' else ''UNCHANGED'')"

text \<open>\<open>date_of\<close> is \<open>Date.parse\<close>, with \<open>None\<close> for an invalid date.\<close>

definition getBatchDurationMs :: "(string \<Rightarrow> int option) \<Rightarrow> jsval \<Rightarrow> jsval \<Rightarrow> int" where
  "getBatchDurationMs date_of startedAt completedAt =
     (if \<not> truthy startedAt \<or> \<not> truthy completedAt then 0
      else case (date_of (to_str startedAt), date_of (to_str completedAt)) of
        (Some a, Some b) \<Rightarrow> max 0 (b - a)
      | _ \<Rightarrow> 0)"

definition opt_str :: "string option \<Rightarrow> jsval" where
  "opt_str v = (case v of Some s \<Rightarrow> JStr s | None \<Rightarrow> JNull)"

definition indicator_value :: "indicator \<Rightarrow> jsval" where
  "indicator_value i = JObj
     [(''indicatorCode'', JStr (in_code i)), (''outcome'', JStr (in_outcome i)), (''stagingRows'', jnum (in_staging_rows i)),
      (''stagingMinDate'', opt_str (in_staging_min i)), (''stagingMaxDate'', opt_str (in_staging_max i)),
      (''newRowsDetected'', jnum (in_new_rows i)), (''rowsInserted'', jnum (in_inserted i)), (''rowsUpdated'', jnum (in_updated i)),
      (''previousTargetMaxDate'', opt_str (in_previous_max i)), (''sourceMaxDate'', opt_str (in_source_max i)),
      (''currentTargetMaxDate'', opt_str (in_current_max i)), (''startedAt'', opt_str (in_started i)),
      (''completedAt'', opt_str (in_completed i)), (''durationMs'', jnum (in_duration i)), (''error'', in_error i)]"

definition totals_value :: "macro_totals \<Rightarrow> jsval" where
  "totals_value t = JObj
     [(''indicatorsRequested'', jnat (mt_requested t)), (''indicatorsSucceeded'', jnat (mt_succeeded t)),
      (''indicatorsFailed'', jnat (mt_failed t)), (''indicatorsUpdated'', jnat (mt_updated t)),
      (''indicatorsUnchanged'', jnat (mt_unchanged t)), (''rowsStaged'', jnum (mt_rows_staged t)),
      (''rowsDetectedAsNew'', jnum (mt_rows_new t)), (''rowsInserted'', jnum (mt_rows_inserted t)),
      (''rowsUpdated'', jnum (mt_rows_updated t))]"

section \<open>Telemetry\<close>

definition normalizeDurationMs :: "jsval \<Rightarrow> jsval" where
  "normalizeDurationMs v = jnum (max 0 (normalizeNumber v))"

definition normalizePhase :: "jsval \<Rightarrow> jsval" where
  "normalizePhase phase = JObj
     [(''code'', JStr (to_str (jor (jget phase ''code'') (JStr ''UNKNOWN'')))),
      (''label'', JStr (to_str (jors [jget phase ''label'', jget phase ''code'', JStr ''Phase'']))),
      (''durationMs'', normalizeDurationMs (jget phase ''durationMs''))]"

definition durations :: "string list \<Rightarrow> jsval \<Rightarrow> (string \<times> jsval) list" where
  "durations ks v = map (\<lambda>k. (k, normalizeDurationMs (jget v k))) ks"

definition normalizeSlowIndicator :: "jsval \<Rightarrow> jsval" where
  "normalizeSlowIndicator v = JObj ((''indicatorCode'', JStr (to_str (jor (jget v ''indicatorCode'') (JStr ''UNKNOWN''))))
     # durations [''durationMs'', ''fetchMs'', ''normalizeMs'', ''loadMs'', ''cleanupMs''] v)"

text \<open>\<open>Math.max(0, Number.parseInt(v, 10) || 0)\<close>.\<close>

definition whole_count :: "jsval \<Rightarrow> jsval" where
  "whole_count v = jint (case parse_int v of Some i \<Rightarrow> max 0 i | None \<Rightarrow> 0)"

definition normalizeWorkloadBreakdown :: "jsval \<Rightarrow> jsval" where
  "normalizeWorkloadBreakdown v =
     (if \<not> is_obj v then JNull
      else JObj
        [(''instrumentedTotalMs'', normalizeDurationMs (jget v ''instrumentedTotalMs'')),
         (''concurrency'', whole_count (jget v ''concurrency'')), (''batchCount'', whole_count (jget v ''batchCount'')),
         (''phases'', JArr (map normalizePhase (arr_items (jget v ''phases'')))),
         (''cumulativeStageMs'', JObj (durations [''fetchMs'', ''normalizeMs'', ''loadMs'', ''cleanupMs''] (jget v ''cumulativeStageMs''))),
         (''slowestIndicators'', JArr (take 10 (map normalizeSlowIndicator (arr_items (jget v ''slowestIndicators'')))))])"

definition normalizeMacroPerformanceTelemetry :: "jsval \<Rightarrow> jsval" where
  "normalizeMacroPerformanceTelemetry v =
     (if \<not> is_obj v then JNull
      else let breakdown = normalizeWorkloadBreakdown (jget v ''workloadBreakdown'')
        in JObj ([(''instrumentedTotalMs'', normalizeDurationMs (jget v ''instrumentedTotalMs'')),
                  (''phases'', JArr (map normalizePhase (arr_items (jget v ''phases''))))]
              @ (if truthy breakdown then [(''workloadBreakdown'', breakdown)] else [])))"

section \<open>The result of a macro ingestion\<close>

text \<open>\<open>(v || []).map(...)\<close>: the items, or the error of a value that is no array.\<close>

definition items_or_throw :: "jsval \<Rightarrow> jsval list res" where
  "items_or_throw v =
     (case jor v (JArr []) of JArr vs \<Rightarrow> Inr vs | _ \<Rightarrow> Inl (js_error ''map is not a function''))"

definition success_or :: "bool \<Rightarrow> string \<Rightarrow> string \<Rightarrow> string" where
  "success_or b x y = (if b then x else y)"

definition createMacroIngestionToolResult ::
  "host \<Rightarrow> nat \<Rightarrow> (string \<Rightarrow> int option) \<Rightarrow> string \<Rightarrow> jsval \<Rightarrow> jsval \<Rightarrow> jsval \<Rightarrow> jsval res" where
  "createMacroIngestionToolResult H frames date_of today sourceCode batchResult message =
     rbind (items_or_throw (jget batchResult ''results'')) (\<lambda>results.
     (let (indicators, totals) = summarizeMacroIngestionResults results;
          telemetry = normalizeMacroPerformanceTelemetry (jget batchResult ''performanceTelemetry'');
          outcome = determineBatchOutcome totals; success = (mt_failed totals = 0);
          failed = map in_code (filter (\<lambda>i. in_outcome i = ''FAILED'') indicators);
          completedAt = jor (jget batchResult ''completedAt'') (JStr today); startedAt = jor (jget batchResult ''startedAt'') completedAt;
          source = to_upper (to_str (jors [sourceCode, jget batchResult ''source'', JStr ''UNKNOWN'']))
      in validateToolResult H frames (JObj
        [(''schemaVersion'', JStr TOOL_RESULT_SCHEMA_VERSION), (''success'', JBool success),
         (''message'', jor message (JStr (source @ '' ingestion '' @ success_or success ''completed successfully'' ''completed with failures'' @ ''.''))),
         (''outputType'', JStr MACRO_INGESTION_OUTPUT_TYPE),
         (''output'', JObj
           ([(''sourceCode'', JStr source), (''outcome'', JStr outcome),
             (''selectedIndicators'', JBool (truthy (jget batchResult ''selectedIndicators''))), (''startedAt'', startedAt),
             (''completedAt'', completedAt), (''durationMs'', jint (getBatchDurationMs date_of startedAt completedAt))]
            @ (if truthy telemetry then [(''performanceTelemetry'', telemetry)] else [])
            @ [(''totals'', totals_value totals), (''indicators'', JArr (map indicator_value indicators))])),
         (''warnings'', JArr (if failed = [] then []
            else [JStr (nat_str (length failed) @ '' indicator(s) failed: '' @ join '', '' failed)])),
         (''error'', if success then JNull
            else JObj [(''code'', JStr (success_or (outcome = ''PARTIAL'') ''MACRO_INGESTION_PARTIAL_FAILURE'' ''MACRO_INGESTION_FAILED'')),
              (''message'', JStr (nat_str (mt_failed totals) @ '' indicator(s) failed during '' @ source @ '' ingestion.'')),
              (''failedIndicators'', JArr (map JStr failed))]),
         (''metadata'', JObj [(''mode'', jor (jget batchResult ''mode'') (JStr ''indicator_batch'')),
            (''concurrency'', jnum (normalizeNumber (jget batchResult ''concurrency''))),
            (''batchCount'', jnum (normalizeNumber (jget batchResult ''batchCount''))),
            (''ingestionLedger'', or_null (jget batchResult ''ledger''))])])
        default_options))"

definition createMacroIngestionFailureToolResult ::
  "host \<Rightarrow> nat \<Rightarrow> (string \<Rightarrow> int option) \<Rightarrow> string \<Rightarrow> jsval \<Rightarrow> jsval res" where
  "createMacroIngestionFailureToolResult H frames date_of today arg =
     (let source = to_upper (to_str (jor (jget arg ''sourceCode'') (JStr ''UNKNOWN'')));
          telemetry = normalizeMacroPerformanceTelemetry (jget arg ''performanceTelemetry'');
          finishedAt = jor (jget arg ''completedAt'') (JStr today); beganAt = jor (jget arg ''startedAt'') finishedAt
      in validateToolResult H frames (JObj
        [(''schemaVersion'', JStr TOOL_RESULT_SCHEMA_VERSION), (''success'', JBool False),
         (''message'', JStr (source @ '' ingestion failed before a batch result was produced.'')),
         (''outputType'', JStr MACRO_INGESTION_OUTPUT_TYPE),
         (''output'', JObj
           ([(''sourceCode'', JStr source), (''outcome'', JStr ''FAILED''), (''selectedIndicators'', JBool False),
             (''startedAt'', beganAt), (''completedAt'', finishedAt), (''durationMs'', jint (getBatchDurationMs date_of beganAt finishedAt))]
            @ (if truthy telemetry then [(''performanceTelemetry'', telemetry)] else [])
            @ [(''totals'', totals_value no_totals), (''indicators'', JArr [])])),
         (''warnings'', JArr []), (''error'', normalizeError (jget arg ''error'')),
         (''metadata'', JObj [(''mode'', JStr ''fatal_error''), (''concurrency'', jnat 0), (''batchCount'', jnat 0)])])
        default_options)"

definition toLegacyPipelineSummary :: "jsval list \<Rightarrow> jsval" where
  "toLegacyPipelineSummary results =
     (let t = snd (summarizeMacroIngestionResults results)
      in JObj [(''total'', jnat (mt_requested t)), (''succeeded'', jnat (mt_succeeded t)), (''failed'', jnat (mt_failed t)),
        (''updated'', jnat (mt_updated t)), (''unchanged'', jnat (mt_unchanged t)), (''rowsStaged'', jnum (mt_rows_staged t)),
        (''rowsDetectedAsNew'', jnum (mt_rows_new t)), (''rowsInserted'', jnum (mt_rows_inserted t)),
        (''rowsUpdated'', jnum (mt_rows_updated t))])"

section \<open>What the pipeline keeps of an item\<close>

text \<open>\<open>Math.max(1, v)\<close>.\<close>

fun at_least_one :: "jsnum \<Rightarrow> jsnum" where
  "at_least_one (Fin r) = Fin (max 1 r)"
| "at_least_one NegInf = Fin 1"
| "at_least_one n = n"

definition normalizeDownloadResult :: "jsval \<Rightarrow> (jsval \<times> jsval list) res" where
  "normalizeDownloadResult v =
     (if is_str v then Inr (v, [])
      else if \<not> (is_obj v \<or> is_arr v) \<or> \<not> truthy (jget v ''filePath'')
      then Inl (js_error ''Source download must return a file path or { filePath, requestAttempts }.'')
      else Inr (jget v ''filePath'', arr_items (jget v ''requestAttempts'')))"

definition last_item :: "jsval list \<Rightarrow> jsval" where
  "last_item vs = (if vs = [] then JUndef else last vs)"

definition array_of :: "jsval \<Rightarrow> jsval" where
  "array_of v = JArr (arr_items v)"

definition final_attempt :: "jsval list \<Rightarrow> jsval \<Rightarrow> jsval" where
  "final_attempt attempts final =
     (let latest = last_item attempts; of_final = (\<lambda>k. or_null (jget final k)); rows = (\<lambda>k. jor (jget final k) (jnat 0));
          either = (\<lambda>k d. jors [jget final k, jget latest k, d]); given = (\<lambda>k. jnull_or (jget final k) (jnull_or (jget latest k) JNull));
          err = jget final ''error''
      in JObj
       [(''attemptNumber'', JNum (at_least_one (to_num (jor (jget latest ''attemptNumber'') (jnat 1))))),
        (''outcome'', jor (jget final ''outcome'') (JStr ''FAILED'')), (''retryable'', given ''retryable''), (''httpStatus'', given ''httpStatus''),
        (''sourceMinDate'', of_final ''stagingMinDate''),
        (''sourceMaxDate'', jors [jget final ''sourceMaxDate'', jget final ''stagingMaxDate'', JNull]),
        (''previousTargetMaxDate'', of_final ''previousTargetMaxDate''), (''currentTargetMaxDate'', of_final ''currentTargetMaxDate''),
        (''rowsStaged'', rows ''stagingRows''), (''rowsDetectedAsNew'', rows ''newRowsDetected''),
        (''rowsInserted'', rows ''rowsInserted''), (''rowsUpdated'', rows ''rowsUpdated''), (''rowsUnchanged'', rows ''rowsUnchanged''),
        (''rowsRejected'', rows ''rowsRejected''), (''revisionsDetected'', rows ''revisionsDetected''),
        (''qualityIssueCount'', rows ''qualityIssueCount''), (''qualityStatusCode'', jor (jget final ''qualityStatusCode'') (JStr ''PASS'')),
        (''revisionEvents'', array_of (jget final ''revisionEvents'')), (''rejectionEvents'', array_of (jget final ''rejectionEvents'')),
        (''qualityIssues'', array_of (jget final ''qualityIssues'')),
        (''startedAt'', jors [jget latest ''startedAt'', jget final ''startedAt'', JNull]),
        (''completedAt'', jors [jget final ''completedAt'', jget final ''finishedAt'', jget latest ''completedAt'', JNull]),
        (''durationMs'', either ''durationMs'' (jnat 0)), (''errorCategoryCode'', either ''errorCategoryCode'' JNull),
        (''errorCode'', jors [jget err ''code'', jget final ''errorCode'', jget latest ''errorCode'', JNull]),
        (''errorMessage'', jors [jget err ''message'', jget final ''errorMessage'', jget latest ''errorMessage'', JNull]),
        (''diagnostics'', JObj ((''requestWaitBeforeNextMs'', jor (jget latest ''waitBeforeNextMs'') (jnat 0))
           # (if attempts = [] then []
              else [(''requestRetryAfterMs'', jnull_or (jget latest ''retryAfterMs'') JNull),
                    (''requestWillRetry'', JBool (truthy (jget latest ''willRetry'')))])))])"

definition earlier_attempt :: "jsval \<Rightarrow> jsval" where
  "earlier_attempt a = obj_with a
     [(''outcome'', JStr ''FAILED''),
      (''diagnostics'', obj_with (jget a ''diagnostics'')
         [(''requestWaitBeforeNextMs'', jor (jget a ''waitBeforeNextMs'') (jnat 0)),
          (''requestRetryAfterMs'', jnull_or (jget a ''retryAfterMs'') JNull),
          (''requestWillRetry'', JBool (truthy (jget a ''willRetry'')))])]"

definition materializeItemAttempts :: "jsval list \<Rightarrow> jsval \<Rightarrow> jsval list" where
  "materializeItemAttempts attempts final = map earlier_attempt (butlast attempts) @ [final_attempt attempts final]"

fun above_zero :: "jsnum \<Rightarrow> bool" where
  "above_zero (Fin r) = (0 < r)"
| "above_zero PosInf = True"
| "above_zero _ = False"

definition load_members :: "jsval \<Rightarrow> string \<Rightarrow> (string \<times> jsval) list" where
  "load_members e quality =
     (let rows = (\<lambda>k. (k, jor (jget e k) (jnat 0))); date = (\<lambda>k. (k, or_null (jget e k))); events = (\<lambda>k. (k, array_of (jget e k)))
      in [rows ''stagingRows'', date ''stagingMinDate'', date ''stagingMaxDate'', (''sourceMaxDate'', or_null (jget e ''stagingMaxDate'')),
          date ''previousTargetMaxDate'', rows ''newRowsDetected'', rows ''rowsInserted'', rows ''rowsUpdated'', rows ''rowsUnchanged'',
          rows ''rowsRejected'', rows ''revisionsDetected'', rows ''qualityIssueCount'',
          (''qualityStatusCode'', jor (jget e ''qualityStatusCode'') (JStr quality)), events ''revisionEvents'', events ''rejectionEvents'',
          events ''qualityIssues'', date ''currentTargetMaxDate''])"

definition item_times :: "int \<Rightarrow> int \<Rightarrow> (string \<times> jsval) list" where
  "item_times started finished =
     [(''startedAt'', JStr (iso_text (of_int started))), (''finishedAt'', JStr (iso_text (of_int finished))),
      (''completedAt'', JStr (iso_text (of_int finished))), (''durationMs'', jint (finished - started))]"

definition loaded_item :: "string \<Rightarrow> string \<Rightarrow> jsval \<Rightarrow> int \<Rightarrow> int \<Rightarrow> jsval" where
  "loaded_item name code loadResult started finished = JObj
     ([(''ok'', JBool True), (''source'', JStr name), (''indicatorCode'', JStr code),
       (''outcome'', JStr (if above_zero (to_num (jget loadResult ''rowsInserted'')) \<or> above_zero (to_num (jget loadResult ''rowsUpdated''))
          then ''UPDATED'' else ''UNCHANGED''))]
      @ load_members loadResult ''PASS'' @ item_times started finished)"

definition failed_item :: "string \<Rightarrow> string \<Rightarrow> jsval \<Rightarrow> jsval list \<Rightarrow> int \<Rightarrow> int \<Rightarrow> jsval" where
  "failed_item name code err attempts started completed =
     (let latest = last_item attempts
      in JObj
       ([(''ok'', JBool False), (''source'', JStr name), (''indicatorCode'', JStr code), (''outcome'', JStr ''FAILED'')]
        @ load_members (jget err ''ingestionEvidence'') ''FAIL'' @ item_times started completed
        @ [(''errorCategoryCode'', jors [jget err ''errorCategoryCode'', jget latest ''errorCategoryCode'', JNull]),
           (''retryable'', jnull_or (jget latest ''retryable'') JNull), (''httpStatus'', jnull_or (jget latest ''httpStatus'') JNull),
           (''error'', JObj
             [(''code'', jor (jget err ''code'') (JStr (to_upper (if name = [] then ''INGESTION'' else name) @ ''_INDICATOR_FAILED''))),
              (''message'', jor (jget err ''message'') (JStr (to_str err)))])]))"

text \<open>What the steps of an item answer; without a normalization, \<open>pw_normalize\<close> is \<open>Inr ()\<close>.\<close>

record item_work =
  pw_download :: "jsval res"
  pw_normalize :: "unit res"
  pw_load :: "jsval res"
  pw_started :: int
  pw_finished :: int
  pw_telemetry :: jsval

definition item_attempts :: "item_work \<Rightarrow> jsval list" where
  "item_attempts w = (case rbind (pw_download w) normalizeDownloadResult of Inr (p, as) \<Rightarrow> as | Inl _ \<Rightarrow> [])"

definition item_answer :: "item_work \<Rightarrow> jsval res" where
  "item_answer w = rbind (rbind (pw_download w) normalizeDownloadResult) (\<lambda>_. rbind (pw_normalize w) (\<lambda>_. pw_load w))"

text \<open>The part of \<open>runPipelineItem\<close> after the code of the item is known.\<close>

definition processed_item :: "string \<Rightarrow> string \<Rightarrow> item_work \<Rightarrow> jsval" where
  "processed_item name code w =
     (case item_answer w of
        Inr loadResult \<Rightarrow>
          (let r = loaded_item name code loadResult (pw_started w) (pw_finished w)
           in obj_with r [(''attempts'', JArr (materializeItemAttempts (item_attempts w) r)), (''performanceTelemetry'', pw_telemetry w)])
      | Inl err \<Rightarrow>
          (let attempts = (case jget err ''retryAttempts'' of JArr as \<Rightarrow> as | _ \<Rightarrow> item_attempts w);
               r = failed_item name code err attempts (pw_started w) (pw_finished w)
           in obj_with r [(''attempts'', JArr (materializeItemAttempts attempts r)), (''performanceTelemetry'', pw_telemetry w)]))"

section \<open>The summary of a run\<close>

definition RUN_OUTCOMES :: "string list" where
  "RUN_OUTCOMES = [''SUCCESS'', ''PARTIAL'', ''FAILED'', ''CANCELLED'']"

definition ITEM_OUTCOMES :: "string list" where
  "ITEM_OUTCOMES = [''UPDATED'', ''UNCHANGED'', ''FAILED'', ''SKIPPED'', ''REJECTED'', ''CANCELLED'']"

definition number_or :: "jsval \<Rightarrow> rat \<Rightarrow> rat" where
  "number_or v fallback = (case finite_num v of Some r \<Rightarrow> r | None \<Rightarrow> fallback)"

abbreviation number :: "jsval \<Rightarrow> rat" where
  "number v \<equiv> number_or v 0"

abbreviation nullable :: "jsval \<Rightarrow> string option" where
  "nullable \<equiv> normalizeNullableString"

definition run_code :: "jsval \<Rightarrow> string \<Rightarrow> string" where
  "run_code v fallback = to_upper (trim (case nullable v of Some t \<Rightarrow> t | None \<Rightarrow> fallback))"

text \<open>\<open>/d\d\d/\<close> for a digit \<open>d\<close>.\<close>

fun has_status :: "char \<Rightarrow> string \<Rightarrow> bool" where
  "has_status d (a # b # c # cs) = (a = d \<and> is_digit b \<and> is_digit c \<or> has_status d (b # c # cs))"
| "has_status d _ = False"

definition classifyError :: "jsval \<Rightarrow> string" where
  "classifyError err =
     (let combined = to_lower (run_code (jget err ''code'') ''UNKNOWN'' @ '' '' @ to_lower (to_str (jor (jget err ''message'') (JStr []))));
          any = list_ex (str_includes combined)
      in if any [''timeout'', ''timed out'', ''etimedout''] then ''TIMEOUT''
         else if any [''econn'', ''enotfound'', ''network'', ''socket'', ''dns'', ''fetch failed''] then ''NETWORK''
         else if any [''401'', ''403'', ''unauth'', ''forbidden'', ''credential'', ''token'', ''api key''] then ''AUTH''
         else if any [''http'', ''429''] \<or> has_status (CHR ''5'') combined \<or> has_status (CHR ''4'') combined then ''HTTP''
         else if any [''config'', ''mapping'', ''catalog'', ''profile'', ''unknown indicator'', ''unknown asset''] then ''CONFIGURATION''
         else if any [''normaliz'', ''transform'', ''parse'', ''csv''] then ''NORMALIZATION''
         else if any [''validat'', ''quality'', ''schema''] then ''VALIDATION''
         else if any [''load'', ''insert'', ''update'', ''copy'', ''postgres'', ''database'', ''sql''] then ''LOAD''
         else if any [''source'', ''provider'', ''payload'', ''response''] then ''SOURCE_DATA''
         else ''UNKNOWN'')"

record run_item =
  ri_asset :: string
  ri_attempt :: rat
  ri_outcome :: string
  ri_retryable :: "bool option"
  ri_status :: "rat option"
  ri_source_min :: "string option"
  ri_source_max :: "string option"
  ri_previous_max :: "string option"
  ri_current_max :: "string option"
  ri_staged :: rat
  ri_new :: rat
  ri_inserted :: rat
  ri_updated :: rat
  ri_unchanged :: rat
  ri_rejected :: rat
  ri_revisions :: rat
  ri_issues :: rat
  ri_quality :: string
  ri_revision_events :: "jsval list"
  ri_rejection_events :: "jsval list"
  ri_quality_issues :: "jsval list"
  ri_started :: "string option"
  ri_completed :: "string option"
  ri_duration :: rat
  ri_category :: "string option"
  ri_error_code :: "string option"
  ri_error_message :: "string option"
  ri_diagnostics :: jsval
  ri_metadata :: jsval

text \<open>\<open>v && typeof v === 'object' ? v : {}\<close>.\<close>

definition object_or_empty :: "jsval \<Rightarrow> jsval" where
  "object_or_empty v = (if is_obj v \<or> is_arr v then v else JObj [])"

definition normalizeItem :: "jsval \<Rightarrow> run_item" where
  "normalizeItem item =
     (let err = jget item ''error''; fallback = (if truthy err then ''FAILED'' else ''UNCHANGED'');
          raw = run_code (jor (jget item ''outcome'') (jget item ''outcomeCode'')) fallback;
          outcome = (if raw \<in> set ITEM_OUTCOMES then raw else fallback);
          num = (\<lambda>k. number (jget item k)); text = (\<lambda>k. nullable (jget item k)); list = (\<lambda>k. arr_items (jget item k));
          if_failed = (\<lambda>x. if outcome = ''FAILED'' then x else None)
      in \<lparr>ri_asset = run_code (jors [jget item ''assetCode'', jget item ''indicatorCode'', jget item ''code'']) ''UNKNOWN'',
          ri_attempt = max 1 (number_or (jget item ''attemptNumber'') 1), ri_outcome = outcome,
          ri_retryable = (if is_nullish (jget item ''retryable'') then None else Some (truthy (jget item ''retryable''))),
          ri_status = (if is_nullish (jget item ''httpStatus'') then None else Some (num ''httpStatus'')),
          ri_source_min = nullable (jor (jget item ''sourceMinDate'') (jget item ''stagingMinDate'')),
          ri_source_max = nullable (jor (jget item ''sourceMaxDate'') (jget item ''stagingMaxDate'')),
          ri_previous_max = text ''previousTargetMaxDate'', ri_current_max = text ''currentTargetMaxDate'',
          ri_staged = number (jor (jget item ''rowsStaged'') (jget item ''stagingRows'')),
          ri_new = number (jor (jget item ''rowsDetectedAsNew'') (jget item ''newRowsDetected'')),
          ri_inserted = num ''rowsInserted'', ri_updated = num ''rowsUpdated'', ri_unchanged = num ''rowsUnchanged'',
          ri_rejected = num ''rowsRejected'', ri_revisions = num ''revisionsDetected'', ri_issues = num ''qualityIssueCount'',
          ri_quality = run_code (jget item ''qualityStatusCode'') ''PASS'', ri_revision_events = list ''revisionEvents'',
          ri_rejection_events = list ''rejectionEvents'', ri_quality_issues = list ''qualityIssues'', ri_started = text ''startedAt'',
          ri_completed = nullable (jor (jget item ''completedAt'') (jget item ''finishedAt'')), ri_duration = num ''durationMs'',
          ri_category = if_failed (Some (run_code
             (jor (jget item ''errorCategoryCode'') (JStr (classifyError (if truthy err then err else item)))) ''UNKNOWN'')),
          ri_error_code = if_failed (nullable (jor (jget err ''code'') (jget item ''errorCode''))),
          ri_error_message = if_failed (nullable (jor (jget err ''message'') (jget item ''errorMessage''))),
          ri_diagnostics = object_or_empty (jget item ''diagnostics''), ri_metadata = object_or_empty (jget item ''metadata'')\<rparr>)"

record run_totals =
  rt_requested :: nat
  rt_succeeded :: nat
  rt_failed :: nat
  rt_updated :: nat
  rt_unchanged :: nat
  rt_rows_staged :: rat
  rt_rows_new :: rat
  rt_rows_inserted :: rat
  rt_rows_updated :: rat
  rt_rows_unchanged :: rat
  rt_rows_rejected :: rat
  rt_revisions :: rat
  rt_issues :: rat
  rt_quality :: string
  rt_attempts :: nat
  rt_retries :: nat

definition worse_quality :: "string \<Rightarrow> string \<Rightarrow> string" where
  "worse_quality item sofar =
     (if item = ''FAIL'' then ''FAIL'' else if item = ''WARN'' \<and> sofar = ''PASS'' then ''WARN'' else sofar)"

text \<open>The item of an asset with the highest attempt, in the order in which the assets came.\<close>

definition keep_latest :: "run_item \<Rightarrow> (string \<times> run_item) list \<Rightarrow> (string \<times> run_item) list" where
  "keep_latest i m =
     (case map_of m (ri_asset i) of
        Some old \<Rightarrow> if ri_attempt old \<le> ri_attempt i then kv_set m (ri_asset i) i else m
      | None \<Rightarrow> kv_set m (ri_asset i) i)"

definition latestByAsset :: "run_item list \<Rightarrow> run_item list" where
  "latestByAsset items = map snd (fold keep_latest items [])"

definition summarizeItems :: "run_item list \<Rightarrow> run_totals" where
  "summarizeItems items =
     (let rows = (\<lambda>f. sum_list (map f items)); latest = latestByAsset items;
          outcomes = (\<lambda>os. length (filter (\<lambda>i. ri_outcome i \<in> set os) latest))
      in \<lparr>rt_requested = length latest, rt_succeeded = outcomes [''UPDATED'', ''UNCHANGED''], rt_failed = outcomes [''FAILED''],
          rt_updated = outcomes [''UPDATED''], rt_unchanged = outcomes [''UNCHANGED''], rt_rows_staged = rows ri_staged,
          rt_rows_new = rows ri_new, rt_rows_inserted = rows ri_inserted, rt_rows_updated = rows ri_updated,
          rt_rows_unchanged = rows ri_unchanged, rt_rows_rejected = rows ri_rejected, rt_revisions = rows ri_revisions,
          rt_issues = rows ri_issues, rt_quality = fold (\<lambda>i. worse_quality (ri_quality i)) items ''PASS'',
          rt_attempts = length items, rt_retries = length (filter (\<lambda>i. 1 < ri_attempt i) items)\<rparr>)"

definition determineRunOutcome :: "run_totals \<Rightarrow> jsval \<Rightarrow> string" where
  "determineRunOutcome t explicit =
     (let requested = run_code explicit []
      in if requested \<in> set RUN_OUTCOMES then requested
         else if 0 < rt_failed t \<and> 0 < rt_succeeded t then ''PARTIAL''
         else if 0 < rt_failed t then ''FAILED'' else ''SUCCESS'')"

record run_summary =
  rs_run :: "string option"
  rs_domain :: string
  rs_source :: string
  rs_mode :: string
  rs_trigger :: string
  rs_outcome :: string
  rs_selected :: "string list"
  rs_started :: string
  rs_completed :: string
  rs_duration :: rat
  rs_totals :: run_totals
  rs_items :: "run_item list"
  rs_error :: jsval
  rs_metadata :: jsval

definition normalizeRunSummary :: "string \<Rightarrow> jsval \<Rightarrow> run_summary res" where
  "normalizeRunSummary today summary =
     (let first = (\<lambda>ks. jors (map (jget summary) ks)) in
      rbind (items_or_throw (first [''items'', ''indicators''])) (\<lambda>vs.
        (let items = map normalizeItem vs; totals = summarizeItems items;
             startedAt = (case nullable (jget summary ''startedAt'') of Some s \<Rightarrow> s | None \<Rightarrow> today)
         in Inr \<lparr>rs_run = nullable (first [''ingestionRunId'', ''runId'']), rs_domain = run_code (jget summary ''domainCode'') ''UNKNOWN'',
              rs_source = run_code (first [''sourceCode'', ''source'']) ''UNKNOWN'', rs_mode = run_code (first [''modeCode'', ''mode'']) ''INCREMENTAL'',
              rs_trigger = run_code (first [''triggerCode'', ''trigger'']) ''UNKNOWN'',
              rs_outcome = determineRunOutcome totals (first [''outcome'', ''statusCode'']),
              rs_selected = filter (\<lambda>c. c \<noteq> []) (map (\<lambda>v. run_code v ''UNKNOWN'') (arr_items (jget summary ''selectedAssets''))),
              rs_started = startedAt,
              rs_completed = (case nullable (jget summary ''completedAt'') of Some s \<Rightarrow> s | None \<Rightarrow> startedAt),
              rs_duration = number (jget summary ''durationMs''), rs_totals = totals, rs_items = items,
              rs_error = or_null (jget summary ''error''), rs_metadata = object_or_empty (jget summary ''metadata'')\<rparr>)))"

text \<open>One item for each attempt of a result, with the members of the result below those of the attempt.\<close>

definition attempt_item :: "jsval \<Rightarrow> jsval \<Rightarrow> jsval \<Rightarrow> jsval" where
  "attempt_item asset result attempt =
     obj_with (obj_with result (obj_kvs attempt))
       [(''assetCode'', asset), (''attemptNumber'', jor (jget attempt ''attemptNumber'') (jnat 1)),
        (''error'', if jget attempt ''outcome'' = JStr ''FAILED''
           then JObj
             [(''code'', jors [jget attempt ''errorCode'', jget (jget result ''error'') ''code'', JStr ''INGESTION_ATTEMPT_FAILED'']),
              (''message'', jors [jget attempt ''errorMessage'', jget (jget result ''error'') ''message'', JStr ''Ingestion attempt failed.''])]
           else JNull)]"

definition result_items :: "jsval \<Rightarrow> jsval \<Rightarrow> jsval list" where
  "result_items asset result =
     (case arr_items (jget result ''attempts'') of
        [] \<Rightarrow> [obj_with result [(''assetCode'', asset), (''attemptNumber'', jnat 1)]]
      | as \<Rightarrow> map (attempt_item asset result) as)"

definition fromMacroToolResult :: "string \<Rightarrow> jsval \<Rightarrow> jsval \<Rightarrow> run_summary res" where
  "fromMacroToolResult today toolResult options =
     (let out = jor (jget toolResult ''output'') (JObj []); indicators = arr_items (jget out ''indicators'');
          selected = truthy (jget out ''selectedIndicators'')
      in normalizeRunSummary today (JObj
        [(''domainCode'', jor (jget options ''domainCode'') (JStr ''MACRO'')),
         (''sourceCode'', jor (jget options ''sourceCode'') (jget out ''sourceCode'')),
         (''modeCode'', JStr (if selected then ''SELECTED'' else ''INCREMENTAL'')),
         (''triggerCode'', jors [jget options ''triggerCode'', jget (jget toolResult ''metadata'') ''launchChannel'', JStr ''UNKNOWN'']),
         (''outcome'', JStr (if jget out ''outcome'' = JStr ''PARTIAL'' then ''PARTIAL''
            else if jget out ''outcome'' = JStr ''FAILED'' then ''FAILED'' else ''SUCCESS'')),
         (''selectedAssets'', JArr (if selected then filter truthy (map (\<lambda>i. jget i ''indicatorCode'') indicators) else [])),
         (''startedAt'', jget out ''startedAt''), (''completedAt'', jget out ''completedAt''), (''durationMs'', jget out ''durationMs''),
         (''items'', JArr (concat (map (\<lambda>i. result_items (jget i ''indicatorCode'') i) indicators))),
         (''error'', or_null (jget toolResult ''error'')),
         (''metadata'', obj_with (JObj
            [(''legacyOutputType'', or_null (jget toolResult ''outputType'')), (''legacySchemaVersion'', or_null (jget toolResult ''schemaVersion''))])
            (obj_kvs (jget options ''metadata'')))]))"

definition result_asset :: "jsval \<Rightarrow> jsval" where
  "result_asset r = jor (jget r ''indicatorCode'') (jget r ''code'')"

definition fromAdapterBatchResult :: "(string \<Rightarrow> int option) \<Rightarrow> string \<Rightarrow> jsval \<Rightarrow> jsval \<Rightarrow> run_summary res" where
  "fromAdapterBatchResult date_of today batchResult options =
     (let results = arr_items (jget batchResult ''results''); selected = truthy (jget batchResult ''selectedIndicators'');
          startedAt = jget batchResult ''startedAt''; completedAt = jget batchResult ''completedAt''
      in normalizeRunSummary today (JObj
        [(''domainCode'', jor (jget options ''domainCode'') (JStr ''MACRO'')),
         (''sourceCode'', jor (jget options ''sourceCode'') (jget batchResult ''source'')),
         (''modeCode'', JStr (if selected then ''SELECTED'' else ''INCREMENTAL'')),
         (''triggerCode'', jor (jget options ''triggerCode'') (JStr ''UNKNOWN'')),
         (''selectedAssets'', JArr (if selected then filter truthy (map result_asset results) else [])),
         (''startedAt'', startedAt), (''completedAt'', completedAt), (''durationMs'', jint (getBatchDurationMs date_of startedAt completedAt)),
         (''items'', JArr (concat (map (\<lambda>r. result_items (result_asset r) r) results))),
         (''metadata'', jor (jget options ''metadata'') (JObj []))]))"

section \<open>The run result of a tool\<close>

definition INGESTION_RUN_OUTPUT_TYPE :: string where
  "INGESTION_RUN_OUTPUT_TYPE = ''ingestion_run_summary.v1''"

definition opt_num :: "rat option \<Rightarrow> jsval" where
  "opt_num v = (case v of Some r \<Rightarrow> jnum r | None \<Rightarrow> JNull)"

definition run_item_value :: "run_item \<Rightarrow> jsval" where
  "run_item_value i = JObj
     [(''assetCode'', JStr (ri_asset i)), (''attemptNumber'', jnum (ri_attempt i)), (''outcome'', JStr (ri_outcome i)),
      (''retryable'', case ri_retryable i of Some b \<Rightarrow> JBool b | None \<Rightarrow> JNull), (''httpStatus'', opt_num (ri_status i)),
      (''sourceMinDate'', opt_str (ri_source_min i)), (''sourceMaxDate'', opt_str (ri_source_max i)),
      (''previousTargetMaxDate'', opt_str (ri_previous_max i)), (''currentTargetMaxDate'', opt_str (ri_current_max i)),
      (''rowsStaged'', jnum (ri_staged i)), (''rowsDetectedAsNew'', jnum (ri_new i)), (''rowsInserted'', jnum (ri_inserted i)),
      (''rowsUpdated'', jnum (ri_updated i)), (''rowsUnchanged'', jnum (ri_unchanged i)), (''rowsRejected'', jnum (ri_rejected i)),
      (''revisionsDetected'', jnum (ri_revisions i)), (''qualityIssueCount'', jnum (ri_issues i)),
      (''qualityStatusCode'', JStr (ri_quality i)), (''revisionEvents'', JArr (ri_revision_events i)),
      (''rejectionEvents'', JArr (ri_rejection_events i)), (''qualityIssues'', JArr (ri_quality_issues i)),
      (''startedAt'', opt_str (ri_started i)), (''completedAt'', opt_str (ri_completed i)), (''durationMs'', jnum (ri_duration i)),
      (''errorCategoryCode'', opt_str (ri_category i)), (''errorCode'', opt_str (ri_error_code i)),
      (''errorMessage'', opt_str (ri_error_message i)), (''diagnostics'', ri_diagnostics i), (''metadata'', ri_metadata i)]"

definition run_totals_value :: "run_totals \<Rightarrow> jsval" where
  "run_totals_value t = JObj
     [(''itemsRequested'', jnat (rt_requested t)), (''itemsSucceeded'', jnat (rt_succeeded t)), (''itemsFailed'', jnat (rt_failed t)),
      (''itemsUpdated'', jnat (rt_updated t)), (''itemsUnchanged'', jnat (rt_unchanged t)), (''rowsStaged'', jnum (rt_rows_staged t)),
      (''rowsDetectedAsNew'', jnum (rt_rows_new t)), (''rowsInserted'', jnum (rt_rows_inserted t)), (''rowsUpdated'', jnum (rt_rows_updated t)),
      (''rowsUnchanged'', jnum (rt_rows_unchanged t)), (''rowsRejected'', jnum (rt_rows_rejected t)),
      (''revisionsDetected'', jnum (rt_revisions t)), (''qualityIssueCount'', jnum (rt_issues t)),
      (''qualityStatusCode'', JStr (rt_quality t)), (''attempts'', jnat (rt_attempts t)), (''retries'', jnat (rt_retries t))]"

definition run_summary_value :: "run_summary \<Rightarrow> jsval" where
  "run_summary_value s = JObj
     [(''ingestionRunId'', opt_str (rs_run s)), (''domainCode'', JStr (rs_domain s)), (''sourceCode'', JStr (rs_source s)),
      (''modeCode'', JStr (rs_mode s)), (''triggerCode'', JStr (rs_trigger s)), (''outcome'', JStr (rs_outcome s)),
      (''selectedAssets'', JArr (map JStr (rs_selected s))), (''startedAt'', JStr (rs_started s)), (''completedAt'', JStr (rs_completed s)),
      (''durationMs'', jnum (rs_duration s)), (''totals'', run_totals_value (rs_totals s)),
      (''items'', JArr (map run_item_value (rs_items s))), (''error'', rs_error s), (''metadata'', rs_metadata s)]"

definition createIngestionRunToolResult :: "host \<Rightarrow> nat \<Rightarrow> string \<Rightarrow> jsval \<Rightarrow> jsval \<Rightarrow> jsval res" where
  "createIngestionRunToolResult H frames today summary message =
     rbind (normalizeRunSummary today summary) (\<lambda>s.
       (let success = (rs_outcome s = ''SUCCESS''); partial = (rs_outcome s = ''PARTIAL'');
            failures = nat_str (rt_failed (rs_totals s)) @ '' asset attempt(s) failed.''
        in validateToolResult H frames (JObj
          [(''schemaVersion'', JStr TOOL_RESULT_SCHEMA_VERSION), (''success'', JBool success),
           (''message'', jor message (JStr (''Ingestion run '' @ to_lower (rs_outcome s) @ ''.''))),
           (''outputType'', JStr INGESTION_RUN_OUTPUT_TYPE), (''output'', run_summary_value s),
           (''warnings'', JArr (if partial then [JStr failures] else [])),
           (''error'', if success then JNull else jor (rs_error s)
              (JObj [(''code'', JStr (success_or partial ''INGESTION_PARTIAL_FAILURE'' ''INGESTION_FAILED'')), (''message'', JStr failures)])),
           (''metadata'', JObj [(''domainCode'', JStr (rs_domain s)), (''sourceCode'', JStr (rs_source s)), (''modeCode'', JStr (rs_mode s))])])
          default_options))"

section \<open>The items of a processed result\<close>

lemma number_jor [simp]: "number (jor v (jnum 0)) = number v"
proof (cases v)
  case (JNum n)
  then show ?thesis by (cases n) (auto simp: number_or_def finite_num_def jor_def)
qed (auto simp: number_or_def finite_num_def jor_def str_num_def Let_def split_sign_def)

lemma staged_twice [simp]: "number (jor (jor v (jnum 0)) v) = number v"
  by (cases "truthy v") auto

lemma number_same [simp]: "normalizeNumber = number"
  by (simp add: fun_eq_iff normalizeNumber_def number_or_def)

definition work_attempts :: "item_work \<Rightarrow> jsval list" where
  "work_attempts w =
     (case item_answer w of
        Inr _ \<Rightarrow> item_attempts w
      | Inl err \<Rightarrow> (case jget err ''retryAttempts'' of JArr as \<Rightarrow> as | _ \<Rightarrow> item_attempts w))"

definition work_result :: "string \<Rightarrow> string \<Rightarrow> item_work \<Rightarrow> jsval" where
  "work_result name code w =
     (case item_answer w of
        Inr v \<Rightarrow> loaded_item name code v (pw_started w) (pw_finished w)
      | Inl err \<Rightarrow> failed_item name code err (work_attempts w) (pw_started w) (pw_finished w))"

definition work_outcome :: "item_work \<Rightarrow> string" where
  "work_outcome w =
     (case item_answer w of
        Inr v \<Rightarrow> if above_zero (to_num (jget v ''rowsInserted'')) \<or> above_zero (to_num (jget v ''rowsUpdated'')) then ''UPDATED'' else ''UNCHANGED''
      | Inl _ \<Rightarrow> ''FAILED'')"

lemma processed_split:
  "processed_item name code w = obj_with (work_result name code w)
     [(''attempts'', JArr (materializeItemAttempts (work_attempts w) (work_result name code w))), (''performanceTelemetry'', pw_telemetry w)]"
  by (auto simp: processed_item_def work_result_def work_attempts_def Let_def split: sum.splits jsval.splits)

definition row_members :: "string list" where
  "row_members = [''stagingRows'', ''newRowsDetected'', ''rowsInserted'', ''rowsUpdated'', ''rowsUnchanged'', ''rowsRejected'']"

lemma work_result_members:
  "is_obj (work_result name code w)"
  "jget (work_result name code w) ''indicatorCode'' = JStr code"
  "jget (work_result name code w) ''outcome'' = JStr (work_outcome w)"
  "jget (work_result name code w) ''rowsStaged'' = JUndef"
  "jget (work_result name code w) ''rowsDetectedAsNew'' = JUndef"
  by (auto simp: work_result_def work_outcome_def loaded_item_def failed_item_def load_members_def item_times_def Let_def
      kv_get_def split: sum.splits)

lemma processed_get:
  "k \<notin> {''attempts'', ''performanceTelemetry''} \<Longrightarrow> jget (processed_item name code w) k = jget (work_result name code w) k"
  using work_result_members(1) [of name code w]
  by (cases "work_result name code w") (auto simp: processed_split obj_with_def kv_get_spread)

lemma processed_attempts:
  "jget (processed_item name code w) ''attempts'' = JArr (materializeItemAttempts (work_attempts w) (work_result name code w))"
  by (simp add: processed_split obj_with_def)

lemma is_obj_processed [simp]: "is_obj (processed_item name code w)"
  by (simp add: processed_split obj_with_def)

lemma attempt_item_get:
  assumes "is_obj r" and "k \<notin> {''assetCode'', ''attemptNumber'', ''error''}"
  shows "jget (attempt_item asset r a) k = (case map_of (rev (obj_kvs a)) k of Some v \<Rightarrow> v | None \<Rightarrow> jget r k)"
  using assms by (cases r) (auto simp: attempt_item_def obj_with_def kv_get_spread split: option.splits)

lemma attempt_item_set:
  "jget (attempt_item asset r a) ''assetCode'' = asset"
  "jget (attempt_item asset r a) ''attemptNumber'' = jor (jget a ''attemptNumber'') (jnat 1)"
  "jget (attempt_item asset r a) ''error'' = JNull \<or> is_obj (jget (attempt_item asset r a) ''error'')"
  by (auto simp: attempt_item_def obj_with_def kv_get_spread)

lemma earlier_kvs:
  "\<exists>kvs. earlier_attempt (attempt_value b) = JObj kvs
     \<and> map_of (rev kvs) ''outcome'' = Some (JStr ''FAILED'') \<and> map_of (rev kvs) ''attemptNumber'' = Some (jnat (at_number b))
     \<and> map_of kvs ''attemptNumber'' = Some (jnat (at_number b))
     \<and> map_of (rev kvs) ''rowsInserted'' = None \<and> map_of (rev kvs) ''rowsUpdated'' = None
     \<and> map_of (rev kvs) ''stagingRows'' = None \<and> map_of (rev kvs) ''rowsStaged'' = None"
  by (cases "at_will_retry b") (auto simp: earlier_attempt_def attempt_value_def obj_with_def)

lemma run_code_str: "s \<noteq> [] \<Longrightarrow> run_code (JStr s) d = to_upper (trim s)"
  by (simp add: run_code_def normalizeNullableString_def)

lemma number_num [simp]: "number_or (jnum r) d = r"
  by (simp add: number_or_def finite_num_def)

lemma number_undef [simp]: "number JUndef = 0"
  by (simp add: number_or_def finite_num_def)

lemma number_rows: "number (jor JUndef v) = number v" by simp

lemma failed_code: "run_code (JStr ''FAILED'') d = ''FAILED''" "run_code (JStr ''UPDATED'') d = ''UPDATED''"
  "run_code (JStr ''UNCHANGED'') d = ''UNCHANGED''"
  by (simp_all add: run_code_str) code_simp+

lemma attempt_number: "max 1 (number_or (jor (jnat n) (jnat 1)) 1) = max 1 (of_nat n)"
  by (cases n) (simp_all add: jor_def max_def)

lemma earlier_item:
  assumes "code \<noteq> []" and i_def: "i = normalizeItem (attempt_item (JStr code) (processed_item name code w) (earlier_attempt (attempt_value b)))"
  shows "ri_asset i = to_upper (trim code)" "ri_outcome i = ''FAILED''" "ri_attempt i = max 1 (of_nat (at_number b))"
    "ri_inserted i = number (jget (work_result name code w) ''rowsInserted'')"
    "ri_updated i = number (jget (work_result name code w) ''rowsUpdated'')"
    "ri_staged i = number (jget (work_result name code w) ''stagingRows'')"
proof -
  obtain kvs where k: "earlier_attempt (attempt_value b) = JObj kvs" "map_of (rev kvs) ''outcome'' = Some (JStr ''FAILED'')"
     "map_of kvs ''attemptNumber'' = Some (jnat (at_number b))"
     "map_of (rev kvs) ''rowsInserted'' = None" "map_of (rev kvs) ''rowsUpdated'' = None" "map_of (rev kvs) ''stagingRows'' = None"
     "map_of (rev kvs) ''rowsStaged'' = None"
    using earlier_kvs [of b] by metis
  show "ri_asset i = to_upper (trim code)"
    using assms(1) by (simp add: i_def normalizeItem_def Let_def attempt_item_set run_code_str)
  show "ri_outcome i = ''FAILED''"
    by (simp add: i_def normalizeItem_def Let_def attempt_item_get k(1,2) failed_code ITEM_OUTCOMES_def)
  show "ri_attempt i = max 1 (of_nat (at_number b))"
    using attempt_number [of "at_number b"] k(3) by (simp add: i_def normalizeItem_def Let_def attempt_item_set k(1) kv_get_def)
  show "ri_inserted i = number (jget (work_result name code w) ''rowsInserted'')"
    "ri_updated i = number (jget (work_result name code w) ''rowsUpdated'')"
    "ri_staged i = number (jget (work_result name code w) ''stagingRows'')"
    by (simp_all add: i_def normalizeItem_def Let_def attempt_item_get k processed_get work_result_members)
qed

text \<open>The number of the last attempt.\<close>

definition last_number :: "attempt list \<Rightarrow> rat" where
  "last_number as = (if as = [] then 1 else max 1 (of_nat (at_number (last as))))"

lemma last_attempt_number:
  "at_least_one (to_num (jor (jget (last_item (map attempt_value as)) ''attemptNumber'') (jnat 1))) = Fin (last_number as)"
proof (cases "as = []")
  case False
  then have "jget (last_item (map attempt_value as)) ''attemptNumber'' = jnat (at_number (last as))"
    by (simp add: last_item_def last_map attempt_value_def)
  with False show ?thesis by (cases "at_number (last as)") (simp_all add: last_number_def jor_def)
qed (simp add: last_item_def last_number_def jor_def)

lemmas last_attempt_number' = last_attempt_number [simplified]

lemma final_kvs:
  "\<exists>kvs. final_attempt (map attempt_value as) r = JObj kvs
     \<and> map_of (rev kvs) ''outcome'' = Some (jor (jget r ''outcome'') (JStr ''FAILED''))
     \<and> map_of kvs ''attemptNumber'' = Some (jnum (last_number as))
     \<and> map_of (rev kvs) ''rowsInserted'' = Some (jor (jget r ''rowsInserted'') (jnat 0))
     \<and> map_of (rev kvs) ''rowsUpdated'' = Some (jor (jget r ''rowsUpdated'') (jnat 0))
     \<and> map_of (rev kvs) ''rowsStaged'' = Some (jor (jget r ''stagingRows'') (jnat 0))
     \<and> map_of (rev kvs) ''stagingRows'' = None"
  by (simp add: final_attempt_def Let_def last_attempt_number')

lemma final_item:
  assumes "code \<noteq> []" and i_def: "i = normalizeItem (attempt_item (JStr code) (processed_item name code w)
      (final_attempt (map attempt_value as) (work_result name code w)))"
  shows "ri_asset i = to_upper (trim code)" "ri_outcome i = work_outcome w" "ri_attempt i = last_number as"
    "ri_inserted i = number (jget (work_result name code w) ''rowsInserted'')"
    "ri_updated i = number (jget (work_result name code w) ''rowsUpdated'')"
    "ri_staged i = number (jget (work_result name code w) ''stagingRows'')"
proof -
  let ?r = "work_result name code w"
  obtain kvs where k: "final_attempt (map attempt_value as) ?r = JObj kvs"
     "map_of (rev kvs) ''outcome'' = Some (jor (jget ?r ''outcome'') (JStr ''FAILED''))"
     "map_of kvs ''attemptNumber'' = Some (jnum (last_number as))"
     "map_of (rev kvs) ''rowsInserted'' = Some (jor (jget ?r ''rowsInserted'') (jnat 0))"
     "map_of (rev kvs) ''rowsUpdated'' = Some (jor (jget ?r ''rowsUpdated'') (jnat 0))"
     "map_of (rev kvs) ''rowsStaged'' = Some (jor (jget ?r ''stagingRows'') (jnat 0))"
     "map_of (rev kvs) ''stagingRows'' = None"
    using final_kvs [of as ?r] by metis
  have o: "work_outcome w \<in> {''UPDATED'', ''UNCHANGED'', ''FAILED''}" by (auto simp: work_outcome_def split: sum.splits)
  show "ri_asset i = to_upper (trim code)"
    using assms(1) by (simp add: i_def normalizeItem_def Let_def attempt_item_set run_code_str)
  show "ri_outcome i = work_outcome w"
    using o by (auto simp: i_def normalizeItem_def Let_def attempt_item_get k(1,2) failed_code ITEM_OUTCOMES_def work_result_members jor_def)
  have "1 \<le> last_number as" by (simp add: last_number_def)
  then show "ri_attempt i = last_number as"
    by (simp add: i_def normalizeItem_def Let_def attempt_item_set k(1) kv_get_def k(3) jor_def number_or_def finite_num_def)
  show "ri_inserted i = number (jget ?r ''rowsInserted'')" "ri_updated i = number (jget ?r ''rowsUpdated'')"
    by (simp_all add: i_def normalizeItem_def Let_def attempt_item_get k)
  show "ri_staged i = number (jget ?r ''stagingRows'')"
    by (simp add: i_def normalizeItem_def Let_def attempt_item_get k processed_get)
qed

section \<open>The items of a batch\<close>

definition items_of :: "string \<Rightarrow> string \<Rightarrow> item_work \<Rightarrow> run_item list" where
  "items_of name code w = map normalizeItem (result_items (result_asset (processed_item name code w)) (processed_item name code w))"

lemma result_items_attempts:
  "arr_items (jget r ''attempts'') \<noteq> [] \<Longrightarrow> result_items asset r = map (attempt_item asset r) (arr_items (jget r ''attempts''))"
  by (cases "arr_items (jget r ''attempts'')") (simp_all add: result_items_def)

lemma items_of_attempts:
  assumes "code \<noteq> []" and "work_attempts w = map attempt_value as"
  shows "items_of name code w =
     map (\<lambda>b. normalizeItem (attempt_item (JStr code) (processed_item name code w) (earlier_attempt (attempt_value b)))) (butlast as)
     @ [normalizeItem (attempt_item (JStr code) (processed_item name code w) (final_attempt (map attempt_value as) (work_result name code w)))]"
proof -
  have "result_asset (processed_item name code w) = JStr code"
    using assms(1) by (simp add: result_asset_def processed_get work_result_members)
  moreover have "arr_items (jget (processed_item name code w) ''attempts'')
      = map (\<lambda>b. earlier_attempt (attempt_value b)) (butlast as) @ [final_attempt (map attempt_value as) (work_result name code w)]"
    by (simp add: processed_attempts materializeItemAttempts_def assms(2) map_butlast [symmetric] del: map_map)
      (simp add: comp_def)
  ultimately show ?thesis
    by (simp add: items_of_def result_items_attempts)
qed

text \<open>How often the rows of an item are counted.\<close>

definition times_counted :: "item_work \<Rightarrow> nat" where
  "times_counted w = max 1 (length (work_attempts w))"

lemma items_of_rows:
  assumes "code \<noteq> []" and "work_attempts w = map attempt_value as"
  shows "sum_list (map ri_inserted (items_of name code w)) = of_nat (times_counted w) * number (jget (work_result name code w) ''rowsInserted'')"
    "sum_list (map ri_updated (items_of name code w)) = of_nat (times_counted w) * number (jget (work_result name code w) ''rowsUpdated'')"
    "sum_list (map ri_staged (items_of name code w)) = of_nat (times_counted w) * number (jget (work_result name code w) ''stagingRows'')"
proof -
  have "rat_of_nat (length (butlast as)) + 1 = of_nat (times_counted w)"
    by (cases as) (simp_all add: times_counted_def assms(2))
  then have t: "rat_of_nat (length (butlast as)) * x + x = of_nat (times_counted w) * x" for x by (metis distrib_right mult_1)
  note e = earlier_item [OF assms(1) refl] and f = final_item [OF assms(1) refl]
  show "sum_list (map ri_inserted (items_of name code w)) = of_nat (times_counted w) * number (jget (work_result name code w) ''rowsInserted'')"
    "sum_list (map ri_updated (items_of name code w)) = of_nat (times_counted w) * number (jget (work_result name code w) ''rowsUpdated'')"
    "sum_list (map ri_staged (items_of name code w)) = of_nat (times_counted w) * number (jget (work_result name code w) ''stagingRows'')"
    using t by (simp_all add: items_of_attempts [OF assms] comp_def e f sum_list_triv)
qed

lemma items_of_last:
  assumes "code \<noteq> []" and "work_attempts w = map attempt_value as" and "sorted (map at_number as)"
  shows "items_of name code w \<noteq> []" "\<forall>i \<in> set (items_of name code w). ri_asset i = to_upper (trim code)"
    "\<forall>i \<in> set (items_of name code w). ri_attempt i \<le> ri_attempt (last (items_of name code w))"
    "ri_outcome (last (items_of name code w)) = work_outcome w"
proof -
  note e = earlier_item [OF assms(1) refl] and f = final_item [OF assms(1) refl]
  show "items_of name code w \<noteq> []" "\<forall>i \<in> set (items_of name code w). ri_asset i = to_upper (trim code)"
    "ri_outcome (last (items_of name code w)) = work_outcome w"
    by (auto simp: items_of_attempts [OF assms(1,2)] e f)
  have "max 1 (rat_of_nat (at_number b)) \<le> last_number as" if "b \<in> set (butlast as)" for b
  proof -
    from that have "as \<noteq> []" by auto
    then have "sorted (map at_number (butlast as @ [last as]))" using assms(3) by (simp add: append_butlast_last_id)
    then have "at_number b \<le> at_number (last as)" using that by (simp add: sorted_append)
    then have "rat_of_nat (at_number b) \<le> of_nat (at_number (last as))" by simp
    with \<open>as \<noteq> []\<close> show ?thesis by (auto simp: last_number_def)
  qed
  then show "\<forall>i \<in> set (items_of name code w). ri_attempt i \<le> ri_attempt (last (items_of name code w))"
    by (auto simp: items_of_attempts [OF assms(1,2)] e f)
qed

section \<open>The latest item of each asset\<close>

lemma kv_set_end: "a \<notin> fst ` set m \<Longrightarrow> kv_set (m @ [(a, y)]) a x = m @ [(a, x)]"
  by (induction m a x rule: kv_set.induct) auto

lemma map_of_end: "a \<notin> fst ` set m \<Longrightarrow> ([a \<mapsto> y] ++ map_of m) a = Some y"
  by (simp add: map_add_def map_of_eq_None_iff [THEN iffD2])

lemma keep_latest_new: "ri_asset i \<notin> fst ` set m \<Longrightarrow> keep_latest i m = m @ [(ri_asset i, i)]"
  by (simp add: keep_latest_def map_of_eq_None_iff [THEN iffD2] kv_set_new)

lemma keep_latest_end:
  "a \<notin> fst ` set m \<Longrightarrow> ri_asset i = a \<Longrightarrow> keep_latest i (m @ [(a, y)]) = m @ [(a, if ri_attempt y \<le> ri_attempt i then i else y)]"
  by (simp add: keep_latest_def map_of_end kv_set_end)

lemma keep_block:
  assumes "a \<notin> fst ` set m"
  shows "block \<noteq> [] \<Longrightarrow> \<forall>i \<in> set block. ri_asset i = a \<Longrightarrow> \<exists>y \<in> set block. fold keep_latest block m = m @ [(a, y)]"
proof (induction block rule: rev_induct)
  case (snoc i block)
  show ?case
  proof (cases "block = []")
    case True
    with snoc.prems assms show ?thesis by (simp add: keep_latest_new)
  next
    case False
    with snoc obtain y where "y \<in> set block" "fold keep_latest block m = m @ [(a, y)]" by auto
    with snoc.prems assms show ?thesis by (simp add: keep_latest_end)
  qed
qed simp

lemma keep_last:
  assumes "a \<notin> fst ` set m" and "block \<noteq> []" and "\<forall>i \<in> set block. ri_asset i = a" and "\<forall>i \<in> set block. ri_attempt i \<le> ri_attempt (last block)"
  shows "fold keep_latest block m = m @ [(a, last block)]"
proof -
  obtain bl l where b: "block = bl @ [l]" using assms(2) by (cases block rule: rev_cases) auto
  show ?thesis
  proof (cases "bl = []")
    case True
    with b assms show ?thesis by (simp add: keep_latest_new)
  next
    case False
    from keep_block [OF assms(1) False] b assms(3) obtain y where "y \<in> set bl" "fold keep_latest bl m = m @ [(a, y)]" by auto
    with b assms show ?thesis by (auto simp: keep_latest_end)
  qed
qed

lemma keep_blocks:
  assumes "\<forall>(a, b) \<in> set ps. b \<noteq> [] \<and> (\<forall>i \<in> set b. ri_asset i = a) \<and> (\<forall>i \<in> set b. ri_attempt i \<le> ri_attempt (last b))"
    and "distinct (map fst ps)" and "fst ` set m \<inter> fst ` set ps = {}"
  shows "fold keep_latest (concat (map snd ps)) m = m @ map (\<lambda>(a, b). (a, last b)) ps"
  using assms
proof (induction ps arbitrary: m)
  case (Cons p ps)
  obtain a b where p: "p = (a, b)" by (cases p)
  have "fold keep_latest b m = m @ [(a, last b)]"
    by (rule keep_last) (use Cons.prems p in auto)
  moreover have "fold keep_latest (concat (map snd ps)) (m @ [(a, last b)]) = (m @ [(a, last b)]) @ map (\<lambda>(a, b). (a, last b)) ps"
    by (rule Cons.IH) (use Cons.prems p in auto)
  ultimately show ?case by (simp add: p)
qed simp

section \<open>Two reports of one batch\<close>

text \<open>A batch of a pipeline: the codes of its items and what their work answered, each attempt noted by the retry loop.\<close>

definition batch_of :: "string \<Rightarrow> (string \<times> item_work) list \<Rightarrow> jsval" where
  "batch_of name ws = JObj [(''results'', JArr (map (\<lambda>(code, w). processed_item name code w) ws))]"

definition noted_attempts :: "item_work \<Rightarrow> bool" where
  "noted_attempts w = (\<exists>as. work_attempts w = map attempt_value as \<and> sorted (map at_number as))"

definition tidy_code :: "string \<Rightarrow> bool" where
  "tidy_code code = (code \<noteq> [] \<and> to_upper (trim code) = code \<and> to_upper code = code)"

lemma batch_items:
  assumes "fromAdapterBatchResult date_of today (batch_of name ws) options = Inr s"
  shows "rs_items s = concat (map (\<lambda>(code, w). items_of name code w) ws)" "rs_totals s = summarizeItems (rs_items s)"
    "rs_outcome s = determineRunOutcome (rs_totals s) JUndef"
proof -
  have c: "map normalizeItem (concat (map (\<lambda>r. result_items (result_asset r) r) (map (\<lambda>(code, w). processed_item name code w) ws)))
      = concat (map (\<lambda>(code, w). items_of name code w) ws)"
    by (induction ws) (auto simp: items_of_def)
  have i: "items_or_throw (JArr vs) = Inr vs" for vs by (simp add: items_or_throw_def)
  show "rs_items s = concat (map (\<lambda>(code, w). items_of name code w) ws)" "rs_totals s = summarizeItems (rs_items s)"
    "rs_outcome s = determineRunOutcome (rs_totals s) JUndef"
    using assms c by (auto simp: fromAdapterBatchResult_def batch_of_def Let_def normalizeRunSummary_def i)
qed

lemma rows_of_items:
  "rt_rows_inserted (summarizeItems is) = sum_list (map ri_inserted is)" "rt_rows_updated (summarizeItems is) = sum_list (map ri_updated is)"
  "rt_rows_staged (summarizeItems is) = sum_list (map ri_staged is)"
  by (simp_all add: summarizeItems_def Let_def)

lemma fold_counts:
  "mt_rows_inserted (fold count_indicator is t) = mt_rows_inserted t + sum_list (map in_inserted is)"
  "mt_rows_updated (fold count_indicator is t) = mt_rows_updated t + sum_list (map in_updated is)"
  "mt_rows_staged (fold count_indicator is t) = mt_rows_staged t + sum_list (map in_staging_rows is)"
  "mt_requested (fold count_indicator is t) = mt_requested t + length is"
  "mt_failed (fold count_indicator is t) = mt_failed t + length (filter (\<lambda>i. in_outcome i = ''FAILED'') is)"
  "mt_succeeded (fold count_indicator is t) = mt_succeeded t + length (filter (\<lambda>i. in_outcome i \<noteq> ''FAILED'') is)"
  "mt_updated (fold count_indicator is t) = mt_updated t + length (filter (\<lambda>i. in_outcome i = ''UPDATED'') is)"
  "mt_unchanged (fold count_indicator is t) = mt_unchanged t + length (filter (\<lambda>i. in_outcome i = ''UNCHANGED'') is)"
  by (induction "is" arbitrary: t) (simp_all add: count_indicator_def Let_def)

lemma indicator_of_processed:
  "in_inserted (normalizeIndicatorResult (processed_item name code w)) = number (jget (work_result name code w) ''rowsInserted'')"
  "in_updated (normalizeIndicatorResult (processed_item name code w)) = number (jget (work_result name code w) ''rowsUpdated'')"
  "in_staging_rows (normalizeIndicatorResult (processed_item name code w)) = number (jget (work_result name code w) ''stagingRows'')"
  "in_outcome (normalizeIndicatorResult (processed_item name code w)) = work_outcome w"
proof -
  have o: "work_outcome w \<in> {''UPDATED'', ''UNCHANGED'', ''FAILED''}" by (auto simp: work_outcome_def split: sum.splits)
  have u: "to_upper ''UPDATED'' = ''UPDATED''" "to_upper ''UNCHANGED'' = ''UNCHANGED''" "to_upper ''FAILED'' = ''FAILED''" by code_simp+
  show "in_outcome (normalizeIndicatorResult (processed_item name code w)) = work_outcome w"
    using o u by (auto simp: normalizeIndicatorResult_def Let_def determineIndicatorOutcome_def processed_get work_result_members jor_def
        MACRO_INGESTION_OUTCOMES_def)
qed (simp_all add: normalizeIndicatorResult_def Let_def processed_get)

abbreviation macro_totals_of :: "string \<Rightarrow> (string \<times> item_work) list \<Rightarrow> macro_totals" where
  "macro_totals_of name ws \<equiv> snd (summarizeMacroIngestionResults (arr_items (jget (batch_of name ws) ''results'')))"

lemma macro_batch:
  "mt_rows_inserted (macro_totals_of name ws) = (\<Sum>(code, w) \<leftarrow> ws. number (jget (work_result name code w) ''rowsInserted''))"
  "mt_rows_updated (macro_totals_of name ws) = (\<Sum>(code, w) \<leftarrow> ws. number (jget (work_result name code w) ''rowsUpdated''))"
  "mt_rows_staged (macro_totals_of name ws) = (\<Sum>(code, w) \<leftarrow> ws. number (jget (work_result name code w) ''stagingRows''))"
  "mt_requested (macro_totals_of name ws) = length ws"
  "mt_failed (macro_totals_of name ws) = length (filter (\<lambda>(code, w). work_outcome w = ''FAILED'') ws)"
  "mt_succeeded (macro_totals_of name ws) = length (filter (\<lambda>(code, w). work_outcome w \<noteq> ''FAILED'') ws)"
  "mt_updated (macro_totals_of name ws) = length (filter (\<lambda>(code, w). work_outcome w = ''UPDATED'') ws)"
  "mt_unchanged (macro_totals_of name ws) = length (filter (\<lambda>(code, w). work_outcome w = ''UNCHANGED'') ws)"
  by (simp_all add: summarizeMacroIngestionResults_def Let_def batch_of_def fold_counts no_totals_def comp_def case_prod_unfold indicator_of_processed
      filter_map)

text \<open>C27 (rows_counted_per_attempt): the two reports of one batch count its rows differently: the summary of the tool counts those of
  an item once, the summary for the ledger once for every attempt of its request.\<close>

theorem rows_counted_per_attempt:
  assumes "fromAdapterBatchResult date_of today (batch_of name ws) options = Inr s"
    and "\<forall>(code, w) \<in> set ws. tidy_code code \<and> noted_attempts w"
  shows "rt_rows_inserted (rs_totals s)
        = (\<Sum>(code, w) \<leftarrow> ws. of_nat (max 1 (length (work_attempts w))) * number (jget (processed_item name code w) ''rowsInserted''))
     \<and> rt_rows_updated (rs_totals s)
        = (\<Sum>(code, w) \<leftarrow> ws. of_nat (max 1 (length (work_attempts w))) * number (jget (processed_item name code w) ''rowsUpdated''))
     \<and> mt_rows_inserted (macro_totals_of name ws) = (\<Sum>(code, w) \<leftarrow> ws. number (jget (processed_item name code w) ''rowsInserted''))
     \<and> mt_rows_updated (macro_totals_of name ws) = (\<Sum>(code, w) \<leftarrow> ws. number (jget (processed_item name code w) ''rowsUpdated''))"
proof -
  have c: "sum_list (map f (concat (map (\<lambda>(code, w). items_of name code w) ws))) = (\<Sum>(code, w) \<leftarrow> ws. sum_list (map f (items_of name code w)))"
    for f :: "run_item \<Rightarrow> rat" by (induction ws) auto
  have r: "code \<noteq> []" "\<exists>as. work_attempts w = map attempt_value as" if "(code, w) \<in> set ws" for code w
    using assms(2) that by (auto simp: tidy_code_def noted_attempts_def)
  have "sum_list (map ri_inserted (items_of name code w)) = of_nat (max 1 (length (work_attempts w))) * number (jget (work_result name code w) ''rowsInserted'')"
    "sum_list (map ri_updated (items_of name code w)) = of_nat (max 1 (length (work_attempts w))) * number (jget (work_result name code w) ''rowsUpdated'')"
    if "(code, w) \<in> set ws" for code w
    using items_of_rows(1,2) r [OF that] unfolding times_counted_def by blast+
  then show ?thesis
    unfolding batch_items(2) [OF assms(1)] batch_items(1) [OF assms(1)] rows_of_items c macro_batch
    by (auto simp: processed_get intro!: arg_cong [of _ _ sum_list] map_cong)
qed

lemma latest_of_batch:
  assumes "\<forall>(code, w) \<in> set ws. tidy_code code \<and> noted_attempts w" and "distinct (map fst ws)"
  shows "latestByAsset (concat (map (\<lambda>(code, w). items_of name code w) ws)) = map (\<lambda>(code, w). last (items_of name code w)) ws"
    "\<forall>(code, w) \<in> set ws. ri_outcome (last (items_of name code w)) = work_outcome w"
proof -
  have r: "items_of name code w \<noteq> []" "\<forall>i \<in> set (items_of name code w). ri_asset i = code"
    "\<forall>i \<in> set (items_of name code w). ri_attempt i \<le> ri_attempt (last (items_of name code w))"
    "ri_outcome (last (items_of name code w)) = work_outcome w" if w: "(code, w) \<in> set ws" for code w
  proof -
    from assms(1) w obtain as where "code \<noteq> []" "to_upper (trim code) = code" "work_attempts w = map attempt_value as" "sorted (map at_number as)"
      by (auto simp: tidy_code_def noted_attempts_def)
    with items_of_last [of code w as] show "items_of name code w \<noteq> []" "\<forall>i \<in> set (items_of name code w). ri_asset i = code"
      "\<forall>i \<in> set (items_of name code w). ri_attempt i \<le> ri_attempt (last (items_of name code w))"
      "ri_outcome (last (items_of name code w)) = work_outcome w" by auto
  qed
  let ?ps = "map (\<lambda>(code, w). (code, items_of name code w)) ws"
  have "fold keep_latest (concat (map snd ?ps)) [] = [] @ map (\<lambda>(a, b). (a, last b)) ?ps"
    by (rule keep_blocks) (use r assms(2) in \<open>auto simp: comp_def case_prod_unfold\<close>)
  then show "latestByAsset (concat (map (\<lambda>(code, w). items_of name code w) ws)) = map (\<lambda>(code, w). last (items_of name code w)) ws"
    by (simp add: latestByAsset_def comp_def case_prod_unfold)
  show "\<forall>(code, w) \<in> set ws. ri_outcome (last (items_of name code w)) = work_outcome w"
    using r(4) by auto
qed

text \<open>C28 (reports_agree_on_outcomes): for a batch with distinct codes the two reports agree on how many items were asked for, succeeded,
  failed, were updated and stayed unchanged, whether the batch succeeded and whether it is partial.\<close>

theorem reports_agree_on_outcomes:
  assumes "fromAdapterBatchResult date_of today (batch_of name ws) options = Inr s"
    and "\<forall>(code, w) \<in> set ws. tidy_code code \<and> noted_attempts w" and "distinct (map fst ws)"
  shows "rt_requested (rs_totals s) = mt_requested (macro_totals_of name ws) \<and> rt_succeeded (rs_totals s) = mt_succeeded (macro_totals_of name ws)
     \<and> rt_failed (rs_totals s) = mt_failed (macro_totals_of name ws) \<and> rt_updated (rs_totals s) = mt_updated (macro_totals_of name ws)
     \<and> rt_unchanged (rs_totals s) = mt_unchanged (macro_totals_of name ws)
     \<and> (rs_outcome s = ''SUCCESS'' \<longleftrightarrow> mt_failed (macro_totals_of name ws) = 0)
     \<and> (rs_outcome s = ''PARTIAL'' \<longleftrightarrow> determineBatchOutcome (macro_totals_of name ws) = ''PARTIAL'')"
proof -
  let ?latest = "map (\<lambda>(code, w). last (items_of name code w)) ws"
  note b = batch_items [OF assms(1)]
  have l: "latestByAsset (rs_items s) = ?latest" using latest_of_batch(1) [OF assms(2,3)] b(1) by simp
  have n: "length (filter (\<lambda>i. P (ri_outcome i)) ?latest) = length (filter (\<lambda>(code, w). P (work_outcome w)) ws)" for P
    using latest_of_batch(2) [OF assms(2,3), of name]
    by (auto simp: filter_map comp_def case_prod_unfold intro!: arg_cong [of _ _ length] filter_cong)
  have o: "work_outcome w \<in> {''UPDATED'', ''UNCHANGED'', ''FAILED''}" for w by (auto simp: work_outcome_def split: sum.splits)
  then have o': "work_outcome w = ''UPDATED'' \<or> work_outcome w = ''UNCHANGED'' \<longleftrightarrow> work_outcome w \<noteq> ''FAILED''" for w by fastforce
  have "rt_requested (rs_totals s) = length ws" "rt_failed (rs_totals s) = length (filter (\<lambda>(code, w). work_outcome w = ''FAILED'') ws)"
    "rt_succeeded (rs_totals s) = length (filter (\<lambda>(code, w). work_outcome w \<noteq> ''FAILED'') ws)"
    "rt_updated (rs_totals s) = length (filter (\<lambda>(code, w). work_outcome w = ''UPDATED'') ws)"
    "rt_unchanged (rs_totals s) = length (filter (\<lambda>(code, w). work_outcome w = ''UNCHANGED'') ws)"
    using n [of "\<lambda>x. x = ''FAILED''"] n [of "\<lambda>x. x = ''UPDATED'' \<or> x = ''UNCHANGED''"] n [of "\<lambda>x. x = ''UPDATED''"]
      n [of "\<lambda>x. x = ''UNCHANGED''"]
    by (simp_all add: b(2) summarizeItems_def Let_def l o')
  then have counts: "rt_requested (rs_totals s) = mt_requested (macro_totals_of name ws)" "rt_succeeded (rs_totals s) = mt_succeeded (macro_totals_of name ws)"
     "rt_failed (rs_totals s) = mt_failed (macro_totals_of name ws)" "rt_updated (rs_totals s) = mt_updated (macro_totals_of name ws)"
     "rt_unchanged (rs_totals s) = mt_unchanged (macro_totals_of name ws)"
    by (simp_all add: macro_batch)
  have "run_code JUndef [] = []" by (simp add: run_code_def normalizeNullableString_def to_upper_def)
  then have "rs_outcome s = (if 0 < rt_failed (rs_totals s) \<and> 0 < rt_succeeded (rs_totals s) then ''PARTIAL''
      else if 0 < rt_failed (rs_totals s) then ''FAILED'' else ''SUCCESS'')"
    by (simp add: b(3) determineRunOutcome_def RUN_OUTCOMES_def)
  then show ?thesis
    unfolding counts determineBatchOutcome_def by (simp add: counts)
qed

text \<open>The retry loop numbers its attempts in order, which is what \<open>noted_attempts\<close> asks of the notes it leaves.\<close>

abbreviation in_order :: "nat \<Rightarrow> attempt list \<Rightarrow> bool" where
  "in_order n as \<equiv> sorted (map at_number as) \<and> (\<forall>a \<in> set as. at_number a \<le> n)"

lemma handled_in_order:
  "in_order n as \<Longrightarrow> case handle_failure date_of P startedMs n t err as of
     Inl r \<Rightarrow> sorted (map at_number (attempts_of r)) | Inr as' \<Rightarrow> in_order n as'"
  by (auto simp: handle_failure_def give_up_def failed_attempt_def Let_def sorted_append split: sum.split)

lemma in_order_Suc: "in_order n as \<Longrightarrow> in_order (Suc n) as"
  by auto

lemma loop_in_order:
  assumes "attempt_loop date_of P startedMs n as e ts = Some r" and "in_order n as"
  shows "sorted (map at_number (attempts_of r))"
  using assms
proof (induction ts arbitrary: n as e)
  case Nil
  then show ?case by (subst (asm) attempt_loop.simps) (auto simp: give_up_def split: if_splits)
next
  case (Cons t ts)
  have step: "sorted (map at_number (attempts_of r))"
    if "(case handle_failure date_of P startedMs n t err as' of Inl r \<Rightarrow> Some r
           | Inr as \<Rightarrow> attempt_loop date_of P startedMs (Suc n) as err ts) = Some r" "in_order n as'" for err as'
    using handled_in_order [OF that(2), of date_of P startedMs t err] that(1) Cons.IH in_order_Suc
    by (auto split: sum.splits)
  have s: "in_order n (as @ [success_attempt n t])"
    using Cons.prems(2) by (auto simp: success_attempt_def sorted_append)
  note l = Cons.prems(1) [unfolded attempt_loop.simps [of date_of P startedMs n as e "t # ts"]]
  show ?case
  proof (cases "rp_attempts P < int n")
    case True
    then show ?thesis using l Cons.prems(2) by (auto simp: give_up_def)
  next
    case False
    show ?thesis
    proof (cases "tr_answer t")
      case (Inl err)
      show ?thesis by (rule step [OF _ Cons.prems(2)]) (use l False Inl in simp)
    next
      case (Inr v)
      show ?thesis
      proof (cases "tr_told t")
        case (Inl err)
        show ?thesis by (rule step [OF _ s]) (use l False Inl \<open>tr_answer t = Inr v\<close> in \<open>simp add: Let_def\<close>)
      next
        case (Inr u)
        then have "r = Succeeded v (as @ [success_attempt n t])" using l False \<open>tr_answer t = Inr v\<close> by (simp add: Let_def)
        then show ?thesis using s by simp
      qed
    qed
  qed
qed

lemma requests_noted_in_order:
  "executeWithRetry date_of P startedMs ts = Some r \<Longrightarrow> sorted (map at_number (attempts_of r))"
  by (rule loop_in_order [of date_of P startedMs 1 "[]" JNull ts]) (simp_all add: executeWithRetry_def)

section \<open>An example\<close>

definition twice_requested :: item_work where
  "twice_requested =
     (let attempts = [failed_attempt (\<lambda>s. None) example_policy 0 1 (instant (Inl timeout_error) (Inr ())) timeout_error,
                      success_attempt 2 (instant (Inr JNull) (Inr ()))]
      in \<lparr>pw_download = Inr (JObj [(''filePath'', JStr ''a.csv''), (''requestAttempts'', JArr (map attempt_value attempts))]),
          pw_normalize = Inr (), pw_load = Inr (JObj [(''rowsInserted'', jnum 5)]), pw_started = 0, pw_finished = 9, pw_telemetry = JObj []\<rparr>)"

lemma twice_requested_notes: "noted_attempts twice_requested" "length (work_attempts twice_requested) = 2"
  "jget (processed_item ''FRED'' ''CPI'' twice_requested) ''rowsInserted'' = jnum 5"
proof -
  let ?as = "[failed_attempt (\<lambda>s. None) example_policy 0 1 (instant (Inl timeout_error) (Inr ())) timeout_error,
              success_attempt 2 (instant (Inr JNull) (Inr ()))]"
  have w: "work_attempts twice_requested = map attempt_value ?as"
    by (simp add: work_attempts_def twice_requested_def Let_def item_answer_def item_attempts_def normalizeDownloadResult_def)
  then show "noted_attempts twice_requested" "length (work_attempts twice_requested) = 2"
    by (auto simp: noted_attempts_def failed_attempt_def success_attempt_def Let_def intro!: exI [of _ ?as])
  show "jget (processed_item ''FRED'' ''CPI'' twice_requested) ''rowsInserted'' = jnum 5"
    by (simp add: processed_get work_result_def twice_requested_def Let_def item_answer_def normalizeDownloadResult_def loaded_item_def
        load_members_def jor_def)
qed

lemma tidy_example: "tidy_code ''CPI''"
  by (simp add: tidy_code_def) code_simp

lemma batch_summarized: "\<exists>s. fromAdapterBatchResult date_of today (batch_of name ws) options = Inr s"
  by (simp add: fromAdapterBatchResult_def batch_of_def Let_def normalizeRunSummary_def items_or_throw_def)

theorem rows_counted_per_attempt_witness:
  "\<exists>s. fromAdapterBatchResult (\<lambda>s. None) [] (batch_of ''FRED'' [(''CPI'', twice_requested)]) JUndef = Inr s
     \<and> rt_rows_inserted (rs_totals s) = 10 \<and> mt_rows_inserted (macro_totals_of ''FRED'' [(''CPI'', twice_requested)]) = 5"
proof -
  obtain s where s: "fromAdapterBatchResult (\<lambda>s. None) [] (batch_of ''FRED'' [(''CPI'', twice_requested)]) JUndef = Inr s"
    using batch_summarized by metis
  show ?thesis
    using rows_counted_per_attempt [OF s] s by (simp add: twice_requested_notes tidy_example)
qed

theorem reports_agree_on_outcomes_witness:
  "\<exists>s. fromAdapterBatchResult (\<lambda>s. None) [] (batch_of ''FRED'' [(''CPI'', twice_requested)]) JUndef = Inr s
     \<and> rt_requested (rs_totals s) = mt_requested (macro_totals_of ''FRED'' [(''CPI'', twice_requested)])"
proof -
  obtain s where s: "fromAdapterBatchResult (\<lambda>s. None) [] (batch_of ''FRED'' [(''CPI'', twice_requested)]) JUndef = Inr s"
    using batch_summarized by metis
  show ?thesis
    using reports_agree_on_outcomes [OF s] s by (simp add: twice_requested_notes tidy_example)
qed

end
