(* ===== verification/IngestionPipeline.thy ===== *)
theory IngestionPipeline
  imports IngestionResults
begin

text \<open>
  The pipeline of an ingestion (\<open>packages/ingestion/src/core/runPipeline.js\<close>): the codes it is asked for, the items it
  selects, and their processing in batches.  The work of an item is given by its position; directories, their removal
  and the log are not modelled.
\<close>

section \<open>Codes and items\<close>

definition DEFAULT_CONCURRENCY :: int where "DEFAULT_CONCURRENCY = 3"
definition MAX_CONCURRENCY :: int where "MAX_CONCURRENCY = 10"
definition MAX_ITEMS_PER_RUN :: nat where "MAX_ITEMS_PER_RUN = 500"

definition parsePositiveInteger :: "jsval \<Rightarrow> int \<Rightarrow> int \<Rightarrow> int" where
  "parsePositiveInteger v fallback limit =
     (case parse_int v of Some i \<Rightarrow> if i \<le> 0 then fallback else min i limit | None \<Rightarrow> fallback)"

definition code_char :: "char \<Rightarrow> bool" where
  "code_char c = (is_upper c \<or> is_digit c \<or> c \<in> set ''_.-'')"

text \<open>The code, or \<open>None\<close> for a blank one.\<close>

definition normalizeCode :: "jsval \<Rightarrow> string \<Rightarrow> string option res" where
  "normalizeCode v sourceName =
     (let code = to_upper (trim (to_str (jor v (JStr []))))
      in if code = [] then Inr None
         else if \<not> list_all code_char code then Inl (js_error (''Invalid '' @ sourceName @ '' code: '' @ to_str v))
         else Inr (Some code))"

definition splitIndicatorText :: "jsval \<Rightarrow> string list" where
  "splitIndicatorText v =
     filter (\<lambda>w. w \<noteq> [])
       (map trim (split_on (CHR '','') (map (\<lambda>c. if is_ws c then CHR '','' else c) (to_str (jor v (JStr []))))))"

definition present :: "'a option list \<Rightarrow> 'a list" where
  "present xs = map the (filter (\<lambda>x. x \<noteq> None) xs)"

definition normalizeCodes :: "jsval \<Rightarrow> string \<Rightarrow> string list res" where
  "normalizeCodes v sourceName =
     (let raw = (case v of JArr vs \<Rightarrow> concat (map splitIndicatorText vs) | _ \<Rightarrow> splitIndicatorText v)
      in rbind (rmap (\<lambda>r. normalizeCode (JStr r) sourceName) raw) (\<lambda>codes. Inr (first_of_each (present codes))))"

text \<open>\<open>code_for\<close> is the \<open>getCode\<close> of the pipeline, when it has one.\<close>

definition getItemCode :: "(jsval \<Rightarrow> jsval) option \<Rightarrow> jsval \<Rightarrow> jsval res" where
  "getItemCode code_for item =
     (case code_for of
        Some f \<Rightarrow> Inr (f item)
      | None \<Rightarrow> if is_str item then Inr item
          else rbind (jread item ''code'') (\<lambda>c. Inr (jors [c, jget item ''name'', jget item ''table'', JStr ''UNKNOWN''])))"

definition getSafePathPart :: "string \<Rightarrow> string" where
  "getSafePathPart v =
     take 100 (map (\<lambda>c. if is_alnum c \<or> c \<in> set ''_-'' then c else CHR ''_'') (if v = [] then ''UNKNOWN'' else v))"

partial_function (option) chunkItems :: "nat \<Rightarrow> 'a list \<Rightarrow> 'a list list option" where
  "chunkItems n items =
     (if items = [] then Some []
      else Option.bind (chunkItems n (drop n items)) (\<lambda>chunks. Some (take n items # chunks)))"

definition resolveItems :: "jsval list \<Rightarrow> jsval \<Rightarrow> string \<Rightarrow> (bool \<times> jsval list) res" where
  "resolveItems items indicators name =
     rbind (normalizeCodes (jor indicators (JArr [])) name) (\<lambda>codes.
       if codes \<noteq> [] then Inr (True, map JStr (take MAX_ITEMS_PER_RUN codes))
       else rbind (rmap (\<lambda>item. if is_str item
                then rbind (normalizeCode item name) (\<lambda>c. Inr (case c of Some s \<Rightarrow> JStr s | None \<Rightarrow> JNull)) else Inr item)
              (take MAX_ITEMS_PER_RUN items)) (\<lambda>vs. Inr (False, vs)))"

section \<open>The run\<close>

definition item_code :: "(jsval \<Rightarrow> jsval) option \<Rightarrow> string \<Rightarrow> jsval \<Rightarrow> string option res" where
  "item_code code_for name item = rbind (getItemCode code_for item) (\<lambda>c. normalizeCode c name)"

text \<open>An item with a blank code is processed, with null as its code.\<close>

definition runPipelineItem :: "(jsval \<Rightarrow> jsval) option \<Rightarrow> string \<Rightarrow> jsval \<Rightarrow> item_work \<Rightarrow> jsval res" where
  "runPipelineItem code_for name item w =
     rbind (item_code code_for name item) (\<lambda>c. Inr (case c of
         Some code \<Rightarrow> processed_item name code w
       | None \<Rightarrow> obj_with (processed_item name [] w) [(''indicatorCode'', JNull)]))"

text \<open>The batches one after the other; \<open>told k\<close> is what \<open>onBatchComplete\<close> answers for batch \<open>k\<close>.\<close>

fun run_batches ::
  "(jsval \<Rightarrow> jsval) option \<Rightarrow> string \<Rightarrow> (nat \<Rightarrow> item_work) \<Rightarrow> (nat \<Rightarrow> unit res) \<Rightarrow> nat \<Rightarrow> nat \<Rightarrow> jsval list list \<Rightarrow> jsval list res" where
  "run_batches code_for name work told k i [] = Inr []"
| "run_batches code_for name work told k i (batch # batches) =
     rbind (rmap (item_code code_for name) batch) (\<lambda>_.
     rbind (rmap (\<lambda>(j, item). runPipelineItem code_for name item (work j)) (enumerate i batch)) (\<lambda>results.
     rbind (told k) (\<lambda>_.
     rbind (run_batches code_for name work told (Suc k) (i + length batch) batches) (\<lambda>rest. Inr (results @ rest)))))"

record pipeline_result =
  pr_ok :: bool
  pr_source :: string
  pr_selected :: bool
  pr_concurrency :: int
  pr_batches :: nat
  pr_started :: string
  pr_completed :: string
  pr_summary :: jsval
  pr_results :: "jsval list"

definition runPipeline ::
  "(jsval \<Rightarrow> jsval) option \<Rightarrow> string \<Rightarrow> jsval list res \<Rightarrow> jsval \<Rightarrow> jsval \<Rightarrow> int \<Rightarrow> (nat \<Rightarrow> item_work) \<Rightarrow> (nat \<Rightarrow> unit res)
     \<Rightarrow> string \<Rightarrow> string \<Rightarrow> pipeline_result res option" where
  "runPipeline code_for name configured indicators concurrency maxConcurrency work told startedAt completedAt =
     (case rbind configured (\<lambda>items. resolveItems items indicators name) of
        Inl err \<Rightarrow> Some (Inl err)
      | Inr (selected, items) \<Rightarrow>
          (let safe = parsePositiveInteger concurrency DEFAULT_CONCURRENCY maxConcurrency
           in case chunkItems (nat safe) items of
                None \<Rightarrow> None
              | Some batches \<Rightarrow> Some (rbind (run_batches code_for name work told 0 0 batches) (\<lambda>results.
                  (let summary = toLegacyPipelineSummary results
                   in Inr \<lparr>pr_ok = (jget summary ''failed'' = jnat 0), pr_source = name, pr_selected = selected, pr_concurrency = safe,
                        pr_batches = length batches, pr_started = startedAt, pr_completed = completedAt, pr_summary = summary,
                        pr_results = results\<rparr>)))))"

section \<open>Batches and the sequence of items\<close>

lemma rmap_append: "rmap f (xs @ ys) = rbind (rmap f xs) (\<lambda>as. rbind (rmap f ys) (\<lambda>bs. Inr (as @ bs)))"
proof (induction xs)
  case Nil
  then show ?case by (cases "rmap f ys") auto
next
  case (Cons x xs)
  then show ?case by (cases "f x"; cases "rmap f xs"; cases "rmap f ys") auto
qed

lemma rmap_Inr_iff: "rmap f xs = Inr ys \<longleftrightarrow> list_all2 (\<lambda>x y. f x = Inr y) xs ys"
  by (induction xs arbitrary: ys) (auto simp: rbind_Inr_iff list_all2_Cons1)

lemma chunks:
  assumes "0 < n"
  shows "\<exists>cs. chunkItems n xs = Some cs \<and> concat cs = xs \<and> (\<forall>c \<in> set cs. length c \<le> n)"
proof (induction "length xs" arbitrary: xs rule: less_induct)
  case less
  show ?case
  proof (cases "xs = []")
    case True
    then show ?thesis by (simp add: chunkItems.simps)
  next
    case False
    with assms less [of "drop n xs"] obtain cs where "chunkItems n (drop n xs) = Some cs" "concat cs = drop n xs" "\<forall>c \<in> set cs. length c \<le> n"
      by auto
    with False show ?thesis by (subst chunkItems.simps) auto
  qed
qed

lemma item_code_of: "runPipelineItem code_for name item w = Inr r \<Longrightarrow> \<exists>c. item_code code_for name item = Inr c"
  by (auto simp: runPipelineItem_def rbind_Inr_iff)

lemma codes_of_items:
  "list_all2 (\<lambda>(j, item) r. runPipelineItem code_for name item (work j) = Inr r) (enumerate i items) rs \<Longrightarrow>
   \<exists>cs. rmap (item_code code_for name) items = Inr cs"
proof (induction items arbitrary: i rs)
  case (Cons item items)
  then obtain r rs' where r: "rs = r # rs'" "runPipelineItem code_for name item (work i) = Inr r"
    "list_all2 (\<lambda>(j, item) r. runPipelineItem code_for name item (work j) = Inr r) (enumerate (Suc i) items) rs'"
    by (auto simp: list_all2_Cons1)
  from item_code_of [OF r(2)] Cons.IH [OF r(3)] show ?case by auto
qed simp

lemma batches_in_sequence:
  "run_batches code_for name work (\<lambda>k. Inr ()) k i batches = Inr rs \<longleftrightarrow>
     rmap (\<lambda>(j, item). runPipelineItem code_for name item (work j)) (enumerate i (concat batches)) = Inr rs"
proof (induction batches arbitrary: k i rs)
  case (Cons batch batches)
  let ?run = "\<lambda>(j, item). runPipelineItem code_for name item (work j)"
  have "(\<exists>cs. rmap (item_code code_for name) batch = Inr cs)" if "rmap ?run (enumerate i batch) = Inr ys" for ys
    using that codes_of_items [of code_for name work i batch ys] by (auto simp: rmap_Inr_iff case_prod_unfold)
  then show ?case
    by (auto simp: enumerate_append_eq rmap_append rbind_Inr_iff Cons.IH add.commute)
qed auto

lemma selected_at_most: "resolveItems items indicators name = Inr (selected, vs) \<Longrightarrow> length vs \<le> 500"
  by (auto simp: resolveItems_def MAX_ITEMS_PER_RUN_def rbind_Inr_iff rmap_Inr_iff dest!: list_all2_lengthD split: if_splits)


section \<open>Codes\<close>

lemma upper_upper [simp]: "upper (upper c) = upper c"
proof (cases "is_lower c")
  case True
  then have "97 \<le> code_of c" "code_of c \<le> 122" by (simp_all add: is_lower_def)
  then have "(code_of c - 32) mod 256 = code_of c - 32" by (intro mod_less) linarith
  with True have "code_of (upper c) = code_of c - 32" by (simp add: upper_def)
  with True have "\<not> is_lower (upper c)" by (auto simp: is_lower_def)
  then show ?thesis by (simp add: upper_def [of "upper c"])
qed (simp add: upper_def)

lemma to_upper_idem [simp]: "to_upper (to_upper s) = to_upper s"
  by (simp add: to_upper_def)

lemma code_char_plain: "code_char c \<Longrightarrow> \<not> is_ws c \<and> c \<noteq> CHR '',''"
  by (auto simp: code_char_def is_ws_def is_upper_def is_digit_def)

lemma trim_plain: "\<forall>c \<in> set s. \<not> is_ws c \<Longrightarrow> trim s = s"
proof -
  have d: "\<forall>c \<in> set s. \<not> is_ws c \<Longrightarrow> dropWhile is_ws s = s" for s by (cases s) auto
  assume "\<forall>c \<in> set s. \<not> is_ws c"
  then show ?thesis using d [of s] d [of "rev s"] by (simp add: trim_def trim_start_def)
qed

lemma split_plain: "\<forall>c \<in> set s. c \<noteq> d \<Longrightarrow> split_on d s = [s]"
  by (induction s) auto

lemma code_tidy:
  assumes "normalizeCode v name = Inr (Some c)"
  shows "tidy_code c" "list_all code_char c" "normalizeCode (JStr c) name = Inr (Some c)" "splitIndicatorText (JStr c) = [c]"
proof -
  from assms have c: "c \<noteq> []" "list_all code_char c" "c = to_upper (trim (to_str (jor v (JStr []))))"
    by (auto simp: normalizeCode_def Let_def split: if_splits)
  have plain: "\<forall>x \<in> set c. \<not> is_ws x \<and> x \<noteq> CHR '',''" using c(2) code_char_plain by (auto simp: list_all_iff)
  then have t: "trim c = c" by (simp add: trim_plain)
  have u: "to_upper c = c" using to_upper_idem c(3) by metis
  show "tidy_code c" using c(1) t u by (simp add: tidy_code_def)
  show "list_all code_char c" by (rule c(2))
  show "normalizeCode (JStr c) name = Inr (Some c)" using c(1,2) t u by (simp add: normalizeCode_def jor_def Let_def)
  have "map (\<lambda>x. if is_ws x then CHR '','' else x) c = c" using plain by (simp add: map_idI)
  with plain c(1) t show "splitIndicatorText (JStr c) = [c]" by (simp add: splitIndicatorText_def jor_def split_plain)
qed

text \<open>Codes are distinct and normal, and normalizing them again changes nothing.\<close>

lemma codes_normal:
  assumes "normalizeCodes v name = Inr cs"
  shows "distinct cs" "\<forall>c \<in> set cs. tidy_code c \<and> list_all code_char c" "normalizeCodes (JArr (map JStr cs)) name = Inr cs"
proof -
  from assms obtain raw codes where r: "rmap (\<lambda>r. normalizeCode (JStr r) name) raw = Inr codes" "cs = first_of_each (present codes)"
    by (auto simp: normalizeCodes_def Let_def rbind_Inr_iff)
  have one: "\<exists>r. normalizeCode (JStr r) name = Inr (Some c)" if "c \<in> set cs" for c
  proof -
    from that r(2) have "Some c \<in> set codes" by (auto simp: present_def)
    with r(1) show ?thesis by (auto simp: rmap_Inr_iff list_all2_conv_all_nth in_set_conv_nth) metis
  qed
  show d: "distinct cs" by (simp add: r(2))
  show "\<forall>c \<in> set cs. tidy_code c \<and> list_all code_char c" using one code_tidy(1,2) by blast
  have "concat (map splitIndicatorText (map JStr cs)) = cs"
    using one code_tidy(4) by (induction cs) fastforce+
  moreover have "rmap (\<lambda>r. normalizeCode (JStr r) name) cs = Inr (map Some cs)"
    using one code_tidy(3) by (induction cs) fastforce+
  moreover have "first_of_each cs = cs" using d by (induction cs) (auto intro!: filter_True)
  ultimately show "normalizeCodes (JArr (map JStr cs)) name = Inr cs"
    by (simp add: normalizeCodes_def present_def)
qed

text \<open>Two codes of one run can share a temporary directory, which the item that ends first removes.\<close>

lemma directories_collide:
  "normalizeCodes (JStr ''A.B A_B'') name = Inr [''A.B'', ''A_B''] \<and> getSafePathPart ''A.B'' = getSafePathPart ''A_B''"
  by code_simp

text \<open>The fallback is not limited: an unusable concurrency exceeds the maximum of an adapter that allows less than three.\<close>

lemma fallback_above_limit: "parsePositiveInteger (JStr ''0'') DEFAULT_CONCURRENCY 1 = 3"
  by code_simp


end
