(* ===== verification/WorkflowApprovals.thy ===== *)
theory WorkflowApprovals
  imports ConditionService
begin

text \<open>
  Approvals in the API (\<open>apps/api/src/services/workflowExecutorService.js\<close>, lines 93-190 and 524-882): permissions, the
  parameters of an approval gate, roles, decisions and the output of a gate.  The durable workflow has its own copies of
  several of these functions (\<open>WorkflowNodes\<close>); the section at the end says how far the copies agree.
\<close>

section \<open>Permissions and codes\<close>

definition getPermissionSet :: "jsval \<Rightarrow> jsval list" where
  "getPermissionSet permissions =
     filter truthy (map (\<lambda>p. jor (jget p ''permissionCode'') (jget p ''permission_code'')) (arr_items permissions))"

definition assertPermission :: "jsval \<Rightarrow> jsval \<Rightarrow> string \<Rightarrow> unit res" where
  "assertPermission permissionCode permissions action =
     (if \<not> truthy permissionCode \<or> list_ex (strict_eq permissionCode) (getPermissionSet permissions) then Inr ()
      else Inl (WorkflowServiceError ''Permission denied.'' 403
             (JObj [(''action'', JStr action), (''permissionCode'', permissionCode)])))"

definition normalizeWorkflowCode :: "jsval \<Rightarrow> string" where
  "normalizeWorkflowCode v =
     take 80 (strip_all (CHR ''-'') (squash (\<lambda>c. \<not> (is_lower c \<or> is_digit c)) (CHR ''-'') False
       (to_lower (trim (to_str (jor v (JStr [])))))))"

definition normalizeNodeKey :: "jsval \<Rightarrow> string \<Rightarrow> string" where
  "normalizeNodeKey v fallback =
     (let key = map (\<lambda>c. if c = CHR ''-'' then CHR ''_'' else c) (normalizeWorkflowCode v) in if key = [] then fallback else key)"

section \<open>The parameters of a gate\<close>

definition approval_actions :: "string list" where
  "approval_actions = [''STOP_SUCCESS'', ''FAIL_WORKFLOW'', ''CONTINUE'']"

definition normalizeHumanApprovalAction_api :: "jsval \<Rightarrow> string \<Rightarrow> string res" where
  "normalizeHumanApprovalAction_api v fieldName =
     (let action = via_alias (continuation_aliases ''STOP_SUCCESS'') (normal_token token_char (jor v (JStr ''STOP_SUCCESS'')))
      in if action \<notin> set approval_actions
         then Inl (WorkflowServiceError (''Unsupported HUMAN_APPROVAL '' @ fieldName @ ''.'') 400
                (JObj [(''action'', v), (''allowed'', str_arr approval_actions)]))
         else Inr action)"

definition normalizeHumanApprovalTimeoutUnit_api :: "jsval \<Rightarrow> string res" where
  "normalizeHumanApprovalTimeoutUnit_api v =
     (let unit = via_alias timeout_unit_aliases (normal_token is_upper (jor v (JStr ''HOURS'')))
      in if map_of HUMAN_APPROVAL_TIMEOUT_UNIT_MULTIPLIERS_MS unit = None
         then Inl (WorkflowServiceError ''Unsupported HUMAN_APPROVAL timeout unit.'' 400
                (JObj [(''unit'', v), (''allowed'', str_arr (map fst HUMAN_APPROVAL_TIMEOUT_UNIT_MULTIPLIERS_MS))]))
         else Inr unit)"

definition parseHumanApprovalTimeoutMs_api :: "jsval \<Rightarrow> int option res" where
  "parseHumanApprovalTimeoutMs_api parameters =
     (let input = getSafeObject parameters;
          rawTimeoutMs = jnull_or (jget input ''timeoutMs'') (jget input ''approvalTimeoutMs'');
          rawDuration = jnull_or (jget input ''timeoutDuration'') (jget input ''duration'')
      in if \<not> isBlankValue rawTimeoutMs
         then (case positive_num rawTimeoutMs of
                 None \<Rightarrow> Inl (WorkflowServiceError ''HUMAN_APPROVAL timeoutMs must be a positive number or blank.'' 400
                   (JObj [(''timeoutMs'', rawTimeoutMs)]))
               | Some ms \<Rightarrow> Inr (Some (round_half_up ms)))
         else if isBlankValue rawDuration then Inr None
         else rbind (normalizeHumanApprovalTimeoutUnit_api (jors [jget input ''timeoutUnit'', jget input ''unit'', JStr ''HOURS'']))
           (\<lambda>unit. case positive_num rawDuration of
                 None \<Rightarrow> Inl (WorkflowServiceError ''HUMAN_APPROVAL timeout duration must be a positive number or blank.'' 400
                   (JObj [(''timeoutDuration'', rawDuration)]))
               | Some d \<Rightarrow> Inr (Some (round_half_up (d * unit_ms HUMAN_APPROVAL_TIMEOUT_UNIT_MULTIPLIERS_MS unit)))))"

definition normalizeRoleCode :: "jsval \<Rightarrow> string" where
  "normalizeRoleCode v =
     strip_all (CHR ''_'') (squash (\<lambda>c. \<not> (token_char c \<or> c = CHR ''_'')) (CHR ''_'') False
       (to_upper (trim (to_str (jor v (JStr [])))))) "

definition normalizeHumanApprovalParameters_api :: "jsval \<Rightarrow> jsval \<Rightarrow> jsval res" where
  "normalizeHumanApprovalParameters_api parameters node =
     (let input = getSafeObject parameters; first = (\<lambda>ks d. jors (map (jget input) ks @ [JStr d]));
          approvalTitle = trim (to_str (jors [jget input ''approvalTitle'', jget input ''title'', jget node ''displayName'', JStr ''Approval required'']));
          approvalKey = normalizeNodeKey (jors [jget input ''approvalKey'', jget node ''nodeKey'', JStr ''approval'']) ''approval''
      in rbind (parseHumanApprovalTimeoutMs_api input) (\<lambda>timeoutMs.
         if approvalTitle = []
         then Inl (WorkflowServiceError ''HUMAN_APPROVAL nodes require approvalTitle.'' 400
                (JObj [(''fieldName'', JStr ''approvalTitle'')]))
         else if (case timeoutMs of None \<Rightarrow> False | Some t \<Rightarrow> MAX_HUMAN_APPROVAL_TIMEOUT_MS < t)
         then Inl (WorkflowServiceError ''HUMAN_APPROVAL timeout is capped at 30 days.'' 400
                (JObj [(''timeoutMs'', timeout_value timeoutMs), (''maxTimeoutMs'', jint MAX_HUMAN_APPROVAL_TIMEOUT_MS)]))
         else
           rbind (normalizeHumanApprovalAction_api (first [''onReject'', ''rejectAction''] ''STOP_SUCCESS'') ''onReject action'') (\<lambda>onReject.
           rbind (normalizeHumanApprovalAction_api (first [''onTimeout'', ''timeoutAction''] ''FAIL_WORKFLOW'') ''onTimeout action'') (\<lambda>onTimeout.
           rbind (if truthy (timeout_value timeoutMs)
                  then rbind (normalizeHumanApprovalTimeoutUnit_api (first [''timeoutUnit'', ''unit''] ''HOURS'')) (\<lambda>u. Inr (JStr u))
                  else Inr JNull) (\<lambda>timeoutUnit.
           Inr (obj_with input
             [(''approvalTitle'', JStr approvalTitle), (''title'', JStr approvalTitle),
              (''instructions'', JStr (take 4000 (trim (to_str (first [''instructions'', ''prompt''] []))))),
              (''approvalKey'', JStr approvalKey),
              (''requiredRoleCode'', str_or_null (normalizeRoleCode (jor (jget input ''requiredRoleCode'') (jget input ''requiredRole'')))),
              (''onReject'', JStr onReject),
              (''rejectTargetNodeKey'', JStr (normalizeConditionBranchTargetNodeKey
                 (jor (jget input ''rejectTargetNodeKey'') (jget input ''rejectionTargetNodeKey'')))),
              (''onTimeout'', JStr onTimeout), (''timeoutMs'', timeout_value timeoutMs),
              (''timeoutDuration'', jnull_or (jget input ''timeoutDuration'') (jnull_or (jget input ''duration'') JNull)),
              (''timeoutUnit'', timeoutUnit)]))))))"

section \<open>Decisions\<close>

definition approval_decisions :: "string list" where
  "approval_decisions = [''APPROVED'', ''REJECTED'', ''TIMED_OUT'']"

definition normalizeApprovalDecision_api :: "jsval \<Rightarrow> string res" where
  "normalizeApprovalDecision_api v =
     (let decision = via_alias decision_aliases (normal_token token_char (jor v (JStr [])))
      in if decision \<notin> set approval_decisions
         then Inl (WorkflowServiceError ''Unsupported approval decision.'' 400
                (JObj [(''decision'', v), (''allowed'', str_arr approval_decisions)]))
         else Inr decision)"

definition getApprovalActionForDecision_api :: "string \<Rightarrow> jsval \<Rightarrow> string res" where
  "getApprovalActionForDecision_api decision approvalParameters =
     (if decision = ''APPROVED'' then Inr ''CONTINUE''
      else if decision = ''REJECTED''
      then normalizeHumanApprovalAction_api (jor (jget approvalParameters ''onReject'') (JStr ''STOP_SUCCESS'')) ''onReject action''
      else if decision = ''TIMED_OUT''
      then normalizeHumanApprovalAction_api (jor (jget approvalParameters ''onTimeout'') (JStr ''FAIL_WORKFLOW'')) ''onTimeout action''
      else Inr ''FAIL_WORKFLOW'')"

text \<open>The characters removed from a role: braces and quotes.\<close>

definition role_noise :: "char \<Rightarrow> bool" where
  "role_noise c = (c \<in> set ''{}'' \<or> code_of c = (34 :: nat) \<or> code_of c = (39 :: nat))"

fun parseGrantedRoleCodes :: "jsval \<Rightarrow> string list" where
  "parseGrantedRoleCodes (JArr vs) = concat (map parseGrantedRoleCodes vs)"
| "parseGrantedRoleCodes v =
     (if \<not> truthy v then []
      else filter (\<lambda>r. r \<noteq> []) (map (\<lambda>r. normalizeRoleCode (JStr (filter (\<lambda>c. \<not> role_noise c) r))) (split_on (CHR '','') (to_str v))))"

definition getRoleSetFromPermissions :: "jsval \<Rightarrow> string list" where
  "getRoleSetFromPermissions permissions =
     concat (map (\<lambda>p. parseGrantedRoleCodes (jor (jget p ''grantedThroughRoles'') (jget p ''granted_through_roles''))) (arr_items permissions))"

definition assertApprovalRole :: "jsval \<Rightarrow> jsval \<Rightarrow> unit res" where
  "assertApprovalRole requiredRoleCode permissions =
     (let role = normalizeRoleCode requiredRoleCode; roles = getRoleSetFromPermissions permissions
      in if role = [] \<or> role \<in> set roles \<or> ''SUPER_ADMIN'' \<in> set roles then Inr ()
         else Inl (WorkflowServiceError ''Approval requires a role the current user does not have.'' 403
                (JObj [(''requiredRoleCode'', JStr role)])))"

definition buildHumanApprovalOutput_api :: "jsval \<Rightarrow> jsval \<Rightarrow> jsval \<Rightarrow> jsval \<Rightarrow> bool \<Rightarrow> string \<Rightarrow> jsval res" where
  "buildHumanApprovalOutput_api approval decision decisionNote actor timedOut today =
     rbind (normalizeApprovalDecision_api decision) (\<lambda>verdict.
     rbind (getApprovalActionForDecision_api verdict approval) (\<lambda>action.
       (let of_approval = (\<lambda>k. or_null (jget approval k));
            actorName = jors [jget actor ''displayName'', jget actor ''email'', jget approval ''decidedByDisplayName'',
              jget approval ''decidedByEmail'', JNull];
            title = jors [jget approval ''approvalTitle'', jget approval ''title'', JStr ''Approval required''];
            target = (if verdict = ''REJECTED''
              then normalizeConditionBranchTargetNodeKey
                (jor (jget approval ''rejectTargetNodeKey'') (jget (jget approval ''metadata'') ''rejectTargetNodeKey'')) else []);
            byActor = (if truthy actorName then '' by '' @ to_str actorName else []);
            summary = (if verdict = ''APPROVED'' then ''Approval granted for '' @ to_str title @ byActor @ ''; continuing workflow.''
              else if verdict = ''REJECTED''
              then ''Approval rejected for '' @ to_str title @ byActor @ ''; ''
                @ (if target \<noteq> [] then ''routing to '' @ target else action_phrase action) @ ''.''
              else ''Approval timed out for '' @ to_str title @ ''; '' @ action_phrase action @ ''.'')
        in Inr (JObj
         [(''kind'', JStr ''human_approval''), (''status'', JStr verdict), (''approved'', JBool (verdict = ''APPROVED'')),
          (''rejected'', JBool (verdict = ''REJECTED'')), (''timedOut'', JBool (timedOut \<or> verdict = ''TIMED_OUT'')),
          (''decision'', JStr verdict), (''action'', JStr action), (''branchTaken'', JBool (target \<noteq> [])),
          (''branchLabel'', if target \<noteq> [] then JStr ''REJECTED'' else JNull), (''branchTargetNodeKey'', str_or_null target),
          (''approvalRequestId'', of_approval ''approvalRequestId''), (''approvalKey'', of_approval ''approvalKey''),
          (''approvalTitle'', title), (''instructions'', of_approval ''instructions''), (''requiredRoleCode'', of_approval ''requiredRoleCode''),
          (''temporalWorkflowId'', of_approval ''temporalWorkflowId''), (''temporalRunId'', of_approval ''temporalRunId''),
          (''decisionNote'', jors [decisionNote, jget approval ''decisionNote'', JNull]), (''decidedByDisplayName'', actorName),
          (''decidedAt'', jor (jget approval ''decidedAt'') (JStr today)), (''summary'', JStr summary)]))))"

section \<open>The two copies\<close>

text \<open>Two results agree when both are errors or both are the same value.\<close>

definition agree :: "'a res \<Rightarrow> 'a res \<Rightarrow> bool" where
  "agree a b = (result_of a = result_of b)"

lemma decisions_agree_here: "agree (normalizeApprovalDecision_api v) (normalizeApprovalDecision v)"
  by (simp add: agree_def result_of_def normalizeApprovalDecision_api_def normalizeApprovalDecision_def approval_decisions_def Let_def)

lemma continuation_aliases_other: "n \<noteq> [] \<Longrightarrow> map_of (continuation_aliases a) n = map_of (continuation_aliases b) n"
  by (simp add: continuation_aliases_def)

lemma units_agree_here: "agree (normalizeHumanApprovalTimeoutUnit_api x) (normalizeHumanApprovalTimeoutUnit x)"
  by (simp add: agree_def result_of_def normalizeHumanApprovalTimeoutUnit_api_def normalizeHumanApprovalTimeoutUnit_def Let_def)

lemma agree_rbind: "agree a b \<Longrightarrow> (\<And>x. agree (f x) (g x)) \<Longrightarrow> agree (rbind a f) (rbind b g)"
  by (cases a; cases b) (simp_all add: agree_def result_of_def)

lemma agree_if: "(b \<Longrightarrow> agree x x') \<Longrightarrow> (\<not> b \<Longrightarrow> agree y y') \<Longrightarrow> agree (if b then x else y) (if b then x' else y')"
  by simp

lemma agree_option:
  "agree n n' \<Longrightarrow> (\<And>x. agree (s x) (s' x)) \<Longrightarrow> agree (case m of None \<Rightarrow> n | Some x \<Rightarrow> s x) (case m of None \<Rightarrow> n' | Some x \<Rightarrow> s' x)"
  by (cases m) simp_all

lemma agree_simps: "agree (Inr x) (Inr x)" "agree (Inl e) (Inl f)"
  by (simp_all add: agree_def result_of_def)

lemma timeouts_agree_here: "agree (parseHumanApprovalTimeoutMs_api v) (parseHumanApprovalTimeoutMs v)"
  unfolding parseHumanApprovalTimeoutMs_api_def parseHumanApprovalTimeoutMs_def Let_def
  by (intro agree_if agree_option agree_rbind units_agree_here agree_simps)

text \<open>the copies of the API and of the durable workflow accept the same decisions and timeouts and read the
  same action from a setting, except from one without any letter or digit: there the API always stops with success, and
  the workflow does what is usual for the setting, which for a timeout is to fail.\<close>

theorem approval_copies_agree:
  assumes "fallback \<in> {''STOP_SUCCESS'', ''FAIL_WORKFLOW''}"
  shows "agree (normalizeApprovalDecision_api v) (normalizeApprovalDecision v)
     \<and> agree (parseHumanApprovalTimeoutMs_api v) (parseHumanApprovalTimeoutMs v)
     \<and> (normal_token token_char (jor v (JStr fallback)) \<noteq> []
          \<longrightarrow> agree (normalizeHumanApprovalAction_api (jor v (JStr fallback)) field) (normalizeHumanApprovalAction v fallback))
     \<and> (normal_token token_char (jor v (JStr fallback)) = []
          \<longrightarrow> normalizeHumanApprovalAction_api (jor v (JStr fallback)) field = Inr ''STOP_SUCCESS''
            \<and> normalizeHumanApprovalAction v fallback = Inr fallback)"
proof -
  let ?v = "jor v (JStr fallback)"
  have t: "truthy ?v" using assms by (auto simp: jor_def)
  have "via_alias (continuation_aliases ''STOP_SUCCESS'') n = via_alias (continuation_aliases fallback) n" if "n \<noteq> []" for n
    using continuation_aliases_other [OF that, of "''STOP_SUCCESS''" fallback] by (simp add: via_alias_def)
  then have other: "agree (normalizeHumanApprovalAction_api ?v field) (normalizeHumanApprovalAction v fallback)"
    if "normal_token token_char ?v \<noteq> []"
    using that jor_truthy [OF t]
    by (simp add: agree_def result_of_def normalizeHumanApprovalAction_api_def normalizeHumanApprovalAction_def approval_actions_def Let_def)
  have blank: "via_alias (continuation_aliases f) [] = f" if "f \<in> {''STOP_SUCCESS'', ''FAIL_WORKFLOW''}" for f
    using that by (auto simp: via_alias_def continuation_aliases_def)
  have "normalizeHumanApprovalAction_api ?v field = Inr ''STOP_SUCCESS''" if "normal_token token_char ?v = []"
    using that blank [of "''STOP_SUCCESS''"] jor_truthy [OF t]
    by (simp add: normalizeHumanApprovalAction_api_def approval_actions_def Let_def)
  moreover have "normalizeHumanApprovalAction v fallback = Inr fallback" if "normal_token token_char ?v = []"
    using that blank [OF assms] assms by (auto simp: normalizeHumanApprovalAction_def Let_def)
  ultimately show ?thesis using other timeouts_agree_here decisions_agree_here by blast
qed

theorem approval_copies_agree_witness:
  "normalizeHumanApprovalAction_api (JStr ''--'') ''onTimeout action'' = Inr ''STOP_SUCCESS''
     \<and> normalizeHumanApprovalAction (JStr ''--'') ''FAIL_WORKFLOW'' = Inr ''FAIL_WORKFLOW''"
proof -
  have "normal_token token_char (JStr ''--'') = []" by code_simp
  with approval_copies_agree [of "''FAIL_WORKFLOW''" "JStr ''--''" "''onTimeout action''"] show ?thesis by (simp add: jor_def)
qed

end
