(* ===== verification/RunLedger.thy ===== *)
theory RunLedger
  imports WorkflowExecutor WorkflowApprovals "HOL-Library.Char_ord" "HOL-Library.List_Lexorder"
begin

text \<open>
  The ledger of workflow runs: the rows that \<open>apps/api/src/services/workflowExecutorService.js\<close> keeps of runs, node runs,
  approval requests, outputs and context values, its statements on them (lines 1186-1420 and 1950-2290, 2571-3010) and
  the activities of the durable workflow that call them (\<open>packages/temporal/src/activities/skyCommandWorkflowActivities.js\<close>).
  Each operation takes the time of its statements and, where it inserts a row, the id that the database gives to it.
  Dates show as their ISO text, as they do in JSON.  The two statements of an insertion that is guarded by a query run
  without another one in between, and the optional tables exist.
\<close>

section \<open>Rows\<close>

record run_row =
  wr_id :: string
  wr_code :: string
  wr_definition :: jsval
  wr_version :: jsval
  wr_version_number :: jsval
  wr_source :: jsval
  wr_trigger :: jsval
  wr_status :: string
  wr_temporal :: jsval
  wr_temporal_run :: jsval
  wr_input :: jsval
  wr_request :: jsval
  wr_summary :: jsval
  wr_user :: jsval
  wr_started :: "int option"
  wr_completed :: "int option"
  wr_created :: int
  wr_metadata :: jsval

record node_row =
  nd_id :: string
  nd_run :: string
  nd_node :: jsval
  nd_key :: string
  nd_type :: jsval
  nd_target :: jsval
  nd_status :: string
  nd_attempts :: int
  nd_started :: "int option"
  nd_completed :: "int option"
  nd_output :: jsval
  nd_error :: jsval
  nd_metadata :: jsval
  nd_created :: int

record approval_row =
  ap_id :: string
  ap_run :: string
  ap_node_run :: string
  ap_node :: jsval
  ap_node_key :: string
  ap_key :: string
  ap_title :: jsval
  ap_instructions :: jsval
  ap_status :: string
  ap_role :: jsval
  ap_on_reject :: jsval
  ap_on_timeout :: jsval
  ap_timeout :: jsval
  ap_temporal :: jsval
  ap_temporal_run :: jsval
  ap_signal :: string
  ap_requested_by :: jsval
  ap_decided_by :: jsval
  ap_note :: jsval
  ap_requested :: int
  ap_decided :: "int option"
  ap_expires :: jsval
  ap_metadata :: jsval

record output_row =
  ou_node_run :: string
  ou_key :: string
  ou_run :: string
  ou_node :: jsval
  ou_node_key :: string
  ou_node_type :: jsval
  ou_target :: jsval
  ou_type :: jsval
  ou_input :: jsval
  ou_output :: jsval
  ou_summary :: jsval
  ou_status :: string
  ou_attempts :: int
  ou_metadata :: jsval

record value_row =
  cv_run :: string
  cv_key :: string
  cv_value :: jsval
  cv_type :: string
  cv_source :: jsval
  cv_source_run :: jsval

record ledger =
  lg_runs :: "run_row list"
  lg_nodes :: "node_row list"
  lg_approvals :: "approval_row list"
  lg_outputs :: "output_row list"
  lg_values :: "value_row list"

definition update_where :: "('a \<Rightarrow> bool) \<Rightarrow> ('a \<Rightarrow> 'a) \<Rightarrow> 'a list \<Rightarrow> 'a list" where
  "update_where p f xs = map (\<lambda>x. if p x then f x else x) xs"

definition upsert_by :: "('a \<Rightarrow> 'k) \<Rightarrow> ('a \<Rightarrow> 'a) \<Rightarrow> 'a \<Rightarrow> 'a list \<Rightarrow> 'a list" where
  "upsert_by k f x xs = (if k x \<in> k ` set xs then update_where (\<lambda>y. k y = k x) f xs else xs @ [x])"

text \<open>A value as it is stored in a JSON column, and the operator \<open>||\<close> on JSON objects.\<close>

definition stored :: "jsval \<Rightarrow> jsval" where
  "stored v = json_clone (getSafeObject v)"

definition jsonb_merge :: "jsval \<Rightarrow> jsval \<Rightarrow> jsval" where
  "jsonb_merge a b = obj_with a (obj_kvs b)"

definition terminal_statuses :: "string list" where
  "terminal_statuses = [''COMPLETED'', ''FAILED'', ''CANCELED'', ''TERMINATED'', ''SKIPPED'']"

definition time_text :: "int option \<Rightarrow> jsval" where
  "time_text t = (case t of Some ms \<Rightarrow> JStr (iso_text (of_int ms)) | None \<Rightarrow> JNull)"

section \<open>Rows as values\<close>

definition run_parent :: "jsval \<Rightarrow> jsval \<Rightarrow> string \<Rightarrow> jsval" where
  "run_parent input metadata k = jors [jget input k, jget metadata k, JNull]"

text \<open>\<open>joined\<close> has the columns of the view that come from other tables.\<close>

definition run_view :: "jsval \<Rightarrow> run_row \<Rightarrow> jsval" where
  "run_view joined r =
     (let m = wr_metadata r; parent = run_parent (wr_input r) m ''parentWorkflowRunRecordId''
      in JObj
       [(''workflowRunRecordId'', JStr (wr_id r)), (''workflowDefinitionId'', wr_definition r), (''workflowVersionId'', wr_version r),
        (''workflowCode'', JStr (wr_code r)), (''workflowDisplayName'', jget joined ''workflowDisplayName''),
        (''workflowCategoryCode'', jors [jget joined ''workflowCategoryCode'', jget m ''workflowCategoryCode'', JStr ''GENERAL'']),
        (''workflowCategoryDisplayName'',
           jors [jget joined ''workflowCategoryDisplayName'', jget m ''workflowCategoryDisplayName'', JStr ''General'']),
        (''workflowCategorySource'', jor (jget joined ''workflowCategorySource'')
           (JStr (if truthy (jget m ''workflowCategoryCode'') then ''SNAPSHOT'' else ''DEFAULT''))),
        (''versionNumber'', jor (wr_version_number r) (jget joined ''definitionVersionNumber'')), (''runSource'', wr_source r),
        (''triggerType'', wr_trigger r), (''status'', JStr (wr_status r)), (''temporalWorkflowId'', wr_temporal r),
        (''temporalRunId'', wr_temporal_run r), (''input'', wr_input r), (''requestContext'', wr_request r), (''summary'', wr_summary r),
        (''startedByUserId'', wr_user r), (''startedByEmail'', jget joined ''startedByEmail''),
        (''startedByDisplayName'', jget joined ''startedByDisplayName''), (''startedAt'', time_text (wr_started r)),
        (''completedAt'', time_text (wr_completed r)), (''metadata'', m), (''parentWorkflowRunRecordId'', parent),
        (''parentNodeKey'', run_parent (wr_input r) m ''parentNodeKey''),
        (''childWorkflow'', JBool (wr_source r = JStr ''child_workflow'' \<or> wr_trigger r = JStr ''CHILD_WORKFLOW''
           \<or> jget m ''childWorkflow'' = JBool True \<or> truthy parent)),
        (''createdAt'', time_text (Some (wr_created r)))])"

definition node_view :: "node_row \<Rightarrow> jsval" where
  "node_view n = JObj
     [(''workflowNodeRunRecordId'', JStr (nd_id n)), (''workflowRunRecordId'', JStr (nd_run n)), (''workflowNodeId'', nd_node n),
      (''nodeKey'', JStr (nd_key n)), (''nodeTypeCode'', nd_type n), (''targetCode'', nd_target n), (''status'', JStr (nd_status n)),
      (''attemptCount'', jint (nd_attempts n)), (''startedAt'', time_text (nd_started n)), (''completedAt'', time_text (nd_completed n)),
      (''output'', nd_output n), (''errorMessage'', nd_error n), (''metadata'', nd_metadata n),
      (''createdAt'', time_text (Some (nd_created n)))]"

definition value_view :: "value_row \<Rightarrow> jsval" where
  "value_view c = JObj
     [(''workflowRunRecordId'', JStr (cv_run c)), (''contextKey'', JStr (cv_key c)), (''value'', cv_value c),
      (''valueType'', JStr (cv_type c)), (''sourceNodeKey'', cv_source c), (''sourceNodeRunRecordId'', cv_source_run c)]"

section \<open>The context of a run\<close>

fun getJsonValueType :: "jsval \<Rightarrow> string" where
  "getJsonValueType JUndef = ''null''"
| "getJsonValueType JNull = ''null''"
| "getJsonValueType (JArr _) = ''array''"
| "getJsonValueType (JStr _) = ''string''"
| "getJsonValueType (JNum _) = ''number''"
| "getJsonValueType (JBool _) = ''boolean''"
| "getJsonValueType (JObj _) = ''object''"

definition value_record :: "string \<Rightarrow> jsval \<Rightarrow> jsval \<Rightarrow> string \<Rightarrow> jsval \<Rightarrow> value_row" where
  "value_record runId source sourceRun k v =
     \<lparr>cv_run = runId, cv_key = normalizeContextKey (JStr k) ''value'', cv_value = json_clone v, cv_type = getJsonValueType v,
      cv_source = or_null source, cv_source_run = or_null sourceRun\<rparr>"

definition persistWorkflowContextPatch :: "string \<Rightarrow> (string \<times> jsval) list \<Rightarrow> jsval \<Rightarrow> jsval \<Rightarrow> value_row list \<Rightarrow> value_row list" where
  "persistWorkflowContextPatch runId patch source sourceRun =
     fold (\<lambda>(k, v). upsert_by (\<lambda>c. (cv_run c, cv_key c)) (\<lambda>_. value_record runId source sourceRun k v)
                     (value_record runId source sourceRun k v)) patch"

definition initial_patch :: "run_row \<Rightarrow> jsval \<Rightarrow> jsval \<Rightarrow> (string \<times> jsval) list" where
  "initial_patch r defn input =
     (let safeInput = getSafeObject input
      in [(''workflow.workflowRunRecordId'', JStr (wr_id r)),
          (''workflow.workflowCode'', jors [jget defn ''workflowCode'', JStr (wr_code r), JNull]),
          (''workflow.workflowDisplayName'', jors [jget defn ''displayName'', JNull]),
          (''workflow.versionNumber'', jors [jget defn ''publishedVersionNumber'', wr_version_number r, JNull]),
          (''workflow.runSource'', jors [jget safeInput ''runSource'', wr_source r, JStr ''manual'']),
          (''workflow.triggerType'', jors [jget safeInput ''triggerType'', wr_trigger r, JStr ''MANUAL'']),
          (''workflow.input'', safeInput), (''params'', getWorkflowRuntimeParams safeInput)])"

definition normalizeTelemetryDurationMs :: "jsval \<Rightarrow> int option" where
  "normalizeTelemetryDurationMs v = (case finite_num v of Some r \<Rightarrow> if r < 0 then None else Some (round_half_up r) | None \<Rightarrow> None)"

definition summarizeWorkflowNodeOutput :: "jsval \<Rightarrow> string" where
  "summarizeWorkflowNodeOutput v =
     (let out = getSafeObject v; kind = jget out ''kind''; text = (\<lambda>k d. to_str (jor (jget out k) (JStr d)))
      in if truthy (jget out ''summary'') then to_str (jget out ''summary'')
         else if truthy (jget out ''message'') then to_str (jget out ''message'')
         else if kind = JStr ''tool_execution'' then text ''toolCode'' ''Tool'' @ '' finished with '' @ text ''status'' ''UNKNOWN''
         else if kind = JStr ''api_call''
         then trim (''API '' @ text ''method'' [] @ '' '' @ text ''url'' [] @ '' returned '' @ text ''statusCode'' ''unknown status'')
         else if kind = JStr ''condition_evaluation''
         then ''Condition '' @ (if truthy (jget out ''passed'') then ''passed'' else ''did not pass'') @ ''.''
         else if kind = JStr ''human_approval''
         then ''Human approval '' @ to_str (jors [jget out ''status'', jget out ''decision'', JStr ''completed'']) @ ''.''
         else [])"

definition getNodeOutputPersistenceSummary :: "jsval \<Rightarrow> jsval" where
  "getNodeOutputPersistenceSummary v =
     jors [JStr (summarizeWorkflowNodeOutput v), jget v ''summary'', jget v ''message'', JStr []]"

text \<open>Reading the duration of an output that is null throws.\<close>

definition node_duration_ms :: "node_row \<Rightarrow> jsval \<Rightarrow> int option res" where
  "node_duration_ms n out =
     rbind (jread out ''durationMs'') (\<lambda>d. Inr (case normalizeTelemetryDurationMs d of
         Some ms \<Rightarrow> Some ms
       | None \<Rightarrow> (case nd_completed n of
           Some e \<Rightarrow> Some (max 0 (e - (case nd_started n of Some s \<Rightarrow> s | None \<Rightarrow> nd_created n)))
         | None \<Rightarrow> None)))"

definition extractContextUpdatesFromOutput :: "jsval \<Rightarrow> (string \<times> jsval) list" where
  "extractContextUpdatesFromOutput out =
     kv_spread (kv_spread [] (obj_kvs (jget (getSafeObject out) ''contextUpdates'')))
       (obj_kvs (jget (getSafeObject (jget (getSafeObject out) ''output'')) ''contextUpdates''))"

definition node_patch :: "node_row \<Rightarrow> string \<Rightarrow> (string \<times> jsval) list res" where
  "node_patch n today =
     (let result = getSafeObject (nd_output n); out = json_clone (getToolResultDomainOutput result);
          prefix = ''nodes.'' @ normalizeContextKey (JStr (nd_key n)) ''node'' @ ''.''; tool = isToolResultEnvelope result;
          parameters = jget (nd_metadata n) ''parameters'';
          saveOutputAs = normalizeContextKey (jors [jget parameters ''saveOutputAs'', jget parameters ''outputKey'',
              jget (nd_metadata n) ''saveOutputAs'', jget result ''saveOutputAs'', jget (getSafeObject (jget result ''output'')) ''saveOutputAs'']) []
      in rbind (node_duration_ms n out) (\<lambda>duration.
         Inr (kv_spread []
           ([(prefix @ ''nodeKey'', JStr (nd_key n)), (prefix @ ''nodeTypeCode'', or_null (nd_type n)),
             (prefix @ ''targetCode'', or_null (nd_target n)), (prefix @ ''status'', JStr (nd_status n)),
             (prefix @ ''attemptCount'', jint (nd_attempts n)), (prefix @ ''startedAt'', time_text (nd_started n)),
             (prefix @ ''completedAt'', time_text (nd_completed n)), (prefix @ ''result'', result), (prefix @ ''output'', out),
             (prefix @ ''warnings'', if tool then getSafeArray (jget result ''warnings'') else JArr []),
             (prefix @ ''error'', if tool then or_null (jget result ''error'') else JNull),
             (prefix @ ''metadata'', if tool then getSafeObject (jget result ''metadata'') else JObj []),
             (prefix @ ''summary'', getNodeOutputPersistenceSummary result),
             (''last.nodeKey'', JStr (nd_key n)), (''last.status'', JStr (nd_status n)), (''last.result'', result), (''last.output'', out),
             (''last.completedAt'', jor (time_text (nd_completed n)) (JStr today))]
            @ (case duration of Some ms \<Rightarrow> [(prefix @ ''durationMs'', jint ms), (''last.durationMs'', jint ms)] | None \<Rightarrow> [])
            @ (if saveOutputAs = [] then [] else [(saveOutputAs, out)])
            @ map (\<lambda>(k, v). (normalizeContextKey (JStr k) ''value'', v)) (extractContextUpdatesFromOutput out)))))"

section \<open>Outputs of node runs\<close>

definition output_record :: "node_row \<Rightarrow> int \<Rightarrow> output_row" where
  "output_record n t =
     (let out = nd_output n
      in \<lparr>ou_node_run = nd_id n, ou_key = ''result'', ou_run = nd_run n, ou_node = or_null (nd_node n), ou_node_key = nd_key n,
          ou_node_type = or_null (nd_type n), ou_target = or_null (nd_target n),
          ou_type = jor (if isToolResultEnvelope (getSafeObject out) then jget (getSafeObject out) ''outputType''
                         else JStr (getJsonValueType out)) (JStr (getJsonValueType out)),
          ou_input = stored (jget (nd_metadata n) ''parameters''), ou_output = json_clone out,
          ou_summary = or_null (getNodeOutputPersistenceSummary out), ou_status = nd_status n, ou_attempts = nd_attempts n,
          ou_metadata = JObj [(''persistedBy'', JStr ''skycommand_workflow_output_persistence_v1''), (''persistedAt'', JStr (iso_text (of_int t))),
            (''source'', JStr (if truthy (jget (nd_metadata n) ''temporalBacked'') then ''temporal_workflow_activity''
                             else ''inline_workflow_executor''))]\<rparr>)"

definition persistWorkflowNodeOutput :: "int \<Rightarrow> node_row \<Rightarrow> output_row list \<Rightarrow> output_row list" where
  "persistWorkflowNodeOutput t n outs =
     (let row = output_record n t
      in upsert_by (\<lambda>o'. (ou_node_run o', ou_key o'))
           (\<lambda>old. row\<lparr>ou_metadata := jsonb_merge (ou_metadata old) (ou_metadata row)\<rparr>) row outs)"

section \<open>Runs\<close>

text \<open>\<open>profile\<close> is the code of the configuration profile.\<close>

definition promotion_keys :: "string list" where
  "promotion_keys = [''instructionSource'', ''triggerSource'', ''triggerType'', ''agentId'', ''actorUserId'', ''instructionRef'', ''requestId'',
     ''requestedAt'', ''finalizationWorkflowRunId'', ''finalizationReceiptSha256'', ''finalizationSourceIdentityDigest'']"

definition buildTrustedPromotionAuthorization :: "jsval \<Rightarrow> (string \<times> jsval) list" where
  "buildTrustedPromotionAuthorization context =
     (let source = getSafeObject (jget context ''promotionAuthorization'')
      in map (\<lambda>k. (k, JStr (take 512 (to_str (jget source k)))))
           (filter (\<lambda>k. \<not> is_nullish (jget source k)) promotion_keys))"

definition buildWorkflowRunAuthorization :: "string \<Rightarrow> jsval \<Rightarrow> jsval \<Rightarrow> jsval \<Rightarrow> jsval \<Rightarrow> jsval" where
  "buildWorkflowRunAuthorization profile input user context permissions =
     (let safeInput = getSafeObject input; userId = jget user ''userId'';
          executionContext = getSafeObject (jget context ''executionContext'');
          isAssistantAdmission = (jget safeInput ''runSource'' = JStr ''assistant'' \<and> jget safeInput ''triggerType'' = JStr ''ASSISTANT''
            \<and> truthy (jget executionContext ''admissionId'') \<and> truthy (jget executionContext ''principalId'')
            \<and> truthy (jget executionContext ''principalCode''));
          profileCode = str_or_null (to_upper (trim profile))
      in JObj
       [(''source'', JStr (if isAssistantAdmission then ''ASSISTANT_ADMISSION'' else if truthy userId then ''HUMAN_UI'' else ''SYSTEM'')),
        (''actorUserId'', or_null userId), (''principalId'', or_null (jget executionContext ''principalId'')),
        (''principalCode'', or_null (jget executionContext ''principalCode'')),
        (''authMode'', jor (jget executionContext ''authMode'') (if truthy userId then JStr ''HUMAN_SESSION'' else JNull)),
        (''repositoryCode'', or_null (jget (getWorkflowRuntimeParams safeInput) ''repoName'')),
        (''environmentCode'', profileCode), (''configProfileCode'', profileCode), (''permissionCodes'', JArr (sort_key to_str (remdups (WorkflowApprovals.getPermissionSet permissions))))])"

definition inserted_run ::
  "string \<Rightarrow> jsval \<Rightarrow> jsval \<Rightarrow> jsval \<Rightarrow> jsval \<Rightarrow> jsval \<Rightarrow> jsval \<Rightarrow> string \<Rightarrow> jsval \<Rightarrow> string \<Rightarrow> int \<Rightarrow> run_row" where
  "inserted_run profile defn input user context session permissions status metadata newId t =
     (let safeInput = getSafeObject input; promotion = buildTrustedPromotionAuthorization context;
          request = [(''ipAddress'', or_null (jget context ''ipAddress'')), (''userAgent'', or_null (jget context ''userAgent'')),
            (''requestId'', or_null (jget context ''requestId'')),
            (''sessionId'', jors [jget context ''sessionId'', jget session ''sessionId'', JNull]),
            (''executionContext'', getSafeObject (jget context ''executionContext'')),
            (''authorization'', buildWorkflowRunAuthorization profile safeInput user context permissions)]
            @ (if promotion = [] then [] else [(''promotionAuthorization'', JObj promotion)])
      in \<lparr>wr_id = newId, wr_code = to_str (jget defn ''workflowCode''), wr_definition = default_to (jget defn ''workflowDefinitionId'') JNull,
          wr_version = default_to (jget defn ''publishedVersionId'') JNull, wr_version_number = default_to (jget defn ''publishedVersionNumber'') JNull,
          wr_source = jor (jget safeInput ''runSource'') (JStr ''manual''), wr_trigger = jor (jget safeInput ''triggerType'') (JStr ''MANUAL''),
          wr_status = status, wr_temporal = JNull, wr_temporal_run = JNull, wr_input = json_clone safeInput,
          wr_request = json_clone (JObj request), wr_summary = JNull, wr_user = or_null (jget user ''userId''),
          wr_started = Some t, wr_completed = None, wr_created = t,
          wr_metadata = json_clone (obj_with (JObj
            [(''executor'', JStr ''skycommand_workflow_executor_v1''), (''nodeCount'', jnat (length (arr_items (jget defn ''nodes'')))),
             (''edgeCount'', jnat (length (arr_items (jget defn ''edges'')))),
             (''workflowCategoryCode'', jor (jget defn ''categoryCode'') (JStr ''GENERAL'')),
             (''workflowCategoryDisplayName'', jor (jget defn ''categoryDisplayName'') (JStr ''General''))])
            (obj_kvs (getSafeObject metadata)))\<rparr>)"

definition insertWorkflowRun ::
  "string \<Rightarrow> jsval \<Rightarrow> jsval \<Rightarrow> jsval \<Rightarrow> jsval \<Rightarrow> jsval \<Rightarrow> jsval \<Rightarrow> string \<Rightarrow> jsval \<Rightarrow> string \<Rightarrow> int \<Rightarrow> ledger \<Rightarrow> run_row \<times> ledger" where
  "insertWorkflowRun profile defn input user context session permissions status metadata newId t L =
     (let row = inserted_run profile defn input user context session permissions status metadata newId t
      in (row, L\<lparr>lg_runs := lg_runs L @ [row],
                lg_values := persistWorkflowContextPatch newId (initial_patch row defn input) JNull JNull (lg_values L)\<rparr>))"

definition set_run :: "string \<Rightarrow> jsval \<Rightarrow> jsval \<Rightarrow> int \<Rightarrow> run_row \<Rightarrow> run_row" where
  "set_run status summary metadata t r =
     r\<lparr>wr_status := status, wr_summary := or_null summary,
       wr_completed := (if status \<in> set terminal_statuses then Some t else wr_completed r),
       wr_metadata := jsonb_merge (wr_metadata r) (stored metadata)\<rparr>"

definition updateWorkflowRun :: "string \<Rightarrow> string \<Rightarrow> jsval \<Rightarrow> jsval \<Rightarrow> int \<Rightarrow> ledger \<Rightarrow> ledger" where
  "updateWorkflowRun runId status summary metadata t L =
     L\<lparr>lg_runs := update_where (\<lambda>r. wr_id r = runId) (set_run status summary metadata t) (lg_runs L)\<rparr>"

definition or_kept :: "jsval \<Rightarrow> jsval \<Rightarrow> jsval" where
  "or_kept v old = (if truthy v then v else old)"

definition linked_run :: "jsval \<Rightarrow> jsval \<Rightarrow> jsval \<Rightarrow> jsval \<Rightarrow> int \<Rightarrow> run_row \<Rightarrow> run_row" where
  "linked_run temporalWorkflowId temporalRunId summary metadata t r =
     r\<lparr>wr_temporal := or_kept temporalWorkflowId (wr_temporal r), wr_temporal_run := or_kept temporalRunId (wr_temporal_run r),
       wr_status := ''RUNNING'', wr_summary := or_kept summary (wr_summary r),
       wr_started := (case wr_started r of None \<Rightarrow> Some t | s \<Rightarrow> s), wr_completed := None,
       wr_metadata := jsonb_merge (wr_metadata r) (stored metadata)\<rparr>"

definition linkWorkflowRunToTemporal :: "string \<Rightarrow> jsval \<Rightarrow> jsval \<Rightarrow> jsval \<Rightarrow> jsval \<Rightarrow> int \<Rightarrow> ledger \<Rightarrow> ledger" where
  "linkWorkflowRunToTemporal runId temporalWorkflowId temporalRunId summary metadata t L =
     L\<lparr>lg_runs := update_where (\<lambda>r. wr_id r = runId) (linked_run temporalWorkflowId temporalRunId summary metadata t) (lg_runs L)\<rparr>"

definition completeWorkflowRun :: "string \<Rightarrow> jsval \<Rightarrow> jsval \<Rightarrow> int \<Rightarrow> ledger \<Rightarrow> ledger" where
  "completeWorkflowRun runId = updateWorkflowRun runId ''COMPLETED''"

definition failWorkflowRun :: "string \<Rightarrow> jsval \<Rightarrow> jsval \<Rightarrow> int \<Rightarrow> ledger \<Rightarrow> ledger" where
  "failWorkflowRun runId = updateWorkflowRun runId ''FAILED''"

section \<open>Node runs\<close>

text \<open>The newest row of a node: \<open>ORDER BY created_at DESC LIMIT 1\<close>.\<close>

definition newest_of :: "string \<Rightarrow> string \<Rightarrow> node_row list \<Rightarrow> node_row option" where
  "newest_of runId key rows =
     fold (\<lambda>n best. if nd_run n = runId \<and> nd_key n = key \<and> (case best of None \<Rightarrow> True | Some b \<Rightarrow> nd_created b \<le> nd_created n)
                    then Some n else best) rows None"

definition restarted_node :: "int \<Rightarrow> jsval \<Rightarrow> int \<Rightarrow> node_row \<Rightarrow> node_row" where
  "restarted_node attemptCount metadata t n =
     n\<lparr>nd_status := ''RUNNING'', nd_attempts := max (nd_attempts n) attemptCount, nd_started := Some t, nd_completed := None,
       nd_output := JObj [], nd_error := JNull,
       nd_metadata := jsonb_merge (nd_metadata n)
         (json_clone (obj_with (getSafeObject metadata) [(''recoveryResetAt'', JStr (iso_text (of_int t)))]))\<rparr>"

definition new_node :: "string \<Rightarrow> jsval \<Rightarrow> int \<Rightarrow> jsval \<Rightarrow> string \<Rightarrow> int \<Rightarrow> node_row" where
  "new_node runId node attemptCount metadata newId t =
     \<lparr>nd_id = newId, nd_run = runId, nd_node = default_to (jget node ''workflowNodeId'') JNull, nd_key = to_str (jget node ''nodeKey''),
      nd_type = default_to (jget node ''nodeTypeCode'') JNull, nd_target = default_to (jget node ''targetCode'') JNull,
      nd_status = ''RUNNING'', nd_attempts = attemptCount, nd_started = Some t, nd_completed = None, nd_output = JObj [], nd_error = JNull,
      nd_metadata = json_clone (obj_with (JObj
        [(''displayName'', jget node ''displayName''), (''targetKind'', jget node ''targetKind''), (''displayOrder'', jget node ''displayOrder'')])
        (obj_kvs (getSafeObject metadata))),
      nd_created = t\<rparr>"

definition insertNodeRun :: "string \<Rightarrow> jsval \<Rightarrow> int \<Rightarrow> jsval \<Rightarrow> string \<Rightarrow> int \<Rightarrow> ledger \<Rightarrow> node_row \<times> ledger" where
  "insertNodeRun runId node attemptCount metadata newId t L =
     (let key = to_str (jget node ''nodeKey'')
      in case newest_of runId key (lg_nodes L) of
           Some n \<Rightarrow>
             if jget metadata ''manualNodeRecovery'' = JBool True
             then (restarted_node attemptCount metadata t n,
                   L\<lparr>lg_nodes := update_where (\<lambda>x. nd_id x = nd_id n) (restarted_node attemptCount metadata t) (lg_nodes L),
                     lg_outputs := filter (\<lambda>o'. ou_node_run o' \<noteq> nd_id n) (lg_outputs L),
                     lg_values := filter (\<lambda>c. \<not> (cv_run c = runId \<and> cv_source c = JStr key)) (lg_values L)\<rparr>)
             else (n, L)
         | None \<Rightarrow> (let row = new_node runId node attemptCount metadata newId t in (row, L\<lparr>lg_nodes := lg_nodes L @ [row]\<rparr>)))"

definition set_node :: "string \<Rightarrow> jsval \<Rightarrow> jsval \<Rightarrow> jsval \<Rightarrow> int \<Rightarrow> node_row \<Rightarrow> node_row" where
  "set_node status out errorMessage metadata t n =
     n\<lparr>nd_status := status, nd_completed := (if status \<in> set terminal_statuses then Some t else nd_completed n),
       nd_output := stored out, nd_error := default_to errorMessage JNull,
       nd_metadata := jsonb_merge (nd_metadata n) (stored metadata)\<rparr>"

definition updateNodeRun :: "string \<Rightarrow> string \<Rightarrow> jsval \<Rightarrow> jsval \<Rightarrow> jsval \<Rightarrow> int \<Rightarrow> ledger \<Rightarrow> node_row option res \<times> ledger" where
  "updateNodeRun nodeRunId status out errorMessage metadata t L =
     (let L' = L\<lparr>lg_nodes := update_where (\<lambda>n. nd_id n = nodeRunId) (set_node status out errorMessage metadata t) (lg_nodes L)\<rparr>
      in case find (\<lambda>n. nd_id n = nodeRunId) (lg_nodes L') of
           None \<Rightarrow> (Inr None, L')
         | Some n \<Rightarrow>
             if status \<notin> set terminal_statuses then (Inr (Some n), L')
             else (let L'' = L'\<lparr>lg_outputs := persistWorkflowNodeOutput t n (lg_outputs L')\<rparr>
                   in case node_patch n (iso_text (of_int t)) of
                        Inl e \<Rightarrow> (Inl e, L'')
                      | Inr patch \<Rightarrow> (Inr (Some n),
                          L''\<lparr>lg_values := persistWorkflowContextPatch (nd_run n) patch (JStr (nd_key n)) (JStr (nd_id n)) (lg_values L'')\<rparr>)))"

definition marked_node :: "int \<Rightarrow> jsval \<Rightarrow> node_row \<Rightarrow> node_row" where
  "marked_node attemptCount metadata n =
     n\<lparr>nd_status := ''RUNNING'', nd_attempts := max (nd_attempts n) attemptCount,
       nd_metadata := jsonb_merge (nd_metadata n) (stored metadata)\<rparr>"

definition markWorkflowNodeAttempt :: "string \<Rightarrow> int \<Rightarrow> jsval \<Rightarrow> ledger \<Rightarrow> ledger" where
  "markWorkflowNodeAttempt nodeRunId attemptCount metadata L =
     L\<lparr>lg_nodes := update_where (\<lambda>n. nd_id n = nodeRunId) (marked_node attemptCount metadata) (lg_nodes L)\<rparr>"

definition completeWorkflowNodeRun :: "string \<Rightarrow> jsval \<Rightarrow> jsval \<Rightarrow> int \<Rightarrow> ledger \<Rightarrow> node_row option res \<times> ledger" where
  "completeWorkflowNodeRun nodeRunId out metadata = updateNodeRun nodeRunId ''COMPLETED'' out JNull metadata"

definition failWorkflowNodeRun :: "string \<Rightarrow> jsval \<Rightarrow> jsval \<Rightarrow> jsval \<Rightarrow> int \<Rightarrow> ledger \<Rightarrow> node_row option res \<times> ledger" where
  "failWorkflowNodeRun nodeRunId out errorMessage metadata = updateNodeRun nodeRunId ''FAILED'' out errorMessage metadata"

section \<open>Ending everything that is open\<close>

definition active_statuses :: "string list" where
  "active_statuses = [''QUEUED'', ''RUNNING'']"

definition finalized_node :: "string \<Rightarrow> jsval \<Rightarrow> jsval \<Rightarrow> int \<Rightarrow> node_row \<Rightarrow> node_row" where
  "finalized_node status summary metadata t n =
     n\<lparr>nd_status := status, nd_completed := Some t, nd_error := jnull_or (nd_error n) (or_null summary),
       nd_metadata := jsonb_merge (nd_metadata n) (stored metadata)\<rparr>"

definition finalizeActiveNodeRunsForRun :: "string \<Rightarrow> string \<Rightarrow> jsval \<Rightarrow> jsval \<Rightarrow> int \<Rightarrow> ledger \<Rightarrow> node_row list \<times> ledger" where
  "finalizeActiveNodeRunsForRun runId status summary metadata t L =
     (let open = (\<lambda>n. nd_run n = runId \<and> nd_status n \<in> set active_statuses); f = finalized_node status summary metadata t;
          ended = map f (filter open (lg_nodes L))
      in (ended, L\<lparr>lg_nodes := update_where open f (lg_nodes L), lg_outputs := fold (persistWorkflowNodeOutput t) ended (lg_outputs L)\<rparr>))"

definition canceled_approval :: "jsval \<Rightarrow> jsval \<Rightarrow> jsval \<Rightarrow> int \<Rightarrow> approval_row \<Rightarrow> approval_row" where
  "canceled_approval user reason metadata t a =
     a\<lparr>ap_status := ''CANCELED'', ap_decided := (case ap_decided a of None \<Rightarrow> Some t | d \<Rightarrow> d),
       ap_decided_by := or_kept (jget user ''userId'') (ap_decided_by a),
       ap_note := jor reason (JStr ''Run control action canceled the pending approval request.''),
       ap_metadata := jsonb_merge (ap_metadata a) (stored metadata)\<rparr>"

definition cancelPendingWorkflowApprovalsForRun :: "string \<Rightarrow> jsval \<Rightarrow> jsval \<Rightarrow> jsval \<Rightarrow> int \<Rightarrow> ledger \<Rightarrow> approval_row list \<times> ledger" where
  "cancelPendingWorkflowApprovalsForRun runId user reason metadata t L =
     (let pending = (\<lambda>a. ap_run a = runId \<and> ap_status a = ''PENDING''); f = canceled_approval user reason metadata t
      in (map f (filter pending (lg_approvals L)), L\<lparr>lg_approvals := update_where pending f (lg_approvals L)\<rparr>))"

section \<open>Approval requests\<close>

definition approval_view :: "jsval \<Rightarrow> approval_row \<Rightarrow> jsval" where
  "approval_view joined a = JObj
     [(''approvalRequestId'', JStr (ap_id a)), (''workflowRunRecordId'', JStr (ap_run a)), (''workflowNodeRunRecordId'', JStr (ap_node_run a)),
      (''workflowNodeId'', ap_node a), (''workflowCode'', jget joined ''workflowCode''),
      (''workflowDisplayName'', jget joined ''workflowDisplayName''),
      (''workflowCategoryCode'', jor (jget joined ''workflowCategoryCode'') (JStr ''GENERAL'')),
      (''workflowCategoryDisplayName'', jor (jget joined ''workflowCategoryDisplayName'') (JStr ''General'')),
      (''workflowCategorySource'', jor (jget joined ''workflowCategorySource'') (JStr ''DEFAULT'')),
      (''nodeKey'', JStr (ap_node_key a)), (''nodeDisplayName'', jget joined ''nodeDisplayName''),
      (''nodeTypeCode'', jget joined ''nodeTypeCode''), (''approvalKey'', JStr (ap_key a)), (''approvalTitle'', ap_title a),
      (''instructions'', ap_instructions a), (''status'', JStr (ap_status a)), (''requiredRoleCode'', ap_role a),
      (''onReject'', ap_on_reject a), (''rejectTargetNodeKey'', or_null (jget (ap_metadata a) ''rejectTargetNodeKey'')),
      (''onTimeout'', ap_on_timeout a), (''timeoutMs'', ap_timeout a), (''temporalWorkflowId'', ap_temporal a),
      (''temporalRunId'', ap_temporal_run a), (''signalName'', jor (JStr (ap_signal a)) (JStr ''humanApprovalDecision'')),
      (''requestedByUserId'', ap_requested_by a), (''requestedByEmail'', jget joined ''requestedByEmail''),
      (''requestedByDisplayName'', jget joined ''requestedByDisplayName''), (''decidedByUserId'', ap_decided_by a),
      (''decidedByEmail'', jget joined ''decidedByEmail''), (''decidedByDisplayName'', jget joined ''decidedByDisplayName''),
      (''decisionNote'', ap_note a), (''requestedAt'', time_text (Some (ap_requested a))), (''decidedAt'', time_text (ap_decided a)),
      (''expiresAt'', ap_expires a), (''metadata'', jor (ap_metadata a) (JObj []))]"

definition expiry :: "jsval \<Rightarrow> int \<Rightarrow> jsval" where
  "expiry timeoutMs t =
     (if truthy timeoutMs
      then (case finite_num timeoutMs of Some ms \<Rightarrow> JStr (iso_text (of_int t + ms)) | None \<Rightarrow> JNull)
      else JNull)"

definition reopened_approval :: "jsval \<Rightarrow> jsval \<Rightarrow> jsval \<Rightarrow> jsval \<Rightarrow> jsval \<Rightarrow> jsval \<Rightarrow> int \<Rightarrow> approval_row \<Rightarrow> approval_row" where
  "reopened_approval p node user context temporalWorkflowId temporalRunId t a =
     a\<lparr>ap_title := jget p ''approvalTitle'', ap_instructions := or_null (jget p ''instructions''), ap_status := ''PENDING'',
       ap_role := or_null (jget p ''requiredRoleCode''), ap_on_reject := jget p ''onReject'', ap_on_timeout := jget p ''onTimeout'',
       ap_timeout := or_null (jget p ''timeoutMs''), ap_temporal := or_null temporalWorkflowId, ap_temporal_run := or_null temporalRunId,
       ap_requested_by := or_null (jget user ''userId''), ap_decided_by := JNull, ap_note := JNull, ap_requested := t, ap_decided := None,
       ap_expires := expiry (jget p ''timeoutMs'') t,
       ap_metadata := jsonb_merge (ap_metadata a) (json_clone (JObj
         [(''manualNodeRecovery'', JBool True), (''nodeRecoveryNodeKey'', or_null (jget node ''nodeKey'')),
          (''nodeRecoveryAttemptNumber'', jor (jget (jget context ''nodeRecovery'') ''recoveryAttemptNumber'') (jnat 1)),
          (''reopenedAt'', JStr (iso_text (of_int t)))]))\<rparr>"

definition new_approval :: "string \<Rightarrow> string \<Rightarrow> jsval \<Rightarrow> jsval \<Rightarrow> jsval \<Rightarrow> jsval \<Rightarrow> jsval \<Rightarrow> jsval \<Rightarrow> string \<Rightarrow> int \<Rightarrow> approval_row" where
  "new_approval runId nodeRunId p node user context temporalWorkflowId temporalRunId newId t =
     \<lparr>ap_id = newId, ap_run = runId, ap_node_run = nodeRunId, ap_node = or_null (jget node ''workflowNodeId''),
      ap_node_key = to_str (jor (jget node ''nodeKey'') (jget p ''approvalKey'')), ap_key = to_str (jget p ''approvalKey''),
      ap_title = jget p ''approvalTitle'', ap_instructions = or_null (jget p ''instructions''), ap_status = ''PENDING'',
      ap_role = or_null (jget p ''requiredRoleCode''), ap_on_reject = jget p ''onReject'', ap_on_timeout = jget p ''onTimeout'',
      ap_timeout = jget p ''timeoutMs'', ap_temporal = jors [temporalWorkflowId, jget context ''temporalWorkflowId'', JNull],
      ap_temporal_run = jors [temporalRunId, jget context ''temporalRunId'', JNull], ap_signal = ''humanApprovalDecision'',
      ap_requested_by = or_null (jget user ''userId''), ap_decided_by = JNull, ap_note = JNull, ap_requested = t, ap_decided = None,
      ap_expires = expiry (jget p ''timeoutMs'') t,
      ap_metadata = json_clone (obj_with (getSafeObject context)
        [(''nodeKey'', or_null (jget node ''nodeKey'')), (''nodeTypeCode'', jor (jget node ''nodeTypeCode'') (JStr ''HUMAN_APPROVAL'')),
         (''rejectTargetNodeKey'', or_null (jget p ''rejectTargetNodeKey'')), (''createdBy'', JStr ''skycommand_workflow_executor'')])\<rparr>"

text \<open>The table refuses a timeout that is not positive (\<open>CHECK (timeout_ms IS NULL OR timeout_ms > 0)\<close>).\<close>

definition refused_timeout :: "jsval \<Rightarrow> bool" where
  "refused_timeout timeoutMs = (case timeoutMs of JNull \<Rightarrow> False | v \<Rightarrow> positive_num v = None)"

definition createWorkflowApprovalRequest ::
  "string \<Rightarrow> string \<Rightarrow> jsval \<Rightarrow> jsval \<Rightarrow> jsval \<Rightarrow> jsval \<Rightarrow> jsval \<Rightarrow> jsval \<Rightarrow> string \<Rightarrow> int \<Rightarrow> ledger \<Rightarrow> approval_row res \<times> ledger" where
  "createWorkflowApprovalRequest runId nodeRunId node parameters user context temporalWorkflowId temporalRunId newId t L =
     (if runId = [] \<or> nodeRunId = []
      then (Inl (WorkflowServiceError ''Approval requests require workflowRunRecordId and workflowNodeRunRecordId.'' 400
              (JObj [(''workflowRunRecordId'', JStr runId), (''workflowNodeRunRecordId'', JStr nodeRunId)])), L)
      else case normalizeHumanApprovalParameters_api parameters node of
        Inl e \<Rightarrow> (Inl e, L)
      | Inr p \<Rightarrow>
          (let key = to_str (jget p ''approvalKey'')
           in case find (\<lambda>a. ap_node_run a = nodeRunId \<and> ap_key a = key) (lg_approvals L) of
                Some a \<Rightarrow>
                  if jget (jget context ''nodeRecovery'') ''active'' = JBool True
                  then (let f = reopened_approval p node user context temporalWorkflowId temporalRunId t
                        in (Inr (f a), L\<lparr>lg_approvals := update_where (\<lambda>x. ap_id x = ap_id a) f (lg_approvals L)\<rparr>))
                  else (Inr a, L)
              | None \<Rightarrow>
                  if refused_timeout (jget p ''timeoutMs'')
                  then (Inl (js_error ''new row for relation workflow_approval_requests violates check constraint''), L)
                  else (let a = new_approval runId nodeRunId p node user context temporalWorkflowId temporalRunId newId t
                        in (Inr a, L\<lparr>lg_approvals := lg_approvals L @ [a]\<rparr>))))"

definition resolved_approval :: "string \<Rightarrow> jsval \<Rightarrow> jsval \<Rightarrow> jsval \<Rightarrow> int \<Rightarrow> approval_row \<Rightarrow> approval_row" where
  "resolved_approval decision decisionNote user metadata t a =
     a\<lparr>ap_status := decision, ap_note := or_kept decisionNote (ap_note a), ap_decided_by := or_kept (jget user ''userId'') (ap_decided_by a),
       ap_decided := (case ap_decided a of None \<Rightarrow> Some t | d \<Rightarrow> d), ap_metadata := jsonb_merge (ap_metadata a) (stored metadata)\<rparr>"

definition resolveWorkflowApprovalRequest :: "string \<Rightarrow> jsval \<Rightarrow> jsval \<Rightarrow> jsval \<Rightarrow> jsval \<Rightarrow> int \<Rightarrow> ledger \<Rightarrow> approval_row res \<times> ledger" where
  "resolveWorkflowApprovalRequest approvalRequestId decision decisionNote user metadata t L =
     (case normalizeApprovalDecision_api decision of
        Inl e \<Rightarrow> (Inl e, L)
      | Inr verdict \<Rightarrow>
          if approvalRequestId = [] then (Inl (WorkflowServiceError ''approvalRequestId is required.'' 400 JUndef), L)
          else
            (let L' = L\<lparr>lg_approvals := update_where (\<lambda>a. ap_id a = approvalRequestId)
                           (resolved_approval verdict decisionNote user metadata t) (lg_approvals L)\<rparr>
             in case find (\<lambda>a. ap_id a = approvalRequestId) (lg_approvals L') of
                  None \<Rightarrow> (Inl (WorkflowServiceError ''Approval request was not found.'' 404
                           (JObj [(''approvalRequestId'', JStr approvalRequestId)])), L')
                | Some a \<Rightarrow> (Inr a, L')))"

section \<open>What the operations keep\<close>

inductive ledger_step :: "ledger \<Rightarrow> ledger \<Rightarrow> bool" where
  run_inserted: "newId \<notin> wr_id ` set (lg_runs L)
    \<Longrightarrow> ledger_step L (snd (insertWorkflowRun profile defn input user context session permissions ''QUEUED'' metadata newId t L))"
| run_updated: "ledger_step L (updateWorkflowRun runId status summary metadata t L)"
| run_linked: "ledger_step L (linkWorkflowRunToTemporal runId wid rid summary metadata t L)"
| node_inserted: "newId \<notin> nd_id ` set (lg_nodes L)
    \<Longrightarrow> ledger_step L (snd (insertNodeRun runId node attemptCount metadata newId t L))"
| node_updated: "ledger_step L (snd (updateNodeRun nodeRunId status out errorMessage metadata t L))"
| node_marked: "ledger_step L (markWorkflowNodeAttempt nodeRunId attemptCount metadata L)"
| nodes_finalized: "ledger_step L (snd (finalizeActiveNodeRunsForRun runId status summary metadata t L))"
| approvals_canceled: "ledger_step L (snd (cancelPendingWorkflowApprovalsForRun runId user reason metadata t L))"
| approval_requested: "newId \<notin> ap_id ` set (lg_approvals L)
    \<Longrightarrow> ledger_step L (snd (createWorkflowApprovalRequest runId nodeRunId node parameters user context wid rid newId t L))"
| approval_resolved: "ledger_step L (snd (resolveWorkflowApprovalRequest approvalRequestId decision note user metadata t L))"

definition ledger_ok :: "ledger \<Rightarrow> bool" where
  "ledger_ok L =
     (distinct (map wr_id (lg_runs L)) \<and> distinct (map nd_id (lg_nodes L)) \<and> distinct (map (\<lambda>n. (nd_run n, nd_key n)) (lg_nodes L))
      \<and> distinct (map ap_id (lg_approvals L)) \<and> distinct (map (\<lambda>a. (ap_node_run a, ap_key a)) (lg_approvals L))
      \<and> distinct (map (\<lambda>o'. (ou_node_run o', ou_key o')) (lg_outputs L)) \<and> distinct (map (\<lambda>c. (cv_run c, cv_key c)) (lg_values L))
      \<and> (\<forall>r \<in> set (lg_runs L). wr_status r \<in> set terminal_statuses \<longrightarrow> wr_completed r \<noteq> None)
      \<and> (\<forall>n \<in> set (lg_nodes L). nd_status n \<in> set terminal_statuses \<longrightarrow> nd_completed n \<noteq> None))"

text \<open>Every node run is kept, under its run and key, with at least the attempts it had.\<close>

definition attempts_kept :: "ledger \<Rightarrow> ledger \<Rightarrow> bool" where
  "attempts_kept L L' =
     (\<forall>n \<in> set (lg_nodes L). \<exists>n' \<in> set (lg_nodes L'). nd_id n' = nd_id n \<and> nd_run n' = nd_run n \<and> nd_key n' = nd_key n
        \<and> nd_attempts n \<le> nd_attempts n')"

lemma update_where_keys:
  assumes "\<And>x. x \<in> set xs \<Longrightarrow> p x \<Longrightarrow> k (f x) = k x"
  shows "map k (update_where p f xs) = map k xs"
  using assms by (induction xs) (auto simp: update_where_def)

lemma update_where_all:
  assumes "\<And>x. x \<in> set xs \<Longrightarrow> Q x" "\<And>x. x \<in> set xs \<Longrightarrow> p x \<Longrightarrow> Q x \<Longrightarrow> Q (f x)" "y \<in> set (update_where p f xs)"
  shows "Q y"
  using assms by (auto simp: update_where_def split: if_splits)

lemma upsert_keys:
  assumes "\<And>y. k y = k x \<Longrightarrow> k (f y) = k x" "distinct (map k xs)"
  shows "distinct (map k (upsert_by k f x xs))"
proof (cases "k x \<in> k ` set xs")
  case True
  have "map k (update_where (\<lambda>y. k y = k x) f xs) = map k xs" using assms(1) by (auto intro!: update_where_keys)
  with True assms(2) show ?thesis by (simp add: upsert_by_def)
next
  case False
  then show ?thesis using assms(2) by (auto simp: upsert_by_def)
qed

lemma patch_keys:
  "distinct (map (\<lambda>c. (cv_run c, cv_key c)) vs)
     \<Longrightarrow> distinct (map (\<lambda>c. (cv_run c, cv_key c)) (persistWorkflowContextPatch runId patch source sourceRun vs))"
proof (induction patch arbitrary: vs)
  case Nil
  then show ?case by (simp add: persistWorkflowContextPatch_def)
next
  case (Cons kv patch)
  let ?row = "value_record runId source sourceRun (fst kv) (snd kv)"
  have "distinct (map (\<lambda>c. (cv_run c, cv_key c)) (upsert_by (\<lambda>c. (cv_run c, cv_key c)) (\<lambda>_. ?row) ?row vs))"
    by (rule upsert_keys) (simp, rule Cons.prems)
  from Cons.IH [OF this] show ?case by (simp add: persistWorkflowContextPatch_def case_prod_beta)
qed

lemma output_keys:
  "distinct (map (\<lambda>o'. (ou_node_run o', ou_key o')) outs)
     \<Longrightarrow> distinct (map (\<lambda>o'. (ou_node_run o', ou_key o')) (persistWorkflowNodeOutput t n outs))"
  unfolding persistWorkflowNodeOutput_def Let_def by (rule upsert_keys) (simp_all add: output_record_def Let_def)

lemma outputs_keys:
  "distinct (map (\<lambda>o'. (ou_node_run o', ou_key o')) outs)
     \<Longrightarrow> distinct (map (\<lambda>o'. (ou_node_run o', ou_key o')) (fold (persistWorkflowNodeOutput t) ns outs))"
  by (induction ns arbitrary: outs) (simp_all add: output_keys)

lemma newest_found:
  "case newest_of runId key rows of
     Some n \<Rightarrow> n \<in> set rows \<and> nd_run n = runId \<and> nd_key n = key
   | None \<Rightarrow> (runId, key) \<notin> (\<lambda>n. (nd_run n, nd_key n)) ` set rows"
proof (induction rows rule: rev_induct)
  case Nil
  then show ?case by (simp add: newest_of_def)
next
  case (snoc n rows)
  then show ?case by (auto simp: newest_of_def split: option.splits if_splits)
qed

text \<open>The rows as the invariant sees them: their keys and whether an ended row has its end.\<close>

lemma ledger_okI:
  assumes "ledger_ok L" "map wr_id (lg_runs L') = map wr_id (lg_runs L)"
    "\<And>r. r \<in> set (lg_runs L') \<Longrightarrow> wr_status r \<in> set terminal_statuses \<Longrightarrow> wr_completed r \<noteq> None"
    "map nd_id (lg_nodes L') = map nd_id (lg_nodes L)" "map (\<lambda>n. (nd_run n, nd_key n)) (lg_nodes L') = map (\<lambda>n. (nd_run n, nd_key n)) (lg_nodes L)"
    "\<And>n. n \<in> set (lg_nodes L') \<Longrightarrow> nd_status n \<in> set terminal_statuses \<Longrightarrow> nd_completed n \<noteq> None"
    "map ap_id (lg_approvals L') = map ap_id (lg_approvals L)"
    "map (\<lambda>a. (ap_node_run a, ap_key a)) (lg_approvals L') = map (\<lambda>a. (ap_node_run a, ap_key a)) (lg_approvals L)"
    "distinct (map (\<lambda>o'. (ou_node_run o', ou_key o')) (lg_outputs L'))" "distinct (map (\<lambda>c. (cv_run c, cv_key c)) (lg_values L'))"
  shows "ledger_ok L'"
  unfolding ledger_ok_def assms(2,4,5,7,8) using assms(1,3,6,9,10) by (simp add: ledger_ok_def)

lemma ledger_ok_ends:
  assumes "ledger_ok L"
  shows "r \<in> set (lg_runs L) \<Longrightarrow> wr_status r \<in> set terminal_statuses \<Longrightarrow> wr_completed r \<noteq> None"
    "n \<in> set (lg_nodes L) \<Longrightarrow> nd_status n \<in> set terminal_statuses \<Longrightarrow> nd_completed n \<noteq> None"
    "distinct (map (\<lambda>o'. (ou_node_run o', ou_key o')) (lg_outputs L))" "distinct (map (\<lambda>c. (cv_run c, cv_key c)) (lg_values L))"
  using assms by (auto simp: ledger_ok_def)

lemma running_is_open: "''RUNNING'' \<notin> set terminal_statuses" "''QUEUED'' \<notin> set terminal_statuses"
  by (simp_all add: terminal_statuses_def)

lemma run_rows_ok:
  assumes "ledger_ok L" "\<And>r. wr_id (f r) = wr_id r"
    "\<And>r. (wr_status r \<in> set terminal_statuses \<longrightarrow> wr_completed r \<noteq> None)
        \<Longrightarrow> wr_status (f r) \<in> set terminal_statuses \<Longrightarrow> wr_completed (f r) \<noteq> None"
  shows "ledger_ok (L\<lparr>lg_runs := update_where p f (lg_runs L)\<rparr>)"
proof (rule ledger_okI [OF assms(1)], simp_all add: ledger_ok_ends [OF assms(1)])
  show "map wr_id (update_where p f (lg_runs L)) = map wr_id (lg_runs L)" by (rule update_where_keys) (rule assms(2))
  show "\<exists>y. wr_completed r = Some y" if "r \<in> set (update_where p f (lg_runs L))" "wr_status r \<in> set terminal_statuses" for r
    using ledger_ok_ends(1) [OF assms(1)] assms(3) that by (fastforce simp: update_where_def split: if_splits)
qed

lemma node_rows_ok:
  assumes "ledger_ok L" "\<And>n. nd_id (f n) = nd_id n \<and> nd_run (f n) = nd_run n \<and> nd_key (f n) = nd_key n"
    "\<And>n. (nd_status n \<in> set terminal_statuses \<longrightarrow> nd_completed n \<noteq> None)
        \<Longrightarrow> nd_status (f n) \<in> set terminal_statuses \<Longrightarrow> nd_completed (f n) \<noteq> None"
    "distinct (map (\<lambda>o'. (ou_node_run o', ou_key o')) outs)" "distinct (map (\<lambda>c. (cv_run c, cv_key c)) vs)"
  shows "ledger_ok (L\<lparr>lg_nodes := update_where p f (lg_nodes L), lg_outputs := outs, lg_values := vs\<rparr>)"
proof (rule ledger_okI [OF assms(1)], simp_all add: assms(4,5))
  show "map nd_id (update_where p f (lg_nodes L)) = map nd_id (lg_nodes L)"
    "map (\<lambda>n. (nd_run n, nd_key n)) (update_where p f (lg_nodes L)) = map (\<lambda>n. (nd_run n, nd_key n)) (lg_nodes L)"
    by (rule update_where_keys, simp add: assms(2))+
  show "\<exists>y. nd_completed n = Some y" if "n \<in> set (update_where p f (lg_nodes L))" "nd_status n \<in> set terminal_statuses" for n
    using ledger_ok_ends(2) [OF assms(1)] assms(3) that by (fastforce simp: update_where_def split: if_splits)
qed (use ledger_ok_ends(1) [OF assms(1)] in auto)

lemma approval_rows_ok:
  assumes "ledger_ok L" "\<And>a. ap_id (f a) = ap_id a \<and> ap_node_run (f a) = ap_node_run a \<and> ap_key (f a) = ap_key a"
  shows "ledger_ok (L\<lparr>lg_approvals := update_where p f (lg_approvals L)\<rparr>)"
proof (rule ledger_okI [OF assms(1)], simp_all add: ledger_ok_ends [OF assms(1)])
  show "map ap_id (update_where p f (lg_approvals L)) = map ap_id (lg_approvals L)"
    "map (\<lambda>a. (ap_node_run a, ap_key a)) (update_where p f (lg_approvals L)) = map (\<lambda>a. (ap_node_run a, ap_key a)) (lg_approvals L)"
    by (rule update_where_keys, simp add: assms(2))+
qed

lemma reopened_keys: "ap_id (reopened_approval p node user context wid rid t a) = ap_id a
    \<and> ap_node_run (reopened_approval p node user context wid rid t a) = ap_node_run a
    \<and> ap_key (reopened_approval p node user context wid rid t a) = ap_key a"
  by (simp add: reopened_approval_def)

lemma inserted_run_ok:
  assumes "ledger_ok L" "newId \<notin> wr_id ` set (lg_runs L)"
  shows "ledger_ok (snd (insertWorkflowRun profile defn input user context session permissions ''QUEUED'' metadata newId t L))"
proof -
  let ?row = "inserted_run profile defn input user context session permissions ''QUEUED'' metadata newId t"
  have "wr_id ?row = newId" "wr_status ?row = ''QUEUED''" by (simp_all add: inserted_run_def Let_def)
  then show ?thesis
    using assms running_is_open patch_keys [OF ledger_ok_ends(4) [OF assms(1)]]
    by (simp add: ledger_ok_def insertWorkflowRun_def Let_def)
qed

lemma inserted_node_ok:
  assumes "ledger_ok L" "newId \<notin> nd_id ` set (lg_nodes L)"
  shows "ledger_ok (snd (insertNodeRun runId node attemptCount metadata newId t L))"
proof (cases "newest_of runId (to_str (jget node ''nodeKey'')) (lg_nodes L)")
  case None
  then show ?thesis
    using newest_found [of runId "to_str (jget node ''nodeKey'')" "lg_nodes L"] assms running_is_open
    by (auto simp: insertNodeRun_def ledger_ok_def new_node_def Let_def)
next
  case (Some n)
  let ?f = "restarted_node attemptCount metadata t"
  have "ledger_ok (L\<lparr>lg_nodes := update_where (\<lambda>x. nd_id x = nd_id n) ?f (lg_nodes L), lg_outputs := filter p (lg_outputs L),
      lg_values := filter q (lg_values L)\<rparr>)" for p q
    using assms(1) running_is_open
    by (intro node_rows_ok) (auto simp: restarted_node_def ledger_ok_def distinct_map_filter)
  with Some assms(1) show ?thesis by (simp add: insertNodeRun_def Let_def)
qed

lemma updated_node_ok:
  assumes "ledger_ok L"
  shows "ledger_ok (snd (updateNodeRun nodeRunId status out errorMessage metadata t L))"
proof -
  have f: "ledger_ok (L\<lparr>lg_nodes := update_where p (set_node status out errorMessage metadata t) (lg_nodes L), lg_outputs := outs, lg_values := vs\<rparr>)"
    if "distinct (map (\<lambda>o'. (ou_node_run o', ou_key o')) outs)" "distinct (map (\<lambda>c. (cv_run c, cv_key c)) vs)" for p outs vs
    using assms that by (intro node_rows_ok) (auto simp: set_node_def)
  note o = f [OF ledger_ok_ends(3,4) [OF assms]] f [OF output_keys [OF ledger_ok_ends(3) [OF assms]] ledger_ok_ends(4) [OF assms]]
    f [OF output_keys [OF ledger_ok_ends(3) [OF assms]] patch_keys [OF ledger_ok_ends(4) [OF assms]]]
  show ?thesis
    using o by (simp add: updateNodeRun_def Let_def split: option.split sum.split)
qed

lemma ledger_step_ok: "ledger_step L L' \<Longrightarrow> ledger_ok L \<Longrightarrow> ledger_ok L'"
proof (induction rule: ledger_step.induct)
  case (run_updated L runId status summary metadata t)
  then show ?case unfolding updateWorkflowRun_def by (intro run_rows_ok) (auto simp: set_run_def)
next
  case (run_linked L runId wid rid summary metadata t)
  then show ?case
    using running_is_open unfolding linkWorkflowRunToTemporal_def by (intro run_rows_ok) (auto simp: linked_run_def)
next
  case (node_marked L nodeRunId attemptCount metadata)
  then show ?case
    using node_rows_ok [of L "marked_node attemptCount metadata" "lg_outputs L" "lg_values L"] running_is_open ledger_ok_ends(3,4) [of L]
    by (simp add: markWorkflowNodeAttempt_def marked_node_def)
next
  case (nodes_finalized L runId status summary metadata t)
  then show ?case
    using node_rows_ok [of L "finalized_node status summary metadata t" _ "lg_values L"] outputs_keys ledger_ok_ends(3,4) [of L]
    by (simp add: finalizeActiveNodeRunsForRun_def finalized_node_def Let_def)
next
  case (approvals_canceled L)
  then show ?case
    unfolding cancelPendingWorkflowApprovalsForRun_def Let_def snd_conv by (rule approval_rows_ok) (simp add: canceled_approval_def)
next
  case (approval_requested newId L)
  then show ?case
    using approval_rows_ok [OF _ reopened_keys]
    by (auto simp: createWorkflowApprovalRequest_def Let_def split: sum.split option.split)
      (auto simp: ledger_ok_def new_approval_def find_None_iff)
next
  case (approval_resolved L approvalRequestId decision dnote user metadata t)
  then have "ledger_ok (L\<lparr>lg_approvals := update_where p (resolved_approval v dnote user metadata t) (lg_approvals L)\<rparr>)" for v p
    by (rule approval_rows_ok) (simp add: resolved_approval_def)
  with approval_resolved show ?case by (simp add: resolveWorkflowApprovalRequest_def Let_def split: sum.split option.split)
qed (simp_all add: inserted_run_ok inserted_node_ok updated_node_ok)

lemma kept_self: "attempts_kept L L"
  by (auto simp: attempts_kept_def)

lemma kept_same: "lg_nodes L' = lg_nodes L \<Longrightarrow> attempts_kept L L'"
  by (auto simp: attempts_kept_def)

lemma kept_more: "lg_nodes L' = lg_nodes L @ rows \<Longrightarrow> attempts_kept L L'"
  by (auto simp: attempts_kept_def)

lemma kept_update:
  assumes "lg_nodes L' = update_where p f (lg_nodes L)"
    "\<And>n. nd_id (f n) = nd_id n \<and> nd_run (f n) = nd_run n \<and> nd_key (f n) = nd_key n \<and> nd_attempts n \<le> nd_attempts (f n)"
  shows "attempts_kept L L'"
  unfolding attempts_kept_def assms(1)
proof
  fix n assume "n \<in> set (lg_nodes L)"
  then have "(if p n then f n else n) \<in> set (update_where p f (lg_nodes L))" by (simp add: update_where_def)
  then show "\<exists>n'\<in>set (update_where p f (lg_nodes L)). nd_id n' = nd_id n \<and> nd_run n' = nd_run n \<and> nd_key n' = nd_key n
      \<and> nd_attempts n \<le> nd_attempts n'"
    using assms(2) [of n] by (intro bexI) (auto split: if_splits)
qed

lemma kept_trans:
  assumes "attempts_kept L1 L2" "attempts_kept L2 L3"
  shows "attempts_kept L1 L3"
  unfolding attempts_kept_def
proof
  fix n assume "n \<in> set (lg_nodes L1)"
  then obtain m where m: "m \<in> set (lg_nodes L2)" "nd_id m = nd_id n \<and> nd_run m = nd_run n \<and> nd_key m = nd_key n \<and> nd_attempts n \<le> nd_attempts m"
    using assms(1) by (auto simp: attempts_kept_def)
  with assms(2) obtain k where "k \<in> set (lg_nodes L3)"
    "nd_id k = nd_id m \<and> nd_run k = nd_run m \<and> nd_key k = nd_key m \<and> nd_attempts m \<le> nd_attempts k"
    by (auto simp: attempts_kept_def)
  with m(2) show "\<exists>n'\<in>set (lg_nodes L3). nd_id n' = nd_id n \<and> nd_run n' = nd_run n \<and> nd_key n' = nd_key n \<and> nd_attempts n \<le> nd_attempts n'"
    by (intro bexI [of _ k]) auto
qed

lemma ledger_step_kept: "ledger_step L L' \<Longrightarrow> attempts_kept L L'"
proof (induction rule: ledger_step.induct)
  case (node_inserted newId L runId nd attemptCount metadata t)
  let ?f = "restarted_node attemptCount metadata t"
  have "attempts_kept L (L\<lparr>lg_nodes := update_where p ?f (lg_nodes L), lg_outputs := os, lg_values := vs\<rparr>)" for p os vs
    by (rule kept_update [where p = p and f = ?f]) (simp_all add: restarted_node_def)
  then show ?case
    by (auto simp: insertNodeRun_def Let_def kept_self kept_more split: option.split)
next
  case (node_updated L nodeRunId status out errorMessage metadata t)
  let ?f = "set_node status out errorMessage metadata t"
  have "attempts_kept L L'" if "lg_nodes L' = update_where p ?f (lg_nodes L)" for p L'
    using that by (rule kept_update) (simp add: set_node_def)
  then show ?case by (simp add: updateNodeRun_def Let_def split: option.split sum.split)
next
  case (node_marked L nodeRunId attemptCount metadata)
  show ?case unfolding markWorkflowNodeAttempt_def
    by (rule kept_update [where f = "marked_node attemptCount metadata"]) (simp, simp add: marked_node_def)
next
  case (nodes_finalized L runId status summary metadata t)
  show ?case unfolding finalizeActiveNodeRunsForRun_def Let_def snd_conv 
    by (rule kept_update [where f = "finalized_node status summary metadata t"]) (simp, simp add: finalized_node_def)
qed (auto simp: insertWorkflowRun_def updateWorkflowRun_def linkWorkflowRunToTemporal_def cancelPendingWorkflowApprovalsForRun_def
    createWorkflowApprovalRequest_def resolveWorkflowApprovalRequest_def Let_def intro!: kept_same split: sum.split option.split)

text \<open>C30 (ledger_stays_sound): however the operations follow one another, there never are two rows of the same run and node, of the
  same approval of a node run or of the same output or context value; a run or node run that shows as ended has the time of its end;
  and no node run is lost or has fewer attempts than it had.\<close>

theorem ledger_stays_sound:
  assumes "ledger_step\<^sup>*\<^sup>* L L'" "ledger_ok L"
  shows "ledger_ok L' \<and> attempts_kept L L'"
  using assms
  by (induction rule: rtranclp_induct) (auto intro: ledger_step_ok kept_self kept_trans ledger_step_kept)

definition empty_ledger :: ledger where
  "empty_ledger = \<lparr>lg_runs = [], lg_nodes = [], lg_approvals = [], lg_outputs = [], lg_values = []\<rparr>"

definition sample_node :: jsval where
  "sample_node = JObj [(''nodeKey'', JStr ''load''), (''nodeTypeCode'', JStr ''TOOL'')]"

definition started_ledger :: ledger where
  "started_ledger = snd (insertNodeRun ''run'' sample_node 1 JUndef ''node'' 5 empty_ledger)"

theorem ledger_stays_sound_witness:
  "\<exists>L. ledger_step\<^sup>*\<^sup>* empty_ledger L \<and> ledger_ok L \<and> map nd_attempts (lg_nodes L) = [3] \<and> attempts_kept started_ledger L"
proof -
  let ?L = "markWorkflowNodeAttempt ''node'' 3 JUndef started_ledger"
  have s: "ledger_step empty_ledger started_ledger"
    unfolding started_ledger_def by (rule node_inserted) (simp add: empty_ledger_def)
  have m: "ledger_step started_ledger ?L" by (rule node_marked)
  have e: "ledger_ok empty_ledger" by (simp add: ledger_ok_def empty_ledger_def)
  have "ledger_ok started_ledger" using ledger_step_ok [OF s e] .
  with ledger_stays_sound [OF r_into_rtranclp [of ledger_step, OF m]] have k: "ledger_ok ?L \<and> attempts_kept started_ledger ?L" by blast
  have "map nd_attempts (lg_nodes ?L) = [3]" by code_simp
  with k s m show ?thesis by (meson converse_rtranclp_into_rtranclp rtranclp.rtrancl_refl)
qed

section \<open>The end of a node run\<close>

lemma stored_object: "getSafeObject (stored v) = stored v"
  by (cases "getSafeObject v") (auto simp: stored_def getSafeObject_def split: jsval.splits if_splits)

lemma duration_read: "(\<exists>e. node_duration_ms n v = Inl e) \<longleftrightarrow> v \<in> {JNull, JUndef}"
  by (cases v) (simp_all add: node_duration_ms_def jread_def)

lemma found_by_id:
  assumes "distinct (map nd_id rows)" "n \<in> set rows" "\<And>m. nd_id (f m) = nd_id m"
  shows "find (\<lambda>m. nd_id m = nd_id n) (update_where (\<lambda>m. nd_id m = nd_id n) f rows) = Some (f n)"
  using assms(1,2)
proof (induction rows)
  case (Cons m rows)
  then show ?case
    by (cases "nd_id m = nd_id n") (auto simp: update_where_def assms(3) image_iff)
qed simp

text \<open>completing a node run always stores its result, its status and the time; it throws after that exactly when
  the output of the result is null, which a tool may return, because it reads a duration from the output.\<close>

theorem completion_recorded:
  assumes "distinct (map nd_id (lg_nodes L))" "n \<in> set (lg_nodes L)"
  shows "\<exists>n' \<in> set (lg_nodes (snd (completeWorkflowNodeRun (nd_id n) out metadata t L))).
       nd_id n' = nd_id n \<and> nd_status n' = ''COMPLETED'' \<and> nd_completed n' = Some t \<and> nd_output n' = stored out
       \<and> (case fst (completeWorkflowNodeRun (nd_id n) out metadata t L) of
             Inr m \<Rightarrow> m = Some n' \<and> json_clone (getToolResultDomainOutput (stored out)) \<notin> {JNull, JUndef}
           | Inl e \<Rightarrow> json_clone (getToolResultDomainOutput (stored out)) \<in> {JNull, JUndef})"
proof -
  let ?f = "set_node ''COMPLETED'' out JNull metadata t"
  have f: "find (\<lambda>m. nd_id m = nd_id n) (update_where (\<lambda>m. nd_id m = nd_id n) ?f (lg_nodes L)) = Some (?f n)"
    by (rule found_by_id [OF assms]) (simp add: set_node_def)
  have in_rows: "?f n \<in> set (update_where (\<lambda>m. nd_id m = nd_id n) ?f (lg_nodes L))" using assms(2) by (auto simp: update_where_def)
  have p: "(\<exists>e. node_patch (?f n) d = Inl e) \<longleftrightarrow> json_clone (getToolResultDomainOutput (stored out)) \<in> {JNull, JUndef}" for d
    using duration_read [of "?f n" "json_clone (getToolResultDomainOutput (stored out))"]
    by (cases "node_duration_ms (?f n) (json_clone (getToolResultDomainOutput (stored out)))")
      (simp_all add: node_patch_def Let_def set_node_def stored_object)
  have k: "nd_id (?f n) = nd_id n" "nd_status (?f n) = ''COMPLETED''" "nd_completed (?f n) = Some t" "nd_output (?f n) = stored out"
    by (simp_all add: set_node_def terminal_statuses_def)
  have c: "''COMPLETED'' \<in> set terminal_statuses" by (simp add: terminal_statuses_def)
  show ?thesis
    using in_rows k c p [of "iso_text (of_int t)"]
    by (cases "node_patch (?f n) (iso_text (of_int t))")
      (auto simp: completeWorkflowNodeRun_def updateNodeRun_def Let_def f intro!: bexI [of _ "?f n"])
qed

definition empty_output :: jsval where
  "empty_output = JObj [(''schemaVersion'', JStr ''1''), (''success'', JBool True), (''outputType'', JStr ''null''), (''output'', JNull)]"

theorem completion_recorded_witness:
  "map (\<lambda>n. (nd_status n, nd_completed n)) (lg_nodes (snd (completeWorkflowNodeRun ''node'' empty_output JUndef 9 started_ledger)))
       = [(''COMPLETED'', Some 9)]
     \<and> (\<exists>e. fst (completeWorkflowNodeRun ''node'' empty_output JUndef 9 started_ledger) = Inl e)"
proof -
  let ?n = "new_node ''run'' sample_node 1 JUndef ''node'' 5"
  have rows: "lg_nodes started_ledger = [?n]" by code_simp
  have i: "nd_id ?n = ''node''" by (simp add: new_node_def)
  have "json_clone (getToolResultDomainOutput (stored empty_output)) = JNull" by code_simp
  with completion_recorded [of started_ledger ?n empty_output JUndef 9] rows i
  have "\<exists>e. fst (completeWorkflowNodeRun ''node'' empty_output JUndef 9 started_ledger) = Inl e"
    by (cases "fst (completeWorkflowNodeRun ''node'' empty_output JUndef 9 started_ledger)") simp_all
  moreover have "map (\<lambda>n. (nd_status n, nd_completed n)) (lg_nodes (snd (completeWorkflowNodeRun ''node'' empty_output JUndef 9 started_ledger)))
       = [(''COMPLETED'', Some 9)]"
    by code_simp
  ultimately show ?thesis by simp
qed

end
