(* ===== verification/RuntimeParameters.thy ===== *)
theory RuntimeParameters
  imports ConditionService JsonText
begin

text \<open>
  The runtime parameters of a workflow (\<open>apps/api/src/services/workflowExecutorService.js\<close>, lines 93-95 and 1442-1747): the
  parameters that a definition declares and the check of the ones that a run is started with.  The collation of the host, the
  message of a JSON syntax error and the repositories of the profile, in the order of the query, are parameters.
\<close>

section \<open>Declarations\<close>

record parameter =
  rp_key :: string
  rp_label :: string
  rp_type :: string
  rp_required :: bool
  rp_default :: jsval
  rp_description :: jsval
  rp_prompt :: jsval
  rp_options :: "(string \<times> string) list"
  rp_source :: jsval
  rp_max :: "rat option"
  rp_order :: rat

definition toBoolean :: "jsval \<Rightarrow> bool" where
  "toBoolean v = (v = JBool True \<or> v = JStr ''true'' \<or> v = JStr ''t'' \<or> strict_eq v (jnat 1) \<or> v = JStr ''1'')"

definition MAX_WORKFLOW_RUNTIME_PARAMETERS :: nat where
  "MAX_WORKFLOW_RUNTIME_PARAMETERS = 10"

definition getParameterSchemaFromConfig :: "jsval \<Rightarrow> jsval" where
  "getParameterSchemaFromConfig config =
     (let safeConfig = getSafeObject config; nestedSchema = getSafeObject (jget safeConfig ''parameterSchema'')
      in getSafeArray (jors [jget safeConfig ''runtimeParameters'', jget nestedSchema ''runtimeParameters'', jget nestedSchema ''parameters'']))"

definition option_of :: "jsval \<Rightarrow> string \<times> string" where
  "option_of v =
     (if jtypeof v = ''object'' \<and> v \<noteq> JNull
      then (let first = (\<lambda>ks d. foldr (\<lambda>k r. jnull_or (jget v k) r) ks d);
                val = first [''value'', ''optionValue'', ''key'', ''id''] (JStr []);
                label = first [''label'', ''displayName'', ''name''] val
            in (to_str val, to_str (jor label val)))
      else (to_str v, to_str v))"

definition normalizeRuntimeParameterOptions :: "jsval \<Rightarrow> (string \<times> string) list" where
  "normalizeRuntimeParameterOptions options = filter (\<lambda>(v, label). v \<noteq> []) (map option_of (arr_items (getSafeArray options)))"

definition parameter_types :: "string list" where
  "parameter_types = [''string'', ''number'', ''boolean'', ''select'', ''date'', ''json'', ''repo'']"

definition declared_parameter :: "nat \<Rightarrow> jsval \<Rightarrow> parameter" where
  "declared_parameter index p =
     (let raw = getSafeObject p; own = ''param_'' @ nat_str (index + 1);
          first = (\<lambda>ks d. jors (map (jget raw) ks @ [d]));
          key = normalizeContextKey (first [''key'', ''parameterName'', ''name'', ''paramName''] (JStr own)) own;
          requestedType = to_lower (trim (to_str (first [''type'', ''paramTypeCode'', ''parameterType''] (JStr ''string''))));
          type = (if requestedType = ''repository'' then ''repo'' else requestedType);
          allowedType = (if type \<in> set parameter_types then type else ''string'');
          label = trim (to_str (first [''label'', ''displayName''] (JStr key)))
      in \<lparr>rp_key = key, rp_label = (if label = [] then key else label), rp_type = allowedType,
          rp_required = toBoolean (jget raw ''required''),
          rp_default = jnull_or (jget raw ''defaultValue'') (jnull_or (jget raw ''default'') JNull),
          rp_description = first [''description'', ''prompt''] (JStr []), rp_prompt = first [''prompt'', ''description''] (JStr []),
          rp_options = normalizeRuntimeParameterOptions (jors [jget raw ''options'', jget raw ''allowedValues'', jget raw ''values'']),
          rp_source = jor (jget raw ''optionSourceCode'') (if allowedType = ''repo'' then JStr ''repositories'' else JNull),
          rp_max = finite_num (jget raw ''maxLength''),
          rp_order = (case finite_num (jget raw ''displayOrder'') of Some r \<Rightarrow> r | None \<Rightarrow> of_nat (index * 10 + 10))\<rparr>)"

definition normalizeWorkflowParameterDefinitions :: "(string \<Rightarrow> string \<Rightarrow> bool) \<Rightarrow> jsval \<Rightarrow> parameter list" where
  "normalizeWorkflowParameterDefinitions collate ps =
     sort_by (\<lambda>a b. rp_order a < rp_order b \<or> (rp_order a = rp_order b \<and> collate (rp_key a) (rp_key b)))
       (filter (\<lambda>p. rp_key p \<noteq> [])
         (map (\<lambda>(i, p). declared_parameter i p) (enumerate 0 (take MAX_WORKFLOW_RUNTIME_PARAMETERS (arr_items (getSafeArray ps))))))"

definition assertWorkflowParameterDefinitionLimit :: "jsval \<Rightarrow> unit res" where
  "assertWorkflowParameterDefinitionLimit ps =
     (let count = length (arr_items (getSafeArray ps))
      in if MAX_WORKFLOW_RUNTIME_PARAMETERS < count
         then Inl (WorkflowServiceError (''Workflows can define up to '' @ nat_str MAX_WORKFLOW_RUNTIME_PARAMETERS @ '' runtime parameters.'') 400
                (JObj [(''suppliedCount'', jnat count), (''maxRuntimeParameters'', jnat MAX_WORKFLOW_RUNTIME_PARAMETERS)]))
         else Inr ())"

definition getDefinitionRuntimeParameters :: "(string \<Rightarrow> string \<Rightarrow> bool) \<Rightarrow> jsval \<Rightarrow> parameter list" where
  "getDefinitionRuntimeParameters collate defn =
     normalizeWorkflowParameterDefinitions collate (getParameterSchemaFromConfig (jget defn ''config''))"

definition parameter_view :: "parameter \<Rightarrow> jsval" where
  "parameter_view p = JObj
     [(''key'', JStr (rp_key p)), (''parameterName'', JStr (rp_key p)), (''label'', JStr (rp_label p)), (''type'', JStr (rp_type p)),
      (''paramTypeCode'', JStr (rp_type p)), (''required'', JBool (rp_required p)), (''defaultValue'', rp_default p),
      (''description'', rp_description p), (''prompt'', rp_prompt p),
      (''options'', JArr (map (\<lambda>(v, label). JObj [(''value'', JStr v), (''label'', JStr label)]) (rp_options p))),
      (''optionSourceCode'', rp_source p), (''maxLength'', case rp_max p of Some r \<Rightarrow> jnum r | None \<Rightarrow> JNull),
      (''displayOrder'', jnum (rp_order p))]"

section \<open>Values\<close>

definition isBlankRuntimeParameterValue :: "jsval \<Rightarrow> bool" where
  "isBlankRuntimeParameterValue v = (is_nullish v \<or> (case v of JStr s \<Rightarrow> trim s = [] | _ \<Rightarrow> False))"

definition parameter_error :: "parameter \<Rightarrow> string \<Rightarrow> (string \<times> jsval) list \<Rightarrow> jsval" where
  "parameter_error p rest details =
     WorkflowServiceError (''Runtime parameter '' @ rp_label p @ rest) 400 (JObj ((''parameterKey'', JStr (rp_key p)) # details))"

definition parseRuntimeJsonParameter :: "(string \<Rightarrow> string) \<Rightarrow> jsval \<Rightarrow> parameter \<Rightarrow> jsval res" where
  "parseRuntimeJsonParameter jsonError v p =
     (if isBlankRuntimeParameterValue v then Inr JNull
      else if jtypeof v = ''object'' then Inr (json_clone v)
      else case json_parse (to_str v) of
        Some x \<Rightarrow> Inr x
      | None \<Rightarrow> Inl (parameter_error p '' must be valid JSON.'' [(''error'', JStr (jsonError (to_str v)))]))"

text \<open>The coercion of a value that is not blank.\<close>

definition coerce_present :: "(string \<Rightarrow> string) \<Rightarrow> jsval \<Rightarrow> parameter \<Rightarrow> jsval res" where
  "coerce_present jsonError v p =
     (if rp_type p = ''number''
      then (case finite_num v of
              Some r \<Rightarrow> Inr (jnum r)
            | None \<Rightarrow> Inl (parameter_error p '' must be a number.'' [(''value'', v)]))
      else if rp_type p = ''boolean'' then Inr (JBool (toBoolean v))
      else if rp_type p = ''json'' then parseRuntimeJsonParameter jsonError v p
      else
        (let s = to_str v; allowed = first_of_each (map fst (rp_options p))
         in case rp_max p of
              Some m \<Rightarrow>
                if m \<noteq> 0 \<and> m < of_nat (length s)
                then Inl (parameter_error p ('' exceeds max length '' @ to_str (jnum m) @ ''.'') [(''maxLength'', jnum m)])
                else if rp_type p = ''select'' \<and> rp_options p \<noteq> [] \<and> s \<notin> set allowed
                then Inl (parameter_error p '' must use an allowed option.'' [(''value'', JStr s), (''allowedValues'', str_arr allowed)])
                else Inr (JStr s)
            | None \<Rightarrow>
                if rp_type p = ''select'' \<and> rp_options p \<noteq> [] \<and> s \<notin> set allowed
                then Inl (parameter_error p '' must use an allowed option.'' [(''value'', JStr s), (''allowedValues'', str_arr allowed)])
                else Inr (JStr s)))"

definition coerceRuntimeParameterValue :: "(string \<Rightarrow> string) \<Rightarrow> jsval \<Rightarrow> parameter \<Rightarrow> jsval res" where
  "coerceRuntimeParameterValue jsonError v p =
     (if isBlankRuntimeParameterValue v
      then (if \<not> isBlankRuntimeParameterValue (rp_default p) then coerce_present jsonError (rp_default p) p
            else Inr (if rp_type p = ''boolean'' then JBool False else JNull))
      else coerce_present jsonError v p)"

definition resolveRepositoryRuntimeParameterValue :: "(string \<times> string) list \<Rightarrow> jsval \<Rightarrow> parameter \<Rightarrow> jsval res" where
  "resolveRepositoryRuntimeParameterValue repositories v p =
     (let requested = trim (to_str (jor v (JStr [])))
      in case find (\<lambda>(code, name). to_lower code = to_lower requested \<or> to_lower name = to_lower requested) repositories of
           Some (code, name) \<Rightarrow> Inr (JStr code)
         | None \<Rightarrow> Inl (parameter_error p '' must reference an active configured repository.''
                          [(''value'', JStr requested), (''optionSourceCode'', JStr ''repositories'')]))"

section \<open>The check\<close>

definition supplied_value :: "(string \<times> jsval) list \<Rightarrow> parameter \<Rightarrow> jsval" where
  "supplied_value supplied p = (case map_of supplied (rp_key p) of Some v \<Rightarrow> v | None \<Rightarrow> JUndef)"

definition check_parameter ::
  "(string \<Rightarrow> string) \<Rightarrow> (string \<times> string) list \<Rightarrow> (string \<times> jsval) list \<Rightarrow> parameter \<Rightarrow> (string \<times> jsval) list \<Rightarrow> (string \<times> jsval) list res" where
  "check_parameter jsonError repositories supplied p acc =
     (let v = supplied_value supplied p
      in if rp_required p \<and> isBlankRuntimeParameterValue v \<and> isBlankRuntimeParameterValue (rp_default p)
         then Inl (parameter_error p '' is required.'' [(''parameter'', parameter_view p)])
         else rbind (coerceRuntimeParameterValue jsonError v p) (\<lambda>w.
              rbind (if rp_type p = ''repo'' \<and> \<not> isBlankRuntimeParameterValue w
                     then resolveRepositoryRuntimeParameterValue repositories w p else Inr w) (\<lambda>x.
                Inr (if \<not> isBlankRuntimeParameterValue x \<or> rp_type p = ''boolean'' then kv_set acc (rp_key p) x else acc))))"

fun check_parameters ::
  "(string \<Rightarrow> string) \<Rightarrow> (string \<times> string) list \<Rightarrow> (string \<times> jsval) list \<Rightarrow> parameter list \<Rightarrow> (string \<times> jsval) list \<Rightarrow> (string \<times> jsval) list res" where
  "check_parameters jsonError repositories supplied [] acc = Inr acc"
| "check_parameters jsonError repositories supplied (p # ps) acc =
     rbind (check_parameter jsonError repositories supplied p acc) (check_parameters jsonError repositories supplied ps)"

text \<open>Parameters that are not declared go in under the normal form of their name.\<close>

definition add_undeclared :: "parameter list \<Rightarrow> (string \<times> jsval) list \<Rightarrow> (string \<times> jsval) list \<Rightarrow> (string \<times> jsval) list" where
  "add_undeclared ps =
     fold (\<lambda>(k, v) acc. if k \<notin> fst ` set acc \<and> k \<notin> rp_key ` set ps
                        then kv_set acc (normalizeContextKey (JStr k) ''value'') (json_clone v) else acc)"

definition validateWorkflowRuntimeInput ::
  "(string \<Rightarrow> string \<Rightarrow> bool) \<Rightarrow> (string \<Rightarrow> string) \<Rightarrow> (string \<times> string) list \<Rightarrow> jsval \<Rightarrow> jsval \<Rightarrow> bool \<Rightarrow> jsval res" where
  "validateWorkflowRuntimeInput collate jsonError repositories defn input rejectUnknown =
     (let safeInput = getSafeObject input; ps = getDefinitionRuntimeParameters collate defn;
          supplied = obj_kvs (getWorkflowRuntimeParams safeInput);
          unknown = filter (\<lambda>k. k \<notin> rp_key ` set ps) (map fst supplied)
      in if rejectUnknown \<and> unknown \<noteq> []
         then Inl (WorkflowServiceError ''Workflow runtime input contains unsupported parameters.'' 400
                (JObj [(''code'', JStr ''WORKFLOW_RUNTIME_PARAMETER_UNKNOWN''), (''unknownParameterKeys'', str_arr unknown)]))
         else rbind (check_parameters jsonError repositories supplied ps []) (\<lambda>checked.
           let params = JObj (if rejectUnknown then checked else add_undeclared ps supplied checked)
           in Inr (obj_with safeInput [(''params'', params), (''runtimeParameters'', params)])))"

section \<open>What the check gives\<close>

text \<open>The value of a parameter: what \<open>check_parameter\<close> adds to the result.\<close>

definition outcome_of :: "(string \<Rightarrow> string) \<Rightarrow> (string \<times> string) list \<Rightarrow> jsval \<Rightarrow> parameter \<Rightarrow> jsval res" where
  "outcome_of jsonError repositories v p =
     (if rp_required p \<and> isBlankRuntimeParameterValue v \<and> isBlankRuntimeParameterValue (rp_default p)
      then Inl (parameter_error p '' is required.'' [(''parameter'', parameter_view p)])
      else rbind (coerceRuntimeParameterValue jsonError v p) (\<lambda>w.
        if rp_type p = ''repo'' \<and> \<not> isBlankRuntimeParameterValue w
        then resolveRepositoryRuntimeParameterValue repositories w p else Inr w))"

definition is_kept :: "jsval \<Rightarrow> parameter \<Rightarrow> bool" where
  "is_kept x p = (\<not> isBlankRuntimeParameterValue x \<or> rp_type p = ''boolean'')"

lemma rbind_assoc: "rbind (rbind m f) g = rbind m (\<lambda>x. rbind (f x) g)"
  by (cases m) simp_all

lemma rbind_if: "rbind (if c then a else b) f = (if c then rbind a f else rbind b f)"
  by simp

lemma check_parameter_outcome:
  "check_parameter jsonError repositories supplied p acc =
     rbind (outcome_of jsonError repositories (supplied_value supplied p) p)
       (\<lambda>x. Inr (if is_kept x p then kv_set acc (rp_key p) x else acc))"
  by (simp add: check_parameter_def outcome_of_def is_kept_def Let_def rbind_assoc rbind_if)

text \<open>What a declared value looks like.\<close>

definition fits :: "(string \<times> string) list \<Rightarrow> parameter \<Rightarrow> jsval \<Rightarrow> bool" where
  "fits repositories p v =
     (if rp_type p = ''number'' then (\<exists>r. v = jnum r)
      else if rp_type p = ''boolean'' then (\<exists>b. v = JBool b)
      else if rp_type p = ''json'' then True
      else if rp_type p = ''repo'' then (\<exists>code \<in> fst ` set repositories. v = JStr code)
      else (\<exists>s. v = JStr s \<and> (case rp_max p of Some m \<Rightarrow> m = 0 \<or> of_nat (length s) \<le> m | None \<Rightarrow> True)
         \<and> (rp_type p = ''select'' \<longrightarrow> rp_options p = [] \<or> s \<in> fst ` set (rp_options p))))"

lemma coerced_fits:
  assumes "coerce_present jsonError v p = Inr w" "rp_type p \<noteq> ''repo''"
  shows "fits repositories p w"
  using assms by (auto simp: coerce_present_def fits_def Let_def split: option.splits if_splits)

lemma if_Inl_D: "(if c then Inl e else m) = Inr x \<Longrightarrow> m = Inr x"
  by (cases c) simp_all

lemma outcome_steps:
  assumes "outcome_of jsonError repositories v p = Inr x"
  shows "\<exists>w. coerceRuntimeParameterValue jsonError v p = Inr w
      \<and> (if rp_type p = ''repo'' \<and> \<not> isBlankRuntimeParameterValue w
          then resolveRepositoryRuntimeParameterValue repositories w p else Inr w) = Inr x"
proof -
  have "rbind (coerceRuntimeParameterValue jsonError v p) (\<lambda>w. if rp_type p = ''repo'' \<and> \<not> isBlankRuntimeParameterValue w
      then resolveRepositoryRuntimeParameterValue repositories w p else Inr w) = Inr x"
    using assms unfolding outcome_of_def by (rule if_Inl_D)
  then show ?thesis unfolding rbind_Inr_iff .
qed

lemma find_member: "find P xs = Some x \<Longrightarrow> x \<in> set xs"
  by (auto simp: find_Some_iff)

lemma resolved_code:
  "resolveRepositoryRuntimeParameterValue repositories v p = Inr x \<Longrightarrow> \<exists>code \<in> fst ` set repositories. x = JStr code"
  unfolding resolveRepositoryRuntimeParameterValue_def Let_def by (force dest: find_member split: option.splits)

lemma outcome_fits:
  assumes "outcome_of jsonError repositories v p = Inr x" "is_kept x p"
  shows "fits repositories p x"
proof (cases "rp_type p = ''repo''")
  case True
  then have types: "rp_type p \<noteq> ''number''" "rp_type p \<noteq> ''boolean''" "rp_type p \<noteq> ''json''" by simp_all
  from assms(1) obtain w where w: "(if rp_type p = ''repo'' \<and> \<not> isBlankRuntimeParameterValue w
      then resolveRepositoryRuntimeParameterValue repositories w p else Inr w) = Inr x"
    using outcome_steps by blast
  have "\<not> isBlankRuntimeParameterValue w" using w assms(2) types by (auto simp: is_kept_def)
  with w True have "resolveRepositoryRuntimeParameterValue repositories w p = Inr x" by simp
  then show ?thesis
    using True resolved_code types by (auto simp: fits_def)
next
  case False
  with assms have "coerceRuntimeParameterValue jsonError v p = Inr x"
    by (auto simp: outcome_of_def rbind_Inr_iff split: if_splits)
  with assms(2) coerced_fits [OF _ False] show ?thesis
    by (auto simp: coerceRuntimeParameterValue_def is_kept_def isBlankRuntimeParameterValue_def fits_def split: if_splits)
qed

lemma checked_outcomes:
  assumes "check_parameters jsonError repositories supplied ps acc = Inr C"
  shows "\<forall>p \<in> set ps. \<exists>x. outcome_of jsonError repositories (supplied_value supplied p) p = Inr x"
    and "(k, v) \<in> set C \<Longrightarrow> (k, v) \<in> set acc \<or> (\<exists>p \<in> set ps. rp_key p = k \<and> is_kept v p
           \<and> outcome_of jsonError repositories (supplied_value supplied p) p = Inr v)"
  using assms
proof (induction ps arbitrary: acc)
  case (Cons p ps)
  {
    case 1
    then show ?case using Cons.IH(1) by (auto simp: check_parameter_outcome rbind_Inr_iff)
  next
    case 2
    then obtain x where x: "outcome_of jsonError repositories (supplied_value supplied p) p = Inr x"
      and c: "check_parameters jsonError repositories supplied ps (if is_kept x p then kv_set acc (rp_key p) x else acc) = Inr C"
      by (auto simp: check_parameter_outcome rbind_Inr_iff)
    from Cons.IH(2) [OF 2(1) c] x show ?case
      using set_kv_set [of acc "rp_key p" x] by (auto split: if_splits)
  }
qed simp_all

definition declared :: "(string \<Rightarrow> string \<Rightarrow> bool) \<Rightarrow> jsval \<Rightarrow> parameter set" where
  "declared collate defn = set (getDefinitionRuntimeParameters collate defn)"

definition supplied_to :: "jsval \<Rightarrow> (string \<times> jsval) list" where
  "supplied_to input = obj_kvs (getWorkflowRuntimeParams (getSafeObject input))"

lemma undeclared_elsewhere:
  assumes "\<And>k v. (k, v) \<in> set supplied \<Longrightarrow> k \<notin> rp_key ` set ps \<Longrightarrow> normalizeContextKey (JStr k) ''value'' \<notin> rp_key ` set ps"
    "c \<in> rp_key ` set ps"
  shows "map_of (add_undeclared ps supplied acc) c = map_of acc c"
  using assms(1)
proof (induction supplied arbitrary: acc)
  case (Cons kv supplied)
  obtain k v where kv: "kv = (k, v)" by force
  have "c \<noteq> normalizeContextKey (JStr k) ''value''" if "k \<notin> rp_key ` set ps"
    using Cons.prems [of k v] kv that assms(2) by (metis list.set_intros(1))
  moreover have "add_undeclared ps (kv # supplied) acc = add_undeclared ps supplied
      (if k \<notin> fst ` set acc \<and> k \<notin> rp_key ` set ps then kv_set acc (normalizeContextKey (JStr k) ''value'') (json_clone v) else acc)"
    by (simp add: add_undeclared_def kv)
  moreover have "map_of (add_undeclared ps supplied acc') c = map_of acc' c" for acc'
    using Cons.prems by (intro Cons.IH) (meson list.set_intros(2))
  ultimately show ?case by simp
qed (simp add: add_undeclared_def)

lemma params_of_validated:
  assumes "validateWorkflowRuntimeInput collate jsonError repositories defn input rejectUnknown = Inr r"
  shows "\<exists>C. check_parameters jsonError repositories (supplied_to input) (getDefinitionRuntimeParameters collate defn) [] = Inr C
     \<and> jget r ''params'' = JObj (if rejectUnknown then C else add_undeclared (getDefinitionRuntimeParameters collate defn) (supplied_to input) C)
     \<and> (rejectUnknown \<longrightarrow> fst ` set (supplied_to input) \<subseteq> rp_key ` declared collate defn)"
proof -
  let ?ps = "getDefinitionRuntimeParameters collate defn"
  obtain C where C: "check_parameters jsonError repositories (supplied_to input) ?ps [] = Inr C"
    and r: "r = (let params = JObj (if rejectUnknown then C else add_undeclared ?ps (supplied_to input) C)
           in obj_with (getSafeObject input) [(''params'', params), (''runtimeParameters'', params)])"
    and k: "\<not> (rejectUnknown \<and> filter (\<lambda>k. k \<notin> rp_key ` set ?ps) (map fst (supplied_to input)) \<noteq> [])"
    using assms unfolding validateWorkflowRuntimeInput_def Let_def supplied_to_def [symmetric]
    by (auto simp: rbind_Inr_iff split: if_splits)
  have "jget r ''params'' = JObj (if rejectUnknown then C else add_undeclared ?ps (supplied_to input) C)"
    by (simp add: r Let_def obj_with_def kv_spread_def kv_get_def)
  moreover have "rejectUnknown \<longrightarrow> fst ` set (supplied_to input) \<subseteq> rp_key ` declared collate defn"
    using k by (fastforce simp: declared_def filter_empty_conv)
  ultimately show ?thesis using C by blast
qed


section \<open>The check of what has been checked\<close>

text \<open>A value whose text is not blank unless the value is.\<close>

definition plain :: "jsval \<Rightarrow> bool" where
  "plain v = (isBlankRuntimeParameterValue v \<or> trim (to_str v) \<noteq> [])"

text \<open>The code of every repository finds that repository.\<close>

definition codes_found :: "(string \<times> string) list \<Rightarrow> bool" where
  "codes_found repositories =
     (\<forall>code \<in> fst ` set repositories. \<forall>p. trim code \<noteq> [] \<and> resolveRepositoryRuntimeParameterValue repositories (JStr code) p = Inr (JStr code))"

lemma boolean_again: "toBoolean (JBool b) = b"
  by (simp add: toBoolean_def)

lemma text_present:
  assumes "coerce_present jsonError v p = Inr w" "rp_type p \<notin> {''number'', ''boolean'', ''json''}"
  shows "w = JStr (to_str v) \<and> coerce_present jsonError w p = Inr w"
proof -
  have "w = JStr (to_str v)" using assms by (simp add: coerce_present_def Let_def split: option.splits if_splits)
  moreover have "coerce_present jsonError (JStr (to_str v)) p = coerce_present jsonError v p"
    using assms(2) by (simp add: coerce_present_def)
  ultimately show ?thesis using assms(1) by simp
qed

lemma present_again:
  assumes "coerce_present jsonError v p = Inr w" "rp_type p \<noteq> ''json''"
  shows "coerce_present jsonError w p = Inr w"
proof -
  consider "rp_type p = ''number''" | "rp_type p = ''boolean''" | "rp_type p \<notin> {''number'', ''boolean'', ''json''}" using assms(2) by blast
  then show ?thesis
  proof cases
    case 1
    then show ?thesis using assms(1) by (auto simp: coerce_present_def finite_num_def split: option.splits)
  next
    case 2
    then show ?thesis using assms(1) by (auto simp: coerce_present_def boolean_again)
  qed (use text_present [OF assms(1)] in blast)
qed

lemma present_not_blank:
  assumes "coerce_present jsonError v p = Inr w" "rp_type p \<noteq> ''json''" "\<not> isBlankRuntimeParameterValue v" "plain v"
  shows "\<not> isBlankRuntimeParameterValue w"
proof -
  consider "rp_type p = ''number''" | "rp_type p = ''boolean''" | "rp_type p \<notin> {''number'', ''boolean'', ''json''}" using assms(2) by blast
  then show ?thesis
  proof cases
    case 1
    then show ?thesis using assms(1) by (auto simp: coerce_present_def isBlankRuntimeParameterValue_def split: option.splits)
  next
    case 2
    then show ?thesis using assms(1) by (auto simp: coerce_present_def isBlankRuntimeParameterValue_def)
  qed (use text_present [OF assms(1)] assms(3,4) in \<open>simp add: isBlankRuntimeParameterValue_def plain_def\<close>)
qed

text \<open>A declaration whose values stay what they are when they are checked again: no JSON, no blank text from a default, and no
  length limit on a repository, whose code may be longer than the name it was found by.\<close>

definition steady :: "parameter \<Rightarrow> bool" where
  "steady p = (rp_type p \<noteq> ''json'' \<and> plain (rp_default p) \<and> (rp_type p = ''repo'' \<longrightarrow> rp_max p = None))"

lemma blank_values [simp]: "isBlankRuntimeParameterValue JUndef" "isBlankRuntimeParameterValue JNull" "\<not> isBlankRuntimeParameterValue (JBool b)"
  by (simp_all add: isBlankRuntimeParameterValue_def)

lemma coerced_again:
  assumes "coerceRuntimeParameterValue jsonError v p = Inr w" "steady p" "plain v"
  shows "if isBlankRuntimeParameterValue v \<and> isBlankRuntimeParameterValue (rp_default p)
         then w = (if rp_type p = ''boolean'' then JBool False else JNull)
         else \<not> isBlankRuntimeParameterValue w \<and> coerce_present jsonError w p = Inr w"
  using assms present_again present_not_blank
  by (auto simp: coerceRuntimeParameterValue_def steady_def split: if_splits)

lemma outcome_kept_again:
  assumes "outcome_of jsonError repositories v p = Inr x" "steady p" "plain v" "codes_found repositories" "is_kept x p"
  shows "outcome_of jsonError repositories x p = Inr x"
proof -
  from outcome_steps [OF assms(1)] obtain w where w: "coerceRuntimeParameterValue jsonError v p = Inr w"
    and x: "(if rp_type p = ''repo'' \<and> \<not> isBlankRuntimeParameterValue w
          then resolveRepositoryRuntimeParameterValue repositories w p else Inr w) = Inr x" by blast
  note c = coerced_again [OF w assms(2,3)]
  show ?thesis
  proof (cases "rp_type p = ''repo''")
    case True
    with outcome_fits [OF assms(1,5)] obtain code where code: "code \<in> fst ` set repositories" "x = JStr code" by (auto simp: fits_def)
    then have "\<not> isBlankRuntimeParameterValue x" "resolveRepositoryRuntimeParameterValue repositories x p = Inr x"
      using assms(4) by (auto simp: codes_found_def isBlankRuntimeParameterValue_def)
    moreover have "coerce_present jsonError x p = Inr x"
      using True assms(2) code(2) by (simp add: coerce_present_def steady_def)
    ultimately show ?thesis using True by (simp add: outcome_of_def coerceRuntimeParameterValue_def)
  next
    case False
    with x have wx: "w = x" by simp
    show ?thesis
    proof (cases "isBlankRuntimeParameterValue v \<and> isBlankRuntimeParameterValue (rp_default p)")
      case True
      have w': "w = (if rp_type p = ''boolean'' then JBool False else JNull)" using c unfolding if_P [OF True] .
      have b: "rp_type p = ''boolean''" using w' wx assms(5) blank_values(2) unfolding is_kept_def by metis
      with w' wx have "rp_type p = ''boolean''" "x = JBool False" by simp_all
      then show ?thesis by (simp add: outcome_of_def coerceRuntimeParameterValue_def coerce_present_def boolean_again)
    next
      case nb: False
      have "\<not> isBlankRuntimeParameterValue x" "coerce_present jsonError x p = Inr x" using c unfolding if_not_P [OF nb] wx by simp_all
      with False show ?thesis by (simp add: outcome_of_def coerceRuntimeParameterValue_def)
    qed
  qed
qed

lemma outcome_left_again:
  assumes "outcome_of jsonError repositories v p = Inr x" "steady p" "plain v" "codes_found repositories" "\<not> is_kept x p"
  shows "outcome_of jsonError repositories JUndef p = Inr x"
proof -
  from outcome_steps [OF assms(1)] obtain w where w: "coerceRuntimeParameterValue jsonError v p = Inr w"
    and x: "(if rp_type p = ''repo'' \<and> \<not> isBlankRuntimeParameterValue w
          then resolveRepositoryRuntimeParameterValue repositories w p else Inr w) = Inr x" by blast
  note c = coerced_again [OF w assms(2,3)]
  have "\<exists>code \<in> fst ` set repositories. x = JStr code" if "rp_type p = ''repo''" "\<not> isBlankRuntimeParameterValue w"
    using x that by (auto dest: resolved_code)
  then have "isBlankRuntimeParameterValue w" "x = w"
    using assms(4,5) x by (auto simp: codes_found_def is_kept_def isBlankRuntimeParameterValue_def split: if_splits)
  moreover have t: "rp_type p \<noteq> ''boolean''" using assms(5) by (simp add: is_kept_def)
  ultimately have b: "isBlankRuntimeParameterValue v \<and> isBlankRuntimeParameterValue (rp_default p)" using c by metis
  have x': "x = JNull" using c unfolding if_P [OF b] using t \<open>x = w\<close> by simp
  have "\<not> rp_required p" using assms(1) b by (auto simp: outcome_of_def)
  with b x' t show ?thesis by (simp add: outcome_of_def coerceRuntimeParameterValue_def)
qed

lemma checked_elsewhere:
  "check_parameters jsonError repositories supplied ps acc = Inr C \<Longrightarrow> k \<notin> rp_key ` set ps \<Longrightarrow> map_of C k = map_of acc k"
  by (induction ps arbitrary: acc) (auto simp: check_parameter_outcome rbind_Inr_iff split: if_splits)

lemma checks_again:
  assumes "check_parameters jsonError repositories supplied ps acc = Inr C" "distinct (map rp_key ps)"
    "rp_key ` set ps \<inter> fst ` set acc = {}" "\<forall>p \<in> set ps. steady p \<and> plain (supplied_value supplied p)" "codes_found repositories"
  shows "check_parameters jsonError repositories C ps acc = Inr C"
  using assms(1-4)
proof (induction ps arbitrary: acc)
  case (Cons p ps)
  then obtain x where x: "outcome_of jsonError repositories (supplied_value supplied p) p = Inr x"
    and c: "check_parameters jsonError repositories supplied ps (if is_kept x p then kv_set acc (rp_key p) x else acc) = Inr C"
    by (auto simp: check_parameter_outcome rbind_Inr_iff)
  let ?acc = "if is_kept x p then kv_set acc (rp_key p) x else acc"
  have "map_of acc (rp_key p) = None" using Cons.prems(3) by (auto simp: map_of_eq_None_iff)
  then have "supplied_value C p = (if is_kept x p then x else JUndef)"
    using checked_elsewhere [OF c, of "rp_key p"] Cons.prems(2) by (simp add: supplied_value_def)
  then have again: "outcome_of jsonError repositories (supplied_value C p) p = Inr x"
    using outcome_kept_again [OF x] outcome_left_again [OF x] Cons.prems(4) assms(5) by simp
  have "check_parameters jsonError repositories C ps ?acc = Inr C"
    using Cons.prems by (intro Cons.IH [OF c]) (auto simp: fst_kv_set)
  with again show ?case by (simp add: check_parameter_outcome)
qed simp

lemma nothing_undeclared: "fst ` set supplied \<subseteq> rp_key ` set ps \<Longrightarrow> add_undeclared ps supplied acc = acc"
  unfolding add_undeclared_def by (induction supplied arbitrary: acc) auto

lemma plain_values:
  assumes "\<forall>(k, v) \<in> set supplied. plain v"
  shows "plain (supplied_value supplied p)"
  using assms map_of_SomeD [of supplied "rp_key p"]
  by (auto simp: supplied_value_def plain_def split: option.splits)


section \<open>Cases\<close>

definition sample_definition :: "jsval \<Rightarrow> jsval" where
  "sample_definition type = JObj [(''config'', JObj [(''runtimeParameters'', JArr
     [JObj [(''key'', JStr ''max_rows''), (''type'', type), (''required'', JBool True)],
      JObj [(''key'', JStr ''mode''), (''type'', JStr ''select''), (''default'', JStr ''fast''),
        (''options'', JArr [JStr ''fast'', JStr ''full''])]])])]"

definition sample_params :: "(string \<times> jsval) list \<Rightarrow> jsval" where
  "sample_params kvs = JObj [(''params'', JObj kvs)]"

abbreviation checked_sample :: "string \<Rightarrow> jsval \<Rightarrow> jsval res" where
  "checked_sample type input \<equiv> validateWorkflowRuntimeInput (\<lambda>_ _. True) id [] (sample_definition (JStr type)) input False"

text \<open>An undeclared name that normalizes to a declared key replaces the checked value.\<close>

lemma alias_replaces_checked:
  "case checked_sample ''number'' (sample_params [(''max_rows'', jnat 5), (''max rows'', JStr ''all'')]) of
     Inr r \<Rightarrow> jget (jget r ''params'') ''max_rows'' = JStr ''all'' | Inl e \<Rightarrow> False"
  by code_simp

text \<open>A JSON parameter whose value is a text is accepted once and refused when its value is checked again.\<close>

lemma json_text_refused_again:
  "case checked_sample ''json'' (sample_params [(''max_rows'', JStr [CHR 0x22, CHR ''a'', CHR 0x22])]) of
     Inr r \<Rightarrow> jget (jget r ''params'') ''max_rows'' = JStr ''a'' \<and> (case checked_sample ''json'' r of Inl e \<Rightarrow> True | Inr _ \<Rightarrow> False)
   | Inl e \<Rightarrow> False"
  by code_simp

abbreviation sample_parameters :: "parameter list" where
  "sample_parameters \<equiv> getDefinitionRuntimeParameters (\<lambda>_ _. True) (sample_definition (JStr ''number''))"

lemma sample_declared: "map rp_key sample_parameters = [''max_rows'', ''mode'']" "list_all steady sample_parameters"
  by code_simp+

lemma sample_keys: "rp_key ` declared (\<lambda>_ _. True) (sample_definition (JStr ''number'')) = {''max_rows'', ''mode''}"
  using arg_cong [OF sample_declared(1), of set] by (simp add: declared_def)

abbreviation sample_start :: jsval where
  "sample_start \<equiv> sample_params [(''max_rows'', JStr ''5'')]"

lemma start_accepted:
  "\<exists>r. checked_sample ''number'' sample_start = Inr r \<and> map_of (obj_kvs (jget r ''params'')) ''max_rows'' = Some (jnum 5)"
proof -
  have "case checked_sample ''number'' sample_start of
      Inr r \<Rightarrow> map_of (obj_kvs (jget r ''params'')) ''max_rows'' = Some (jnum 5) | Inl e \<Rightarrow> False" by code_simp
  then show ?thesis by (auto split: sum.splits)
qed

lemma sample_supplied: "supplied_to sample_start = [(''max_rows'', JStr ''5'')]"
  by code_simp



end
