(* ===== verification/RunControl.thy ===== *)
theory RunControl
  imports RunLedger RuntimeParameters
begin

text \<open>
  Starting, controlling and retrying workflow runs in the API (\<open>apps/api/src/services/workflowExecutorService.js\<close>, lines 148-157,
  2913-3574, 6541-6725 and 7542-7657).  A handler reads one ledger and writes to a later one: what others did in between is a
  function on ledgers, or the ledger that is written to is any ledger.  What Temporal answers to a request, the permission-checked
  targets and the definition that the database returns are parameters.  The audit events, whose failures are only logged, are left out.
\<close>

section \<open>Control\<close>

definition retryable_statuses :: "string list" where
  "retryable_statuses = [''FAILED'', ''CANCELED'', ''TERMINATED'']"

definition isActiveRunStatus :: "jsval \<Rightarrow> bool" where
  "isActiveRunStatus status = (to_upper (trim (to_str (jor status (JStr [])))) \<in> set active_statuses)"

definition isRetryableRunStatus :: "jsval \<Rightarrow> bool" where
  "isRetryableRunStatus status = (to_upper (trim (to_str (jor status (JStr [])))) \<in> set retryable_statuses)"

definition isTemporalWorkflowNotFoundError :: "jsval \<Rightarrow> bool" where
  "isTemporalWorkflowNotFoundError err =
     (let text = to_lower (to_str (jors [jget err ''message'', err, JStr []]))
      in list_ex (str_includes text) [''not found'', ''workflow not found'', ''workflow execution already completed''])"

definition error_text :: "jsval \<Rightarrow> string" where
  "error_text err = to_str (jor (jget err ''message'') (JStr (to_str err)))"

definition buildRunControlSummary :: "string \<Rightarrow> jsval \<Rightarrow> string \<Rightarrow> jsval \<Rightarrow> string" where
  "buildRunControlSummary action run why temporalWarning =
     join '' '' ([''Workflow '' @ to_str (jor (jget run ''workflowDisplayName'') (jget run ''workflowCode'')) @ '' ''
        @ (if to_lower action = ''terminate'' then ''terminated'' else ''canceled'') @ '' from SkyCommand Workflow History.'']
      @ (if why = [] then [] else [''Reason: '' @ why])
      @ (if truthy temporalWarning then [''Temporal warning: '' @ to_str temporalWarning] else []))"

text \<open>The request to Temporal and what its answer, if any, means.\<close>

definition control_request :: "string \<Rightarrow> string \<Rightarrow> jsval \<Rightarrow> run_row \<Rightarrow> jsval" where
  "control_request action why user r =
     JObj ([(''operation'', JStr action), (''workflowId'', wr_temporal r), (''runId'', wr_temporal_run r)]
       @ (if action = ''terminate''
          then [(''reason'', JStr (if why = [] then ''Terminated from SkyCommand Workflow History run controls.'' else why))] else [])
       @ [(''actor'', user)])"

definition temporal_control :: "(jsval \<Rightarrow> jsval res) \<Rightarrow> string \<Rightarrow> string \<Rightarrow> jsval \<Rightarrow> run_row \<Rightarrow> (jsval \<times> jsval) res" where
  "temporal_control temporal action why user r =
     (if \<not> truthy (wr_temporal r)
      then Inr (JNull, JStr ''Run has no linked Temporal workflow ID; SkyCommand ledger was updated locally.'')
      else case temporal (control_request action why user r) of
        Inr reply \<Rightarrow> Inr (reply, JNull)
      | Inl err \<Rightarrow>
          if isTemporalWorkflowNotFoundError err
          then Inr (JNull, JStr (''Temporal execution was not found; SkyCommand ledger was updated locally. '' @ error_text err))
          else Inl (WorkflowServiceError (''Temporal '' @ action @ '' request failed.'') 502
            (JObj [(''workflowRunRecordId'', JStr (wr_id r)), (''temporalWorkflowId'', wr_temporal r),
                   (''temporalRunId'', wr_temporal_run r), (''error'', JStr (error_text err))])))"

definition finalization_failure :: "(string \<Rightarrow> jsval \<Rightarrow> unit res) \<Rightarrow> string \<Rightarrow> run_row \<Rightarrow> jsval res" where
  "finalization_failure markFailure action r =
     (if trim (wr_code r) = ''dev_change_finalize''
      then (let code = ''R5_FINALIZATION_'' @ to_upper action
            in rbind (markFailure (wr_id r) (JObj [(''code'', JStr code),
                 (''message'', JStr (''R5 DEV finalization was '' @ action @ '' through workflow control.''))]))
               (\<lambda>_. Inr (JObj [(''status'', JStr ''FAILED''), (''code'', JStr code)])))
      else Inr JNull)"

definition display_name :: "jsval \<Rightarrow> jsval" where
  "display_name user = jors [jget user ''displayName'', jget user ''email'', JNull]"

definition control_metadata :: "string \<Rightarrow> string \<Rightarrow> string \<Rightarrow> jsval \<Rightarrow> run_row \<Rightarrow> string \<Rightarrow> jsval \<Rightarrow> jsval \<Rightarrow> jsval \<Rightarrow> jsval" where
  "control_metadata action finalStatus requestedAt user r why reply warning recovery =
     JObj [(''runControlAction'', JStr action), (''runControlStatus'', JStr finalStatus), (''runControlRequestedAt'', JStr requestedAt),
       (''runControlRequestedByUserId'', or_null (jget user ''userId'')), (''runControlRequestedByDisplayName'', display_name user),
       (''runControlReason'', str_or_null why), (''temporalWorkflowId'', or_null (wr_temporal r)),
       (''temporalRunId'', or_null (wr_temporal_run r)), (''temporalControlWarning'', warning),
       (''temporalControlResult'', if truthy reply
          then JObj (map (\<lambda>k. (k, jget reply k)) [''action'', ''workflowId'', ''runId'', ''requestedAt'', ''namespace'']) else JNull),
       (''finalizationRecovery'', recovery)]"

record control_result =
  cr_run :: "run_row option"
  cr_nodes :: "node_row list"
  cr_approvals :: "approval_row list"
  cr_temporal :: jsval
  cr_warning :: jsval
  cr_message :: string

definition control_action :: "jsval \<Rightarrow> string" where
  "control_action action = to_lower (trim (to_str (jor action (JStr []))))"

definition final_status :: "string \<Rightarrow> string" where
  "final_status action = (if action = ''terminate'' then ''TERMINATED'' else ''CANCELED'')"

text \<open>The statements of a control action, on the ledger as it is when they run.\<close>

definition settle_run :: "string \<Rightarrow> string \<Rightarrow> jsval \<Rightarrow> jsval \<Rightarrow> jsval \<Rightarrow> int \<Rightarrow> ledger \<Rightarrow> node_row list \<times> approval_row list \<times> ledger" where
  "settle_run runId status user summary metadata t L =
     (let (ended, L1) = finalizeActiveNodeRunsForRun runId status summary metadata t L;
          (shut, L2) = cancelPendingWorkflowApprovalsForRun runId user summary metadata t L1
      in (ended, shut, updateWorkflowRun runId status summary metadata t L2))"

definition requestWorkflowRunControlAction ::
  "jsval \<Rightarrow> (jsval \<Rightarrow> jsval res) \<Rightarrow> (string \<Rightarrow> jsval \<Rightarrow> unit res) \<Rightarrow> string \<Rightarrow> jsval \<Rightarrow> jsval \<Rightarrow> jsval \<Rightarrow> jsval \<Rightarrow> string
     \<Rightarrow> ledger \<Rightarrow> int \<Rightarrow> ledger \<Rightarrow> control_result res \<times> ledger" where
  "requestWorkflowRunControlAction joined temporal markFailure runId action reason user permissions requestedAt L0 t L =
     (let act = control_action action
      in case assertPermission (JStr ''WORKFLOW_RUN'') permissions ((if act = [] then ''control'' else act) @ ''_workflow_run'') of
        Inl e \<Rightarrow> (Inl e, L)
      | Inr _ \<Rightarrow>
        if act \<notin> {''cancel'', ''terminate''}
        then (Inl (WorkflowServiceError ''Unsupported workflow run control action.'' 400
               (JObj [(''action'', action), (''allowed'', str_arr [''cancel'', ''terminate''])])), L)
        else case find (\<lambda>r. wr_id r = runId) (lg_runs L0) of
          None \<Rightarrow> (Inl (WorkflowServiceError ''Workflow run was not found.'' 404 (JObj [(''workflowRunRecordId'', JStr runId)])), L)
        | Some r \<Rightarrow>
          if \<not> isActiveRunStatus (JStr (wr_status r))
          then (Inl (WorkflowServiceError ''Only queued or running workflow runs can be controlled.'' 409
                 (JObj [(''workflowRunRecordId'', JStr runId), (''status'', JStr (wr_status r)), (''action'', JStr act)])), L)
          else (let why = take 1000 (trim (to_str (jor reason (JStr []))))
                in case temporal_control temporal act why user r of
                  Inl e \<Rightarrow> (Inl e, L)
                | Inr (reply, warning) \<Rightarrow>
                  (case finalization_failure markFailure act r of
                     Inl e \<Rightarrow> (Inl e, L)
                   | Inr recovery \<Rightarrow>
                     (let status = final_status act; metadata = control_metadata act status requestedAt user r why reply warning recovery;
                          summary = buildRunControlSummary act (run_view joined r) why warning;
                          (ended, shut, L') = settle_run (wr_id r) status user (JStr summary) metadata t L
                      in (Inr \<lparr>cr_run = find (\<lambda>x. wr_id x = wr_id r) (lg_runs L'), cr_nodes = ended, cr_approvals = shut,
                               cr_temporal = reply, cr_warning = warning, cr_message = summary\<rparr>, L')))))"

section \<open>Decisions on approvals\<close>

definition decision_payload :: "approval_row \<Rightarrow> string \<Rightarrow> jsval \<Rightarrow> jsval \<Rightarrow> string \<Rightarrow> jsval" where
  "decision_payload a decision decisionNote actor decidedAt =
     JObj [(''approvalRequestId'', JStr (ap_id a)), (''workflowRunRecordId'', JStr (ap_run a)),
       (''workflowNodeRunRecordId'', JStr (ap_node_run a)), (''nodeKey'', JStr (ap_node_key a)), (''approvalKey'', JStr (ap_key a)),
       (''decision'', JStr decision), (''decisionNote'', decisionNote), (''actor'', actor), (''decidedAt'', JStr decidedAt)]"

definition decision_signal :: "approval_row \<Rightarrow> jsval \<Rightarrow> jsval" where
  "decision_signal a payload =
     JObj [(''workflowId'', ap_temporal a), (''runId'', ap_temporal_run a),
       (''signalName'', jor (JStr (ap_signal a)) (JStr ''humanApprovalDecision'')), (''payload'', payload)]"

text \<open>The answer has the signal that was sent, what Temporal said to it, the closed request and the output of the gate.\<close>

record decision_result =
  dr_signal :: jsval
  dr_answer :: jsval
  dr_approval :: approval_row
  dr_output :: jsval

definition decideWorkflowApprovalRequest ::
  "jsval \<Rightarrow> (jsval \<Rightarrow> jsval res) \<Rightarrow> string \<Rightarrow> jsval \<Rightarrow> jsval \<Rightarrow> jsval \<Rightarrow> jsval \<Rightarrow> string \<Rightarrow> ledger \<Rightarrow> int \<Rightarrow> ledger
     \<Rightarrow> decision_result res \<times> ledger" where
  "decideWorkflowApprovalRequest joined signalWorkflow approvalRequestId payload user permissions context decidedAt L0 t L =
     (case assertPermission (JStr ''WORKFLOW_APPROVAL_DECIDE'') permissions ''decide_workflow_approval'' of
        Inl e \<Rightarrow> (Inl e, L)
      | Inr _ \<Rightarrow>
        case find (\<lambda>a. ap_id a = approvalRequestId) (lg_approvals L0) of
          None \<Rightarrow> (Inl (WorkflowServiceError ''Approval request was not found.'' 404
                    (JObj [(''approvalRequestId'', JStr approvalRequestId)])), L)
        | Some a \<Rightarrow>
          if ap_status a \<noteq> ''PENDING''
          then (Inl (WorkflowServiceError ''Approval request has already been decided.'' 409
                 (JObj [(''approvalRequestId'', JStr approvalRequestId), (''status'', JStr (ap_status a))])), L)
          else case assertApprovalRole (ap_role a) permissions of
            Inl e \<Rightarrow> (Inl e, L)
          | Inr _ \<Rightarrow>
            case normalizeApprovalDecision_api (jor (jget payload ''decision'') (jget payload ''status'')) of
              Inl e \<Rightarrow> (Inl e, L)
            | Inr decision \<Rightarrow>
              if \<not> truthy (ap_temporal a)
              then (Inl (WorkflowServiceError ''Approval request is not linked to a Temporal workflow.'' 409
                     (JObj [(''approvalRequestId'', JStr approvalRequestId)])), L)
              else
                (let decisionNote = str_or_null (take 4000 (trim (to_str (jors [jget payload ''decisionNote'', jget payload ''note'', JStr []]))));
                     actor = JObj [(''userId'', or_null (jget user ''userId'')), (''email'', or_null (jget user ''email'')),
                       (''displayName'', display_name user)];
                     signal = decision_signal a (decision_payload a decision decisionNote actor decidedAt)
                 in case signalWorkflow signal of
                      Inl e \<Rightarrow> (Inl e, L)
                    | Inr reply \<Rightarrow>
                        (case resolveWorkflowApprovalRequest (ap_id a) (JStr decision) decisionNote user
                                (JObj [(''decidedVia'', JStr ''api''), (''signalSent'', JBool True), (''signalResult'', reply),
                                       (''requestContext'', getSafeObject context)]) t L of
                           (Inl e, L') \<Rightarrow> (Inl e, L')
                         | (Inr resolved, L') \<Rightarrow>
                             (case buildHumanApprovalOutput_api (approval_view joined resolved) (JStr decision) decisionNote actor False decidedAt of
                                Inl e \<Rightarrow> (Inl e, L')
                              | Inr out \<Rightarrow> (Inr \<lparr>dr_signal = signal, dr_answer = reply, dr_approval = resolved, dr_output = out\<rparr>, L')))))"

section \<open>Starting a run\<close>

definition error_code_char :: "char \<Rightarrow> bool" where
  "error_code_char c = (is_alnum c \<or> c \<in> set ''_.:-'')"

definition getPersistedWorkflowErrorMessage :: "jsval \<Rightarrow> jsval \<Rightarrow> string" where
  "getPersistedWorkflowErrorMessage err context =
     (if \<not> isR4AgentExecutionContext context then error_text err
      else (let candidate = trim (to_str (jors [jget (jget err ''details'') ''code'', jget err ''code'', JStr ''WORKFLOW_EXECUTION_FAILED'']));
                code = (if candidate \<noteq> [] \<and> length candidate \<le> 80 \<and> list_all error_code_char candidate then candidate
                        else ''WORKFLOW_EXECUTION_FAILED'')
            in ''Workflow execution failed ('' @ code @ '').''))"

text \<open>The host: the collation, the message of a JSON syntax error, the repositories, the configuration profile, what the query for
  the definition returns, whether its targets are available, and the answer of Temporal to the request to start a workflow.\<close>

record start_host =
  sh_collate :: "string \<Rightarrow> string \<Rightarrow> bool"
  sh_jsonError :: "string \<Rightarrow> string"
  sh_repositories :: "(string \<times> string) list"
  sh_profile :: string
  sh_definition :: "string \<Rightarrow> jsval \<Rightarrow> jsval res"
  sh_targets :: "jsval \<Rightarrow> unit res"
  sh_start :: "jsval \<Rightarrow> jsval res"

record caller =
  ca_user :: jsval
  ca_session :: jsval
  ca_permissions :: jsval
  ca_context :: jsval

definition start_request :: "caller \<Rightarrow> string \<Rightarrow> string \<Rightarrow> jsval \<Rightarrow> jsval" where
  "start_request C code runId input =
     JObj [(''workflowCode'', JStr code), (''workflowRunRecordId'', JStr runId), (''input'', input), (''actor'', ca_user C),
       (''session'', ca_session C), (''permissions'', ca_permissions C), (''context'', ca_context C)]"

definition temporal_metadata :: "jsval \<Rightarrow> jsval" where
  "temporal_metadata workflow =
     JObj [(''executor'', JStr ''skycommand_workflow_executor_temporal_v1''), (''temporalBacked'', JBool True),
       (''temporalWorkflowType'', jget workflow ''workflowType''), (''temporalTaskQueue'', jget workflow ''taskQueue''),
       (''temporalNamespace'', jget workflow ''namespace'')]"

definition start_failure_metadata :: "jsval \<Rightarrow> jsval \<Rightarrow> jsval" where
  "start_failure_metadata err context =
     (let details = (if isR4AgentExecutionContext context then sanitizeR4AgentValue (jor (jget err ''details'') (JObj [])) []
                     else getSafeObject (jget err ''details''))
      in JObj ([(''executor'', JStr ''skycommand_workflow_executor_temporal_v1''), (''temporalBacked'', JBool True),
          (''startFailure'', JBool True), (''errorMessage'', JStr (getPersistedWorkflowErrorMessage err context))]
         @ (if obj_kvs details = [] then [] else [(''errorDetails'', details)])))"

text \<open>The guards of a start: the definition and the checked input.\<close>

definition admitted_start :: "start_host \<Rightarrow> caller \<Rightarrow> string \<Rightarrow> jsval \<Rightarrow> jsval \<Rightarrow> (jsval \<times> jsval) res" where
  "admitted_start H C workflowCode workflowVersionId input =
     rbind (sh_definition H workflowCode workflowVersionId) (\<lambda>defn.
     rbind (assertPermission (JStr ''WORKFLOW_RUN'') (ca_permissions C) ''start_workflow'') (\<lambda>_.
     rbind (assertPermission (jget defn ''startPermissionCode'') (ca_permissions C) ''start_workflow'') (\<lambda>_.
       if jget defn ''status'' \<noteq> JStr ''ACTIVE''
       then Inl (WorkflowServiceError ''Workflow definition is not active.'' 409
              (JObj [(''workflowCode'', jget defn ''workflowCode''), (''status'', jget defn ''status'')]))
       else if arr_items (jget defn ''nodes'') = []
       then Inl (WorkflowServiceError ''Workflow definition has no enabled nodes.'' 409
              (JObj [(''workflowCode'', jget defn ''workflowCode'')]))
       else rbind (sh_targets H defn) (\<lambda>_.
            rbind (validateWorkflowRuntimeInput (sh_collate H) (sh_jsonError H) (sh_repositories H) defn input False) (\<lambda>checked.
              Inr (defn, if truthy workflowVersionId then obj_with checked [(''workflowVersionId'', jget defn ''publishedVersionId'')]
                         else checked))))))"

definition queued_metadata :: jsval where
  "queued_metadata = JObj [(''executor'', JStr ''skycommand_workflow_executor_temporal_v1''), (''temporalBacked'', JBool True),
     (''queuedByApi'', JBool True)]"

text \<open>The run of a start: a preallocated one that matches the definition, or a new one, under the id that was asked for or \<open>newId\<close>.\<close>

definition start_run :: "start_host \<Rightarrow> caller \<Rightarrow> jsval \<Rightarrow> jsval \<Rightarrow> string \<Rightarrow> string \<Rightarrow> int \<Rightarrow> ledger \<Rightarrow> run_row res \<times> ledger" where
  "start_run H C defn input preallocatedId newId t L =
     (case (if preallocatedId = [] then None else find (\<lambda>r. wr_id r = preallocatedId) (lg_runs L)) of
        Some r \<Rightarrow>
          if jget defn ''workflowCode'' \<noteq> JStr (wr_code r) \<or> jget defn ''publishedVersionId'' \<noteq> wr_version r
          then (Inl (WorkflowServiceError ''Preallocated workflow run does not match the pinned definition.'' 409
                 (JObj [(''workflowCode'', jget defn ''workflowCode''), (''workflowRunRecordId'', JStr preallocatedId),
                        (''workflowVersionId'', jget defn ''publishedVersionId'')])), L)
          else (Inr r, L)
      | None \<Rightarrow>
          (let (r, L') = insertWorkflowRun (sh_profile H) defn input (ca_user C) (ca_context C) (ca_session C) (ca_permissions C) ''QUEUED''
                           queued_metadata (if preallocatedId = [] then newId else preallocatedId) t L
           in (Inr r, L')))"

text \<open>\<open>others\<close> is what happens to the ledger from the insertion of the run until the statement after the answer of Temporal: among
  it all that the workflow does that has just been started.\<close>

definition startWorkflowWithTemporal ::
  "start_host \<Rightarrow> caller \<Rightarrow> string \<Rightarrow> jsval \<Rightarrow> string \<Rightarrow> jsval \<Rightarrow> string \<Rightarrow> int \<Rightarrow> (ledger \<Rightarrow> ledger) \<Rightarrow> ledger \<Rightarrow> (run_row \<times> string) res \<times> ledger" where
  "startWorkflowWithTemporal H C workflowCode workflowVersionId preallocatedId input newId t others L =
     (case admitted_start H C workflowCode workflowVersionId input of
        Inl e \<Rightarrow> (Inl e, L)
      | Inr (defn, checked) \<Rightarrow>
        (case start_run H C defn checked preallocatedId newId t L of
           (Inl e, L1) \<Rightarrow> (Inl e, L1)
         | (Inr r, L1) \<Rightarrow>
           (let L2 = others L1; title = to_str (jget defn ''displayName'')
            in case sh_start H (start_request C (to_str (jget defn ''workflowCode'')) (wr_id r) checked) of
                 Inr reply \<Rightarrow>
                   (let workflow = jget reply ''workflow'';
                        L3 = linkWorkflowRunToTemporal (wr_id r) (jget workflow ''workflowId'') (jget workflow ''runId'')
                               (JStr (''Workflow '' @ title @ '' started through Temporal-backed SkyCommand executor.''))
                               (temporal_metadata workflow) t L2
                    in (Inr (case find (\<lambda>x. wr_id x = wr_id r) (lg_runs L3) of Some r' \<Rightarrow> r' | None \<Rightarrow> r,
                          ''Workflow '' @ title @ '' started through Temporal. Refresh Workflow History to follow node progress.''), L3))
               | Inl err \<Rightarrow>
                   (let text = getPersistedWorkflowErrorMessage err (ca_context C);
                        L3 = updateWorkflowRun (wr_id r) ''FAILED'' (JStr (''Workflow '' @ title @ '' failed to start in Temporal: '' @ text))
                               (start_failure_metadata err (ca_context C)) t L2
                    in (Inl (WorkflowServiceError ''Failed to start Temporal-backed workflow executor.'' 500
                          (JObj [(''workflowCode'', jget defn ''workflowCode''), (''workflowRunRecordId'', JStr (wr_id r)),
                             (''run'', case find (\<lambda>x. wr_id x = wr_id r) (lg_runs L3) of Some r' \<Rightarrow> run_view JUndef r' | None \<Rightarrow> JNull),
                             (''error'', JStr text)])), L3)))))"

section \<open>Retrying\<close>

definition buildRetryAttemptOffsetByNodeKey :: "node_row list \<Rightarrow> (string \<times> int) list" where
  "buildRetryAttemptOffsetByNodeKey node_runs =
     fold (\<lambda>n acc. let key = trim (nd_key n)
           in if key \<noteq> [] \<and> 0 < nd_attempts n
              then kv_set acc key (max (case map_of acc key of Some a \<Rightarrow> a | None \<Rightarrow> 0) (nd_attempts n)) else acc)
       node_runs []"

definition offsets_value :: "(string \<times> int) list \<Rightarrow> jsval" where
  "offsets_value offsets = JObj (map (\<lambda>(k, a). (k, jint a)) offsets)"

definition getNextManualRetryAttemptNumber :: "run_row \<Rightarrow> int" where
  "getNextManualRetryAttemptNumber r =
     (case parse_int (jors [jget (getSafeObject (wr_metadata r)) ''retryAttemptNumber'',
                            jget (getSafeObject (wr_input r)) ''retryAttemptNumber'', jnat 1]) of
        Some n \<Rightarrow> if 0 < n then n + 1 else 2
      | None \<Rightarrow> 2)"

text \<open>\<open>ORDER BY created_at, node_key\<close> with the collation of the database.\<close>

definition getWorkflowNodeRunsForRun :: "(string \<Rightarrow> string \<Rightarrow> bool) \<Rightarrow> string \<Rightarrow> ledger \<Rightarrow> node_row list" where
  "getWorkflowNodeRunsForRun collate runId L =
     sort_by (\<lambda>a b. nd_created a < nd_created b \<or> (nd_created a = nd_created b \<and> collate (nd_key a) (nd_key b)))
       (filter (\<lambda>n. nd_run n = runId) (lg_nodes L))"

definition retry_input :: "run_row \<Rightarrow> (string \<times> int) list \<Rightarrow> string \<Rightarrow> jsval" where
  "retry_input r offsets requestedAt =
     JObj (filter (\<lambda>(k, v). k \<notin> {''parentWorkflowRunRecordId'', ''parentWorkflowCode'', ''parentNodeKey''})
       (obj_kvs (obj_with (getSafeObject (wr_input r))
         [(''runSource'', JStr ''manual''), (''triggerType'', JStr ''MANUAL''), (''retryOfWorkflowRunRecordId'', JStr (wr_id r)),
          (''retryOfWorkflowCode'', JStr (wr_code r)), (''retryOfStatus'', JStr (wr_status r)),
          (''retryAttemptNumber'', jint (getNextManualRetryAttemptNumber r)),
          (''retryAttemptOffsetByNodeKey'', offsets_value offsets), (''retryRequestedAt'', JStr requestedAt)])))"

definition retry_metadata :: "run_row \<Rightarrow> (string \<times> int) list \<Rightarrow> jsval \<Rightarrow> string \<Rightarrow> jsval" where
  "retry_metadata r offsets user requestedAt =
     JObj [(''retryOfWorkflowRunRecordId'', JStr (wr_id r)), (''retryOfWorkflowCode'', JStr (wr_code r)), (''retryOfStatus'', JStr (wr_status r)),
       (''retryRequestedByUserId'', or_null (jget user ''userId'')), (''retryAttemptNumber'', jint (getNextManualRetryAttemptNumber r)),
       (''retryAttemptOffsetByNodeKey'', offsets_value offsets), (''retryRequestedAt'', JStr requestedAt)]"

text \<open>\<open>others\<close> happens while Temporal starts the new run, \<open>meanwhile\<close> between the start and the last update.\<close>

definition retryWorkflowRun ::
  "start_host \<Rightarrow> caller \<Rightarrow> string \<Rightarrow> string \<Rightarrow> string \<Rightarrow> int \<Rightarrow> (ledger \<Rightarrow> ledger) \<Rightarrow> (ledger \<Rightarrow> ledger) \<Rightarrow> ledger \<Rightarrow> run_row option res \<times> ledger" where
  "retryWorkflowRun H C runId requestedAt newId t others meanwhile L =
     (case assertPermission (JStr ''WORKFLOW_RUN'') (ca_permissions C) ''retry_workflow_run'' of
        Inl e \<Rightarrow> (Inl e, L)
      | Inr _ \<Rightarrow>
        case find (\<lambda>r. wr_id r = runId) (lg_runs L) of
          None \<Rightarrow> (Inl (WorkflowServiceError ''Workflow run was not found.'' 404 (JObj [(''workflowRunRecordId'', JStr runId)])), L)
        | Some r \<Rightarrow>
          if \<not> isRetryableRunStatus (JStr (wr_status r))
          then (Inl (WorkflowServiceError ''Only failed, canceled, or terminated workflow runs can be retried.'' 409
                 (JObj [(''workflowRunRecordId'', JStr runId), (''status'', JStr (wr_status r))])), L)
          else
            (let offsets = buildRetryAttemptOffsetByNodeKey (getWorkflowNodeRunsForRun (sh_collate H) (wr_id r) L)
             in case startWorkflowWithTemporal H C (wr_code r) JNull [] (retry_input r offsets requestedAt) newId t others L of
                  (Inl e, L1) \<Rightarrow> (Inl e, L1)
                | (Inr (started, message), L1) \<Rightarrow>
                    (let L2 = updateWorkflowRun (wr_id started) (if wr_status started = [] then ''RUNNING'' else wr_status started)
                                (JStr (to_str (jors [wr_summary started, JStr message, JStr ''Workflow retry started.''])
                                   @ '' Retry of run '' @ wr_id r @ ''.''))
                                (retry_metadata r offsets (ca_user C) requestedAt) t (meanwhile L1)
                     in (Inr (find (\<lambda>x. wr_id x = wr_id started) (lg_runs L2)), L2))))"

section \<open>Recovering a failed node\<close>

record recovery_state =
  rs_run :: run_row
  rs_node :: node_row
  rs_definition :: jsval
  rs_prior :: "node_row list"
  rs_later :: "node_row list"
  rs_values :: "value_row list"

definition executed_statuses :: "string list" where
  "executed_statuses = [''RUNNING'', ''COMPLETED'', ''FAILED'', ''CANCELED'', ''TERMINATED'']"

text \<open>The nodes of the run's version are a parameter; \<open>collate\<close> also orders the context keys.\<close>

definition getWorkflowContextValuesForRun :: "(string \<Rightarrow> string \<Rightarrow> bool) \<Rightarrow> string \<Rightarrow> ledger \<Rightarrow> value_row list" where
  "getWorkflowContextValuesForRun collate runId L =
     sort_by (\<lambda>a b. collate (cv_key a) (cv_key b)) (filter (\<lambda>c. cv_run c = runId) (lg_values L))"

definition getWorkflowNodeRecoveryState ::
  "(string \<Rightarrow> string \<Rightarrow> bool) \<Rightarrow> (jsval \<Rightarrow> jsval list) \<Rightarrow> string \<Rightarrow> jsval \<Rightarrow> ledger \<Rightarrow> recovery_state res" where
  "getWorkflowNodeRecoveryState collate versionNodes runId nodeKey L =
     (let key = trim (to_str (jor nodeKey (JStr [])))
      in if runId = [] \<or> key = []
         then Inl (WorkflowServiceError ''Workflow node recovery requires a run ID and node key.'' 400
                (JObj [(''workflowRunRecordId'', JStr runId), (''nodeKey'', str_or_null key)]))
         else case find (\<lambda>r. wr_id r = runId) (lg_runs L) of
           None \<Rightarrow> Inl (WorkflowServiceError ''Workflow run was not found.'' 404 (JObj [(''workflowRunRecordId'', JStr runId)]))
         | Some r \<Rightarrow>
             (let rows = getWorkflowNodeRunsForRun collate runId L; before = takeWhile (\<lambda>n. nd_key n \<noteq> key) rows;
                  rest = dropWhile (\<lambda>n. nd_key n \<noteq> key) rows
              in case (rest, find (\<lambda>d. jget d ''nodeKey'' = JStr key) (versionNodes (wr_version r))) of
                   (n # later, Some d) \<Rightarrow>
                     Inr \<lparr>rs_run = r, rs_node = n, rs_definition = d,
                       rs_prior = filter (\<lambda>m. to_upper (nd_status m) = ''COMPLETED'') before,
                       rs_later = filter (\<lambda>m. to_upper (nd_status m) \<in> set executed_statuses) later,
                       rs_values = filter (\<lambda>c. cv_source c \<noteq> JStr key) (getWorkflowContextValuesForRun collate runId L)\<rparr>
                 | _ \<Rightarrow> Inl (WorkflowServiceError ''Workflow node was not found in the selected run.'' 404
                            (JObj [(''workflowRunRecordId'', JStr runId), (''nodeKey'', JStr key)]))))"

definition recovery_view :: "jsval \<Rightarrow> recovery_state \<Rightarrow> jsval" where
  "recovery_view joined S =
     JObj [(''run'', run_view joined (rs_run S)), (''nodeRun'', node_view (rs_node S)), (''definitionNode'', rs_definition S),
       (''priorNodeRuns'', JArr (map node_view (rs_prior S))), (''laterExecutedNodeRuns'', JArr (map node_view (rs_later S))),
       (''contextValues'', JArr (map value_view (rs_values S))), (''workflowVersionId'', wr_version (rs_run S))]"

definition next_recovery :: "run_row \<Rightarrow> int" where
  "next_recovery r =
     (case parse_int (jget (wr_metadata r) ''nodeRecoveryAttemptNumber'') of Some n \<Rightarrow> if 0 < n then n + 1 else 1 | None \<Rightarrow> 1)"

definition recovery_entry :: "recovery_state \<Rightarrow> caller \<Rightarrow> string \<Rightarrow> (string \<times> jsval) list" where
  "recovery_entry S C requestedAt =
     [(''nodeKey'', jget (rs_definition S) ''nodeKey''), (''nodeRunRecordId'', JStr (nd_id (rs_node S))), (''requestedAt'', JStr requestedAt),
      (''requestedByUserId'', or_null (jget (ca_user C) ''userId'')), (''recoveryAttemptNumber'', jint (next_recovery (rs_run S))),
      (''previousTemporalWorkflowId'', or_null (wr_temporal (rs_run S))), (''previousTemporalRunId'', or_null (wr_temporal_run (rs_run S)))]"

definition recovery_input :: "recovery_state \<Rightarrow> (string \<times> int) list \<Rightarrow> caller \<Rightarrow> string \<Rightarrow> string \<Rightarrow> jsval" where
  "recovery_input S offsets C requestedAt workflowId =
     obj_with (getSafeObject (wr_input (rs_run S)))
       [(''workflowId'', JStr workflowId), (''workflowVersionId'', wr_version (rs_run S)),
        (''retryAttemptOffsetByNodeKey'', offsets_value offsets),
        (''nodeRecovery'', JObj ([(''active'', JBool True), (''mode'', JStr ''FAILED_NODE_RETRY''),
           (''nodeTypeCode'', jget (rs_definition S) ''nodeTypeCode''), (''targetCode'', or_null (jget (rs_definition S) ''targetCode'')),
           (''requestedByDisplayName'', display_name (ca_user C))] @ recovery_entry S C requestedAt))]"

definition recovery_metadata :: "recovery_state \<Rightarrow> caller \<Rightarrow> string \<Rightarrow> jsval \<Rightarrow> jsval" where
  "recovery_metadata S C requestedAt workflow =
     (let history = arr_items (getSafeArray (jget (wr_metadata (rs_run S)) ''nodeRecoveryHistory''))
            @ [JObj (recovery_entry S C requestedAt
                 @ [(''temporalWorkflowId'', or_null (jget workflow ''workflowId'')), (''temporalRunId'', or_null (jget workflow ''runId''))])]
      in JObj [(''manualNodeRecovery'', JBool True), (''nodeRecoveryActive'', JBool True),
           (''nodeRecoveryNodeKey'', jget (rs_definition S) ''nodeKey''), (''nodeRecoveryNodeRunRecordId'', JStr (nd_id (rs_node S))),
           (''nodeRecoveryAttemptNumber'', jint (next_recovery (rs_run S))), (''nodeRecoveryRequestedAt'', JStr requestedAt),
           (''nodeRecoveryRequestedByUserId'', or_null (jget (ca_user C) ''userId'')),
           (''previousTemporalWorkflowId'', or_null (wr_temporal (rs_run S))), (''previousTemporalRunId'', or_null (wr_temporal_run (rs_run S))),
           (''nodeRecoveryHistory'', JArr (drop (length history - 25) history)), (''errorMessage'', JNull), (''errorName'', JNull)])"

definition recovery_refusal :: "recovery_state \<Rightarrow> string \<Rightarrow> jsval option" where
  "recovery_refusal S runId =
     (let k = jget (rs_definition S) ''nodeKey''; status = JStr (wr_status (rs_run S))
      in if to_upper (wr_status (rs_run S)) \<noteq> ''FAILED''
         then Some (WorkflowServiceError
                ''Failed-node recovery is available only when the workflow run is failed and no longer active.'' 409
                (JObj [(''workflowRunRecordId'', JStr runId), (''status'', status), (''nodeKey'', k)]))
         else if to_upper (nd_status (rs_node S)) \<noteq> ''FAILED''
         then Some (WorkflowServiceError ''Only failed workflow nodes can be manually retried.'' 409
                (JObj [(''workflowRunRecordId'', JStr runId), (''nodeKey'', k), (''nodeStatus'', JStr (nd_status (rs_node S)))]))
         else if rs_later S \<noteq> []
         then Some (WorkflowServiceError ''Only the most recently executed failed node can resume this workflow safely.'' 409
                (JObj [(''workflowRunRecordId'', JStr runId), (''nodeKey'', k), (''laterNodeKeys'', str_arr (map nd_key (rs_later S)))]))
         else None)"

text \<open>The part of a definition from the recovered node on.\<close>

definition remaining_definition :: "jsval \<Rightarrow> jsval \<Rightarrow> jsval" where
  "remaining_definition defn k =
     (let nodes = arr_items (jget defn ''nodes''); rest = dropWhile (\<lambda>n. jget n ''nodeKey'' \<noteq> k) nodes
      in obj_with defn [(''nodes'', JArr (if rest = [] then nodes else rest))])"

definition retryWorkflowNode ::
  "start_host \<Rightarrow> caller \<Rightarrow> (jsval \<Rightarrow> jsval list) \<Rightarrow> string \<Rightarrow> jsval \<Rightarrow> string \<Rightarrow> int \<Rightarrow> (ledger \<Rightarrow> ledger) \<Rightarrow> ledger \<Rightarrow> run_row res \<times> ledger" where
  "retryWorkflowNode H C versionNodes runId nodeKey requestedAt t others L =
     (case rbind (assertPermission (JStr ''WORKFLOW_RUN'') (ca_permissions C) ''retry_workflow_node'') (\<lambda>_.
             rbind (getWorkflowNodeRecoveryState (sh_collate H) versionNodes runId nodeKey L) (\<lambda>S.
               case recovery_refusal S runId of Some e \<Rightarrow> Inl e | None \<Rightarrow>
               rbind (sh_definition H (wr_code (rs_run S)) (wr_version (rs_run S))) (\<lambda>defn.
               rbind (sh_targets H (remaining_definition defn (jget (rs_definition S) ''nodeKey''))) (\<lambda>_. Inr S)))) of
        Inl e \<Rightarrow> (Inl e, L)
      | Inr S \<Rightarrow>
        (let r = rs_run S; k = to_str (jget (rs_definition S) ''nodeKey'');
             offsets = buildRetryAttemptOffsetByNodeKey (getWorkflowNodeRunsForRun (sh_collate H) runId L);
             workflowId = ''skycommand-recovery-'' @ wr_code r @ ''-'' @ take 8 (wr_id r) @ ''-'' @ k @ ''-'' @ to_str (jint t);
             title = to_str (jor (jget (rs_definition S) ''displayName'') (jget (rs_definition S) ''nodeKey''))
         in case sh_start H (start_request C (wr_code r) (wr_id r) (recovery_input S offsets C requestedAt workflowId)) of
              Inl err \<Rightarrow> (Inl (WorkflowServiceError ''Failed to start failed-node recovery in Temporal.'' 500
                  (JObj [(''workflowRunRecordId'', JStr (wr_id r)), (''nodeKey'', JStr k), (''error'', JStr (error_text err))])), others L)
            | Inr reply \<Rightarrow>
                (let workflow = jget reply ''workflow'';
                     L2 = linkWorkflowRunToTemporal (wr_id r) (jget workflow ''workflowId'') (jget workflow ''runId'')
                       (JStr (''Retrying failed node '' @ title
                          @ ''; completed workflow nodes are preserved and execution will continue from this checkpoint.''))
                       (recovery_metadata S C requestedAt workflow) t (others L)
                 in (Inr (case find (\<lambda>x. wr_id x = wr_id r) (lg_runs L2) of Some r' \<Rightarrow> r' | None \<Rightarrow> r), L2))))"

section \<open>What a control action leaves\<close>

lemma others_untouched:
  assumes "\<And>x. p x \<Longrightarrow> \<not> q x" "\<And>x. p x \<Longrightarrow> \<not> q (f x)"
  shows "filter q (update_where p f xs) = filter q xs"
  using assms by (induction xs) (auto simp: update_where_def)

lemma update_where_cases:
  assumes "y \<in> set (update_where p f xs)"
  obtains x where "x \<in> set xs" "p x" "y = f x" | "y \<in> set xs" "\<not> p y"
  using assms by (auto simp: update_where_def split: if_splits)

lemma settled_nodes:
  assumes "n \<in> set (update_where (\<lambda>n. nd_run n = runId \<and> nd_status n \<in> set active_statuses) (finalized_node status summary metadata t) ns)"
    "nd_run n = runId" "status \<notin> set active_statuses"
  shows "nd_status n \<notin> set active_statuses"
  using assms(1)
proof (cases rule: update_where_cases)
  case (1 x)
  with assms(3) show ?thesis by (simp add: finalized_node_def)
qed (use assms(2) in simp)

lemma settled_approvals:
  assumes "a \<in> set (update_where (\<lambda>a. ap_run a = runId \<and> ap_status a = ''PENDING'') (canceled_approval user summary metadata t) as)"
    "ap_run a = runId"
  shows "ap_status a \<noteq> ''PENDING''"
  using assms(1)
proof (cases rule: update_where_cases)
  case (1 x)
  then show ?thesis by (simp add: canceled_approval_def)
qed (use assms(2) in simp)

lemma settled_runs:
  assumes "r \<in> set (update_where (\<lambda>r. wr_id r = runId) (set_run status summary metadata t) rs)" "wr_id r = runId"
    "status \<in> set terminal_statuses"
  shows "wr_status r = status \<and> wr_completed r = Some t"
  using assms(1)
proof (cases rule: update_where_cases)
  case (1 x)
  with assms(3) show ?thesis by (simp add: set_run_def)
qed (use assms(2) in simp)

lemma settled:
  assumes "settle_run runId status user summary metadata t L = (ended, shut, L')" "status \<notin> set active_statuses" "status \<in> set terminal_statuses"
  shows "\<forall>n \<in> set (lg_nodes L'). nd_run n = runId \<longrightarrow> nd_status n \<notin> set active_statuses"
    and "\<forall>a \<in> set (lg_approvals L'). ap_run a = runId \<longrightarrow> ap_status a \<noteq> ''PENDING''"
    and "\<forall>r \<in> set (lg_runs L'). wr_id r = runId \<longrightarrow> wr_status r = status \<and> wr_completed r = Some t"
    and "filter (\<lambda>n. nd_run n \<noteq> runId) (lg_nodes L') = filter (\<lambda>n. nd_run n \<noteq> runId) (lg_nodes L)"
    and "filter (\<lambda>a. ap_run a \<noteq> runId) (lg_approvals L') = filter (\<lambda>a. ap_run a \<noteq> runId) (lg_approvals L)"
    and "filter (\<lambda>r. wr_id r \<noteq> runId) (lg_runs L') = filter (\<lambda>r. wr_id r \<noteq> runId) (lg_runs L)"
    and "lg_values L' = lg_values L"
proof -
  let ?open = "\<lambda>n. nd_run n = runId \<and> nd_status n \<in> set active_statuses" and ?f = "finalized_node status summary metadata t"
  let ?pending = "\<lambda>a. ap_run a = runId \<and> ap_status a = ''PENDING''" and ?g = "canceled_approval user summary metadata t"
  let ?h = "set_run status summary metadata t"
  have L': "L' = snd (snd (settle_run runId status user summary metadata t L))" by (simp add: assms(1))
  have n: "lg_nodes L' = update_where ?open ?f (lg_nodes L)" and a: "lg_approvals L' = update_where ?pending ?g (lg_approvals L)"
    and r: "lg_runs L' = update_where (\<lambda>r. wr_id r = runId) ?h (lg_runs L)" and v: "lg_values L' = lg_values L"
    unfolding L' by (simp_all add: settle_run_def finalizeActiveNodeRunsForRun_def cancelPendingWorkflowApprovalsForRun_def
        updateWorkflowRun_def Let_def)
  show "\<forall>n \<in> set (lg_nodes L'). nd_run n = runId \<longrightarrow> nd_status n \<notin> set active_statuses"
    unfolding n by (intro ballI impI) (rule settled_nodes [OF _ _ assms(2)])
  show "\<forall>a \<in> set (lg_approvals L'). ap_run a = runId \<longrightarrow> ap_status a \<noteq> ''PENDING''"
    unfolding a by (intro ballI impI) (rule settled_approvals)
  show "\<forall>r \<in> set (lg_runs L'). wr_id r = runId \<longrightarrow> wr_status r = status \<and> wr_completed r = Some t"
    unfolding r by (intro ballI impI) (rule settled_runs [OF _ _ assms(3)])
  show "filter (\<lambda>n. nd_run n \<noteq> runId) (lg_nodes L') = filter (\<lambda>n. nd_run n \<noteq> runId) (lg_nodes L)"
    unfolding n by (rule others_untouched) (simp_all add: finalized_node_def)
  show "filter (\<lambda>a. ap_run a \<noteq> runId) (lg_approvals L') = filter (\<lambda>a. ap_run a \<noteq> runId) (lg_approvals L)"
    unfolding a by (rule others_untouched) (simp_all add: canceled_approval_def)
  show "filter (\<lambda>r. wr_id r \<noteq> runId) (lg_runs L') = filter (\<lambda>r. wr_id r \<noteq> runId) (lg_runs L)"
    unfolding r by (rule others_untouched) (simp_all add: set_run_def)
  show "lg_values L' = lg_values L" by (rule v)
qed

lemma final_statuses: "final_status action \<notin> set active_statuses" "final_status action \<in> set terminal_statuses"
  by (simp_all add: final_status_def active_statuses_def terminal_statuses_def)

lemma found_member: "find P xs = Some x \<Longrightarrow> x \<in> set xs \<and> P x"
  by (auto simp: find_Some_iff)

definition has_permission :: "string \<Rightarrow> jsval \<Rightarrow> bool" where
  "has_permission code permissions = list_ex (strict_eq (JStr code)) (WorkflowApprovals.getPermissionSet permissions)"

lemma permission_held: "assertPermission (JStr (c # cs)) permissions x = Inr u \<Longrightarrow> has_permission (c # cs) permissions"
  by (simp add: assertPermission_def has_permission_def split: if_splits)

text \<open>A refused action, and what an accepted one has done.\<close>

lemma control_cases:
  assumes "requestWorkflowRunControlAction joined temporal markFailure runId action reason user permissions requestedAt L0 t L = (res, L')"
  shows "case res of
      Inl e \<Rightarrow> L' = L
    | Inr R \<Rightarrow> control_action action \<in> {''cancel'', ''terminate''}
        \<and> has_permission ''WORKFLOW_RUN'' permissions
        \<and> (\<exists>r \<in> set (lg_runs L0). wr_id r = runId \<and> isActiveRunStatus (JStr (wr_status r)))
        \<and> (\<exists>summary metadata ended shut. settle_run runId (final_status (control_action action)) user summary metadata t L = (ended, shut, L'))"
proof (cases "assertPermission (JStr ''WORKFLOW_RUN'') permissions
    ((if control_action action = [] then ''control'' else control_action action) @ ''_workflow_run'')")
  case (Inl e)
  with assms show ?thesis by (auto simp: requestWorkflowRunControlAction_def Let_def)
next
  case perm: (Inr u)
  note held = permission_held [OF perm]
  show ?thesis
  proof (cases "find (\<lambda>r. wr_id r = runId) (lg_runs L0)")
    case None
    with assms perm show ?thesis by (auto simp: requestWorkflowRunControlAction_def Let_def split: if_splits)
  next
    case (Some r)
    note m = found_member [OF Some]
    let ?why = "take 1000 (trim (to_str (jor reason (JStr []))))"
    show ?thesis
    proof (cases "control_action action \<in> {''cancel'', ''terminate''} \<and> isActiveRunStatus (JStr (wr_status r))")
      case False
      with assms perm Some show ?thesis by (auto simp: requestWorkflowRunControlAction_def Let_def split: if_splits)
    next
      case ok: True
      show ?thesis
        using assms perm held Some ok m
        by (cases "temporal_control temporal (control_action action) ?why user r";
            cases "finalization_failure markFailure (control_action action) r")
          (fastforce simp: requestWorkflowRunControlAction_def Let_def split: prod.splits)+
    qed
  qed
qed


section \<open>What a start leaves\<close>

lemma linked_rows:
  assumes "x \<in> set (lg_runs (linkWorkflowRunToTemporal runId wid rid summary metadata t L))" "wr_id x = runId"
  shows "wr_status x = ''RUNNING'' \<and> wr_completed x = None"
proof -
  have "x \<in> set (update_where (\<lambda>r. wr_id r = runId) (linked_run wid rid summary metadata t) (lg_runs L))"
    using assms(1) by (simp add: linkWorkflowRunToTemporal_def)
  then show ?thesis
  proof (cases rule: update_where_cases)
    case (1 y)
    then show ?thesis by (simp add: linked_run_def)
  qed (use assms(2) in simp)
qed

text \<open>after a successful start the run shows as running and without an end whatever happened to it in between: when the
  workflow it started has already completed or failed it, or a person has terminated it, that is overwritten.\<close>

theorem late_link_reopens:
  assumes "startWorkflowWithTemporal H C workflowCode workflowVersionId preallocatedId input newId t others L = (Inr (r, message), L')"
  shows "\<forall>x \<in> set (lg_runs L'). wr_id x = wr_id r \<longrightarrow> wr_status x = ''RUNNING'' \<and> wr_completed x = None"
proof -
  from assms obtain defn checked q L1 reply where
    a: "admitted_start H C workflowCode workflowVersionId input = Inr (defn, checked)"
    and s: "start_run H C defn checked preallocatedId newId t L = (Inr q, L1)"
    and w: "sh_start H (start_request C (to_str (jget defn ''workflowCode'')) (wr_id q) checked) = Inr reply"
    by (auto simp: startWorkflowWithTemporal_def Let_def split: sum.splits prod.splits)
  define L3 where "L3 = linkWorkflowRunToTemporal (wr_id q) (jget (jget reply ''workflow'') ''workflowId'') (jget (jget reply ''workflow'') ''runId'')
      (JStr (''Workflow '' @ to_str (jget defn ''displayName'') @ '' started through Temporal-backed SkyCommand executor.''))
      (temporal_metadata (jget reply ''workflow'')) t (others L1)"
  have "L' = L3" "r = (case find (\<lambda>x. wr_id x = wr_id q) (lg_runs L3) of Some r' \<Rightarrow> r' | None \<Rightarrow> q)"
    using assms by (auto simp: startWorkflowWithTemporal_def Let_def a s w L3_def)
  moreover from this have "wr_id r = wr_id q" by (auto split: option.splits dest: found_member)
  ultimately show ?thesis using linked_rows unfolding L3_def by metis
qed

section \<open>Attempts and checkpoints\<close>

definition attempts_of :: "string \<Rightarrow> node_row list \<Rightarrow> int set" where
  "attempts_of key ns = {nd_attempts n | n. n \<in> set ns \<and> trim (nd_key n) = key \<and> 0 < nd_attempts n}"

text \<open>The offset that a retry gives to a node is the largest number of attempts that the runs of this node
  have had, and a node without attempts has none.\<close>

theorem offsets_are_maxima:
  "map_of (buildRetryAttemptOffsetByNodeKey ns) key =
     (if key = [] \<or> attempts_of key ns = {} then None else Some (Max (attempts_of key ns)))"
proof (induction ns rule: rev_induct)
  case Nil
  then show ?case by (simp add: buildRetryAttemptOffsetByNodeKey_def attempts_of_def)
next
  case (snoc n ns)
  let ?more = "trim (nd_key n) \<noteq> [] \<and> 0 < nd_attempts n"
  have step: "buildRetryAttemptOffsetByNodeKey (ns @ [n]) =
      (let acc = buildRetryAttemptOffsetByNodeKey ns; k = trim (nd_key n)
       in if ?more then kv_set acc k (max (case map_of acc k of Some a \<Rightarrow> a | None \<Rightarrow> 0) (nd_attempts n)) else acc)"
    by (simp add: buildRetryAttemptOffsetByNodeKey_def Let_def)
  have set: "attempts_of key (ns @ [n]) =
      (if trim (nd_key n) = key \<and> 0 < nd_attempts n then insert (nd_attempts n) (attempts_of key ns) else attempts_of key ns)"
    by (auto simp: attempts_of_def)
  have fin: "finite (attempts_of key ns)" by (simp add: attempts_of_def)
  show ?case
  proof (cases "trim (nd_key n) = key \<and> 0 < nd_attempts n \<and> key \<noteq> []")
    case True
    with snoc fin show ?thesis
      by (cases "attempts_of key ns = {}") (simp_all add: step set Let_def max.commute)
  next
    case False
    with snoc show ?thesis by (auto simp: step set Let_def)
  qed
qed

lemma restored_outputs:
  "restore_outputs outs (map node_view ns) = Inr (fold (\<lambda>n acc. kv_set acc (nd_key n) (getSafeObject (nd_output n))) ns outs)"
  by (induction ns arbitrary: outs) (simp_all add: jread_def node_view_def kv_get_def)

lemma folded_outputs:
  assumes "distinct (map nd_key ns)"
  shows "map_of (fold (\<lambda>n acc. kv_set acc (nd_key n) (getSafeObject (nd_output n))) ns outs) k =
    (case find (\<lambda>n. nd_key n = k) ns of Some n \<Rightarrow> Some (getSafeObject (nd_output n)) | None \<Rightarrow> map_of outs k)"
  using assms
proof (induction ns arbitrary: outs)
  case (Cons n ns)
  have "nd_key n \<notin> nd_key ` set ns" using Cons.prems by simp
  then have "find (\<lambda>m. nd_key m = nd_key n) ns = None" by (metis (mono_tags, lifting) find_None_iff image_eqI)
  then show ?case using Cons by (auto split: option.splits)
qed simp

lemma distinct_insert_by: "distinct (map f (insert_by le x ys)) \<longleftrightarrow> f x \<notin> f ` set ys \<and> distinct (map f ys)"
  by (induction ys) (auto simp: set_insert_by)

lemma distinct_sort_by: "distinct (map f (sort_by le xs)) \<longleftrightarrow> distinct (map f xs)"
proof (induction xs)
  case (Cons x xs)
  have "sort_by le (x # xs) = insert_by le x (sort_by le xs)" by (simp add: sort_by_def)
  with Cons show ?case by (simp add: distinct_insert_by del: distinct_map)
qed (simp add: sort_by_def)

lemma recovery_parts:
  assumes "getWorkflowNodeRecoveryState collate versionNodes runId nodeKey L = Inr S"
  shows "\<exists>before later. getWorkflowNodeRunsForRun collate runId L = before @ rs_node S # later
     \<and> rs_prior S = filter (\<lambda>m. to_upper (nd_status m) = ''COMPLETED'') before
     \<and> rs_later S = filter (\<lambda>m. to_upper (nd_status m) \<in> set executed_statuses) later"
proof -
  let ?key = "trim (to_str (jor nodeKey (JStr [])))" and ?rows = "getWorkflowNodeRunsForRun collate runId L"
  obtain n later where r: "dropWhile (\<lambda>n. nd_key n \<noteq> ?key) ?rows = n # later" and n: "rs_node S = n"
    and p: "rs_prior S = filter (\<lambda>m. to_upper (nd_status m) = ''COMPLETED'') (takeWhile (\<lambda>n. nd_key n \<noteq> ?key) ?rows)"
    and l: "rs_later S = filter (\<lambda>m. to_upper (nd_status m) \<in> set executed_statuses) later"
    using assms by (auto simp: getWorkflowNodeRecoveryState_def Let_def split: if_splits option.splits list.splits)
  have "?rows = takeWhile (\<lambda>n. nd_key n \<noteq> ?key) ?rows @ rs_node S # later" using r n by (metis takeWhile_dropWhile_id)
  with p l show ?thesis by blast
qed

lemma run_keys:
  assumes "ledger_ok L"
  shows "distinct (map nd_key (getWorkflowNodeRunsForRun collate runId L))"
proof -
  have "distinct (map nd_key (filter (\<lambda>n. nd_run n = runId) ns))" if "distinct (map (\<lambda>n. (nd_run n, nd_key n)) ns)" for ns :: "node_row list"
    using that by (induction ns) (auto simp: image_iff)
  then show ?thesis using assms by (simp add: getWorkflowNodeRunsForRun_def distinct_sort_by ledger_ok_def del: distinct_map)
qed

lemma find_by_key: "distinct (map nd_key ns) \<Longrightarrow> n \<in> set ns \<Longrightarrow> find (\<lambda>m. nd_key m = nd_key n) ns = Some n"
  by (induction ns) force+

text \<open>C34 (recovery_restores): when the retry of a failed node is not refused, the durable workflow that is started for it begins with the results of
  exactly those nodes of the run that have completed, each with the output that is stored for it; the failed node is none of them.\<close>

theorem recovery_restores:
  assumes "ledger_ok L" "getWorkflowNodeRecoveryState collate versionNodes runId nodeKey L = Inr S" "recovery_refusal S runId = None"
  shows "\<exists>st. restored_state (recovery_view joined S) = Inr st
     \<and> (\<forall>n \<in> set (lg_nodes L). nd_run n = runId \<and> to_upper (nd_status n) = ''COMPLETED''
           \<longrightarrow> map_of (nodeOutputsByKey st) (nd_key n) = Some (getSafeObject (nd_output n)))
     \<and> (\<forall>k v. map_of (nodeOutputsByKey st) k = Some v
           \<longrightarrow> (\<exists>n \<in> set (lg_nodes L). nd_run n = runId \<and> nd_key n = k \<and> to_upper (nd_status n) = ''COMPLETED''))
     \<and> map_of (nodeOutputsByKey st) (nd_key (rs_node S)) = None"
proof -
  let ?rows = "getWorkflowNodeRunsForRun collate runId L"
  let ?outs = "fold (\<lambda>n acc. kv_set acc (nd_key n) (getSafeObject (nd_output n))) (rs_prior S) []"
  from recovery_parts [OF assms(2)] obtain before later where rows: "?rows = before @ rs_node S # later"
    and prior: "rs_prior S = filter (\<lambda>m. to_upper (nd_status m) = ''COMPLETED'') before"
    and after: "rs_later S = filter (\<lambda>m. to_upper (nd_status m) \<in> set executed_statuses) later" by blast
  have ids: "set ?rows = {n \<in> set (lg_nodes L). nd_run n = runId}" by (auto simp: getWorkflowNodeRunsForRun_def)
  have keys: "distinct (map nd_key ?rows)" by (rule run_keys [OF assms(1)])
  have failed: "to_upper (nd_status (rs_node S)) = ''FAILED''" "rs_later S = []"
    using assms(3) by (auto simp: recovery_refusal_def Let_def split: if_splits)
  have prior_set: "set (rs_prior S) = {n \<in> set ?rows. to_upper (nd_status n) = ''COMPLETED''}"
    using rows prior after failed filter_empty_conv [of "\<lambda>m. to_upper (nd_status m) \<in> set executed_statuses" later]
    by (auto simp: executed_statuses_def)
  have d: "distinct (map nd_key (rs_prior S))" using keys unfolding rows prior by (simp add: distinct_map_filter)
  have look: "map_of ?outs k = (case find (\<lambda>n. nd_key n = k) (rs_prior S) of Some n \<Rightarrow> Some (getSafeObject (nd_output n)) | None \<Rightarrow> None)" for k
    using folded_outputs [OF d, of "[]" k] by (simp split: option.split)
  obtain st where st: "restored_state (recovery_view joined S) = Inr st" "nodeOutputsByKey st = ?outs"
    using restored_outputs [of "[]" "rs_prior S"] by (auto simp: restored_state_def recovery_view_def kv_get_def Let_def getSafeArray_def)
  have "map_of ?outs (nd_key n) = Some (getSafeObject (nd_output n))"
    if "n \<in> set (lg_nodes L)" "nd_run n = runId" "to_upper (nd_status n) = ''COMPLETED''" for n
    using find_by_key [OF d, of n] prior_set ids that look by simp
  moreover have "\<exists>n \<in> set (lg_nodes L). nd_run n = runId \<and> nd_key n = k \<and> to_upper (nd_status n) = ''COMPLETED''" if "map_of ?outs k = Some v" for k v
    using that prior_set ids by (auto simp: look dest!: found_member split: option.splits)
  moreover have "map_of ?outs (nd_key (rs_node S)) = None"
  proof (cases "find (\<lambda>n. nd_key n = nd_key (rs_node S)) (rs_prior S)")
    case (Some n)
    then have "n \<in> set before" "nd_key n = nd_key (rs_node S)" using found_member [OF Some] prior by simp_all
    moreover have "nd_key (rs_node S) \<notin> nd_key ` set before" using keys unfolding rows by simp
    ultimately have False by (metis image_eqI)
    then show ?thesis ..
  qed (simp add: look)
  ultimately show ?thesis using st by auto
qed

section \<open>What a decision needs and does\<close>

lemma decision_again: "decision \<in> set approval_decisions \<Longrightarrow> normalizeApprovalDecision_api (JStr decision) = Inr decision"
proof -
  have "list_all (\<lambda>d. normalizeApprovalDecision_api (JStr d) = Inr d) approval_decisions" by code_simp
  then show "decision \<in> set approval_decisions \<Longrightarrow> ?thesis" by (simp add: list_all_iff)
qed

lemma decision_allowed: "normalizeApprovalDecision_api v = Inr decision \<Longrightarrow> decision \<in> set approval_decisions"
  by (auto simp: normalizeApprovalDecision_api_def Let_def split: if_splits)

lemma resolved_rows:
  assumes "resolveWorkflowApprovalRequest approvalRequestId (JStr decision) dnote user metadata t L = (res, L')" "decision \<in> set approval_decisions"
    "approvalRequestId \<noteq> []"
  shows "L' = L\<lparr>lg_approvals := update_where (\<lambda>a. ap_id a = approvalRequestId) (resolved_approval decision dnote user metadata t) (lg_approvals L)\<rparr>"
  using assms(1,3) decision_again [OF assms(2)] by (auto simp: resolveWorkflowApprovalRequest_def Let_def split: option.splits)

lemma resolved_status:
  assumes "a \<in> set (update_where (\<lambda>a. ap_id a = approvalRequestId) (resolved_approval decision dnote user metadata t) as)" "ap_id a = approvalRequestId"
  shows "ap_status a = decision"
  using assms(1)
proof (cases rule: update_where_cases)
  case (1 x)
  then show ?thesis by (simp add: resolved_approval_def)
qed (use assms(2) in simp)

text \<open>The steps of a successful decision.\<close>

lemma decide_cases:
  assumes "decideWorkflowApprovalRequest joined signalWorkflow approvalRequestId payload user permissions context decidedAt L0 t L = (Inr D, L')"
  shows "\<exists>a decision dnote actor metadata res. has_permission ''WORKFLOW_APPROVAL_DECIDE'' permissions
     \<and> find (\<lambda>a. ap_id a = approvalRequestId) (lg_approvals L0) = Some a \<and> ap_status a = ''PENDING''
     \<and> assertApprovalRole (ap_role a) permissions = Inr () \<and> truthy (ap_temporal a)
     \<and> normalizeApprovalDecision_api (jor (jget payload ''decision'') (jget payload ''status'')) = Inr decision
     \<and> dr_signal D = decision_signal a (decision_payload a decision dnote actor decidedAt)
     \<and> signalWorkflow (dr_signal D) = Inr (dr_answer D)
     \<and> resolveWorkflowApprovalRequest (ap_id a) (JStr decision) dnote user metadata t L = (res, L')"
proof -
  obtain u where p: "assertPermission (JStr ''WORKFLOW_APPROVAL_DECIDE'') permissions ''decide_workflow_approval'' = Inr u"
    using assms by (auto simp: decideWorkflowApprovalRequest_def split: sum.splits)
  obtain a where a: "find (\<lambda>a. ap_id a = approvalRequestId) (lg_approvals L0) = Some a" "ap_status a = ''PENDING''"
    using assms p by (auto simp: decideWorkflowApprovalRequest_def split: option.splits if_splits)
  obtain w where role: "assertApprovalRole (ap_role a) permissions = Inr w"
    using assms p a by (auto simp: decideWorkflowApprovalRequest_def split: sum.splits)
  obtain decision where d: "normalizeApprovalDecision_api (jor (jget payload ''decision'') (jget payload ''status'')) = Inr decision"
    using assms p a role by (auto simp: decideWorkflowApprovalRequest_def split: sum.splits)
  have linked: "truthy (ap_temporal a)" using assms p a role d by (auto simp: decideWorkflowApprovalRequest_def split: if_splits)
  define dnote where "dnote = str_or_null (take 4000 (trim (to_str (jors [jget payload ''decisionNote'', jget payload ''note'', JStr []]))))"
  define actor where "actor = JObj [(''userId'', or_null (jget user ''userId'')), (''email'', or_null (jget user ''email'')),
      (''displayName'', display_name user)]"
  define sig where "sig = decision_signal a (decision_payload a decision dnote actor decidedAt)"
  define metadata where "metadata reply = JObj [(''decidedVia'', JStr ''api''), (''signalSent'', JBool True), (''signalResult'', reply),
      (''requestContext'', getSafeObject context)]" for reply
  have steps: "(case signalWorkflow sig of Inl e \<Rightarrow> (Inl e, L)
      | Inr reply \<Rightarrow> (case resolveWorkflowApprovalRequest (ap_id a) (JStr decision) dnote user (metadata reply) t L of
          (Inl e, L') \<Rightarrow> (Inl e, L')
        | (Inr resolved, L') \<Rightarrow> (case buildHumanApprovalOutput_api (approval_view joined resolved) (JStr decision) dnote actor False decidedAt of
            Inl e \<Rightarrow> (Inl e, L')
          | Inr out \<Rightarrow> (Inr \<lparr>dr_signal = sig, dr_answer = reply, dr_approval = resolved, dr_output = out\<rparr>, L')))) = (Inr D, L')"
    using assms p a role d linked unfolding dnote_def actor_def sig_def metadata_def
    by (simp add: decideWorkflowApprovalRequest_def Let_def del: jors.simps)
  obtain reply where reply: "signalWorkflow sig = Inr reply" using steps by (auto split: sum.splits)
  obtain resolved where res: "resolveWorkflowApprovalRequest (ap_id a) (JStr decision) dnote user (metadata reply) t L = (Inr resolved, L')"
    and D: "dr_signal D = sig" "dr_answer D = reply"
    using steps reply by (auto split: sum.splits prod.splits)
  show ?thesis
    using permission_held [OF p] a role d linked D reply res sig_def by (intro exI conjI) simp_all
qed


section \<open>Cases\<close>

definition sample_run :: "string \<Rightarrow> run_row" where
  "sample_run status =
     \<lparr>wr_id = ''run'', wr_code = ''daily'', wr_definition = JNull, wr_version = JStr ''v1'', wr_version_number = jnat 1, wr_source = JStr ''manual'',
      wr_trigger = JStr ''MANUAL'', wr_status = status, wr_temporal = JStr ''wf'', wr_temporal_run = JNull, wr_input = JObj [], wr_request = JObj [],
      wr_summary = JNull, wr_user = JNull, wr_started = Some 1, wr_completed = Some 2, wr_created = 1, wr_metadata = JObj []\<rparr>"

definition sample_step :: "string \<Rightarrow> string \<Rightarrow> int \<Rightarrow> node_row" where
  "sample_step key status created =
     \<lparr>nd_id = key, nd_run = ''run'', nd_node = JNull, nd_key = key, nd_type = JStr ''TOOL'', nd_target = JNull, nd_status = status, nd_attempts = 1,
      nd_started = Some created, nd_completed = Some created, nd_output = JObj [(''rows'', jnat 3)], nd_error = JNull, nd_metadata = JObj [],
      nd_created = created\<rparr>"

definition sample_approval :: "string \<Rightarrow> approval_row" where
  "sample_approval status =
     \<lparr>ap_id = ''gate'', ap_run = ''run'', ap_node_run = ''b'', ap_node = JNull, ap_node_key = ''b'', ap_key = ''b'', ap_title = JStr ''Release'',
      ap_instructions = JNull, ap_status = status, ap_role = JStr ''OPERATOR'', ap_on_reject = JStr ''STOP_SUCCESS'', ap_on_timeout = JStr ''FAIL_WORKFLOW'',
      ap_timeout = JNull, ap_temporal = JStr ''wf'', ap_temporal_run = JNull, ap_signal = ''humanApprovalDecision'', ap_requested_by = JNull,
      ap_decided_by = JNull, ap_note = JNull, ap_requested = 1, ap_decided = None, ap_expires = JNull, ap_metadata = JObj []\<rparr>"

definition sample_ledger :: "string \<Rightarrow> string \<Rightarrow> string \<Rightarrow> ledger" where
  "sample_ledger run node approval =
     empty_ledger\<lparr>lg_runs := [sample_run run], lg_nodes := [sample_step ''a'' ''COMPLETED'' 1, sample_step ''b'' node 2],
       lg_approvals := [sample_approval approval]\<rparr>"

definition sample_permissions :: jsval where
  "sample_permissions = JArr [JObj [(''permissionCode'', JStr ''WORKFLOW_RUN''), (''grantedThroughRoles'', JStr ''{operator}'')],
     JObj [(''permissionCode'', JStr ''WORKFLOW_APPROVAL_DECIDE'')]]"

abbreviation sample_control :: "control_result res \<times> ledger" where
  "sample_control \<equiv> requestWorkflowRunControlAction JUndef (\<lambda>_. Inr JNull) (\<lambda>_ _. Inr ()) ''run'' (JStr ''cancel'') JUndef JUndef sample_permissions
     ''2026-01-01'' (sample_ledger ''RUNNING'' ''RUNNING'' ''PENDING'') 9 (sample_ledger ''RUNNING'' ''RUNNING'' ''PENDING'')"


definition sample_host :: start_host where
  "sample_host = \<lparr>sh_collate = (\<lambda>_ _. True), sh_jsonError = id, sh_repositories = [], sh_profile = ''local'',
     sh_definition = (\<lambda>_ _. Inr (JObj [(''workflowCode'', JStr ''daily''), (''displayName'', JStr ''Daily''), (''status'', JStr ''ACTIVE''),
       (''nodes'', JArr [JObj [(''nodeKey'', JStr ''a'')]]), (''edges'', JArr [])])),
     sh_targets = (\<lambda>_. Inr ()), sh_start = (\<lambda>_. Inr (JObj [(''workflow'', JObj [(''workflowId'', JStr ''wf'')])]))\<rparr>"

definition sample_caller :: caller where
  "sample_caller = \<lparr>ca_user = JUndef, ca_session = JNull, ca_permissions = sample_permissions, ca_context = JObj []\<rparr>"

text \<open>The workflow completes the run before the API has linked it.\<close>

abbreviation quick_start :: "(run_row \<times> string) res \<times> ledger" where
  "quick_start \<equiv> startWorkflowWithTemporal sample_host sample_caller ''daily'' JNull [] (JObj []) ''new'' 5
     (completeWorkflowRun ''new'' (JStr ''done'') JUndef 7) empty_ledger"

theorem late_link_reopens_witness:
  "\<exists>r message L'. quick_start = (Inr (r, message), L') \<and> wr_id r = ''new''
     \<and> (\<forall>x \<in> set (lg_runs L'). wr_id x = ''new'' \<longrightarrow> wr_status x = ''RUNNING'' \<and> wr_completed x = None)"
proof -
  have ok: "case fst quick_start of Inr (r, message) \<Rightarrow> wr_id r = ''new'' | Inl e \<Rightarrow> False" by code_simp
  obtain res L' where r: "quick_start = (res, L')" by fastforce
  from ok obtain r message where "res = Inr (r, message)" "wr_id r = ''new''" unfolding r by (auto split: sum.splits)
  with late_link_reopens r show ?thesis by metis
qed

theorem recovery_restores_witness:
  "\<exists>S st. getWorkflowNodeRecoveryState (\<lambda>_ _. True) (\<lambda>_. [JObj [(''nodeKey'', JStr ''b'')]]) ''run'' (JStr ''b'')
       (sample_ledger ''FAILED'' ''FAILED'' ''APPROVED'') = Inr S
     \<and> restored_state (recovery_view JUndef S) = Inr st \<and> map_of (nodeOutputsByKey st) ''b'' = None
     \<and> map_of (nodeOutputsByKey st) ''a'' = Some (JObj [(''rows'', jnat 3)])"
proof -
  let ?L = "sample_ledger ''FAILED'' ''FAILED'' ''APPROVED''"
  let ?S = "getWorkflowNodeRecoveryState (\<lambda>_ _. True) (\<lambda>_. [JObj [(''nodeKey'', JStr ''b'')]]) ''run'' (JStr ''b'') ?L"
  have ok: "ledger_ok ?L" by code_simp
  have "case ?S of Inr S \<Rightarrow> recovery_refusal S ''run'' = None \<and> nd_key (rs_node S) = ''b'' | Inl e \<Rightarrow> False" by code_simp
  then obtain S where S: "?S = Inr S" "recovery_refusal S ''run'' = None" "nd_key (rs_node S) = ''b''" by (auto split: sum.splits)
  have a: "sample_step ''a'' ''COMPLETED'' 1 \<in> set (lg_nodes ?L)" "nd_run (sample_step ''a'' ''COMPLETED'' 1) = ''run''"
    "nd_key (sample_step ''a'' ''COMPLETED'' 1) = ''a''" "getSafeObject (nd_output (sample_step ''a'' ''COMPLETED'' 1)) = JObj [(''rows'', jnat 3)]"
    by (simp_all add: sample_ledger_def sample_step_def)
  have c: "to_upper (nd_status (sample_step ''a'' ''COMPLETED'' 1)) = ''COMPLETED''" by code_simp
  obtain st where st: "restored_state (recovery_view JUndef S) = Inr st" "map_of (nodeOutputsByKey st) (nd_key (rs_node S)) = None"
    "map_of (nodeOutputsByKey st) (nd_key (sample_step ''a'' ''COMPLETED'' 1)) = Some (getSafeObject (nd_output (sample_step ''a'' ''COMPLETED'' 1)))"
    using recovery_restores [OF ok S(1,2), of JUndef] a(1,2) c by blast
  with a(3,4) S(1,3) show ?thesis by auto
qed

text \<open>Two decisions on the same request: the second was read while the request was pending and overwrites the first.\<close>

abbreviation late_decision :: "decision_result res \<times> ledger" where
  "late_decision \<equiv> decideWorkflowApprovalRequest JUndef (\<lambda>_. Inr JNull) ''gate'' (JObj [(''decision'', JStr ''approve'')]) JUndef sample_permissions JUndef
     ''2026-01-01'' (sample_ledger ''RUNNING'' ''RUNNING'' ''PENDING'') 9 (sample_ledger ''RUNNING'' ''RUNNING'' ''REJECTED'')"


end
