(* ===== verification/WorkflowGraphs.thy ===== *)
theory WorkflowGraphs
  imports WorkflowApprovals JsonRoundTrip
begin

text \<open>
  The graph that a workflow's author submits (\<open>apps/api/src/services/workflowExecutorService.js\<close>, lines 362-376, 397-485, 893-924,
  1009-1130, 1132-1184, 3981-4240, 4942-5073 and 6275-6290): its nodes are normalized, get distinct keys, and the branches of
  condition and approval nodes are checked before nodes and edges are stored.  The parser of URLs, the texts of the engine's
  syntax errors and the errors of the database's constraints are the fields of \<open>graph_host\<close>.  What a column of type \<open>jsonb\<close>
  gives back is \<open>json_clone\<close> of what was stored.
\<close>

section \<open>Waits\<close>

definition normalizeWaitUnit_api :: "jsval \<Rightarrow> string res" where
  "normalizeWaitUnit_api v =
     (let unit = via_alias wait_unit_aliases (normal_token is_upper (jor v (JStr ''SECONDS'')))
      in if map_of WAIT_UNIT_MULTIPLIERS_MS unit = None
         then Inl (WorkflowServiceError ''Unsupported WAIT duration unit.'' 400
                (JObj [(''unit'', v), (''allowed'', str_arr (map fst WAIT_UNIT_MULTIPLIERS_MS))]))
         else Inr unit)"

definition DEFAULT_WAIT_DURATION_MS :: rat where
  "DEFAULT_WAIT_DURATION_MS = 1000"

definition parseWaitDurationMs_api :: "jsval \<Rightarrow> int res" where
  "parseWaitDurationMs_api ps =
     (let input = getSafeObject ps;
          rawDurationMs = jnull_or (jget input ''durationMs'') (jnull_or (jget input ''waitMs'') (jget input ''delayMs''))
      in if \<not> isBlankValue rawDurationMs
         then (case positive_num rawDurationMs of
                 None \<Rightarrow> Inl (WorkflowServiceError ''WAIT durationMs must be a positive number.'' 400 (JObj [(''durationMs'', rawDurationMs)]))
               | Some ms \<Rightarrow> Inr (round_half_up ms))
         else rbind (normalizeWaitUnit_api (jors [jget input ''unit'', jget input ''durationUnit'', JStr ''SECONDS''])) (\<lambda>unit.
           let rawDuration = jnull_or (jget input ''duration'') (jnull_or (jget input ''waitDuration'')
                 (jnull_or (jget input ''delayDuration'') (jnum (DEFAULT_WAIT_DURATION_MS / unit_ms WAIT_UNIT_MULTIPLIERS_MS unit))))
           in case positive_num rawDuration of
                None \<Rightarrow> Inl (WorkflowServiceError ''WAIT duration must be a positive number.'' 400 (JObj [(''duration'', rawDuration)]))
              | Some d \<Rightarrow> Inr (round_half_up (d * unit_ms WAIT_UNIT_MULTIPLIERS_MS unit))))"

definition normalizeWaitParameters_api :: "jsval \<Rightarrow> jsval res" where
  "normalizeWaitParameters_api ps =
     (let input = getSafeObject ps
      in rbind (normalizeWaitUnit_api (jors [jget input ''unit'', jget input ''durationUnit'', JStr ''SECONDS''])) (\<lambda>unit.
         rbind (parseWaitDurationMs_api (obj_with input [(''unit'', JStr unit)])) (\<lambda>durationMs.
         if MAX_WAIT_DURATION_MS < durationMs
         then Inl (WorkflowServiceError ''WAIT nodes are capped at 24 hours.'' 400
                (JObj [(''durationMs'', jint durationMs), (''maxDurationMs'', jint MAX_WAIT_DURATION_MS)]))
         else Inr (obj_with input
           [(''duration'', JNum (if \<not> isBlankValue (jget input ''duration'') then to_num (jget input ''duration'')
                                 else Fin (of_int durationMs / unit_ms WAIT_UNIT_MULTIPLIERS_MS unit))),
            (''unit'', JStr unit), (''durationMs'', jint durationMs),
            (''reason'', JStr (take 500 (trim (to_str (jors [jget input ''reason'', jget input ''note'', JStr []])))))]))))"

section \<open>API calls, summaries, retries\<close>

record graph_host =
  gh_url :: "string \<Rightarrow> (string \<times> string) option"
  gh_url_error :: "string \<Rightarrow> string"
  gh_json_error :: "string \<Rightarrow> string"
  gh_refused :: "string \<Rightarrow> jsval"

definition http_methods :: "string list" where
  "http_methods = [''GET'', ''POST'', ''PUT'', ''PATCH'', ''DELETE'', ''HEAD'', ''OPTIONS'']"

definition normalizeHttpMethod :: "jsval \<Rightarrow> string res" where
  "normalizeHttpMethod v =
     (let method = to_upper (trim (to_str (jor v (JStr ''GET''))))
      in if method \<in> set http_methods then Inr method
         else Inl (WorkflowServiceError ''Unsupported API_CALL HTTP method.'' 400
                (JObj [(''method'', JStr method), (''allowed'', str_arr http_methods)])))"

definition normalizeApiUrl :: "graph_host \<Rightarrow> jsval \<Rightarrow> string res" where
  "normalizeApiUrl h v =
     (let raw = trim (to_str (jor v (JStr [])))
      in if raw = [] then Inl (WorkflowServiceError ''API_CALL url is required.'' 400 (JObj []))
         else case gh_url h raw of
           None \<Rightarrow> Inl (WorkflowServiceError ''API_CALL url must be a valid absolute URL.'' 400
                     (JObj [(''url'', JStr raw), (''parseError'', JStr (gh_url_error h raw))]))
         | Some (protocol, href) \<Rightarrow>
             if protocol \<in> {''http:'', ''https:''} then Inr href
             else Inl (WorkflowServiceError ''API_CALL only supports http and https URLs.'' 400 (JObj [(''protocol'', JStr protocol)])))"

definition auth_mode_aliases :: "(string \<times> string) list" where
  "auth_mode_aliases =
     [([], ''AUTO''), (''AUTO'', ''AUTO''), (''AUTOMATIC'', ''AUTO''), (''NO_AUTH'', ''NONE''), (''NONE'', ''NONE''),
      (''INTERNAL'', ''SKYCOMMAND_INTERNAL''), (''INTERNAL_SERVICE'', ''SKYCOMMAND_INTERNAL''),
      (''SKY_COMMAND_INTERNAL'', ''SKYCOMMAND_INTERNAL''), (''SKYCOMMAND_INTERNAL'', ''SKYCOMMAND_INTERNAL''),
      (''SKY_SERVER_INTERNAL'', ''SKYCOMMAND_INTERNAL''), (''SKYSERVER_INTERNAL'', ''SKYCOMMAND_INTERNAL'')]"

definition auth_modes :: "string list" where
  "auth_modes = [''AUTO'', ''NONE'', ''SKYCOMMAND_INTERNAL'']"

definition normalizeApiAuthMode :: "jsval \<Rightarrow> string res" where
  "normalizeApiAuthMode v =
     (let mode = via_alias auth_mode_aliases (normal_token token_char (jor v (JStr ''AUTO'')))
      in if mode \<in> set auth_modes then Inr mode
         else Inl (WorkflowServiceError ''Unsupported API_CALL auth mode.'' 400
                (JObj [(''authMode'', v), (''allowed'', str_arr auth_modes)])))"

definition parseJsonText :: "graph_host \<Rightarrow> jsval \<Rightarrow> jsval \<Rightarrow> string \<Rightarrow> jsval res" where
  "parseJsonText h v fallback fieldName =
     (if is_nullish v \<or> v = JStr [] then Inr fallback
      else if jtypeof v = ''object'' then Inr v
      else case json_parse (to_str v) of
        Some x \<Rightarrow> Inr x
      | None \<Rightarrow> Inl (WorkflowServiceError (fieldName @ '' must be valid JSON.'') 400
                  (JObj [(''fieldName'', JStr fieldName), (''parseError'', JStr (gh_json_error h (to_str v)))])))"

definition not_false :: "jsval \<Rightarrow> bool" where
  "not_false v = (v \<noteq> JBool False \<and> v \<noteq> JStr ''false'')"

definition summary_text :: "jsval \<Rightarrow> string list \<Rightarrow> string" where
  "summary_text ps ks = trim (to_str (jors (map (jget (getSafeObject ps)) ks @ [JStr []])))"

definition summary_flag :: "jsval \<Rightarrow> string \<Rightarrow> bool" where
  "summary_flag ps k = not_false (jget (getSafeObject ps) k)"

definition normalizeSummaryParameters :: "jsval \<Rightarrow> jsval" where
  "normalizeSummaryParameters ps = JObj
     [(''title'', JStr (summary_text ps [''title''])), (''summaryTemplate'', JStr (summary_text ps [''summaryTemplate'', ''template''])),
      (''technicalDetailsTemplate'', JStr (summary_text ps [''technicalDetailsTemplate'', ''technicalTemplate''])),
      (''recommendedNextActions'', JStr (summary_text ps [''recommendedNextActions''])),
      (''includeKeyOutputs'', JBool (summary_flag ps ''includeKeyOutputs'')), (''includeWarnings'', JBool (summary_flag ps ''includeWarnings'')),
      (''includeTimings'', JBool (summary_flag ps ''includeTimings''))]"

text \<open>\<open>normalizePositiveNumber\<close> is the function that the durable workflow calls \<open>normalizePositiveInteger\<close>.\<close>

definition normalizeWorkflowNodeRetryPolicy :: "jsval \<Rightarrow> jsval" where
  "normalizeWorkflowNodeRetryPolicy v =
     (let policy = getSafeObject v
      in if list_ex (has_own policy) [''maximumAttempts'', ''maximum_attempts'', ''initialIntervalSeconds'', ''initial_interval_seconds'']
         then JObj
           [(''maximumAttempts'', jint (normalizePositiveInteger (jor (jget policy ''maximumAttempts'') (jget policy ''maximum_attempts'')) 1 10)),
            (''initialIntervalSeconds'', jint (normalizePositiveInteger
               (jor (jget policy ''initialIntervalSeconds'') (jget policy ''initial_interval_seconds'')) 5 3600))]
         else JObj [])"

definition normalizeWorkflowNodeTimeoutMs :: "jsval \<Rightarrow> int option res" where
  "normalizeWorkflowNodeTimeoutMs v =
     (let text = trim (to_str (jnull_or v (JStr [])));
          refused = WorkflowServiceError ''Workflow node timeoutMs must be blank or a positive number up to 24 hours.'' 400
                      (JObj [(''timeoutMs'', v), (''maxTimeoutMs'', jint 86400000)])
      in if text = [] then Inr None
         else case parse_int (JStr text) of
           None \<Rightarrow> Inl refused
         | Some n \<Rightarrow> if n \<le> 0 \<or> 86400000 < n then Inl refused else Inr (Some n))"

section \<open>Nodes\<close>

definition SUPPORTED_NODE_TYPES :: "string list" where
  "SUPPORTED_NODE_TYPES =
     [''TOOL'', ''API_CALL'', ''WORKFLOW'', ''TEMPORAL_WORKFLOW'', ''CONDITION'', ''WAIT'', ''HUMAN_APPROVAL'', ''SUMMARY'',
      ''BROWSER_TEST'', ''BROWSER_TEST_SUITE'', ''BROWSER_AUTOMATION'']"

definition type_names :: "(string \<times> string) list" where
  "type_names =
     [(''API_CALL'', ''Call API''), (''CONDITION'', ''Evaluate Condition''), (''HUMAN_APPROVAL'', ''Human Approval''),
      (''SUMMARY'', ''Generate Run Summary''), (''WAIT'', ''Wait / Delay''), (''TEMPORAL_WORKFLOW'', ''Start Temporal Workflow''),
      (''TOOL'', ''Run Tool''), (''WORKFLOW'', ''Run Child Workflow''), (''BROWSER_TEST'', ''Run Playwright Test''),
      (''BROWSER_TEST_SUITE'', ''Run Playwright Test Suite''), (''BROWSER_AUTOMATION'', ''Run Playwright Automation'')]"

definition getNodeDisplayNameForType :: "string \<Rightarrow> string" where
  "getNodeDisplayNameForType t = (case map_of type_names t of Some n \<Rightarrow> n | None \<Rightarrow> ''Workflow node'')"

definition builder_cards :: "(string \<times> string) list" where
  "builder_cards =
     [(''API_CALL'', ''api''), (''WORKFLOW'', ''workflow''), (''TEMPORAL_WORKFLOW'', ''temporal''), (''CONDITION'', ''condition''),
      (''WAIT'', ''wait''), (''HUMAN_APPROVAL'', ''human_approval''), (''SUMMARY'', ''summary''), (''BROWSER_TEST'', ''playwright_test''),
      (''BROWSER_TEST_SUITE'', ''playwright_test_suite''), (''BROWSER_AUTOMATION'', ''playwright_automation'')]"

definition default_config :: "string \<Rightarrow> jsval" where
  "default_config t = JObj [(''builderCard'', JStr (case map_of builder_cards t of Some c \<Rightarrow> c | None \<Rightarrow> ''tool''))]"

record graph_node =
  gn_key :: string
  gn_type :: string
  gn_display :: string
  gn_description :: "string option"
  gn_target :: "string option"
  gn_input :: jsval
  gn_retry :: jsval
  gn_timeout :: "int option"
  gn_x :: rat
  gn_y :: rat
  gn_order :: rat
  gn_enabled :: bool
  gn_config :: jsval

text \<open>The loop that appends \<open>_2\<close>, \<open>_3\<close>, ... until the key is not taken.\<close>

definition suffixed :: "string \<Rightarrow> nat \<Rightarrow> string" where
  "suffixed base n = base @ ''_'' @ nat_str n"

lemma suffixed_inj [simp]: "suffixed base m = suffixed base n \<longleftrightarrow> m = n"
  by (auto simp: suffixed_def dest: arg_cong [of _ _ digits_val])

definition taken_from :: "string \<Rightarrow> string list \<Rightarrow> nat \<Rightarrow> nat set" where
  "taken_from base seen n = {m. n \<le> m \<and> suffixed base m \<in> set seen}"

lemma finite_taken: "finite (taken_from base seen n)"
proof -
  have "finite (suffixed base -` set seen)" by (rule finite_vimageI) (auto intro: injI)
  then show ?thesis by (rule rev_finite_subset) (auto simp: taken_from_def)
qed

function next_key :: "string \<Rightarrow> string list \<Rightarrow> nat \<Rightarrow> string" where
  "next_key base seen n = (if suffixed base n \<in> set seen then next_key base seen (Suc n) else suffixed base n)"
  by pat_completeness auto
termination
proof (relation "measure (\<lambda>(base, seen, n). card (taken_from base seen n))")
  fix base seen n
  assume "suffixed base n \<in> set seen"
  then have "n \<in> taken_from base seen n" "n \<notin> taken_from base seen (Suc n)"
    and "taken_from base seen (Suc n) \<subseteq> taken_from base seen n"
    by (auto simp: taken_from_def)
  then show "((base, seen, Suc n), (base, seen, n)) \<in> measure (\<lambda>(base, seen, n). card (taken_from base seen n))"
    using finite_taken by (auto intro!: psubset_card_mono)
qed simp

declare next_key.simps [simp del]

definition unique_key :: "string \<Rightarrow> string list \<Rightarrow> string" where
  "unique_key base seen = (if base \<in> set seen then next_key base seen 2 else base)"

definition target_codes :: "jsval \<Rightarrow> string \<Rightarrow> jsval \<Rightarrow> jsval" where
  "target_codes node t input =
     jors (map (jget node) [''targetCode'', ''toolCode'', ''workflowCode'', ''temporalWorkflowCode'', ''testCode'', ''suiteCode'', ''automationCode'']
       @ [if t = ''API_CALL'' then jors [jget input ''url'', jget node ''url'', JStr []] else JStr []])"

definition missing_target :: "string \<Rightarrow> string option" where
  "missing_target t =
     map_of ([(''TOOL'', ''Each TOOL node requires targetCode.''),
              (''WORKFLOW'', ''Each WORKFLOW node requires a child workflow targetCode.''),
              (''TEMPORAL_WORKFLOW'', ''Each TEMPORAL_WORKFLOW node requires an approved Temporal workflow template targetCode.'')]
       @ map (\<lambda>b. (b, ''Each '' @ b @ '' node requires targetCode.'')) [''BROWSER_TEST'', ''BROWSER_TEST_SUITE'', ''BROWSER_AUTOMATION'']) t"

definition field_of :: "nat \<Rightarrow> string \<Rightarrow> string" where
  "field_of index field = ''nodes['' @ nat_str index @ ''].'' @ field"

text \<open>The parameters that a type of node requires; only those of a summary are replaced by their normal form.\<close>

definition checked_input :: "graph_host \<Rightarrow> jsval \<Rightarrow> nat \<Rightarrow> string \<Rightarrow> string \<Rightarrow> jsval \<Rightarrow> jsval res" where
  "checked_input h node index t target input =
     (if t = ''API_CALL''
      then rbind (normalizeApiUrl h (jor (jget input ''url'') (JStr target))) (\<lambda>_.
           rbind (normalizeHttpMethod (jor (jget input ''method'') (JStr ''GET''))) (\<lambda>_.
           rbind (normalizeApiAuthMode (jor (jget input ''authMode'') (JStr ''AUTO''))) (\<lambda>_.
           rbind (parseJsonText h (jnull_or (jget input ''headersJson'') (jget input ''headers'')) (JObj []) (field_of index ''headersJson'')) (\<lambda>_.
           rbind (parseJsonText h (jnull_or (jget input ''bodyJson'') (jget input ''body'')) JNull (field_of index ''bodyJson'')) (\<lambda>_.
           Inr input)))))
      else if t = ''CONDITION'' then rbind (normalizeConditionParameters input) (\<lambda>_. Inr input)
      else if t = ''WAIT'' then rbind (normalizeWaitParameters_api input) (\<lambda>_. Inr input)
      else if t = ''HUMAN_APPROVAL'' then rbind (normalizeHumanApprovalParameters_api input node) (\<lambda>_. Inr input)
      else if t = ''SUMMARY'' then Inr (normalizeSummaryParameters input)
      else Inr input)"

definition number_or :: "jsval \<Rightarrow> rat \<Rightarrow> rat" where
  "number_or v d = (case finite_num v of Some r \<Rightarrow> r | None \<Rightarrow> d)"

definition text_option :: "string \<Rightarrow> string option" where
  "text_option s = (if s = [] then None else Some s)"

definition requested_type :: "jsval \<Rightarrow> string" where
  "requested_type v = to_upper (trim (to_str (jor (jget v ''nodeTypeCode'') (JStr ''TOOL''))))"

definition given_input :: "jsval \<Rightarrow> jsval" where
  "given_input v = getSafeObject (jget v ''inputParameters'')"

definition requested_target :: "jsval \<Rightarrow> string" where
  "requested_target v = trim (to_str (target_codes v (requested_type v) (given_input v)))"

definition node_base :: "jsval \<Rightarrow> nat \<Rightarrow> string" where
  "node_base v index =
     (let own = nat_str (index + 1)
      in normalizeNodeKey (jors [jget v ''nodeKey'', jget v ''displayName'', JStr (requested_target v),
           JStr (to_lower (requested_type v) @ ''_'' @ own)]) (''node_'' @ own))"

definition built_node :: "jsval \<Rightarrow> nat \<Rightarrow> string list \<Rightarrow> jsval \<Rightarrow> int option \<Rightarrow> graph_node" where
  "built_node v index seenKeys input timeoutMs =
     \<lparr>gn_key = unique_key (node_base v index) seenKeys, gn_type = requested_type v,
      gn_display = trim (to_str (jors [jget v ''displayName'', jget v ''label'', JStr (requested_target v),
                                       JStr (getNodeDisplayNameForType (requested_type v))])),
      gn_description = text_option (trim (to_str (jor (jget v ''description'') (JStr [])))),
      gn_target = text_option (requested_target v), gn_input = input,
      gn_retry = normalizeWorkflowNodeRetryPolicy (jget v ''retryPolicy''), gn_timeout = timeoutMs,
      gn_x = number_or (jget v ''positionX'') (80 + of_nat index * 280), gn_y = number_or (jget v ''positionY'') 120,
      gn_order = number_or (jget v ''displayOrder'') (of_nat (index + 1) * 10), gn_enabled = (jget v ''enabled'' \<noteq> JBool False),
      gn_config = (if is_obj (jget v ''config'') then jget v ''config'' else default_config (requested_type v))\<rparr>"

definition normalizeCreateNodeInput :: "graph_host \<Rightarrow> jsval \<Rightarrow> nat \<Rightarrow> string list \<Rightarrow> graph_node res" where
  "normalizeCreateNodeInput h node index seenKeys =
     rbind (jread node ''nodeTypeCode'') (\<lambda>_.
       let t = requested_type node; target = requested_target node
       in if t \<notin> set SUPPORTED_NODE_TYPES
          then Inl (WorkflowServiceError ''Workflow Builder currently supports TOOL, API_CALL, WORKFLOW, TEMPORAL_WORKFLOW, CONDITION, WAIT, HUMAN_APPROVAL, SUMMARY, BROWSER_TEST, BROWSER_TEST_SUITE, and BROWSER_AUTOMATION nodes.'' 400
                 (JObj [(''nodeTypeCode'', JStr t), (''supportedNodeTypes'', str_arr SUPPORTED_NODE_TYPES)]))
          else if target = [] \<and> missing_target t \<noteq> None
          then Inl (WorkflowServiceError (the (missing_target t)) 400 (JObj [(''index'', jnat index)]))
          else rbind (checked_input h node index t target (given_input node)) (\<lambda>input.
               rbind (normalizeWorkflowNodeTimeoutMs (jget node ''timeoutMs'')) (\<lambda>timeoutMs.
               Inr (built_node node index seenKeys input timeoutMs))))"

text \<open>\<open>nodes.map(...)\<close> with the keys seen so far.\<close>

fun normalized_from :: "graph_host \<Rightarrow> jsval list \<Rightarrow> nat \<Rightarrow> string list \<Rightarrow> graph_node list res" where
  "normalized_from h [] index seen = Inr []"
| "normalized_from h (v # vs) index seen =
     rbind (normalizeCreateNodeInput h v index seen) (\<lambda>n.
     rbind (normalized_from h vs (Suc index) (gn_key n # seen)) (\<lambda>ns. Inr (n # ns)))"

definition normalized_nodes :: "graph_host \<Rightarrow> jsval list \<Rightarrow> graph_node list res" where
  "normalized_nodes h vs = normalized_from h vs 0 []"

text \<open>A stored node as the input of a copy; a column without a value reads as null.\<close>

definition null_or_str :: "string option \<Rightarrow> jsval" where
  "null_or_str = case_option JNull JStr"

definition copied_node :: "graph_node \<Rightarrow> jsval" where
  "copied_node n = JObj
     [(''nodeKey'', JStr (gn_key n)), (''nodeTypeCode'', JStr (gn_type n)), (''displayName'', JStr (gn_display n)),
      (''description'', jor (null_or_str (gn_description n)) (JStr [])), (''targetCode'', null_or_str (gn_target n)),
      (''inputParameters'', getSafeObject (gn_input n)), (''retryPolicy'', getSafeObject (gn_retry n)),
      (''timeoutMs'', case gn_timeout n of Some i \<Rightarrow> jint i | None \<Rightarrow> JNull),
      (''positionX'', jnum (gn_x n)), (''positionY'', jnum (gn_y n)), (''displayOrder'', jnum (gn_order n)),
      (''enabled'', JBool (gn_enabled n)),
      (''config'', if is_obj (gn_config n) then gn_config n else JObj [(''builderCard'', JStr ''tool'')])]"

definition versionNodesToCreateInput :: "graph_node list \<Rightarrow> jsval list" where
  "versionNodesToCreateInput = map copied_node"

section \<open>Branches\<close>

definition key_index :: "graph_node list \<Rightarrow> string \<Rightarrow> nat option" where
  "key_index ns = map_of (rev (zip (map gn_key ns) [0..<length ns]))"

fun first_error :: "('a \<Rightarrow> unit res) \<Rightarrow> 'a list \<Rightarrow> unit res" where
  "first_error f [] = Inr ()"
| "first_error f (x # xs) = rbind (f x) (\<lambda>_. first_error f xs)"

definition condition_targets :: "jsval \<Rightarrow> (string \<times> string) list" where
  "condition_targets p = filter (\<lambda>(label, target). target \<noteq> [])
     [(''TRUE'', normalizeConditionBranchTargetNodeKey (jget p ''trueTargetNodeKey'')),
      (''FALSE'', normalizeConditionBranchTargetNodeKey (jget p ''falseTargetNodeKey''))]"

definition check_branch :: "(string \<Rightarrow> nat option) \<Rightarrow> string \<Rightarrow> (string \<times> jsval) list \<Rightarrow> nat \<Rightarrow> string \<Rightarrow> unit res" where
  "check_branch indexOf what details index target =
     (case indexOf target of
        None \<Rightarrow> Inl (WorkflowServiceError (what @ '' target node was not found in this workflow graph.'') 400 (JObj details))
      | Some i \<Rightarrow>
          if i \<le> index
          then Inl (WorkflowServiceError (what @ '' targets must point to later nodes in the sequential lane.'') 400
                 (JObj (details @ [(''currentDisplayOrder'', jnat (index + 1)), (''targetDisplayOrder'', jnat (i + 1))])))
          else Inr ())"

definition check_condition :: "(string \<Rightarrow> nat option) \<Rightarrow> nat \<times> graph_node \<Rightarrow> unit res" where
  "check_condition indexOf = (\<lambda>(index, n).
     if gn_type n \<noteq> ''CONDITION'' then Inr ()
     else rbind (normalizeConditionParameters (gn_input n)) (\<lambda>p.
       let t = normalizeConditionBranchTargetNodeKey (jget p ''trueTargetNodeKey'');
           f = normalizeConditionBranchTargetNodeKey (jget p ''falseTargetNodeKey'')
       in if t \<noteq> [] \<and> t = f
          then Inl (WorkflowServiceError ''Condition true and false branches must target different nodes in Branching v1.'' 400
                 (JObj [(''nodeKey'', JStr (gn_key n)), (''targetNodeKey'', JStr t)]))
          else first_error (\<lambda>(label, target). check_branch indexOf ''Condition branch''
                 [(''nodeKey'', JStr (gn_key n)), (''branchLabel'', JStr label), (''targetNodeKey'', JStr target)] index target)
               (condition_targets p)))"

definition validateConditionBranchTargets :: "graph_node list \<Rightarrow> unit res" where
  "validateConditionBranchTargets ns = first_error (check_condition (key_index ns)) (enumerate 0 ns)"

definition reject_target :: "graph_node \<Rightarrow> string" where
  "reject_target n = normalizeConditionBranchTargetNodeKey
     (jor (jget (gn_input n) ''rejectTargetNodeKey'') (jget (gn_input n) ''rejectionTargetNodeKey''))"

definition check_approval :: "(string \<Rightarrow> nat option) \<Rightarrow> nat \<times> graph_node \<Rightarrow> unit res" where
  "check_approval indexOf = (\<lambda>(index, n).
     if gn_type n \<noteq> ''HUMAN_APPROVAL'' \<or> reject_target n = [] then Inr ()
     else check_branch indexOf ''Human approval rejection branch''
       [(''nodeKey'', JStr (gn_key n)), (''targetNodeKey'', JStr (reject_target n))] index (reject_target n))"

definition validateHumanApprovalBranchTargets :: "graph_node list \<Rightarrow> unit res" where
  "validateHumanApprovalBranchTargets ns = first_error (check_approval (key_index ns)) (enumerate 0 ns)"

section \<open>Keys\<close>

lemma next_key_free: "next_key base seen n \<notin> set seen"
proof (induction base seen n rule: next_key.induct)
  case (1 base seen n)
  then show ?case by (subst next_key.simps) simp
qed

lemma unique_key_free [simp]: "unique_key base seen \<notin> set seen"
  by (simp add: unique_key_def next_key_free)

lemma unique_key_kept [simp]: "base \<notin> set seen \<Longrightarrow> unique_key base seen = base"
  by (simp add: unique_key_def)

lemma node_input_elim:
  assumes "normalizeCreateNodeInput h v index seen = Inr n"
  obtains input timeoutMs where "\<not> is_nullish v" and "requested_type v \<in> set SUPPORTED_NODE_TYPES"
    and "requested_target v \<noteq> [] \<or> missing_target (requested_type v) = None"
    and "checked_input h v index (requested_type v) (requested_target v) (given_input v) = Inr input"
    and "normalizeWorkflowNodeTimeoutMs (jget v ''timeoutMs'') = Inr timeoutMs" and "n = built_node v index seen input timeoutMs"
  using assms by (auto simp: normalizeCreateNodeInput_def rbind_Inr_iff jread_Inr_iff Let_def split: if_splits)

lemma is_obj_summary [simp]: "is_obj (normalizeSummaryParameters v)"
  by (simp add: normalizeSummaryParameters_def Let_def)

lemma is_obj_given [simp]: "is_obj (given_input v)"
  by (simp add: given_input_def)

lemma checked_input_is:
  "checked_input h v index t target input = Inr x \<Longrightarrow> x = (if t = ''SUMMARY'' then normalizeSummaryParameters input else input)"
  by (auto simp: checked_input_def rbind_Inr_iff split: if_splits)

lemma timeout_range: "normalizeWorkflowNodeTimeoutMs v = Inr (Some ms) \<Longrightarrow> 0 < ms \<and> ms \<le> 86400000"
  by (auto simp: normalizeWorkflowNodeTimeoutMs_def Let_def split: if_splits option.splits)

lemma node_input_facts:
  assumes "normalizeCreateNodeInput h v index seen = Inr n"
  shows "gn_key n \<notin> set seen" and "gn_type n \<in> set SUPPORTED_NODE_TYPES" and "is_obj (gn_input n)" and "is_obj (gn_config n)"
    and "gn_timeout n = Some ms \<Longrightarrow> 0 < ms \<and> ms \<le> 86400000"
  using assms
  by (auto elim!: node_input_elim simp: built_node_def default_config_def dest!: checked_input_is timeout_range)

lemma normalized_from_keys:
  "normalized_from h vs index seen = Inr ns \<Longrightarrow> distinct (map gn_key ns) \<and> set (map gn_key ns) \<inter> set seen = {}"
proof (induction vs arbitrary: index seen ns)
  case (Cons v vs)
  then obtain n ms where n: "normalizeCreateNodeInput h v index seen = Inr n"
    and ms: "normalized_from h vs (Suc index) (gn_key n # seen) = Inr ms" and "ns = n # ms"
    by (auto simp: rbind_Inr_iff)
  with Cons.IH [OF ms] node_input_facts(1) [OF n] show ?case by auto
qed simp

lemma normalized_from_each:
  "normalized_from h vs index seen = Inr ns \<Longrightarrow> n \<in> set ns \<Longrightarrow> \<exists>v \<in> set vs. \<exists>i s. normalizeCreateNodeInput h v i s = Inr n"
proof (induction vs arbitrary: index seen ns)
  case (Cons v vs)
  then show ?case by (auto simp: rbind_Inr_iff) blast+
qed simp

lemma normalized_from_length: "normalized_from h vs index seen = Inr ns \<Longrightarrow> length ns = length vs"
  by (induction vs arbitrary: index seen ns) (auto simp: rbind_Inr_iff)

lemma distinct_keys: "normalized_nodes h vs = Inr ns \<Longrightarrow> distinct (map gn_key ns)"
  unfolding normalized_nodes_def by (drule normalized_from_keys) simp

section \<open>Branches point forward\<close>

lemma first_error_Inr: "first_error f xs = Inr u \<longleftrightarrow> (\<forall>x \<in> set xs. f x = Inr ())"
  by (induction xs) (auto simp: rbind_Inr_iff)

lemma key_index_Some: "key_index ns k = Some i \<Longrightarrow> i < length ns \<and> gn_key (ns ! i) = k"
  unfolding key_index_def by (drule map_of_SomeD) (auto simp: in_set_zip)

lemma check_branch_Inr: "check_branch f w ds index t = Inr u \<longleftrightarrow> (\<exists>i. f t = Some i \<and> index < i)"
  by (auto simp: check_branch_def split: option.splits)

lemma condition_forward:
  assumes "validateConditionBranchTargets ns = Inr u" and "i < length ns" and "gn_type (ns ! i) = ''CONDITION''"
  obtains p where "normalizeConditionParameters (gn_input (ns ! i)) = Inr p"
    and "\<And>passed. selected_target p passed \<noteq> [] \<Longrightarrow> \<exists>j. key_index ns (selected_target p passed) = Some j \<and> i < j"
proof -
  have "(i, ns ! i) \<in> set (enumerate 0 ns)" using assms(2) by (simp add: in_set_enumerate_eq)
  with assms have "check_condition (key_index ns) (i, ns ! i) = Inr ()"
    by (auto simp: validateConditionBranchTargets_def first_error_Inr)
  then obtain p where p: "normalizeConditionParameters (gn_input (ns ! i)) = Inr p"
    and targets: "\<forall>(label, t) \<in> set (condition_targets p). \<exists>j. key_index ns t = Some j \<and> i < j"
    using assms(3) by (fastforce simp: check_condition_def rbind_Inr_iff Let_def first_error_Inr check_branch_Inr split: if_splits)
  obtain tt ft where t: "jget p ''trueTargetNodeKey'' = JStr tt" "trim tt = tt" "jget p ''falseTargetNodeKey'' = JStr ft" "trim ft = ft"
    using condition_parameters [OF p] by blast
  have norm: "normalizeConditionBranchTargetNodeKey (JStr x) = trim x" for x
    by (cases "x = []") (simp_all add: normalizeConditionBranchTargetNodeKey_def jor_def)
  show thesis
  proof (rule that [OF p])
    fix passed assume "selected_target p passed \<noteq> []"
    then show "\<exists>j. key_index ns (selected_target p passed) = Some j \<and> i < j"
      using targets t by (auto simp: condition_targets_def norm selected_target_def split: if_splits)
  qed
qed

lemma approval_forward:
  assumes "validateHumanApprovalBranchTargets ns = Inr u" and "i < length ns" and "gn_type (ns ! i) = ''HUMAN_APPROVAL''"
    and "reject_target (ns ! i) \<noteq> []"
  shows "\<exists>j. key_index ns (reject_target (ns ! i)) = Some j \<and> i < j"
proof -
  have "(i, ns ! i) \<in> set (enumerate 0 ns)" using assms(2) by (simp add: in_set_enumerate_eq)
  with assms show ?thesis
    by (auto simp: validateHumanApprovalBranchTargets_def first_error_Inr check_approval_def check_branch_Inr)
qed

section \<open>Copies\<close>

lemma nat_str_plain: "list_all (\<lambda>c. \<not> is_ws c) (nat_str n)"
  using nat_str_digits [of n] by (auto simp: list_all_iff is_digit_def is_ws_def)

lemma parse_int_nat_str: "parse_int (JStr (nat_str n)) = Some (int n)"
proof -
  obtain d ds where d: "nat_str n = d # ds" "is_digit d" using nat_str_digits [of n] by (cases "nat_str n") auto
  then have "\<not> is_ws d" "d \<noteq> CHR ''-''" "d \<noteq> CHR ''+''" by (auto simp: is_digit_def is_ws_def)
  with d have "split_sign (trim_start (nat_str n)) = (False, nat_str n)" by (simp add: trim_start_def split_sign_def)
  then show ?thesis using nat_str_digits [of n] by (simp add: parse_int_def takeWhile_eq_all_conv [THEN iffD2] list_all_iff)
qed

lemma to_str_jint: "0 < i \<Longrightarrow> to_str (jint i) = nat_str (nat i)"
  using rat_str_int [of i] by (simp add: jint_def sign_text_def)

lemma parse_int_jint: "0 < i \<Longrightarrow> parse_int (jint i) = Some i"
  using parse_int_nat_str [of "nat i"] to_str_jint [of i] by (simp add: parse_int_def)

lemma positive_kept: "0 < i \<Longrightarrow> i \<le> m \<Longrightarrow> normalizePositiveInteger (jint i) d m = i"
  by (simp add: normalizePositiveInteger_def parse_int_jint)

lemma positive_range: "0 < d \<Longrightarrow> d \<le> m \<Longrightarrow> 0 < normalizePositiveInteger v d m \<and> normalizePositiveInteger v d m \<le> m"
  by (auto simp: normalizePositiveInteger_def split: option.splits)

lemma truthy_jint: "0 < i \<Longrightarrow> truthy (jint i)"
  by (simp add: jint_def)

lemma retry_again [simp]: "normalizeWorkflowNodeRetryPolicy (normalizeWorkflowNodeRetryPolicy v) = normalizeWorkflowNodeRetryPolicy v"
  using positive_range [of 1 10] positive_range [of 5 3600]
  by (simp add: normalizeWorkflowNodeRetryPolicy_def has_own_def Let_def jor_def truthy_jint positive_kept)

lemma is_obj_retry [simp]: "is_obj (normalizeWorkflowNodeRetryPolicy v)"
  by (simp add: normalizeWorkflowNodeRetryPolicy_def Let_def)

lemma timeout_again:
  assumes "normalizeWorkflowNodeTimeoutMs v = Inr t"
  shows "normalizeWorkflowNodeTimeoutMs (case t of Some i \<Rightarrow> jint i | None \<Rightarrow> JNull) = Inr t"
proof (cases t)
  case None
  then show ?thesis by (simp add: normalizeWorkflowNodeTimeoutMs_def jnull_or_def)
next
  case (Some i)
  then have i: "0 < i" "i \<le> 86400000"
    using assms by (auto simp: normalizeWorkflowNodeTimeoutMs_def Let_def split: if_splits option.splits)
  then have s: "trim (to_str (jint i)) = nat_str (nat i)" "\<not> is_nullish (jint i)"
    using trim_none [OF nat_str_plain] by (simp_all add: to_str_jint) (simp add: jint_def)
  show ?thesis
    using Some i s parse_int_nat_str [of "nat i"] nat_str_digits [of "nat i"]
    by (simp add: normalizeWorkflowNodeTimeoutMs_def jnull_or_def)
qed

lemma jors_step: "jors (v # vs @ [w]) = jor v (jors (vs @ [w]))"
  by (cases vs) (simp_all add: jor_def)

lemma summary_text_kept:
  "jget (getSafeObject ps) k = JStr (trim s) \<Longrightarrow> \<forall>k' \<in> set ks. jget (getSafeObject ps) k' = JUndef \<Longrightarrow> summary_text ps (k # ks) = trim s"
proof -
  assume "jget (getSafeObject ps) k = JStr (trim s)" and none: "\<forall>k' \<in> set ks. jget (getSafeObject ps) k' = JUndef"
  moreover have "jors (map (jget (getSafeObject ps)) ks @ [JStr []]) = JStr []" using none by (induction ks) (simp_all add: jors_step jor_def)
  ultimately show ?thesis by (cases "trim s = []") (simp_all add: summary_text_def jors_step jor_def)
qed

lemma summary_again [simp]: "normalizeSummaryParameters (normalizeSummaryParameters v) = normalizeSummaryParameters v"
proof -
  let ?N = "normalizeSummaryParameters v"
  have get: "jget (getSafeObject ?N) ''title'' = JStr (summary_text v [''title''])"
    "jget (getSafeObject ?N) ''summaryTemplate'' = JStr (summary_text v [''summaryTemplate'', ''template''])"
    "jget (getSafeObject ?N) ''technicalDetailsTemplate'' = JStr (summary_text v [''technicalDetailsTemplate'', ''technicalTemplate''])"
    "jget (getSafeObject ?N) ''recommendedNextActions'' = JStr (summary_text v [''recommendedNextActions''])"
    "jget (getSafeObject ?N) ''template'' = JUndef" "jget (getSafeObject ?N) ''technicalTemplate'' = JUndef"
    "jget (getSafeObject ?N) ''includeKeyOutputs'' = JBool (summary_flag v ''includeKeyOutputs'')"
    "jget (getSafeObject ?N) ''includeWarnings'' = JBool (summary_flag v ''includeWarnings'')"
    "jget (getSafeObject ?N) ''includeTimings'' = JBool (summary_flag v ''includeTimings'')"
    by (simp_all add: normalizeSummaryParameters_def)
  have kept: "jget (getSafeObject ?N) k = JStr (summary_text v ks') \<Longrightarrow> \<forall>k' \<in> set ks. jget (getSafeObject ?N) k' = JUndef
      \<Longrightarrow> summary_text ?N (k # ks) = summary_text v ks'" for k ks ks'
    using summary_text_kept [of ?N k] unfolding summary_text_def [of v] by blast
  have flag: "summary_flag ?N k = b" if "jget (getSafeObject ?N) k = JBool b" for k b
    using that by (simp add: summary_flag_def not_false_def)
  show ?thesis
    by (subst (1 3) normalizeSummaryParameters_def)
      (simp only: kept [OF get(1)] kept [OF get(2)] kept [OF get(3)] kept [OF get(4)] get(5,6) flag [OF get(7)] flag [OF get(8)]
        flag [OF get(9)] list.set ball_empty ball_simps singleton_iff simp_thms)
qed

lemma parsed_field: "parseJsonText h v d f = Inr x \<Longrightarrow> \<exists>y. parseJsonText h v d f' = Inr y"
  by (auto simp: parseJsonText_def split: if_splits option.splits)

lemma isl_rbind: "isl (rbind m f) \<longleftrightarrow> isl m \<or> isl (f (projr m))"
  by (cases m) simp_all

lemma isl_false: "\<not> isl r \<longleftrightarrow> (\<exists>y. r = Inr y)"
  by (cases r) auto

lemma approval_of_copy:
  assumes "normalizeHumanApprovalParameters_api input v = Inr x" and "jget w ''displayName'' = JStr d" and "trim d \<noteq> []"
  shows "\<exists>y. normalizeHumanApprovalParameters_api input w = Inr y"
proof -
  let ?title = "\<lambda>v. trim (to_str (jors [jget (getSafeObject input) ''approvalTitle'', jget (getSafeObject input) ''title'',
      jget v ''displayName'', JStr ''Approval required'']))"
  have "d \<noteq> []" using assms(3) by auto
  have ok: "\<not> isl (normalizeHumanApprovalParameters_api input v)" using assms(1) by simp
  have "?title v \<noteq> []"
    using assms(1) unfolding normalizeHumanApprovalParameters_api_def by (auto simp only: Let_def rbind_Inr_iff split: if_splits)
  then have "?title w \<noteq> []" using assms(2,3) \<open>d \<noteq> []\<close> by (auto split: if_splits)
  then have "\<not> isl (normalizeHumanApprovalParameters_api input w)"
    using ok \<open>?title v \<noteq> []\<close> unfolding normalizeHumanApprovalParameters_api_def Let_def
    by (simp only: isl_rbind if_False simp_thms sum.disc if_distrib [of isl] cong: if_cong)
  then show ?thesis by (simp only: isl_false)
qed

lemma supported_upper: "t \<in> set SUPPORTED_NODE_TYPES \<Longrightarrow> t \<noteq> [] \<and> to_upper (trim t) = t"
  unfolding SUPPORTED_NODE_TYPES_def by (elim set_ConsD [elim_format] disjE) (simp_all, code_simp+)

definition restorable :: "graph_node \<Rightarrow> bool" where
  "restorable n = (normalizeNodeKey (JStr (gn_key n)) [] = gn_key n \<and> gn_key n \<noteq> [] \<and> gn_display n \<noteq> []
     \<and> (gn_type n = ''API_CALL'' \<longrightarrow> gn_target n \<noteq> None))"

lemma copied_get [simp]:
  "jget (copied_node n) ''nodeKey'' = JStr (gn_key n)" "jget (copied_node n) ''nodeTypeCode'' = JStr (gn_type n)"
  "jget (copied_node n) ''displayName'' = JStr (gn_display n)" "jget (copied_node n) ''label'' = JUndef"
  "jget (copied_node n) ''description'' = jor (null_or_str (gn_description n)) (JStr [])"
  "jget (copied_node n) ''targetCode'' = null_or_str (gn_target n)" "jget (copied_node n) ''url'' = JUndef"
  "jget (copied_node n) ''inputParameters'' = getSafeObject (gn_input n)" "jget (copied_node n) ''retryPolicy'' = getSafeObject (gn_retry n)"
  "jget (copied_node n) ''timeoutMs'' = (case gn_timeout n of Some i \<Rightarrow> jint i | None \<Rightarrow> JNull)"
  "jget (copied_node n) ''positionX'' = jnum (gn_x n)" "jget (copied_node n) ''positionY'' = jnum (gn_y n)"
  "jget (copied_node n) ''displayOrder'' = jnum (gn_order n)" "jget (copied_node n) ''enabled'' = JBool (gn_enabled n)"
  "jget (copied_node n) ''config'' = (if is_obj (gn_config n) then gn_config n else JObj [(''builderCard'', JStr ''tool'')])"
  "jget (copied_node n) ''toolCode'' = JUndef" "jget (copied_node n) ''workflowCode'' = JUndef"
  "jget (copied_node n) ''temporalWorkflowCode'' = JUndef" "jget (copied_node n) ''testCode'' = JUndef"
  "jget (copied_node n) ''suiteCode'' = JUndef" "jget (copied_node n) ''automationCode'' = JUndef"
  by (simp_all add: copied_node_def)

lemma copied_not_nullish [simp]: "\<not> is_nullish (copied_node n)"
  by (simp add: copied_node_def)

lemma copied_targets:
  "target_codes (copied_node n) t input = (case gn_target n of
     None \<Rightarrow> if t = ''API_CALL'' then jors [jget input ''url'', JUndef, JStr []] else JStr []
   | Some c \<Rightarrow> if c = [] then target_codes (copied_node (n\<lparr>gn_target := None\<rparr>)) t input else JStr c)"
  by (auto simp: target_codes_def null_or_str_def jors_step jor_def split: option.splits)

lemma number_or_num [simp]: "number_or (jnum r) d = r"
  by (simp add: number_or_def finite_num_def)

lemma description_again: "trim (to_str (jor (jor (null_or_str (text_option (trim s))) (JStr [])) (JStr []))) = trim s"
  by (cases "trim s = []") (simp_all add: null_or_str_def text_option_def jor_def)

lemma built_sel [simp]:
  "gn_type (built_node v i s input tm) = requested_type v" "gn_target (built_node v i s input tm) = text_option (requested_target v)"
  "gn_input (built_node v i s input tm) = input" "gn_timeout (built_node v i s input tm) = tm"
  "gn_retry (built_node v i s input tm) = normalizeWorkflowNodeRetryPolicy (jget v ''retryPolicy'')"
  "gn_description (built_node v i s input tm) = text_option (trim (to_str (jor (jget v ''description'') (JStr []))))"
  "gn_display (built_node v i s input tm) = trim (to_str (jors [jget v ''displayName'', jget v ''label'', JStr (requested_target v),
     JStr (getNodeDisplayNameForType (requested_type v))]))"
  "gn_x (built_node v i s input tm) = number_or (jget v ''positionX'') (80 + of_nat i * 280)"
  "gn_y (built_node v i s input tm) = number_or (jget v ''positionY'') 120"
  "gn_order (built_node v i s input tm) = number_or (jget v ''displayOrder'') (of_nat (i + 1) * 10)"
  "gn_enabled (built_node v i s input tm) = (jget v ''enabled'' \<noteq> JBool False)"
  "gn_key (built_node v i s input tm) = unique_key (node_base v i) s"
  by (simp_all add: built_node_def)

lemma built_config:
  "gn_config (built_node v i s input tm) = (if is_obj (jget v ''config'') then jget v ''config'' else default_config (requested_type v))"
  by (simp add: built_node_def)

lemma is_obj_built [simp]: "is_obj (gn_config (built_node v i s input tm))"
  by (simp add: built_config default_config_def)

lemma jors_str: "d \<noteq> [] \<Longrightarrow> jors (JStr d # vs) = JStr d"
  by (cases vs) simp_all

lemma getSafeObject_kept: "is_obj v \<Longrightarrow> getSafeObject v = v"
  by (simp add: getSafeObject_def)

lemma copied_type: "gn_type n \<in> set SUPPORTED_NODE_TYPES \<Longrightarrow> requested_type (copied_node n) = gn_type n"
  using supported_upper [of "gn_type n"] by (simp add: requested_type_def jor_def)

lemma copied_input: "is_obj (gn_input n) \<Longrightarrow> given_input (copied_node n) = gn_input n"
  by (simp add: given_input_def getSafeObject_def)

lemma copied_target:
  assumes "gn_type n \<in> set SUPPORTED_NODE_TYPES" and "gn_target n = text_option (trim s)" and "gn_type n = ''API_CALL'' \<longrightarrow> gn_target n \<noteq> None"
  shows "requested_target (copied_node n) = trim s"
  using assms by (cases "trim s = []") (simp_all add: requested_target_def copied_targets copied_type text_option_def)

lemma copied_checked:
  assumes "checked_input h v i t target raw = Inr input" and "is_obj raw" and "gn_display n \<noteq> []" and "trim (gn_display n) = gn_display n"
  shows "checked_input h (copied_node n) j t target input = Inr input"
proof (cases "t = ''API_CALL'' \<or> t = ''HUMAN_APPROVAL''")
  case True
  then consider "t = ''API_CALL''" | "t = ''HUMAN_APPROVAL''" by blast
  then show ?thesis
  proof cases
    case 1
    with assms(1) show ?thesis
      by (auto simp: checked_input_def rbind_Inr_iff dest: parsed_field [where f' = "field_of j ''headersJson''"]
          parsed_field [where f' = "field_of j ''bodyJson''"])
  next
    case 2
    with assms(1) obtain x where "normalizeHumanApprovalParameters_api input v = Inr x" by (auto simp: checked_input_def rbind_Inr_iff)
    then show ?thesis using approval_of_copy [of input v x "copied_node n" "gn_display n"] assms(3,4) 2
      by (auto simp: checked_input_def rbind_Inr_iff)
  qed
next
  case False
  with assms(1) show ?thesis by (auto simp: checked_input_def rbind_Inr_iff split: if_splits)
qed

lemma copied_node_again:
  assumes n: "normalizeCreateNodeInput h v i s = Inr n" and "restorable n" and "gn_key n \<notin> set seen"
  shows "normalizeCreateNodeInput h (copied_node n) j seen = Inr n"
proof -
  from n obtain input tm where v: "requested_type v \<in> set SUPPORTED_NODE_TYPES"
    "requested_target v \<noteq> [] \<or> missing_target (requested_type v) = None"
    "checked_input h v i (requested_type v) (requested_target v) (given_input v) = Inr input"
    "normalizeWorkflowNodeTimeoutMs (jget v ''timeoutMs'') = Inr tm" and b: "n = built_node v i s input tm"
    by (rule node_input_elim)
  have obj: "is_obj input" using checked_input_is [OF v(3)] by simp
  have ty: "requested_type (copied_node n) = requested_type v" using copied_type [of n] v(1) b by simp
  have tg: "requested_target (copied_node n) = requested_target v"
    using copied_target [of n] v(1) b assms(2) by (simp add: requested_target_def [of v] restorable_def)
  have inp: "given_input (copied_node n) = input" using copied_input [of n] obj b by simp
  have disp: "gn_display n \<noteq> []" "trim (gn_display n) = gn_display n" using assms(2) b by (simp_all add: restorable_def del: jors.simps)
  have chk: "checked_input h (copied_node n) j (requested_type v) (requested_target v) input = Inr input"
    using copied_checked [OF v(3) _ disp] by simp
  have time: "normalizeWorkflowNodeTimeoutMs (jget (copied_node n) ''timeoutMs'') = Inr tm"
    using timeout_again [OF v(4)] b by simp
  have key: "unique_key (node_base (copied_node n) j) seen = gn_key n"
    using assms(2,3) by (simp add: node_base_def Let_def restorable_def normalizeNodeKey_def split: if_splits)
  have "built_node (copied_node n) j seen input tm = n"
  proof (rule graph_node.equality)
    show "gn_key (built_node (copied_node n) j seen input tm) = gn_key n" using key by simp
    show "gn_display (built_node (copied_node n) j seen input tm) = gn_display n" using disp by (simp add: jors_str del: jors.simps)
    show "gn_description (built_node (copied_node n) j seen input tm) = gn_description n"
      using description_again by (simp add: b)
    show "gn_config (built_node (copied_node n) j seen input tm) = gn_config n"
      unfolding built_config [of "copied_node n"] by (simp add: b)
  qed (use b ty tg in \<open>simp_all add: getSafeObject_kept\<close>)
  moreover have "normalizeCreateNodeInput h (copied_node n) j seen = Inr (built_node (copied_node n) j seen input tm)"
    using v(1,2) ty tg inp chk time
    by (cases "missing_target (requested_type v)") (auto simp: normalizeCreateNodeInput_def jread_def Let_def simp del: copied_get(10))
  ultimately show ?thesis by simp
qed

lemma copied_from:
  assumes "\<forall>n \<in> set ns. restorable n \<and> (\<exists>v i s. normalizeCreateNodeInput h v i s = Inr n)"
    and "distinct (map gn_key ns)" and "set (map gn_key ns) \<inter> set seen = {}"
  shows "normalized_from h (map copied_node ns) j seen = Inr ns"
  using assms
proof (induction ns arbitrary: j seen)
  case (Cons n ns)
  then obtain v i s where "normalizeCreateNodeInput h v i s = Inr n" "restorable n" "gn_key n \<notin> set seen" by auto
  then have "normalizeCreateNodeInput h (copied_node n) j seen = Inr n" by (rule copied_node_again)
  moreover have "normalized_from h (map copied_node ns) (Suc j) (gn_key n # seen) = Inr ns"
    using Cons.prems by (intro Cons.IH) auto
  ultimately show ?case by simp
qed simp


definition sample_graph_host :: graph_host where
  "sample_graph_host = \<lparr>gh_url = \<lambda>s. Some (''https:'', s), gh_url_error = \<lambda>s. s, gh_json_error = \<lambda>s. s, gh_refused = js_error\<rparr>"

definition sample_tool :: jsval where
  "sample_tool = JObj [(''targetCode'', JStr ''git_status''), (''displayName'', JStr ''Check''), (''timeoutMs'', JStr ''900''),
     (''retryPolicy'', JObj [(''maximumAttempts'', JStr ''99'')])]"

definition sample_check :: jsval where
  "sample_check = JObj [(''nodeTypeCode'', JStr ''condition''), (''displayName'', JStr ''Check''), (''inputParameters'',
     JObj [(''leftPath'', JStr ''runtime.ok''), (''falseTargetNodeKey'', JStr ''done'')])]"

definition sample_summary :: jsval where
  "sample_summary = JObj [(''nodeTypeCode'', JStr ''SUMMARY''), (''nodeKey'', JStr ''Done'')]"

lemma sample_graph_accepted:
  "case normalized_nodes sample_graph_host [sample_tool, sample_check, sample_summary] of Inl _ \<Rightarrow> False
   | Inr ns \<Rightarrow> map gn_key ns = [''check'', ''check_2'', ''done''] \<and> (\<forall>n \<in> set ns. restorable n)
       \<and> validateConditionBranchTargets ns = Inr ()"
  by code_simp


text \<open>A key cut off at a separator is not its own normal form: a copy gives the node another key than the branches that name it.\<close>

theorem cut_key_changes:
  "normalizeNodeKey (JStr (replicate 79 (CHR ''a'') @ '' b'')) [] = replicate 79 (CHR ''a'') @ ''_''"
  "normalizeNodeKey (JStr (replicate 79 (CHR ''a'') @ ''_'')) [] = replicate 79 (CHR ''a'')"
  by code_simp+

end
