(* ===== verification/WorkflowVersions.thy ===== *)
theory WorkflowVersions
  imports WorkflowGraphs RuntimeParameters
begin

text \<open>
  Workflow definitions and their versions (\<open>apps/api/src/services/workflowExecutorService.js\<close>, lines 233-360, 2364-2442, 4140-4940,
  5075-5465 and 5467-6115): the tables \<open>worker.workflow_definitions\<close>, \<open>workflow_versions\<close>, \<open>workflow_nodes\<close> and
  \<open>workflow_edges\<close> with the constraints of \<open>scripts/db/tables\<close>, and the handlers that create, draft, save, publish, discard and delete.
  A handler reads one store before its transaction and commits to a later one; the transactions themselves run one after the other.
  Identifiers come from a supply that is never reused.  The other tables that the handlers read are parameters, the labels that
  callers give are texts.
\<close>

section \<open>Tables\<close>

record category_row =
  cg_id :: string
  cg_code :: string
  cg_name :: string
  cg_enabled :: bool

record tool_row =
  tl_id :: string
  tl_code :: string
  tl_enabled :: bool
  tl_admin :: bool
  tl_api :: bool

record template_row =
  tp_id :: string
  tp_code :: string
  tp_open :: bool

record catalog =
  ct_categories :: "category_row list"
  ct_tools :: "tool_row list"
  ct_templates :: "template_row list"
  ct_roles :: "string list"

record definition_row =
  wd_id :: string
  wd_category :: string
  wd_code :: string
  wd_display :: string
  wd_description :: "string option"
  wd_status :: string
  wd_visible :: bool
  wd_enabled :: bool
  wd_start :: string
  wd_cancel :: string
  wd_config :: jsval
  wd_created_by :: jsval
  wd_updated_by :: jsval

record version_row =
  vr_id :: string
  vr_definition :: string
  vr_number :: nat
  vr_label :: string
  vr_status :: string
  vr_snapshot :: jsval
  vr_created_by :: jsval
  vr_published_by :: jsval
  vr_published_at :: "int option"
  vr_updated :: int

record stored_node =
  sn_id :: string
  sn_version :: string
  sn_ref :: jsval
  sn_node :: graph_node

record edge =
  ed_version :: string
  ed_key :: string
  ed_from :: string
  ed_to :: string
  ed_type :: string
  ed_condition :: jsval
  ed_order :: nat
  ed_config :: jsval

record store =
  st_definitions :: "definition_row list"
  st_versions :: "version_row list"
  st_nodes :: "stored_node list"
  st_edges :: "edge list"
  st_next :: nat

record version_host =
  vh_graph :: graph_host
  vh_catalog :: catalog
  vh_uuid :: "nat \<Rightarrow> string"
  vh_collate :: "string \<Rightarrow> string \<Rightarrow> bool"
  vh_date :: "jsval \<Rightarrow> rat option"
  vh_active_runs :: "string \<Rightarrow> nat"
  vh_pending :: "string \<Rightarrow> nat"
  vh_schedules :: "string \<Rightarrow> nat"

abbreviation refused :: "version_host \<Rightarrow> string \<Rightarrow> jsval" where
  "refused h \<equiv> gh_refused (vh_graph h)"

section \<open>Reading\<close>

definition by_number :: "version_row list \<Rightarrow> version_row list" where
  "by_number = sort_by (\<lambda>a b. vr_number b \<le> vr_number a)"

definition newest :: "version_row list \<Rightarrow> version_row option" where
  "newest vs = (case by_number vs of [] \<Rightarrow> None | v # _ \<Rightarrow> Some v)"

definition versions_of :: "store \<Rightarrow> string \<Rightarrow> version_row list" where
  "versions_of S d = filter (\<lambda>v. vr_definition v = d) (st_versions S)"

definition with_status :: "string \<Rightarrow> version_row list \<Rightarrow> version_row list" where
  "with_status s = filter (\<lambda>v. vr_status v = s)"

definition latest_version :: "store \<Rightarrow> string \<Rightarrow> version_row option" where
  "latest_version S d = newest (versions_of S d)"

definition published_version :: "store \<Rightarrow> string \<Rightarrow> version_row option" where
  "published_version S d = newest (with_status ''PUBLISHED'' (versions_of S d))"

definition getLatestDraftWorkflowVersion :: "store \<Rightarrow> string \<Rightarrow> version_row option" where
  "getLatestDraftWorkflowVersion S d = newest (with_status ''DRAFT'' (versions_of S d))"

definition definition_by_code :: "store \<Rightarrow> string \<Rightarrow> definition_row option" where
  "definition_by_code S code = find (\<lambda>d. wd_code d = code) (st_definitions S)"

definition getWorkflowDefinitionByCode :: "store \<Rightarrow> jsval \<Rightarrow> definition_row res" where
  "getWorkflowDefinitionByCode S workflowCode =
     (let code = trim (to_str (jor workflowCode (JStr [])))
      in if code = [] then Inl (WorkflowServiceError ''workflowCode is required.'' 400 (JObj []))
         else case definition_by_code S code of
           Some d \<Rightarrow> Inr d
         | None \<Rightarrow> Inl (WorkflowServiceError ''Workflow definition was not found.'' 404 (JObj [(''workflowCode'', JStr code)])))"

definition getPublishedWorkflowDefinition :: "store \<Rightarrow> jsval \<Rightarrow> (definition_row \<times> version_row) res" where
  "getPublishedWorkflowDefinition S workflowCode =
     (let code = trim (to_str (jor workflowCode (JStr [])))
      in if code = [] then Inl (WorkflowServiceError ''workflowCode is required.'' 400 (JObj []))
         else case find (\<lambda>d. wd_code d = code \<and> wd_enabled d \<and> wd_status d = ''ACTIVE'') (st_definitions S) of
           None \<Rightarrow> Inl (WorkflowServiceError ''Workflow definition was not found or is disabled.'' 404 (JObj [(''workflowCode'', JStr code)]))
         | Some d \<Rightarrow> (case published_version S (wd_id d) of
             None \<Rightarrow> Inl (WorkflowServiceError ''Workflow definition has no published version.'' 409 (JObj [(''workflowCode'', JStr code)]))
           | Some v \<Rightarrow> Inr (d, v)))"

definition getWorkflowVersionMeta :: "store \<Rightarrow> jsval \<Rightarrow> version_row option" where
  "getWorkflowVersionMeta S versionId =
     (if \<not> truthy versionId then None else find (\<lambda>v. vr_id v = to_str versionId) (st_versions S))"

definition nodes_of :: "store \<Rightarrow> string \<Rightarrow> stored_node list" where
  "nodes_of S v = filter (\<lambda>n. sn_version n = v) (st_nodes S)"

text \<open>\<open>ORDER BY display_order, node_key\<close>, of the enabled nodes.\<close>

definition node_le :: "(string \<Rightarrow> string \<Rightarrow> bool) \<Rightarrow> graph_node \<Rightarrow> graph_node \<Rightarrow> bool" where
  "node_le collate a b = (gn_order a < gn_order b \<or> (gn_order a = gn_order b \<and> collate (gn_key a) (gn_key b)))"

definition getWorkflowNodes :: "(string \<Rightarrow> string \<Rightarrow> bool) \<Rightarrow> store \<Rightarrow> string \<Rightarrow> stored_node list" where
  "getWorkflowNodes collate S v =
     sort_by (\<lambda>a b. node_le collate (sn_node a) (sn_node b)) (filter (\<lambda>n. gn_enabled (sn_node n)) (nodes_of S v))"

definition getWorkflowEdges :: "(string \<Rightarrow> string \<Rightarrow> bool) \<Rightarrow> store \<Rightarrow> string \<Rightarrow> edge list" where
  "getWorkflowEdges collate S v =
     sort_by (\<lambda>a b. ed_order a < ed_order b \<or> (ed_order a = ed_order b \<and> collate (ed_key a) (ed_key b)))
       (filter (\<lambda>e. ed_version e = v) (st_edges S))"

record version_graph =
  vg_version :: version_row
  vg_nodes :: "stored_node list"
  vg_edges :: "edge list"

definition getWorkflowVersionGraph :: "version_host \<Rightarrow> store \<Rightarrow> version_row option \<Rightarrow> version_graph option" where
  "getWorkflowVersionGraph h S v =
     map_option (\<lambda>v. \<lparr>vg_version = v, vg_nodes = getWorkflowNodes (vh_collate h) S (vr_id v),
                        vg_edges = getWorkflowEdges (vh_collate h) S (vr_id v)\<rparr>) v"

record guardrails =
  gd_runs :: nat
  gd_approvals :: nat
  gd_schedules :: nat
  gd_warnings :: "string list"

definition getWorkflowEditGuardrails :: "version_host \<Rightarrow> string \<Rightarrow> guardrails" where
  "getWorkflowEditGuardrails h d =
     (let runs = vh_active_runs h d; approvals = vh_pending h d; schedules = vh_schedules h d;
          warn = (\<lambda>n text. if 0 < n then [nat_str n @ text] else [])
      in \<lparr>gd_runs = runs, gd_approvals = approvals, gd_schedules = schedules,
          gd_warnings = warn runs '' active workflow run(s) are still queued or running.''
            @ warn approvals '' pending approval request(s) are waiting for a decision.''
            @ warn schedules '' active schedule(s) can start this workflow.''\<rparr>)"

definition guardrails_value :: "guardrails \<Rightarrow> jsval" where
  "guardrails_value g = JObj
     [(''activeRuns'', jnat (gd_runs g)), (''pendingApprovals'', jnat (gd_approvals g)), (''activeSchedules'', jnat (gd_schedules g)),
      (''hasWarnings'', JBool (0 < gd_runs g \<or> 0 < gd_approvals g \<or> 0 < gd_schedules g)), (''warnings'', str_arr (gd_warnings g))]"

record managed =
  mg_definition :: definition_row
  mg_versions :: "version_row list"
  mg_latest :: "version_graph option"
  mg_published :: "version_graph option"
  mg_draft :: "version_graph option"
  mg_edit :: "version_graph option"
  mg_guardrails :: guardrails

definition or_else :: "'a option \<Rightarrow> 'a option \<Rightarrow> 'a option" where
  "or_else x y = (case x of None \<Rightarrow> y | Some _ \<Rightarrow> x)"

definition getWorkflowDefinitionForManage :: "version_host \<Rightarrow> store \<Rightarrow> jsval \<Rightarrow> managed res" where
  "getWorkflowDefinitionForManage h S workflowCode =
     rbind (getWorkflowDefinitionByCode S workflowCode) (\<lambda>d.
       let latest = getWorkflowVersionGraph h S (latest_version S (wd_id d));
           published = getWorkflowVersionGraph h S (published_version S (wd_id d));
           draft = getWorkflowVersionGraph h S (getLatestDraftWorkflowVersion S (wd_id d))
       in Inr \<lparr>mg_definition = d, mg_versions = by_number (versions_of S (wd_id d)), mg_latest = latest, mg_published = published,
               mg_draft = draft, mg_edit = or_else draft (or_else published latest),
               mg_guardrails = getWorkflowEditGuardrails h (wd_id d)\<rparr>)"

section \<open>Targets and cycles\<close>

text \<open>The definitions that a node may start: enabled, visible, active and published.\<close>

definition live :: "store \<Rightarrow> string \<Rightarrow> definition_row option" where
  "live S code = find (\<lambda>d. wd_code d = code \<and> wd_enabled d \<and> wd_visible d \<and> wd_status d = ''ACTIVE''
                         \<and> published_version S (wd_id d) \<noteq> None) (st_definitions S)"

definition child_codes :: "stored_node list \<Rightarrow> string list" where
  "child_codes ns = concat (map (\<lambda>n. if gn_type (sn_node n) = ''WORKFLOW'' \<and> gn_enabled (sn_node n)
                                     then case_option [] (\<lambda>c. [c]) (gn_target (sn_node n)) else []) ns)"

definition children :: "store \<Rightarrow> string \<Rightarrow> string list" where
  "children S code =
     (case live S code of
        None \<Rightarrow> []
      | Some d \<Rightarrow> (case published_version S (wd_id d) of
          None \<Rightarrow> []
        | Some v \<Rightarrow> filter (\<lambda>c. live S c \<noteq> None) (child_codes (nodes_of S (vr_id v)))))"

lemma find_Some_set: "find P xs = Some x \<Longrightarrow> x \<in> set xs \<and> P x"
  by (auto simp: find_Some_iff)

lemma live_known: "live S c \<noteq> None \<Longrightarrow> c \<in> wd_code ` set (st_definitions S)"
  by (auto simp: live_def dest!: find_Some_set)

lemma children_live: "c \<in> set (children S a) \<Longrightarrow> live S c \<noteq> None"
  by (auto simp: children_def split: option.splits)

text \<open>The recursive query: the rows that a path, newest code first, leads to.  A code is not visited twice on one path.\<close>

function walk_rows :: "store \<Rightarrow> string \<Rightarrow> string list \<Rightarrow> string list list" where
  "walk_rows S c path =
     rev (c # path) # concat (map (\<lambda>k. walk_rows S k (c # path)) (filter (\<lambda>k. k \<notin> set (c # path)) (children S c)))"
  by pat_completeness auto
termination
proof (relation "measure (\<lambda>(S, c, path). card (wd_code ` set (st_definitions S) - set path)
                            + (if c \<in> wd_code ` set (st_definitions S) - set path then 0 else 1))")
  fix S c path k
  assume k: "k \<in> set (filter (\<lambda>k. k \<notin> set (c # path)) (children S c))"
  let ?K = "wd_code ` set (st_definitions S)"
  have "live S c \<noteq> None" using k by (cases "live S c") (auto simp: children_def)
  then have "c \<in> ?K" by (rule live_known)
  moreover have "k \<in> ?K - set (c # path)" using k children_live live_known by fastforce
  ultimately have "card (?K - set (c # path)) + (if k \<in> ?K - set (c # path) then 0 else 1)
      < card (?K - set path) + (if c \<in> ?K - set path then 0 else 1)"
    using card_Diff1_less [of "?K - set path" c] Diff_insert [of ?K c "set path"]
    by (cases "c \<in> set path") (simp_all add: insert_absorb)
  then show "((S, k, c # path), (S, c, path)) \<in> measure (\<lambda>(S, c, path).
      card (wd_code ` set (st_definitions S) - set path) + (if c \<in> wd_code ` set (st_definitions S) - set path then 0 else 1))"
    unfolding in_measure case_prod_conv .
qed simp

declare walk_rows.simps [simp del]

definition walk :: "store \<Rightarrow> string list \<Rightarrow> string list list" where
  "walk S codes = concat (map (\<lambda>c. walk_rows S c []) (filter (\<lambda>c. live S c \<noteq> None) codes))"

definition cycle_path :: "store \<Rightarrow> string list \<Rightarrow> string \<Rightarrow> string list option" where
  "cycle_path S codes parent = find (\<lambda>path. last path = parent) (walk S codes)"

definition codes_of :: "string \<Rightarrow> graph_node list \<Rightarrow> string list" where
  "codes_of t ns = first_of_each (concat (map (\<lambda>n. if gn_type n = t then case_option [] (\<lambda>c. [c]) (gn_target n) else []) ns))"

definition role_codes :: "graph_node list \<Rightarrow> string list" where
  "role_codes ns = first_of_each (filter (\<lambda>c. c \<noteq> [])
     (map (\<lambda>n. normalizeRoleCode (jor (jget (gn_input n) ''requiredRoleCode'') (jget (gn_input n) ''requiredRole'')))
       (filter (\<lambda>n. gn_type n = ''HUMAN_APPROVAL'') ns)))"

definition tool_of :: "catalog \<Rightarrow> string \<Rightarrow> tool_row option" where
  "tool_of cat code = find (\<lambda>t. tl_code t = code \<and> tl_enabled t) (ct_tools cat)"

definition template_of :: "catalog \<Rightarrow> string \<Rightarrow> template_row option" where
  "template_of cat code = find (\<lambda>t. tp_code t = code \<and> tp_open t) (ct_templates cat)"

definition all_found :: "string \<Rightarrow> string \<Rightarrow> string list \<Rightarrow> unit res" where
  "all_found message field missing =
     (if missing = [] then Inr () else Inl (WorkflowServiceError message 400 (JObj [(field, str_arr missing)])))"

definition validateWorkflowTargets :: "catalog \<Rightarrow> store \<Rightarrow> graph_node list \<Rightarrow> string \<Rightarrow> unit res" where
  "validateWorkflowTargets cat S ns parentCode =
     (let tools = codes_of ''TOOL'' ns; workflows = codes_of ''WORKFLOW'' ns; templates = codes_of ''TEMPORAL_WORKFLOW'' ns;
          parent = trim parentCode;
          shown = (\<lambda>code. case tool_of cat code of Some t \<Rightarrow> tl_admin t \<and> tl_api t | None \<Rightarrow> False)
      in rbind (validateConditionBranchTargets ns) (\<lambda>_.
         rbind (validateHumanApprovalBranchTargets ns) (\<lambda>_.
         rbind (if parent \<noteq> [] \<and> parent \<in> set workflows
                then Inl (WorkflowServiceError ''A workflow cannot directly contain itself as a child workflow node.'' 400
                       (JObj [(''workflowCode'', JStr parent)])) else Inr ()) (\<lambda>_.
         rbind (all_found ''One or more tool targets were not found or are disabled.'' ''missingTools''
                  (filter (\<lambda>c. tool_of cat c = None) tools)) (\<lambda>_.
         rbind (if filter (\<lambda>c. \<not> shown c) tools = [] then Inr ()
                else Inl (WorkflowServiceError
                  ''One or more tool targets are not visible in both Admin-Web and API, so they cannot be used in workflows.'' 400
                  (JObj [(''workflowIneligibleTools'', str_arr (filter (\<lambda>c. \<not> shown c) tools)),
                         (''requiredVisibilityChannels'', str_arr [''admin-web'', ''api''])]))) (\<lambda>_.
         rbind (all_found ''One or more child workflow targets were not found, inactive, or unpublished.'' ''missingWorkflows''
                  (filter (\<lambda>c. live S c = None) workflows)) (\<lambda>_.
         rbind (case if parent = [] then None else cycle_path S workflows parent of
                  Some path \<Rightarrow> Inl (WorkflowServiceError ''Child workflow relationship would create a workflow cycle.'' 400
                    (JObj [(''workflowCode'', JStr parent), (''childWorkflowTargets'', str_arr workflows), (''cyclePath'', str_arr path)]))
                | None \<Rightarrow> Inr ()) (\<lambda>_.
         rbind (all_found ''One or more Temporal workflow template targets were not found, disabled, or hidden.'' ''missingTemporalWorkflows''
                  (filter (\<lambda>c. template_of cat c = None) templates)) (\<lambda>_.
         all_found ''One or more human approval roles were not found or are inactive.'' ''missingApprovalRoles''
           (filter (\<lambda>c. c \<notin> set (ct_roles cat)) (role_codes ns)))))))))))"

section \<open>Writing a graph\<close>

definition target_ref :: "catalog \<Rightarrow> store \<Rightarrow> graph_node \<Rightarrow> jsval" where
  "target_ref cat S n =
     (case gn_target n of
        None \<Rightarrow> JNull
      | Some code \<Rightarrow>
          if gn_type n = ''TOOL'' then case_option JNull (JStr \<circ> tl_id) (tool_of cat code)
          else if gn_type n = ''WORKFLOW'' then case_option JNull (JStr \<circ> wd_id) (live S code)
          else if gn_type n = ''TEMPORAL_WORKFLOW'' then case_option JNull (JStr \<circ> tp_id) (template_of cat code)
          else JNull)"

text \<open>What a column of type \<open>integer\<close> takes.\<close>

definition int32 :: "rat \<Rightarrow> bool" where
  "int32 r = (of_int \<lfloor>r\<rfloor> = r \<and> - (2 ^ 31) \<le> r \<and> r < 2 ^ 31)"

definition node_refusal :: "store \<Rightarrow> string \<Rightarrow> graph_node \<Rightarrow> string option" where
  "node_refusal S v n =
     (if \<not> (int32 (gn_x n) \<and> int32 (gn_y n) \<and> int32 (gn_order n)) then Some ''integer''
      else if gn_display n = [] then Some ''workflow_nodes_display_name_not_blank''
      else if \<not> list_ex (\<lambda>w. vr_id w = v) (st_versions S) then Some ''workflow_nodes_workflow_version_id_fkey''
      else if list_ex (\<lambda>m. sn_version m = v \<and> gn_key (sn_node m) = gn_key n) (st_nodes S) then Some ''workflow_nodes_version_key''
      else None)"

definition json_node :: "graph_node \<Rightarrow> graph_node" where
  "json_node n = n\<lparr>gn_input := json_clone (gn_input n), gn_retry := json_clone (gn_retry n), gn_config := json_clone (gn_config n)\<rparr>"

definition insert_node :: "version_host \<Rightarrow> string \<Rightarrow> graph_node \<Rightarrow> store \<Rightarrow> (stored_node \<times> store) res" where
  "insert_node h v n S =
     (case node_refusal S v n of
        Some c \<Rightarrow> Inl (refused h c)
      | None \<Rightarrow> (let m = \<lparr>sn_id = vh_uuid h (st_next S), sn_version = v, sn_ref = target_ref (vh_catalog h) S n, sn_node = json_node n\<rparr>
                 in Inr (m, S\<lparr>st_nodes := st_nodes S @ [m], st_next := Suc (st_next S)\<rparr>)))"

fun insert_nodes :: "version_host \<Rightarrow> string \<Rightarrow> graph_node list \<Rightarrow> store \<Rightarrow> (stored_node list \<times> store) res" where
  "insert_nodes h v [] S = Inr ([], S)"
| "insert_nodes h v (n # ns) S =
     rbind (insert_node h v n S) (\<lambda>(m, S). rbind (insert_nodes h v ns S) (\<lambda>(ms, S). Inr (m # ms, S)))"

definition edge_refusal :: "edge list \<Rightarrow> edge \<Rightarrow> string option" where
  "edge_refusal es e =
     (if ed_from e = ed_to e then Some ''workflow_edges_no_self_loop''
      else if list_ex (\<lambda>f. ed_version f = ed_version e \<and> ed_from f = ed_from e \<and> ed_to f = ed_to e \<and> ed_type f = ed_type e) es
           then Some ''workflow_edges_version_from_to_type''
      else None)"

fun insert_edges :: "version_host \<Rightarrow> edge list \<Rightarrow> store \<Rightarrow> store res" where
  "insert_edges h [] S = Inr S"
| "insert_edges h (e # es) S =
     (case edge_refusal (st_edges S) e of
        Some c \<Rightarrow> Inl (refused h c)
      | None \<Rightarrow> insert_edges h es (S\<lparr>st_edges := st_edges S @ [e]\<rparr>))"

abbreviation node_key :: "stored_node \<Rightarrow> string" where
  "node_key n \<equiv> gn_key (sn_node n)"

definition sequential_edge :: "string \<Rightarrow> string \<Rightarrow> nat \<times> stored_node \<times> stored_node \<Rightarrow> edge" where
  "sequential_edge v createdBy = (\<lambda>(index, m, n).
     \<lparr>ed_version = v, ed_key = node_key m @ ''_to_'' @ node_key n, ed_from = sn_id m, ed_to = sn_id n, ed_type = ''SEQUENTIAL'',
      ed_condition = JNull, ed_order = (index + 1) * 10,
      ed_config = JObj [(''label'', JStr ''then''), (''createdBy'', JStr createdBy)]\<rparr>)"

definition sequential_edges :: "string \<Rightarrow> string \<Rightarrow> stored_node list \<Rightarrow> edge list" where
  "sequential_edges v createdBy ns = map (sequential_edge v createdBy) (enumerate 0 (zip ns (tl ns)))"

definition node_by_key :: "stored_node list \<Rightarrow> string \<Rightarrow> stored_node option" where
  "node_by_key ns = map_of (rev (map (\<lambda>n. (node_key n, n)) ns))"

definition branch_edge :: "string \<Rightarrow> string \<Rightarrow> nat \<Rightarrow> stored_node \<Rightarrow> string \<Rightarrow> stored_node \<Rightarrow> edge" where
  "branch_edge v createdBy index m label n =
     \<lparr>ed_version = v, ed_key = node_key m @ ''_'' @ to_lower label @ ''_to_'' @ node_key n, ed_from = sn_id m, ed_to = sn_id n,
      ed_type = ''CONDITIONAL'', ed_condition = JStr label, ed_order = (index + 1) * 10 + (if label = ''TRUE'' then 1 else 2),
      ed_config = JObj [(''label'', JStr (to_lower label @ '' branch'')), (''branch'', JStr label),
                        (''conditionNodeKey'', JStr (node_key m)), (''createdBy'', JStr createdBy)]\<rparr>"

definition branch_edges :: "string \<Rightarrow> string \<Rightarrow> stored_node list \<Rightarrow> nat \<times> stored_node \<Rightarrow> edge list res" where
  "branch_edges v createdBy ns = (\<lambda>(index, m).
     if gn_type (sn_node m) \<noteq> ''CONDITION'' then Inr []
     else rbind (normalizeConditionParameters (gn_input (sn_node m))) (\<lambda>p. Inr (concat (map (\<lambda>(label, target).
       if target = [] then [] else case node_by_key ns target of None \<Rightarrow> [] | Some n \<Rightarrow> [branch_edge v createdBy index m label n])
       [(''TRUE'', to_str (jget p ''trueTargetNodeKey'')), (''FALSE'', to_str (jget p ''falseTargetNodeKey''))]))))"

fun insert_branches :: "version_host \<Rightarrow> string \<Rightarrow> string \<Rightarrow> stored_node list \<Rightarrow> (nat \<times> stored_node) list \<Rightarrow> store \<Rightarrow> store res" where
  "insert_branches h v createdBy ns [] S = Inr S"
| "insert_branches h v createdBy ns (x # xs) S =
     rbind (branch_edges v createdBy ns x) (\<lambda>es. rbind (insert_edges h es S) (insert_branches h v createdBy ns xs))"

definition insertWorkflowEdges :: "version_host \<Rightarrow> string \<Rightarrow> string \<Rightarrow> stored_node list \<Rightarrow> store \<Rightarrow> store res" where
  "insertWorkflowEdges h v createdBy ns S =
     rbind (insert_edges h (sequential_edges v createdBy ns) S) (insert_branches h v createdBy ns (enumerate 0 ns))"

text \<open>An edge as a row; its own identifier and dates are left out.\<close>

definition edge_view :: "edge \<Rightarrow> jsval" where
  "edge_view e = JObj
     [(''workflowVersionId'', JStr (ed_version e)), (''edgeKey'', JStr (ed_key e)), (''fromNodeId'', JStr (ed_from e)),
      (''toNodeId'', JStr (ed_to e)), (''edgeType'', JStr (ed_type e)), (''conditionExpression'', ed_condition e),
      (''displayOrder'', jnat (ed_order e)), (''config'', ed_config e)]"

text \<open>The code and the name of a definition's category, as the view joins them.\<close>

definition category_of :: "catalog \<Rightarrow> definition_row \<Rightarrow> string \<times> string" where
  "category_of cat d =
     (case find (\<lambda>c. cg_id c = wd_category d) (ct_categories cat) of Some c \<Rightarrow> (cg_code c, cg_name c) | None \<Rightarrow> (''GENERAL'', ''General''))"

definition buildDefinitionSnapshot :: "version_host \<Rightarrow> definition_row \<Rightarrow> stored_node list \<Rightarrow> edge list \<Rightarrow> string \<Rightarrow> jsval" where
  "buildDefinitionSnapshot h d ns es status = JObj
     [(''workflowCode'', JStr (wd_code d)), (''displayName'', JStr (wd_display d)), (''description'', null_or_str (wd_description d)),
      (''categoryCode'', JStr (fst (category_of (vh_catalog h) d))), (''categoryDisplayName'', JStr (snd (category_of (vh_catalog h) d))),
      (''status'', JStr status), (''graphVersion'', JStr ''1.0''),
      (''nodes'', JArr (map (\<lambda>n. let n = sn_node n in JObj
         [(''nodeKey'', JStr (gn_key n)), (''nodeTypeCode'', JStr (gn_type n)), (''displayName'', JStr (gn_display n)),
          (''targetCode'', null_or_str (gn_target n)), (''displayOrder'', jnum (gn_order n))]) ns)),
      (''edges'', JArr (map edge_view es))]"

text \<open>\<open>insertWorkflowVersionGraph\<close>: a new version, or the graph of one that exists.\<close>

record graph_request =
  gq_number :: nat
  gq_label :: string
  gq_status :: string
  gq_nodes :: "graph_node list"
  gq_user :: jsval
  gq_now :: int

definition user_id :: "jsval \<Rightarrow> jsval" where
  "user_id user = jor (jget user ''userId'') JNull"

definition version_refusal :: "store \<Rightarrow> string \<Rightarrow> nat \<Rightarrow> string option" where
  "version_refusal S d n =
     (if \<not> list_ex (\<lambda>x. wd_id x = d) (st_definitions S) then Some ''workflow_versions_workflow_definition_id_fkey''
      else if list_ex (\<lambda>v. vr_definition v = d \<and> vr_number v = n) (st_versions S) then Some ''workflow_versions_definition_number''
      else None)"

definition new_version :: "version_host \<Rightarrow> string \<Rightarrow> graph_request \<Rightarrow> store \<Rightarrow> (string \<times> store) res" where
  "new_version h d q S =
     (case version_refusal S d (gq_number q) of
        Some c \<Rightarrow> Inl (refused h c)
      | None \<Rightarrow>
          (let v = vh_uuid h (st_next S); publish = (gq_status q = ''PUBLISHED'');
               row = \<lparr>vr_id = v, vr_definition = d, vr_number = gq_number q,
                      vr_label = (if gq_label q = [] then ''Workflow version '' @ nat_str (gq_number q) else gq_label q),
                      vr_status = gq_status q, vr_snapshot = JObj [], vr_created_by = user_id (gq_user q),
                      vr_published_by = (if publish then user_id (gq_user q) else JNull),
                      vr_published_at = (if publish then Some (gq_now q) else None), vr_updated = gq_now q\<rparr>
           in Inr (v, S\<lparr>st_versions := st_versions S @ [row], st_next := Suc (st_next S)\<rparr>)))"

definition update_versions :: "(version_row \<Rightarrow> bool) \<Rightarrow> int \<Rightarrow> (version_row \<Rightarrow> version_row) \<Rightarrow> store \<Rightarrow> store" where
  "update_versions P t f S = S\<lparr>st_versions := map (\<lambda>v. if P v then (f v)\<lparr>vr_updated := t\<rparr> else v) (st_versions S)\<rparr>"

definition write_graph :: "version_host \<Rightarrow> definition_row \<Rightarrow> string \<Rightarrow> string \<Rightarrow> graph_request \<Rightarrow> store \<Rightarrow> (stored_node list \<times> store) res" where
  "write_graph h d v createdBy q S =
     rbind (insert_nodes h v (gq_nodes q) S) (\<lambda>(ms, S1).
     rbind (insertWorkflowEdges h v createdBy ms S1) (\<lambda>S2.
       let es = drop (length (st_edges S1)) (st_edges S2)
       in Inr (ms, update_versions (\<lambda>w. vr_id w = v) (gq_now q)
            (\<lambda>w. w\<lparr>vr_snapshot := buildDefinitionSnapshot h d ms es (gq_status q)\<rparr>) S2)))"

definition insertWorkflowVersionGraph ::
  "version_host \<Rightarrow> definition_row \<Rightarrow> graph_request \<Rightarrow> string option \<Rightarrow> store \<Rightarrow> (string \<times> store) res" where
  "insertWorkflowVersionGraph h d q existing S =
     rbind (validateWorkflowTargets (vh_catalog h) S (gq_nodes q) (wd_code d)) (\<lambda>_.
     rbind (case existing of Some v \<Rightarrow> Inr (v, S) | None \<Rightarrow> new_version h (wd_id d) q S) (\<lambda>(v, S1).
     rbind (write_graph h d v ''workflow_manager_v1'' q S1) (\<lambda>(ms, S2). Inr (v, S2))))"

section \<open>Handlers\<close>

record requester =
  rq_user :: jsval
  rq_permissions :: jsval
  rq_now :: int

definition may_change :: "requester \<Rightarrow> string \<Rightarrow> unit res" where
  "may_change rq action = assertPermission (JStr ''WORKFLOW_CHANGE'') (rq_permissions rq) action"

text \<open>A transaction: what it throws is thrown again after \<open>ROLLBACK\<close>.\<close>

definition transaction :: "store \<Rightarrow> ('a \<times> store) res \<Rightarrow> 'a res \<times> store" where
  "transaction S r = (case r of Inl e \<Rightarrow> (Inl e, S) | Inr (x, S') \<Rightarrow> (Inr x, S'))"

definition update_definitions :: "(definition_row \<Rightarrow> bool) \<Rightarrow> (definition_row \<Rightarrow> definition_row) \<Rightarrow> store \<Rightarrow> store" where
  "update_definitions P f S = S\<lparr>st_definitions := map (\<lambda>d. if P d then f d else d) (st_definitions S)\<rparr>"

text \<open>\<open>SET updated_by_user_id = ..., config = config || ...\<close>.\<close>

definition stamped :: "requester \<Rightarrow> (string \<times> jsval) list \<Rightarrow> definition_row \<Rightarrow> definition_row" where
  "stamped rq patch d = d\<lparr>wd_updated_by := user_id (rq_user rq), wd_config := json_clone (obj_with (wd_config d) patch)\<rparr>"

definition touch_definition :: "string \<Rightarrow> requester \<Rightarrow> (string \<times> jsval) list \<Rightarrow> store \<Rightarrow> store" where
  "touch_definition d rq patch = update_definitions (\<lambda>x. wd_id x = d) (stamped rq patch)"

definition delete_version_rows :: "(version_row \<Rightarrow> bool) \<Rightarrow> store \<Rightarrow> store" where
  "delete_version_rows P S =
     (let gone = (\<lambda>v. list_ex (\<lambda>w. vr_id w = v \<and> P w) (st_versions S))
      in S\<lparr>st_versions := filter (\<lambda>v. \<not> P v) (st_versions S), st_nodes := filter (\<lambda>n. \<not> gone (sn_version n)) (st_nodes S),
           st_edges := filter (\<lambda>e. \<not> gone (ed_version e)) (st_edges S)\<rparr>)"

definition delete_draft_rows :: "string \<Rightarrow> string \<Rightarrow> store \<Rightarrow> store" where
  "delete_draft_rows v d = delete_version_rows (\<lambda>w. vr_id w = v \<and> vr_definition w = d \<and> vr_status w = ''DRAFT'')"

definition next_number :: "store \<Rightarrow> string \<Rightarrow> nat" where
  "next_number S d = Suc (foldr max (map vr_number (versions_of S d)) 0)"

definition text_or :: "jsval \<Rightarrow> string \<Rightarrow> string" where
  "text_or v d = (if truthy v then to_str v else d)"

definition retire_published :: "string \<Rightarrow> int \<Rightarrow> store \<Rightarrow> store" where
  "retire_published d t =
     update_versions (\<lambda>v. vr_definition v = d \<and> vr_status v = ''PUBLISHED'') t (\<lambda>v. v\<lparr>vr_status := ''RETIRED''\<rparr>)"

definition source_nodes :: "version_host \<Rightarrow> store \<Rightarrow> jsval \<Rightarrow> graph_node list" where
  "source_nodes h S versionId =
     (case getWorkflowVersionGraph h S (getWorkflowVersionMeta S versionId) of
        None \<Rightarrow> [] | Some g \<Rightarrow> map sn_node (vg_nodes g))"

definition version_id_value :: "version_row option \<Rightarrow> jsval" where
  "version_id_value v = (case v of None \<Rightarrow> JNull | Some v \<Rightarrow> JStr (vr_id v))"

text \<open>Before its transaction a handler decides what to write, from the store that it reads; it then commits to the store as it is by then,
  and answers the definition as the manager shows it.  A draft that exists is reused (no nodes to write) unless the caller declines it.\<close>

definition draft_inputs :: "version_host \<Rightarrow> requester \<Rightarrow> jsval \<Rightarrow> jsval \<Rightarrow> store
    \<Rightarrow> (definition_row \<times> (version_row option \<times> graph_node list) option) res" where
  "draft_inputs h rq code payload S0 =
     rbind (may_change rq ''create_workflow_draft'') (\<lambda>_. rbind (getWorkflowDefinitionByCode S0 code) (\<lambda>d.
     let draft = getLatestDraftWorkflowVersion S0 (wd_id d)
     in if draft \<noteq> None \<and> jget payload ''reuseExisting'' \<noteq> JBool False then Inr (d, None)
        else
          (let source = jors [jget payload ''sourceWorkflowVersionId'', version_id_value (published_version S0 (wd_id d)),
                              version_id_value (latest_version S0 (wd_id d))];
               rawNodes = versionNodesToCreateInput (source_nodes h S0 source)
           in if rawNodes = []
              then Inl (WorkflowServiceError ''Cannot create a draft because the source workflow version has no nodes.'' 400
                     (JObj [(''workflowCode'', JStr (wd_code d)), (''sourceVersionId'', source)]))
              else rbind (normalized_nodes (vh_graph h) rawNodes) (\<lambda>ns. Inr (d, Some (draft, ns))))))"

definition commit_draft :: "version_host \<Rightarrow> requester \<Rightarrow> jsval \<Rightarrow> definition_row \<Rightarrow> version_row option \<Rightarrow> graph_node list \<Rightarrow> store \<Rightarrow> unit res \<times> store" where
  "commit_draft h rq payload d draft ns S =
     (let S1 = (case draft of None \<Rightarrow> S | Some v \<Rightarrow> delete_draft_rows (vr_id v) (wd_id d) S);
          number = next_number S1 (wd_id d);
          q = \<lparr>gq_number = number, gq_label = text_or (jget payload ''versionLabel'') (''Draft v'' @ nat_str number),
               gq_status = ''DRAFT'', gq_nodes = ns, gq_user = rq_user rq, gq_now = rq_now rq\<rparr>
      in transaction S (rbind (insertWorkflowVersionGraph h d q None S1) (\<lambda>(v, S2).
           Inr ((), touch_definition (wd_id d) rq [(''lastDraftCreatedBy'', JStr ''workflow_manager_guardrails_v1'')] S2))))"

definition answered :: "version_host \<Rightarrow> definition_row \<Rightarrow> unit res \<times> store \<Rightarrow> managed res \<times> store" where
  "answered h d = (\<lambda>(r, S). (rbind r (\<lambda>_. getWorkflowDefinitionForManage h S (JStr (wd_code d))), S))"

definition createWorkflowDraftVersion :: "version_host \<Rightarrow> requester \<Rightarrow> jsval \<Rightarrow> jsval \<Rightarrow> store \<Rightarrow> store \<Rightarrow> managed res \<times> store" where
  "createWorkflowDraftVersion h rq code payload S0 S =
     (case draft_inputs h rq code payload S0 of
        Inl e \<Rightarrow> (Inl e, S)
      | Inr (d, None) \<Rightarrow> answered h d (Inr (), S)
      | Inr (d, Some (draft, ns)) \<Rightarrow> answered h d (commit_draft h rq payload d draft ns S))"

text \<open>The checks that the handlers of one version share.\<close>

definition assertWorkflowVersionMatchesDefinition :: "version_row option \<Rightarrow> definition_row \<Rightarrow> string \<Rightarrow> version_row res" where
  "assertWorkflowVersionMatchesDefinition version d action =
     (let mismatch = Inl (WorkflowServiceError ''Workflow version does not belong to this workflow definition.'' 404
            (JObj [(''action'', JStr action), (''workflowCode'', JStr (wd_code d)),
                   (''workflowVersionId'', case version of None \<Rightarrow> JUndef | Some v \<Rightarrow> JStr (vr_id v))]))
      in case version of None \<Rightarrow> mismatch | Some v \<Rightarrow> if vr_definition v \<noteq> wd_id d then mismatch else Inr v)"

definition assertVersionFresh :: "version_host \<Rightarrow> version_row \<Rightarrow> jsval \<Rightarrow> string \<Rightarrow> unit res" where
  "assertVersionFresh h version payload action =
     (let expected = trim (to_str (jors [jget payload ''baseWorkflowVersionId'', jget payload ''workflowVersionId'', JStr []]))
      in if expected \<noteq> [] \<and> expected \<noteq> vr_id version
         then Inl (WorkflowServiceError ''Workflow version changed before this request was saved. Refresh before editing.'' 409
                (JObj [(''action'', JStr action), (''expectedVersionId'', JStr expected), (''currentVersionId'', JStr (vr_id version))]))
         else if truthy (jget payload ''baseUpdatedAt'')
              \<and> (case vh_date h (jget payload ''baseUpdatedAt'') of None \<Rightarrow> False | Some base \<Rightarrow> base + 1000 < of_int (vr_updated version))
         then Inl (WorkflowServiceError ''Workflow draft changed since you opened it. Refresh before saving.'' 409
                (JObj [(''action'', JStr action), (''baseUpdatedAt'', jget payload ''baseUpdatedAt''),
                       (''currentUpdatedAt'', JStr (iso_text (of_int (vr_updated version))))]))
         else Inr ())"

definition draft_to_change ::
  "version_host \<Rightarrow> requester \<Rightarrow> string \<Rightarrow> string \<Rightarrow> jsval \<Rightarrow> jsval \<Rightarrow> store \<Rightarrow> (definition_row \<times> version_row) res" where
  "draft_to_change h rq action message code versionId S0 =
     rbind (may_change rq action) (\<lambda>_.
     rbind (getWorkflowDefinitionByCode S0 code) (\<lambda>d.
     rbind (assertWorkflowVersionMatchesDefinition (getWorkflowVersionMeta S0 versionId) d action) (\<lambda>v.
     if vr_status v \<noteq> ''DRAFT''
     then Inl (WorkflowServiceError message 409
            (JObj [(''workflowCode'', JStr (wd_code d)), (''workflowVersionId'', versionId), (''versionStatus'', JStr (vr_status v))]))
     else Inr (d, v))))"

definition nodes_required :: "string \<Rightarrow> jsval list \<Rightarrow> unit res" where
  "nodes_required message vs = (if vs = [] then Inl (WorkflowServiceError message 400 (JObj [])) else Inr ())"

definition clear_graph :: "string \<Rightarrow> store \<Rightarrow> store" where
  "clear_graph v S = S\<lparr>st_edges := filter (\<lambda>e. ed_version e \<noteq> v) (st_edges S), st_nodes := filter (\<lambda>n. sn_version n \<noteq> v) (st_nodes S)\<rparr>"

definition relabeled :: "string \<Rightarrow> version_row \<Rightarrow> version_row" where
  "relabeled label v = (if label = [] then v else v\<lparr>vr_label := label\<rparr>)"

definition save_inputs :: "version_host \<Rightarrow> requester \<Rightarrow> jsval \<Rightarrow> jsval \<Rightarrow> jsval \<Rightarrow> store \<Rightarrow> (definition_row \<times> version_row \<times> graph_node list) res" where
  "save_inputs h rq code versionId payload S0 =
     rbind (draft_to_change h rq ''save_workflow_draft_graph''
        ''Published workflow versions are read-only. Create a draft before editing the graph.'' code versionId S0) (\<lambda>(d, v).
     rbind (assertVersionFresh h v payload ''save_workflow_draft_graph'') (\<lambda>_.
     let rawNodes = arr_items (getSafeArray (jget payload ''nodes''))
     in rbind (nodes_required ''At least one supported workflow node is required for a workflow draft.'' rawNodes) (\<lambda>_.
        rbind (normalized_nodes (vh_graph h) rawNodes) (\<lambda>ns. Inr (d, v, ns)))))"

text \<open>The rows that \<open>SELECT ... FOR UPDATE\<close> locks are not looked at: the graph is replaced whatever the version has become.\<close>

definition commit_save :: "version_host \<Rightarrow> requester \<Rightarrow> jsval \<Rightarrow> definition_row \<Rightarrow> version_row \<Rightarrow> graph_node list \<Rightarrow> store \<Rightarrow> unit res \<times> store" where
  "commit_save h rq payload d v ns S =
     (let label = text_or (jget payload ''versionLabel'') [];
          q = \<lparr>gq_number = vr_number v,
               gq_label = (if label \<noteq> [] then label else if vr_label v \<noteq> [] then vr_label v else ''Draft v'' @ nat_str (vr_number v)),
               gq_status = ''DRAFT'', gq_nodes = ns, gq_user = rq_user rq, gq_now = rq_now rq\<rparr>
      in transaction S (rbind (insertWorkflowVersionGraph h d q (Some (vr_id v)) (clear_graph (vr_id v) S)) (\<lambda>(_, S1).
           Inr ((), touch_definition (wd_id d) rq [(''draftGraphSavedBy'', JStr ''workflow_manager_guardrails_v1'')]
                (update_versions (\<lambda>w. vr_id w = vr_id v) (rq_now rq) (relabeled label) S1)))))"

definition saveWorkflowDraftGraph :: "version_host \<Rightarrow> requester \<Rightarrow> jsval \<Rightarrow> jsval \<Rightarrow> jsval \<Rightarrow> store \<Rightarrow> store \<Rightarrow> managed res \<times> store" where
  "saveWorkflowDraftGraph h rq code versionId payload S0 S =
     (case save_inputs h rq code versionId payload S0 of
        Inl e \<Rightarrow> (Inl e, S)
      | Inr (d, v, ns) \<Rightarrow> answered h d (commit_save h rq payload d v ns S))"

text \<open>A version always has a label, so the default of the last \<open>COALESCE\<close> is never used.\<close>

definition published_row :: "requester \<Rightarrow> string \<Rightarrow> jsval \<Rightarrow> guardrails \<Rightarrow> version_row \<Rightarrow> version_row" where
  "published_row rq label note g v =
     v\<lparr>vr_status := ''PUBLISHED'', vr_label := (if label \<noteq> [] then label else vr_label v),
       vr_published_by := user_id (rq_user rq), vr_published_at := Some (rq_now rq),
       vr_snapshot := obj_with (vr_snapshot v) [(''publishedBy'', JStr ''workflow_manager_guardrails_v1''), (''changeNote'', note),
         (''guardrailsAtPublish'', guardrails_value g)]\<rparr>"

definition activated :: "definition_row \<Rightarrow> definition_row" where
  "activated d = d\<lparr>wd_status := ''ACTIVE'', wd_enabled := True, wd_visible := True\<rparr>"

definition publish_inputs :: "version_host \<Rightarrow> requester \<Rightarrow> jsval \<Rightarrow> jsval \<Rightarrow> jsval \<Rightarrow> store \<Rightarrow> (definition_row \<times> version_row) res" where
  "publish_inputs h rq code versionId payload S0 =
     rbind (draft_to_change h rq ''publish_workflow_draft'' ''Only draft workflow versions can be published.'' code versionId S0)
       (\<lambda>(d, v). rbind (assertVersionFresh h v payload ''publish_workflow_draft'') (\<lambda>_. Inr (d, v)))"

definition commit_publish :: "version_host \<Rightarrow> requester \<Rightarrow> jsval \<Rightarrow> definition_row \<Rightarrow> version_row \<Rightarrow> store \<Rightarrow> store" where
  "commit_publish h rq payload d v S =
     (let note = str_or_null (trim (to_str (jors [jget payload ''changeNote'', jget payload ''publishNote'', JStr []])));
          S1 = retire_published (wd_id d) (rq_now rq) S;
          S2 = update_versions (\<lambda>w. vr_id w = vr_id v) (rq_now rq)
                 (published_row rq (text_or (jget payload ''versionLabel'') []) note (getWorkflowEditGuardrails h (wd_id d))) S1
      in update_definitions (\<lambda>x. wd_id x = wd_id d) (activated \<circ> stamped rq
           [(''lastPublishedBy'', JStr ''workflow_manager_guardrails_v1''), (''lastPublishNote'', note)]) S2)"

definition publishWorkflowDraftVersion ::
  "version_host \<Rightarrow> requester \<Rightarrow> jsval \<Rightarrow> jsval \<Rightarrow> jsval \<Rightarrow> store \<Rightarrow> store \<Rightarrow> managed res \<times> store" where
  "publishWorkflowDraftVersion h rq code versionId payload S0 S =
     (case publish_inputs h rq code versionId payload S0 of
        Inl e \<Rightarrow> (Inl e, S)
      | Inr (d, v) \<Rightarrow> answered h d (Inr (), commit_publish h rq payload d v S))"

definition discardWorkflowDraftVersion :: "version_host \<Rightarrow> requester \<Rightarrow> jsval \<Rightarrow> jsval \<Rightarrow> store \<Rightarrow> store \<Rightarrow> managed res \<times> store" where
  "discardWorkflowDraftVersion h rq code versionId S0 S =
     (case draft_to_change h rq ''discard_workflow_draft'' ''Only draft workflow versions can be discarded.'' code versionId S0 of
        Inl e \<Rightarrow> (Inl e, S)
      | Inr (d, v) \<Rightarrow> answered h d (Inr (), touch_definition (wd_id d) rq [(''draftDiscardedBy'', JStr ''workflow_manager_guardrails_v1'')]
                        (delete_draft_rows (vr_id v) (wd_id d) S)))"

definition replaceWorkflowGraph :: "version_host \<Rightarrow> requester \<Rightarrow> jsval \<Rightarrow> jsval \<Rightarrow> store \<Rightarrow> store \<Rightarrow> managed res \<times> store" where
  "replaceWorkflowGraph h rq code payload S0 S =
     (let versionId = jor (jget payload ''workflowVersionId'') (jget payload ''baseWorkflowVersionId'')
      in if \<not> truthy versionId
         then (Inl (WorkflowServiceError ''Published workflow versions are read-only. Create a draft before saving graph edits.'' 409
                (JObj [(''workflowCode'', code), (''requiredAction'', JStr ''CREATE_DRAFT'')])), S)
         else saveWorkflowDraftGraph h rq code versionId payload S0 S)"

definition version_inputs :: "version_host \<Rightarrow> requester \<Rightarrow> jsval \<Rightarrow> jsval \<Rightarrow> store \<Rightarrow> (definition_row \<times> graph_node list) res" where
  "version_inputs h rq code payload S0 =
     rbind (may_change rq ''create_workflow_version'') (\<lambda>_. rbind (getWorkflowDefinitionByCode S0 code) (\<lambda>d.
     let source = jors [jget payload ''sourceWorkflowVersionId'', version_id_value (latest_version S0 (wd_id d)),
                        version_id_value (published_version S0 (wd_id d))];
         given = arr_items (getSafeArray (jget payload ''nodes''));
         rawNodes = (if given \<noteq> [] then given else versionNodesToCreateInput (source_nodes h S0 source))
     in rbind (nodes_required ''At least one supported workflow node is required for a workflow version.'' rawNodes) (\<lambda>_.
        rbind (normalized_nodes (vh_graph h) rawNodes) (\<lambda>ns. Inr (d, ns)))))"

definition commit_version :: "version_host \<Rightarrow> requester \<Rightarrow> jsval \<Rightarrow> definition_row \<Rightarrow> graph_node list \<Rightarrow> store \<Rightarrow> unit res \<times> store" where
  "commit_version h rq payload d ns S =
     (let publish = (jget payload ''publish'' \<noteq> JBool False); number = next_number S (wd_id d);
          S1 = (if publish then retire_published (wd_id d) (rq_now rq) S else S);
          q = \<lparr>gq_number = number,
               gq_label = text_or (jget payload ''versionLabel'') ((if publish then ''Published v'' else ''Draft v'') @ nat_str number),
               gq_status = (if publish then ''PUBLISHED'' else ''DRAFT''), gq_nodes = ns, gq_user = rq_user rq, gq_now = rq_now rq\<rparr>
      in transaction S (rbind (insertWorkflowVersionGraph h d q None S1) (\<lambda>(v, S2).
           Inr ((), update_definitions (\<lambda>x. wd_id x = wd_id d)
             ((\<lambda>x. if publish then activated x else x\<lparr>wd_visible := True\<rparr>)
               \<circ> stamped rq [(''lastVersionCreatedBy'', JStr ''workflow_manager_v1'')]) S2))))"

definition createWorkflowVersion :: "version_host \<Rightarrow> requester \<Rightarrow> jsval \<Rightarrow> jsval \<Rightarrow> store \<Rightarrow> store \<Rightarrow> managed res \<times> store" where
  "createWorkflowVersion h rq code payload S0 S =
     (case version_inputs h rq code payload S0 of
        Inl e \<Rightarrow> (Inl e, S)
      | Inr (d, ns) \<Rightarrow> answered h d (commit_version h rq payload d ns S))"

definition normalizeWorkflowCategoryCode :: "jsval \<Rightarrow> string" where
  "normalizeWorkflowCategoryCode v =
     (let code = take 80 (strip_all (CHR ''_'') (squash (\<lambda>c. \<not> token_char c) (CHR ''_'') False
                   (to_upper (trim (to_str (jor v (JStr ''GENERAL'')))))))
      in if code = [] then ''GENERAL'' else code)"

definition resolveWorkflowCategory :: "catalog \<Rightarrow> jsval \<Rightarrow> category_row res" where
  "resolveWorkflowCategory cat v =
     (let code = normalizeWorkflowCategoryCode v
      in case find (\<lambda>c. cg_code c = code \<and> cg_enabled c) (ct_categories cat) of
           Some c \<Rightarrow> Inr c
         | None \<Rightarrow> Inl (WorkflowServiceError ''Workflow category was not found or is disabled.'' 400 (JObj [(''categoryCode'', JStr code)])))"

definition normalizeWorkflowStatus :: "jsval \<Rightarrow> string \<Rightarrow> string res" where
  "normalizeWorkflowStatus v fallback =
     (let status = to_upper (trim (to_str (jor v (JStr fallback))))
      in if status \<in> {''ACTIVE'', ''INACTIVE''} then Inr status
         else Inl (WorkflowServiceError ''Invalid workflow status.'' 400
                (JObj [(''status'', JStr status), (''allowed'', str_arr [''ACTIVE'', ''INACTIVE''])])))"

definition declared_parameters :: "version_host \<Rightarrow> jsval \<Rightarrow> jsval" where
  "declared_parameters h ps = JArr (map parameter_view (normalizeWorkflowParameterDefinitions (vh_collate h) ps))"

definition trimmed_text :: "jsval \<Rightarrow> string" where
  "trimmed_text v = trim (to_str (jor v (JStr [])))"

record definition_change =
  dc_display :: string
  dc_status :: string
  dc_category :: "string option"
  dc_patch :: "(string \<times> jsval) list"

definition update_inputs :: "version_host \<Rightarrow> requester \<Rightarrow> jsval \<Rightarrow> jsval \<Rightarrow> store \<Rightarrow> (definition_row \<times> definition_change) res" where
  "update_inputs h rq code payload S0 =
     rbind (may_change rq ''update_workflow'') (\<lambda>_. rbind (getWorkflowDefinitionByCode S0 code) (\<lambda>d.
     let display = (if has_own payload ''displayName'' then trimmed_text (jget payload ''displayName'') else wd_display d)
     in if display = [] then Inl (WorkflowServiceError ''displayName is required.'' 400 (JObj []))
        else rbind (if has_own payload ''status'' then normalizeWorkflowStatus (jget payload ''status'') (wd_status d)
                    else Inr (wd_status d)) (\<lambda>status.
             rbind (if has_own payload ''categoryCode''
                    then rbind (resolveWorkflowCategory (vh_catalog h) (jget payload ''categoryCode'')) (\<lambda>c. Inr (Some (cg_id c)))
                    else Inr None) (\<lambda>category.
             rbind (if has_own payload ''runtimeParameters''
                    then rbind (assertWorkflowParameterDefinitionLimit (jget payload ''runtimeParameters'')) (\<lambda>_.
                         Inr [(''runtimeParameters'', declared_parameters h (jget payload ''runtimeParameters''))])
                    else Inr []) (\<lambda>patch.
             Inr (d, \<lparr>dc_display = display, dc_status = status, dc_category = category,
                      dc_patch = (''updatedBy'', JStr ''workflow_manager_v1'') # patch\<rparr>))))))"

definition changed_definition :: "requester \<Rightarrow> jsval \<Rightarrow> definition_row \<Rightarrow> definition_change \<Rightarrow> definition_row \<Rightarrow> definition_row" where
  "changed_definition rq payload d c x = (stamped rq (dc_patch c) x)
     \<lparr>wd_display := dc_display c,
      wd_description := (if has_own payload ''description'' then text_option (trimmed_text (jget payload ''description'')) else wd_description d),
      wd_status := dc_status c, wd_enabled := (dc_status c = ''ACTIVE''), wd_visible := True,
      wd_category := (case dc_category c of None \<Rightarrow> wd_category x | Some i \<Rightarrow> i)\<rparr>"

definition updateWorkflowDefinition :: "version_host \<Rightarrow> requester \<Rightarrow> jsval \<Rightarrow> jsval \<Rightarrow> store \<Rightarrow> store \<Rightarrow> managed res \<times> store" where
  "updateWorkflowDefinition h rq code payload S0 S =
     (case update_inputs h rq code payload S0 of
        Inl e \<Rightarrow> (Inl e, S)
      | Inr (d, c) \<Rightarrow> answered h d (Inr (), update_definitions (\<lambda>x. wd_code x = wd_code d) (changed_definition rq payload d c) S))"

definition archiveWorkflowDefinition :: "version_host \<Rightarrow> requester \<Rightarrow> jsval \<Rightarrow> store \<Rightarrow> store \<Rightarrow> managed res \<times> store" where
  "archiveWorkflowDefinition h rq code S0 S = updateWorkflowDefinition h rq code
     (JObj [(''status'', JStr ''INACTIVE''), (''enabled'', JBool False), (''visibleInAdmin'', JBool True)]) S0 S"

text \<open>\<open>ON DELETE CASCADE\<close> from a definition to its versions and from these to their graphs.\<close>

definition deleteWorkflowDefinition :: "version_host \<Rightarrow> requester \<Rightarrow> jsval \<Rightarrow> store \<Rightarrow> store \<Rightarrow> (string \<times> string) res \<times> store" where
  "deleteWorkflowDefinition h rq code S0 S =
     (case rbind (may_change rq ''delete_workflow'') (\<lambda>_. getWorkflowDefinitionByCode S0 code) of
        Inl e \<Rightarrow> (Inl e, S)
      | Inr d \<Rightarrow>
        if 0 < vh_active_runs h (wd_id d)
        then (Inl (WorkflowServiceError ''Workflow cannot be deleted while it has queued or running executions.'' 409
               (JObj [(''workflowCode'', JStr (wd_code d)), (''activeRuns'', jnat (vh_active_runs h (wd_id d)))])), S)
        else (let S1 = delete_version_rows (\<lambda>v. vr_definition v = wd_id d) S
              in (Inr (wd_code d, wd_display d), S1\<lparr>st_definitions := filter (\<lambda>x. wd_id x \<noteq> wd_id d) (st_definitions S1)\<rparr>)))"

record definition_defaults =
  df_config :: jsval
  df_category :: jsval
  df_start :: string
  df_cancel :: string
  df_cloned_from :: jsval

definition no_defaults :: definition_defaults where
  "no_defaults = \<lparr>df_config = JUndef, df_category = JUndef, df_start = [], df_cancel = [], df_cloned_from = JUndef\<rparr>"

definition new_definition ::
  "version_host \<Rightarrow> requester \<Rightarrow> jsval \<Rightarrow> definition_defaults \<Rightarrow> string \<Rightarrow> category_row \<Rightarrow> string \<Rightarrow> definition_row" where
  "new_definition h rq payload df code category d =
     (let permission = (\<lambda>p. if trim p = [] then ''WORKFLOW_RUN'' else trim p)
      in \<lparr>wd_id = d, wd_category = cg_id category, wd_code = code, wd_display = trimmed_text (jget payload ''displayName''),
          wd_description = text_option (trimmed_text (jget payload ''description'')),
          wd_status = (if jget payload ''publish'' \<noteq> JBool False then ''ACTIVE'' else ''INACTIVE''),
          wd_visible = (jget payload ''visibleInAdmin'' \<noteq> JBool False), wd_enabled = (jget payload ''enabled'' \<noteq> JBool False),
          wd_start = permission (df_start df), wd_cancel = permission (df_cancel df),
          wd_config = json_clone (obj_with (getSafeObject (df_config df))
            ([(''createdBy'', JStr (if truthy (df_cloned_from df) then ''workflow_clone_v1'' else ''workflow_builder_v1'')),
              (''builderVersion'', JStr ''10.25''), (''supportedNodeTypes'', str_arr (take 8 SUPPORTED_NODE_TYPES))]
             @ (if truthy (df_cloned_from df) then [(''clonedFromWorkflowCode'', df_cloned_from df)] else [])
             @ [(''runtimeParameters'', declared_parameters h (jget payload ''runtimeParameters''))])),
          wd_created_by = user_id (rq_user rq), wd_updated_by = user_id (rq_user rq)\<rparr>)"

definition definition_inputs ::
  "version_host \<Rightarrow> requester \<Rightarrow> jsval \<Rightarrow> (string \<times> graph_node list) res" where
  "definition_inputs h rq payload =
     rbind (assertPermission (JStr ''WORKFLOW_CREATE'') (rq_permissions rq) ''create_workflow'') (\<lambda>_.
     let code = normalizeWorkflowCode (jor (jget payload ''workflowCode'') (jget payload ''displayName''));
         rawNodes = arr_items (getSafeArray (jget payload ''nodes''))
     in rbind (assertWorkflowParameterDefinitionLimit (jget payload ''runtimeParameters'')) (\<lambda>_.
        if code = [] then Inl (WorkflowServiceError ''workflowCode or displayName is required.'' 400 (JObj []))
        else if trimmed_text (jget payload ''displayName'') = [] then Inl (WorkflowServiceError ''displayName is required.'' 400 (JObj []))
        else rbind (nodes_required ''At least one supported workflow node is required.'' rawNodes) (\<lambda>_.
             rbind (normalized_nodes (vh_graph h) rawNodes) (\<lambda>ns. Inr (code, ns)))))"

definition definition_checks :: "version_host \<Rightarrow> jsval \<Rightarrow> definition_defaults \<Rightarrow> string \<Rightarrow> graph_node list \<Rightarrow> store \<Rightarrow> category_row res" where
  "definition_checks h payload df code ns S =
     rbind (if definition_by_code S code \<noteq> None
            then Inl (WorkflowServiceError ''Workflow code already exists.'' 409 (JObj [(''workflowCode'', JStr code)])) else Inr ()) (\<lambda>_.
     rbind (resolveWorkflowCategory (vh_catalog h) (jors [jget payload ''categoryCode'', df_category df, JStr ''GENERAL''])) (\<lambda>category.
     rbind (validateWorkflowTargets (vh_catalog h) S ns code) (\<lambda>_. Inr category)))"

definition first_version :: "requester \<Rightarrow> jsval \<Rightarrow> graph_node list \<Rightarrow> graph_request" where
  "first_version rq payload ns =
     (let publish = (jget payload ''publish'' \<noteq> JBool False)
      in \<lparr>gq_number = 1, gq_label = (if publish then ''Builder v1 published version'' else ''Builder v1 draft version''),
          gq_status = (if publish then ''PUBLISHED'' else ''DRAFT''), gq_nodes = ns, gq_user = rq_user rq, gq_now = rq_now rq\<rparr>)"

definition write_definition ::
  "version_host \<Rightarrow> definition_row \<Rightarrow> graph_request \<Rightarrow> store \<Rightarrow> ((definition_row \<times> string \<times> stored_node list) \<times> store) res" where
  "write_definition h d q S =
     rbind (new_version h (wd_id d) q (S\<lparr>st_definitions := st_definitions S @ [d], st_next := Suc (st_next S)\<rparr>)) (\<lambda>(v, S2).
     rbind (write_graph h d v ''workflow_builder_v1'' q S2) (\<lambda>(ms, S3). Inr ((d, v, ms), S3)))"

definition createWorkflowDefinition ::
  "version_host \<Rightarrow> requester \<Rightarrow> jsval \<Rightarrow> definition_defaults \<Rightarrow> store \<Rightarrow> (definition_row \<times> string \<times> stored_node list) res \<times> store" where
  "createWorkflowDefinition h rq payload df S =
     transaction S (rbind (definition_inputs h rq payload) (\<lambda>(code, ns).
       rbind (definition_checks h payload df code ns S) (\<lambda>category.
       write_definition h (new_definition h rq payload df code category (vh_uuid h (st_next S))) (first_version rq payload ns) S)))"

definition dropped_config_keys :: "string list" where
  "dropped_config_keys = [''createdBy'', ''updatedBy'', ''lastVersionCreatedBy'', ''clonedFromWorkflowCode'', ''runtimeParameters'']"

definition getCloneableWorkflowConfig :: "jsval \<Rightarrow> jsval" where
  "getCloneableWorkflowConfig config =
     JObj (filter (\<lambda>(k, v). k \<notin> set dropped_config_keys) (obj_kvs (getSafeObject config)))"

definition clone_payload :: "jsval \<Rightarrow> managed \<Rightarrow> version_host \<Rightarrow> string \<Rightarrow> string \<Rightarrow> jsval" where
  "clone_payload payload source h code name =
     (let d = mg_definition source;
          ns = map sn_node (case mg_published source of Some g \<Rightarrow> vg_nodes g
                            | None \<Rightarrow> (case mg_latest source of Some g \<Rightarrow> vg_nodes g | None \<Rightarrow> []))
      in JObj [(''workflowCode'', JStr code), (''displayName'', JStr name),
           (''description'', if has_own payload ''description'' then JStr (trimmed_text (jget payload ''description''))
                             else null_or_str (wd_description d)),
           (''publish'', JBool (jget payload ''publish'' \<noteq> JBool False)), (''visibleInAdmin'', JBool True), (''enabled'', JBool True),
           (''categoryCode'', jors [jget payload ''categoryCode'', JStr (fst (category_of (vh_catalog h) d)), JStr ''GENERAL'']),
           (''runtimeParameters'', declared_parameters h (declared_parameters h (getParameterSchemaFromConfig (wd_config d)))),
           (''nodes'', JArr (versionNodesToCreateInput ns))])"

definition clone_inputs :: "version_host \<Rightarrow> requester \<Rightarrow> jsval \<Rightarrow> jsval \<Rightarrow> store \<Rightarrow> (jsval \<times> definition_defaults) res" where
  "clone_inputs h rq code payload S0 =
     rbind (assertPermission (JStr ''WORKFLOW_CREATE'') (rq_permissions rq) ''clone_workflow'') (\<lambda>_.
     rbind (getWorkflowDefinitionForManage h S0 code) (\<lambda>source.
     let d = mg_definition source;
         cloneCode = normalizeWorkflowCode (jor (jget payload ''workflowCode'') (JStr (wd_code d @ ''-copy'')));
         cloneName = trim (to_str (jor (jget payload ''displayName'') (JStr (wd_display d @ '' Copy''))))
     in if cloneCode = [] then Inl (WorkflowServiceError ''Clone workflowCode is required.'' 400 (JObj []))
        else if cloneName = [] then Inl (WorkflowServiceError ''Clone displayName is required.'' 400 (JObj []))
        else Inr (clone_payload payload source h cloneCode cloneName,
               \<lparr>df_config = getCloneableWorkflowConfig (wd_config d), df_category = JUndef, df_start = wd_start d,
                df_cancel = wd_cancel d, df_cloned_from = JStr (wd_code d)\<rparr>)))"

definition cloneWorkflowDefinition ::
  "version_host \<Rightarrow> requester \<Rightarrow> jsval \<Rightarrow> jsval \<Rightarrow> store \<Rightarrow> store \<Rightarrow> (definition_row \<times> string \<times> stored_node list) res \<times> store" where
  "cloneWorkflowDefinition h rq code payload S0 S =
     (case clone_inputs h rq code payload S0 of
        Inl e \<Rightarrow> (Inl e, S)
      | Inr (clone, df) \<Rightarrow> createWorkflowDefinition h rq clone df S)"

text \<open>One request to the service, and the stores that requests lead to: each reads some earlier store and commits to the last one.\<close>

datatype request =
  Create_workflow jsval
| Clone_workflow jsval jsval
| Update_workflow jsval jsval
| Archive_workflow jsval
| Delete_workflow jsval
| Create_draft jsval jsval
| Save_draft jsval jsval jsval
| Replace_graph jsval jsval
| Publish_draft jsval jsval jsval
| Discard_draft jsval jsval
| Create_version jsval jsval

text \<open>Whether a request was carried out, and the store after it.\<close>

definition outcome :: "'a res \<times> store \<Rightarrow> unit res \<times> store" where
  "outcome = (\<lambda>(r, S). (rbind r (\<lambda>_. Inr ()), S))"

fun serve :: "version_host \<Rightarrow> requester \<Rightarrow> request \<Rightarrow> store \<Rightarrow> store \<Rightarrow> unit res \<times> store" where
  "serve h rq (Create_workflow payload) S0 S = outcome (createWorkflowDefinition h rq payload no_defaults S)"
| "serve h rq (Clone_workflow code payload) S0 S = outcome (cloneWorkflowDefinition h rq code payload S0 S)"
| "serve h rq (Update_workflow code payload) S0 S = outcome (updateWorkflowDefinition h rq code payload S0 S)"
| "serve h rq (Archive_workflow code) S0 S = outcome (archiveWorkflowDefinition h rq code S0 S)"
| "serve h rq (Delete_workflow code) S0 S = outcome (deleteWorkflowDefinition h rq code S0 S)"
| "serve h rq (Create_draft code payload) S0 S = outcome (createWorkflowDraftVersion h rq code payload S0 S)"
| "serve h rq (Save_draft code versionId payload) S0 S = outcome (saveWorkflowDraftGraph h rq code versionId payload S0 S)"
| "serve h rq (Replace_graph code payload) S0 S = outcome (replaceWorkflowGraph h rq code payload S0 S)"
| "serve h rq (Publish_draft code versionId payload) S0 S = outcome (publishWorkflowDraftVersion h rq code versionId payload S0 S)"
| "serve h rq (Discard_draft code versionId) S0 S = outcome (discardWorkflowDraftVersion h rq code versionId S0 S)"
| "serve h rq (Create_version code payload) S0 S = outcome (createWorkflowVersion h rq code payload S0 S)"

definition empty_store :: store where
  "empty_store = \<lparr>st_definitions = [], st_versions = [], st_nodes = [], st_edges = [], st_next = 0\<rparr>"

text \<open>The stores so far, newest first.\<close>

inductive commits :: "version_host \<Rightarrow> store list \<Rightarrow> bool" for h where
  start: "commits h [empty_store]"
| commit: "commits h (S # past) \<Longrightarrow> S0 \<in> set (S # past) \<Longrightarrow> commits h (snd (serve h rq r S0 S) # S # past)"

end
