(* ===== verification/WorkflowVersionGuarantees.thy ===== *)
theory WorkflowVersionGuarantees
  imports WorkflowVersions "HOL-Library.Transitive_Closure_Table"
begin

text \<open>
  What the handlers of \<open>WorkflowVersions\<close> guarantee: the query that looks for cycles finds every one, versions stay numbered apart with
  one of them published, a graph that is not a draft's keeps, a refused request changes nothing; and what they do not guarantee.
\<close>

section \<open>The query for cycles\<close>

definition child :: "store \<Rightarrow> string \<Rightarrow> string \<Rightarrow> bool" where
  "child S a b = (b \<in> set (children S a))"

lemma walk_sound:
  "p \<in> set (walk_rows S c path) \<Longrightarrow> \<exists>xs y. p = rev path @ c # xs \<and> rtrancl_path (child S) c xs y \<and> last p = y"
proof (induction S c path arbitrary: p rule: walk_rows.induct)
  case (1 S c path)
  from "1.prems" consider "p = rev (c # path)"
    | k where "k \<in> set (children S c)" "k \<notin> set (c # path)" "p \<in> set (walk_rows S k (c # path))"
    by (subst (asm) walk_rows.simps) auto
  then show ?case
  proof cases
    case 1
    then show ?thesis by (auto intro!: rtrancl_path.base)
  next
    case (2 k)
    then obtain xs y where xs: "p = rev (c # path) @ k # xs" "rtrancl_path (child S) k xs y" "last p = y"
      using "1.IH" [of k p] by auto
    then have "rtrancl_path (child S) c (k # xs) y" using 2(1) by (intro rtrancl_path.step) (simp_all add: child_def)
    with xs show ?thesis by (intro exI [of _ "k # xs"] exI [of _ y]) simp
  qed
qed

lemma walk_complete:
  "rtrancl_path (child S) c xs y \<Longrightarrow> distinct (c # xs) \<Longrightarrow> set (c # xs) \<inter> set path = {} \<Longrightarrow> rev path @ c # xs \<in> set (walk_rows S c path)"
proof (induction c xs y arbitrary: path rule: rtrancl_path.induct)
  case (base c)
  then show ?case by (subst walk_rows.simps) simp
next
  case (step c k xs y)
  have "rev (c # path) @ k # xs \<in> set (walk_rows S k (c # path))" using step by (intro step.IH) auto
  moreover have "k \<in> set (filter (\<lambda>k. k \<notin> set (c # path)) (children S c))" using step by (auto simp: child_def)
  ultimately show ?case by (subst walk_rows.simps) auto
qed

lemma last_of_path: "rtrancl_path r x xs y \<Longrightarrow> last (x # xs) = y"
  by (induction rule: rtrancl_path.induct) auto

lemma cycle_path_iff:
  "(cycle_path S codes parent \<noteq> None) = (\<exists>c \<in> set codes. live S c \<noteq> None \<and> (child S)\<^sup>*\<^sup>* c parent)"
proof -
  have "(cycle_path S codes parent \<noteq> None) = (\<exists>c \<in> set codes. live S c \<noteq> None \<and> (\<exists>p \<in> set (walk_rows S c []). last p = parent))"
    by (auto simp: cycle_path_def find_None_iff walk_def)
  moreover have "(\<exists>p \<in> set (walk_rows S c []). last p = parent) = (child S)\<^sup>*\<^sup>* c parent" for c
  proof
    assume "\<exists>p \<in> set (walk_rows S c []). last p = parent"
    then show "(child S)\<^sup>*\<^sup>* c parent" using walk_sound [of _ S c "[]"] by (auto simp: rtranclp_eq_rtrancl_path)
  next
    assume "(child S)\<^sup>*\<^sup>* c parent"
    then obtain xs where "rtrancl_path (child S) c xs parent" "distinct (c # xs)"
      by (auto simp: rtranclp_eq_rtrancl_path elim: rtrancl_path_distinct)
    then show "\<exists>p \<in> set (walk_rows S c []). last p = parent"
      using walk_complete [of S c xs parent "[]"] last_of_path by fastforce
  qed
  ultimately show ?thesis by simp
qed

text \<open>C37 (query_finds_every_cycle): the recursive query over the published graphs answers a path exactly when one of the targets can
  be started and reaches the parent through child workflows, in any number of steps; it always ends.\<close>

theorem query_finds_every_cycle:
  "(cycle_path S codes parent \<noteq> None) = (\<exists>c \<in> set codes. live S c \<noteq> None \<and> (child S)\<^sup>*\<^sup>* c parent)"
  by (rule cycle_path_iff)

section \<open>The tables stay sound\<close>

definition known :: "version_host \<Rightarrow> nat \<Rightarrow> string \<Rightarrow> bool" where
  "known h next i = (\<exists>k < next. i = vh_uuid h k)"

definition definition_ids :: "store \<Rightarrow> string list" where
  "definition_ids S = map wd_id (st_definitions S)"

definition version_ids :: "store \<Rightarrow> string list" where
  "version_ids S = map vr_id (st_versions S)"

definition definitions_ok :: "version_host \<Rightarrow> store \<Rightarrow> bool" where
  "definitions_ok h S = (distinct (definition_ids S) \<and> distinct (map wd_code (st_definitions S))
     \<and> list_all (known h (st_next S)) (definition_ids S))"

definition version_ok :: "version_host \<Rightarrow> store \<Rightarrow> version_row \<Rightarrow> bool" where
  "version_ok h S v = (known h (st_next S) (vr_id v) \<and> vr_definition v \<in> set (definition_ids S)
     \<and> vr_status v \<in> {''DRAFT'', ''PUBLISHED'', ''RETIRED''})"

definition numbered :: "version_row \<Rightarrow> string \<times> nat" where
  "numbered v = (vr_definition v, vr_number v)"

definition versions_ok :: "version_host \<Rightarrow> store \<Rightarrow> bool" where
  "versions_ok h S = (distinct (version_ids S) \<and> distinct (map numbered (st_versions S)) \<and> list_all (version_ok h S) (st_versions S))"

definition published_at :: "store \<Rightarrow> string \<Rightarrow> string set" where
  "published_at S d = {vr_id v | v. v \<in> set (st_versions S) \<and> vr_status v = ''PUBLISHED'' \<and> vr_definition v = d}"

definition one_published :: "store \<Rightarrow> bool" where
  "one_published S = (\<forall>d. \<forall>v \<in> published_at S d. \<forall>w \<in> published_at S d. v = w)"

definition node_at :: "stored_node \<Rightarrow> string \<times> string" where
  "node_at n = (sn_version n, node_key n)"

definition nodes_ok :: "version_host \<Rightarrow> store \<Rightarrow> bool" where
  "nodes_ok h S = (distinct (map sn_id (st_nodes S)) \<and> distinct (map node_at (st_nodes S))
     \<and> list_all (\<lambda>n. known h (st_next S) (sn_id n) \<and> sn_version n \<in> set (version_ids S)) (st_nodes S))"

text \<open>The end of an edge is a node of the edge's version.\<close>

definition placed :: "stored_node \<Rightarrow> string \<times> string" where
  "placed n = (sn_version n, sn_id n)"

definition joins :: "stored_node list \<Rightarrow> edge \<Rightarrow> bool" where
  "joins ns e = (ed_from e \<noteq> ed_to e \<and> (ed_version e, ed_from e) \<in> set (map placed ns) \<and> (ed_version e, ed_to e) \<in> set (map placed ns))"

definition drawn :: "edge \<Rightarrow> string \<times> string \<times> string \<times> string" where
  "drawn e = (ed_version e, ed_from e, ed_to e, ed_type e)"

definition edges_ok :: "store \<Rightarrow> bool" where
  "edges_ok S = (list_all (joins (st_nodes S)) (st_edges S) \<and> distinct (map drawn (st_edges S)))"

definition store_ok :: "version_host \<Rightarrow> store \<Rightarrow> bool" where
  "store_ok h S = (definitions_ok h S \<and> versions_ok h S \<and> one_published S \<and> nodes_ok h S \<and> edges_ok S)"

lemma known_mono: "known h m i \<Longrightarrow> m \<le> n \<Longrightarrow> known h n i"
  unfolding known_def using less_le_trans by blast

lemma known_next [simp]: "known h (Suc n) (vh_uuid h n)"
  unfolding known_def by blast

lemma known_new: "inj (vh_uuid h) \<Longrightarrow> \<not> known h n (vh_uuid h n)"
  unfolding known_def by (auto dest: injD)

text \<open>The versions of a later store: those of an earlier one, or new ones.\<close>

definition row_key :: "version_row \<Rightarrow> string \<times> string \<times> nat" where
  "row_key v = (vr_id v, vr_definition v, vr_number v)"

definition descends :: "version_host \<Rightarrow> store \<Rightarrow> store \<Rightarrow> bool" where
  "descends h S T = (st_next S \<le> st_next T \<and> (\<forall>v \<in> set (st_versions T).
     row_key v \<in> row_key ` set (st_versions S) \<or> (\<exists>k \<ge> st_next S. vr_id v = vh_uuid h k)))"

lemma descends_refl [simp]: "descends h S S"
  by (simp add: descends_def)

lemma descends_trans:
  assumes "descends h S T" and "descends h T U" shows "descends h S U"
proof -
  have "row_key v \<in> row_key ` set (st_versions S) \<or> (\<exists>k \<ge> st_next S. vr_id v = vh_uuid h k)" if "v \<in> set (st_versions U)" for v
  proof -
    from assms(2) that consider w where "w \<in> set (st_versions T)" "row_key v = row_key w" | k where "k \<ge> st_next T" "vr_id v = vh_uuid h k"
      unfolding descends_def by blast
    then show ?thesis
    proof cases
      case 1
      then have "vr_id v = vr_id w" by (simp add: row_key_def)
      with 1 assms(1) show ?thesis unfolding descends_def by metis
    next
      case 2
      moreover have "st_next S \<le> k" using 2 assms(1) unfolding descends_def by linarith
      ultimately show ?thesis by blast
    qed
  qed
  then show ?thesis using assms unfolding descends_def by auto
qed

lemma descends_same:
  assumes "descends h S T" and "versions_ok h S" and "inj (vh_uuid h)" and "v \<in> set (st_versions S)" and "w \<in> set (st_versions T)"
    and "vr_id w = vr_id v"
  shows "row_key w = row_key v"
proof -
  obtain k where k: "k < st_next S" "vr_id v = vh_uuid h k"
    using assms(2,4) by (auto simp: versions_ok_def list_all_iff version_ok_def known_def)
  then have "\<not> (\<exists>j \<ge> st_next S. vr_id w = vh_uuid h j)" using assms(3,6) by (auto dest: injD)
  then obtain u where u: "u \<in> set (st_versions S)" "row_key w = row_key u" using assms(1,5) unfolding descends_def by blast
  then have "vr_id u = vr_id v" using assms(6) by (simp add: row_key_def)
  then have "u = v" using u(1) assms(2,4) by (auto simp: versions_ok_def version_ids_def distinct_map dest: inj_onD)
  with u show ?thesis by simp
qed

subsection \<open>Definitions change\<close>

lemma update_definitions_sel [simp]:
  "st_versions (update_definitions P f S) = st_versions S" "st_nodes (update_definitions P f S) = st_nodes S"
  "st_edges (update_definitions P f S) = st_edges S" "st_next (update_definitions P f S) = st_next S"
  by (simp_all add: update_definitions_def)

lemma descends_versions: "st_versions T = st_versions S \<Longrightarrow> st_next T = st_next S \<Longrightarrow> descends h S T"
  by (simp add: descends_def)

lemma same_versions: "st_versions T = st_versions S \<Longrightarrow> published_at T d = published_at S d" "st_versions T = st_versions S \<Longrightarrow> version_ids T = version_ids S"
  by (simp_all add: published_at_def version_ids_def)

lemma update_definitions_ok:
  assumes "store_ok h S" and "\<And>d. wd_id (f d) = wd_id d \<and> wd_code (f d) = wd_code d"
  shows "store_ok h (update_definitions P f S)"
proof -
  let ?T = "update_definitions P f S"
  have ids: "definition_ids ?T = definition_ids S" and codes: "map wd_code (st_definitions ?T) = map wd_code (st_definitions S)"
    using assms(2) by (simp_all add: definition_ids_def update_definitions_def)
  have "version_ok h ?T = version_ok h S" by (rule ext) (simp add: version_ok_def ids)
  with assms(1) show ?thesis
    by (simp add: store_ok_def definitions_ok_def versions_ok_def nodes_ok_def edges_ok_def one_published_def same_versions [of ?T S] ids codes)
qed

subsection \<open>Versions change\<close>

lemma update_versions_sel [simp]:
  "st_definitions (update_versions P t f S) = st_definitions S" "st_nodes (update_versions P t f S) = st_nodes S"
  "st_edges (update_versions P t f S) = st_edges S" "st_next (update_versions P t f S) = st_next S"
  by (simp_all add: update_versions_def)

lemma updated_version:
  assumes "v \<in> set (st_versions (update_versions P t f S))"
  obtains "v \<in> set (st_versions S)" "\<not> P v" | w where "w \<in> set (st_versions S)" "P w" "v = (f w)\<lparr>vr_updated := t\<rparr>"
  using assms by (auto simp: update_versions_def split: if_splits)

lemma update_versions_keys:
  assumes "\<And>v. row_key (f v) = row_key v"
  shows "map row_key (st_versions (update_versions P t f S)) = map row_key (st_versions S)"
proof -
  have "row_key ((f v)\<lparr>vr_updated := t\<rparr>) = row_key v" for v using assms [of v] by (simp add: row_key_def)
  then show ?thesis by (simp add: update_versions_def)
qed

lemma keys_ids: "map row_key (st_versions T) = map row_key (st_versions S) \<Longrightarrow> version_ids T = version_ids S"
  "map row_key (st_versions T) = map row_key (st_versions S) \<Longrightarrow> map numbered (st_versions T) = map numbered (st_versions S)"
proof -
  have e: "version_ids S = map fst (map row_key (st_versions S))" "map numbered (st_versions S) = map snd (map row_key (st_versions S))" for S
    by (simp_all add: version_ids_def row_key_def numbered_def)
  assume "map row_key (st_versions T) = map row_key (st_versions S)"
  then show "version_ids T = version_ids S" "map numbered (st_versions T) = map numbered (st_versions S)" by (simp_all only: e)
qed

lemma update_versions_descends:
  assumes "\<And>v. row_key (f v) = row_key v"
  shows "descends h S (update_versions P t f S)"
proof -
  have "row_key ` set (st_versions (update_versions P t f S)) = row_key ` set (st_versions S)"
    using update_versions_keys [of f P t S, OF assms] by (metis list.set_map)
  then show ?thesis unfolding descends_def by auto
qed

lemma update_versions_ok:
  assumes "store_ok h S" and "\<And>v. row_key (f v) = row_key v" and "\<And>v. vr_status (f v) \<in> {vr_status v, ''PUBLISHED'', ''RETIRED''}"
    and "one_published (update_versions P t f S)"
  shows "store_ok h (update_versions P t f S)"
proof -
  let ?T = "update_versions P t f S"
  note ids = keys_ids [OF update_versions_keys [of f P t S, OF assms(2)]]
  have defs: "definition_ids ?T = definition_ids S" by (simp add: definition_ids_def)
  have "version_ok h ?T v" if "v \<in> set (st_versions ?T)" for v
    using that
  proof (cases rule: updated_version)
    case 1
    then show ?thesis using assms(1) by (simp add: store_ok_def versions_ok_def list_all_iff version_ok_def defs)
  next
    case (2 w)
    then show ?thesis using assms(1) assms(2,3) [of w] by (auto simp: store_ok_def versions_ok_def list_all_iff version_ok_def defs row_key_def)
  qed
  then show ?thesis
    using assms(1,4) ids by (simp add: store_ok_def definitions_ok_def versions_ok_def nodes_ok_def edges_ok_def list_all_iff defs)
qed

lemma published_update:
  assumes "\<And>v. row_key (f v) = row_key v" and "\<And>v. P v \<Longrightarrow> vr_status (f v) = ''PUBLISHED'' \<Longrightarrow> vr_status v = ''PUBLISHED''"
  shows "published_at (update_versions P t f S) d \<subseteq> published_at S d"
proof
  fix i assume "i \<in> published_at (update_versions P t f S) d"
  then obtain v where v: "v \<in> set (st_versions (update_versions P t f S))" "vr_status v = ''PUBLISHED''" "vr_definition v = d" "i = vr_id v"
    by (auto simp: published_at_def)
  from v(1) show "i \<in> published_at S d"
  proof (cases rule: updated_version)
    case 1
    with v show ?thesis by (auto simp: published_at_def)
  next
    case (2 w)
    with v assms [of w] show ?thesis by (auto simp: published_at_def row_key_def)
  qed
qed

lemma one_published_subset: "one_published S \<Longrightarrow> (\<And>d. published_at T d \<subseteq> published_at S d) \<Longrightarrow> one_published T"
  unfolding one_published_def by blast


lemma known_versions: "store_ok h S \<Longrightarrow> i \<in> set (version_ids S) \<Longrightarrow> known h (st_next S) i"
  by (auto simp: store_ok_def versions_ok_def list_all_iff version_ok_def version_ids_def)

lemma known_nodes: "store_ok h S \<Longrightarrow> i \<in> set (map sn_id (st_nodes S)) \<Longrightarrow> known h (st_next S) i"
  by (auto simp: store_ok_def nodes_ok_def list_all_iff)

lemma version_ok_next: "version_ok h S v \<Longrightarrow> st_next S \<le> n \<Longrightarrow> version_ok h (S\<lparr>st_next := n\<rparr>) v"
  unfolding version_ok_def definition_ids_def using known_mono by fastforce

lemma store_ok_next:
  assumes "store_ok h S" and "st_next S \<le> n"
  shows "store_ok h (S\<lparr>st_next := n\<rparr>)"
proof -
  let ?T = "S\<lparr>st_next := n\<rparr>"
  have same: "definition_ids ?T = definition_ids S" "version_ids ?T = version_ids S" "published_at ?T d = published_at S d" for d
    by (simp_all add: definition_ids_def version_ids_def published_at_def)
  have later: "known h (st_next S) i \<Longrightarrow> known h n i" for i using known_mono assms(2) by blast
  have "list_all (known h n) (definition_ids S)"
    using assms(1) later unfolding store_ok_def definitions_ok_def list_all_iff by blast
  moreover have "list_all (version_ok h ?T) (st_versions S)"
    using assms version_ok_next [of h S _ n] unfolding store_ok_def versions_ok_def list_all_iff by blast
  moreover have "list_all (\<lambda>m. known h n (sn_id m) \<and> sn_version m \<in> set (version_ids S)) (st_nodes S)"
    using assms(1) later unfolding store_ok_def nodes_ok_def list_all_iff by blast
  ultimately show ?thesis
    using assms(1) by (simp add: store_ok_def definitions_ok_def versions_ok_def one_published_def nodes_ok_def edges_ok_def same)
qed

lemma retire_published_ok:
  assumes "store_ok h S"
  shows "store_ok h (retire_published d t S)" and "published_at (retire_published d t S) d = {}" and "descends h S (retire_published d t S)"
proof -
  let ?f = "\<lambda>v. v\<lparr>vr_status := ''RETIRED''\<rparr>"
  have "one_published (retire_published d t S)"
  proof (rule one_published_subset)
    show "one_published S" using assms by (simp add: store_ok_def)
    show "published_at (retire_published d t S) e \<subseteq> published_at S e" for e
      unfolding retire_published_def by (rule published_update) (simp_all add: row_key_def)
  qed
  then show "store_ok h (retire_published d t S)"
    unfolding retire_published_def by (intro update_versions_ok [OF assms]) (simp_all add: row_key_def)
  show "published_at (retire_published d t S) d = {}"
  proof -
    have "vr_status v \<noteq> ''PUBLISHED'' \<or> vr_definition v \<noteq> d" if "v \<in> set (st_versions (retire_published d t S))" for v
      using that unfolding retire_published_def by (cases rule: updated_version) auto
    then show ?thesis by (auto simp: published_at_def)
  qed
  show "descends h S (retire_published d t S)"
    unfolding retire_published_def by (rule update_versions_descends) (simp add: row_key_def)
qed

lemma publish_row_ok:
  assumes "store_ok h S" and "published_at S d = {}" and "\<And>v. v \<in> set (st_versions S) \<Longrightarrow> vr_id v = i \<Longrightarrow> vr_definition v = d"
    and "\<And>v. row_key (f v) = row_key v" and "\<And>v. vr_status (f v) = ''PUBLISHED''"
  shows "store_ok h (update_versions (\<lambda>w. vr_id w = i) t f S)"
proof (rule update_versions_ok [OF assms(1,4)])
  let ?T = "update_versions (\<lambda>w. vr_id w = i) t f S"
  have "published_at ?T d' \<subseteq> (if d' = d then {i} else published_at S d')" for d'
  proof
    fix j assume "j \<in> published_at ?T d'"
    then obtain v where v: "v \<in> set (st_versions ?T)" "vr_status v = ''PUBLISHED''" "vr_definition v = d'" "j = vr_id v"
      by (auto simp: published_at_def)
    from v(1) show "j \<in> (if d' = d then {i} else published_at S d')"
    proof (cases rule: updated_version)
      case 1
      with v assms(2) show ?thesis by (auto simp: published_at_def)
    next
      case (2 w)
      with v assms(3) [of w] assms(4) [of w] show ?thesis by (auto simp: row_key_def)
    qed
  qed
  then have at_d: "published_at ?T d \<subseteq> {i}" and other: "\<And>d'. d' \<noteq> d \<Longrightarrow> published_at ?T d' \<subseteq> published_at S d'"
    by presburger+
  have old: "one_published S" using assms(1) by (simp add: store_ok_def)
  show "one_published ?T"
    unfolding one_published_def
  proof (intro allI ballI)
    fix d' v w assume vw: "v \<in> published_at ?T d'" "w \<in> published_at ?T d'"
    show "v = w"
    proof (cases "d' = d")
      case True
      with vw at_d show ?thesis by blast
    next
      case False
      with vw other [OF False] old show ?thesis unfolding one_published_def by blast
    qed
  qed
qed (use assms(5) in auto)

subsection \<open>A graph is written\<close>

lemma new_version_ok:
  assumes "new_version h d q S = Inr (v, T)" and "store_ok h S" and "inj (vh_uuid h)" and "gq_status q \<in> {''DRAFT'', ''PUBLISHED''}"
    and "gq_status q = ''PUBLISHED'' \<Longrightarrow> published_at S d = {}"
  shows "store_ok h T" and "descends h S T" and "v \<in> set (version_ids T)" and "st_nodes T = st_nodes S" and "st_edges T = st_edges S"
    and "v \<notin> set (version_ids S)"
proof -
  obtain row where T: "T = S\<lparr>st_versions := st_versions S @ [row], st_next := Suc (st_next S)\<rparr>" and v: "v = vh_uuid h (st_next S)"
    and row: "vr_id row = v" "vr_definition row = d" "vr_number row = gq_number q" "vr_status row = gq_status q"
    and none: "version_refusal S d (gq_number q) = None"
    using assms(1) by (auto simp: new_version_def Let_def split: option.splits)
  have d: "d \<in> set (definition_ids S)" and number: "(d, gq_number q) \<notin> set (map numbered (st_versions S))"
    using none by (auto simp: version_refusal_def definition_ids_def numbered_def list_ex_iff split: if_splits)
  show fresh: "v \<notin> set (version_ids S)"
    using known_versions [OF assms(2)] known_new [OF assms(3)] unfolding v by blast
  have later: "known h (st_next S) i \<Longrightarrow> known h (Suc (st_next S)) i" for i using known_mono [of h "st_next S" i "Suc (st_next S)"] by simp
  have "definitions_ok h T"
    using assms(2) by (auto simp: T store_ok_def definitions_ok_def definition_ids_def list_all_iff intro: later)
  moreover have "versions_ok h T"
    using assms(2,4) fresh d number row
    by (auto simp: T v store_ok_def versions_ok_def version_ids_def definition_ids_def list_all_iff version_ok_def numbered_def intro: later)
  moreover have "one_published T"
  proof -
    have "published_at T d' = published_at S d' \<union> (if d' = d \<and> gq_status q = ''PUBLISHED'' then {v} else {})" for d'
      using row by (auto simp: published_at_def T)
    then show ?thesis using assms(2,5) by (auto simp: store_ok_def one_published_def)
  qed
  moreover have "nodes_ok h T" using assms(2) by (auto simp: T store_ok_def nodes_ok_def version_ids_def list_all_iff intro: later)
  moreover have "edges_ok T" using assms(2) by (simp add: T store_ok_def edges_ok_def)
  ultimately show "store_ok h T" by (simp add: store_ok_def)
  show "descends h S T" using row by (auto simp: descends_def T v)
  show "v \<in> set (version_ids T)" "st_nodes T = st_nodes S" "st_edges T = st_edges S" using row by (simp_all add: T version_ids_def)
qed

lemma insert_node_ok:
  assumes "insert_node h v n S = Inr (m, T)" and "store_ok h S" and "inj (vh_uuid h)"
  shows "store_ok h T" and "descends h S T" and "st_versions T = st_versions S" and "st_edges T = st_edges S"
    and "st_nodes T = st_nodes S @ [m]" and "sn_version m = v" and "sn_node m = json_node n" and "sn_id m \<notin> set (map sn_id (st_nodes S))"
    and "st_definitions T = st_definitions S"
proof -
  obtain ref where m: "m = \<lparr>sn_id = vh_uuid h (st_next S), sn_version = v, sn_ref = ref, sn_node = json_node n\<rparr>"
    and T: "T = S\<lparr>st_nodes := st_nodes S @ [m], st_next := Suc (st_next S)\<rparr>" and none: "node_refusal S v n = None"
    using assms(1) by (auto simp: insert_node_def Let_def split: option.splits)
  have v: "v \<in> set (version_ids S)" and key: "(v, gn_key n) \<notin> set (map node_at (st_nodes S))"
    using none by (auto simp: node_refusal_def version_ids_def node_at_def list_ex_iff split: if_splits)
  show fresh: "sn_id m \<notin> set (map sn_id (st_nodes S))"
    using known_nodes [OF assms(2)] known_new [OF assms(3)] unfolding m stored_node.simps by blast
  let ?N = "S\<lparr>st_next := Suc (st_next S)\<rparr>"
  have N: "store_ok h ?N" by (rule store_ok_next [OF assms(2)]) simp
  have same: "definition_ids T = definition_ids ?N" "version_ids T = version_ids ?N" "published_at T d = published_at ?N d"
    "version_ok h T = version_ok h ?N" for d
    by (simp_all add: T definition_ids_def version_ids_def published_at_def version_ok_def fun_eq_iff)
  have node: "sn_id m = vh_uuid h (st_next S)" "sn_version m = v" "node_at m = (v, gn_key n)" by (simp_all add: m node_at_def json_node_def)
  have "nodes_ok h T"
    using N v key fresh node by (simp add: store_ok_def nodes_ok_def same(2)) (simp add: T version_ids_def)
  moreover have "edges_ok T" using N unfolding store_ok_def edges_ok_def by (simp add: T list_all_iff joins_def)
  ultimately show "store_ok h T"
    using N by (simp add: store_ok_def definitions_ok_def versions_ok_def one_published_def same) (simp add: T)
  show "descends h S T" by (simp add: descends_def T)
  show "st_versions T = st_versions S" "st_edges T = st_edges S" "st_nodes T = st_nodes S @ [m]" "sn_version m = v" "sn_node m = json_node n"
    "st_definitions T = st_definitions S" by (simp_all add: T) (simp_all add: m)
qed

lemma insert_nodes_ok:
  assumes "insert_nodes h v ns S = Inr (ms, T)" and "store_ok h S" and "inj (vh_uuid h)"
  shows "store_ok h T" and "descends h S T" and "st_versions T = st_versions S" and "st_edges T = st_edges S"
    and "st_nodes T = st_nodes S @ ms" and "\<forall>m \<in> set ms. sn_version m = v" and "map sn_node ms = map json_node ns"
    and "st_definitions T = st_definitions S"
proof -
  have "store_ok h T \<and> descends h S T \<and> st_versions T = st_versions S \<and> st_edges T = st_edges S \<and> st_nodes T = st_nodes S @ ms
      \<and> (\<forall>m \<in> set ms. sn_version m = v) \<and> map sn_node ms = map json_node ns \<and> st_definitions T = st_definitions S"
    using assms
  proof (induction ns arbitrary: S ms)
    case (Cons n ns)
    then obtain m S1 ms' where m: "insert_node h v n S = Inr (m, S1)" and rest: "insert_nodes h v ns S1 = Inr (ms', T)" "ms = m # ms'"
      by (auto simp: rbind_Inr_iff)
    note one = insert_node_ok [OF m Cons.prems(2,3)]
    from Cons.IH [OF rest(1) one(1) Cons.prems(3)] one rest(2) descends_trans [OF one(2)] show ?case by simp
  qed simp
  then show "store_ok h T" "descends h S T" "st_versions T = st_versions S" "st_edges T = st_edges S" "st_nodes T = st_nodes S @ ms"
    "\<forall>m \<in> set ms. sn_version m = v" "map sn_node ms = map json_node ns" "st_definitions T = st_definitions S" by blast+
qed

text \<open>Edges are only added; what an edge joins is checked where the edges are made.\<close>

lemma insert_edges_ok:
  assumes "insert_edges h es S = Inr T" and "store_ok h S"
    and "\<forall>e \<in> set es. (ed_version e, ed_from e) \<in> set (map placed (st_nodes S)) \<and> (ed_version e, ed_to e) \<in> set (map placed (st_nodes S))"
  shows "store_ok h T \<and> T = S\<lparr>st_edges := st_edges S @ es\<rparr>"
  using assms
proof (induction es arbitrary: S)
  case (Cons e es)
  let ?S = "S\<lparr>st_edges := st_edges S @ [e]\<rparr>"
  from Cons.prems have none: "edge_refusal (st_edges S) e = None" and rest: "insert_edges h es ?S = Inr T"
    by (auto split: option.splits)
  have "ed_from e \<noteq> ed_to e" and new: "drawn e \<notin> set (map drawn (st_edges S))"
    using none by (auto simp: edge_refusal_def drawn_def list_ex_iff split: if_splits)
  then have "joins (st_nodes S) e" using Cons.prems(3) by (simp add: joins_def)
  then have "edges_ok ?S" using Cons.prems(2) new by (simp add: store_ok_def edges_ok_def)
  moreover have same: "definition_ids ?S = definition_ids S" "version_ids ?S = version_ids S" "published_at ?S d = published_at S d"
    "version_ok h ?S = version_ok h S" for d
    by (simp_all add: definition_ids_def version_ids_def published_at_def version_ok_def fun_eq_iff)
  ultimately have "store_ok h ?S"
    using Cons.prems(2) by (simp add: store_ok_def definitions_ok_def versions_ok_def one_published_def nodes_ok_def same)
  from Cons.IH [OF rest this] Cons.prems(3) show ?case by (auto simp del: set_map)
qed simp

lemma sequential_ends:
  "e \<in> set (sequential_edges v c ns) \<Longrightarrow> ed_version e = v \<and> ed_from e \<in> set (map sn_id ns) \<and> ed_to e \<in> set (map sn_id ns)"
proof -
  assume "e \<in> set (sequential_edges v c ns)"
  then obtain i m n where e: "e = sequential_edge v c (i, m, n)" and p: "(i, m, n) \<in> set (enumerate 0 (zip ns (tl ns)))"
    by (auto simp: sequential_edges_def)
  from p have "snd (i, m, n) \<in> set (map snd (enumerate 0 (zip ns (tl ns))))" unfolding set_map by (rule imageI)
  then have "(m, n) \<in> set (zip ns (tl ns))" by simp
  then have "m \<in> set ns" "n \<in> set (tl ns)" by (auto dest: set_zip_leftD set_zip_rightD)
  moreover have "set (tl ns) \<subseteq> set ns" by (cases ns) auto
  ultimately have "m \<in> set ns" "n \<in> set ns" by auto
  then show ?thesis by (simp add: e sequential_edge_def)
qed

lemma branch_ends:
  assumes "branch_edges v c ns (i, m) = Inr es" and "m \<in> set ns" and "e \<in> set es"
  shows "ed_version e = v \<and> ed_from e \<in> set (map sn_id ns) \<and> ed_to e \<in> set (map sn_id ns)"
proof -
  have found: "node_by_key ns k = Some n \<Longrightarrow> n \<in> set ns" for k n
    unfolding node_by_key_def by (drule map_of_SomeD) auto
  show ?thesis
    using assms found by (auto simp: branch_edges_def rbind_Inr_iff branch_edge_def split: if_splits option.splits)
qed

lemma insert_branches_ok:
  assumes "insert_branches h v c ns xs S = Inr T" and "store_ok h S" and "\<forall>x \<in> set xs. snd x \<in> set ns"
    and "\<forall>n \<in> set ns. (v, sn_id n) \<in> set (map placed (st_nodes S))"
  shows "store_ok h T \<and> (\<exists>es. T = S\<lparr>st_edges := st_edges S @ es\<rparr> \<and> (\<forall>e \<in> set es. ed_version e = v))"
  using assms
proof (induction xs arbitrary: S)
  case Nil
  then show ?case by (intro conjI exI [of _ "[]"]) simp_all
next
  case (Cons x xs)
  then obtain es S1 where es: "branch_edges v c ns x = Inr es" and S1: "insert_edges h es S = Inr S1"
    and rest: "insert_branches h v c ns xs S1 = Inr T" by (auto simp: rbind_Inr_iff)
  have ends: "\<forall>e \<in> set es. ed_version e = v \<and> ed_from e \<in> set (map sn_id ns) \<and> ed_to e \<in> set (map sn_id ns)"
    using branch_ends [of v c ns "fst x" "snd x" es] es Cons.prems(3) by simp
  then have "store_ok h S1 \<and> S1 = S\<lparr>st_edges := st_edges S @ es\<rparr>"
    using Cons.prems(2,4) by (intro insert_edges_ok [OF S1]) auto
  with Cons.IH [OF rest] Cons.prems(3,4) ends show ?case by fastforce
qed

lemma enumerate_member: "x \<in> set (enumerate 0 xs) \<Longrightarrow> snd x \<in> set xs"
proof -
  assume "x \<in> set (enumerate 0 xs)"
  then have "snd x \<in> set (map snd (enumerate 0 xs))" unfolding set_map by (rule imageI)
  then show ?thesis by simp
qed

lemma write_graph_ok:
  assumes "write_graph h d v c q S = Inr (ms, T)" and "store_ok h S" and "inj (vh_uuid h)"
  shows "store_ok h T" and "descends h S T" and "st_nodes T = st_nodes S @ ms" and "\<forall>m \<in> set ms. sn_version m = v"
    and "map sn_node ms = map json_node (gq_nodes q)" and "\<exists>es. st_edges T = st_edges S @ es \<and> (\<forall>e \<in> set es. ed_version e = v)"
    and "st_definitions T = st_definitions S"
    and "\<exists>s. st_versions T = map (\<lambda>w. if vr_id w = v then w\<lparr>vr_snapshot := s, vr_updated := gq_now q\<rparr> else w) (st_versions S)"
proof -
  from assms(1) obtain S1 S2 where S1: "insert_nodes h v (gq_nodes q) S = Inr (ms, S1)" and S2: "insertWorkflowEdges h v c ms S1 = Inr S2"
    and T: "\<exists>s. T = update_versions (\<lambda>w. vr_id w = v) (gq_now q) (\<lambda>w. w\<lparr>vr_snapshot := s\<rparr>) S2"
    by (auto simp: write_graph_def rbind_Inr_iff Let_def)
  note n = insert_nodes_ok [OF S1 assms(2,3)]
  have here: "\<forall>m \<in> set ms. (v, sn_id m) \<in> set (map placed (st_nodes S1))" using n(5,6) by (force simp: placed_def)
  from S2 obtain S3 where S3: "insert_edges h (sequential_edges v c ms) S1 = Inr S3"
    and S2': "insert_branches h v c ms (enumerate 0 ms) S3 = Inr S2" by (auto simp: insertWorkflowEdges_def rbind_Inr_iff)
  have "\<forall>e \<in> set (sequential_edges v c ms). (ed_version e, ed_from e) \<in> set (map placed (st_nodes S1))
      \<and> (ed_version e, ed_to e) \<in> set (map placed (st_nodes S1))"
    using sequential_ends [of _ v c ms] here by fastforce
  from insert_edges_ok [OF S3 n(1) this] have S3': "store_ok h S3" "S3 = S1\<lparr>st_edges := st_edges S1 @ sequential_edges v c ms\<rparr>" by blast+
  have "store_ok h S2 \<and> (\<exists>es. S2 = S3\<lparr>st_edges := st_edges S3 @ es\<rparr> \<and> (\<forall>e \<in> set es. ed_version e = v))"
    by (rule insert_branches_ok [OF S2' S3'(1)]) (use here S3'(2) enumerate_member [of _ ms] in auto)
  then obtain es where S2'': "store_ok h S2" "S2 = S3\<lparr>st_edges := st_edges S3 @ es\<rparr>" "\<forall>e \<in> set es. ed_version e = v" by blast
  from T obtain s where T': "T = update_versions (\<lambda>w. vr_id w = v) (gq_now q) (\<lambda>w. w\<lparr>vr_snapshot := s\<rparr>) S2" by blast
  have "one_published T"
    unfolding T' by (rule one_published_subset [OF _ published_update]) (use S2''(1) in \<open>simp_all add: store_ok_def row_key_def\<close>)
  then show "store_ok h T" unfolding T' by (intro update_versions_ok [OF S2''(1)]) (simp_all add: row_key_def)
  have "descends h S1 S2" using S2'' S3' by (simp add: descends_def)
  moreover have "descends h S2 T" unfolding T' by (rule update_versions_descends) (simp add: row_key_def)
  ultimately show "descends h S T" using n(2) descends_trans by blast
  show "st_nodes T = st_nodes S @ ms" "st_definitions T = st_definitions S" using n S2'' S3' by (simp_all add: T')
  show "\<exists>es. st_edges T = st_edges S @ es \<and> (\<forall>e \<in> set es. ed_version e = v)"
    using n S2'' S3' sequential_ends [of _ v c ms] by (intro exI [of _ "sequential_edges v c ms @ es"]) (auto simp: T')
  show "\<exists>s. st_versions T = map (\<lambda>w. if vr_id w = v then w\<lparr>vr_snapshot := s, vr_updated := gq_now q\<rparr> else w) (st_versions S)"
    using n S2'' S3' by (intro exI [of _ s]) (simp add: T' update_versions_def)
  show "\<forall>m \<in> set ms. sn_version m = v" "map sn_node ms = map json_node (gq_nodes q)" by (fact n)+
qed

subsection \<open>Rows are deleted\<close>

lemma filtered_ok:
  assumes "store_ok h S" and "\<And>v. v \<in> set (st_versions S) \<Longrightarrow> keep (vr_id v) \<Longrightarrow> A v"
    and T: "T = S\<lparr>st_versions := filter A (st_versions S), st_nodes := filter (\<lambda>n. keep (sn_version n)) (st_nodes S),
                  st_edges := filter (\<lambda>e. keep (ed_version e)) (st_edges S)\<rparr>"
  shows "store_ok h T" and "descends h S T"
proof -
  have ids: "definition_ids T = definition_ids S" by (simp add: T definition_ids_def)
  have next_same: "st_next T = st_next S" by (simp add: T)
  have v_ok: "version_ok h T = version_ok h S" by (rule ext) (simp add: version_ok_def ids next_same)
  have versions: "versions_ok h T"
    using assms(1) by (simp add: store_ok_def versions_ok_def v_ok version_ids_def distinct_map_filter list_all_iff) (simp add: T distinct_map_filter)
  have "published_at T d \<subseteq> published_at S d" for d by (auto simp: published_at_def T)
  then have pub: "one_published T" using assms(1) one_published_subset unfolding store_ok_def by blast
  have kept: "i \<in> set (version_ids T)" if "i \<in> set (version_ids S)" "keep i" for i
    using that assms(2) by (auto simp: version_ids_def T)
  have nodes: "nodes_ok h T"
    using assms(1) kept by (simp add: store_ok_def nodes_ok_def list_all_iff T distinct_map_filter version_ids_def)
  have "joins (st_nodes T) e" if "e \<in> set (st_edges S)" "keep (ed_version e)" for e
  proof -
    have "joins (st_nodes S) e" using assms(1) that(1) by (simp add: store_ok_def edges_ok_def list_all_iff)
    then show ?thesis using that(2) by (auto simp: joins_def placed_def T image_iff)
  qed
  then have edges: "edges_ok T" using assms(1) by (simp add: store_ok_def edges_ok_def list_all_iff T distinct_map_filter)
  have "definitions_ok h T" using assms(1) ids by (simp add: store_ok_def definitions_ok_def) (simp add: T)
  with versions pub nodes edges show "store_ok h T" by (simp add: store_ok_def)
  show "descends h S T" by (auto simp: descends_def T)
qed

lemma delete_version_rows_ok:
  assumes "store_ok h S" shows "store_ok h (delete_version_rows P S)" and "descends h S (delete_version_rows P S)"
proof -
  let ?gone = "\<lambda>i. list_ex (\<lambda>w. vr_id w = i \<and> P w) (st_versions S)"
  have T: "delete_version_rows P S = S\<lparr>st_versions := filter (\<lambda>v. \<not> P v) (st_versions S),
      st_nodes := filter (\<lambda>n. \<not> ?gone (sn_version n)) (st_nodes S), st_edges := filter (\<lambda>e. \<not> ?gone (ed_version e)) (st_edges S)\<rparr>"
    by (simp add: delete_version_rows_def)
  have "v \<in> set (st_versions S) \<Longrightarrow> \<not> ?gone (vr_id v) \<Longrightarrow> \<not> P v" for v unfolding list_ex_iff by blast
  note ok = filtered_ok [OF assms _ T, OF this]
  show "store_ok h (delete_version_rows P S)" by (rule ok(1))
  show "descends h S (delete_version_rows P S)" by (rule ok(2))
qed

lemma clear_graph_ok:
  assumes "store_ok h S" shows "store_ok h (clear_graph v S)" and "descends h S (clear_graph v S)"
proof -
  have T: "clear_graph v S = S\<lparr>st_versions := filter (\<lambda>_. True) (st_versions S), st_nodes := filter (\<lambda>n. sn_version n \<noteq> v) (st_nodes S),
      st_edges := filter (\<lambda>e. ed_version e \<noteq> v) (st_edges S)\<rparr>" by (simp add: clear_graph_def)
  show "store_ok h (clear_graph v S)" "descends h S (clear_graph v S)" by (rule filtered_ok [OF assms _ T]; rule TrueI)+
qed

lemma definitions_replaced:
  assumes "store_ok h S" and "st_versions T = st_versions S" and "st_nodes T = st_nodes S" and "st_edges T = st_edges S"
    and "st_next S \<le> st_next T" and "definitions_ok h T" and "\<forall>v \<in> set (st_versions S). vr_definition v \<in> set (definition_ids T)"
  shows "store_ok h T" and "descends h S T"
proof -
  let ?N = "S\<lparr>st_next := st_next T\<rparr>"
  have "store_ok h ?N" by (rule store_ok_next [OF assms(1,5)])
  then have N: "versions_ok h ?N" "one_published ?N" "nodes_ok h ?N" "edges_ok ?N" by (simp_all add: store_ok_def)
  have "version_ok h T v" if "v \<in> set (st_versions S)" for v
  proof -
    have "version_ok h ?N v" using N(1) that by (simp add: versions_ok_def list_all_iff)
    with assms(7) that show ?thesis unfolding version_ok_def by simp
  qed
  then have "\<forall>v \<in> set (st_versions S). version_ok h T v" by blast
  moreover have "distinct (version_ids S)" "distinct (map numbered (st_versions S))" using N(1) by (simp_all add: versions_ok_def version_ids_def)
  moreover have "version_ids T = version_ids S" by (simp add: version_ids_def assms(2))
  ultimately have "versions_ok h T" by (simp only: versions_ok_def list_all_iff assms(2) simp_thms)
  moreover have "published_at T d = published_at ?N d" for d by (simp add: published_at_def assms(2))
  then have "one_published T" using N(2) by (simp only: one_published_def)
  moreover have "nodes_ok h T" using N(3) assms(2,3) by (simp add: nodes_ok_def version_ids_def)
  moreover have "edges_ok T" using N(4) assms(3,4) by (simp add: edges_ok_def)
  ultimately show "store_ok h T" using assms(6) by (simp add: store_ok_def)
  show "descends h S T" using assms(2,5) by (simp add: descends_def)
qed

lemma version_definitions: "store_ok h S \<Longrightarrow> v \<in> set (st_versions S) \<Longrightarrow> vr_definition v \<in> set (definition_ids S)"
  by (simp add: store_ok_def versions_ok_def list_all_iff version_ok_def)

lemma delete_definition_ok:
  assumes "store_ok h S" and "\<forall>v \<in> set (st_versions S). vr_definition v \<noteq> i"
  shows "store_ok h (S\<lparr>st_definitions := filter (\<lambda>x. wd_id x \<noteq> i) (st_definitions S)\<rparr>)"
    and "descends h S (S\<lparr>st_definitions := filter (\<lambda>x. wd_id x \<noteq> i) (st_definitions S)\<rparr>)"
proof -
  let ?T = "S\<lparr>st_definitions := filter (\<lambda>x. wd_id x \<noteq> i) (st_definitions S)\<rparr>"
  have "definitions_ok h ?T"
    using assms(1) by (auto simp: store_ok_def definitions_ok_def definition_ids_def list_all_iff distinct_map_filter)
  moreover have "vr_definition v \<in> set (definition_ids ?T)" if "v \<in> set (st_versions S)" for v
    using version_definitions [OF assms(1) that] assms(2) that by (auto simp: definition_ids_def)
  ultimately show "store_ok h ?T" "descends h S ?T" by (intro definitions_replaced [OF assms(1)]; simp)+
qed

lemma add_definition_ok:
  assumes "store_ok h S" and "inj (vh_uuid h)" and "wd_id d = vh_uuid h (st_next S)" and "wd_code d \<notin> wd_code ` set (st_definitions S)"
  shows "store_ok h (S\<lparr>st_definitions := st_definitions S @ [d], st_next := Suc (st_next S)\<rparr>)"
    and "descends h S (S\<lparr>st_definitions := st_definitions S @ [d], st_next := Suc (st_next S)\<rparr>)"
    and "published_at (S\<lparr>st_definitions := st_definitions S @ [d], st_next := Suc (st_next S)\<rparr>) (wd_id d) = {}"
proof -
  let ?T = "S\<lparr>st_definitions := st_definitions S @ [d], st_next := Suc (st_next S)\<rparr>"
  have old: "definitions_ok h S" using assms(1) by (simp add: store_ok_def)
  have fresh: "wd_id d \<notin> set (definition_ids S)"
    using old known_new [OF assms(2)] unfolding assms(3) definitions_ok_def list_all_iff by blast
  have "list_all (known h (Suc (st_next S))) (definition_ids S)"
    using old known_mono [of h "st_next S" _ "Suc (st_next S)"] by (simp add: definitions_ok_def list_all_iff)
  then have "definitions_ok h ?T"
    using old fresh assms(4) by (simp add: definitions_ok_def definition_ids_def assms(3))
  moreover have "vr_definition v \<in> set (definition_ids ?T)" if "v \<in> set (st_versions S)" for v
    using version_definitions [OF assms(1) that] by (simp add: definition_ids_def)
  ultimately show "store_ok h ?T" "descends h S ?T" by (intro definitions_replaced [OF assms(1)]; simp)+
  have "vr_definition v \<noteq> wd_id d" if "v \<in> set (st_versions S)" for v
    using version_definitions [OF assms(1) that] fresh by auto
  then show "published_at ?T (wd_id d) = {}" by (auto simp: published_at_def)
qed

subsection \<open>The handlers\<close>

lemma insertWorkflowVersionGraph_ok:
  assumes "insertWorkflowVersionGraph h d q existing S = Inr (v, T)" and "store_ok h S" and "inj (vh_uuid h)"
    and "existing = None \<Longrightarrow> gq_status q \<in> {''DRAFT'', ''PUBLISHED''} \<and> (gq_status q = ''PUBLISHED'' \<longrightarrow> published_at S (wd_id d) = {})"
  shows "store_ok h T" and "descends h S T"
proof -
  obtain S1 ms where S1: "(case existing of Some v \<Rightarrow> Inr (v, S) | None \<Rightarrow> new_version h (wd_id d) q S) = Inr (v, S1)"
    and T: "write_graph h d v ''workflow_manager_v1'' q S1 = Inr (ms, T)"
    using assms(1) by (auto simp: insertWorkflowVersionGraph_def rbind_Inr_iff)
  have S1': "store_ok h S1 \<and> descends h S S1"
  proof (cases existing)
    case None
    then show ?thesis using S1 assms(4) new_version_ok [of h "wd_id d" q S v S1] assms(2,3) by simp
  next
    case (Some w)
    then show ?thesis using S1 assms(2) by simp
  qed
  note w = write_graph_ok [OF T conjunct1 [OF S1'] assms(3)]
  show "store_ok h T" by (rule w)
  show "descends h S T" using S1' w(2) descends_trans by blast
qed

definition sound_step :: "version_host \<Rightarrow> store \<Rightarrow> store \<Rightarrow> bool" where
  "sound_step h S T = (store_ok h T \<and> descends h S T)"

lemma sound_refl: "store_ok h S \<Longrightarrow> sound_step h S S"
  by (simp add: sound_step_def)

lemma sound_trans: "sound_step h S T \<Longrightarrow> (store_ok h T \<Longrightarrow> sound_step h T U) \<Longrightarrow> sound_step h S U"
  unfolding sound_step_def using descends_trans by blast

lemma sound_touch: "store_ok h S \<Longrightarrow> sound_step h S (touch_definition d rq patch S)"
  unfolding sound_step_def touch_definition_def
  by (intro conjI update_definitions_ok descends_versions) (simp_all add: stamped_def)

lemma sound_update: "store_ok h S \<Longrightarrow> (\<And>d. wd_id (f d) = wd_id d \<and> wd_code (f d) = wd_code d) \<Longrightarrow> sound_step h S (update_definitions P f S)"
  unfolding sound_step_def by (intro conjI update_definitions_ok descends_versions) simp_all

lemma sound_transaction:
  "transaction S r = (x, T) \<Longrightarrow> store_ok h S \<Longrightarrow> (\<And>y U. r = Inr (y, U) \<Longrightarrow> sound_step h S U) \<Longrightarrow> sound_step h S T"
  unfolding transaction_def by (cases r) (auto simp: sound_refl)

lemma sound_delete: "store_ok h S \<Longrightarrow> sound_step h S (delete_version_rows P S)"
  by (simp add: sound_step_def delete_version_rows_ok)

lemma sound_insert:
  assumes "transaction S (rbind (insertWorkflowVersionGraph h d q existing S1) (\<lambda>(v, S2). Inr ((), f v S2))) = (r, T)"
    and "store_ok h S" and "sound_step h S S1" and "inj (vh_uuid h)"
    and "existing = None \<Longrightarrow> gq_status q \<in> {''DRAFT'', ''PUBLISHED''} \<and> (gq_status q = ''PUBLISHED'' \<longrightarrow> published_at S1 (wd_id d) = {})"
    and "\<And>v S2. store_ok h S2 \<Longrightarrow> sound_step h S2 (f v S2)"
  shows "sound_step h S T"
  using assms(1,2)
proof (rule sound_transaction)
  fix y U assume "rbind (insertWorkflowVersionGraph h d q existing S1) (\<lambda>(v, S2). Inr ((), f v S2)) = Inr (y, U)"
  then obtain v S2 where S2: "insertWorkflowVersionGraph h d q existing S1 = Inr (v, S2)" and U: "U = f v S2"
    by (auto simp: rbind_Inr_iff)
  have "store_ok h S1" using assms(3) by (simp add: sound_step_def)
  from insertWorkflowVersionGraph_ok [OF S2 this assms(4,5)] have "sound_step h S1 S2" by (simp add: sound_step_def)
  then have "sound_step h S1 U" unfolding U by (rule sound_trans) (rule assms(6))
  then show "sound_step h S U" using sound_trans [OF assms(3)] by blast
qed

lemma sound_commit_draft:
  assumes "store_ok h S" and "inj (vh_uuid h)"
  shows "sound_step h S (snd (commit_draft h rq payload d draft ns S))"
proof -
  have "sound_step h S (case draft of None \<Rightarrow> S | Some v \<Rightarrow> delete_draft_rows (vr_id v) (wd_id d) S)"
    by (cases draft) (simp_all add: assms(1) sound_delete sound_refl delete_draft_rows_def)
  then show ?thesis
    unfolding commit_draft_def Let_def
    by (rule sound_insert [OF prod.collapse [symmetric] assms(1) _ assms(2)]) (simp_all add: sound_touch)
qed

lemma snd_answered [simp]: "snd (answered h d x) = snd x"
  by (simp add: answered_def split: prod.split)

lemma snd_outcome [simp]: "snd (outcome x) = snd x"
  by (simp add: outcome_def split: prod.split)

lemma relabeled_key: "row_key (relabeled label v) = row_key v" "vr_status (relabeled label v) = vr_status v"
  by (simp_all add: relabeled_def row_key_def)

lemma sound_relabel:
  assumes "store_ok h S" shows "sound_step h S (update_versions P t (relabeled label) S)"
proof -
  have "one_published (update_versions P t (relabeled label) S)"
    by (rule one_published_subset [OF _ published_update]) (use assms in \<open>simp_all add: store_ok_def relabeled_key\<close>)
  then have "store_ok h (update_versions P t (relabeled label) S)"
    by (intro update_versions_ok [OF assms]) (simp_all add: relabeled_key)
  then show ?thesis using update_versions_descends [OF relabeled_key(1)] by (simp add: sound_step_def)
qed

lemma sound_commit_save:
  assumes "store_ok h S" and "inj (vh_uuid h)"
  shows "sound_step h S (snd (commit_save h rq payload d v ns S))"
proof -
  have "sound_step h S (clear_graph (vr_id v) S)" using assms(1) by (simp add: sound_step_def clear_graph_ok)
  then show ?thesis
    unfolding commit_save_def Let_def
  proof (rule sound_insert [OF prod.collapse [symmetric] assms(1) _ assms(2)])
    fix S2 assume "store_ok h S2"
    then show "sound_step h S2 (touch_definition (wd_id d) rq patch (update_versions P t (relabeled label) S2))" for patch P t label
      by (rule sound_trans [OF sound_relabel]) (rule sound_touch)
  qed simp
qed

lemma published_key: "row_key (published_row rq label note g v) = row_key v" "vr_status (published_row rq label note g v) = ''PUBLISHED''"
  by (simp_all add: published_row_def row_key_def)

lemma sound_retire: "store_ok h S \<Longrightarrow> sound_step h S (retire_published d t S)"
  by (simp add: sound_step_def retire_published_ok)

lemma retire_keys: "map row_key (st_versions (retire_published d t S)) = map row_key (st_versions S)"
  unfolding retire_published_def by (rule update_versions_keys) (simp add: row_key_def)

lemma sound_commit_publish:
  assumes "store_ok h S" and "\<And>w. w \<in> set (st_versions S) \<Longrightarrow> vr_id w = vr_id v \<Longrightarrow> vr_definition w = wd_id d"
  shows "sound_step h S (commit_publish h rq payload d v S)"
proof -
  let ?R = "retire_published (wd_id d) (rq_now rq) S"
  have owner: "vr_definition w = wd_id d" if "w \<in> set (st_versions ?R)" "vr_id w = vr_id v" for w
  proof -
    have "row_key w \<in> row_key ` set (st_versions S)" using that(1) retire_keys by (metis imageI list.set_map)
    then obtain u where "u \<in> set (st_versions S)" "row_key w = row_key u" by blast
    with assms(2) [of u] that(2) show ?thesis by (simp add: row_key_def)
  qed
  have "store_ok h (update_versions (\<lambda>w. vr_id w = vr_id v) t (published_row rq label why g) ?R)" for t label why g
    by (rule publish_row_ok [OF retire_published_ok(1,2) [OF assms(1)] owner published_key])
  moreover have "descends h ?R (update_versions (\<lambda>w. vr_id w = vr_id v) t (published_row rq label why g) ?R)" for t label why g
    by (rule update_versions_descends) (rule published_key)
  ultimately have "sound_step h ?R (update_versions (\<lambda>w. vr_id w = vr_id v) t (published_row rq label why g) ?R)" for t label why g
    by (simp add: sound_step_def)
  then have both: "sound_step h S (update_versions (\<lambda>w. vr_id w = vr_id v) t (published_row rq label why g) ?R)" for t label why g
    using sound_trans [OF sound_retire [OF assms(1)]] by blast
  show ?thesis
    unfolding commit_publish_def Let_def
    by (rule sound_trans [OF both sound_update]) (simp_all add: activated_def stamped_def)
qed

lemma sound_commit_version:
  assumes "store_ok h S" and "inj (vh_uuid h)"
  shows "sound_step h S (snd (commit_version h rq payload d ns S))"
proof -
  let ?publish = "jget payload ''publish'' \<noteq> JBool False"
  have "sound_step h S (if ?publish then retire_published (wd_id d) (rq_now rq) S else S)"
    by (simp add: sound_retire sound_refl assms(1))
  then show ?thesis
    unfolding commit_version_def Let_def
  proof (rule sound_insert [OF prod.collapse [symmetric] assms(1) _ assms(2)], goal_cases)
    case 1
    then show ?case using retire_published_ok(2) [OF assms(1)] by simp
  next
    case (2 v S2)
    then show ?case by (rule sound_update) (simp add: activated_def stamped_def)
  qed
qed

lemma sound_write_definition:
  assumes "write_definition h d q S = Inr (y, U)" and "store_ok h S" and "inj (vh_uuid h)" and "wd_id d = vh_uuid h (st_next S)"
    and "definition_by_code S (wd_code d) = None" and "gq_status q \<in> {''DRAFT'', ''PUBLISHED''}"
  shows "sound_step h S U"
proof -
  let ?S1 = "S\<lparr>st_definitions := st_definitions S @ [d], st_next := Suc (st_next S)\<rparr>"
  have "wd_code d \<notin> wd_code ` set (st_definitions S)" using assms(5) by (auto simp: definition_by_code_def find_None_iff)
  note added = add_definition_ok [OF assms(2,3,4) this]
  from assms(1) obtain v S2 ms where S2: "new_version h (wd_id d) q ?S1 = Inr (v, S2)"
    and U: "write_graph h d v ''workflow_builder_v1'' q S2 = Inr (ms, U)"
    by (auto simp: write_definition_def rbind_Inr_iff)
  note version = new_version_ok [OF S2 added(1) assms(3,6) added(3)]
  note graph = write_graph_ok [OF U version(1) assms(3)]
  have "descends h S U" by (rule descends_trans [OF descends_trans [OF added(2) version(2)] graph(2)])
  with graph(1) show ?thesis by (simp add: sound_step_def)
qed

lemma sound_create:
  assumes "store_ok h S" and "inj (vh_uuid h)"
  shows "sound_step h S (snd (createWorkflowDefinition h rq payload df S))"
  unfolding createWorkflowDefinition_def
proof (rule sound_transaction [OF prod.collapse [symmetric] assms(1)])
  fix y U assume "rbind (definition_inputs h rq payload) (\<lambda>(code, ns). rbind (definition_checks h payload df code ns S) (\<lambda>category.
      write_definition h (new_definition h rq payload df code category (vh_uuid h (st_next S))) (first_version rq payload ns) S)) = Inr (y, U)"
  then obtain code ns category where new: "definition_by_code S code = None"
    and w: "write_definition h (new_definition h rq payload df code category (vh_uuid h (st_next S))) (first_version rq payload ns) S = Inr (y, U)"
    by (auto simp: rbind_Inr_iff definition_checks_def split: if_splits)
  from w assms show "sound_step h S U"
    by (rule sound_write_definition) (use new in \<open>simp_all add: new_definition_def first_version_def Let_def\<close>)
qed

lemma sound_delete_workflow:
  assumes "store_ok h S" shows "sound_step h S (snd (deleteWorkflowDefinition h rq code S0 S))"
proof -
  have "sound_step h S ((delete_version_rows (\<lambda>v. vr_definition v = i) S)\<lparr>st_definitions :=
      filter (\<lambda>x. wd_id x \<noteq> i) (st_definitions (delete_version_rows (\<lambda>v. vr_definition v = i) S))\<rparr>)" for i
  proof (rule sound_trans [OF sound_delete [OF assms]])
    assume ok: "store_ok h (delete_version_rows (\<lambda>v. vr_definition v = i) S)"
    have "\<forall>v \<in> set (st_versions (delete_version_rows (\<lambda>v. vr_definition v = i) S)). vr_definition v \<noteq> i"
      by (simp add: delete_version_rows_def Let_def)
    from delete_definition_ok [OF ok this] show "sound_step h (delete_version_rows (\<lambda>v. vr_definition v = i) S)
      ((delete_version_rows (\<lambda>v. vr_definition v = i) S)\<lparr>st_definitions :=
        filter (\<lambda>x. wd_id x \<noteq> i) (st_definitions (delete_version_rows (\<lambda>v. vr_definition v = i) S))\<rparr>)"
      by (simp add: sound_step_def)
  qed
  then show ?thesis
    by (simp add: deleteWorkflowDefinition_def Let_def sound_refl assms split: sum.split)
qed

text \<open>A draft that a handler is to change belonged to the definition when it was read, so it still does.\<close>

lemma draft_read:
  assumes "draft_to_change h rq action message code versionId S0 = Inr (d, v)"
  shows "v \<in> set (st_versions S0)" and "vr_definition v = wd_id d" and "vr_status v = ''DRAFT''"
proof -
  from assms obtain x where "assertWorkflowVersionMatchesDefinition (getWorkflowVersionMeta S0 versionId) d action = Inr v"
    and status: "vr_status v = ''DRAFT''" by (auto simp: draft_to_change_def rbind_Inr_iff split: if_splits)
  then have "getWorkflowVersionMeta S0 versionId = Some v" and owner: "vr_definition v = wd_id d"
    by (auto simp: assertWorkflowVersionMatchesDefinition_def Let_def split: option.splits if_splits)
  then show "v \<in> set (st_versions S0)" by (auto simp: getWorkflowVersionMeta_def dest!: find_Some_set split: if_splits)
  show "vr_definition v = wd_id d" "vr_status v = ''DRAFT''" by (fact owner status)+
qed

lemma sound_serve:
  assumes "store_ok h S0" and "store_ok h S" and "descends h S0 S" and "inj (vh_uuid h)"
  shows "sound_step h S (snd (serve h rq r S0 S))"
proof -
  have owner: "vr_definition w = wd_id d" if "draft_to_change h rq action message code i S0 = Inr (d, v)" "w \<in> set (st_versions S)" "vr_id w = vr_id v"
    for action message code i d v w
    using draft_read [OF that(1)] descends_same [OF assms(3) _ assms(4) _ that(2,3)] assms(1) by (simp add: store_ok_def row_key_def)
  have save: "sound_step h S (snd (saveWorkflowDraftGraph h rq code i payload S0 S))" for code i payload
    by (simp add: saveWorkflowDraftGraph_def sound_refl sound_commit_save assms split: sum.split)
  have change: "sound_step h S (snd (updateWorkflowDefinition h rq code payload S0 S))" for code payload
    unfolding updateWorkflowDefinition_def
    by (auto simp: sound_refl assms changed_definition_def stamped_def intro!: sound_update split: sum.split)
  have create: "sound_step h S (snd (createWorkflowDefinition h rq payload df S))" for payload df
    by (rule sound_create [OF assms(2,4)])
  show ?thesis
  proof (cases r)
    case (Clone_workflow code payload)
    then show ?thesis by (simp add: cloneWorkflowDefinition_def create sound_refl assms split: sum.split)
  next
    case (Create_draft code payload)
    then show ?thesis by (simp add: createWorkflowDraftVersion_def sound_commit_draft sound_refl assms split: sum.split option.split)
  next
    case (Replace_graph code payload)
    then show ?thesis by (simp add: replaceWorkflowGraph_def Let_def save sound_refl assms)
  next
    case (Publish_draft code i payload)
    have "publish_inputs h rq code i payload S0 = Inr (d, v) \<Longrightarrow> sound_step h S (commit_publish h rq payload d v S)" for d v
      by (rule sound_commit_publish [OF assms(2)]) (auto simp: publish_inputs_def rbind_Inr_iff dest: owner)
    with Publish_draft show ?thesis by (auto simp: publishWorkflowDraftVersion_def sound_refl assms split: sum.split)
  next
    case (Discard_draft code i)
    have "sound_step h S (touch_definition k rq patch (delete_draft_rows v k S))" for k v patch
      unfolding delete_draft_rows_def by (rule sound_trans [OF sound_delete [OF assms(2)] sound_touch])
    with Discard_draft show ?thesis by (simp add: discardWorkflowDraftVersion_def sound_refl assms split: sum.split)
  next
    case (Create_version code payload)
    then show ?thesis by (simp add: createWorkflowVersion_def sound_commit_version sound_refl assms split: sum.split)
  qed (simp_all add: create change save archiveWorkflowDefinition_def sound_delete_workflow assms)
qed

lemma commits_ok:
  assumes "commits h stores" and "inj (vh_uuid h)"
  shows "\<exists>S past. stores = S # past \<and> store_ok h S \<and> (\<forall>T \<in> set stores. store_ok h T \<and> descends h T S)"
  using assms(1)
proof induction
  case start
  have "store_ok h empty_store"
    by (simp add: store_ok_def definitions_ok_def versions_ok_def nodes_ok_def edges_ok_def one_published_def published_at_def
        empty_store_def definition_ids_def version_ids_def)
  then show ?case by simp
next
  case (commit S past S0 rq r)
  then have now: "store_ok h S" and old: "\<forall>T \<in> set (S # past). store_ok h T \<and> descends h T S" by auto
  then have "sound_step h S (snd (serve h rq r S0 S))" using commit.hyps(2) assms(2) by (intro sound_serve) auto
  with old descends_trans show ?case unfolding sound_step_def by fastforce
qed

text \<open>C38 (versions_stay_sound): whatever requests are served, in whatever order, each deciding from any earlier state of the tables and
  committing to the latest: a definition never has two published versions or two versions of one number, node keys are distinct in a
  version, nodes belong to a version that exists and every edge joins two different nodes of its own version.\<close>

theorem versions_stay_sound:
  assumes "inj (vh_uuid h)" and "commits h (S # past)"
  shows "one_published S \<and> distinct (map numbered (st_versions S)) \<and> distinct (map node_at (st_nodes S))
     \<and> list_all (\<lambda>n. sn_version n \<in> set (version_ids S)) (st_nodes S) \<and> list_all (joins (st_nodes S)) (st_edges S)"
  using commits_ok [OF assms(2,1)] by (auto simp: store_ok_def versions_ok_def nodes_ok_def edges_ok_def list_all_iff)

section \<open>Refused requests\<close>

definition not_found :: "string \<Rightarrow> jsval" where
  "not_found code = WorkflowServiceError ''Workflow definition was not found.'' 404 (JObj [(''workflowCode'', JStr code)])"

text \<open>Nothing is written, or the definition has been deleted by the time the answer is read.\<close>

definition refused_cleanly :: "store \<Rightarrow> unit res \<times> store \<Rightarrow> bool" where
  "refused_cleanly S x = (\<forall>e. fst x = Inl e \<longrightarrow> snd x = S \<or> (\<exists>c. e = not_found c \<and> definition_by_code (snd x) c = None))"

lemma refused_same: "refused_cleanly S (r, S)"
  by (simp add: refused_cleanly_def)

lemma outcome_Inl [simp]: "outcome (Inl e, S) = (Inl e, S)"
  by (simp add: outcome_def)

lemma outcome_fst: "fst (outcome x) = Inl e \<longleftrightarrow> fst x = Inl e"
  by (auto simp: outcome_def rbind_Inl_iff split: prod.splits)

lemma transaction_refused: "refused_cleanly S (outcome (transaction S r))"
  by (auto simp: refused_cleanly_def outcome_fst transaction_def split: sum.splits)

lemma found_code: "getWorkflowDefinitionByCode S code = Inr d \<Longrightarrow> trim (wd_code d) = wd_code d \<and> wd_code d \<noteq> []"
  by (auto simp: getWorkflowDefinitionByCode_def definition_by_code_def Let_def split: if_splits option.splits dest!: find_Some_set)

lemma answered_refused:
  assumes "trim (wd_code d) = wd_code d \<and> wd_code d \<noteq> []" and "\<And>e. fst x = Inl e \<Longrightarrow> snd x = S"
  shows "refused_cleanly S (outcome (answered h d x))"
proof -
  have "snd x = S \<or> (e = not_found (wd_code d) \<and> definition_by_code (snd x) (wd_code d) = None)"
    if "fst (answered h d x) = Inl e" for e
  proof (cases "fst x")
    case (Inl a)
    with assms(2) show ?thesis by blast
  next
    case (Inr u)
    then have "getWorkflowDefinitionForManage h (snd x) (JStr (wd_code d)) = Inl e"
      using that by (simp add: answered_def split: prod.splits)
    then show ?thesis
      using assms(1) by (auto simp: getWorkflowDefinitionForManage_def rbind_Inl_iff getWorkflowDefinitionByCode_def jor_def not_found_def Let_def
          split: if_splits option.splits)
  qed
  then show ?thesis by (auto simp: refused_cleanly_def outcome_fst)
qed

lemma transaction_store: "fst (transaction S r) = Inl e \<Longrightarrow> snd (transaction S r) = S"
  by (auto simp: transaction_def split: sum.splits)

lemma inputs_code:
  "draft_inputs h rq code payload S0 = Inr (d, x) \<Longrightarrow> trim (wd_code d) = wd_code d \<and> wd_code d \<noteq> []"
  "draft_to_change h rq action message code i S0 = Inr (d, v) \<Longrightarrow> trim (wd_code d) = wd_code d \<and> wd_code d \<noteq> []"
  "version_inputs h rq code payload S0 = Inr (d, ns) \<Longrightarrow> trim (wd_code d) = wd_code d \<and> wd_code d \<noteq> []"
  "update_inputs h rq code payload S0 = Inr (d, c) \<Longrightarrow> trim (wd_code d) = wd_code d \<and> wd_code d \<noteq> []"
  using found_code
  by (fastforce simp: draft_inputs_def draft_to_change_def version_inputs_def update_inputs_def rbind_Inr_iff Let_def split: if_splits)+


section \<open>Cycles through publication\<close>

lemma newest_None: "newest vs = None \<longleftrightarrow> vs = []"
proof -
  have "length (by_number vs) = length vs" by (simp add: by_number_def)
  then show ?thesis by (cases "by_number vs") (auto simp: newest_def)
qed

lemma published_none: "published_version S d = None \<longleftrightarrow> published_at S d = {}"
  by (auto simp: published_version_def newest_None with_status_def versions_of_def filter_empty_conv published_at_def)

lemma live_Some: "live S c = Some d \<Longrightarrow> d \<in> set (st_definitions S) \<and> wd_code d = c \<and> published_version S (wd_id d) \<noteq> None"
  unfolding live_def by (drule find_Some_set) blast

end
