(* ===== verification/WorkflowCycles.thy ===== *)
theory WorkflowCycles
  imports WorkflowVersionGuarantees
begin

text \<open>
  What the check for cycles keeps out of the published workflows, and what it lets through: a graph that is saved to a draft is looked at
  with the graph it replaces still published, one that is published in the same request is not.
\<close>

lemma retired_not_live:
  assumes "definitions_ok h S" and "d \<in> set (st_definitions S)"
  shows "live (retire_published (wd_id d) t S) (wd_code d) = None"
proof (cases "live (retire_published (wd_id d) t S) (wd_code d)")
  case (Some a)
  let ?R = "retire_published (wd_id d) t S"
  have "vr_status v \<noteq> ''PUBLISHED'' \<or> vr_definition v \<noteq> wd_id d" if "v \<in> set (st_versions ?R)" for v
    using that unfolding retire_published_def by (cases rule: updated_version) auto
  then have "published_version ?R (wd_id d) = None" by (auto simp: published_none published_at_def)
  moreover have "a = d"
    using live_Some [OF Some] assms by (auto simp: retire_published_def definitions_ok_def distinct_map dest: inj_onD)
  ultimately show ?thesis using live_Some [OF Some] by simp
qed simp

lemma reaches_live: "(child S)\<^sup>*\<^sup>* a b \<Longrightarrow> live S a \<noteq> None \<Longrightarrow> live S b \<noteq> None"
  by (induction rule: rtranclp_induct) (simp_all add: child_def children_live)

text \<open>A version that is created as published is not checked for cycles: the version it replaces
  is retired first, in the same transaction, so the query no longer finds the parent, whatever the targets start.\<close>

theorem publishing_skips_the_cycle_check:
  assumes "definitions_ok h S" and "d \<in> set (st_definitions S)"
  shows "cycle_path (retire_published (wd_id d) t S) codes (wd_code d) = None"
  using cycle_path_iff [of "retire_published (wd_id d) t S" codes "wd_code d"] reaches_live retired_not_live [OF assms, of t] by blast

section \<open>A draft that is saved, then published\<close>

lemma only_source_reaches:
  assumes "\<And>a b. R' a b \<Longrightarrow> a = s \<or> R a b" and "R'\<^sup>*\<^sup>* a s"
  shows "R\<^sup>*\<^sup>* a s"
  using assms(2)
proof (induction rule: converse_rtranclp_induct)
  case (step a b)
  then show ?case using assms(1) [of a b] by (auto intro: converse_rtranclp_into_rtranclp)
qed simp

lemma through_source:
  assumes "\<And>a b. R' a b \<Longrightarrow> a = s \<or> R a b" and "R'\<^sup>+\<^sup>+ a b"
  shows "R\<^sup>+\<^sup>+ a b \<or> (R'\<^sup>*\<^sup>* a s \<and> R'\<^sup>+\<^sup>+ s b)"
  using assms(2)
proof (induction rule: tranclp_induct)
  case (base b)
  then show ?case using assms(1) [of a b] by auto
next
  case (step b c)
  then show ?case using assms(1) [of b c] by (auto intro: tranclp.trancl_into_trancl dest: tranclp_into_rtranclp)
qed

text \<open>New steps from one source make no cycle when none of their targets reaches it by the old ones.\<close>

lemma new_steps_acyclic:
  assumes steps: "\<And>a b. R' a b \<Longrightarrow> a = s \<or> R a b" and new: "\<And>b. R' s b \<Longrightarrow> \<not> R\<^sup>*\<^sup>* b s" and "\<And>a. \<not> R\<^sup>+\<^sup>+ a a"
  shows "\<not> R'\<^sup>+\<^sup>+ a a"
proof
  assume cycle: "R'\<^sup>+\<^sup>+ a a"
  have "R\<^sup>+\<^sup>+ a a \<or> (R'\<^sup>*\<^sup>* a s \<and> R'\<^sup>+\<^sup>+ s a)" by (rule through_source [of R', OF steps cycle])
  with assms(3) [of a] have "R'\<^sup>*\<^sup>* a s" "R'\<^sup>+\<^sup>+ s a" by simp_all
  then have "R'\<^sup>+\<^sup>+ s s" by simp
  then obtain b where b: "R' s b" "R'\<^sup>*\<^sup>* b s" by (auto dest: tranclpD)
  have "R\<^sup>*\<^sup>* b s" by (rule only_source_reaches [of R', OF steps b(2)])
  with new [OF b(1)] show False by contradiction
qed

text \<open>What the children of a code depend on: the identifiers of the definitions that can be started and of their published versions.\<close>

definition opened :: "store \<Rightarrow> string \<Rightarrow> string option" where
  "opened S c = map_option wd_id (live S c)"

definition published_id :: "store \<Rightarrow> string \<Rightarrow> string option" where
  "published_id S i = map_option vr_id (published_version S i)"

lemma opened_None [simp]: "(opened S c = None) = (live S c = None)"
  by (simp add: opened_def)

lemma children_by_id:
  "children S c = (case opened S c of None \<Rightarrow> [] | Some i \<Rightarrow> (case published_id S i of None \<Rightarrow> []
     | Some w \<Rightarrow> filter (\<lambda>c. opened S c \<noteq> None) (child_codes (nodes_of S w))))"
  by (auto simp: children_def opened_def published_id_def split: option.splits)

lemma child_by_id:
  "child S a b = (\<exists>i w. opened S a = Some i \<and> published_id S i = Some w \<and> b \<in> set (child_codes (nodes_of S w)) \<and> opened S b \<noteq> None)"
  unfolding child_def children_by_id
  by (cases "opened S a"; cases "published_id S (the (opened S a))") (simp_all del: opened_None)

lemma newest_member: "newest vs = Some v \<Longrightarrow> v \<in> set vs"
  by (auto simp: newest_def by_number_def split: list.splits) (metis list.set_intros(1) set_sort_by)

lemma published_member:
  "published_version S i = Some v \<Longrightarrow> v \<in> set (st_versions S) \<and> vr_status v = ''PUBLISHED'' \<and> vr_definition v = i"
  unfolding published_version_def by (drule newest_member) (auto simp: with_status_def versions_of_def)

lemma published_same: "versions_of T i = versions_of S i \<Longrightarrow> published_version T i = published_version S i"
  by (simp add: published_version_def)

lemma find_map: "find P (map f xs) = map_option f (find (\<lambda>x. P (f x)) xs)"
  by (induction xs) auto

lemma live_same:
  assumes "st_definitions T = map f (st_definitions S)" and "\<And>x. wd_id (f x) = wd_id x" and "\<And>x. wd_code (f x) = wd_code x"
    and "\<And>x. x \<in> set (st_definitions S) \<Longrightarrow> (wd_enabled (f x) \<and> wd_visible (f x) \<and> wd_status (f x) = ''ACTIVE''
           \<and> published_version T (wd_id x) \<noteq> None) = (wd_enabled x \<and> wd_visible x \<and> wd_status x = ''ACTIVE'' \<and> published_version S (wd_id x) \<noteq> None)"
  shows "opened T c = opened S c"
proof -
  have "live T c = map_option f (find (\<lambda>x. wd_code (f x) = c \<and> wd_enabled (f x) \<and> wd_visible (f x) \<and> wd_status (f x) = ''ACTIVE''
      \<and> published_version T (wd_id (f x)) \<noteq> None) (st_definitions S))"
    unfolding live_def assms(1) by (rule find_map)
  also have "\<dots> = map_option f (live S c)"
    unfolding live_def using assms(2,3,4) by (intro arg_cong [where f = "map_option f"] find_cong refl) auto
  finally show ?thesis by (simp add: opened_def option.map_comp comp_def assms(2))
qed

text \<open>Children stay as they are when no published graph is touched.\<close>

lemma children_same:
  assumes "\<And>c. opened T c = opened S c" and "\<And>i. published_id T i = published_id S i"
    and "\<And>i w. published_id S i = Some w \<Longrightarrow> nodes_of T w = nodes_of S w"
  shows "child T = child S"
proof -
  have "children T c = children S c" for c
    by (cases "opened S c"; cases "published_id S (the (opened S c))") (simp_all add: children_by_id assms del: opened_None)
  then show ?thesis by (intro ext) (simp add: child_def)
qed

lemma nodes_of_clear: "nodes_of (clear_graph v S) w = (if w = v then [] else nodes_of S w)"
  by (auto simp: nodes_of_def clear_graph_def filter_empty_conv intro: filter_cong)

lemma clear_graph_sel [simp]:
  "st_definitions (clear_graph v S) = st_definitions S" "st_versions (clear_graph v S) = st_versions S"
  by (simp_all add: clear_graph_def)

lemma clear_same [simp]: "published_version (clear_graph v S) = published_version S" "live (clear_graph v S) = live S"
  by (intro ext, simp add: published_version_def live_def versions_of_def)+

lemma draft_not_published:
  assumes "distinct (version_ids S)" and "v \<in> set (st_versions S)" and "vr_status v = ''DRAFT''"
  shows "published_id S i \<noteq> Some (vr_id v)"
  using assms published_member [of S i] by (auto simp: published_id_def version_ids_def distinct_map dest: inj_onD)

lemma clear_draft_same:
  assumes "distinct (version_ids S)" and "v \<in> set (st_versions S)" and "vr_status v = ''DRAFT''"
  shows "child (clear_graph (vr_id v) S) = child S"
  by (rule children_same) (use draft_not_published [OF assms] in \<open>auto simp: opened_def published_id_def nodes_of_clear\<close>)

lemma child_codes_view:
  "child_codes ns = concat (map (\<lambda>n. if gn_type n = ''WORKFLOW'' \<and> gn_enabled n then case_option [] (\<lambda>c. [c]) (gn_target n) else []) (map sn_node ns))"
  by (simp add: child_codes_def comp_def)

lemma child_codes_written:
  assumes "map sn_node ms = map json_node ns"
  shows "set (child_codes ms) \<subseteq> set (codes_of ''WORKFLOW'' ns)"
  unfolding child_codes_view assms by (auto simp: codes_of_def json_node_def split: option.splits if_splits)

text \<open>What a row says of whether its definition can be started.\<close>

definition open_row :: "definition_row \<Rightarrow> string \<times> string \<times> bool \<times> bool \<times> string" where
  "open_row x = (wd_id x, wd_code x, wd_enabled x, wd_visible x, wd_status x)"

lemma open_row_stamped [simp]: "open_row (stamped rq patch x) = open_row x"
  by (simp add: open_row_def stamped_def)

lemma saved_graph:
  assumes "commit_save h rq payload d v ns S = (Inr (), T)" and "store_ok h S" and "inj (vh_uuid h)"
  obtains ms f g where "validateWorkflowTargets (vh_catalog h) (clear_graph (vr_id v) S) ns (wd_code d) = Inr ()"
    and "st_nodes T = st_nodes (clear_graph (vr_id v) S) @ ms" "\<forall>m \<in> set ms. sn_version m = vr_id v" "map sn_node ms = map json_node ns"
    and "st_versions T = map f (st_versions S)" "\<And>w. row_key (f w) = row_key w" "\<And>w. vr_status (f w) = vr_status w"
      "\<And>w. vr_id w \<noteq> vr_id v \<Longrightarrow> f w = w"
    and "st_definitions T = map g (st_definitions S)" "\<And>x. open_row (g x) = open_row x"
proof -
  let ?C = "clear_graph (vr_id v) S" and ?label = "text_or (jget payload ''versionLabel'') []"
  let ?q = "\<lparr>gq_number = vr_number v, gq_label = (if ?label \<noteq> [] then ?label else if vr_label v \<noteq> [] then vr_label v
      else ''Draft v'' @ nat_str (vr_number v)), gq_status = ''DRAFT'', gq_nodes = ns, gq_user = rq_user rq, gq_now = rq_now rq\<rparr>"
  obtain S1 where I: "insertWorkflowVersionGraph h d ?q (Some (vr_id v)) ?C = Inr (vr_id v, S1)"
    and T: "T = touch_definition (wd_id d) rq [(''draftGraphSavedBy'', JStr ''workflow_manager_guardrails_v1'')]
                  (update_versions (\<lambda>w. vr_id w = vr_id v) (rq_now rq) (relabeled ?label) S1)"
    using assms(1) by (cases "insertWorkflowVersionGraph h d ?q (Some (vr_id v)) ?C")
      (simp add: commit_save_def Let_def transaction_def, auto simp: commit_save_def Let_def transaction_def insertWorkflowVersionGraph_def rbind_Inr_iff)
  from I obtain ms where checked: "validateWorkflowTargets (vh_catalog h) ?C ns (wd_code d) = Inr ()"
    and S1: "write_graph h d (vr_id v) ''workflow_manager_v1'' ?q ?C = Inr (ms, S1)"
    by (auto simp: insertWorkflowVersionGraph_def rbind_Inr_iff)
  note w = write_graph_ok [OF S1 clear_graph_ok(1) [OF assms(2)] assms(3)]
  obtain s where "st_versions S1 = map (\<lambda>w. if vr_id w = vr_id v then w\<lparr>vr_snapshot := s, vr_updated := gq_now ?q\<rparr> else w) (st_versions ?C)"
    using w(8) by (rule exE)
  then have versions: "st_versions S1 = map (\<lambda>w. if vr_id w = vr_id v then w\<lparr>vr_snapshot := s, vr_updated := rq_now rq\<rparr> else w) (st_versions S)"
    by simp
  let ?f = "\<lambda>w. if vr_id w = vr_id v then (relabeled ?label (w\<lparr>vr_snapshot := s, vr_updated := rq_now rq\<rparr>))\<lparr>vr_updated := rq_now rq\<rparr> else w"
  let ?g = "\<lambda>x. if wd_id x = wd_id d then stamped rq [(''draftGraphSavedBy'', JStr ''workflow_manager_guardrails_v1'')] x else x"
  show thesis
  proof (rule that [OF checked, of ms ?f ?g])
    show "st_nodes T = st_nodes ?C @ ms" using w(3) by (simp add: T touch_definition_def)
    show "\<forall>m \<in> set ms. sn_version m = vr_id v" "map sn_node ms = map json_node ns" using w(4,5) by simp_all
    show "st_versions T = map ?f (st_versions S)"
      by (simp add: T touch_definition_def update_versions_def versions comp_def)
    show "st_definitions T = map ?g (st_definitions S)"
      using w(7) by (simp add: T touch_definition_def update_definitions_def)
  qed (simp_all add: row_key_def relabeled_def)
qed

lemma published_rows:
  obtains k where "st_versions (commit_publish h rq payload d v T) = map k (st_versions T)" "\<And>w. row_key (k w) = row_key w"
    "\<And>w. vr_status (k w) = (if vr_id w = vr_id v then ''PUBLISHED''
        else if vr_definition w = wd_id d \<and> vr_status w = ''PUBLISHED'' then ''RETIRED'' else vr_status w)"
    "\<And>w. vr_id w \<noteq> vr_id v \<Longrightarrow> vr_definition w \<noteq> wd_id d \<Longrightarrow> k w = w"
proof -
  let ?note = "str_or_null (trim (to_str (jors [jget payload ''changeNote'', jget payload ''publishNote'', JStr []])))"
  let ?p = "published_row rq (text_or (jget payload ''versionLabel'') []) ?note (getWorkflowEditGuardrails h (wd_id d))"
  let ?r = "\<lambda>w. if vr_definition w = wd_id d \<and> vr_status w = ''PUBLISHED'' then (w\<lparr>vr_status := ''RETIRED''\<rparr>)\<lparr>vr_updated := rq_now rq\<rparr> else w"
  let ?k = "\<lambda>w. if vr_id w = vr_id v then (?p (?r w))\<lparr>vr_updated := rq_now rq\<rparr> else ?r w"
  show thesis
  proof (rule that [of ?k])
    show "st_versions (commit_publish h rq payload d v T) = map ?k (st_versions T)"
      by (auto simp: commit_publish_def Let_def update_definitions_def update_versions_def retire_published_def)
  qed (simp_all add: row_key_def published_row_def)
qed

lemma replaced_definitions: "st_definitions (S\<lparr>st_definitions := ds\<rparr>) = ds"
  by simp

lemma published_definitions:
  "\<exists>patch. st_definitions (commit_publish h rq payload d v T)
     = map (\<lambda>x. if wd_id x = wd_id d then activated (stamped rq patch x) else x) (st_definitions T)"
  by (rule exI [of _ "[(''lastPublishedBy'', JStr ''workflow_manager_guardrails_v1''), (''lastPublishNote'',
      str_or_null (trim (to_str (jors [jget payload ''changeNote'', jget payload ''publishNote'', JStr []]))))]"])
    (simp only: commit_publish_def Let_def update_definitions_def retire_published_def replaced_definitions update_versions_sel comp_apply)

lemma versions_of_map:
  assumes "st_versions U = map g (st_versions S)" and "\<And>w. vr_definition (g w) = vr_definition w"
    and "\<And>w. w \<in> set (st_versions S) \<Longrightarrow> vr_definition w = i \<Longrightarrow> g w = w"
  shows "versions_of U i = versions_of S i"
proof -
  have "versions_of U i = map g (versions_of S i)" by (simp add: versions_of_def assms(1,2) filter_map comp_def)
  also have "\<dots> = versions_of S i" by (rule map_idI) (simp add: versions_of_def assms(3))
  finally show ?thesis .
qed

text \<open>A draft \<open>v\<close> of \<open>d\<close>, whose graph has been saved, and published.\<close>

lemma saved_then_published:
  assumes "commit_save h rq payload d v ns S = (Inr (), T)" and "store_ok h S" and "inj (vh_uuid h)"
    and v: "v \<in> set (st_versions S)" "vr_definition v = wd_id d" and d: "live S (wd_code d) = Some d"
    and U: "U = commit_publish h rq' payload' d v T"
  shows "published_id U i = (if i = wd_id d then Some (vr_id v) else published_id S i)" and "opened U c = opened S c"
    and "\<exists>ms. nodes_of U w = (if w = vr_id v then ms else nodes_of S w) \<and> map sn_node ms = map json_node ns"
proof -
  obtain ms f g where nodes: "st_nodes T = st_nodes (clear_graph (vr_id v) S) @ ms" "\<forall>m \<in> set ms. sn_version m = vr_id v"
      "map sn_node ms = map json_node ns"
    and f: "st_versions T = map f (st_versions S)" "\<And>w. row_key (f w) = row_key w" "\<And>w. vr_id w \<noteq> vr_id v \<Longrightarrow> f w = w"
    and g: "st_definitions T = map g (st_definitions S)" "\<And>x. open_row (g x) = open_row x"
    by (rule saved_graph [OF assms(1-3)]) metis
  obtain k where k: "st_versions U = map k (st_versions T)" "\<And>w. row_key (k w) = row_key w"
    "\<And>w. vr_status (k w) = (if vr_id w = vr_id v then ''PUBLISHED''
        else if vr_definition w = wd_id d \<and> vr_status w = ''PUBLISHED'' then ''RETIRED'' else vr_status w)"
    "\<And>w. vr_id w \<noteq> vr_id v \<Longrightarrow> vr_definition w \<noteq> wd_id d \<Longrightarrow> k w = w"
    unfolding U using published_rows [of h rq' payload' d v T] by blast
  have same: "w = v" if "w \<in> set (st_versions S)" "vr_id w = vr_id v" for w
    using that v(1) assms(2) by (auto simp: store_ok_def versions_ok_def version_ids_def distinct_map dest: inj_onD)
  have keys: "vr_id (f w) = vr_id w" "vr_definition (f w) = vr_definition w" "vr_id (k w) = vr_id w" "vr_definition (k w) = vr_definition w" for w
    using f(2) [of w] k(2) [of w] by (simp_all add: row_key_def)
  have versions: "st_versions U = map (k \<circ> f) (st_versions S)" by (simp add: k(1) f(1))
  have "(k \<circ> f) w = w" if "w \<in> set (st_versions S)" "vr_definition w \<noteq> wd_id d" for w
  proof -
    have "vr_id w \<noteq> vr_id v" using same [OF that(1)] that(2) v(2) by blast
    then show ?thesis using f(3) k(4) that(2) by simp
  qed
  then have other: "published_version U i = published_version S i" if "i \<noteq> wd_id d" for i
    using that by (intro published_same versions_of_map [OF versions]) (auto simp: keys)
  have "vr_id v \<in> published_at U (wd_id d)"
    unfolding published_at_def using v by (auto simp: versions keys k(3) intro!: exI [of _ "k (f v)"])
  then have this_one: "published_version U (wd_id d) \<noteq> None" by (auto simp: published_none)
  moreover have "vr_id x = vr_id v" if "published_version U (wd_id d) = Some x" for x
    using published_member [OF that] by (auto simp: versions keys k(3) split: if_splits)
  ultimately show "published_id U i = (if i = wd_id d then Some (vr_id v) else published_id S i)"
    by (auto simp: published_id_def other)
  show "\<exists>ms. nodes_of U w = (if w = vr_id v then ms else nodes_of S w) \<and> map sn_node ms = map json_node ns"
  proof (intro exI conjI)
    have "nodes_of U w = filter (\<lambda>n. sn_version n = w) (st_nodes T)"
      by (simp add: nodes_of_def U commit_publish_def Let_def update_definitions_def retire_published_def)
    also have "\<dots> = nodes_of (clear_graph (vr_id v) S) w @ filter (\<lambda>n. sn_version n = w) ms" by (simp add: nodes(1) nodes_of_def)
    also have "filter (\<lambda>n. sn_version n = w) ms = (if w = vr_id v then ms else [])" using nodes(2) by (auto simp: filter_empty_conv)
    finally show "nodes_of U w = (if w = vr_id v then ms else nodes_of S w)" by (simp add: nodes_of_clear)
    show "map sn_node ms = map json_node ns" by (rule nodes)
  qed
  show "opened U c = opened S c"
  proof -
    obtain patch where definitions: "st_definitions U
        = map (\<lambda>x. if wd_id x = wd_id d then activated (stamped rq' patch x) else x) (st_definitions T)"
      using published_definitions [of h rq' payload' d v T] unfolding U by blast
    let ?a = "\<lambda>x. if wd_id x = wd_id d then activated (stamped rq' patch x) else x"
    have gx: "wd_id (g x) = wd_id x" "wd_code (g x) = wd_code x" "wd_enabled (g x) = wd_enabled x" "wd_visible (g x) = wd_visible x"
      "wd_status (g x) = wd_status x" for x using g(2) [of x] by (simp_all add: open_row_def)
    have in_d: "x = d" if "x \<in> set (st_definitions S)" "wd_id x = wd_id d" for x
      using that live_Some [OF d] assms(2) by (auto simp: store_ok_def definitions_ok_def definition_ids_def distinct_map dest: inj_onD)
    have d_open: "wd_enabled d \<and> wd_visible d \<and> wd_status d = ''ACTIVE'' \<and> published_version S (wd_id d) \<noteq> None"
      using d unfolding live_def by (auto dest: find_Some_set)
    show ?thesis
    proof (rule live_same [of U "?a \<circ> g"])
      show "st_definitions U = map (?a \<circ> g) (st_definitions S)"
        by (simp add: definitions g(1) comp_def)
    next
      fix x assume x: "x \<in> set (st_definitions S)"
      show "(wd_enabled ((?a \<circ> g) x) \<and> wd_visible ((?a \<circ> g) x) \<and> wd_status ((?a \<circ> g) x) = ''ACTIVE'' \<and> published_version U (wd_id x) \<noteq> None)
          = (wd_enabled x \<and> wd_visible x \<and> wd_status x = ''ACTIVE'' \<and> published_version S (wd_id x) \<noteq> None)"
      proof (cases "wd_id x = wd_id d")
        case True
        then show ?thesis using in_d [OF x] d_open this_one by (simp add: gx activated_def)
      next
        case False
        then show ?thesis by (simp add: gx other)
      qed
    qed (simp_all add: gx activated_def stamped_def)
  qed
qed

definition no_cycles :: "store \<Rightarrow> bool" where
  "no_cycles S = (\<forall>a. \<not> (child S)\<^sup>+\<^sup>+ a a)"

lemma no_path_found:
  assumes "validateWorkflowTargets cat S ns code = Inr ()" and "trim code = code" and "code \<noteq> []"
  shows "cycle_path S (codes_of ''WORKFLOW'' ns) code = None"
  using assms by (auto simp: validateWorkflowTargets_def Let_def rbind_Inr_iff split: option.splits)


section \<open>Two workflows\<close>

text \<open>Of two workflows that can be started the first starts the second, and the second has a draft.\<close>

definition sample_definition :: "string \<Rightarrow> string \<Rightarrow> definition_row" where
  "sample_definition i code = \<lparr>wd_id = i, wd_category = [], wd_code = code, wd_display = code, wd_description = None, wd_status = ''ACTIVE'',
     wd_visible = True, wd_enabled = True, wd_start = ''WORKFLOW_RUN'', wd_cancel = ''WORKFLOW_RUN'', wd_config = JObj [],
     wd_created_by = JNull, wd_updated_by = JNull\<rparr>"

definition sample_version :: "string \<Rightarrow> string \<Rightarrow> nat \<Rightarrow> string \<Rightarrow> version_row" where
  "sample_version i d n status = \<lparr>vr_id = i, vr_definition = d, vr_number = n, vr_label = ''first'', vr_status = status, vr_snapshot = JObj [],
     vr_created_by = JNull, vr_published_by = JNull, vr_published_at = None, vr_updated = 0\<rparr>"

definition sample_start :: "string \<Rightarrow> graph_node" where
  "sample_start code = \<lparr>gn_key = ''start'', gn_type = ''WORKFLOW'', gn_display = ''Start'', gn_description = None, gn_target = Some code,
     gn_input = JObj [], gn_retry = JObj [], gn_timeout = None, gn_x = 0, gn_y = 0, gn_order = 10, gn_enabled = True, gn_config = JObj []\<rparr>"

definition sample_end :: graph_node where
  "sample_end = (sample_start [])\<lparr>gn_key := ''end'', gn_type := ''SUMMARY'', gn_target := None\<rparr>"

definition sample_version_host :: version_host where
  "sample_version_host = \<lparr>vh_graph = sample_graph_host, vh_catalog = \<lparr>ct_categories = [\<lparr>cg_id = ''c'', cg_code = ''GENERAL'', cg_name = ''General'', cg_enabled = True\<rparr>], ct_tools = [], ct_templates = [], ct_roles = []\<rparr>,
     vh_uuid = (\<lambda>n. replicate n (CHR ''u'')), vh_collate = (\<lambda>_ _. True), vh_date = (\<lambda>_. None), vh_active_runs = (\<lambda>_. 0),
     vh_pending = (\<lambda>_. 0), vh_schedules = (\<lambda>_. 0)\<rparr>"

definition sample_store :: store where
  "sample_store = \<lparr>st_definitions = [sample_definition ''u'' ''first'', sample_definition ''uu'' ''second''],
     st_versions = [sample_version ''uuu'' ''u'' 1 ''PUBLISHED'', sample_version ''uuuu'' ''uu'' 1 ''PUBLISHED'',
       sample_version ''uuuuu'' ''uu'' 2 ''DRAFT''],
     st_nodes = [\<lparr>sn_id = ''uuuuuu'', sn_version = ''uuu'', sn_ref = JStr ''uu'', sn_node = sample_start ''second''\<rparr>],
     st_edges = [], st_next = 7\<rparr>"

definition sample_requester :: requester where
  "sample_requester = \<lparr>rq_user = JNull, rq_permissions = JArr [JObj [(''permissionCode'', JStr ''WORKFLOW_CREATE'')]], rq_now = 5\<rparr>"

lemma sample_uuid: "inj (vh_uuid sample_version_host)"
  by (auto simp: sample_version_host_def intro!: injI)

lemma sample_known: "known sample_version_host n (replicate k (CHR ''u'')) = (k < n)"
  by (auto simp: known_def sample_version_host_def)

lemma sample_parts:
  "distinct (definition_ids sample_store)" "distinct (map wd_code (st_definitions sample_store))"
  "distinct (version_ids sample_store)" "distinct (map numbered (st_versions sample_store))"
  "st_next sample_store = 7" "definition_ids sample_store = [''u'', ''uu'']" "version_ids sample_store = [''uuu'', ''uuuu'', ''uuuuu'']"
  "children sample_store ''first'' = [''second'']" "children sample_store ''second'' = []"
  by code_simp+

lemma sample_children: "child sample_store a b \<Longrightarrow> a = ''first'' \<and> b = ''second''"
proof -
  assume "child sample_store a b"
  then have b: "b \<in> set (children sample_store a)" by (simp add: child_def)
  then have "live sample_store a \<noteq> None" by (cases "live sample_store a") (simp_all add: children_def)
  then have "a \<in> {''first'', ''second''}" using live_known by (fastforce simp: sample_store_def sample_definition_def)
  then show ?thesis using b sample_parts(8,9) by auto
qed

lemma sample_no_cycles: "no_cycles sample_store"
proof -
  have "a = ''first'' \<and> b = ''second''" if "(child sample_store)\<^sup>+\<^sup>+ a b" for a b
    using that by (induction rule: tranclp_induct) (auto dest: sample_children)
  then show ?thesis unfolding no_cycles_def by fastforce
qed

lemma sample_store_ok: "store_ok sample_version_host sample_store"
proof -
  have k: "known sample_version_host 7 ''u''" "known sample_version_host 7 ''uu''" "known sample_version_host 7 ''uuu''"
    "known sample_version_host 7 ''uuuu''" "known sample_version_host 7 ''uuuuu''" "known sample_version_host 7 ''uuuuuu''"
    using sample_known [of 7 1] sample_known [of 7 2] sample_known [of 7 3] sample_known [of 7 4] sample_known [of 7 5] sample_known [of 7 6]
    by (simp_all add: numeral_eq_Suc)
  have "one_published sample_store"
    by (auto simp: one_published_def published_at_def sample_store_def sample_version_def)
  moreover have "definitions_ok sample_version_host sample_store"
    using sample_parts k by (simp add: definitions_ok_def)
  moreover have "versions_ok sample_version_host sample_store"
    using sample_parts k by (simp add: versions_ok_def) (simp add: version_ok_def sample_parts k sample_store_def sample_version_def definition_ids_def sample_definition_def)
  moreover have "nodes_ok sample_version_host sample_store"
    using k by (simp add: nodes_ok_def sample_parts) (simp add: sample_store_def)
  moreover have "edges_ok sample_store" by (simp add: edges_ok_def sample_store_def)
  ultimately show ?thesis by (simp add: store_ok_def)
qed

lemma sample_second:
  "getWorkflowDefinitionByCode sample_store (JStr ''second'') = Inr (sample_definition ''uu'' ''second'')"
  "live sample_store ''second'' = Some (sample_definition ''uu'' ''second'')"
  by code_simp+

abbreviation saved_sample :: "graph_node list \<Rightarrow> unit res \<times> store" where
  "saved_sample ns \<equiv> commit_save sample_version_host sample_requester (JObj []) (sample_definition ''uu'' ''second'')
     (sample_version ''uuuuu'' ''uu'' 2 ''DRAFT'') ns sample_store"

lemma sample_saved: "fst (saved_sample [sample_end]) = Inr ()" "fst (saved_sample [sample_start ''first'']) \<noteq> Inr ()"
  by code_simp+


text \<open>The same graph in a version that is published at once: the two workflows then start each other.\<close>

theorem publishing_skips_the_cycle_check_witness:
  "cycle_path (retire_published ''uu'' 5 sample_store) [''first''] ''second'' = None
     \<and> (case commit_version sample_version_host sample_requester (JObj []) (sample_definition ''uu'' ''second'') [sample_start ''first'']
          sample_store of (r, T) \<Rightarrow> r = Inr () \<and> child T ''first'' ''second'' \<and> child T ''second'' ''first'')"
proof (rule conjI)
  have "sample_definition ''uu'' ''second'' \<in> set (st_definitions sample_store)" by (simp add: sample_store_def)
  from publishing_skips_the_cycle_check [OF _ this, of sample_version_host 5 "[''first'']"] sample_store_ok
  show "cycle_path (retire_published ''uu'' 5 sample_store) [''first''] ''second'' = None"
    by (simp add: store_ok_def sample_definition_def)
qed code_simp

abbreviation first_request :: request where
  "first_request \<equiv> Create_workflow (JObj [(''displayName'', JStr ''First''), (''nodes'', JArr [sample_summary])])"

lemma sample_created:
  "length (st_versions (snd (serve sample_version_host sample_requester first_request empty_store empty_store))) = 1"
  by code_simp

theorem versions_stay_sound_witness:
  "\<exists>S. length (st_versions S) = 1 \<and> one_published S \<and> list_all (joins (st_nodes S)) (st_edges S)"
proof -
  have "commits sample_version_host [empty_store]" by (rule commits.start)
  then have "commits sample_version_host
      (snd (serve sample_version_host sample_requester first_request empty_store empty_store) # [empty_store])"
    by (rule commits.commit) simp
  from versions_stay_sound [OF sample_uuid this] sample_created show ?thesis by blast
qed

end
